(* ===== verification/Eip_Prelude.thy ===== *)
theory Eip_Prelude
  imports Complex_Main "HOL-Library.Char_ord" "HOL-Library.List_Lexorder"
begin

text \<open>
  Shared vocabulary of the development: the exceptions the Python code raises, the result
  type of fallible operations, the few string, number and time operations of the standard
  library the sources use, and the list and option lemmas the component theories share.

  A Python \<open>str\<close> is modelled by \<^typ>\<open>string\<close>: a character is a code point below 256, so
  \<open>len\<close>, slicing, comparison, \<open>strip\<close> and \<open>lower\<close> are exact on that range.
  Digests, keyed digests, timestamp parsing and formatting, JSON parsing and the binary
  floating-point operations (with \<open>float_round\<close>, the double nearest to a decimal literal) are
  arguments of the model, collected in the record
  \<open>py_std\<close>: every theorem holds for every choice of them unless it names what it needs.
\<close>

named_theorems res_iffs \<open>when a fallible computation returns or raises\<close>
named_theorems run_simps \<open>one step of a state-passing computation\<close>

section \<open>Exceptions and results\<close>

datatype exn =
    LifecycleContractError string
  | VersionConflict string
  | AuditConflict string
  | AuditExportFailure string
  | ControlPlaneConfigurationError string
  | RemediationWorkflowsDisabled string
  | RemediationConfigurationError string
  | DependencyUnavailable string string
  | KubernetesPayloadError string
  | ValueError string
  | KeyError string
  | TypeError string
  | PermissionError string
  | RuntimeError string
  | OtherError string string

type_synonym 'a res = "exn + 'a"

text \<open>\<open>type(exc).__name__\<close> and \<open>str(exc)\<close>; \<open>str(KeyError(m))\<close> quotes its message.\<close>

fun exn_name :: "exn \<Rightarrow> string" where
  "exn_name (LifecycleContractError m) = ''LifecycleContractError''"
| "exn_name (VersionConflict m) = ''VersionConflict''"
| "exn_name (AuditConflict m) = ''AuditConflict''"
| "exn_name (AuditExportFailure m) = ''AuditExportFailure''"
| "exn_name (ControlPlaneConfigurationError m) = ''ControlPlaneConfigurationError''"
| "exn_name (RemediationWorkflowsDisabled m) = ''RemediationWorkflowsDisabled''"
| "exn_name (RemediationConfigurationError m) = ''RemediationConfigurationError''"
| "exn_name (DependencyUnavailable d r) = ''DependencyUnavailable''"
| "exn_name (KubernetesPayloadError m) = ''KubernetesPayloadError''"
| "exn_name (ValueError m) = ''ValueError''"
| "exn_name (KeyError m) = ''KeyError''"
| "exn_name (TypeError m) = ''TypeError''"
| "exn_name (PermissionError m) = ''PermissionError''"
| "exn_name (RuntimeError m) = ''RuntimeError''"
| "exn_name (OtherError n m) = n"

fun exn_str :: "exn \<Rightarrow> string" where
  "exn_str (LifecycleContractError m) = m"
| "exn_str (VersionConflict m) = m"
| "exn_str (AuditConflict m) = m"
| "exn_str (AuditExportFailure m) = m"
| "exn_str (ControlPlaneConfigurationError m) = m"
| "exn_str (RemediationWorkflowsDisabled m) = m"
| "exn_str (RemediationConfigurationError m) = m"
| "exn_str (DependencyUnavailable d r) = d @ '' is unavailable: '' @ r"
| "exn_str (KubernetesPayloadError m) = m"
| "exn_str (ValueError m) = m"
| "exn_str (KeyError m) = [CHR 0x27] @ m @ [CHR 0x27]"
| "exn_str (TypeError m) = m"
| "exn_str (PermissionError m) = m"
| "exn_str (RuntimeError m) = m"
| "exn_str (OtherError n m) = m"

text \<open>Sequencing of fallible steps: the first exception ends the computation.\<close>

definition rbind :: "'e + 'a \<Rightarrow> ('a \<Rightarrow> 'e + 'b) \<Rightarrow> 'e + 'b" where
  "rbind m f = (case m of Inl e \<Rightarrow> Inl e | Inr x \<Rightarrow> f x)"

lemma rbind_simps [simp]:
  "rbind (Inl e) f = Inl e"
  "rbind (Inr x) f = f x"
  by (simp_all add: rbind_def)

lemma rbind_eq_Inr [res_iffs]: "rbind m f = Inr y \<longleftrightarrow> (\<exists>x. m = Inr x \<and> f x = Inr y)"
  by (cases m) auto

lemma rbind_eq_Inl [res_iffs]: "rbind m f = Inl e \<longleftrightarrow> m = Inl e \<or> (\<exists>x. m = Inr x \<and> f x = Inl e)"
  by (cases m) auto

lemma Inr_eq_if [simp]:
  "(if c then Inl e else k) = Inr y \<longleftrightarrow> \<not> c \<and> k = Inr y"
  by simp

section \<open>State passing\<close>

text \<open>
  Sequencing of steps that act on a world: an exception ends the computation and keeps the
  world as it is then. A step that only computes, or raises, is lifted.
\<close>

definition wbind :: "('w \<Rightarrow> 'a res \<times> 'w) \<Rightarrow> ('a \<Rightarrow> 'w \<Rightarrow> 'b res \<times> 'w) \<Rightarrow> 'w \<Rightarrow> 'b res \<times> 'w" where
  "wbind m f w = (case m w of (Inl e, w') \<Rightarrow> (Inl e, w') | (Inr x, w') \<Rightarrow> f x w')"

definition lift_res :: "'b res \<Rightarrow> 's \<Rightarrow> 'b res \<times> 's" where
  "lift_res r s = (r, s)"

lemma wbind_Inr:
  assumes "wbind m f w = (Inr y, w')"
  obtains x w1 where "m w = (Inr x, w1)" "f x w1 = (Inr y, w')"
  using assms by (auto simp: wbind_def split: prod.splits sum.splits)

lemma lift_res_bind [run_simps]: "wbind (lift_res r) f w = (case r of Inl e \<Rightarrow> (Inl e, w) | Inr x \<Rightarrow> f x w)"
  by (simp add: wbind_def lift_res_def split: sum.splits)

section \<open>Strings\<close>

definition py_space :: "char \<Rightarrow> bool" where
  "py_space c = ((of_char c :: nat) \<in> {9, 10, 11, 12, 13, 28, 29, 30, 31, 32, 133, 160})"

definition py_strip :: "string \<Rightarrow> string" where
  "py_strip s = rev (dropWhile py_space (rev (dropWhile py_space s)))"

definition lower_char :: "char \<Rightarrow> char" where
  "lower_char c = (let n = (of_char c :: nat) in
     if (65 \<le> n \<and> n \<le> 90) \<or> (192 \<le> n \<and> n \<le> 222 \<and> n \<noteq> 215) then char_of (n + 32) else c)"

definition py_lower :: "string \<Rightarrow> string" where
  "py_lower = map lower_char"

text \<open>
  \<open>upper\<close> maps three characters of the range outside it or to two characters (code points
  181, 223 and 255); they are left alone here, which no comparison of the sources sees.
\<close>

definition upper_char :: "char \<Rightarrow> char" where
  "upper_char c = (let n = (of_char c :: nat) in
     if (97 \<le> n \<and> n \<le> 122) \<or> (224 \<le> n \<and> n \<le> 254 \<and> n \<noteq> 247) then char_of (n - 32) else c)"

definition py_upper :: "string \<Rightarrow> string" where
  "py_upper = map upper_char"

text \<open>The operators \<open>pat in text\<close>, \<open>startswith\<close>, \<open>endswith\<close> and \<open>sep.join\<close>.\<close>

definition py_startswith :: "string \<Rightarrow> string \<Rightarrow> bool" where
  "py_startswith p s = (take (length p) s = p)"

definition py_endswith :: "string \<Rightarrow> string \<Rightarrow> bool" where
  "py_endswith p s = py_startswith (rev p) (rev s)"

fun py_contains :: "string \<Rightarrow> string \<Rightarrow> bool" where
  "py_contains p [] = (p = [])"
| "py_contains p (c # cs) = (py_startswith p (c # cs) \<or> py_contains p cs)"

fun py_join :: "string \<Rightarrow> string list \<Rightarrow> string" where
  "py_join sep [] = []"
| "py_join sep [x] = x"
| "py_join sep (x # y # xs) = x @ sep @ py_join sep (y # xs)"

definition is_digit :: "char \<Rightarrow> bool" where
  "is_digit c = (c \<in> set ''0123456789'')"

definition is_alnum :: "char \<Rightarrow> bool" where
  "is_alnum c = (let n = (of_char c :: nat) in
     (48 \<le> n \<and> n \<le> 57) \<or> (65 \<le> n \<and> n \<le> 90) \<or> (97 \<le> n \<and> n \<le> 122))"

text \<open>
  The identifier patterns of the sources have the shape
  \<^verbatim>\<open>^[A-Za-z0-9][A-Za-z0-9<extra>]{0,n}$\<close> and are used with \<open>fullmatch\<close>.
\<close>

definition bounded_identifier :: "string \<Rightarrow> nat \<Rightarrow> string \<Rightarrow> bool" where
  "bounded_identifier extra n s =
     (case s of [] \<Rightarrow> False
      | c # cs \<Rightarrow> is_alnum c \<and> list_all (\<lambda>d. is_alnum d \<or> d \<in> set extra) cs \<and> length cs \<le> n)"

lemma bounded_identifier_nonempty: "bounded_identifier extra n s \<Longrightarrow> s \<noteq> []"
  by (auto simp: bounded_identifier_def)

lemma bounded_identifier_append:
  assumes "bounded_identifier extra n s"
    and "list_all (\<lambda>d. is_alnum d \<or> d \<in> set extra') t"
    and "set extra \<subseteq> set extra'" and "length s + length t \<le> Suc m"
  shows "bounded_identifier extra' m (s @ t)"
  using assms by (cases s) (auto simp: bounded_identifier_def list_all_iff)

lemma bounded_identifier_mono:
  "bounded_identifier extra n s \<Longrightarrow> set extra \<subseteq> set extra' \<Longrightarrow> n \<le> m \<Longrightarrow>
     bounded_identifier extra' m s"
  by (cases s) (auto simp: bounded_identifier_def list_all_iff)

section \<open>Decimal numerals\<close>

definition digit_char :: "nat \<Rightarrow> char" where
  "digit_char n = ''0123456789'' ! n"

fun str_nat :: "nat \<Rightarrow> string" where
  "str_nat n = (if n < 10 then [digit_char n] else str_nat (n div 10) @ [digit_char (n mod 10)])"

declare str_nat.simps [simp del]

definition str_int :: "int \<Rightarrow> string" where
  "str_int i = (if i < 0 then CHR ''-'' # str_nat (nat (- i)) else str_nat (nat i))"

definition str_bool :: "bool \<Rightarrow> string" where
  "str_bool b = (if b then ''True'' else ''False'')"

text \<open>Reading a numeral back, which makes printing injective.\<close>

definition digits_val :: "string \<Rightarrow> nat" where
  "digits_val s = foldl (\<lambda>a c. 10 * a + (of_char c - 48)) 0 s"

lemma digit_char_val: "n < 10 \<Longrightarrow> (of_char (digit_char n) :: nat) = 48 + n"
proof -
  assume "n < 10"
  then have "n \<in> {0,1,2,3,4,5,6,7,8,9}" by auto
  then show ?thesis by (auto simp: digit_char_def)
qed

lemma is_digit_digit_char: "n < 10 \<Longrightarrow> is_digit (digit_char n)"
  unfolding is_digit_def digit_char_def by (rule nth_mem) simp

lemma str_nat_nonempty [simp]: "str_nat n \<noteq> []"
  by (subst str_nat.simps) simp

lemma str_nat_digits: "list_all is_digit (str_nat n)"
proof (induction n rule: str_nat.induct)
  case (1 n)
  then show ?case
    by (cases "n < 10") (simp_all add: str_nat.simps [of n] is_digit_digit_char)
qed

lemma digits_val_snoc: "digits_val (s @ [c]) = 10 * digits_val s + (of_char c - 48)"
  by (simp add: digits_val_def)

lemma digits_val_str_nat [simp]: "digits_val (str_nat n) = n"
proof (induction n rule: str_nat.induct)
  case (1 n)
  show ?case
  proof (cases "n < 10")
    case True
    then show ?thesis
      by (simp add: str_nat.simps [of n] digit_char_val digits_val_def)
  next
    case False
    with 1 have "digits_val (str_nat (n div 10)) = n div 10" by simp
    with False show ?thesis
      by (simp add: str_nat.simps [of n] digits_val_snoc digit_char_val)
  qed
qed

lemma str_nat_inject [simp]: "str_nat m = str_nat n \<longleftrightarrow> m = n"
  using digits_val_str_nat by metis

lemma minus_not_digit [simp]: "\<not> is_digit (CHR ''-'')"
  by (simp add: is_digit_def)

lemma str_nat_no_minus [simp]:
  "str_nat n \<noteq> CHR ''-'' # s" "CHR ''-'' # s \<noteq> str_nat n"
  by (metis list.pred_inject(2) minus_not_digit str_nat_digits)+

lemma str_int_inject [simp]: "str_int i = str_int j \<longleftrightarrow> i = j"
  by (auto simp: str_int_def)

lemma str_int_nonempty [simp]: "str_int i \<noteq> []"
  by (simp add: str_int_def)

lemma str_int_chars: "list_all (\<lambda>c. is_digit c \<or> c = CHR ''-'') (str_int i)"
  using str_nat_digits by (auto simp: str_int_def list_all_iff)

section \<open>Floating-point values and instants\<close>

text \<open>
  A finite float is the rational it denotes; the comparisons are Python's, so every
  comparison with a NaN is false.
\<close>

datatype pyfloat = Finite rat | NaN | PosInf | NegInf

fun float_le :: "pyfloat \<Rightarrow> pyfloat \<Rightarrow> bool" where
  "float_le (Finite a) (Finite b) = (a \<le> b)"
| "float_le NaN y = False"
| "float_le x NaN = False"
| "float_le NegInf y = True"
| "float_le x PosInf = True"
| "float_le x y = False"

text \<open>
  A \<open>datetime\<close>: wall-clock microseconds and, when it is aware, its offset from UTC. An
  \<open>instant\<close> is a point in UTC time.
\<close>

type_synonym instant = int

record py_datetime =
  wall_us :: int
  utc_offset_us :: "int option"

definition as_instant :: "py_datetime \<Rightarrow> instant" where
  "as_instant d = wall_us d - (case utc_offset_us d of None \<Rightarrow> 0 | Some off \<Rightarrow> off)"

record py_std =
  sha256_hex :: "string \<Rightarrow> string"
  hmac_sha256_hex :: "string \<Rightarrow> string \<Rightarrow> string"
  fromisoformat :: "string \<Rightarrow> py_datetime option"
  isoformat :: "instant \<Rightarrow> string"
  datetime_isoformat :: "py_datetime \<Rightarrow> string"
  float_round :: "rat \<Rightarrow> rat"
  repr_float :: "rat \<Rightarrow> string"
  float_add :: "rat \<Rightarrow> rat \<Rightarrow> rat"
  float_mul :: "rat \<Rightarrow> rat \<Rightarrow> rat"

text \<open>Documented behaviour some theorems rely on, each as a named hypothesis.\<close>

definition isoformat_parses :: "py_std \<Rightarrow> bool" where
  "isoformat_parses std \<longleftrightarrow>
     (\<forall>t. \<exists>d. fromisoformat std (isoformat std t) = Some d \<and> utc_offset_us d = Some 0
        \<and> wall_us d = t)"

definition sha256_hex_shape :: "py_std \<Rightarrow> bool" where
  "sha256_hex_shape std \<longleftrightarrow>
     (\<forall>s. length (sha256_hex std s) = 64 \<and> set (sha256_hex std s) \<subseteq> set ''0123456789abcdef'')"

text \<open>
  Two given texts with the same digest: what a broken binding would exhibit. Every digest of fixed
  length has colliding texts somewhere, so the theorems name the two texts they hash.
\<close>

definition sha256_collides :: "py_std \<Rightarrow> string \<Rightarrow> string \<Rightarrow> bool" where
  "sha256_collides std x y \<longleftrightarrow> x \<noteq> y \<and> sha256_hex std x = sha256_hex std y"

lemma sha256_equal_or_collides:
  "sha256_hex std x = sha256_hex std y \<Longrightarrow> x = y \<or> sha256_collides std x y"
  by (auto simp: sha256_collides_def)

section \<open>Environment mappings and dictionaries\<close>

type_synonym environ = "string \<rightharpoonup> string"

definition env_get :: "environ \<Rightarrow> string \<Rightarrow> string \<Rightarrow> string" where
  "env_get env k d = (case env k of None \<Rightarrow> d | Some v \<Rightarrow> v)"

text \<open>
  A dictionary whose iteration order matters is an association list in insertion order:
  assignment replaces in place or appends, \<open>del\<close> removes the entry.
\<close>

fun dict_set :: "'k \<Rightarrow> 'v \<Rightarrow> ('k \<times> 'v) list \<Rightarrow> ('k \<times> 'v) list" where
  "dict_set k v [] = [(k, v)]"
| "dict_set k v ((k', v') # d) = (if k' = k then (k, v) # d else (k', v') # dict_set k v d)"

definition dict_del :: "'k \<Rightarrow> ('k \<times> 'v) list \<Rightarrow> ('k \<times> 'v) list" where
  "dict_del k d = filter (\<lambda>(k', v). k' \<noteq> k) d"

lemma map_of_dict_set [simp]: "map_of (dict_set k v d) = (map_of d)(k \<mapsto> v)"
  by (induction k v d rule: dict_set.induct) (auto simp: fun_eq_iff)

lemma keys_dict_set: "fst ` set (dict_set k v d) = insert k (fst ` set d)"
  by (induction k v d rule: dict_set.induct) auto

lemma distinct_dict_set:
  "distinct (map fst d) \<Longrightarrow> distinct (map fst (dict_set k v d))"
proof (induction k v d rule: dict_set.induct)
  case (2 k v k' v' d)
  then show ?case using keys_dict_set [of k v d] by auto
qed simp

lemma dict_set_fresh: "k \<notin> fst ` set d \<Longrightarrow> dict_set k v d = d @ [(k, v)]"
  by (induction k v d rule: dict_set.induct) auto

lemma dict_del_append [simp]: "dict_del k (d @ e) = dict_del k d @ dict_del k e"
  by (simp add: dict_del_def)

lemma dict_del_absent: "k \<notin> fst ` set d \<Longrightarrow> dict_del k d = d"
  by (induction d) (auto simp: dict_del_def)

lemma set_dict_del: "set (dict_del k d) = {(k', v) \<in> set d. k' \<noteq> k}"
  by (auto simp: dict_del_def)

section \<open>Lists and options\<close>

lemma find_SomeD:
  "find P xs = Some x \<Longrightarrow> x \<in> set xs \<and> P x"
  by (induction xs) (auto split: if_splits)

lemma find_append:
  "find P (xs @ ys) = (case find P xs of None \<Rightarrow> find P ys | Some x \<Rightarrow> Some x)"
  by (induction xs) auto

lemma find_None_append_single:
  "find P xs = None \<Longrightarrow> find P (xs @ [x]) = (if P x then Some x else None)"
  by (simp add: find_append)

text \<open>The text before the last separator determines both halves of a joined string.\<close>

lemma append_sep_unique:
  assumes "a @ c # s = b @ c # t" and "c \<notin> set s" and "c \<notin> set t"
  shows "a = b \<and> s = t"
proof -
  have "takeWhile (\<lambda>x. x \<noteq> c) (rev (a @ c # s)) = rev s"
    using assms(2) by (simp add: takeWhile_append)
  moreover have "takeWhile (\<lambda>x. x \<noteq> c) (rev (b @ c # t)) = rev t"
    using assms(3) by (simp add: takeWhile_append)
  ultimately have "s = t" using assms(1) by simp
  with assms(1) show ?thesis by simp
qed

end
