(* ===== verification/Canonical_Json.thy ===== *)
theory Canonical_Json
  imports Eip_Prelude
begin

text \<open>
  JSON values and the canonical rendering the sources hash:
  \<^verbatim>\<open>json.dumps(value, sort_keys=True, separators=(",", ":"))\<close>. Object keys are sorted first
  (\<open>json_norm\<close>), then the value is rendered with ASCII escapes (\<open>json_render\<close>). The
  main result is that the rendering is injective up to key order, so that two values with
  the same canonical text are the same value.
\<close>

datatype json =
    JNull
  | JBool bool
  | JInt int
  | JFloat rat
  | JStr string
  | JList "json list"
  | JObj "(string \<times> json) list"

section \<open>Rendering\<close>

definition hex_char :: "nat \<Rightarrow> char" where
  "hex_char n = ''0123456789abcdef'' ! n"

definition json_escape_char :: "char \<Rightarrow> string" where
  "json_escape_char c = (let n = (of_char c :: nat) in
     if n = 34 then [CHR 0x5C, CHR 0x22]
     else if n = 92 then [CHR 0x5C, CHR 0x5C]
     else if n = 10 then [CHR 0x5C, CHR ''n'']
     else if n = 13 then [CHR 0x5C, CHR ''r'']
     else if n = 9 then [CHR 0x5C, CHR ''t'']
     else if n = 8 then [CHR 0x5C, CHR ''b'']
     else if n = 12 then [CHR 0x5C, CHR ''f'']
     else if 32 \<le> n \<and> n \<le> 126 then [c]
     else [CHR 0x5C, CHR ''u'', CHR ''0'', CHR ''0'', hex_char (n div 16), hex_char (n mod 16)])"

definition json_quote :: "string \<Rightarrow> string" where
  "json_quote s = [CHR 0x22] @ concat (map json_escape_char s) @ [CHR 0x22]"

fun json_render :: "py_std \<Rightarrow> json \<Rightarrow> string" where
  "json_render std JNull = ''null''"
| "json_render std (JBool b) = (if b then ''true'' else ''false'')"
| "json_render std (JInt i) = str_int i"
| "json_render std (JFloat r) = repr_float std r"
| "json_render std (JStr s) = json_quote s"
| "json_render std (JList xs) = ''['' @ py_join '','' (map (json_render std) xs) @ '']''"
| "json_render std (JObj kvs) =
     ''{'' @ py_join '','' (map (\<lambda>(k, v). json_quote k @ '':'' @ json_render std v) kvs) @ ''}''"

fun json_norm :: "json \<Rightarrow> json" where
  "json_norm (JList xs) = JList (map json_norm xs)"
| "json_norm (JObj kvs) = JObj (sort_key fst (map (\<lambda>(k, v). (k, json_norm v)) kvs))"
| "json_norm j = j"

definition json_dumps :: "py_std \<Rightarrow> json \<Rightarrow> string" where
  "json_dumps std j = json_render std (json_norm j)"

text \<open>Dictionary access on a JSON object, \<open>payload.get(field)\<close>.\<close>

fun json_get :: "json \<Rightarrow> string \<Rightarrow> json option" where
  "json_get (JObj kvs) k = map_of kvs k"
| "json_get j k = None"

section \<open>The rendering is injective\<close>

text \<open>
  What the argument needs of \<open>repr(float)\<close>: distinct floats print differently, and the text
  is a run of number characters, beginning like a number, that is not an integer numeral.
\<close>

definition num_char :: "char \<Rightarrow> bool" where
  "num_char c = (c \<in> set ''0123456789-+.e'')"

definition num_start :: "char \<Rightarrow> bool" where
  "num_start c = (is_digit c \<or> c = CHR ''-'')"

definition float_repr_ok :: "py_std \<Rightarrow> bool" where
  "float_repr_ok std \<longleftrightarrow> inj (repr_float std) \<and>
     (\<forall>r. repr_float std r \<noteq> [] \<and> list_all num_char (repr_float std r) \<and>
        \<not> list_all num_start (repr_float std r) \<and> num_start (hd (repr_float std r)))"

text \<open>Text that may follow a value: nothing, or a character no number contains.\<close>

definition delimited :: "string \<Rightarrow> bool" where
  "delimited s = (case s of [] \<Rightarrow> True | c # _ \<Rightarrow> \<not> num_char c)"

lemma delimited_simps [simp]:
  "delimited []" "delimited (c # s) \<longleftrightarrow> \<not> num_char c"
  by (simp_all add: delimited_def)

lemma num_start_num_char: "num_start c \<Longrightarrow> num_char c"
  by (auto simp: num_start_def num_char_def is_digit_def)

lemma num_char_simps [simp]:
  "\<not> num_char (CHR '','')" "\<not> num_char (CHR '']'')" "\<not> num_char (CHR ''}'')"
  "\<not> num_start (CHR ''n'')" "\<not> num_start (CHR ''t'')" "\<not> num_start (CHR ''f'')"
  "\<not> num_start (CHR 0x22)" "\<not> num_start (CHR ''['')" "\<not> num_start (CHR ''{'')"
  by (simp_all add: num_char_def num_start_def is_digit_def)

lemma num_token_unique:
  assumes "x @ r = y @ s" "list_all num_char x" "list_all num_char y" "delimited r" "delimited s"
  shows "x = y \<and> r = s"
proof -
  have *: "takeWhile num_char (z @ t) = z" if "list_all num_char z" "delimited t" for z t
    using that by (cases t) (auto simp: list_all_iff takeWhile_append)
  have "x = y" using assms * [of x r] * [of y s] by simp
  with assms(1) show ?thesis by simp
qed

lemma str_int_num: "list_all num_char (str_int i)" "list_all num_start (str_int i)"
  using str_int_chars [of i] num_start_num_char
  by (auto simp: list_all_iff num_start_def)

subsection \<open>Quoted strings\<close>

definition hex_val :: "char \<Rightarrow> nat" where
  "hex_val c = (let n = of_char c in if 97 \<le> n then n - 87 else n - 48)"

fun json_unescape :: "string \<Rightarrow> (char \<times> string) option" where
  "json_unescape [] = None"
| "json_unescape (c # s) =
     (if c \<noteq> CHR 0x5C then Some (c, s)
      else case s of [] \<Rightarrow> None
        | d # t \<Rightarrow>
           if d = CHR ''n'' then Some (CHR 0x0A, t)
           else if d = CHR ''r'' then Some (CHR 0x0D, t)
           else if d = CHR ''t'' then Some (CHR 0x09, t)
           else if d = CHR ''b'' then Some (CHR 0x08, t)
           else if d = CHR ''f'' then Some (CHR 0x0C, t)
           else if d = CHR ''u''
             then Some (char_of (16 * hex_val (t ! 2) + hex_val (t ! 3)), drop 4 t)
           else Some (d, t))"

lemma hex_val_hex_char: "n < 16 \<Longrightarrow> hex_val (hex_char n) = n"
proof -
  assume "n < 16"
  then have "n \<in> {0, 1, 2, 3, 4, 5, 6, 7, 8, 9, 10, 11, 12, 13, 14, 15}"
    unfolding insert_iff empty_iff by arith
  then show ?thesis by (auto simp: hex_val_def hex_char_def)
qed

lemma char_eq_of_char: "c = d \<longleftrightarrow> (of_char c :: nat) = of_char d"
  by simp

lemma json_unescape_escape: "json_unescape (json_escape_char c @ t) = Some (c, t)"
proof -
  let ?n = "of_char c :: nat"
  have bound: "?n < 256" by simp
  have hex: "char_of (16 * hex_val (hex_char (?n div 16)) + hex_val (hex_char (?n mod 16))) = c"
  proof -
    from bound have "?n div 16 < 16" by arith
    then show ?thesis by (simp add: hex_val_hex_char)
  qed
  show ?thesis
    unfolding json_escape_char_def Let_def
    by (simp add: hex) (simp add: char_eq_of_char del: of_char_eq_iff)
qed

lemma json_escape_unique:
  "json_escape_char c @ x = json_escape_char d @ y \<Longrightarrow> c = d \<and> x = y"
  by (metis json_unescape_escape option.inject prod.inject)

lemma json_escape_head: "\<exists>a s. json_escape_char c = a # s \<and> a \<noteq> CHR 0x22"
proof (cases "(of_char c :: nat) = 34")
  case False
  then have "c \<noteq> CHR 0x22" by auto
  then show ?thesis by (auto simp: json_escape_char_def Let_def)
qed (simp add: json_escape_char_def)

lemma json_quote_unique:
  "json_quote a @ r = json_quote b @ s \<Longrightarrow> a = b \<and> r = s"
proof (induction a arbitrary: b)
  case Nil
  then show ?case
    using json_escape_head by (cases b) (auto simp: json_quote_def, metis append_Cons list.inject)
next
  case (Cons c a)
  show ?case
  proof (cases b)
    case Nil
    with Cons.prems json_escape_head [of c] show ?thesis by (auto simp: json_quote_def)
  next
    case (Cons d b')
    from Cons.prems Cons
    have "json_escape_char c @ concat (map json_escape_char a) @ [CHR 0x22] @ r =
          json_escape_char d @ concat (map json_escape_char b') @ [CHR 0x22] @ s"
      by (simp add: json_quote_def)
    then have "c = d"
      and "json_quote a @ r = json_quote b' @ s"
      by (auto dest!: json_escape_unique simp: json_quote_def)
    with Cons Cons.IH show ?thesis by auto
  qed
qed

subsection \<open>Values\<close>

text \<open>The first character of a rendering tells its constructor class.\<close>

lemma json_render_head:
  assumes "float_repr_ok std"
  shows "\<exists>c s. json_render std j = c # s \<and>
    (case j of JNull \<Rightarrow> c = CHR ''n'' | JBool b \<Rightarrow> c = (if b then CHR ''t'' else CHR ''f'')
     | JInt i \<Rightarrow> num_start c | JFloat r \<Rightarrow> num_start c | JStr t \<Rightarrow> c = CHR 0x22
     | JList xs \<Rightarrow> c = CHR ''['' | JObj kvs \<Rightarrow> c = CHR ''{'')"
proof (cases j)
  case (JInt i)
  obtain c s where "str_int i = c # s" by (cases "str_int i") auto
  with JInt str_int_num(2) [of i] show ?thesis by auto
next
  case (JFloat r)
  from assms have "repr_float std r \<noteq> []" "num_start (hd (repr_float std r))"
    by (auto simp: float_repr_ok_def)
  with JFloat show ?thesis by (cases "repr_float std r") auto
qed (auto simp: json_quote_def)

lemma join_unique:
  assumes elem: "\<And>x y r s. x \<in> set xs \<Longrightarrow> f x @ r = f y @ s \<Longrightarrow> delimited r \<Longrightarrow> delimited s \<Longrightarrow>
      x = y \<and> r = s"
    and start: "\<And>x. \<exists>c t. f x = c # t \<and> c \<noteq> close"
    and close: "\<not> num_char close" "close \<noteq> CHR '',''"
  shows "py_join '','' (map f xs) @ close # r = py_join '','' (map f ys) @ close # s \<Longrightarrow>
      xs = ys \<and> r = s"
  using elem
proof (induction xs arbitrary: ys)
  case Nil
  show ?case
  proof (cases ys)
    case Nil
    with Nil.prems(1) show ?thesis by simp
  next
    case (Cons y zs)
    obtain c t where "f y = c # t" "c \<noteq> close" using start by blast
    with Nil.prems(1) Cons show ?thesis by (cases zs) auto
  qed
next
  case (Cons x xs)
  obtain t where head: "py_join '','' (map f (x # xs)) @ close # r = f x @ t" and "delimited t"
    and t: "t = (if xs = [] then close # r else '','' @ py_join '','' (map f xs) @ close # r)"
    using close by (cases xs) auto
  show ?case
  proof (cases ys)
    case Nil
    with Cons.prems(1) head start [of x] show ?thesis by auto
  next
    case (Cons y zs)
    obtain u where head': "py_join '','' (map f (y # zs)) @ close # s = f y @ u" and "delimited u"
      and u: "u = (if zs = [] then close # s else '','' @ py_join '','' (map f zs) @ close # s)"
      using close by (cases zs) auto
    have "x = y" "t = u"
      using Cons.prems(2) [of x t y u] Cons.prems(1) Cons head head' \<open>delimited t\<close> \<open>delimited u\<close>
      by simp_all
    from \<open>t = u\<close> have "xs = zs \<and> r = s"
    proof (cases "xs = []")
      case True
      then show ?thesis using t u \<open>t = u\<close> close by (auto split: if_splits)
    next
      case False
      then have "zs \<noteq> []" and
        "py_join '','' (map f xs) @ close # r = py_join '','' (map f zs) @ close # s"
        using t u \<open>t = u\<close> close by (auto split: if_splits)
      then show ?thesis using Cons.IH [of zs] Cons.prems(2) by auto
    qed
    with \<open>x = y\<close> Cons show ?thesis by simp
  qed
qed

theorem json_render_unique:
  assumes ok: "float_repr_ok std"
  shows "json_render std j @ r = json_render std k @ s \<Longrightarrow> delimited r \<Longrightarrow> delimited s \<Longrightarrow>
     j = k \<and> r = s"
proof (induction j arbitrary: k r s)
  case JNull
  then show ?case using json_render_head [OF ok, of k] by (cases k) (auto split: if_splits)
next
  case (JBool b)
  then show ?case using json_render_head [OF ok, of k] by (cases k) (auto split: if_splits)
next
  case (JInt i)
  from JInt.prems(1) json_render_head [OF ok, of k] json_render_head [OF ok, of "JInt i"]
  have "(\<exists>i'. k = JInt i') \<or> (\<exists>f. k = JFloat f)" by (cases k) (auto split: if_splits)
  then show ?case
  proof
    assume "\<exists>i'. k = JInt i'"
    then obtain i' where k: "k = JInt i'" by blast
    with JInt.prems(1) have "str_int i @ r = str_int i' @ s" by simp
    from num_token_unique [OF this str_int_num(1) str_int_num(1) JInt.prems(2,3)] k show ?thesis by simp
  next
    assume "\<exists>f. k = JFloat f"
    then obtain f where "k = JFloat f" by blast
    with JInt.prems ok have "str_int i = repr_float std f"
      using num_token_unique [OF _ str_int_num(1), of i r "repr_float std f" s]
      by (auto simp: float_repr_ok_def)
    with ok str_int_num(2) [of i] show ?thesis by (metis float_repr_ok_def)
  qed
next
  case (JFloat f)
  from JFloat.prems(1) json_render_head [OF ok, of k] json_render_head [OF ok, of "JFloat f"]
  have "(\<exists>i'. k = JInt i') \<or> (\<exists>f. k = JFloat f)" by (cases k) (auto split: if_splits)
  moreover have all: "list_all num_char (repr_float std g)" for g
    using ok by (simp add: float_repr_ok_def)
  moreover have "k = JFloat f \<and> r = s" if "k = JFloat g" for g
  proof -
    from that JFloat.prems have "repr_float std f = repr_float std g \<and> r = s"
      by (intro num_token_unique [OF _ all all]) simp_all
    with that ok show ?thesis by (auto simp: float_repr_ok_def dest: injD)
  qed
  moreover have False if "k = JInt i" for i
  proof -
    from that JFloat.prems have "repr_float std f = str_int i"
      using num_token_unique [OF _ all str_int_num(1)] by (metis json_render.simps(3,4))
    with ok str_int_num(2) [of i] show False by (metis float_repr_ok_def)
  qed
  ultimately show ?case by blast
next
  case (JStr t)
  from JStr.prems(1) json_render_head [OF ok, of k] obtain u where "k = JStr u"
    by (cases k) (auto simp: json_quote_def split: if_splits)
  with JStr.prems(1) show ?case using json_quote_unique [of t r u s] by simp
next
  case (JList xs)
  from JList.prems(1) json_render_head [OF ok, of k] obtain ys where k: "k = JList ys"
    by (cases k) (auto split: if_splits)
  have "xs = ys \<and> r = s"
  proof (rule join_unique [where close = "CHR '']''" and f = "json_render std"])
    show "\<exists>c t. json_render std x = c # t \<and> c \<noteq> CHR '']''" for x
      using json_render_head [OF ok, of x]
      by (cases x) (auto simp: num_start_def is_digit_def split: if_splits)
    show "py_join '','' (map (json_render std) xs) @ CHR '']'' # r =
          py_join '','' (map (json_render std) ys) @ CHR '']'' # s"
      using JList.prems(1) k by simp
  qed (use JList.IH in auto)
  with k show ?case by simp
next
  case (JObj kvs)
  from JObj.prems(1) json_render_head [OF ok, of k] obtain ys where k: "k = JObj ys"
    by (cases k) (auto split: if_splits)
  let ?f = "\<lambda>(n, v). json_quote n @ '':'' @ json_render std v"
  have "kvs = ys \<and> r = s"
  proof (rule join_unique [where close = "CHR ''}''" and f = ?f])
    show "\<exists>c t. ?f x = c # t \<and> c \<noteq> CHR ''}''" for x
      by (cases x) (simp add: json_quote_def)
    show "py_join '','' (map ?f kvs) @ CHR ''}'' # r = py_join '','' (map ?f ys) @ CHR ''}'' # s"
      using JObj.prems(1) k by simp
    fix x y p q
    assume x: "x \<in> set kvs" and eq: "?f x @ p = ?f y @ q" and "delimited p" "delimited q"
    obtain n v m w where xy: "x = (n, v)" "y = (m, w)" by (cases x, cases y) auto
    with eq have "json_quote n @ ('':'' @ json_render std v @ p) =
        json_quote m @ ('':'' @ json_render std w @ q)" by simp
    then have "n = m" and "json_render std v @ p = json_render std w @ q"
      using json_quote_unique [of n _ m] by fastforce+
    with JObj.IH [OF x, of v] xy \<open>delimited p\<close> \<open>delimited q\<close> show "x = y \<and> p = q" by auto
  qed simp_all
  with k show ?case by simp
qed

text \<open>Equal canonical texts come from values that are equal up to the order of object keys.\<close>

lemma json_dumps_unique:
  "float_repr_ok std \<Longrightarrow> json_dumps std j = json_dumps std k \<Longrightarrow> json_norm j = json_norm k"
  using json_render_unique [of std "json_norm j" "[]" "json_norm k" "[]"]
  by (simp add: json_dumps_def)

text \<open>Key order is immaterial for access by key.\<close>

lemma map_of_sort_key:
  assumes "distinct (map fst kvs)"
  shows "map_of (sort_key fst kvs) = map_of kvs"
proof -
  have "distinct (map fst (sort_key fst kvs))"
    using assms by (simp add: distinct_map)
  with assms show ?thesis by (simp add: map_of_inject_set)
qed

lemma json_norm_fields:
  assumes "json_norm (JObj a) = json_norm (JObj b)"
    and "distinct (map fst a)" and "distinct (map fst b)"
  shows "map_option json_norm (map_of a k) = map_option json_norm (map_of b k)"
proof -
  have *: "map_of (sort_key fst (map (\<lambda>(k, v). (k, json_norm v)) c)) k = map_option json_norm (map_of c k)"
    if "distinct (map fst c)" for c
  proof -
    have "map fst (map (\<lambda>(k, v). (k, json_norm v)) c) = map fst c" by auto
    with that have "distinct (map fst (map (\<lambda>(k, v). (k, json_norm v)) c))" by (simp only:)
    then show ?thesis by (simp add: map_of_sort_key map_of_map del: map_map)
  qed
  from assms show ?thesis using * [of a] * [of b] by simp
qed

section \<open>A concrete standard library\<close>

text \<open>
  An executable choice of the library operations, under which the witnesses of the component
  theories are evaluated. Its digests are 64 hexadecimal digits that depend on the length of
  the text; it satisfies the named hypotheses of the prelude.
\<close>

definition fixture_digest :: "string \<Rightarrow> string" where
  "fixture_digest s = replicate 62 (CHR ''0'') @
     [''0123456789abcdef'' ! (length s div 16 mod 16), ''0123456789abcdef'' ! (length s mod 16)]"

definition read_int :: "string \<Rightarrow> int" where
  "read_int s = (if take 1 s = ''-'' then - int (digits_val (drop 1 s)) else int (digits_val s))"

definition fixture_std :: py_std where
  "fixture_std =
     \<lparr>sha256_hex = fixture_digest,
      hmac_sha256_hex = (\<lambda>k m. fixture_digest (k @ m)),
      fromisoformat = (\<lambda>s. if s = [] then None else Some \<lparr>wall_us = read_int s, utc_offset_us = Some 0\<rparr>),
      isoformat = str_int,
      datetime_isoformat = (\<lambda>d. str_int (as_instant d)),
      float_round = (\<lambda>r. r),
      repr_float = (\<lambda>r. case quotient_of r of (a, b) \<Rightarrow> str_int a @ CHR ''.'' # str_int b),
      float_add = (+),
      float_mul = (*)\<rparr>"

lemma read_str_int [simp]: "read_int (str_int i) = i"
proof (cases "i < 0")
  case False
  have "take 1 (str_nat (nat i)) \<noteq> ''-''"
    by (cases "str_nat (nat i)") auto
  with False show ?thesis by (simp add: read_int_def str_int_def)
qed (simp add: read_int_def str_int_def)

lemma fixture_isoformat: "isoformat_parses fixture_std"
  by (simp add: isoformat_parses_def fixture_std_def)

lemma hex_digit_nth: "n < 16 \<Longrightarrow> ''0123456789abcdef'' ! n \<in> set ''0123456789abcdef''"
  by (rule nth_mem) simp

lemma fixture_digest_hex:
  "length (fixture_digest s) = 64 \<and> set (fixture_digest s) \<subseteq> set ''0123456789abcdef''"
proof -
  have "set (fixture_digest s) = {CHR ''0'', ''0123456789abcdef'' ! (length s div 16 mod 16),
      ''0123456789abcdef'' ! (length s mod 16)}"
    unfolding fixture_digest_def by (simp only: set_append set_replicate_conv_if) auto
  moreover have "CHR ''0'' \<in> set ''0123456789abcdef''" by simp
  moreover have "length s div 16 mod 16 < 16" "length s mod 16 < 16" by simp_all
  ultimately have "set (fixture_digest s) \<subseteq> set ''0123456789abcdef''"
    using hex_digit_nth by (metis empty_subsetI insert_subset)
  moreover have "length (fixture_digest s) = 64" by (simp add: fixture_digest_def)
  ultimately show ?thesis by (rule conjI [rotated])
qed

lemma fixture_digest_shape: "sha256_hex_shape fixture_std"
  unfolding sha256_hex_shape_def fixture_std_def py_std.simps using fixture_digest_hex by (rule allI)

lemma fixture_float_repr: "float_repr_ok fixture_std"
proof -
  have dot: "CHR ''.'' \<notin> set (str_int i)" for i
  proof
    assume "CHR ''.'' \<in> set (str_int i)"
    with str_int_chars [of i] have "is_digit (CHR ''.'')" by (auto simp only: list_all_iff)
    then show False by (simp add: is_digit_def)
  qed
  have "inj (repr_float fixture_std)"
  proof (rule injI)
    fix x y
    assume eq: "repr_float fixture_std x = repr_float fixture_std y"
    obtain a b c d where q: "quotient_of x = (a, b)" "quotient_of y = (c, d)" by fastforce
    with eq have "str_int a @ CHR ''.'' # str_int b = str_int c @ CHR ''.'' # str_int d"
      by (simp add: fixture_std_def)
    from append_sep_unique [OF this dot dot] have "a = c" "b = d" by auto
    with q show "x = y" by (metis quotient_of_inject)
  qed
  moreover have "repr_float fixture_std r \<noteq> [] \<and> list_all num_char (repr_float fixture_std r) \<and>
      \<not> list_all num_start (repr_float fixture_std r) \<and> num_start (hd (repr_float fixture_std r))" for r
  proof -
    obtain a b where "quotient_of r = (a, b)" by fastforce
    then have r: "repr_float fixture_std r = str_int a @ CHR ''.'' # str_int b"
      by (simp add: fixture_std_def)
    have "hd (str_int a) \<in> set (str_int a)" by simp
    with str_int_chars [of a] have "num_start (hd (str_int a))"
      by (auto simp: list_all_iff num_start_def)
    with r str_int_num(1) [of a] str_int_num(1) [of b] show ?thesis
      by (simp add: num_char_def num_start_def is_digit_def)
  qed
  ultimately show ?thesis by (simp add: float_repr_ok_def)
qed

text \<open>The same library with a digest that never collides: the text itself.\<close>

definition plain_std :: py_std where
  "plain_std = fixture_std\<lparr>sha256_hex := (\<lambda>s. s), hmac_sha256_hex := (\<lambda>k m. m)\<rparr>"

lemma plain_collides [simp]: "\<not> sha256_collides plain_std x y"
  by (simp add: sha256_collides_def plain_std_def)

lemma plain_float_repr: "float_repr_ok plain_std"
  using fixture_float_repr by (simp add: float_repr_ok_def plain_std_def)

end
