(* ===== verification/Runbook_Catalog.thy ===== *)
theory Runbook_Catalog
  imports Eip_Prelude
begin

text \<open>
  The runbook catalogue of \<open>src/remediation/catalog.py\<close>: autonomy levels, runbooks, registration
  with its guards, lookup, and the ten runbooks of the default catalogue. The lemmas show that
  every catalogue built by registration has distinct ids and only reversible, conditioned
  runbooks at the automated levels, and that the default catalogue is one of them.
\<close>

section \<open>Autonomy levels and runbooks\<close>

datatype autonomy_level = OBSERVE | RECOMMEND | HUMAN_EXECUTE | APPROVE_AND_EXECUTE | BOUNDED_AUTONOMOUS

fun level_value :: "autonomy_level \<Rightarrow> int" where
  "level_value OBSERVE = 0"
| "level_value RECOMMEND = 1"
| "level_value HUMAN_EXECUTE = 2"
| "level_value APPROVE_AND_EXECUTE = 3"
| "level_value BOUNDED_AUTONOMOUS = 4"

text \<open>An \<open>IntEnum\<close> compares by value.\<close>

instantiation autonomy_level :: linorder
begin

definition less_eq_autonomy_level :: "autonomy_level \<Rightarrow> autonomy_level \<Rightarrow> bool" where
  "less_eq_autonomy_level a b = (level_value a \<le> level_value b)"

definition less_autonomy_level :: "autonomy_level \<Rightarrow> autonomy_level \<Rightarrow> bool" where
  "less_autonomy_level a b = (level_value a < level_value b)"

instance
proof
  fix x y :: autonomy_level
  assume "x \<le> y" "y \<le> x"
  then show "x = y" by (cases x; cases y) (simp_all add: less_eq_autonomy_level_def)
qed (auto simp: less_eq_autonomy_level_def less_autonomy_level_def)

end

lemmas level_order = less_eq_autonomy_level_def less_autonomy_level_def

record runbook =
  rb_id :: string
  rb_description :: string
  rb_environments :: "string list"
  rb_max_blast_radius :: int
  rb_reversible :: bool
  rb_required_level :: autonomy_level
  rb_verify_signal :: string
  rb_rollback_id :: "string option"
  rb_failure_class :: string
  rb_preconditions :: "string list"
  rb_postconditions :: "string list"
  rb_idempotency_scope :: string

type_synonym runbook_catalog = "(string \<times> runbook) list"

definition register :: "runbook \<Rightarrow> runbook_catalog \<Rightarrow> runbook_catalog res" where
  "register r items =
     (if map_of items (rb_id r) \<noteq> None
      then Inl (ValueError (''duplicate runbook: '' @ rb_id r))
      else if rb_required_level r \<ge> APPROVE_AND_EXECUTE \<and> \<not> rb_reversible r
      then Inl (ValueError ''automated production runbooks must be reversible'')
      else if rb_required_level r \<ge> APPROVE_AND_EXECUTE \<and> rb_preconditions r = []
      then Inl (ValueError ''automated production runbooks must declare preconditions'')
      else if rb_required_level r \<ge> APPROVE_AND_EXECUTE \<and> rb_postconditions r = []
      then Inl (ValueError ''automated production runbooks must declare postconditions'')
      else Inr (dict_set (rb_id r) r items))"

definition catalog_get :: "runbook_catalog \<Rightarrow> string \<Rightarrow> runbook res" where
  "catalog_get items k =
     (case map_of items k of
        None \<Rightarrow> Inl (KeyError (''unknown runbook: '' @ k))
      | Some r \<Rightarrow> Inr r)"

definition catalog_ids :: "runbook_catalog \<Rightarrow> string list" where
  "catalog_ids items = sort (map fst items)"

section \<open>The default catalogue\<close>

definition default_runbooks :: "runbook list" where
  "default_runbooks =
    [\<lparr>rb_id = ''aks.rollout.undo'',
      rb_description = ''Undo the current Kubernetes deployment rollout'',
      rb_environments = [''dev'', ''stage'', ''prod''], rb_max_blast_radius = 10,
      rb_reversible = True, rb_required_level = APPROVE_AND_EXECUTE,
      rb_verify_signal = ''deployment.available_replicas'',
      rb_rollback_id = Some ''aks.rollout.redo'', rb_failure_class = ''deployment-regression'',
      rb_preconditions = [''deployment.exists'', ''rollout.history_available'', ''deployment.degraded''],
      rb_postconditions = [''deployment.available_replicas''], rb_idempotency_scope = ''durable-workflow''\<rparr>,
     \<lparr>rb_id = ''aks.rollback.readiness'',
      rb_description = ''Rollback a deployment when readiness regressed after a release'',
      rb_environments = [''stage'', ''prod''], rb_max_blast_radius = 5,
      rb_reversible = True, rb_required_level = APPROVE_AND_EXECUTE,
      rb_verify_signal = ''deployment.ready_replicas'',
      rb_rollback_id = Some ''aks.rollout.redo'', rb_failure_class = ''readiness-regression'',
      rb_preconditions = [''deployment.exists'', ''rollout.history_available'', ''deployment.degraded''],
      rb_postconditions = [''deployment.ready_replicas''], rb_idempotency_scope = ''durable-workflow''\<rparr>,
     \<lparr>rb_id = ''aks.restart.workload'',
      rb_description = ''Restart a bounded Kubernetes deployment'',
      rb_environments = [''dev'', ''stage'', ''prod''], rb_max_blast_radius = 5,
      rb_reversible = True, rb_required_level = APPROVE_AND_EXECUTE,
      rb_verify_signal = ''deployment.ready_replicas'',
      rb_rollback_id = None, rb_failure_class = ''bounded-workload-recovery'',
      rb_preconditions = [''deployment.exists'', ''deployment.degraded''],
      rb_postconditions = [''deployment.ready_replicas''], rb_idempotency_scope = ''durable-workflow''\<rparr>,
     \<lparr>rb_id = ''aks.restart.crashloop'',
      rb_description = ''Restart a bounded deployment after CrashLoopBackOff evidence'',
      rb_environments = [''stage'', ''prod''], rb_max_blast_radius = 3,
      rb_reversible = True, rb_required_level = APPROVE_AND_EXECUTE,
      rb_verify_signal = ''deployment.ready_replicas'',
      rb_rollback_id = None, rb_failure_class = ''crashloop'',
      rb_preconditions = [''deployment.exists'', ''pods.crashloop_present''],
      rb_postconditions = [''deployment.ready_replicas'', ''pods.crashloop_absent''],
      rb_idempotency_scope = ''durable-workflow''\<rparr>,
     \<lparr>rb_id = ''aks.restart.oom'',
      rb_description = ''Restart a bounded deployment after OOMKilled evidence while preserving resource policy'',
      rb_environments = [''stage'', ''prod''], rb_max_blast_radius = 3,
      rb_reversible = True, rb_required_level = APPROVE_AND_EXECUTE,
      rb_verify_signal = ''deployment.ready_replicas'',
      rb_rollback_id = None, rb_failure_class = ''oomkilled'',
      rb_preconditions = [''deployment.exists'', ''pods.oomkilled_present''],
      rb_postconditions = [''deployment.ready_replicas''], rb_idempotency_scope = ''durable-workflow''\<rparr>,
     \<lparr>rb_id = ''aks.scale.memory'',
      rb_description = ''Apply a pre-approved memory limit profile'',
      rb_environments = [''dev'', ''stage''], rb_max_blast_radius = 5,
      rb_reversible = True, rb_required_level = BOUNDED_AUTONOMOUS,
      rb_verify_signal = ''container.oom_count'',
      rb_rollback_id = Some ''aks.scale.memory.rollback'', rb_failure_class = ''memory-pressure'',
      rb_preconditions = [''deployment.exists'', ''pods.oomkilled_present'', ''memory.profile_preapproved''],
      rb_postconditions = [''container.oom_count''], rb_idempotency_scope = ''durable-workflow''\<rparr>,
     \<lparr>rb_id = ''k8s.etcd.defrag_and_alarm_clear'',
      rb_description = ''Defragment etcd bbolt storage and clear alarms after quota compaction'',
      rb_environments = [''stage'', ''prod''], rb_max_blast_radius = 1,
      rb_reversible = True, rb_required_level = APPROVE_AND_EXECUTE,
      rb_verify_signal = ''etcd.alarm_absent'',
      rb_rollback_id = Some ''k8s.etcd.restore_snapshot'', rb_failure_class = ''etcd-quorum-pressure'',
      rb_preconditions = [''etcd.member_healthy'', ''etcd.alarm_present''],
      rb_postconditions = [''etcd.alarm_absent''], rb_idempotency_scope = ''durable-workflow''\<rparr>,
     \<lparr>rb_id = ''k8s.webhook.bypass_deadlock'',
      rb_description = ''Emergency bypass for failing-closed admission webhooks deadlocking cluster scheduling'',
      rb_environments = [''dev'', ''stage'', ''prod''], rb_max_blast_radius = 5,
      rb_reversible = True, rb_required_level = APPROVE_AND_EXECUTE,
      rb_verify_signal = ''apiserver.admission_healthy'',
      rb_rollback_id = Some ''k8s.webhook.restore'', rb_failure_class = ''webhook-deadlock'',
      rb_preconditions = [''webhook.failing_closed'', ''webhook.endpoint_unreachable''],
      rb_postconditions = [''apiserver.admission_healthy''], rb_idempotency_scope = ''durable-workflow''\<rparr>,
     \<lparr>rb_id = ''k8s.coredns.autopath_scale'',
      rb_description = ''Mitigate CoreDNS query storms by enabling autopath and scaling replicas'',
      rb_environments = [''dev'', ''stage'', ''prod''], rb_max_blast_radius = 10,
      rb_reversible = True, rb_required_level = APPROVE_AND_EXECUTE,
      rb_verify_signal = ''dns.query_latency_normal'',
      rb_rollback_id = Some ''k8s.coredns.rollback'', rb_failure_class = ''dns-amplification-storm'',
      rb_preconditions = [''dns.query_drop_rate_high'', ''coredns.cpu_saturated''],
      rb_postconditions = [''dns.query_latency_normal''], rb_idempotency_scope = ''durable-workflow''\<rparr>,
     \<lparr>rb_id = ''k8s.node.drain_with_pdb_eviction'',
      rb_description = ''Safely evict workload pods during node maintenance under strict PodDisruptionBudgets'',
      rb_environments = [''stage'', ''prod''], rb_max_blast_radius = 5,
      rb_reversible = True, rb_required_level = APPROVE_AND_EXECUTE,
      rb_verify_signal = ''node.unschedulable_and_empty'',
      rb_rollback_id = Some ''k8s.node.uncordon'', rb_failure_class = ''node-maintenance-eviction'',
      rb_preconditions = [''node.ready'', ''pdb.budget_available''],
      rb_postconditions = [''node.unschedulable_and_empty''], rb_idempotency_scope = ''durable-workflow''\<rparr>]"

fun register_all :: "runbook list \<Rightarrow> runbook_catalog \<Rightarrow> runbook_catalog res" where
  "register_all [] items = Inr items"
| "register_all (r # rs) items = rbind (register r items) (register_all rs)"

definition default_catalog :: "runbook_catalog res" where
  "default_catalog = register_all default_runbooks []"

section \<open>Catalogues are well formed\<close>

definition runbook_ok :: "runbook \<Rightarrow> bool" where
  "runbook_ok r \<longleftrightarrow> rb_required_level r < APPROVE_AND_EXECUTE \<or>
     (rb_reversible r \<and> rb_preconditions r \<noteq> [] \<and> rb_postconditions r \<noteq> [])"

definition catalog_wf :: "runbook_catalog \<Rightarrow> bool" where
  "catalog_wf items \<longleftrightarrow> distinct (map fst items) \<and> (\<forall>(k, r) \<in> set items. rb_id r = k \<and> runbook_ok r)"

lemma register_Inr:
  "register r items = Inr items' \<longleftrightarrow>
     map_of items (rb_id r) = None \<and> runbook_ok r \<and> items' = items @ [(rb_id r, r)]"
proof -
  have "dict_set (rb_id r) r items = items @ [(rb_id r, r)]" if "map_of items (rb_id r) = None"
    using that by (intro dict_set_fresh) (auto simp: map_of_eq_None_iff)
  then show ?thesis
    by (auto simp: register_def runbook_ok_def not_less)
qed

lemma register_wf: "catalog_wf items \<Longrightarrow> register r items = Inr items' \<Longrightarrow> catalog_wf items'"
  by (auto simp: register_Inr catalog_wf_def map_of_eq_None_iff image_iff)

lemma register_all_wf: "catalog_wf items \<Longrightarrow> register_all rs items = Inr items' \<Longrightarrow> catalog_wf items'"
  by (induction rs arbitrary: items) (auto simp: rbind_eq_Inr dest: register_wf)

lemma catalog_wf_empty: "catalog_wf []"
  by (simp add: catalog_wf_def)

lemma catalog_get_Inr:
  "catalog_wf items \<Longrightarrow> catalog_get items k = Inr r \<Longrightarrow> rb_id r = k \<and> runbook_ok r \<and> (k, r) \<in> set items"
  by (auto simp: catalog_get_def catalog_wf_def split: option.splits dest!: map_of_SomeD)

lemma register_all_fresh:
  assumes "distinct (map rb_id rs)" "\<forall>r \<in> set rs. runbook_ok r \<and> rb_id r \<notin> fst ` set items"
  shows "register_all rs items = Inr (items @ map (\<lambda>r. (rb_id r, r)) rs)"
  using assms
proof (induction rs arbitrary: items)
  case (Cons r rs)
  from Cons.prems have "register r items = Inr (items @ [(rb_id r, r)])"
    by (auto simp: register_Inr map_of_eq_None_iff)
  moreover have "register_all rs (items @ [(rb_id r, r)]) =
      Inr ((items @ [(rb_id r, r)]) @ map (\<lambda>r. (rb_id r, r)) rs)"
  proof (rule Cons.IH)
    have "rb_id q \<noteq> rb_id r" if "q \<in> set rs" for q
      using Cons.prems(1) that by (metis distinct.simps(2) image_eqI list.set_map list.simps(9))
    with Cons.prems(2) show "\<forall>q \<in> set rs. runbook_ok q \<and> rb_id q \<notin> fst ` set (items @ [(rb_id r, r)])"
      by simp
  qed (use Cons.prems(1) in simp)
  ultimately show ?case by simp
qed simp

lemma default_runbooks_ids:
  "map rb_id default_runbooks =
    [''aks.rollout.undo'', ''aks.rollback.readiness'', ''aks.restart.workload'', ''aks.restart.crashloop'',
     ''aks.restart.oom'', ''aks.scale.memory'', ''k8s.etcd.defrag_and_alarm_clear'',
     ''k8s.webhook.bypass_deadlock'', ''k8s.coredns.autopath_scale'', ''k8s.node.drain_with_pdb_eviction'']"
  by (simp add: default_runbooks_def)

lemma default_catalog_eq:
  "default_catalog = Inr (map (\<lambda>r. (rb_id r, r)) default_runbooks)"
proof -
  have "distinct (map rb_id default_runbooks)" by (simp add: default_runbooks_ids)
  moreover have "\<forall>r \<in> set default_runbooks. runbook_ok r"
    by (simp add: default_runbooks_def runbook_ok_def)
  ultimately show ?thesis
    unfolding default_catalog_def by (subst register_all_fresh) simp_all
qed

text \<open>The default catalogue can be built (none of its registrations is refused), its ids are
  distinct, every one of them is found by \<open>get\<close>, and each entry is reversible with declared
  preconditions and postconditions, bounded by a positive blast radius of at most ten.\<close>

theorem default_catalog_sound:
  "\<exists>items. default_catalog = Inr items \<and> catalog_wf items \<and> length items = 10 \<and>
     (\<forall>k. k \<in> set (catalog_ids items) \<longleftrightarrow> \<not> isl (catalog_get items k)) \<and>
     list_all (\<lambda>(k, r). rb_reversible r \<and> rb_preconditions r \<noteq> [] \<and> rb_postconditions r \<noteq> [] \<and>
        0 < rb_max_blast_radius r \<and> rb_max_blast_radius r \<le> 10) items"
proof -
  let ?items = "map (\<lambda>r. (rb_id r, r)) default_runbooks"
  have "catalog_wf ?items"
    using register_all_wf [OF catalog_wf_empty] default_catalog_eq by (simp add: default_catalog_def)
  moreover have "length ?items = 10" by (simp add: default_runbooks_def)
  moreover have "k \<in> set (catalog_ids items) \<longleftrightarrow> \<not> isl (catalog_get items k)" for k items
  proof (cases "map_of items k")
    case None
    then have "k \<notin> fst ` set items" by (simp add: map_of_eq_None_iff)
    with None show ?thesis by (simp add: catalog_ids_def catalog_get_def)
  next
    case (Some r)
    then show ?thesis by (force simp: catalog_ids_def catalog_get_def dest: map_of_SomeD)
  qed
  moreover have "list_all (\<lambda>(k, r). rb_reversible r \<and> rb_preconditions r \<noteq> [] \<and> rb_postconditions r \<noteq> [] \<and>
        0 < rb_max_blast_radius r \<and> rb_max_blast_radius r \<le> 10) ?items"
    by (simp add: default_runbooks_def)
  ultimately show ?thesis using default_catalog_eq by blast
qed

text \<open>Registration is the only way in, and it keeps every catalogue well formed: after any
  sequence of registrations, ids are distinct and a runbook that may run without a human
  executing it (level 3 or 4) is reversible and declares its preconditions and postconditions.
  A registration that would break this is refused and reported.\<close>

theorem register_keeps_catalog_wf:
  assumes "catalog_wf items"
  shows "case register r items of
       Inr items' \<Rightarrow> catalog_wf items' \<and> catalog_get items' (rb_id r) = Inr r
     | Inl x \<Rightarrow> (\<exists>m. x = ValueError m) \<and> (map_of items (rb_id r) \<noteq> None \<or> \<not> runbook_ok r)"
proof (cases "register r items")
  case (Inl x)
  then have "\<exists>m. x = ValueError m" by (auto simp: register_def split: if_splits)
  moreover have "map_of items (rb_id r) \<noteq> None \<or> \<not> runbook_ok r"
    using Inl register_Inr [of r items "items @ [(rb_id r, r)]"] by auto
  ultimately show ?thesis using Inl by simp
next
  case (Inr items')
  then have "items' = items @ [(rb_id r, r)]" "map_of items (rb_id r) = None"
    by (simp_all add: register_Inr)
  then have "catalog_get items' (rb_id r) = Inr r"
    by (simp add: catalog_get_def map_add_def)
  with Inr register_wf [OF assms Inr] show ?thesis by simp
qed

theorem register_keeps_catalog_wf_witness:
  "catalog_wf [] \<and> register (hd default_runbooks) [] = Inr [(''aks.rollout.undo'', hd default_runbooks)] \<and>
   catalog_wf [(''aks.rollout.undo'', hd default_runbooks)]"
proof -
  have "register (hd default_runbooks) [] = Inr [(''aks.rollout.undo'', hd default_runbooks)]"
    by (simp add: register_Inr default_runbooks_def runbook_ok_def)
  with register_keeps_catalog_wf [OF catalog_wf_empty, of "hd default_runbooks"] show ?thesis
    by (simp add: catalog_wf_empty)
qed

end
