(* ===== verification/L4_Scope.thy ===== *)
theory L4_Scope
  imports Canonical_Json Runbook_Catalog
begin

text \<open>
  What an L4 certification is about: \<open>src/resilience/scope.py\<close>. Instants, the certified scope, its
  hash and the hash of the material inputs, over the runbook as JSON data. The lemmas show
  that equal hashes come from equal scopes and from equal material inputs, unless SHA-256
  collides: nothing material can change without the certification ceasing to match.
\<close>

section \<open>Instants\<close>

text \<open>A naive timestamp is read as UTC; unreadable text is \<open>None\<close>.\<close>

definition parse_instant :: "py_std \<Rightarrow> string \<Rightarrow> instant option" where
  "parse_instant std s = map_option as_instant (fromisoformat std s)"

lemma parse_isoformat: "isoformat_parses std \<Longrightarrow> parse_instant std (isoformat std t) = Some t"
  unfolding isoformat_parses_def parse_instant_def as_instant_def by (metis (mono_tags, lifting)
      add.right_neutral diff_zero option.simps(5) option.simps(9))

section \<open>The certified scope\<close>

record certification_scope =
  cs_service :: string
  cs_environment :: string
  cs_runbook_id :: string
  cs_blast_radius_budget :: int

text \<open>\<open>__post_init__\<close>: the checks every construction of a scope goes through.\<close>

fun check_not_blank :: "(string \<times> string) list \<Rightarrow> unit res" where
  "check_not_blank [] = Inr ()"
| "check_not_blank ((field, v) # rest) =
     (if py_strip v = [] then Inl (ValueError (''certification scope '' @ field @ '' must not be blank''))
      else check_not_blank rest)"

definition new_scope :: "string \<Rightarrow> string \<Rightarrow> string \<Rightarrow> int \<Rightarrow> certification_scope res" where
  "new_scope service environment runbook_id budget =
     rbind (check_not_blank [(''service'', service), (''environment'', environment), (''runbook_id'', runbook_id)]) (\<lambda>_.
     if budget \<le> 0
     then Inl (ValueError ''certification scope blast_radius_budget must be a positive bounded budget'')
     else Inr \<lparr>cs_service = service, cs_environment = environment, cs_runbook_id = runbook_id,
            cs_blast_radius_budget = budget\<rparr>)"

definition scope_canonical :: "certification_scope \<Rightarrow> json" where
  "scope_canonical s = JObj
     [(''service'', JStr (cs_service s)),
      (''environment'', JStr (cs_environment s)),
      (''runbook_id'', JStr (cs_runbook_id s)),
      (''blast_radius_budget'', JInt (cs_blast_radius_budget s))]"

definition scope_hash :: "py_std \<Rightarrow> certification_scope \<Rightarrow> string" where
  "scope_hash std s = sha256_hex std (json_dumps std (scope_canonical s))"

definition evidence_scope :: "certification_scope \<Rightarrow> string" where
  "evidence_scope s = cs_service s @ ''/'' @ cs_environment s @ ''/'' @ cs_runbook_id s"

section \<open>Material inputs\<close>

text \<open>\<open>_plain\<close> of the \<open>Runbook\<close> dataclass; an \<open>IntEnum\<close> member prints as its number.\<close>

definition plain_runbook :: "runbook \<Rightarrow> json" where
  "plain_runbook r = JObj
     [(''id'', JStr (rb_id r)),
      (''description'', JStr (rb_description r)),
      (''environments'', JList (map JStr (rb_environments r))),
      (''max_blast_radius'', JInt (rb_max_blast_radius r)),
      (''reversible'', JBool (rb_reversible r)),
      (''required_level'', JInt (level_value (rb_required_level r))),
      (''verify_signal'', JStr (rb_verify_signal r)),
      (''rollback_id'', (case rb_rollback_id r of None \<Rightarrow> JNull | Some i \<Rightarrow> JStr i)),
      (''failure_class'', JStr (rb_failure_class r)),
      (''preconditions'', JList (map JStr (rb_preconditions r))),
      (''postconditions'', JList (map JStr (rb_postconditions r))),
      (''idempotency_scope'', JStr (rb_idempotency_scope r))]"

definition material_payload :: "certification_scope \<Rightarrow> json \<Rightarrow> string \<Rightarrow> string \<Rightarrow> string list \<Rightarrow> json" where
  "material_payload s definition_json bundle_version signal deps = JObj
     [(''scope'', scope_canonical s),
      (''runbook_definition'', definition_json),
      (''policy_bundle_version'', JStr bundle_version),
      (''verification_signal'', JStr signal),
      (''dependencies'', JList (map JStr (sort deps)))]"

definition material_inputs_hash ::
    "py_std \<Rightarrow> certification_scope \<Rightarrow> json \<Rightarrow> string \<Rightarrow> string \<Rightarrow> string list \<Rightarrow> string" where
  "material_inputs_hash std s definition_json bundle_version signal deps =
     sha256_hex std (json_dumps std (material_payload s definition_json bundle_version signal deps))"

section \<open>What the hashes bind\<close>

text \<open>Fields of an object literal are recovered from its normal form.\<close>

lemma obj_field:
  assumes "json_norm (JObj a) = json_norm (JObj b)" "distinct (map fst a)" "map fst b = map fst a"
    and "(k, v) \<in> set a" "(k, w) \<in> set b"
  shows "json_norm v = json_norm w"
proof -
  have "distinct (map fst b)" using assms(2,3) by metis
  with assms have "map_of a k = Some v" "map_of b k = Some w" by (auto intro: map_of_is_SomeI)
  moreover have "map_option json_norm (map_of a k) = map_option json_norm (map_of b k)"
    by (rule json_norm_fields [OF assms(1,2)]) fact
  ultimately show ?thesis by simp
qed

lemma map_json_norm_JStr [simp]: "map (json_norm \<circ> JStr) xs = map JStr xs"
  by (simp add: comp_def)

lemma map_JStr_inject [simp]: "map JStr xs = map JStr ys \<longleftrightarrow> xs = ys"
  by (rule inj_map_eq_map) (simp add: inj_def)

lemma level_value_inject [simp]: "level_value a = level_value b \<longleftrightarrow> a = b"
  by (cases a; cases b) auto

lemma scope_canonical_binds:
  assumes "json_norm (scope_canonical a) = json_norm (scope_canonical b)"
  shows "a = b"
proof -
  note field = obj_field [OF assms [unfolded scope_canonical_def]]
  have "JStr (cs_service a) = JStr (cs_service b)" "JStr (cs_environment a) = JStr (cs_environment b)"
    "JStr (cs_runbook_id a) = JStr (cs_runbook_id b)"
    "JInt (cs_blast_radius_budget a) = JInt (cs_blast_radius_budget b)"
    using field [of "''service''"] field [of "''environment''"] field [of "''runbook_id''"]
      field [of "''blast_radius_budget''"] by simp_all
  then show ?thesis by (cases a; cases b) simp
qed

lemma json_opt_id_inject:
  "json_norm (case x of None \<Rightarrow> JNull | Some i \<Rightarrow> JStr i) = json_norm (case y of None \<Rightarrow> JNull | Some i \<Rightarrow> JStr i)
     \<longleftrightarrow> x = y"
  by (cases x; cases y) auto

lemma plain_runbook_binds:
  assumes "json_norm (plain_runbook a) = json_norm (plain_runbook b)"
  shows "a = b"
proof -
  define fs where "fs = (\<lambda>r. case plain_runbook r of JObj kvs \<Rightarrow> kvs | _ \<Rightarrow> [])"
  have fs: "plain_runbook r = JObj (fs r)" for r by (simp add: fs_def plain_runbook_def)
  have "distinct (map fst (fs r))" for r by (simp add: fs_def plain_runbook_def)
  with assms fs have *: "map_option json_norm (map_of (fs a) k) = map_option json_norm (map_of (fs b) k)" for k
    by (metis json_norm_fields)
  show ?thesis
    using * [of "''id''"] * [of "''description''"] * [of "''environments''"] * [of "''max_blast_radius''"]
      * [of "''reversible''"] * [of "''required_level''"] * [of "''verify_signal''"] * [of "''rollback_id''"]
      * [of "''failure_class''"] * [of "''preconditions''"] * [of "''postconditions''"]
      * [of "''idempotency_scope''"]
    by (cases a; cases b) (simp add: fs_def plain_runbook_def json_opt_id_inject)
qed

lemma scope_hash_binds:
  assumes "float_repr_ok std" "scope_hash std a = scope_hash std b"
  shows "a = b \<or> sha256_collides std (json_dumps std (scope_canonical a)) (json_dumps std (scope_canonical b))"
proof -
  from sha256_equal_or_collides [OF assms(2) [unfolded scope_hash_def]] json_dumps_unique [OF assms(1)]
    scope_canonical_binds show ?thesis by blast
qed

lemma material_payload_binds:
  assumes "json_norm (material_payload s d v g ds) = json_norm (material_payload s' d' v' g' ds')"
  shows "s = s' \<and> json_norm d = json_norm d' \<and> v = v' \<and> g = g' \<and> sort ds = sort ds'"
proof -
  note field = obj_field [OF assms [unfolded material_payload_def]]
  have "json_norm (scope_canonical s) = json_norm (scope_canonical s')" "json_norm d = json_norm d'"
    "json_norm (JStr v) = json_norm (JStr v')" "json_norm (JStr g) = json_norm (JStr g')"
    "json_norm (JList (map JStr (sort ds))) = json_norm (JList (map JStr (sort ds')))"
    using field [of "''scope''" "scope_canonical s" "scope_canonical s'"]
      field [of "''runbook_definition''" d d'] field [of "''policy_bundle_version''" "JStr v" "JStr v'"]
      field [of "''verification_signal''" "JStr g" "JStr g'"]
      field [of "''dependencies''" "JList (map JStr (sort ds))" "JList (map JStr (sort ds'))"]
    by simp_all
  then show ?thesis using scope_canonical_binds by (auto simp del: set_sort)
qed

lemma material_inputs_hash_binds:
  assumes "float_repr_ok std"
    and "material_inputs_hash std s d v g ds = material_inputs_hash std s' d' v' g' ds'"
  shows "(s = s' \<and> json_norm d = json_norm d' \<and> v = v' \<and> g = g' \<and> sort ds = sort ds') \<or>
     sha256_collides std (json_dumps std (material_payload s d v g ds)) (json_dumps std (material_payload s' d' v' g' ds'))"
proof -
  from sha256_equal_or_collides [OF assms(2) [unfolded material_inputs_hash_def]]
  consider "json_dumps std (material_payload s d v g ds) = json_dumps std (material_payload s' d' v' g' ds')"
    | "sha256_collides std (json_dumps std (material_payload s d v g ds)) (json_dumps std (material_payload s' d' v' g' ds'))" by blast
  then show ?thesis
    by cases (use json_dumps_unique [OF assms(1)] material_payload_binds in blast)+
qed

end
