(* ===== verification/Policy_Boundary.thy ===== *)
theory Policy_Boundary
  imports L4_Scope
begin

text \<open>
  The authorization boundary: \<open>src/remediation/policy.py\<close>, \<open>src/remediation/policy_contract.py\<close> and
  \<open>src/remediation/opa_policy.py\<close>. The token-based \<open>authorize\<close>, the autonomy context with its
  \<open>is_l4\<close> and \<open>effective_level\<close>, the L4 certification denial, the local reference evaluator, the
  OPA client (its transport is an argument) and the wire input, and beside them the ordered
  deny chain of the Rego bundle \<open>src/infra/policy/remediation-policy.rego\<close>.

  The lemmas characterise when a request is allowed, show that the local evaluator and the
  Rego chain give the same verdict and reason, and that a caller's level claim cannot avoid
  both certification and human approval.
\<close>

section \<open>Reasons and their contract\<close>

datatype policy_reason =
    AUTHORIZED | KILL_SWITCH | POLICY_LEVEL_MISSING | OUTSIDE_SCOPE | RUNBOOK_ENVIRONMENT
  | BLAST_RADIUS | AUTONOMY_LEVEL | RUNBOOK_CERTIFICATION | HUMAN_APPROVAL | ERROR_BUDGET
  | CERTIFICATION_ABSENT | EVALUATION_TIME_UNREADABLE | CERTIFICATION_EXPIRY_UNREADABLE
  | CERTIFICATION_EXPIRED | SCOPE_MISSING | SCOPE_MISMATCH | INPUTS_HASH_MISSING
  | AUDIT_UNAVAILABLE | VERIFICATION_UNAVAILABLE

fun reason_value :: "policy_reason \<Rightarrow> string" where
  "reason_value AUTHORIZED = ''authorized by OPA remediation policy''"
| "reason_value KILL_SWITCH = ''service kill switch is enabled''"
| "reason_value POLICY_LEVEL_MISSING = ''service autonomy policy carries no reviewed level''"
| "reason_value OUTSIDE_SCOPE = ''request is outside service/environment policy scope''"
| "reason_value RUNBOOK_ENVIRONMENT = ''runbook is not permitted in this environment''"
| "reason_value BLAST_RADIUS = ''blast radius exceeds certified limit''"
| "reason_value AUTONOMY_LEVEL = ''service autonomy level is below runbook requirement''"
| "reason_value RUNBOOK_CERTIFICATION = ''runbook is not certified for this service''"
| "reason_value HUMAN_APPROVAL = ''verified human approval is required''"
| "reason_value ERROR_BUDGET = ''error budget exhausted; autonomous mutation disabled''"
| "reason_value CERTIFICATION_ABSENT = ''l4-certification: no certification record for this L4 scope''"
| "reason_value EVALUATION_TIME_UNREADABLE = ''l4-certification: request carries no readable evaluation time''"
| "reason_value CERTIFICATION_EXPIRY_UNREADABLE =
     ''l4-certification: certification expires_on is not a readable timestamp''"
| "reason_value CERTIFICATION_EXPIRED = ''l4-certification: certification has expired''"
| "reason_value SCOPE_MISSING = ''l4-certification: request carries no scope hash''"
| "reason_value SCOPE_MISMATCH = ''l4-certification: record scope_hash does not match the requested scope''"
| "reason_value INPUTS_HASH_MISSING = ''l4-certification: certification carries no material-inputs hash''"
| "reason_value AUDIT_UNAVAILABLE = ''audit control unavailable''"
| "reason_value VERIFICATION_UNAVAILABLE = ''verification control unavailable''"

datatype rego_deny_branch =
    DENY_KILL_SWITCH | DENY_POLICY_LEVEL_MISSING | DENY_SCOPE_SERVICE | DENY_SCOPE_ENVIRONMENT
  | DENY_RUNBOOK_ENVIRONMENT | DENY_RUNBOOK_BLAST_RADIUS | DENY_SERVICE_BLAST_RADIUS
  | DENY_AUTONOMY_LEVEL | DENY_RUNBOOK_CERTIFICATION | DENY_L3_HUMAN_APPROVAL | DENY_L4_ERROR_BUDGET
  | DENY_L4_CERTIFICATION_ABSENT | DENY_L4_EVALUATION_TIME_UNREADABLE
  | DENY_L4_CERTIFICATION_EXPIRY_UNREADABLE | DENY_L4_CERTIFICATION_EXPIRED | DENY_L4_SCOPE_MISSING
  | DENY_L4_SCOPE_MISMATCH | DENY_L4_INPUTS_HASH_MISSING | DENY_AUDIT_CONTROL | DENY_VERIFICATION_CONTROL

fun branch_value :: "rego_deny_branch \<Rightarrow> string" where
  "branch_value DENY_KILL_SWITCH = ''kill-switch''"
| "branch_value DENY_POLICY_LEVEL_MISSING = ''policy-level-missing''"
| "branch_value DENY_SCOPE_SERVICE = ''scope-service''"
| "branch_value DENY_SCOPE_ENVIRONMENT = ''scope-environment''"
| "branch_value DENY_RUNBOOK_ENVIRONMENT = ''runbook-environment''"
| "branch_value DENY_RUNBOOK_BLAST_RADIUS = ''runbook-blast-radius''"
| "branch_value DENY_SERVICE_BLAST_RADIUS = ''service-blast-radius''"
| "branch_value DENY_AUTONOMY_LEVEL = ''autonomy-level''"
| "branch_value DENY_RUNBOOK_CERTIFICATION = ''runbook-certification''"
| "branch_value DENY_L3_HUMAN_APPROVAL = ''l3-human-approval''"
| "branch_value DENY_L4_ERROR_BUDGET = ''l4-error-budget''"
| "branch_value DENY_L4_CERTIFICATION_ABSENT = ''l4-certification-absent''"
| "branch_value DENY_L4_EVALUATION_TIME_UNREADABLE = ''l4-evaluation-time-unreadable''"
| "branch_value DENY_L4_CERTIFICATION_EXPIRY_UNREADABLE = ''l4-certification-expiry-unreadable''"
| "branch_value DENY_L4_CERTIFICATION_EXPIRED = ''l4-certification-expired''"
| "branch_value DENY_L4_SCOPE_MISSING = ''l4-scope-missing''"
| "branch_value DENY_L4_SCOPE_MISMATCH = ''l4-scope-mismatch''"
| "branch_value DENY_L4_INPUTS_HASH_MISSING = ''l4-inputs-hash-missing''"
| "branch_value DENY_AUDIT_CONTROL = ''audit-control-after-safety-and-certification''"
| "branch_value DENY_VERIFICATION_CONTROL = ''verification-control''"

record branch_requirement_record =
  rq_branch :: rego_deny_branch
  rq_reason :: policy_reason
  rq_case_name :: string
  rq_boundary_only :: bool

definition requirement :: "rego_deny_branch \<Rightarrow> policy_reason \<Rightarrow> string \<Rightarrow> bool \<Rightarrow> branch_requirement_record" where
  "requirement b r c only = \<lparr>rq_branch = b, rq_reason = r, rq_case_name = c, rq_boundary_only = only\<rparr>"

definition rego_deny_branch_requirements :: "branch_requirement_record list" where
  "rego_deny_branch_requirements =
    [requirement DENY_KILL_SWITCH KILL_SWITCH ''kill-switch-precedes-all-other-failures'' False,
     requirement DENY_POLICY_LEVEL_MISSING POLICY_LEVEL_MISSING ''policy-level-missing'' True,
     requirement DENY_SCOPE_SERVICE OUTSIDE_SCOPE ''scope-service'' False,
     requirement DENY_SCOPE_ENVIRONMENT OUTSIDE_SCOPE ''scope-environment'' False,
     requirement DENY_RUNBOOK_ENVIRONMENT RUNBOOK_ENVIRONMENT ''runbook-environment'' False,
     requirement DENY_RUNBOOK_BLAST_RADIUS BLAST_RADIUS ''runbook-blast-radius'' False,
     requirement DENY_SERVICE_BLAST_RADIUS BLAST_RADIUS ''service-blast-radius'' False,
     requirement DENY_AUTONOMY_LEVEL AUTONOMY_LEVEL ''autonomy-level'' False,
     requirement DENY_RUNBOOK_CERTIFICATION RUNBOOK_CERTIFICATION ''runbook-certification'' False,
     requirement DENY_L3_HUMAN_APPROVAL HUMAN_APPROVAL ''l3-human-approval'' False,
     requirement DENY_L4_ERROR_BUDGET ERROR_BUDGET ''l4-error-budget'' False,
     requirement DENY_L4_CERTIFICATION_ABSENT CERTIFICATION_ABSENT ''l4-certification-absent'' False,
     requirement DENY_L4_EVALUATION_TIME_UNREADABLE EVALUATION_TIME_UNREADABLE ''l4-evaluation-time-unreadable'' False,
     requirement DENY_L4_CERTIFICATION_EXPIRY_UNREADABLE CERTIFICATION_EXPIRY_UNREADABLE
       ''l4-certification-expiry-unreadable'' False,
     requirement DENY_L4_CERTIFICATION_EXPIRED CERTIFICATION_EXPIRED ''l4-certification-expired'' False,
     requirement DENY_L4_SCOPE_MISSING SCOPE_MISSING ''l4-scope-missing'' False,
     requirement DENY_L4_SCOPE_MISMATCH SCOPE_MISMATCH ''l4-scope-mismatch'' False,
     requirement DENY_L4_INPUTS_HASH_MISSING INPUTS_HASH_MISSING ''l4-inputs-hash-missing'' False,
     requirement DENY_AUDIT_CONTROL AUDIT_UNAVAILABLE ''audit-control-after-safety-and-certification'' False,
     requirement DENY_VERIFICATION_CONTROL VERIFICATION_UNAVAILABLE ''verification-control'' False]"

definition branch_requirement :: "string \<Rightarrow> branch_requirement_record option" where
  "branch_requirement case_name = find (\<lambda>q. rq_case_name q = case_name) rego_deny_branch_requirements"

section \<open>Requests, policies and the token-based check\<close>

record service_autonomy =
  sa_service :: string
  sa_environment :: string
  sa_level :: autonomy_level
  sa_certified_runbooks :: "string list"
  sa_max_blast_radius :: int
  sa_kill_switch :: bool

record action_request =
  rq_service :: string
  rq_environment :: string
  rq_runbook_id :: string
  rq_blast_radius :: int
  rq_approval_token :: "string option"
  rq_error_budget_remaining :: pyfloat

record policy_decision =
  pd_allowed :: bool
  pd_reason :: string

abbreviation decision :: "bool \<Rightarrow> string \<Rightarrow> policy_decision" where
  "decision a r \<equiv> \<lparr>pd_allowed = a, pd_reason = r\<rparr>"

definition has_text :: "string option \<Rightarrow> bool" where
  "has_text t = (case t of None \<Rightarrow> False | Some s \<Rightarrow> s \<noteq> [])"

definition authorize :: "runbook \<Rightarrow> service_autonomy \<Rightarrow> action_request \<Rightarrow> policy_decision" where
  "authorize rb p q =
    (if sa_kill_switch p then decision False (reason_value KILL_SWITCH)
     else if rq_service q \<noteq> sa_service p \<or> rq_environment q \<noteq> sa_environment p
     then decision False (reason_value OUTSIDE_SCOPE)
     else if rq_environment q \<notin> set (rb_environments rb)
     then decision False (reason_value RUNBOOK_ENVIRONMENT)
     else if rq_blast_radius q > rb_max_blast_radius rb \<or> rq_blast_radius q > sa_max_blast_radius p
     then decision False (reason_value BLAST_RADIUS)
     else if sa_level p < rb_required_level rb
     then decision False (reason_value AUTONOMY_LEVEL)
     else if rb_id rb \<notin> set (sa_certified_runbooks p)
     then decision False (reason_value RUNBOOK_CERTIFICATION)
     else if sa_level p = APPROVE_AND_EXECUTE \<and> \<not> has_text (rq_approval_token q)
     then decision False ''human approval token is required''
     else if sa_level p \<ge> BOUNDED_AUTONOMOUS \<and> float_le (rq_error_budget_remaining q) (Finite 0)
     then decision False (reason_value ERROR_BUDGET)
     else decision True ''authorized by deterministic autonomy policy'')"

section \<open>The autonomy context\<close>

record control_state =
  pc_audit_available :: bool
  pc_verification_defined :: bool

record certification_claim =
  cl_scope_hash :: string
  cl_inputs_hash :: string
  cl_expires_on :: string

text \<open>A declared level is text, or some other value a caller put there.\<close>

datatype level_claim = ClaimText string | ClaimOther json

record autonomy_context =
  ac_autonomy_level :: level_claim
  ac_scope_hash :: string
  ac_now :: string
  ac_certification :: "certification_claim option"
  ac_policy_level :: int

definition SUPERVISED_DOWNGRADE :: string where
  "SUPERVISED_DOWNGRADE = ''L3''"

definition declared_level :: "autonomy_context \<Rightarrow> string" where
  "declared_level c = (case ac_autonomy_level c of ClaimText t \<Rightarrow> py_upper (py_strip t) | ClaimOther _ \<Rightarrow> [])"

definition is_l4 :: "autonomy_context \<Rightarrow> bool" where
  "is_l4 c =
    (if declared_level c = ''L4'' then True
     else if declared_level c = SUPERVISED_DOWNGRADE then False
     else ac_policy_level c \<ge> 4)"

definition effective_level :: "autonomy_context \<Rightarrow> int" where
  "effective_level c =
    (if declared_level c = SUPERVISED_DOWNGRADE \<and> ac_policy_level c \<ge> 4 then 3 else ac_policy_level c)"

definition for_policy :: "py_std \<Rightarrow> instant \<Rightarrow> service_autonomy \<Rightarrow> autonomy_context" where
  "for_policy std clock p =
     \<lparr>ac_autonomy_level = ClaimText (''L'' @ str_int (level_value (sa_level p))), ac_scope_hash = [],
      ac_now = isoformat std clock, ac_certification = None, ac_policy_level = level_value (sa_level p)\<rparr>"

definition certification_denial :: "py_std \<Rightarrow> autonomy_context \<Rightarrow> policy_reason option" where
  "certification_denial std c =
    (if \<not> is_l4 c then None
     else case ac_certification c of
         None \<Rightarrow> Some CERTIFICATION_ABSENT
       | Some claim \<Rightarrow>
           (case parse_instant std (ac_now c) of
              None \<Rightarrow> Some EVALUATION_TIME_UNREADABLE
            | Some now \<Rightarrow>
                (case parse_instant std (cl_expires_on claim) of
                   None \<Rightarrow> Some CERTIFICATION_EXPIRY_UNREADABLE
                 | Some expires \<Rightarrow>
                     if expires \<le> now then Some CERTIFICATION_EXPIRED
                     else if py_strip (ac_scope_hash c) = [] then Some SCOPE_MISSING
                     else if cl_scope_hash claim \<noteq> ac_scope_hash c then Some SCOPE_MISMATCH
                     else if py_strip (cl_inputs_hash claim) = [] then Some INPUTS_HASH_MISSING
                     else None)))"

section \<open>The local reference evaluator\<close>

record evaluated_decision =
  ed_allowed :: bool
  ed_reason :: string
  ed_policy_revision :: string

abbreviation evaluated :: "bool \<Rightarrow> string \<Rightarrow> string \<Rightarrow> evaluated_decision" where
  "evaluated a r v \<equiv> \<lparr>ed_allowed = a, ed_reason = r, ed_policy_revision = v\<rparr>"

definition local_evaluate ::
    "py_std \<Rightarrow> instant \<Rightarrow> runbook \<Rightarrow> service_autonomy \<Rightarrow> action_request \<Rightarrow> bool \<Rightarrow> control_state \<Rightarrow>
       autonomy_context option \<Rightarrow> evaluated_decision" where
  "local_evaluate std clock rb p q approval_verified control autonomy =
    (if sa_kill_switch p then evaluated False (reason_value KILL_SWITCH) ''local-reference''
     else if rq_service q \<noteq> sa_service p \<or> rq_environment q \<noteq> sa_environment p
     then evaluated False (reason_value OUTSIDE_SCOPE) ''local-reference''
     else if rq_environment q \<notin> set (rb_environments rb)
     then evaluated False (reason_value RUNBOOK_ENVIRONMENT) ''local-reference''
     else if rq_blast_radius q > rb_max_blast_radius rb \<or> rq_blast_radius q > sa_max_blast_radius p
     then evaluated False (reason_value BLAST_RADIUS) ''local-reference''
     else if sa_level p < rb_required_level rb
     then evaluated False (reason_value AUTONOMY_LEVEL) ''local-reference''
     else if rb_id rb \<notin> set (sa_certified_runbooks p)
     then evaluated False (reason_value RUNBOOK_CERTIFICATION) ''local-reference''
     else
       let context = (case autonomy of None \<Rightarrow> for_policy std clock p | Some a \<Rightarrow> a)
             \<lparr>ac_policy_level := level_value (sa_level p)\<rparr> in
       if effective_level context = 3 \<and> \<not> approval_verified
       then evaluated False (reason_value HUMAN_APPROVAL) ''local-reference''
       else if level_value (sa_level p) \<ge> 4 \<and> float_le (rq_error_budget_remaining q) (Finite 0)
       then evaluated False (reason_value ERROR_BUDGET) ''local-reference''
       else case certification_denial std context of
           Some r \<Rightarrow> evaluated False (reason_value r) ''local-reference''
         | None \<Rightarrow>
             if \<not> pc_audit_available control
             then evaluated False (reason_value AUDIT_UNAVAILABLE) ''local-reference''
             else if \<not> pc_verification_defined control
             then evaluated False (reason_value VERIFICATION_UNAVAILABLE) ''local-reference''
             else evaluated True (reason_value AUTHORIZED) ''local-reference'')"

definition as_policy_decision :: "evaluated_decision \<Rightarrow> policy_decision" where
  "as_policy_decision v =
     decision (ed_allowed v) (ed_reason v @ '' [policy='' @ ed_policy_revision v @ '']'')"

section \<open>The OPA wire contract\<close>

text \<open>
  A non-finite error budget has no JSON form (\<open>json.dumps\<close> writes \<open>NaN\<close>, which no JSON parser
  accepts): the wire input is then \<open>None\<close>.
\<close>

definition policy_json :: "service_autonomy \<Rightarrow> json" where
  "policy_json p = JObj
     [(''service'', JStr (sa_service p)), (''environment'', JStr (sa_environment p)),
      (''level'', JInt (level_value (sa_level p))),
      (''certified_runbooks'', JList (map JStr (sa_certified_runbooks p))),
      (''max_blast_radius'', JInt (sa_max_blast_radius p)), (''kill_switch'', JBool (sa_kill_switch p))]"

definition claim_json :: "certification_claim option \<Rightarrow> json" where
  "claim_json c = (case c of None \<Rightarrow> JNull
     | Some k \<Rightarrow> JObj [(''scope_hash'', JStr (cl_scope_hash k)), (''inputs_hash'', JStr (cl_inputs_hash k)),
          (''expires_on'', JStr (cl_expires_on k))])"

definition opa_input ::
    "py_std \<Rightarrow> instant \<Rightarrow> runbook \<Rightarrow> service_autonomy \<Rightarrow> action_request \<Rightarrow> bool \<Rightarrow> control_state \<Rightarrow>
       autonomy_context option \<Rightarrow> json option" where
  "opa_input std clock rb p q approval_verified control autonomy =
     (let context = (case autonomy of None \<Rightarrow> for_policy std clock p | Some a \<Rightarrow> a) in
      case rq_error_budget_remaining q of
        Finite budget \<Rightarrow> Some (JObj [(''input'', JObj
          [(''runbook'', plain_runbook rb),
           (''policy'', policy_json p),
           (''request'', JObj
              [(''service'', JStr (rq_service q)), (''environment'', JStr (rq_environment q)),
               (''runbook_id'', JStr (rq_runbook_id q)), (''blast_radius'', JInt (rq_blast_radius q)),
               (''approval_token'', (case rq_approval_token q of None \<Rightarrow> JNull | Some t \<Rightarrow> JStr t)),
               (''error_budget_remaining'', JFloat budget), (''approval_verified'', JBool approval_verified)]),
           (''control'', JObj [(''audit_available'', JBool (pc_audit_available control)),
              (''verification_defined'', JBool (pc_verification_defined control))]),
           (''autonomy_level'', (case ac_autonomy_level context of ClaimText t \<Rightarrow> JStr t | ClaimOther j \<Rightarrow> j)),
           (''scope'', JObj [(''scope_hash'', JStr (ac_scope_hash context))]),
           (''now'', JStr (ac_now context)),
           (''certification'', claim_json (ac_certification context))])])
      | _ \<Rightarrow> None)"

text \<open>
  The exceptions the client turns into a denial: an unavailable dependency, every \<open>OSError\<close>
  (\<open>URLError\<close> and \<open>HTTPError\<close> are among them) and a body that is not JSON.
\<close>

definition os_error_names :: "string list" where
  "os_error_names = [''OSError'', ''URLError'', ''HTTPError'', ''TimeoutError'', ''ConnectionError'',
     ''ConnectionRefusedError'', ''ConnectionResetError'', ''ConnectionAbortedError'', ''BrokenPipeError'',
     ''RemoteDisconnected'', ''gaierror'', ''SSLError'']"

fun opa_caught :: "exn \<Rightarrow> bool" where
  "opa_caught (DependencyUnavailable d r) = True"
| "opa_caught (PermissionError m) = True"
| "opa_caught (OtherError n m) = (n \<in> set os_error_names \<or> n = ''JSONDecodeError'')"
| "opa_caught e = False"

text \<open>\<open>bool(v)\<close> and \<open>str(v)\<close> of a decoded JSON value; \<open>repr\<close> of a container is an argument.\<close>

fun json_truth :: "json \<Rightarrow> bool" where
  "json_truth JNull = False"
| "json_truth (JBool b) = b"
| "json_truth (JInt i) = (i \<noteq> 0)"
| "json_truth (JFloat r) = (r \<noteq> 0)"
| "json_truth (JStr s) = (s \<noteq> [])"
| "json_truth (JList xs) = (xs \<noteq> [])"
| "json_truth (JObj kvs) = (kvs \<noteq> [])"

fun json_str :: "py_std \<Rightarrow> (json \<Rightarrow> string) \<Rightarrow> json \<Rightarrow> string" where
  "json_str std repr JNull = ''None''"
| "json_str std repr (JBool b) = str_bool b"
| "json_str std repr (JInt i) = str_int i"
| "json_str std repr (JFloat r) = repr_float std r"
| "json_str std repr (JStr s) = s"
| "json_str std repr j = repr j"

definition json_get_default :: "json \<Rightarrow> string \<Rightarrow> json \<Rightarrow> json" where
  "json_get_default j k d = (case json_get j k of None \<Rightarrow> d | Some v \<Rightarrow> v)"

definition is_object :: "json \<Rightarrow> bool" where
  "is_object j = (case j of JObj _ \<Rightarrow> True | _ \<Rightarrow> False)"

text \<open>
  \<open>OpaPolicyClient.evaluate_input\<close>: the transport stands for the dependency boundary, the HTTP
  request and \<open>json.load\<close> of the response.
\<close>

definition opa_evaluate_input ::
    "py_std \<Rightarrow> (json \<Rightarrow> string) \<Rightarrow> (json option \<Rightarrow> json res) \<Rightarrow> json option \<Rightarrow> evaluated_decision res" where
  "opa_evaluate_input std repr transport payload =
     (case transport payload of
        Inl e \<Rightarrow>
          if opa_caught e
          then Inr (evaluated False (''OPA unavailable or invalid: '' @ exn_name e) ''unknown'')
          else Inl e
      | Inr body \<Rightarrow>
          (case json_get body ''result'' of
             Some (JObj result) \<Rightarrow> Inr (evaluated
               (json_truth (json_get_default (JObj result) ''allowed'' (JBool False)))
               (json_str std repr (json_get_default (JObj result) ''reason'' (JStr ''OPA denied without reason'')))
               (json_str std repr (json_get_default (JObj result) ''policy_revision'' (JStr ''unknown''))))
           | _ \<Rightarrow> Inr (evaluated False ''OPA response missing decision result'' ''unknown'')))"

definition opa_evaluate ::
    "py_std \<Rightarrow> (json \<Rightarrow> string) \<Rightarrow> (json option \<Rightarrow> json res) \<Rightarrow> instant \<Rightarrow> runbook \<Rightarrow> service_autonomy \<Rightarrow>
       action_request \<Rightarrow> bool \<Rightarrow> control_state \<Rightarrow> autonomy_context option \<Rightarrow> evaluated_decision res" where
  "opa_evaluate std repr transport clock rb p q approval_verified control autonomy =
     opa_evaluate_input std repr transport (opa_input std clock rb p q approval_verified control autonomy)"

definition policy_input_boundary_denial :: "json \<Rightarrow> policy_reason option" where
  "policy_input_boundary_denial payload =
     (case json_get payload ''policy'' of
        Some (JObj policy) \<Rightarrow>
          if map_of policy ''kill_switch'' = Some (JBool True) then Some KILL_SWITCH
          else (case map_of policy ''level'' of Some (JInt _) \<Rightarrow> None | _ \<Rightarrow> Some POLICY_LEVEL_MISSING)
      | _ \<Rightarrow> Some POLICY_LEVEL_MISSING)"

definition local_evaluate_input :: "json \<Rightarrow> evaluated_decision res" where
  "local_evaluate_input payload =
     (case policy_input_boundary_denial payload of
        None \<Rightarrow> Inl (ValueError ''raw policy input is representable; use evaluate() with domain objects'')
      | Some r \<Rightarrow> Inr (evaluated False (reason_value r) ''local-reference''))"

section \<open>The Rego bundle\<close>

text \<open>
  The ordered deny chain of the bundle on the input a domain request serialises to. Rego trims
  the white space of Go's \<open>unicode.IsSpace\<close>, and reads timestamps with an RFC 3339 parser, which
  is an argument; a reason of \<open>None\<close> is the empty reason that allows.
\<close>

definition go_space :: "char \<Rightarrow> bool" where
  "go_space c = ((of_char c :: nat) \<in> {9, 10, 11, 12, 13, 32, 133, 160})"

definition go_trim :: "string \<Rightarrow> string" where
  "go_trim s = rev (dropWhile go_space (rev (dropWhile go_space s)))"

definition rego_declared_level :: "autonomy_context \<Rightarrow> string option" where
  "rego_declared_level c =
     (case ac_autonomy_level c of ClaimText t \<Rightarrow> Some (py_upper (go_trim t)) | ClaimOther _ \<Rightarrow> None)"

definition rego_is_l4 :: "service_autonomy \<Rightarrow> autonomy_context \<Rightarrow> bool" where
  "rego_is_l4 p c =
     (case rego_declared_level c of
        None \<Rightarrow> level_value (sa_level p) \<ge> 4
      | Some d \<Rightarrow> d = ''L4'' \<or> (d \<noteq> ''L4'' \<and> d \<noteq> ''L3'' \<and> level_value (sa_level p) \<ge> 4))"

definition rego_effective_level :: "service_autonomy \<Rightarrow> autonomy_context \<Rightarrow> int" where
  "rego_effective_level p c =
     (if rego_declared_level c = Some ''L3'' \<and> level_value (sa_level p) \<ge> 4 then 3
      else level_value (sa_level p))"

definition rego_deny_reason ::
    "(string \<Rightarrow> int option) \<Rightarrow> runbook \<Rightarrow> service_autonomy \<Rightarrow> action_request \<Rightarrow> bool \<Rightarrow> control_state \<Rightarrow>
       autonomy_context \<Rightarrow> policy_reason option" where
  "rego_deny_reason rfc3339 rb p q approval_verified control c =
    (let l4 = rego_is_l4 p c; evaluated_at = rfc3339 (ac_now c);
         expiry = Option.bind (ac_certification c) (\<lambda>k. rfc3339 (cl_expires_on k)) in
     if sa_kill_switch p then Some KILL_SWITCH
     else if rq_service q \<noteq> sa_service p then Some OUTSIDE_SCOPE
     else if rq_environment q \<noteq> sa_environment p then Some OUTSIDE_SCOPE
     else if rq_environment q \<notin> set (rb_environments rb) then Some RUNBOOK_ENVIRONMENT
     else if rq_blast_radius q > rb_max_blast_radius rb then Some BLAST_RADIUS
     else if rq_blast_radius q > sa_max_blast_radius p then Some BLAST_RADIUS
     else if level_value (sa_level p) < level_value (rb_required_level rb) then Some AUTONOMY_LEVEL
     else if rb_id rb \<notin> set (sa_certified_runbooks p) then Some RUNBOOK_CERTIFICATION
     else if rego_effective_level p c = 3 \<and> \<not> approval_verified then Some HUMAN_APPROVAL
     else if level_value (sa_level p) \<ge> 4 \<and> float_le (rq_error_budget_remaining q) (Finite 0) then Some ERROR_BUDGET
     else if l4 \<and> ac_certification c = None then Some CERTIFICATION_ABSENT
     else if l4 \<and> evaluated_at = None then Some EVALUATION_TIME_UNREADABLE
     else if l4 \<and> expiry = None then Some CERTIFICATION_EXPIRY_UNREADABLE
     else if l4 \<and> the expiry \<le> the evaluated_at then Some CERTIFICATION_EXPIRED
     else if l4 \<and> go_trim (ac_scope_hash c) = [] then Some SCOPE_MISSING
     else if l4 \<and> map_option cl_scope_hash (ac_certification c) \<noteq> Some (ac_scope_hash c) then Some SCOPE_MISMATCH
     else if l4 \<and> map_option (\<lambda>k. go_trim (cl_inputs_hash k)) (ac_certification c) = Some [] then Some INPUTS_HASH_MISSING
     else if \<not> pc_audit_available control then Some AUDIT_UNAVAILABLE
     else if \<not> pc_verification_defined control then Some VERIFICATION_UNAVAILABLE
     else None)"

text \<open>Text on which the two notions of white space agree.\<close>

definition plain_spaces :: "string \<Rightarrow> bool" where
  "plain_spaces s = list_all (\<lambda>c. (of_char c :: nat) \<notin> {28, 29, 30, 31}) s"

lemma dropWhile_cong_on: "\<forall>x \<in> set xs. P x = Q x \<Longrightarrow> dropWhile P xs = dropWhile Q xs"
  by (induction xs) auto

lemma go_trim_strip:
  assumes "plain_spaces s"
  shows "go_trim s = py_strip s"
proof -
  have same: "go_space c = py_space c" if "c \<in> set s" for c
    using assms that by (auto simp: plain_spaces_def list_all_iff go_space_def py_space_def)
  then have 1: "dropWhile go_space s = dropWhile py_space s"
    by (intro dropWhile_cong_on) auto
  have "set (rev (dropWhile py_space s)) \<subseteq> set s" using set_dropWhileD by fastforce
  then have "dropWhile go_space (rev (dropWhile py_space s)) = dropWhile py_space (rev (dropWhile py_space s))"
    by (intro dropWhile_cong_on) (use same in auto)
  with 1 show ?thesis by (simp add: go_trim_def py_strip_def)
qed

lemma rego_levels:
  assumes "case ac_autonomy_level c of ClaimText t \<Rightarrow> plain_spaces t | ClaimOther _ \<Rightarrow> True"
  shows "rego_is_l4 p c = is_l4 (c\<lparr>ac_policy_level := level_value (sa_level p)\<rparr>)"
    and "rego_effective_level p c = effective_level (c\<lparr>ac_policy_level := level_value (sa_level p)\<rparr>)"
  using assms
  by (auto simp: rego_is_l4_def is_l4_def rego_effective_level_def effective_level_def
      rego_declared_level_def declared_level_def SUPERVISED_DOWNGRADE_def go_trim_strip
      split: level_claim.splits)

text \<open>The certification part of the two chains.\<close>

definition rego_certification ::
    "(string \<Rightarrow> int option) \<Rightarrow> bool \<Rightarrow> autonomy_context \<Rightarrow> policy_reason option" where
  "rego_certification rfc3339 l4 c =
    (if l4 \<and> ac_certification c = None then Some CERTIFICATION_ABSENT
     else if l4 \<and> rfc3339 (ac_now c) = None then Some EVALUATION_TIME_UNREADABLE
     else if l4 \<and> Option.bind (ac_certification c) (\<lambda>k. rfc3339 (cl_expires_on k)) = None
     then Some CERTIFICATION_EXPIRY_UNREADABLE
     else if l4 \<and> the (Option.bind (ac_certification c) (\<lambda>k. rfc3339 (cl_expires_on k))) \<le> the (rfc3339 (ac_now c))
     then Some CERTIFICATION_EXPIRED
     else if l4 \<and> go_trim (ac_scope_hash c) = [] then Some SCOPE_MISSING
     else if l4 \<and> map_option cl_scope_hash (ac_certification c) \<noteq> Some (ac_scope_hash c) then Some SCOPE_MISMATCH
     else if l4 \<and> map_option (\<lambda>k. go_trim (cl_inputs_hash k)) (ac_certification c) = Some [] then Some INPUTS_HASH_MISSING
     else None)"

lemma rego_certification_level [simp]:
  "rego_certification rfc3339 l4 (c\<lparr>ac_policy_level := l\<rparr>) = rego_certification rfc3339 l4 c"
  by (simp add: rego_certification_def)

definition readers_agree :: "py_std \<Rightarrow> (string \<Rightarrow> int option) \<Rightarrow> string \<Rightarrow> bool" where
  "readers_agree std rfc3339 s \<longleftrightarrow> rfc3339 s = map_option (\<lambda>t. 1000 * t) (parse_instant std s)"

lemma rego_certification_eq:
  assumes "readers_agree std rfc3339 (ac_now c)" "plain_spaces (ac_scope_hash c)"
    and "case ac_certification c of None \<Rightarrow> True | Some k \<Rightarrow>
           readers_agree std rfc3339 (cl_expires_on k) \<and> plain_spaces (cl_inputs_hash k)"
  shows "rego_certification rfc3339 (is_l4 c) c = certification_denial std c"
proof (cases "is_l4 c")
  case False
  then show ?thesis by (simp add: rego_certification_def certification_denial_def)
next
  case True
  with assms show ?thesis
    by (cases "ac_certification c"; cases "parse_instant std (ac_now c)")
      (auto simp: rego_certification_def certification_denial_def readers_agree_def go_trim_strip
        split: option.splits)
qed

lemma case_if_Some:
  "(case (if b then Some r else k) of None \<Rightarrow> d | Some x \<Rightarrow> Some x) =
     (if b then Some r else (case k of None \<Rightarrow> d | Some x \<Rightarrow> Some x))"
  by simp

lemma if_disj: "(if a \<or> b then x else k) = (if a then x else if b then x else k)"
  by simp

lemma rego_deny_reason_split:
  "rego_deny_reason rfc3339 rb p q av control c =
    (if sa_kill_switch p then Some KILL_SWITCH
     else if rq_service q \<noteq> sa_service p \<or> rq_environment q \<noteq> sa_environment p then Some OUTSIDE_SCOPE
     else if rq_environment q \<notin> set (rb_environments rb) then Some RUNBOOK_ENVIRONMENT
     else if rq_blast_radius q > rb_max_blast_radius rb \<or> rq_blast_radius q > sa_max_blast_radius p
     then Some BLAST_RADIUS
     else if sa_level p < rb_required_level rb then Some AUTONOMY_LEVEL
     else if rb_id rb \<notin> set (sa_certified_runbooks p) then Some RUNBOOK_CERTIFICATION
     else if rego_effective_level p c = 3 \<and> \<not> av then Some HUMAN_APPROVAL
     else if level_value (sa_level p) \<ge> 4 \<and> float_le (rq_error_budget_remaining q) (Finite 0) then Some ERROR_BUDGET
     else case rego_certification rfc3339 (rego_is_l4 p c) c of
         Some r \<Rightarrow> Some r
       | None \<Rightarrow> if \<not> pc_audit_available control then Some AUDIT_UNAVAILABLE
                 else if \<not> pc_verification_defined control then Some VERIFICATION_UNAVAILABLE else None)"
  unfolding rego_deny_reason_def Let_def rego_certification_def less_autonomy_level_def
  by (simp only: case_if_Some if_disj option.case)

lemma certification_denial_None:
  "certification_denial std c = None \<longleftrightarrow> \<not> is_l4 c \<or>
     (\<exists>claim now expires. ac_certification c = Some claim \<and> parse_instant std (ac_now c) = Some now \<and>
        parse_instant std (cl_expires_on claim) = Some expires \<and> now < expires \<and>
        py_strip (ac_scope_hash c) \<noteq> [] \<and> cl_scope_hash claim = ac_scope_hash c \<and>
        py_strip (cl_inputs_hash claim) \<noteq> [])"
  by (auto simp: certification_denial_def split: option.splits)

lemma local_evaluate_allows_core:
  "ed_allowed (local_evaluate std clock rb p q av control autonomy) \<longleftrightarrow>
     (let c = (case autonomy of None \<Rightarrow> for_policy std clock p | Some a \<Rightarrow> a)
            \<lparr>ac_policy_level := level_value (sa_level p)\<rparr> in
      \<not> sa_kill_switch p \<and> rq_service q = sa_service p \<and> rq_environment q = sa_environment p \<and>
      rq_environment q \<in> set (rb_environments rb) \<and>
      rq_blast_radius q \<le> rb_max_blast_radius rb \<and> rq_blast_radius q \<le> sa_max_blast_radius p \<and>
      rb_required_level rb \<le> sa_level p \<and> rb_id rb \<in> set (sa_certified_runbooks p) \<and>
      (av \<or> effective_level c \<noteq> 3) \<and>
      (sa_level p < BOUNDED_AUTONOMOUS \<or> (float_le (rq_error_budget_remaining q) (Finite 0)) = False) \<and>
      certification_denial std c = None \<and> pc_audit_available control \<and> pc_verification_defined control)"
proof -
  have "level_value (sa_level p) \<ge> 4 \<longleftrightarrow> (sa_level p < BOUNDED_AUTONOMOUS) = False"
    by (cases "sa_level p") (simp_all add: level_order)
  then show ?thesis
    unfolding local_evaluate_def Let_def
    by (auto simp: not_less split: option.splits if_splits)
qed

section \<open>Properties\<close>

text \<open>C22. Conformance: on every request, the local reference evaluator returns the verdict and the
  reason of the Rego deny chain (under its own revision name), provided the two timestamp
  readers agree on the two timestamps of the request and its texts contain none of the four
  control characters only Python treats as white space.\<close>

theorem local_evaluator_conforms_to_rego:
  assumes "case ac_autonomy_level c of ClaimText t \<Rightarrow> plain_spaces t | ClaimOther _ \<Rightarrow> True"
    and "readers_agree std rfc3339 (ac_now c)" "plain_spaces (ac_scope_hash c)"
    and "case ac_certification c of None \<Rightarrow> True | Some k \<Rightarrow>
           readers_agree std rfc3339 (cl_expires_on k) \<and> plain_spaces (cl_inputs_hash k)"
  shows "local_evaluate std clock rb p q av control (Some c) =
     (case rego_deny_reason rfc3339 rb p q av control c of
        None \<Rightarrow> evaluated True (reason_value AUTHORIZED) ''local-reference''
      | Some r \<Rightarrow> evaluated False (reason_value r) ''local-reference'')"
proof -
  let ?c = "c\<lparr>ac_policy_level := level_value (sa_level p)\<rparr>"
  have "rego_certification rfc3339 (is_l4 ?c) c = certification_denial std ?c"
    using rego_certification_eq [of std rfc3339 ?c] assms(2-4) by simp
  then show ?thesis
    unfolding rego_deny_reason_split rego_levels [OF assms(1)] local_evaluate_def Let_def
    by (simp split: option.splits)
qed

text \<open>A certified L4 request, and the reading of its two timestamps.\<close>

definition sample_l4_policy :: service_autonomy where
  "sample_l4_policy = \<lparr>sa_service = ''payments'', sa_environment = ''stage'', sa_level = BOUNDED_AUTONOMOUS,
     sa_certified_runbooks = [''aks.rollout.undo''], sa_max_blast_radius = 5, sa_kill_switch = False\<rparr>"

definition sample_l4_runbook :: runbook where
  "sample_l4_runbook = \<lparr>rb_id = ''aks.rollout.undo'', rb_description = ''undo'', rb_environments = [''stage''],
     rb_max_blast_radius = 3, rb_reversible = True, rb_required_level = APPROVE_AND_EXECUTE,
     rb_verify_signal = ''deployment.ready'', rb_rollback_id = Some ''aks.rollout.redo'', rb_failure_class = ''rollout'',
     rb_preconditions = [''p''], rb_postconditions = [''q''], rb_idempotency_scope = ''service''\<rparr>"

definition sample_l4_request :: action_request where
  "sample_l4_request = \<lparr>rq_service = ''payments'', rq_environment = ''stage'', rq_runbook_id = ''aks.rollout.undo'',
     rq_blast_radius = 2, rq_approval_token = None, rq_error_budget_remaining = Finite 1\<rparr>"

definition sample_l4_context :: autonomy_context where
  "sample_l4_context = \<lparr>ac_autonomy_level = ClaimText ''L4'', ac_scope_hash = ''scope-1'', ac_now = ''10'',
     ac_certification = Some \<lparr>cl_scope_hash = ''scope-1'', cl_inputs_hash = ''inputs-1'', cl_expires_on = ''90''\<rparr>,
     ac_policy_level = 4\<rparr>"

definition sample_rfc3339 :: "string \<Rightarrow> int option" where
  "sample_rfc3339 s = map_of [(''10'', 10000), (''90'', 90000)] s"

definition sample_control :: control_state where
  "sample_control = \<lparr>pc_audit_available = True, pc_verification_defined = True\<rparr>"

lemma sample_instants: "parse_instant fixture_std ''10'' = Some 10" "parse_instant fixture_std ''90'' = Some 90"
  by code_simp+

lemma sample_l4_allowed:
  "local_evaluate fixture_std 0 sample_l4_runbook sample_l4_policy sample_l4_request False sample_control
     (Some sample_l4_context) = evaluated True (reason_value AUTHORIZED) ''local-reference''"
  by code_simp

theorem local_evaluator_conforms_to_rego_witness:
  "rego_deny_reason sample_rfc3339 sample_l4_runbook sample_l4_policy sample_l4_request False sample_control
      sample_l4_context = None \<and>
   local_evaluate fixture_std 0 sample_l4_runbook sample_l4_policy sample_l4_request False sample_control
      (Some sample_l4_context) = evaluated True (reason_value AUTHORIZED) ''local-reference''"
proof -
  have none: "rego_deny_reason sample_rfc3339 sample_l4_runbook sample_l4_policy sample_l4_request False sample_control
      sample_l4_context = None" by code_simp
  have "readers_agree fixture_std sample_rfc3339 ''10''" "readers_agree fixture_std sample_rfc3339 ''90''"
    by (simp_all add: readers_agree_def sample_instants sample_rfc3339_def)
  then have "local_evaluate fixture_std 0 sample_l4_runbook sample_l4_policy sample_l4_request False sample_control
      (Some sample_l4_context) = (case rego_deny_reason sample_rfc3339 sample_l4_runbook sample_l4_policy
        sample_l4_request False sample_control sample_l4_context of
        None \<Rightarrow> evaluated True (reason_value AUTHORIZED) ''local-reference''
      | Some r \<Rightarrow> evaluated False (reason_value r) ''local-reference'')"
    by (intro local_evaluator_conforms_to_rego) (simp_all add: sample_l4_context_def plain_spaces_def)
  with none show ?thesis by simp
qed

text \<open>Exactly when the local evaluator allows a request: every one of the deny conditions is
  absent.\<close>

theorem local_evaluate_allows_iff:
  "ed_allowed (local_evaluate std clock rb p q av control autonomy) \<longleftrightarrow>
     (let c = (case autonomy of None \<Rightarrow> for_policy std clock p | Some a \<Rightarrow> a)
            \<lparr>ac_policy_level := level_value (sa_level p)\<rparr> in
      \<not> sa_kill_switch p \<and> rq_service q = sa_service p \<and> rq_environment q = sa_environment p \<and>
      rq_environment q \<in> set (rb_environments rb) \<and>
      rq_blast_radius q \<le> rb_max_blast_radius rb \<and> rq_blast_radius q \<le> sa_max_blast_radius p \<and>
      rb_required_level rb \<le> sa_level p \<and> rb_id rb \<in> set (sa_certified_runbooks p) \<and>
      (av \<or> effective_level c \<noteq> 3) \<and>
      (sa_level p < BOUNDED_AUTONOMOUS \<or> (float_le (rq_error_budget_remaining q) (Finite 0)) = False) \<and>
      certification_denial std c = None \<and> pc_audit_available control \<and> pc_verification_defined control)"
  by (rule local_evaluate_allows_core)

text \<open>A level claim cannot talk the boundary out of its controls: whatever level a caller
  declares, a request under an L4 policy is allowed only with a current certification for the
  request's scope, or as a supervised L3 run with verified human approval.\<close>

theorem level_claim_cannot_skip_controls:
  assumes "ed_allowed (local_evaluate std clock rb p q av control (Some c))"
    and "sa_level p = BOUNDED_AUTONOMOUS"
  shows "(declared_level c = SUPERVISED_DOWNGRADE \<and> av) \<or>
     (\<exists>claim now expires. ac_certification c = Some claim \<and> parse_instant std (ac_now c) = Some now \<and>
        parse_instant std (cl_expires_on claim) = Some expires \<and> now < expires \<and>
        cl_scope_hash claim = ac_scope_hash c \<and> py_strip (cl_inputs_hash claim) \<noteq> [])"
proof -
  let ?c = "c\<lparr>ac_policy_level := level_value (sa_level p)\<rparr>"
  have allowed: "av \<or> effective_level ?c \<noteq> 3" "certification_denial std ?c = None"
    using assms(1) unfolding local_evaluate_allows_core by (auto simp: Let_def)
  show ?thesis
  proof (cases "is_l4 ?c")
    case True
    with allowed(2) show ?thesis by (auto simp: certification_denial_None)
  next
    case False
    then have "declared_level c = SUPERVISED_DOWNGRADE"
      using assms(2) by (auto simp: is_l4_def declared_level_def split: if_splits)
    with allowed(1) assms(2) show ?thesis
      by (auto simp: effective_level_def declared_level_def)
  qed
qed

theorem level_claim_cannot_skip_controls_witness:
  "ed_allowed (local_evaluate fixture_std 0 sample_l4_runbook sample_l4_policy sample_l4_request False sample_control
      (Some sample_l4_context)) \<and>
   (\<exists>claim. ac_certification sample_l4_context = Some claim \<and> cl_scope_hash claim = ac_scope_hash sample_l4_context)"
proof -
  have allowed: "ed_allowed (local_evaluate fixture_std 0 sample_l4_runbook sample_l4_policy sample_l4_request False
      sample_control (Some sample_l4_context))" by (simp add: sample_l4_allowed)
  from level_claim_cannot_skip_controls [OF this] allowed show ?thesis
    by (auto simp: sample_l4_policy_def)
qed

text \<open>The two Python checks agree below L4: for a policy of level 3 or lower, with the controls
  available and an approval counted as verified exactly when the request carries a token,
  \<open>authorize\<close> and the local evaluator reach the same verdict.\<close>

theorem authorize_agrees_below_l4:
  assumes "sa_level p < BOUNDED_AUTONOMOUS"
    and "pc_audit_available control" "pc_verification_defined control"
  shows "pd_allowed (authorize rb p q) =
     ed_allowed (local_evaluate std clock rb p q (has_text (rq_approval_token q)) control None)"
proof -
  let ?c = "(for_policy std clock p)\<lparr>ac_policy_level := level_value (sa_level p)\<rparr>"
  have lvl: "\<not> sa_level p \<ge> BOUNDED_AUTONOMOUS" using assms(1) by simp
  have "declared_level ?c \<noteq> ''L4''" "effective_level ?c = level_value (sa_level p)" "\<not> level_value (sa_level p) \<ge> 4"
    using assms(1)
    by (cases "sa_level p"; simp add: for_policy_def declared_level_def effective_level_def level_order
        str_int_def str_nat.simps digit_char_def py_strip_def py_upper_def upper_char_def py_space_def)+
  moreover from this have "certification_denial std ?c = None"
    by (simp add: certification_denial_None is_l4_def for_policy_def declared_level_def)
  moreover have "level_value (sa_level p) = 3 \<longleftrightarrow> sa_level p = APPROVE_AND_EXECUTE"
    by (cases "sa_level p") simp_all
  ultimately show ?thesis
    using assms(2,3) lvl unfolding local_evaluate_allows_core authorize_def
    by (auto simp: Let_def assms(1) not_less)
qed

theorem authorize_agrees_below_l4_witness:
  "\<exists>p rb q. sa_level p = APPROVE_AND_EXECUTE \<and>
     pd_allowed (authorize rb p q) = ed_allowed (local_evaluate fixture_std 0 rb p q (has_text (rq_approval_token q))
       \<lparr>pc_audit_available = True, pc_verification_defined = True\<rparr> None)"
proof -
  let ?p = "\<lparr>sa_service = ''payments'', sa_environment = ''prod'', sa_level = APPROVE_AND_EXECUTE,
    sa_certified_runbooks = [''aks.rollout.undo''], sa_max_blast_radius = 5, sa_kill_switch = False\<rparr>"
  have "sa_level ?p < BOUNDED_AUTONOMOUS" by (simp add: level_order)
  from authorize_agrees_below_l4 [OF this, of "\<lparr>pc_audit_available = True, pc_verification_defined = True\<rparr>"]
  show ?thesis by (intro exI [of _ ?p]) simp
qed

text \<open>The OPA client fails closed: an allowed verdict can only come from a decoded response whose
  \<open>result\<close> is an object with a truthy \<open>allowed\<close> field; an unavailable dependency, a network error,
  a body that is not JSON or a response without a result object is a denial.\<close>

theorem opa_client_fails_closed:
  "case opa_evaluate std repr transport clock rb p q av control autonomy of
     Inl e \<Rightarrow> transport (opa_input std clock rb p q av control autonomy) = Inl e \<and> opa_caught e = False
   | Inr d \<Rightarrow> ed_allowed d \<longleftrightarrow>
       (\<exists>body result v. transport (opa_input std clock rb p q av control autonomy) = Inr body \<and>
          json_get body ''result'' = Some (JObj result) \<and> map_of result ''allowed'' = Some v \<and> json_truth v)"
  by (auto simp: opa_evaluate_def opa_evaluate_input_def json_get_default_def
      split: sum.splits option.splits json.splits)

text \<open>The client does not require a boolean verdict: a response whose \<open>allowed\<close> field is the
  text \<open>false\<close> is taken as an allowance.\<close>

theorem opa_client_accepts_textual_false:
  "opa_evaluate_input std repr (\<lambda>_. Inr (JObj [(''result'', JObj [(''allowed'', JStr ''false'')])])) payload =
     Inr (evaluated True ''OPA denied without reason'' ''unknown'')"
  by (simp add: opa_evaluate_input_def json_get_default_def)

text \<open>The branch contract is complete: every Rego deny branch is listed once, every deny reason is
  the reason of some branch, no branch stands for the allowance, and the case names that tie
  branches to the conformance corpus are distinct, so each is found by its name.\<close>

theorem branch_contract_complete:
  "distinct (map rq_branch rego_deny_branch_requirements) \<and>
   (\<forall>b. b \<in> rq_branch ` set rego_deny_branch_requirements) \<and>
   (\<forall>r. r \<in> rq_reason ` set rego_deny_branch_requirements \<longleftrightarrow> r \<noteq> AUTHORIZED) \<and>
   list_all (\<lambda>q. branch_requirement (rq_case_name q) = Some q) rego_deny_branch_requirements"
proof (intro conjI allI)
  show "distinct (map rq_branch rego_deny_branch_requirements)"
    by (simp add: rego_deny_branch_requirements_def requirement_def)
  show "b \<in> rq_branch ` set rego_deny_branch_requirements" for b
    by (cases b) (simp_all add: rego_deny_branch_requirements_def requirement_def)
  show "r \<in> rq_reason ` set rego_deny_branch_requirements \<longleftrightarrow> r \<noteq> AUTHORIZED" for r
    by (cases r) (simp_all add: rego_deny_branch_requirements_def requirement_def)
  show "list_all (\<lambda>q. branch_requirement (rq_case_name q) = Some q) rego_deny_branch_requirements"
    by (simp add: branch_requirement_def rego_deny_branch_requirements_def requirement_def)
qed

end
