(* ===== verification/Policy_Conformance.thy ===== *)
theory Policy_Conformance
  imports Policy_Boundary
begin

text \<open>
  The adversarial corpus of \<open>src/remediation/policy_conformance.py\<close>: one case per ordered branch of
  the policy, built by \<open>_case\<close>, which checks the expected reason against the branch contract, and
  the raw cases no domain object can express. The theorems show that the corpus can be built,
  that it covers the contract, and that the local evaluator passes every case of it.
\<close>

section \<open>Cases\<close>

record policy_conformance_case =
  cc_name :: string
  cc_runbook :: runbook
  cc_policy :: service_autonomy
  cc_request :: action_request
  cc_approval_verified :: bool
  cc_control :: control_state
  cc_autonomy :: autonomy_context
  cc_allowed :: bool
  cc_reason :: policy_reason
  cc_branch :: "rego_deny_branch option"

definition control_of :: "bool \<Rightarrow> bool \<Rightarrow> control_state" where
  "control_of audit verification = \<lparr>pc_audit_available = audit, pc_verification_defined = verification\<rparr>"

definition conformance_case ::
    "string \<Rightarrow> runbook \<Rightarrow> service_autonomy \<Rightarrow> action_request \<Rightarrow> bool \<Rightarrow> control_state \<Rightarrow> autonomy_context \<Rightarrow>
       bool \<Rightarrow> policy_reason \<Rightarrow> policy_conformance_case res" where
  "conformance_case name rb p q av control autonomy allowed reason =
     (let made = (\<lambda>branch. \<lparr>cc_name = name, cc_runbook = rb, cc_policy = p, cc_request = q,
            cc_approval_verified = av, cc_control = control, cc_autonomy = autonomy,
            cc_allowed = allowed, cc_reason = reason, cc_branch = branch\<rparr>) in
      case branch_requirement name of
        None \<Rightarrow> Inr (made None)
      | Some req \<Rightarrow>
          if reason_value reason \<noteq> reason_value (rq_reason req)
          then Inl (ValueError (name @ '': expected reason must match '' @ branch_value (rq_branch req) @
                 '' contract branch''))
          else Inr (made (Some (rq_branch req))))"

definition l3_runbook :: runbook where
  "l3_runbook = the (map_of (map (\<lambda>r. (rb_id r, r)) default_runbooks) ''aks.rollout.undo'')"

definition l3_policy :: service_autonomy where
  "l3_policy = \<lparr>sa_service = ''payments'', sa_environment = ''prod'', sa_level = APPROVE_AND_EXECUTE,
     sa_certified_runbooks = [rb_id l3_runbook], sa_max_blast_radius = 5, sa_kill_switch = False\<rparr>"

definition l3_request :: action_request where
  "l3_request = \<lparr>rq_service = ''payments'', rq_environment = ''prod'', rq_runbook_id = rb_id l3_runbook,
     rq_blast_radius = 2, rq_approval_token = Some ''verified:workflow'', rq_error_budget_remaining = Finite 1\<rparr>"

definition l3_context :: autonomy_context where
  "l3_context = \<lparr>ac_autonomy_level = ClaimText ''L3'', ac_scope_hash = [],
     ac_now = ''2026-08-28T00:00:00+00:00'', ac_certification = None,
     ac_policy_level = level_value (sa_level l3_policy)\<rparr>"

definition l4_runbook :: runbook where
  "l4_runbook = the (map_of (map (\<lambda>r. (rb_id r, r)) default_runbooks) ''aks.scale.memory'')"

definition l4_policy :: service_autonomy where
  "l4_policy = \<lparr>sa_service = ''payments'', sa_environment = ''stage'', sa_level = BOUNDED_AUTONOMOUS,
     sa_certified_runbooks = [rb_id l4_runbook], sa_max_blast_radius = 5, sa_kill_switch = False\<rparr>"

definition l4_request :: action_request where
  "l4_request = \<lparr>rq_service = ''payments'', rq_environment = ''stage'', rq_runbook_id = rb_id l4_runbook,
     rq_blast_radius = 2, rq_approval_token = None, rq_error_budget_remaining = Finite 1\<rparr>"

definition valid_claim :: certification_claim where
  "valid_claim = \<lparr>cl_scope_hash = ''scope-a'', cl_inputs_hash = ''inputs-a'',
     cl_expires_on = ''2026-09-01T00:00:00+00:00''\<rparr>"

definition l4_context :: autonomy_context where
  "l4_context = \<lparr>ac_autonomy_level = ClaimText ''L4'', ac_scope_hash = ''scope-a'',
     ac_now = ''2026-08-28T00:00:00+00:00'', ac_certification = Some valid_claim,
     ac_policy_level = level_value (sa_level l4_policy)\<rparr>"

definition l3_conformance_cases :: "policy_conformance_case res list" where
  "l3_conformance_cases = [
     conformance_case ''authorized-l3'' l3_runbook l3_policy l3_request True (control_of True True) l3_context True AUTHORIZED,
     conformance_case ''kill-switch-precedes-all-other-failures'' l3_runbook (l3_policy\<lparr>sa_kill_switch := True\<rparr>) (l3_request\<lparr>rq_service := ''other'', rq_blast_radius := 99\<rparr>) False (control_of False True) l3_context False KILL_SWITCH,
     conformance_case ''scope-service'' l3_runbook l3_policy (l3_request\<lparr>rq_service := ''other''\<rparr>) True (control_of True True) l3_context False OUTSIDE_SCOPE,
     conformance_case ''scope-environment'' l3_runbook l3_policy (l3_request\<lparr>rq_environment := ''stage''\<rparr>) True (control_of True True) l3_context False OUTSIDE_SCOPE,
     conformance_case ''runbook-environment'' (l3_runbook\<lparr>rb_environments := [''stage'']\<rparr>) (l3_policy\<lparr>sa_environment := ''dev''\<rparr>) (l3_request\<lparr>rq_environment := ''dev''\<rparr>) True (control_of True True) l3_context False RUNBOOK_ENVIRONMENT,
     conformance_case ''runbook-blast-radius'' l3_runbook (l3_policy\<lparr>sa_max_blast_radius := 99\<rparr>) (l3_request\<lparr>rq_blast_radius := rb_max_blast_radius l3_runbook + 1\<rparr>) True (control_of True True) l3_context False BLAST_RADIUS,
     conformance_case ''service-blast-radius'' l3_runbook l3_policy (l3_request\<lparr>rq_blast_radius := sa_max_blast_radius l3_policy + 1\<rparr>) True (control_of True True) l3_context False BLAST_RADIUS,
     conformance_case ''autonomy-level'' l3_runbook (l3_policy\<lparr>sa_level := HUMAN_EXECUTE\<rparr>) l3_request True (control_of True True) l3_context False AUTONOMY_LEVEL,
     conformance_case ''runbook-certification'' l3_runbook (l3_policy\<lparr>sa_certified_runbooks := []\<rparr>) l3_request True (control_of True True) l3_context False RUNBOOK_CERTIFICATION,
     conformance_case ''l3-human-approval'' l3_runbook l3_policy l3_request False (control_of True True) l3_context False HUMAN_APPROVAL]"

definition l4_conformance_cases :: "policy_conformance_case res list" where
  "l4_conformance_cases = [
     conformance_case ''l4-error-budget'' l4_runbook l4_policy (l4_request\<lparr>rq_error_budget_remaining := (Finite 0)\<rparr>) True (control_of False True) l4_context False ERROR_BUDGET,
     conformance_case ''l4-certification-absent'' l4_runbook l4_policy l4_request True (control_of True True) (l4_context\<lparr>ac_certification := None\<rparr>) False CERTIFICATION_ABSENT,
     conformance_case ''l4-evaluation-time-unreadable'' l4_runbook l4_policy l4_request True (control_of True True) (l4_context\<lparr>ac_now := ''not-a-time''\<rparr>) False EVALUATION_TIME_UNREADABLE,
     conformance_case ''l4-certification-expiry-unreadable'' l4_runbook l4_policy l4_request True (control_of True True) (l4_context\<lparr>ac_certification := (Some (valid_claim\<lparr>cl_expires_on := ''not-a-time''\<rparr>))\<rparr>) False CERTIFICATION_EXPIRY_UNREADABLE,
     conformance_case ''l4-certification-expired'' l4_runbook l4_policy l4_request True (control_of True True) (l4_context\<lparr>ac_certification := (Some (valid_claim\<lparr>cl_expires_on := ''2026-08-27T00:00:00+00:00''\<rparr>))\<rparr>) False CERTIFICATION_EXPIRED,
     conformance_case ''l4-scope-missing'' l4_runbook l4_policy l4_request True (control_of True True) (l4_context\<lparr>ac_scope_hash := []\<rparr>) False SCOPE_MISSING,
     conformance_case ''l4-scope-mismatch'' l4_runbook l4_policy l4_request True (control_of True True) (l4_context\<lparr>ac_scope_hash := ''scope-b''\<rparr>) False SCOPE_MISMATCH,
     conformance_case ''l4-inputs-hash-missing'' l4_runbook l4_policy l4_request True (control_of True True) (l4_context\<lparr>ac_certification := (Some (valid_claim\<lparr>cl_inputs_hash := []\<rparr>))\<rparr>) False INPUTS_HASH_MISSING,
     conformance_case ''audit-control-after-safety-and-certification'' l4_runbook l4_policy l4_request True (control_of False False) l4_context False AUDIT_UNAVAILABLE,
     conformance_case ''verification-control'' l4_runbook l4_policy l4_request True (control_of True False) l4_context False VERIFICATION_UNAVAILABLE,
     conformance_case ''authorized-l4'' l4_runbook l4_policy l4_request True (control_of True True) l4_context True AUTHORIZED,
     conformance_case ''l4-supervised-downgrade-still-requires-approval'' l4_runbook l4_policy l4_request False (control_of True True) (l4_context\<lparr>ac_autonomy_level := (ClaimText ''L3''), ac_certification := None\<rparr>) False HUMAN_APPROVAL]"

text \<open>The tuple of the source raises at the first case that cannot be built.\<close>

fun build_cases :: "policy_conformance_case res list \<Rightarrow> policy_conformance_case list res" where
  "build_cases [] = Inr []"
| "build_cases (c # cs) = rbind c (\<lambda>x. rbind (build_cases cs) (\<lambda>xs. Inr (x # xs)))"

definition remediation_policy_conformance_cases :: "policy_conformance_case list res" where
  "remediation_policy_conformance_cases = build_cases (l3_conformance_cases @ l4_conformance_cases)"

definition passes :: "py_std \<Rightarrow> instant \<Rightarrow> policy_conformance_case \<Rightarrow> bool" where
  "passes std clock k =
     (let d = local_evaluate std clock (cc_runbook k) (cc_policy k) (cc_request k) (cc_approval_verified k)
            (cc_control k) (Some (cc_autonomy k))
      in ed_allowed d = cc_allowed k \<and> ed_reason d = reason_value (cc_reason k))"

section \<open>Raw cases\<close>

record raw_conformance_case =
  rc_name :: string
  rc_input :: json
  rc_allowed :: bool
  rc_reason :: policy_reason
  rc_branch :: rego_deny_branch

definition without_key :: "string \<Rightarrow> json \<Rightarrow> json" where
  "without_key k j = (case j of JObj kvs \<Rightarrow> JObj (dict_del k kvs) | _ \<Rightarrow> j)"

definition with_key :: "string \<Rightarrow> json \<Rightarrow> json \<Rightarrow> json" where
  "with_key k v j = (case j of JObj kvs \<Rightarrow> JObj (dict_set k v kvs) | _ \<Rightarrow> j)"

definition raw_remediation_policy_conformance_cases ::
    "py_std \<Rightarrow> instant \<Rightarrow> raw_conformance_case list res" where
  "raw_remediation_policy_conformance_cases std clock =
     rbind remediation_policy_conformance_cases (\<lambda>cases.
     case find (\<lambda>k. cc_name k = ''authorized-l3'') cases of
       None \<Rightarrow> Inl (OtherError ''StopIteration'' [])
     | Some k \<Rightarrow>
       (case Option.bind (opa_input std clock (cc_runbook k) (cc_policy k) (cc_request k)
               (cc_approval_verified k) (cc_control k) (Some (cc_autonomy k)))
             (\<lambda>payload. json_get payload ''input'') of
          Some (JObj raw) \<Rightarrow>
            (case map_of raw ''policy'' of
               Some (JObj policy) \<Rightarrow>
                 (case branch_requirement ''policy-level-missing'' of
                    None \<Rightarrow> Inl (RuntimeError ''policy-level branch requirement is absent'')
                  | Some req \<Rightarrow> Inr
                      [\<lparr>rc_name = ''policy-level-missing'',
                        rc_input = with_key ''policy'' (without_key ''level'' (JObj policy)) (JObj raw),
                        rc_allowed = False, rc_reason = rq_reason req, rc_branch = rq_branch req\<rparr>,
                       \<lparr>rc_name = ''policy-level-non-numeric'',
                        rc_input = with_key ''policy'' (with_key ''level'' (JStr ''4'') (JObj policy)) (JObj raw),
                        rc_allowed = False, rc_reason = rq_reason req, rc_branch = rq_branch req\<rparr>])
             | _ \<Rightarrow> Inl (RuntimeError ''OPA input builder returned a non-object policy''))
        | _ \<Rightarrow> Inl (RuntimeError ''OPA input builder returned a non-object input'')))"

section \<open>The evaluator passes the corpus\<close>

text \<open>How the corpus' timestamps are read: three instants in order, and one text that is none.\<close>

definition reads_corpus_times :: "py_std \<Rightarrow> bool" where
  "reads_corpus_times std \<longleftrightarrow>
     (\<exists>past now future. parse_instant std ''2026-08-27T00:00:00+00:00'' = Some past \<and>
        parse_instant std ''2026-08-28T00:00:00+00:00'' = Some now \<and>
        parse_instant std ''2026-09-01T00:00:00+00:00'' = Some future \<and>
        parse_instant std ''not-a-time'' = None \<and> past < now \<and> now < future)"

definition case_ok :: "py_std \<Rightarrow> instant \<Rightarrow> policy_conformance_case res \<Rightarrow> bool" where
  "case_ok std clock c = (case c of Inl _ \<Rightarrow> False | Inr k \<Rightarrow> passes std clock k)"

lemma build_cases_ok:
  assumes "list_all (case_ok std clock) cs"
  shows "\<exists>ks. build_cases cs = Inr ks \<and> list_all (passes std clock) ks \<and> cs = map Inr ks"
  using assms
proof (induction cs)
  case (Cons c cs)
  then obtain k ks where "c = Inr k" "passes std clock k" "build_cases cs = Inr ks"
      "list_all (passes std clock) ks" "cs = map Inr ks"
    by (auto simp: case_ok_def split: sum.splits)
  then show ?case by simp
qed simp

lemma l3_runbook_fields [simp]:
  "rb_id l3_runbook = ''aks.rollout.undo''" "rb_environments l3_runbook = [''dev'', ''stage'', ''prod'']"
  "rb_max_blast_radius l3_runbook = 10" "rb_required_level l3_runbook = APPROVE_AND_EXECUTE"
  by (simp_all add: l3_runbook_def default_runbooks_def)

lemma l4_runbook_fields [simp]:
  "rb_id l4_runbook = ''aks.scale.memory''" "rb_environments l4_runbook = [''dev'', ''stage'']"
  "rb_max_blast_radius l4_runbook = 5" "rb_required_level l4_runbook = BOUNDED_AUTONOMOUS"
  by (simp_all add: l4_runbook_def default_runbooks_def)

lemma l3_fields [simp]:
  "sa_service l3_policy = ''payments''" "sa_environment l3_policy = ''prod''"
  "sa_level l3_policy = APPROVE_AND_EXECUTE" "sa_certified_runbooks l3_policy = [''aks.rollout.undo'']"
  "sa_max_blast_radius l3_policy = 5" "sa_kill_switch l3_policy = False"
  "rq_service l3_request = ''payments''" "rq_environment l3_request = ''prod''" "rq_blast_radius l3_request = 2"
  "rq_error_budget_remaining l3_request = Finite 1"
  "ac_autonomy_level l3_context = ClaimText ''L3''" "ac_certification l3_context = None"
  by (simp_all add: l3_policy_def l3_request_def l3_context_def)

lemma l4_fields [simp]:
  "sa_service l4_policy = ''payments''" "sa_environment l4_policy = ''stage''"
  "sa_level l4_policy = BOUNDED_AUTONOMOUS" "sa_certified_runbooks l4_policy = [''aks.scale.memory'']"
  "sa_max_blast_radius l4_policy = 5" "sa_kill_switch l4_policy = False"
  "rq_service l4_request = ''payments''" "rq_environment l4_request = ''stage''" "rq_blast_radius l4_request = 2"
  "rq_error_budget_remaining l4_request = Finite 1"
  "ac_autonomy_level l4_context = ClaimText ''L4''" "ac_certification l4_context = Some valid_claim"
  "ac_scope_hash l4_context = ''scope-a''" "ac_now l4_context = ''2026-08-28T00:00:00+00:00''"
  "cl_scope_hash valid_claim = ''scope-a''" "cl_inputs_hash valid_claim = ''inputs-a''"
  "cl_expires_on valid_claim = ''2026-09-01T00:00:00+00:00''"
  by (simp_all add: l4_policy_def l4_request_def l4_context_def valid_claim_def)

lemma control_of_fields [simp]:
  "pc_audit_available (control_of a v) = a" "pc_verification_defined (control_of a v) = v"
  by (simp_all add: control_of_def)

lemma corpus_declared:
  "ac_autonomy_level c = ClaimText ''L3'' \<Longrightarrow> declared_level c = ''L3''"
  "ac_autonomy_level c = ClaimText ''L4'' \<Longrightarrow> declared_level c = ''L4''"
  by (simp_all add: declared_level_def py_strip_def py_upper_def upper_char_def py_space_def)

lemma corpus_strip [simp]:
  "py_strip ''scope-a'' \<noteq> []" "py_strip ''scope-b'' \<noteq> []" "py_strip ''inputs-a'' \<noteq> []" "py_strip [] = []"
  by (simp_all add: py_strip_def py_space_def)

lemma requirement_found:
  "list_all (\<lambda>q. branch_requirement (rq_case_name q) = Some q) rego_deny_branch_requirements"
  by code_simp

lemma case_ok_named:
  assumes "(\<exists>req \<in> set rego_deny_branch_requirements. rq_case_name req = name \<and> rq_reason req = r) \<or>
      branch_requirement name = None"
    and "local_evaluate std clock rb p q av control (Some c) = evaluated a (reason_value r) ''local-reference''"
  shows "case_ok std clock (conformance_case name rb p q av control c a r)"
  using assms(1)
proof
  assume "\<exists>req \<in> set rego_deny_branch_requirements. rq_case_name req = name \<and> rq_reason req = r"
  then obtain req where "branch_requirement name = Some req" "rq_reason req = r"
    using requirement_found by (auto simp: list_all_iff)
  with assms(2) show ?thesis by (simp add: conformance_case_def case_ok_def passes_def Let_def)
next
  assume "branch_requirement name = None"
  with assms(2) show ?thesis by (simp add: conformance_case_def case_ok_def passes_def Let_def)
qed

lemma corpus_unnamed [simp]:
  "branch_requirement ''authorized-l3'' = None" "branch_requirement ''authorized-l4'' = None"
  "branch_requirement ''l4-supervised-downgrade-still-requires-approval'' = None"
  by code_simp+

lemmas corpus_evaluation = local_evaluate_def level_order effective_level_def corpus_declared
  SUPERVISED_DOWNGRADE_def certification_denial_def is_l4_def

lemma l3_cases_ok: "list_all (case_ok std clock) l3_conformance_cases"
  unfolding l3_conformance_cases_def list.pred_inject(2)
  by (intro conjI;
      (rule list.pred_inject(1) |
       (rule case_ok_named, simp add: rego_deny_branch_requirements_def requirement_def,
        simp add: corpus_evaluation)))

lemma l4_cases_ok:
  assumes "reads_corpus_times std"
  shows "list_all (case_ok std clock) l4_conformance_cases"
proof -
  obtain past now future where times [simp]:
      "parse_instant std ''2026-08-27T00:00:00+00:00'' = Some past"
      "parse_instant std ''2026-08-28T00:00:00+00:00'' = Some now"
      "parse_instant std ''2026-09-01T00:00:00+00:00'' = Some future"
      "parse_instant std ''not-a-time'' = None" "past < now" "now < future"
    using assms unfolding reads_corpus_times_def by blast
  have [simp]: "(future \<le> now) = False" using times(6) leD by blast
  have [simp]: "past \<le> now" using times(5) by (rule less_imp_le)
  show ?thesis
    unfolding l4_conformance_cases_def list.pred_inject(2)
    by (intro conjI;
        (rule list.pred_inject(1) |
         (rule case_ok_named, simp add: rego_deny_branch_requirements_def requirement_def,
          simp add: corpus_evaluation)))
qed

definition corpus_names :: "string list" where
  "corpus_names =
     [''authorized-l3'',
      ''kill-switch-precedes-all-other-failures'',
      ''scope-service'',
      ''scope-environment'',
      ''runbook-environment'',
      ''runbook-blast-radius'',
      ''service-blast-radius'',
      ''autonomy-level'',
      ''runbook-certification'',
      ''l3-human-approval'',
      ''l4-error-budget'',
      ''l4-certification-absent'',
      ''l4-evaluation-time-unreadable'',
      ''l4-certification-expiry-unreadable'',
      ''l4-certification-expired'',
      ''l4-scope-missing'',
      ''l4-scope-mismatch'',
      ''l4-inputs-hash-missing'',
      ''audit-control-after-safety-and-certification'',
      ''verification-control'',
      ''authorized-l4'',
      ''l4-supervised-downgrade-still-requires-approval'']"

lemma corpus_names_length: "length corpus_names = 22"
  by (simp add: corpus_names_def)

text \<open>A reader of the corpus' timestamps.\<close>

definition corpus_std :: py_std where
  "corpus_std = fixture_std\<lparr>fromisoformat := (\<lambda>s.
     map_option (\<lambda>t. \<lparr>wall_us = t, utc_offset_us = Some 0\<rparr>)
       (map_of [(''2026-08-27T00:00:00+00:00'', 1), (''2026-08-28T00:00:00+00:00'', 2),
          (''2026-09-01T00:00:00+00:00'', 3)] s))\<rparr>"

lemma corpus_std_reads: "reads_corpus_times corpus_std"
  by (simp add: reads_corpus_times_def corpus_std_def parse_instant_def as_instant_def)

lemma conformance_case_name:
  "conformance_case n rb p q av control c a r = Inr k \<Longrightarrow> cc_name k = n"
  by (auto simp: conformance_case_def Let_def split: option.splits if_splits)

lemma corpus_case_names:
  "list_all2 (\<lambda>c n. \<forall>k. c = Inr k \<longrightarrow> cc_name k = n) (l3_conformance_cases @ l4_conformance_cases) corpus_names"
  unfolding l3_conformance_cases_def l4_conformance_cases_def corpus_names_def append.simps
  by (simp only: list_all2_Cons list_all2_Nil)
    (intro conjI allI impI; (erule conformance_case_name | rule refl))

lemma corpus_names_map:
  assumes "l3_conformance_cases @ l4_conformance_cases = map Inr ks"
  shows "map cc_name ks = corpus_names"
proof -
  have "list_all2 (\<lambda>k n. cc_name k = n) ks corpus_names"
    using corpus_case_names assms by (simp add: list_all2_map1)
  then show ?thesis by (simp add: list_all2_conv_all_nth list_eq_iff_nth_eq)
qed

lemma corpus_names_cover:
  "list_all (\<lambda>q. rq_boundary_only q \<or> rq_case_name q \<in> set corpus_names) rego_deny_branch_requirements"
  by code_simp

definition authorized_l3_case :: policy_conformance_case where
  "authorized_l3_case = \<lparr>cc_name = ''authorized-l3'', cc_runbook = l3_runbook, cc_policy = l3_policy,
     cc_request = l3_request, cc_approval_verified = True, cc_control = control_of True True,
     cc_autonomy = l3_context, cc_allowed = True, cc_reason = AUTHORIZED, cc_branch = None\<rparr>"

lemma corpus_first_case:
  "\<exists>ks. remediation_policy_conformance_cases = Inr ks \<and>
     find (\<lambda>k. cc_name k = ''authorized-l3'') ks = Some authorized_l3_case"
proof -
  have "list_all (case_ok corpus_std 0) (l3_conformance_cases @ l4_conformance_cases)"
    using l3_cases_ok l4_cases_ok [OF corpus_std_reads] by simp
  then obtain ks where ks: "remediation_policy_conformance_cases = Inr ks"
      "l3_conformance_cases @ l4_conformance_cases = map Inr ks"
    unfolding remediation_policy_conformance_cases_def using build_cases_ok by blast
  have "hd (l3_conformance_cases @ l4_conformance_cases) = Inr authorized_l3_case"
    unfolding l3_conformance_cases_def append.simps list.sel authorized_l3_case_def
    by (simp add: conformance_case_def)
  moreover have "l3_conformance_cases @ l4_conformance_cases \<noteq> []"
    by (simp add: l3_conformance_cases_def)
  ultimately obtain rest where "ks = authorized_l3_case # rest"
    unfolding ks(2) by (cases ks) auto
  then have "find (\<lambda>k. cc_name k = ''authorized-l3'') ks = Some authorized_l3_case"
    by (simp add: authorized_l3_case_def)
  with ks(1) show ?thesis by blast
qed

lemma corpus_level_missing:
  "branch_requirement ''policy-level-missing'' =
     Some (requirement DENY_POLICY_LEVEL_MISSING POLICY_LEVEL_MISSING ''policy-level-missing'' True)"
  "rq_reason (requirement b r n x) = r" "rq_branch (requirement b r n x) = b"
  by (code_simp, simp_all add: requirement_def)

section \<open>Properties\<close>

text \<open>The conformance corpus is consistent and the local evaluator passes it: every case can be
  built (no expected reason contradicts its contract branch), every branch that is not
  boundary-only has a case of its name, and on each case the evaluator returns the expected
  verdict and reason.\<close>

theorem evaluator_passes_corpus:
  assumes "reads_corpus_times std"
  shows "\<exists>ks. remediation_policy_conformance_cases = Inr ks \<and> length ks = 22 \<and>
     list_all (passes std clock) ks \<and>
     list_all (\<lambda>q. rq_boundary_only q \<or> list_ex (\<lambda>k. cc_name k = rq_case_name q) ks) rego_deny_branch_requirements"
proof -
  have "list_all (case_ok std clock) (l3_conformance_cases @ l4_conformance_cases)"
    using l3_cases_ok l4_cases_ok [OF assms] by simp
  then obtain ks where ks: "remediation_policy_conformance_cases = Inr ks" "list_all (passes std clock) ks"
      "l3_conformance_cases @ l4_conformance_cases = map Inr ks"
    unfolding remediation_policy_conformance_cases_def using build_cases_ok by blast
  from corpus_names_map [OF ks(3)] have "length ks = 22"
    by (metis length_map corpus_names_length)
  moreover have "list_all (\<lambda>q. rq_boundary_only q \<or> list_ex (\<lambda>k. cc_name k = rq_case_name q) ks)
      rego_deny_branch_requirements"
    using corpus_names_cover unfolding corpus_names_map [OF ks(3), symmetric]
    by (simp add: list_all_iff list_ex_iff) (metis imageE)
  ultimately show ?thesis using ks by blast
qed

theorem evaluator_passes_corpus_witness:
  "\<exists>ks. remediation_policy_conformance_cases = Inr ks \<and> list_all (passes corpus_std 0) ks"
  using evaluator_passes_corpus [OF corpus_std_reads, of 0] by blast

text \<open>The raw cases are refused before any domain object exists: the corpus' two malformed wire
  inputs can be built and the local evaluator denies each with the reason of the contract.\<close>

theorem raw_cases_denied:
  "\<exists>ks. raw_remediation_policy_conformance_cases std clock = Inr ks \<and> length ks = 2 \<and>
     list_all (\<lambda>k. local_evaluate_input (rc_input k) =
        Inr (evaluated False (reason_value (rc_reason k)) ''local-reference'')) ks"
proof -
  obtain ks where first: "remediation_policy_conformance_cases = Inr ks"
      "find (\<lambda>k. cc_name k = ''authorized-l3'') ks = Some authorized_l3_case"
    using corpus_first_case by blast
  show ?thesis
    unfolding raw_remediation_policy_conformance_cases_def first(1) rbind_simps first(2) option.case
    by (simp add: authorized_l3_case_def opa_input_def Let_def
        policy_json_def corpus_level_missing without_key_def with_key_def dict_del_def
        local_evaluate_input_def policy_input_boundary_denial_def)
qed

end
