(* ===== verification/Workflow_Lifecycle.thy ===== *)
theory Workflow_Lifecycle
  imports Canonical_Json
begin

text \<open>
  The authoritative records of \<open>src/state/models.py\<close> and the workflow-lifecycle contract of
  \<open>src/state/lifecycle.py\<close>: statuses, the transition table, event validation, the event
  fingerprint and \<open>apply_to\<close>, which creates or advances a record. The lemmas show that an
  accepted event follows the table, that the table is acyclic with the five terminal statuses
  as sinks, and that the identity of a workflow never changes.
\<close>

section \<open>Records\<close>

datatype workflow_status =
    RECEIVED | DIAGNOSING | PLANNED | WAITING_APPROVAL | EXECUTING | VERIFYING
  | SUCCEEDED | ROLLED_BACK | ESCALATED | FAILED | CANCELLED

fun status_value :: "workflow_status \<Rightarrow> string" where
  "status_value RECEIVED = ''received''"
| "status_value DIAGNOSING = ''diagnosing''"
| "status_value PLANNED = ''planned''"
| "status_value WAITING_APPROVAL = ''waiting_approval''"
| "status_value EXECUTING = ''executing''"
| "status_value VERIFYING = ''verifying''"
| "status_value SUCCEEDED = ''succeeded''"
| "status_value ROLLED_BACK = ''rolled_back''"
| "status_value ESCALATED = ''escalated''"
| "status_value FAILED = ''failed''"
| "status_value CANCELLED = ''cancelled''"

definition all_statuses :: "workflow_status list" where
  "all_statuses = [RECEIVED, DIAGNOSING, PLANNED, WAITING_APPROVAL, EXECUTING, VERIFYING,
     SUCCEEDED, ROLLED_BACK, ESCALATED, FAILED, CANCELLED]"

text \<open>\<open>WorkflowStatus(value)\<close>: the member with that value, or a \<open>ValueError\<close>.\<close>

definition workflow_status_of :: "string \<Rightarrow> workflow_status option" where
  "workflow_status_of v = find (\<lambda>s. status_value s = v) all_statuses"

record service_record =
  svc_service_id :: string
  svc_owner :: string
  svc_tier :: int
  svc_repositories :: "string list"
  svc_dependencies :: "string list"
  svc_slo_target :: "rat option"
  svc_autonomy_level :: int
  svc_metadata :: "(string \<times> string) list"
  svc_version :: int

record workflow_record =
  wf_workflow_id :: string
  wf_service_id :: string
  wf_environment :: string
  wf_kind :: string
  wf_status :: workflow_status
  wf_correlation_id :: string
  wf_plan_hash :: "string option"
  wf_version :: int
  wf_updated_at :: string
  wf_tenant_id :: string

section \<open>The transition table\<close>

fun allowed_transitions :: "workflow_status option \<Rightarrow> workflow_status list" where
  "allowed_transitions None = [RECEIVED]"
| "allowed_transitions (Some RECEIVED) = [DIAGNOSING, PLANNED, FAILED, ESCALATED, CANCELLED]"
| "allowed_transitions (Some DIAGNOSING) = [PLANNED, FAILED, ESCALATED, CANCELLED]"
| "allowed_transitions (Some PLANNED) =
     [WAITING_APPROVAL, EXECUTING, SUCCEEDED, FAILED, ESCALATED, CANCELLED]"
| "allowed_transitions (Some WAITING_APPROVAL) = [EXECUTING, FAILED, ESCALATED, CANCELLED]"
| "allowed_transitions (Some EXECUTING) = [VERIFYING, ROLLED_BACK, FAILED, ESCALATED, CANCELLED]"
| "allowed_transitions (Some VERIFYING) = [SUCCEEDED, ROLLED_BACK, FAILED, ESCALATED]"
| "allowed_transitions (Some SUCCEEDED) = []"
| "allowed_transitions (Some ROLLED_BACK) = []"
| "allowed_transitions (Some ESCALATED) = []"
| "allowed_transitions (Some FAILED) = []"
| "allowed_transitions (Some CANCELLED) = []"

section \<open>Lifecycle events\<close>

record lifecycle_event =
  ev_event_id :: string
  ev_idempotency_key :: string
  ev_workflow_id :: string
  ev_tenant_id :: string
  ev_service_id :: string
  ev_environment :: string
  ev_kind :: string
  ev_correlation_id :: string
  ev_actor :: string
  ev_action :: string
  ev_from_status :: "workflow_status option"
  ev_to_status :: workflow_status
  ev_expected_version :: "int option"
  ev_plan_hash :: "string option"
  ev_causation_id :: "string option"
  ev_consequential :: bool
  ev_attributes :: "(string \<times> json) list"
  ev_occurred_at :: string
  ev_schema_version :: int

definition LIFECYCLE_SCHEMA_VERSION :: int where
  "LIFECYCLE_SCHEMA_VERSION = 1"

text \<open>\<^verbatim>\<open>^[A-Za-z0-9][A-Za-z0-9._:/@-]{0,191}$\<close> and \<^verbatim>\<open>^sha256:[a-f0-9]{64}$\<close>.\<close>

definition lifecycle_identifier :: "string \<Rightarrow> bool" where
  "lifecycle_identifier s = bounded_identifier ''._:/@-'' 191 s"

definition is_plan_hash :: "string \<Rightarrow> bool" where
  "is_plan_hash s = (take 7 s = ''sha256:'' \<and> length (drop 7 s) = 64 \<and>
     list_all (\<lambda>c. c \<in> set ''0123456789abcdef'') (drop 7 s))"

fun check_identifiers :: "(string \<times> string) list \<Rightarrow> unit res" where
  "check_identifiers [] = Inr ()"
| "check_identifiers ((label, value) # rest) =
     (if \<not> lifecycle_identifier value
      then Inl (LifecycleContractError (label @ '' must be a bounded opaque identifier''))
      else check_identifiers rest)"

definition labelled_identifiers :: "lifecycle_event \<Rightarrow> (string \<times> string) list" where
  "labelled_identifiers e =
     [(''event_id'', ev_event_id e),
      (''idempotency_key'', ev_idempotency_key e),
      (''workflow_id'', ev_workflow_id e),
      (''tenant_id'', ev_tenant_id e),
      (''service_id'', ev_service_id e),
      (''environment'', ev_environment e),
      (''kind'', ev_kind e),
      (''correlation_id'', ev_correlation_id e),
      (''actor'', ev_actor e),
      (''action'', ev_action e)]"

text \<open>
  The type of \<open>ev_consequential\<close> and of \<open>ev_attributes\<close> makes the source's run-time type
  tests on them vacuous: they hold a boolean and JSON data.
\<close>

definition validate :: "py_std \<Rightarrow> lifecycle_event \<Rightarrow> unit res" where
  "validate std e =
     rbind (check_identifiers (labelled_identifiers e)) (\<lambda>_.
     if \<not> (case ev_causation_id e of None \<Rightarrow> True | Some c \<Rightarrow> lifecycle_identifier c)
     then Inl (LifecycleContractError ''causation_id must be a bounded opaque identifier when set'')
     else if ev_schema_version e \<noteq> LIFECYCLE_SCHEMA_VERSION
     then Inl (LifecycleContractError ''unsupported workflow lifecycle schema version'')
     else if \<not> (case ev_plan_hash e of None \<Rightarrow> True | Some h \<Rightarrow> is_plan_hash h)
     then Inl (LifecycleContractError ''plan_hash must be a sha256 digest when set'')
     else if \<not> (case ev_expected_version e of None \<Rightarrow> True | Some v \<Rightarrow> 1 \<le> v)
     then Inl (LifecycleContractError ''expected_version must be a positive integer when set'')
     else if ev_from_status e = None \<and> (ev_expected_version e \<noteq> None \<or> ev_to_status e \<noteq> RECEIVED)
     then Inl (LifecycleContractError ''a new workflow must transition to received without an expected version'')
     else if ev_from_status e \<noteq> None \<and> ev_expected_version e = None
     then Inl (LifecycleContractError ''an existing workflow transition requires an expected version'')
     else if ev_to_status e \<notin> set (allowed_transitions (ev_from_status e))
     then Inl (LifecycleContractError (''workflow transition '' @
            (case ev_from_status e of None \<Rightarrow> ''none'' | Some s \<Rightarrow> status_value s) @ '' -> '' @
            status_value (ev_to_status e) @ '' is not allowed''))
     else (case fromisoformat std (ev_occurred_at e) of
         None \<Rightarrow> Inl (LifecycleContractError ''occurred_at must be an ISO-8601 timestamp'')
       | Some d \<Rightarrow>
           if utc_offset_us d = None
           then Inl (LifecycleContractError ''occurred_at must include an explicit timezone'')
           else Inr ()))"

section \<open>Fingerprint\<close>

fun json_opt_str :: "string option \<Rightarrow> json" where
  "json_opt_str None = JNull"
| "json_opt_str (Some s) = JStr s"

fun json_opt_int :: "int option \<Rightarrow> json" where
  "json_opt_int None = JNull"
| "json_opt_int (Some i) = JInt i"

definition canonical_payload :: "lifecycle_event \<Rightarrow> json" where
  "canonical_payload e = JObj
     [(''schema_version'', JInt (ev_schema_version e)),
      (''event_id'', JStr (ev_event_id e)),
      (''idempotency_key'', JStr (ev_idempotency_key e)),
      (''workflow_id'', JStr (ev_workflow_id e)),
      (''tenant_id'', JStr (ev_tenant_id e)),
      (''service_id'', JStr (ev_service_id e)),
      (''environment'', JStr (ev_environment e)),
      (''kind'', JStr (ev_kind e)),
      (''correlation_id'', JStr (ev_correlation_id e)),
      (''causation_id'', json_opt_str (ev_causation_id e)),
      (''actor'', JStr (ev_actor e)),
      (''action'', JStr (ev_action e)),
      (''from_status'', json_opt_str (map_option status_value (ev_from_status e))),
      (''to_status'', JStr (status_value (ev_to_status e))),
      (''expected_version'', json_opt_int (ev_expected_version e)),
      (''plan_hash'', json_opt_str (ev_plan_hash e)),
      (''consequential'', JBool (ev_consequential e)),
      (''attributes'', JObj (ev_attributes e)),
      (''occurred_at'', JStr (ev_occurred_at e))]"

text \<open>The property \<open>fingerprint\<close> validates the event before it serialises it.\<close>

definition fingerprint :: "py_std \<Rightarrow> lifecycle_event \<Rightarrow> string res" where
  "fingerprint std e = rbind (validate std e) (\<lambda>_.
     Inr (''sha256:'' @ sha256_hex std (json_dumps std (canonical_payload e))))"

section \<open>Applying an event\<close>

fun check_unchanged :: "(string \<times> string \<times> string) list \<Rightarrow> unit res" where
  "check_unchanged [] = Inr ()"
| "check_unchanged ((label, actual, expected) # rest) =
     (if actual \<noteq> expected
      then Inl (LifecycleContractError (label @ '' cannot change during a workflow lifecycle''))
      else check_unchanged rest)"

definition apply_to :: "py_std \<Rightarrow> lifecycle_event \<Rightarrow> workflow_record option \<Rightarrow> workflow_record res" where
  "apply_to std e current =
     rbind (validate std e) (\<lambda>_.
     case current of
       None \<Rightarrow>
         if ev_from_status e \<noteq> None
         then Inl (LifecycleContractError ''workflow does not exist for a non-creation transition'')
         else Inr \<lparr>wf_workflow_id = ev_workflow_id e, wf_service_id = ev_service_id e,
           wf_environment = ev_environment e, wf_kind = ev_kind e, wf_status = ev_to_status e,
           wf_correlation_id = ev_correlation_id e, wf_plan_hash = ev_plan_hash e,
           wf_version = 1, wf_updated_at = ev_occurred_at e, wf_tenant_id = ev_tenant_id e\<rparr>
     | Some cur \<Rightarrow>
         (case ev_from_status e of
           None \<Rightarrow> Inl (LifecycleContractError ''workflow already exists'')
         | Some from \<Rightarrow>
             if wf_status cur \<noteq> from
             then Inl (LifecycleContractError (''workflow status is '' @ status_value (wf_status cur) @
                    '', expected '' @ status_value from))
             else rbind (check_unchanged
                 [(''tenant_id'', wf_tenant_id cur, ev_tenant_id e),
                  (''service_id'', wf_service_id cur, ev_service_id e),
                  (''environment'', wf_environment cur, ev_environment e),
                  (''kind'', wf_kind cur, ev_kind e),
                  (''correlation_id'', wf_correlation_id cur, ev_correlation_id e)]) (\<lambda>_.
               Inr (cur\<lparr>wf_status := ev_to_status e,
                 wf_plan_hash := (case ev_plan_hash e of None \<Rightarrow> wf_plan_hash cur | Some h \<Rightarrow> Some h),
                 wf_updated_at := ev_occurred_at e\<rparr>))))"

record transition_result =
  tr_record :: workflow_record
  tr_event_id :: string
  tr_idempotency_key :: string
  tr_replayed :: bool

section \<open>Facts about the contract\<close>

lemma unit_res_cases: "(r :: unit res) \<noteq> Inr () \<Longrightarrow> \<exists>e. r = Inl e"
  by (cases r) auto

lemma check_identifiers_ok:
  "check_identifiers xs = Inr u \<longleftrightarrow> (\<forall>x\<in>set xs. lifecycle_identifier (snd x))"
  by (induction xs rule: check_identifiers.induct) auto

lemma check_unchanged_ok:
  "check_unchanged xs = Inr u \<longleftrightarrow> (\<forall>x\<in>set xs. fst (snd x) = snd (snd x))"
  by (induction xs rule: check_unchanged.induct) auto

lemma validate_identifiers:
  "validate std e = Inr u \<Longrightarrow> check_identifiers (labelled_identifiers e) = Inr ()"
  by (auto simp: validate_def rbind_eq_Inr)

lemma validate_transition:
  "validate std e = Inr u \<Longrightarrow> ev_to_status e \<in> set (allowed_transitions (ev_from_status e))"
  by (auto simp: validate_def rbind_eq_Inr)

lemma validate_creation:
  "validate std e = Inr u \<Longrightarrow> ev_from_status e = None \<Longrightarrow> ev_expected_version e = None"
  by (auto simp: validate_def rbind_eq_Inr)

lemma validate_existing:
  assumes "validate std e = Inr u" "ev_from_status e = Some s"
  shows "\<exists>v. ev_expected_version e = Some v \<and> 1 \<le> v"
  using assms by (auto simp: validate_def rbind_eq_Inr split: option.splits)

lemmas validateD = validate_identifiers validate_transition validate_creation validate_existing

lemma apply_to_creates:
  assumes "apply_to std e None = Inr w"
  shows "ev_from_status e = None \<and> wf_status w = RECEIVED \<and> wf_version w = 1 \<and>
     wf_workflow_id w = ev_workflow_id e \<and> wf_tenant_id w = ev_tenant_id e \<and>
     wf_service_id w = ev_service_id e \<and> wf_environment w = ev_environment e \<and>
     wf_kind w = ev_kind e \<and> wf_correlation_id w = ev_correlation_id e \<and>
     wf_plan_hash w = ev_plan_hash e \<and> validate std e = Inr ()"
  using assms validate_transition [of std e]
  by (auto simp: apply_to_def rbind_eq_Inr split: if_splits)

lemma apply_to_advances:
  assumes "apply_to std e (Some cur) = Inr w"
  shows "ev_from_status e = Some (wf_status cur) \<and>
     w = cur\<lparr>wf_status := ev_to_status e,
           wf_plan_hash := (case ev_plan_hash e of None \<Rightarrow> wf_plan_hash cur | Some h \<Rightarrow> Some h),
           wf_updated_at := ev_occurred_at e\<rparr> \<and>
     wf_status w \<in> set (allowed_transitions (Some (wf_status cur))) \<and> validate std e = Inr ()"
  using assms validate_transition [of std e]
  by (auto simp: apply_to_def rbind_eq_Inr split: option.splits if_splits)

text \<open>The table is a strict order: no workflow can revisit a status.\<close>

fun status_rank :: "workflow_status \<Rightarrow> nat" where
  "status_rank RECEIVED = 0"
| "status_rank DIAGNOSING = 1"
| "status_rank PLANNED = 2"
| "status_rank WAITING_APPROVAL = 3"
| "status_rank EXECUTING = 4"
| "status_rank VERIFYING = 5"
| "status_rank s = 6"

definition terminal_status :: "workflow_status \<Rightarrow> bool" where
  "terminal_status s = (s \<in> {SUCCEEDED, ROLLED_BACK, ESCALATED, FAILED, CANCELLED})"

lemma allowed_transitions_rank:
  "t \<in> set (allowed_transitions (Some s)) \<Longrightarrow> status_rank s < status_rank t"
  by (cases s) auto

lemma terminal_status_iff: "terminal_status s \<longleftrightarrow> allowed_transitions (Some s) = []"
  by (cases s) (auto simp: terminal_status_def)

lemma status_rank_le: "status_rank s \<le> 6"
  by (cases s) auto

lemma status_value_inject [simp]: "status_value s = status_value t \<longleftrightarrow> s = t"
  by (cases s; cases t) auto

lemma workflow_status_of_value [simp]: "workflow_status_of (status_value s) = Some s"
  by (cases s) (auto simp: workflow_status_of_def all_statuses_def)

text \<open>
  A workflow that is not finished always has a legal next status, so the table leaves no
  workflow stuck.
\<close>

lemma not_terminal_can_fail:
  "\<not> terminal_status s \<Longrightarrow> FAILED \<in> set (allowed_transitions (Some s))
     \<and> ESCALATED \<in> set (allowed_transitions (Some s))"
  by (cases s) (auto simp: terminal_status_def)

subsection \<open>What a fingerprint binds\<close>

lemma json_opt_inject [simp]:
  "json_norm (json_opt_str a) = json_norm (json_opt_str b) \<longleftrightarrow> a = b"
  "json_norm (json_opt_int c) = json_norm (json_opt_int d) \<longleftrightarrow> c = d"
  by (cases a; cases b; auto) (cases c; cases d; auto)

lemma canonical_payload_binds:
  assumes "json_norm (canonical_payload a) = json_norm (canonical_payload b)"
  shows "a\<lparr>ev_attributes := []\<rparr> = b\<lparr>ev_attributes := []\<rparr> \<and>
     json_norm (JObj (ev_attributes a)) = json_norm (JObj (ev_attributes b))"
proof -
  define fs where "fs = (\<lambda>e. case canonical_payload e of JObj kvs \<Rightarrow> kvs | _ \<Rightarrow> [])"
  have fs: "canonical_payload e = JObj (fs e)" for e
    by (simp add: fs_def canonical_payload_def)
  have "distinct (map fst (fs e))" for e
    by (simp add: fs_def canonical_payload_def)
  with assms fs have *: "map_option json_norm (map_of (fs a) k) = map_option json_norm (map_of (fs b) k)" for k
    by (metis json_norm_fields)
  have "inj status_value" by (rule injI) simp
  then have st: "map_option status_value x = map_option status_value y \<longleftrightarrow> x = y" for x y
    by (rule option.inj_map [THEN inj_eq])
  note fields = fs_def canonical_payload_def st
  have e_event_id: "ev_event_id a = ev_event_id b" using * [of "''event_id''"] by (simp add: fields)
  have e_idempotency_key: "ev_idempotency_key a = ev_idempotency_key b" using * [of "''idempotency_key''"] by (simp add: fields)
  have e_workflow_id: "ev_workflow_id a = ev_workflow_id b" using * [of "''workflow_id''"] by (simp add: fields)
  have e_tenant_id: "ev_tenant_id a = ev_tenant_id b" using * [of "''tenant_id''"] by (simp add: fields)
  have e_service_id: "ev_service_id a = ev_service_id b" using * [of "''service_id''"] by (simp add: fields)
  have e_environment: "ev_environment a = ev_environment b" using * [of "''environment''"] by (simp add: fields)
  have e_kind: "ev_kind a = ev_kind b" using * [of "''kind''"] by (simp add: fields)
  have e_correlation_id: "ev_correlation_id a = ev_correlation_id b" using * [of "''correlation_id''"] by (simp add: fields)
  have e_actor: "ev_actor a = ev_actor b" using * [of "''actor''"] by (simp add: fields)
  have e_action: "ev_action a = ev_action b" using * [of "''action''"] by (simp add: fields)
  have e_causation_id: "ev_causation_id a = ev_causation_id b" using * [of "''causation_id''"] by (simp add: fields)
  have e_from_status: "ev_from_status a = ev_from_status b" using * [of "''from_status''"] by (simp add: fields)
  have e_to_status: "ev_to_status a = ev_to_status b" using * [of "''to_status''"] by (simp add: fields)
  have e_expected_version: "ev_expected_version a = ev_expected_version b" using * [of "''expected_version''"] by (simp add: fields)
  have e_plan_hash: "ev_plan_hash a = ev_plan_hash b" using * [of "''plan_hash''"] by (simp add: fields)
  have e_consequential: "ev_consequential a = ev_consequential b" using * [of "''consequential''"] by (simp add: fields)
  have e_occurred_at: "ev_occurred_at a = ev_occurred_at b" using * [of "''occurred_at''"] by (simp add: fields)
  have e_schema_version: "ev_schema_version a = ev_schema_version b" using * [of "''schema_version''"] by (simp add: fields)
  have attributes: "json_norm (JObj (ev_attributes a)) = json_norm (JObj (ev_attributes b))"
    using * [of "''attributes''"] by (simp add: fields)
  show ?thesis
    by (rule conjI [OF lifecycle_event.equality attributes])
       (simp_all add: e_event_id e_idempotency_key e_workflow_id e_tenant_id e_service_id e_environment e_kind e_correlation_id e_actor e_action e_causation_id e_from_status e_to_status e_expected_version e_plan_hash e_consequential e_occurred_at e_schema_version)
qed

lemma fingerprint_eq_Inr:
  "fingerprint std e = Inr f \<longleftrightarrow> validate std e = Inr () \<and>
     f = ''sha256:'' @ sha256_hex std (json_dumps std (canonical_payload e))"
  by (auto simp: fingerprint_def rbind_eq_Inr)

end
