(* ===== verification/Control_Plane_Runtime.thy ===== *)
theory Control_Plane_Runtime
  imports Eip_Prelude
begin

text \<open>
  Runtime-profile guardrails: \<open>src/control_plane/runtime.py\<close> and the backend factory
  \<open>src/state/factory.py\<close>. The process environment and an explicit mapping are separate arguments:
  the SQLite backends consult the former whatever mapping a caller passes. The lemmas show that
  no local backend is built in a Temporal process and that a Cosmos backend needs its whole
  configuration.
\<close>

definition control_plane_mode :: "environ \<Rightarrow> string res" where
  "control_plane_mode env =
     (let mode = py_lower (py_strip (env_get env ''EIP_CONTROL_PLANE_MODE'' ''reference'')) in
      if mode \<notin> {''reference'', ''temporal'', ''disabled''}
      then Inl (ControlPlaneConfigurationError ''EIP_CONTROL_PLANE_MODE must be one of: disabled, reference, temporal'')
      else Inr mode)"

definition require_reference_storage :: "string \<Rightarrow> environ \<Rightarrow> unit res" where
  "require_reference_storage component env =
     rbind (control_plane_mode env) (\<lambda>mode.
     if mode = ''temporal''
     then Inl (ControlPlaneConfigurationError (component @
       '' is a reference-only backend; Temporal mode requires managed durable dependencies''))
     else Inr ())"

record temporal_settings =
  tw_endpoint :: string
  tw_namespace :: string
  tw_task_queue :: string
  tw_tls_server_name :: string
  tw_tls_ca_cert_path :: string
  tw_tls_client_cert_path :: string
  tw_tls_client_key_path :: string

definition temporal_variables :: "string list" where
  "temporal_variables = [''EIP_TEMPORAL_ENDPOINT'', ''EIP_TEMPORAL_NAMESPACE'', ''EIP_TEMPORAL_TASK_QUEUE'',
     ''EIP_TEMPORAL_TLS_SERVER_NAME'', ''EIP_TEMPORAL_TLS_CA_CERT_PATH'', ''EIP_TEMPORAL_TLS_CLIENT_CERT_PATH'',
     ''EIP_TEMPORAL_TLS_CLIENT_KEY_PATH'']"

definition stripped_var :: "environ \<Rightarrow> string \<Rightarrow> string" where
  "stripped_var env v = py_strip (env_get env v [])"

fun check_absolute :: "environ \<Rightarrow> string list \<Rightarrow> unit res" where
  "check_absolute env [] = Inr ()"
| "check_absolute env (v # vs) =
     (if \<not> py_startswith ''/'' (stripped_var env v)
      then Inl (ControlPlaneConfigurationError (v @ '' must be an absolute mounted-file path''))
      else check_absolute env vs)"

definition temporal_settings_from_environment :: "environ \<Rightarrow> temporal_settings res" where
  "temporal_settings_from_environment env =
     rbind (control_plane_mode env) (\<lambda>mode.
     if mode \<noteq> ''temporal''
     then Inl (ControlPlaneConfigurationError ''Temporal worker settings require EIP_CONTROL_PLANE_MODE=temporal'')
     else
       let val = stripped_var env; missing = filter (\<lambda>v. val v = []) temporal_variables in
       if missing \<noteq> []
       then Inl (ControlPlaneConfigurationError (''Temporal worker is incomplete; required: '' @ py_join '', '' missing))
       else if py_contains ''://'' (val ''EIP_TEMPORAL_ENDPOINT'') \<or> py_contains ''/'' (val ''EIP_TEMPORAL_ENDPOINT'')
       then Inl (ControlPlaneConfigurationError ''EIP_TEMPORAL_ENDPOINT must be a host:port, not a URL'')
       else rbind (check_absolute env [''EIP_TEMPORAL_TLS_CA_CERT_PATH'', ''EIP_TEMPORAL_TLS_CLIENT_CERT_PATH'',
              ''EIP_TEMPORAL_TLS_CLIENT_KEY_PATH'']) (\<lambda>_.
       Inr \<lparr>tw_endpoint = val ''EIP_TEMPORAL_ENDPOINT'', tw_namespace = val ''EIP_TEMPORAL_NAMESPACE'',
         tw_task_queue = val ''EIP_TEMPORAL_TASK_QUEUE'', tw_tls_server_name = val ''EIP_TEMPORAL_TLS_SERVER_NAME'',
         tw_tls_ca_cert_path = val ''EIP_TEMPORAL_TLS_CA_CERT_PATH'',
         tw_tls_client_cert_path = val ''EIP_TEMPORAL_TLS_CLIENT_CERT_PATH'',
         tw_tls_client_key_path = val ''EIP_TEMPORAL_TLS_CLIENT_KEY_PATH''\<rparr>))"

section \<open>Backends\<close>

datatype cosmos_source = InjectedContainer | FromEnvironment

datatype state_backend = SqliteStateStore string | CosmosStateStore cosmos_source
datatype audit_backend = SqliteAuditLog string | CosmosAuditLog cosmos_source string

definition COSMOS_STATE_VARIABLES :: "string list" where
  "COSMOS_STATE_VARIABLES = [''EIP_COSMOS_ENDPOINT'', ''EIP_COSMOS_DATABASE'', ''EIP_COSMOS_STATE_CONTAINER'']"

definition COSMOS_AUDIT_VARIABLES :: "string list" where
  "COSMOS_AUDIT_VARIABLES = [''EIP_COSMOS_ENDPOINT'', ''EIP_COSMOS_DATABASE'', ''EIP_COSMOS_AUDIT_CONTAINER'']"

definition COSMOS_VARIABLES :: "string list" where
  "COSMOS_VARIABLES = [''EIP_COSMOS_ENDPOINT'', ''EIP_COSMOS_DATABASE'', ''EIP_COSMOS_STATE_CONTAINER'',
     ''EIP_COSMOS_AUDIT_CONTAINER'']"

definition missing_variables :: "environ \<Rightarrow> string list \<Rightarrow> string list" where
  "missing_variables env names = filter (\<lambda>n. stripped_var env n = []) names"

definition missing_cosmos_configuration :: "environ \<Rightarrow> string list" where
  "missing_cosmos_configuration env = missing_variables env COSMOS_VARIABLES"

definition cosmos_backends_available :: "environ \<Rightarrow> bool res" where
  "cosmos_backends_available env =
     rbind (control_plane_mode env) (\<lambda>mode. Inr (mode = ''temporal'' \<and> missing_cosmos_configuration env = []))"

definition require_cosmos :: "environ \<Rightarrow> string list \<Rightarrow> string \<Rightarrow> unit res" where
  "require_cosmos env names component =
     (let missing = missing_variables env names in
      if missing \<noteq> []
      then Inl (RuntimeError (component @ '' requires Cosmos configuration in Temporal mode; missing: '' @
             py_join '', '' missing))
      else Inr ())"

text \<open>\<^verbatim>\<open>source.get(name) or default\<close>\<close>

definition var_or :: "environ \<Rightarrow> string \<Rightarrow> string \<Rightarrow> string" where
  "var_or env name d = (case env name of None \<Rightarrow> d | Some v \<Rightarrow> if v = [] then d else v)"

definition build_state_store :: "environ \<Rightarrow> environ \<Rightarrow> bool \<Rightarrow> state_backend res" where
  "build_state_store process_env env has_container =
     rbind (control_plane_mode env) (\<lambda>mode.
     if mode = ''disabled'' then Inl (RuntimeError ''control plane disabled'')
     else if mode = ''reference''
     then rbind (require_reference_storage ''SqliteStateStore'' process_env) (\<lambda>_.
       Inr (SqliteStateStore (var_or env ''EIP_STATE_DB_PATH'' ''eip-state.db'')))
     else rbind (require_cosmos env COSMOS_STATE_VARIABLES ''authoritative state store'') (\<lambda>_.
       Inr (CosmosStateStore (if has_container then InjectedContainer else FromEnvironment))))"

definition build_audit_log :: "environ \<Rightarrow> environ \<Rightarrow> bool \<Rightarrow> audit_backend res" where
  "build_audit_log process_env env has_container =
     rbind (control_plane_mode env) (\<lambda>mode.
     if mode = ''disabled'' then Inl (RuntimeError ''control plane disabled'')
     else if mode = ''reference''
     then rbind (require_reference_storage ''SqliteAuditLog'' process_env) (\<lambda>_.
       Inr (SqliteAuditLog (var_or env ''EIP_AUDIT_DB_PATH'' ''eip-audit.db'')))
     else rbind (require_cosmos env COSMOS_AUDIT_VARIABLES ''immutable audit log'') (\<lambda>_.
       Inr (CosmosAuditLog (if has_container then InjectedContainer else FromEnvironment)
         (var_or env ''EIP_COSMOS_AUDIT_PARTITION'' ''eip-audit-chain''))))"

section \<open>Facts\<close>

lemma control_plane_mode_Inr:
  "control_plane_mode env = Inr m \<Longrightarrow> m = ''reference'' \<or> m = ''temporal'' \<or> m = ''disabled''"
  by (auto simp: control_plane_mode_def Let_def)

lemma missing_variables_empty:
  "missing_variables env ns = [] \<longleftrightarrow> list_all (\<lambda>n. stripped_var env n \<noteq> []) ns"
  by (simp add: missing_variables_def filter_empty_conv list_all_iff)

lemma check_absolute_Inr:
  "check_absolute env vs = Inr u \<longleftrightarrow> list_all (\<lambda>v. py_startswith ''/'' (stripped_var env v)) vs"
  by (induction vs) auto

lemma require_cosmos_Inr:
  "require_cosmos env ns c = Inr u \<longleftrightarrow> list_all (\<lambda>n. stripped_var env n \<noteq> []) ns"
  by (simp add: require_cosmos_def Let_def missing_variables_empty)

lemma require_reference_storage_Inr:
  "require_reference_storage c env = Inr u \<longleftrightarrow> (\<exists>m. control_plane_mode env = Inr m \<and> m \<noteq> ''temporal'')"
  by (auto simp: require_reference_storage_def rbind_eq_Inr)

lemma var_or_nonempty: "d \<noteq> [] \<Longrightarrow> var_or env v d \<noteq> []"
  by (auto simp: var_or_def split: option.splits)

lemma other_mode:
  "control_plane_mode env = Inr m \<Longrightarrow> m \<noteq> ''disabled'' \<Longrightarrow> m \<noteq> ''reference'' \<Longrightarrow> m = ''temporal''"
  using control_plane_mode_Inr by blast

lemma reference_process:
  assumes "require_reference_storage k env = Inr u"
  shows "control_plane_mode env \<in> {Inr ''reference'', Inr ''disabled''}"
proof -
  obtain m where m: "control_plane_mode env = Inr m" "m \<noteq> ''temporal''"
    using assms unfolding require_reference_storage_Inr by blast
  with control_plane_mode_Inr [OF m(1)] show ?thesis by auto
qed

lemma mode_cases:
  assumes "build = rbind (control_plane_mode env) (\<lambda>mode. if mode = ''disabled'' then Inl d
      else if mode = ''reference'' then rbind ref (\<lambda>_. Inr a) else rbind cosmos (\<lambda>_. Inr b))"
    and "build = Inr x"
  shows "(control_plane_mode env = Inr ''reference'' \<and> (\<exists>u. ref = Inr u) \<and> x = a) \<or>
     (control_plane_mode env = Inr ''temporal'' \<and> (\<exists>u. cosmos = Inr u) \<and> x = b)"
proof -
  obtain m where m: "control_plane_mode env = Inr m" "m \<noteq> ''disabled''"
      "(if m = ''reference'' then rbind ref (\<lambda>_. Inr a) else rbind cosmos (\<lambda>_. Inr b)) = Inr x"
    using assms(2) unfolding assms(1) by (cases "control_plane_mode env") (auto split: if_splits)
  show ?thesis
  proof (cases "m = ''reference''")
    case True
    with m show ?thesis by (auto simp: rbind_eq_Inr)
  next
    case False
    with m other_mode have "m = ''temporal''" by blast
    with m False show ?thesis by (auto simp: rbind_eq_Inr)
  qed
qed

text \<open>Storage fails closed: a SQLite backend is built only when the mapping asks for the reference
  mode and the process itself is not in Temporal mode; a Cosmos backend only in Temporal mode
  with every one of its variables set to more than white space. In disabled or unknown modes
  nothing is built.\<close>

theorem storage_backends_fail_closed:
  "(case build_state_store process_env env c of
      Inr (SqliteStateStore path) \<Rightarrow> control_plane_mode env = Inr ''reference'' \<and>
        control_plane_mode process_env \<in> {Inr ''reference'', Inr ''disabled''} \<and> path \<noteq> []
    | Inr (CosmosStateStore src) \<Rightarrow> control_plane_mode env = Inr ''temporal'' \<and>
        list_all (\<lambda>n. stripped_var env n \<noteq> []) COSMOS_STATE_VARIABLES
    | Inl e \<Rightarrow> True) \<and>
   (case build_audit_log process_env env c of
      Inr (SqliteAuditLog path) \<Rightarrow> control_plane_mode env = Inr ''reference'' \<and>
        control_plane_mode process_env \<in> {Inr ''reference'', Inr ''disabled''} \<and> path \<noteq> []
    | Inr (CosmosAuditLog src part) \<Rightarrow> control_plane_mode env = Inr ''temporal'' \<and> part \<noteq> [] \<and>
        list_all (\<lambda>n. stripped_var env n \<noteq> []) COSMOS_AUDIT_VARIABLES
    | Inl e \<Rightarrow> True)"
proof (intro conjI)
  show "case build_state_store process_env env c of
      Inr (SqliteStateStore path) \<Rightarrow> control_plane_mode env = Inr ''reference'' \<and>
        control_plane_mode process_env \<in> {Inr ''reference'', Inr ''disabled''} \<and> path \<noteq> []
    | Inr (CosmosStateStore src) \<Rightarrow> control_plane_mode env = Inr ''temporal'' \<and>
        list_all (\<lambda>n. stripped_var env n \<noteq> []) COSMOS_STATE_VARIABLES
    | Inl e \<Rightarrow> True"
  proof (cases "build_state_store process_env env c")
    case (Inr x)
    from mode_cases [OF build_state_store_def Inr] show ?thesis
      unfolding Inr by (auto simp: require_cosmos_Inr var_or_nonempty dest!: reference_process)
  qed simp
  show "case build_audit_log process_env env c of
      Inr (SqliteAuditLog path) \<Rightarrow> control_plane_mode env = Inr ''reference'' \<and>
        control_plane_mode process_env \<in> {Inr ''reference'', Inr ''disabled''} \<and> path \<noteq> []
    | Inr (CosmosAuditLog src part) \<Rightarrow> control_plane_mode env = Inr ''temporal'' \<and> part \<noteq> [] \<and>
        list_all (\<lambda>n. stripped_var env n \<noteq> []) COSMOS_AUDIT_VARIABLES
    | Inl e \<Rightarrow> True"
  proof (cases "build_audit_log process_env env c")
    case (Inr x)
    from mode_cases [OF build_audit_log_def Inr] show ?thesis
      unfolding Inr by (auto simp: require_cosmos_Inr var_or_nonempty dest!: reference_process)
  qed simp
qed

text \<open>Worker settings that are accepted are usable: the process is in Temporal mode, every value
  is non-blank, the endpoint contains no slash, and the three certificate paths are absolute.\<close>

theorem temporal_settings_complete:
  "case temporal_settings_from_environment env of
     Inl e \<Rightarrow> (\<exists>m. e = ControlPlaneConfigurationError m)
   | Inr s \<Rightarrow> control_plane_mode env = Inr ''temporal'' \<and>
       list_all (\<lambda>v. v \<noteq> []) [tw_endpoint s, tw_namespace s, tw_task_queue s, tw_tls_server_name s,
         tw_tls_ca_cert_path s, tw_tls_client_cert_path s, tw_tls_client_key_path s] \<and>
       py_contains ''/'' (tw_endpoint s) = False \<and>
       list_all (py_startswith ''/'') [tw_tls_ca_cert_path s, tw_tls_client_cert_path s, tw_tls_client_key_path s]"
proof -
  have err: "\<exists>m. e = ControlPlaneConfigurationError m" if "check_absolute env vs = Inl e" for e vs
    using that by (induction vs) (auto split: if_splits)
  have mode: "\<exists>m. e = ControlPlaneConfigurationError m" if "control_plane_mode env = Inl e" for e
    using that by (auto simp: control_plane_mode_def Let_def split: if_splits)
  show ?thesis
  proof (cases "temporal_settings_from_environment env")
    case (Inl e)
    then have "\<exists>m. e = ControlPlaneConfigurationError m"
      unfolding temporal_settings_from_environment_def Let_def
      by (auto simp: rbind_eq_Inl split: if_splits dest: err mode)
    with Inl show ?thesis by simp
  next
    case (Inr s)
    then have "control_plane_mode env = Inr ''temporal''"
        "filter (\<lambda>v. stripped_var env v = []) temporal_variables = []"
        "py_contains ''/'' (stripped_var env ''EIP_TEMPORAL_ENDPOINT'') = False"
        "list_all (\<lambda>v. py_startswith ''/'' (stripped_var env v)) [''EIP_TEMPORAL_TLS_CA_CERT_PATH'',
           ''EIP_TEMPORAL_TLS_CLIENT_CERT_PATH'', ''EIP_TEMPORAL_TLS_CLIENT_KEY_PATH'']"
      and s: "s = \<lparr>tw_endpoint = stripped_var env ''EIP_TEMPORAL_ENDPOINT'',
         tw_namespace = stripped_var env ''EIP_TEMPORAL_NAMESPACE'',
         tw_task_queue = stripped_var env ''EIP_TEMPORAL_TASK_QUEUE'',
         tw_tls_server_name = stripped_var env ''EIP_TEMPORAL_TLS_SERVER_NAME'',
         tw_tls_ca_cert_path = stripped_var env ''EIP_TEMPORAL_TLS_CA_CERT_PATH'',
         tw_tls_client_cert_path = stripped_var env ''EIP_TEMPORAL_TLS_CLIENT_CERT_PATH'',
         tw_tls_client_key_path = stripped_var env ''EIP_TEMPORAL_TLS_CLIENT_KEY_PATH''\<rparr>"
      unfolding temporal_settings_from_environment_def Let_def
      by (auto simp only: rbind_eq_Inr check_absolute_Inr Inr_eq_if sum.inject if_False if_True split: if_splits)
    moreover from this(2) have "list_all (\<lambda>v. stripped_var env v \<noteq> []) temporal_variables"
      by (simp only: filter_empty_conv list_all_iff)
    ultimately show ?thesis unfolding Inr by (simp add: temporal_variables_def)
  qed
qed

end
