(* ===== verification/Remediation_Workflow.thy ===== *)
theory Remediation_Workflow
  imports Workflow_Lifecycle Policy_Boundary Control_Plane_Runtime
begin

text \<open>
  The durable remediation workflow of \<open>src/orchestration/remediation_workflow.py\<close>: its opt-in gate, its
  data contracts, the pure decisions after each step, the wait for a human approval and the
  \<open>run\<close> method itself.

  The workflow reaches its activities through the Temporal runtime, by name and under a retry
  policy; here they are the fields of \<open>activity_port\<close>, each of which returns what
  \<open>execute_activity\<close> returns to the workflow, with the world afterwards. The signals that arrive
  while it waits are a list of wake-ups in the order of their times.
\<close>

section \<open>Opt-in\<close>

definition remediation_workflows_enabled :: "environ \<Rightarrow> bool" where
  "remediation_workflows_enabled env =
     (py_lower (py_strip (env_get env ''EIP_TEMPORAL_REMEDIATION_WORKFLOWS'' [])) = ''enabled'')"

definition require_remediation_workflows :: "string \<Rightarrow> environ \<Rightarrow> unit res" where
  "require_remediation_workflows step env =
     (if remediation_workflows_enabled env then Inr ()
      else Inl (RemediationWorkflowsDisabled (step @
        '' is a consequential remediation activity; set EIP_TEMPORAL_REMEDIATION_WORKFLOWS=enabled to register it'')))"

record remediation_registration =
  rg_registered :: bool
  rg_flag_enabled :: bool
  rg_missing_configuration :: "string list"
  rg_reason :: string

definition registration_decision :: "environ \<Rightarrow> remediation_registration res" where
  "registration_decision env =
     (if \<not> remediation_workflows_enabled env
      then Inr \<lparr>rg_registered = False, rg_flag_enabled = False, rg_missing_configuration = [],
        rg_reason = ''EIP_TEMPORAL_REMEDIATION_WORKFLOWS is not enabled; the worker stays evidence-only''\<rparr>
      else
      rbind (cosmos_backends_available env) (\<lambda>available.
      if available
      then Inr \<lparr>rg_registered = True, rg_flag_enabled = True, rg_missing_configuration = [],
        rg_reason = ''flag enabled and the state factory builds Cosmos state and audit''\<rparr>
      else
      let missing = missing_cosmos_configuration env in
      rbind (control_plane_mode env) (\<lambda>mode.
      if mode \<noteq> ''temporal''
      then Inr \<lparr>rg_registered = False, rg_flag_enabled = True, rg_missing_configuration = missing,
        rg_reason = ''EIP_CONTROL_PLANE_MODE='' @ mode @ '' builds the reference SQLite backends, not Cosmos state and audit; remediation workflows require temporal mode''\<rparr>
      else Inr \<lparr>rg_registered = False, rg_flag_enabled = True, rg_missing_configuration = missing,
        rg_reason = ''Cosmos state and audit configuration is incomplete; missing: '' @ py_join '', '' missing\<rparr>)))"

section \<open>Data contracts\<close>

record remediation_request =
  rr_request_id :: string
  rr_incident_id :: string
  rr_service :: string
  rr_environment :: string
  rr_correlation_id :: string
  rr_tenant_id :: string
  rr_blast_radius :: int
  rr_approval_timeout_seconds :: int

definition request_identifier :: "string \<Rightarrow> bool" where
  "request_identifier s = bounded_identifier ''._:-'' 127 s"

fun check_request_identifiers :: "(string \<times> string) list \<Rightarrow> unit res" where
  "check_request_identifiers [] = Inr ()"
| "check_request_identifiers ((label, v) # rest) =
     (if \<not> request_identifier v then Inl (ValueError (label @ '' must be a bounded opaque identifier''))
      else check_request_identifiers rest)"

definition validate_request :: "remediation_request \<Rightarrow> unit res" where
  "validate_request r =
     rbind (check_request_identifiers
       [(''request_id'', rr_request_id r), (''incident_id'', rr_incident_id r), (''service'', rr_service r),
        (''environment'', rr_environment r), (''correlation_id'', rr_correlation_id r), (''tenant_id'', rr_tenant_id r)])
     (\<lambda>_. if rr_blast_radius r < 0 then Inl (ValueError ''blast_radius must not be negative'')
          else if rr_approval_timeout_seconds r \<le> 0 then Inl (ValueError ''approval_timeout_seconds must be positive'')
          else Inr ())"

definition request_workflow_id :: "remediation_request \<Rightarrow> string res" where
  "request_workflow_id r = rbind (validate_request r) (\<lambda>_. Inr (''remediation:'' @ rr_request_id r))"

record evidence_bundle =
  eb_workflow_id :: string
  eb_workflow_version :: int
  eb_evidence :: "json list"
  eb_evidence_ids :: "string list"
  eb_audit_event_hash :: string

record plan_result =
  pr_workflow_id :: string
  pr_planned :: bool
  pr_reason :: string
  pr_runbook_id :: "string option"
  pr_plan_hash :: "string option"
  pr_confidence :: rat
  pr_evidence_ids :: "string list"
  pr_workflow_version :: int

record approval_signal =
  as_workflow_id :: string
  as_approver :: string
  as_plan_hash :: string
  as_issued_at :: int
  as_signature :: string

record signal_decision =
  sd_accepted :: bool
  sd_reason :: string

definition evaluate_approval_signal :: "string \<Rightarrow> string option \<Rightarrow> approval_signal \<Rightarrow> signal_decision" where
  "evaluate_approval_signal expected_workflow_id expected_plan_hash sig =
     (if \<not> (case expected_plan_hash of None \<Rightarrow> False | Some h \<Rightarrow> is_plan_hash h)
      then \<lparr>sd_accepted = False, sd_reason = ''there is no approved plan hash to approve against''\<rparr>
      else if as_workflow_id sig \<noteq> expected_workflow_id
      then \<lparr>sd_accepted = False, sd_reason = ''approval names a different workflow''\<rparr>
      else if Some (as_plan_hash sig) \<noteq> expected_plan_hash
      then \<lparr>sd_accepted = False, sd_reason = ''approval plan hash does not match the planned remediation''\<rparr>
      else if py_strip (as_approver sig) = []
      then \<lparr>sd_accepted = False, sd_reason = ''approval does not name an approver''\<rparr>
      else if py_strip (as_signature sig) = []
      then \<lparr>sd_accepted = False, sd_reason = ''approval carries no signature to verify''\<rparr>
      else \<lparr>sd_accepted = True, sd_reason = ''approval is bound to this workflow and plan hash''\<rparr>)"

record approval_verification =
  av_verified :: bool
  av_reason :: string
  av_approver :: string

record policy_verdict =
  pv_allowed :: bool
  pv_reason :: string
  pv_policy_revision :: string

record rehearsal_verdict =
  rv_safe_to_promote :: bool
  rv_status :: string
  rv_notes :: "string list"

record action_outcome =
  ao_status :: string
  ao_reason :: string
  ao_execution_ref :: "string option"
  ao_verified :: bool
  ao_rollback_ref :: "string option"
  ao_error :: "string option"
  ao_from_status :: string
  ao_workflow_version :: int

record remediation_outcome =
  ro_workflow_id :: string
  ro_status :: string
  ro_reason :: string
  ro_plan_hash :: "string option"
  ro_approver :: string
  ro_execution_ref :: "string option"
  ro_rollback_ref :: "string option"
  ro_audit_event_hash :: string
  ro_mutation_attempted :: bool

section \<open>Decisions\<close>

record step_decision =
  st_proceed :: bool
  st_terminal_status :: string
  st_reason :: string

abbreviation PROCEED :: step_decision where
  "PROCEED \<equiv> \<lparr>st_proceed = True, st_terminal_status = [], st_reason = []\<rparr>"

abbreviation stop_step :: "string \<Rightarrow> string \<Rightarrow> step_decision" where
  "stop_step status reason \<equiv> \<lparr>st_proceed = False, st_terminal_status = status, st_reason = reason\<rparr>"

definition or_default :: "string \<Rightarrow> string \<Rightarrow> string" where
  "or_default s d = (if s = [] then d else s)"

definition decide_after_plan :: "plan_result \<Rightarrow> step_decision" where
  "decide_after_plan p =
     (if \<not> pr_planned p \<or> \<not> has_text (pr_runbook_id p) \<or> \<not> has_text (pr_plan_hash p)
      then stop_step ''escalate'' (or_default (pr_reason p) ''no certified runbook matched the evidence'')
      else PROCEED)"

definition decide_after_approval :: "approval_verification \<Rightarrow> step_decision" where
  "decide_after_approval v =
     (if \<not> av_verified v
      then stop_step ''escalate'' (or_default (av_reason v) ''human approval could not be verified'')
      else PROCEED)"

definition decide_after_policy :: "policy_verdict \<Rightarrow> step_decision" where
  "decide_after_policy v =
     (if \<not> pv_allowed v then stop_step ''denied'' (or_default (pv_reason v) ''policy denied the remediation'')
      else PROCEED)"

definition decide_after_rehearsal :: "rehearsal_verdict \<Rightarrow> step_decision" where
  "decide_after_rehearsal r =
     (if \<not> rv_safe_to_promote r
      then stop_step ''escalate'' ''digital-twin rehearsal did not verify; production promotion stays blocked''
      else PROCEED)"

definition terminal_status_table :: "(string \<times> string) list" where
  "terminal_status_table = [(''succeeded'', ''succeeded''), (''rolled_back'', ''rolled_back''),
     (''escalate'', ''escalated''), (''escalated'', ''escalated''), (''denied'', ''denied'')]"

definition terminal_status_for_action :: "action_outcome \<Rightarrow> string" where
  "terminal_status_for_action a = (case map_of terminal_status_table (ao_status a) of None \<Rightarrow> ''failed'' | Some s \<Rightarrow> s)"

section \<open>Waiting for approval\<close>

record approval_queue =
  aq_pending :: "approval_signal list"
  aq_rejected :: "string list"

definition submit_approval :: "approval_signal \<Rightarrow> approval_queue \<Rightarrow> approval_queue" where
  "submit_approval sig s = s\<lparr>aq_pending := aq_pending s @ [sig]\<rparr>"

text \<open>
  The inner loop: pop until a signal is accepted or none is left. The workflow id is a property of
  the request that validates it, so reading it for a candidate may raise.
\<close>

fun drain_signals ::
    "string res \<Rightarrow> string option \<Rightarrow> approval_signal list \<Rightarrow> string list \<Rightarrow> (approval_signal option \<times> approval_queue) res" where
  "drain_signals wid h [] rejected = Inr (None, \<lparr>aq_pending = [], aq_rejected = rejected\<rparr>)"
| "drain_signals wid h (c # cs) rejected =
     rbind wid (\<lambda>workflow_id.
     let d = evaluate_approval_signal workflow_id h c in
     if sd_accepted d then Inr (Some c, \<lparr>aq_pending = cs, aq_rejected = rejected\<rparr>)
     else drain_signals wid h cs (rejected @ [sd_reason d]))"

text \<open>
  The outer loop, from the moment \<open>now\<close>: a wake-up before the deadline appends its signals and the
  inner loop runs; when no further wake-up comes before the deadline the wait times out.
\<close>

fun await_approval ::
    "string res \<Rightarrow> string option \<Rightarrow> instant \<Rightarrow> instant \<Rightarrow> (instant \<times> approval_signal list) list \<Rightarrow> approval_queue \<Rightarrow>
       (approval_signal option \<times> approval_queue) res" where
  "await_approval wid h deadline now [] s =
     (if deadline - now \<le> 0 then Inr (None, s) else drain_signals wid h (aq_pending s) (aq_rejected s))"
| "await_approval wid h deadline now ((t, sigs) # wakes) s =
     (if deadline - now \<le> 0 then Inr (None, s)
      else
        rbind (drain_signals wid h (aq_pending s) (aq_rejected s)) (\<lambda>(accepted, s').
        if accepted \<noteq> None \<or> t \<ge> deadline then Inr (accepted, s')
        else await_approval wid h deadline t wakes (fold submit_approval sigs s')))"

section \<open>The workflow\<close>

record 'w activity_port =
  ap_collect_evidence :: "remediation_request \<Rightarrow> string \<Rightarrow> 'w \<Rightarrow> evidence_bundle res \<times> 'w"
  ap_plan :: "remediation_request \<Rightarrow> evidence_bundle \<Rightarrow> string \<Rightarrow> 'w \<Rightarrow> plan_result res \<times> 'w"
  ap_verify_approval :: "remediation_request \<Rightarrow> plan_result \<Rightarrow> approval_signal \<Rightarrow> 'w \<Rightarrow> approval_verification res \<times> 'w"
  ap_evaluate_policy :: "remediation_request \<Rightarrow> plan_result \<Rightarrow> bool \<Rightarrow> 'w \<Rightarrow> policy_verdict res \<times> 'w"
  ap_rehearse :: "remediation_request \<Rightarrow> plan_result \<Rightarrow> bool \<Rightarrow> 'w \<Rightarrow> rehearsal_verdict res \<times> 'w"
  ap_execute_action :: "remediation_request \<Rightarrow> plan_result \<Rightarrow> bool \<Rightarrow> string \<Rightarrow> 'w \<Rightarrow> action_outcome res \<times> 'w"
  ap_record_outcome :: "remediation_request \<Rightarrow> plan_result \<Rightarrow> action_outcome \<Rightarrow> string \<Rightarrow> string \<Rightarrow> 'w \<Rightarrow> remediation_outcome res \<times> 'w"

text \<open>What the workflow does not decide: the times it reads and the signals it is sent.\<close>

record schedule =
  sc_times :: "nat \<Rightarrow> string"
  sc_wait_start :: instant
  sc_wakes :: "(instant \<times> approval_signal list) list"
  sc_early :: "approval_signal list"

definition record_step ::
    "'w activity_port \<Rightarrow> schedule \<Rightarrow> remediation_request \<Rightarrow> plan_result \<Rightarrow> action_outcome \<Rightarrow> string \<Rightarrow> 'w \<Rightarrow>
       remediation_outcome res \<times> 'w" where
  "record_step port sc req plan outcome approver = ap_record_outcome port req plan outcome approver (sc_times sc 3)"

definition finish_step ::
    "'w activity_port \<Rightarrow> schedule \<Rightarrow> remediation_request \<Rightarrow> plan_result \<Rightarrow> step_decision \<Rightarrow> string \<Rightarrow> string \<Rightarrow> int \<Rightarrow> 'w \<Rightarrow>
       remediation_outcome res \<times> 'w" where
  "finish_step port sc req plan d approver from_status version =
     record_step port sc req plan
       \<lparr>ao_status = st_terminal_status d, ao_reason = st_reason d, ao_execution_ref = None, ao_verified = False,
        ao_rollback_ref = None, ao_error = None, ao_from_status = from_status, ao_workflow_version = version\<rparr> approver"

text \<open>The steps of \<open>run\<close> from the last to the first, each with what follows it.\<close>

definition action_step ::
    "'w activity_port \<Rightarrow> schedule \<Rightarrow> remediation_request \<Rightarrow> plan_result \<Rightarrow> approval_verification \<Rightarrow> 'w \<Rightarrow>
       remediation_outcome res \<times> 'w" where
  "action_step port sc req plan verification =
     wbind (ap_execute_action port req plan True (sc_times sc 2)) (\<lambda>outcome.
     record_step port sc req plan outcome (av_approver verification))"

definition rehearsal_step ::
    "'w activity_port \<Rightarrow> schedule \<Rightarrow> remediation_request \<Rightarrow> plan_result \<Rightarrow> approval_verification \<Rightarrow> 'w \<Rightarrow>
       remediation_outcome res \<times> 'w" where
  "rehearsal_step port sc req plan verification =
     wbind (ap_rehearse port req plan True) (\<lambda>rehearsal.
     let d = decide_after_rehearsal rehearsal in
     if \<not> st_proceed d
     then finish_step port sc req plan d (av_approver verification) ''waiting_approval'' (pr_workflow_version plan)
     else action_step port sc req plan verification)"

definition policy_step ::
    "'w activity_port \<Rightarrow> schedule \<Rightarrow> remediation_request \<Rightarrow> plan_result \<Rightarrow> approval_verification \<Rightarrow> 'w \<Rightarrow>
       remediation_outcome res \<times> 'w" where
  "policy_step port sc req plan verification =
     wbind (ap_evaluate_policy port req plan True) (\<lambda>verdict.
     let d = decide_after_policy verdict in
     if \<not> st_proceed d
     then finish_step port sc req plan d (av_approver verification) ''waiting_approval'' (pr_workflow_version plan)
     else rehearsal_step port sc req plan verification)"

definition after_approval ::
    "'w activity_port \<Rightarrow> schedule \<Rightarrow> remediation_request \<Rightarrow> plan_result \<Rightarrow> approval_signal \<Rightarrow> 'w \<Rightarrow> remediation_outcome res \<times> 'w" where
  "after_approval port sc req plan sig =
     wbind (ap_verify_approval port req plan sig) (\<lambda>verification.
     let d = decide_after_approval verification in
     if \<not> st_proceed d
     then finish_step port sc req plan d [] ''waiting_approval'' (pr_workflow_version plan)
     else policy_step port sc req plan verification)"

definition wait_for_approval :: "schedule \<Rightarrow> remediation_request \<Rightarrow> plan_result \<Rightarrow> approval_signal option res" where
  "wait_for_approval sc req plan =
     rbind (await_approval (request_workflow_id req) (pr_plan_hash plan)
       (sc_wait_start sc + rr_approval_timeout_seconds req * 1000000) (sc_wait_start sc) (sc_wakes sc)
       \<lparr>aq_pending = sc_early sc, aq_rejected = []\<rparr>) (\<lambda>(accepted, s). Inr accepted)"

definition run_workflow ::
    "'w activity_port \<Rightarrow> schedule \<Rightarrow> remediation_request \<Rightarrow> 'w \<Rightarrow> remediation_outcome res \<times> 'w" where
  "run_workflow port sc req =
     wbind (ap_collect_evidence port req (sc_times sc 0)) (\<lambda>evidence.
     wbind (ap_plan port req evidence (sc_times sc 1)) (\<lambda>plan.
     let d = decide_after_plan plan in
     if \<not> st_proceed d
     then finish_step port sc req plan d [] ''received'' (eb_workflow_version evidence)
     else
     wbind (Pair (wait_for_approval sc req plan)) (\<lambda>sig.
     case sig of
       None \<Rightarrow> finish_step port sc req plan
         (stop_step ''escalate'' ''no valid human approval was received before the approval deadline'') []
         ''waiting_approval'' (pr_workflow_version plan)
     | Some c \<Rightarrow> after_approval port sc req plan c)))"

section \<open>Accepted signals\<close>

lemma drain_accepts:
  "drain_signals wid h cs rejected = Inr (Some c, s) \<Longrightarrow>
     c \<in> set cs \<and> (\<exists>workflow_id. wid = Inr workflow_id \<and> sd_accepted (evaluate_approval_signal workflow_id h c))"
  by (induction cs arbitrary: rejected) (auto simp: rbind_eq_Inr Let_def split: if_splits)

lemma submitted: "aq_pending (fold submit_approval sigs s) = aq_pending s @ sigs"
  by (induction sigs arbitrary: s) (simp_all add: submit_approval_def)

lemma drain_left: "drain_signals wid h cs rejected = Inr (None, s) \<Longrightarrow> aq_pending s = []"
  by (induction cs arbitrary: rejected) (auto simp: rbind_eq_Inr Let_def split: if_splits)

lemma await_accepts:
  "await_approval wid h deadline now wakes s = Inr (Some c, s') \<Longrightarrow>
     (c \<in> set (aq_pending s) \<or> (\<exists>(t, sigs) \<in> set wakes. c \<in> set sigs)) \<and>
     (\<exists>workflow_id. wid = Inr workflow_id \<and> sd_accepted (evaluate_approval_signal workflow_id h c))"
proof (induction wid h deadline now wakes s rule: await_approval.induct)
  case (1 wid h deadline now s)
  then show ?case by (auto dest: drain_accepts split: if_splits)
next
  case (2 wid h deadline now t sigs wakes s)
  then obtain acc s1 where d: "drain_signals wid h (aq_pending s) (aq_rejected s) = Inr (acc, s1)"
      "\<not> deadline - now \<le> 0" by (auto simp: rbind_eq_Inr split: if_splits)
  show ?case
  proof (cases "acc \<noteq> None \<or> t \<ge> deadline")
    case True
    with 2(2) d have "acc = Some c" by (auto split: if_splits)
    with d(1) drain_accepts show ?thesis by blast
  next
    case False
    with 2 d have "(c \<in> set (aq_pending (fold submit_approval sigs s1)) \<or> (\<exists>(t, sigs) \<in> set wakes. c \<in> set sigs)) \<and>
        (\<exists>workflow_id. wid = Inr workflow_id \<and> sd_accepted (evaluate_approval_signal workflow_id h c))" by auto
    moreover have "aq_pending s1 = []" using False d(1) drain_left by auto
    ultimately show ?thesis by (auto simp: submitted)
  qed
qed

section \<open>Traces of a run\<close>

text \<open>The activities a run completed or had fail, in order.\<close>

datatype activity_call =
    EvidenceCollected
  | Planned plan_result
  | ApprovalChecked approval_signal approval_verification
  | PolicyChecked policy_verdict
  | Rehearsed rehearsal_verdict
  | ActionRun
  | OutcomeRecorded action_outcome remediation_outcome
  | ActivityFailed

definition logged :: "('a \<Rightarrow> activity_call) \<Rightarrow> ('w \<Rightarrow> 'a res \<times> 'w) \<Rightarrow> activity_call list \<times> 'w \<Rightarrow> 'a res \<times> (activity_call list \<times> 'w)" where
  "logged f m s = (case m (snd s) of
      (Inl e, w') \<Rightarrow> (Inl e, (fst s @ [ActivityFailed], w')) | (Inr x, w') \<Rightarrow> (Inr x, (fst s @ [f x], w')))"

text \<open>The action is logged when it is started, whatever becomes of it.\<close>

definition logged_port :: "'w activity_port \<Rightarrow> (activity_call list \<times> 'w) activity_port" where
  "logged_port p =
     \<lparr>ap_collect_evidence = (\<lambda>r t. logged (\<lambda>_. EvidenceCollected) (ap_collect_evidence p r t)),
      ap_plan = (\<lambda>r e t. logged Planned (ap_plan p r e t)),
      ap_verify_approval = (\<lambda>r pl s. logged (ApprovalChecked s) (ap_verify_approval p r pl s)),
      ap_evaluate_policy = (\<lambda>r pl b. logged PolicyChecked (ap_evaluate_policy p r pl b)),
      ap_rehearse = (\<lambda>r pl b. logged Rehearsed (ap_rehearse p r pl b)),
      ap_execute_action = (\<lambda>r pl b t s. case ap_execute_action p r pl b t (snd s) of (x, w') \<Rightarrow> (x, (fst s @ [ActionRun], w'))),
      ap_record_outcome = (\<lambda>r pl a ap t. logged (OutcomeRecorded a) (ap_record_outcome p r pl a ap t))\<rparr>"

lemma logged_port_simps [simp]:
  "ap_collect_evidence (logged_port p) r t = logged (\<lambda>_. EvidenceCollected) (ap_collect_evidence p r t)"
  "ap_plan (logged_port p) r e t = logged Planned (ap_plan p r e t)"
  "ap_verify_approval (logged_port p) r pl s = logged (ApprovalChecked s) (ap_verify_approval p r pl s)"
  "ap_evaluate_policy (logged_port p) r pl b = logged PolicyChecked (ap_evaluate_policy p r pl b)"
  "ap_rehearse (logged_port p) r pl b = logged Rehearsed (ap_rehearse p r pl b)"
  "ap_record_outcome (logged_port p) r pl a ap t = logged (OutcomeRecorded a) (ap_record_outcome p r pl a ap t)"
  "ap_execute_action (logged_port p) r pl b t (tr, w) =
     (fst (ap_execute_action p r pl b t w), (tr @ [ActionRun], snd (ap_execute_action p r pl b t w)))"
  by (simp_all add: logged_port_def split: prod.splits)

text \<open>A value an activity has returned in some world.\<close>

definition answers :: "('w \<Rightarrow> 'a res \<times> 'w) \<Rightarrow> 'a \<Rightarrow> bool" where
  "answers m x \<longleftrightarrow> (\<exists>w w'. m w = (Inr x, w'))"

lemma logged_cases:
  assumes "wbind (logged f m) k (tr, w) = (out, (t, w'))"
  obtains (failed) e where "out = Inl e" "t = tr @ [ActivityFailed]"
  | (went) x w1 where "k x (tr @ [f x], w1) = (out, (t, w'))" "answers m x"
proof -
  obtain r w1 where m: "m w = (r, w1)" by fastforce
  show ?thesis
  proof (cases r)
    case (Inl e)
    with m assms show ?thesis by (intro failed) (auto simp: wbind_def logged_def)
  next
    case (Inr x)
    with m assms show ?thesis by (intro went [of x w1]) (auto simp: wbind_def logged_def answers_def)
  qed
qed

text \<open>How a run may end after its trace so far: with the record of an outcome, or with a failure.\<close>

definition ends :: "activity_call list \<Rightarrow> remediation_outcome res \<Rightarrow> activity_call list \<Rightarrow> bool" where
  "ends tr out t \<longleftrightarrow> (\<exists>e. out = Inl e \<and> t = tr @ [ActivityFailed]) \<or> (\<exists>a o'. out = Inr o' \<and> t = tr @ [OutcomeRecorded a o'])"

lemma record_ends: "record_step (logged_port p) sc req plan a ap (tr, w) = (out, (t, w')) \<Longrightarrow> ends tr out t"
  by (auto simp: record_step_def logged_def ends_def split: prod.splits sum.splits)

lemma finish_ends: "finish_step (logged_port p) sc req plan d ap fs v (tr, w) = (out, (t, w')) \<Longrightarrow> ends tr out t"
  by (auto simp: finish_step_def dest: record_ends)

lemma proceed_iffs:
  "st_proceed (decide_after_plan p) \<longleftrightarrow> pr_planned p \<and> has_text (pr_runbook_id p) \<and> has_text (pr_plan_hash p)"
  "st_proceed (decide_after_approval v) \<longleftrightarrow> av_verified v"
  "st_proceed (decide_after_policy v') \<longleftrightarrow> pv_allowed v'"
  "st_proceed (decide_after_rehearsal r) \<longleftrightarrow> rv_safe_to_promote r"
  by (auto simp: decide_after_plan_def decide_after_approval_def decide_after_policy_def decide_after_rehearsal_def)

definition acts :: "activity_call list \<Rightarrow> remediation_outcome res \<Rightarrow> activity_call list \<Rightarrow> bool" where
  "acts tr out t \<longleftrightarrow> (\<exists>e. out = Inl e \<and> t = tr @ [ActionRun]) \<or> ends (tr @ [ActionRun]) out t"

lemma action_trace:
  "action_step (logged_port p) sc req plan v (tr, w) = (out, (t, w')) \<Longrightarrow> acts tr out t"
  by (auto simp: action_step_def wbind_def acts_def split: sum.splits dest: record_ends)

text \<open>One gate: the run fails there, stops after it, or goes on because it was passed.\<close>

definition gate :: "('a \<Rightarrow> bool) \<Rightarrow> ('a \<Rightarrow> activity_call) \<Rightarrow>
    (activity_call list \<Rightarrow> remediation_outcome res \<Rightarrow> activity_call list \<Rightarrow> bool) \<Rightarrow>
    activity_call list \<Rightarrow> remediation_outcome res \<Rightarrow> activity_call list \<Rightarrow> bool" where
  "gate passed f after tr out t \<longleftrightarrow>
     ends tr out t \<or> (\<exists>x. ends (tr @ [f x]) out t) \<or> (\<exists>x. passed x \<and> after (tr @ [f x]) out t)"

lemma gate_trace:
  assumes run: "wbind (logged f m) (\<lambda>x. let d = dec x in if \<not> st_proceed d then fin x d else go x) (tr, w) = (out, (t, w'))"
    and fin: "\<And>x d tr w. fin x d (tr, w) = (out, (t, w')) \<Longrightarrow> ends tr out t"
    and go: "\<And>x tr w. go x (tr, w) = (out, (t, w')) \<Longrightarrow> after tr out t"
    and passed: "\<And>x. st_proceed (dec x) \<Longrightarrow> answers m x \<Longrightarrow> passed x"
  shows "gate passed f after tr out t"
  using run
proof (cases rule: logged_cases)
  case (failed e)
  then show ?thesis by (auto simp: gate_def ends_def)
next
  case (went x w1)
  show ?thesis
  proof (cases "st_proceed (dec x)")
    case True
    with went have "go x (tr @ [f x], w1) = (out, (t, w'))" by simp
    from go [OF this] passed [OF True went(2)] show ?thesis unfolding gate_def by blast
  next
    case False
    with went have "fin x (dec x) (tr @ [f x], w1) = (out, (t, w'))" by simp
    from fin [OF this] show ?thesis unfolding gate_def by blast
  qed
qed

lemma rehearsal_trace:
  "rehearsal_step (logged_port p) sc req plan v (tr, w) = (out, (t, w')) \<Longrightarrow>
     gate (\<lambda>r. rv_safe_to_promote r \<and> answers (ap_rehearse p req plan True) r) Rehearsed acts tr out t"
  unfolding rehearsal_step_def logged_port_simps
  by (erule gate_trace) (auto simp: proceed_iffs dest: finish_ends action_trace)

lemma policy_trace:
  "policy_step (logged_port p) sc req plan v (tr, w) = (out, (t, w')) \<Longrightarrow>
     gate (\<lambda>d. pv_allowed d \<and> answers (ap_evaluate_policy p req plan True) d) PolicyChecked
       (gate (\<lambda>r. rv_safe_to_promote r \<and> answers (ap_rehearse p req plan True) r) Rehearsed acts) tr out t"
  unfolding policy_step_def logged_port_simps
  by (erule gate_trace) (auto simp: proceed_iffs dest: finish_ends rehearsal_trace)

lemma after_approval_trace:
  "after_approval (logged_port p) sc req plan c (tr, w) = (out, (t, w')) \<Longrightarrow>
     gate (\<lambda>v. av_verified v \<and> answers (ap_verify_approval p req plan c) v) (ApprovalChecked c)
       (gate (\<lambda>d. pv_allowed d \<and> answers (ap_evaluate_policy p req plan True) d) PolicyChecked
         (gate (\<lambda>r. rv_safe_to_promote r \<and> answers (ap_rehearse p req plan True) r) Rehearsed acts)) tr out t"
  unfolding after_approval_def logged_port_simps
  by (erule gate_trace) (auto simp: proceed_iffs dest: finish_ends policy_trace)

lemma ends_action: "ends tr out t \<Longrightarrow> ActionRun \<in> set t \<longleftrightarrow> ActionRun \<in> set tr"
  by (auto simp: ends_def)

lemma after_approval_action:
  assumes run: "after_approval (logged_port p) sc req plan c (tr, w) = (out, (t, w'))"
    and t: "ActionRun \<in> set t" "ActionRun \<notin> set tr"
  shows "\<exists>v d r rest. t = tr @ [ApprovalChecked c v, PolicyChecked d, Rehearsed r, ActionRun] @ rest \<and>
     ActionRun \<notin> set rest \<and> av_verified v \<and> pv_allowed d \<and> rv_safe_to_promote r \<and>
     answers (ap_verify_approval p req plan c) v \<and> answers (ap_evaluate_policy p req plan True) d \<and>
     answers (ap_rehearse p req plan True) r"
proof -
  have no':"\<not> ends (tr @ x) out t" if "ActionRun \<notin> set x" for x
    using ends_action [of "tr @ x" out t] t that by auto
  have no: "\<not> ends tr out t" "\<not> ends (tr @ [ApprovalChecked c v]) out t"
      "\<not> ends (tr @ [ApprovalChecked c v, PolicyChecked d]) out t"
      "\<not> ends (tr @ [ApprovalChecked c v, PolicyChecked d, Rehearsed r]) out t" for v d r
    using no' [of "[]"] no' [of "[ApprovalChecked c v]"] no' [of "[ApprovalChecked c v, PolicyChecked d]"]
      no' [of "[ApprovalChecked c v, PolicyChecked d, Rehearsed r]"] by simp_all
  from after_approval_trace [OF run] no obtain v d r where g: "av_verified v" "pv_allowed d" "rv_safe_to_promote r"
      "answers (ap_verify_approval p req plan c) v" "answers (ap_evaluate_policy p req plan True) d"
      "answers (ap_rehearse p req plan True) r"
      "acts (tr @ [ApprovalChecked c v, PolicyChecked d, Rehearsed r]) out t"
    by (auto simp: gate_def)
  then obtain rest where "t = tr @ [ApprovalChecked c v, PolicyChecked d, Rehearsed r, ActionRun] @ rest" "ActionRun \<notin> set rest"
    by (auto simp: acts_def ends_def)
  with g show ?thesis by blast
qed

lemma wait_accepts:
  assumes "wait_for_approval sc req plan = Inr (Some c)"
  shows "\<exists>wid h. request_workflow_id req = Inr wid \<and> as_workflow_id c = wid \<and> pr_plan_hash plan = Some h \<and>
     as_plan_hash c = h \<and> is_plan_hash h"
proof -
  from assms obtain s where "await_approval (request_workflow_id req) (pr_plan_hash plan)
       (sc_wait_start sc + rr_approval_timeout_seconds req * 1000000) (sc_wait_start sc) (sc_wakes sc)
       \<lparr>aq_pending = sc_early sc, aq_rejected = []\<rparr> = Inr (Some c, s)"
    by (auto simp: wait_for_approval_def rbind_eq_Inr)
  from await_accepts [OF this] show ?thesis
    by (auto simp: evaluate_approval_signal_def split: if_splits option.splits)
qed

lemma run_workflow_cases:
  assumes "run_workflow (logged_port p) sc req ([], w) = (out, (t, w'))"
  obtains (failed) mid where "ends mid out t" "ActionRun \<notin> set mid"
  | (waiting) plan e where "out = Inl e" "t = [EvidenceCollected, Planned plan]"
  | (approved) plan c w2 where "wait_for_approval sc req plan = Inr (Some c)"
      "pr_planned plan" "has_text (pr_runbook_id plan)" "\<exists>e. answers (ap_plan p req e (sc_times sc 1)) plan"
      "after_approval (logged_port p) sc req plan c ([EvidenceCollected, Planned plan], w2) = (out, (t, w'))"
  using assms unfolding run_workflow_def logged_port_simps
proof (cases rule: logged_cases)
  case (failed e)
  then show ?thesis by (intro that(1) [of "[]"]) (auto simp: ends_def)
next
  case (went evidence w1)
  from went show ?thesis
  proof (cases rule: logged_cases)
    case (failed e)
    then show ?thesis by (intro that(1) [of "[EvidenceCollected]"]) (auto simp: ends_def)
  next
    case pl: (went plan w2)
    show ?thesis
    proof (cases "st_proceed (decide_after_plan plan)")
      case False
      with pl have "ends ([EvidenceCollected] @ [Planned plan]) out t" by (auto dest!: finish_ends)
      then show ?thesis by (intro that(1) [of "[EvidenceCollected, Planned plan]"]) auto
    next
      case True
      show ?thesis
      proof (cases "wait_for_approval sc req plan")
        case (Inl e)
        with True pl show ?thesis by (intro that(2) [of e plan]) (auto simp: wbind_def)
      next
        case (Inr sig)
        show ?thesis
        proof (cases sig)
          case None
          with True Inr pl have "ends ([EvidenceCollected] @ [Planned plan]) out t" by (auto simp: wbind_def dest!: finish_ends)
          then show ?thesis by (intro that(1) [of "[EvidenceCollected, Planned plan]"]) auto
        next
          case (Some c)
          with True Inr pl show ?thesis by (intro that(3) [of plan c w2]) (auto simp: wbind_def proceed_iffs)
        qed
      qed
    qed
  qed
qed

definition gates_passed ::
    "'w activity_port \<Rightarrow> remediation_request \<Rightarrow> plan_result \<Rightarrow> approval_signal \<Rightarrow> approval_verification \<Rightarrow> policy_verdict \<Rightarrow>
       rehearsal_verdict \<Rightarrow> bool" where
  "gates_passed port req plan c v d r \<longleftrightarrow>
     pr_planned plan \<and> has_text (pr_runbook_id plan) \<and> (\<exists>e t. answers (ap_plan port req e t) plan) \<and>
     request_workflow_id req = Inr (as_workflow_id c) \<and> pr_plan_hash plan = Some (as_plan_hash c) \<and>
     av_verified v \<and> answers (ap_verify_approval port req plan c) v \<and>
     pv_allowed d \<and> answers (ap_evaluate_policy port req plan True) d \<and>
     rv_safe_to_promote r \<and> answers (ap_rehearse port req plan True) r"

lemma action_gated:
  assumes "run_workflow (logged_port port) sc req ([], w) = (out, (t, w'))" "ActionRun \<in> set t"
  shows "\<exists>plan c v d r rest.
     t = [EvidenceCollected, Planned plan, ApprovalChecked c v, PolicyChecked d, Rehearsed r, ActionRun] @ rest \<and>
     ActionRun \<notin> set rest \<and> gates_passed port req plan c v d r"
  using assms(1)
proof (cases rule: run_workflow_cases)
  case (failed mid)
  with ends_action assms(2) show ?thesis by blast
next
  case (waiting plan e)
  with assms(2) show ?thesis by simp
next
  case (approved plan c w2)
  from after_approval_action [OF approved(5) assms(2)] obtain v d r rest where
      t: "t = [EvidenceCollected, Planned plan] @ [ApprovalChecked c v, PolicyChecked d, Rehearsed r, ActionRun] @ rest"
      "ActionRun \<notin> set rest" and gates: "av_verified v \<and> pv_allowed d \<and> rv_safe_to_promote r \<and>
     answers (ap_verify_approval port req plan c) v \<and> answers (ap_evaluate_policy port req plan True) d \<and>
     answers (ap_rehearse port req plan True) r" by auto
  from wait_accepts [OF approved(1)] have
    "request_workflow_id req = Inr (as_workflow_id c) \<and> pr_plan_hash plan = Some (as_plan_hash c)" by auto
  with gates approved(2-4) have "gates_passed port req plan c v d r" unfolding gates_passed_def by blast
  with t show ?thesis by auto
qed

text \<open>A run that returns has ended with the record of its outcome.\<close>

definition recorded :: "'w activity_port \<Rightarrow> schedule \<Rightarrow> remediation_request \<Rightarrow> remediation_outcome \<Rightarrow> 'w \<Rightarrow> bool" where
  "recorded port sc req o' w' \<longleftrightarrow> (\<exists>plan a approver w. ap_record_outcome port req plan a approver (sc_times sc 3) w = (Inr o', w'))"

lemma finish_recorded:
  "record_step port sc req plan a ap w = (Inr o', w') \<Longrightarrow> recorded port sc req o' w'"
  "finish_step port sc req plan d ap fs v w = (Inr o', w') \<Longrightarrow> recorded port sc req o' w'"
  by (auto simp: finish_step_def record_step_def recorded_def)

lemma action_recorded: "action_step port sc req plan v w = (Inr o', w') \<Longrightarrow> recorded port sc req o' w'"
  unfolding action_step_def by (erule wbind_Inr) (rule finish_recorded)

lemma rehearsal_recorded: "rehearsal_step port sc req plan v w = (Inr o', w') \<Longrightarrow> recorded port sc req o' w'"
  unfolding rehearsal_step_def Let_def
  by (erule wbind_Inr) (auto intro: finish_recorded action_recorded split: if_splits)

lemma policy_recorded: "policy_step port sc req plan v w = (Inr o', w') \<Longrightarrow> recorded port sc req o' w'"
  unfolding policy_step_def Let_def
  by (erule wbind_Inr) (auto intro: finish_recorded rehearsal_recorded split: if_splits)

lemma approval_recorded: "after_approval port sc req plan c w = (Inr o', w') \<Longrightarrow> recorded port sc req o' w'"
  unfolding after_approval_def Let_def
  by (erule wbind_Inr) (auto intro: finish_recorded policy_recorded split: if_splits)

lemma run_recorded: "run_workflow port sc req w = (Inr o', w') \<Longrightarrow> recorded port sc req o' w'"
  unfolding run_workflow_def Let_def
  by (elim wbind_Inr) (auto intro: finish_recorded approval_recorded elim!: wbind_Inr split: if_splits option.splits)

text \<open>Logging changes neither the result of a run nor its world.\<close>

definition erases :: "('l \<times> 'w \<Rightarrow> 'a res \<times> 'l \<times> 'w) \<Rightarrow> ('w \<Rightarrow> 'a res \<times> 'w) \<Rightarrow> bool" where
  "erases m n \<longleftrightarrow> (\<forall>s. apsnd snd (m s) = n (snd s))"

lemma erases_wbind:
  assumes "erases m n" "\<And>x. erases (f x) (g x)"
  shows "erases (wbind m f) (wbind n g)"
proof -
  have "apsnd snd (wbind m f s) = wbind n g (snd s)" for s
  proof -
    obtain r l w where m: "m s = (r, (l, w))" by (metis prod.collapse)
    with assms(1) have "n (snd s) = (r, w)" by (metis apsnd_conv erases_def snd_conv)
    with m assms(2) show ?thesis by (cases r) (simp_all add: wbind_def erases_def)
  qed
  then show ?thesis by (simp add: erases_def)
qed

lemma erases_logged: "erases (logged f m) m"
  by (auto simp: erases_def logged_def split: prod.splits sum.splits)

lemma erases_if: "erases a b \<Longrightarrow> erases c d \<Longrightarrow> erases (if q then a else c) (if q then b else d)"
  by simp

lemma erases_Pair: "erases (Pair x) (Pair x)"
  by (simp add: erases_def)

lemma erases_finish:
  "erases (record_step (logged_port p) sc req plan a ap) (record_step p sc req plan a ap)"
  "erases (finish_step (logged_port p) sc req plan d ap fs v) (finish_step p sc req plan d ap fs v)"
  by (simp_all add: record_step_def finish_step_def erases_logged)

lemma erases_action: "erases (ap_execute_action (logged_port p) r pl b t) (ap_execute_action p r pl b t)"
  by (auto simp: erases_def)

lemma logged_run_erases: "erases (run_workflow (logged_port p) sc req) (run_workflow p sc req)"
  unfolding run_workflow_def after_approval_def policy_step_def rehearsal_step_def action_step_def Let_def
    logged_port_simps
  by (auto intro!: erases_wbind erases_logged erases_if erases_Pair erases_finish erases_action split: option.splits)

section \<open>Properties\<close>

text \<open>C23. No action without every gate: if a run of the workflow starts the execute-action activity, it did
  so once, and directly after evidence, a plan of the planning activity with a runbook, an approval signal that names
  this workflow and this plan hash and that the verification activity confirmed, an allowing
  verdict of the policy activity and a safe rehearsal, in this order.\<close>

theorem action_needs_every_gate:
  assumes "run_workflow (logged_port port) sc req ([], w) = (out, (t, w'))" "ActionRun \<in> set t"
  shows "\<exists>plan c v d r rest.
     t = [EvidenceCollected, Planned plan, ApprovalChecked c v, PolicyChecked d, Rehearsed r, ActionRun] @ rest \<and>
     ActionRun \<notin> set rest \<and> gates_passed port req plan c v d r"
  using assms by (rule action_gated)

definition sample_plan_hash :: string where
  "sample_plan_hash = ''sha256:'' @ replicate 64 (CHR ''0'')"

definition sample_request :: remediation_request where
  "sample_request = \<lparr>rr_request_id = ''r1'', rr_incident_id = ''i1'', rr_service = ''payments'', rr_environment = ''stage'',
     rr_correlation_id = ''c1'', rr_tenant_id = ''default'', rr_blast_radius = 2, rr_approval_timeout_seconds = 3600\<rparr>"

definition sample_signal :: approval_signal where
  "sample_signal = \<lparr>as_workflow_id = ''remediation:r1'', as_approver = ''ada'', as_plan_hash = sample_plan_hash,
     as_issued_at = 7, as_signature = ''00''\<rparr>"

definition sample_schedule :: schedule where
  "sample_schedule = \<lparr>sc_times = (\<lambda>n. ''7''), sc_wait_start = 0,
     sc_wakes = [(10, [sample_signal\<lparr>as_workflow_id := ''other''\<rparr>]), (20, [sample_signal])], sc_early = []\<rparr>"

definition sample_port :: "nat activity_port" where
  "sample_port =
     \<lparr>ap_collect_evidence = (\<lambda>r t n. (Inr \<lparr>eb_workflow_id = ''remediation:r1'', eb_workflow_version = 1, eb_evidence = [],
        eb_evidence_ids = [], eb_audit_event_hash = ''h''\<rparr>, Suc n)),
      ap_plan = (\<lambda>r e t n. (Inr \<lparr>pr_workflow_id = ''remediation:r1'', pr_planned = True, pr_reason = [],
        pr_runbook_id = Some ''aks.rollout.undo'', pr_plan_hash = Some sample_plan_hash, pr_confidence = 1,
        pr_evidence_ids = [], pr_workflow_version = 3\<rparr>, Suc n)),
      ap_verify_approval = (\<lambda>r p s n. (Inr \<lparr>av_verified = True, av_reason = [], av_approver = as_approver s\<rparr>, Suc n)),
      ap_evaluate_policy = (\<lambda>r p b n. (Inr \<lparr>pv_allowed = b, pv_reason = [], pv_policy_revision = ''v1''\<rparr>, Suc n)),
      ap_rehearse = (\<lambda>r p b n. (Inr \<lparr>rv_safe_to_promote = b, rv_status = ''succeeded'', rv_notes = []\<rparr>, Suc n)),
      ap_execute_action = (\<lambda>r p b t n. (Inl (RuntimeError ''lost''), Suc n)),
      ap_record_outcome = (\<lambda>r p a ap t n. (Inl (RuntimeError ''unused''), Suc n))\<rparr>"

lemma sample_workflow_run:
  "ActionRun \<in> set (fst (snd (run_workflow (logged_port sample_port) sample_schedule sample_request ([], 0))))"
  by code_simp

theorem action_needs_every_gate_witness:
  "\<exists>plan c v d r rest. fst (snd (run_workflow (logged_port sample_port) sample_schedule sample_request ([], 0))) =
     [EvidenceCollected, Planned plan, ApprovalChecked c v, PolicyChecked d, Rehearsed r, ActionRun] @ rest \<and> av_verified v"
proof -
  obtain out t w where run: "run_workflow (logged_port sample_port) sample_schedule sample_request ([], 0) = (out, (t, w))"
    by (metis prod.collapse)
  with sample_workflow_run have "ActionRun \<in> set t" by simp
  from action_needs_every_gate [OF run this] run show ?thesis by (auto simp: gates_passed_def)
qed

end
