(* ===== verification/Incident_Planner.thy ===== *)
theory Incident_Planner
  imports Canonical_Json Runbook_Catalog
begin

text \<open>
  Incident evidence, the analysis that turns it into ranked hypotheses
  (\<open>src/intelligence/incidents.py\<close>), the planner that selects a runbook
  (\<open>src/remediation/planner.py\<close>) and the JSON form in which evidence travels between activities
  (\<open>src/orchestration/control_plane_activities.py\<close>).

  Confidence values are floats: decimal literals are rounded by the parameter \<open>float_round\<close>
  and combined with the float operations of the standard library.
\<close>

section \<open>Evidence\<close>

datatype evidence_kind = ALERT | METRIC | LOG | TRACE | K8S_EVENT | DEPLOYMENT | INCIDENT

fun evidence_kind_value :: "evidence_kind \<Rightarrow> string" where
  "evidence_kind_value ALERT = ''alert''"
| "evidence_kind_value METRIC = ''metric''"
| "evidence_kind_value LOG = ''log''"
| "evidence_kind_value TRACE = ''trace''"
| "evidence_kind_value K8S_EVENT = ''k8s_event''"
| "evidence_kind_value DEPLOYMENT = ''deployment''"
| "evidence_kind_value INCIDENT = ''incident''"

definition evidence_kind_of :: "string \<Rightarrow> evidence_kind res" where
  "evidence_kind_of s =
     (case find (\<lambda>k. evidence_kind_value k = s) [ALERT, METRIC, LOG, TRACE, K8S_EVENT, DEPLOYMENT, INCIDENT] of
        None \<Rightarrow> Inl (ValueError ([CHR 0x27] @ s @ [CHR 0x27] @ '' is not a valid EvidenceKind''))
      | Some k \<Rightarrow> Inr k)"

record evidence_event =
  ee_id :: string
  ee_kind :: evidence_kind
  ee_service :: string
  ee_timestamp :: py_datetime
  ee_summary :: string
  ee_source :: string
  ee_severity :: int
  ee_attributes :: "(string \<times> string) list"

record hypothesis =
  hy_title :: string
  hy_confidence :: rat
  hy_facts :: "string list"
  hy_inferences :: "string list"
  hy_evidence_ids :: "string list"

record incident_analysis =
  an_timeline :: "evidence_event list"
  an_hypotheses :: "hypothesis list"

section \<open>Evidence as JSON\<close>

definition evidence_to_mapping :: "py_std \<Rightarrow> evidence_event \<Rightarrow> json" where
  "evidence_to_mapping std e = JObj
     [(''id'', JStr (ee_id e)), (''kind'', JStr (evidence_kind_value (ee_kind e))), (''service'', JStr (ee_service e)),
      (''timestamp'', JStr (datetime_isoformat std (ee_timestamp e))), (''summary'', JStr (ee_summary e)),
      (''source'', JStr (ee_source e)), (''severity'', JInt (ee_severity e)),
      (''attributes'', JList (map (\<lambda>(k, v). JList [JStr k, JStr v]) (ee_attributes e)))]"

definition evidence_error :: "string \<Rightarrow> string \<Rightarrow> exn" where
  "evidence_error field m =
     RemediationConfigurationError (''evidence field '' @ [CHR 0x27] @ field @ [CHR 0x27] @ '' must be '' @ m)"

definition evidence_required_text :: "json \<Rightarrow> string \<Rightarrow> string res" where
  "evidence_required_text raw field =
     (case json_get raw field of
        Some (JStr v) \<Rightarrow> if py_strip v = [] then Inl (evidence_error field ''a non-blank string'') else Inr v
      | _ \<Rightarrow> Inl (evidence_error field ''a non-blank string''))"

definition non_negative_int :: "json \<Rightarrow> string \<Rightarrow> int res" where
  "non_negative_int v field =
     (case v of
        JInt i \<Rightarrow> if i < 0 then Inl (evidence_error field ''a non-negative integer'') else Inr i
      | _ \<Rightarrow> Inl (evidence_error field ''a non-negative integer''))"

fun attribute_items :: "json list \<Rightarrow> (string \<times> string) list res" where
  "attribute_items [] = Inr []"
| "attribute_items (JList [JStr k, JStr v] # items) = rbind (attribute_items items) (\<lambda>ps. Inr ((k, v) # ps))"
| "attribute_items (item # items) =
     Inl (RemediationConfigurationError ''evidence attributes must be two-item string arrays'')"

definition attribute_pairs :: "json \<Rightarrow> (string \<times> string) list res" where
  "attribute_pairs v =
     (case v of JList items \<Rightarrow> attribute_items items
      | _ \<Rightarrow> Inl (evidence_error ''attributes'' ''an array''))"

definition read_timestamp :: "py_std \<Rightarrow> string \<Rightarrow> py_datetime res" where
  "read_timestamp std s =
     (case fromisoformat std s of
        None \<Rightarrow> Inl (ValueError (''Invalid isoformat string: '' @ [CHR 0x27] @ s @ [CHR 0x27]))
      | Some d \<Rightarrow> Inr d)"

definition evidence_from_mapping :: "py_std \<Rightarrow> json \<Rightarrow> evidence_event res" where
  "evidence_from_mapping std raw =
     rbind (attribute_pairs (case json_get raw ''attributes'' of None \<Rightarrow> JList [] | Some v \<Rightarrow> v)) (\<lambda>attributes.
     rbind (evidence_required_text raw ''id'') (\<lambda>i.
     rbind (rbind (evidence_required_text raw ''kind'') evidence_kind_of) (\<lambda>kind.
     rbind (evidence_required_text raw ''service'') (\<lambda>service.
     rbind (rbind (evidence_required_text raw ''timestamp'') (read_timestamp std)) (\<lambda>timestamp.
     rbind (evidence_required_text raw ''summary'') (\<lambda>summary.
     rbind (evidence_required_text raw ''source'') (\<lambda>source.
     rbind (non_negative_int (case json_get raw ''severity'' of None \<Rightarrow> JInt 1 | Some v \<Rightarrow> v) ''severity'') (\<lambda>severity.
     Inr \<lparr>ee_id = i, ee_kind = kind, ee_service = service, ee_timestamp = timestamp, ee_summary = summary,
          ee_source = source, ee_severity = severity, ee_attributes = attributes\<rparr>))))))))"

section \<open>Analysis\<close>

text \<open>Sorting compares every two neighbours, so a mixture of naive and aware timestamps raises.\<close>

definition comparable :: "evidence_event list \<Rightarrow> bool" where
  "comparable es \<longleftrightarrow>
     list_all (\<lambda>e. utc_offset_us (ee_timestamp e) = None) es \<or> list_all (\<lambda>e. utc_offset_us (ee_timestamp e) \<noteq> None) es"

abbreviation event_time :: "evidence_event \<Rightarrow> instant" where
  "event_time e \<equiv> as_instant (ee_timestamp e)"

definition summary_has :: "string \<Rightarrow> evidence_event \<Rightarrow> bool" where
  "summary_has marker e = py_contains marker (py_lower (ee_summary e))"

definition deployment_hypothesis :: "py_std \<Rightarrow> evidence_event option \<Rightarrow> evidence_event list \<Rightarrow> hypothesis list" where
  "deployment_hypothesis std latest_deploy failures =
     (case latest_deploy of
        None \<Rightarrow> []
      | Some d \<Rightarrow>
          (case find (\<lambda>f. event_time f \<ge> event_time d) failures of
             None \<Rightarrow> []
           | Some f \<Rightarrow>
               let delta = event_time f - event_time d in
               if 0 \<le> delta \<and> delta \<le> 1800 * 1000000
               then [\<lparr>hy_title = ''Recent deployment is correlated with incident onset'',
                  hy_confidence = float_round std (if delta \<le> 600 * 1000000 then 85 / 100 else 70 / 100),
                  hy_facts = [''deployment '' @ ee_id d @ '' occurred before failure '' @ ee_id f,
                    ''failure began '' @ str_int (delta div 1000000) @ '' seconds after deployment''],
                  hy_inferences = [''the deployment may have introduced the failing condition''],
                  hy_evidence_ids = [ee_id d, ee_id f]\<rparr>]
               else []))"

text \<open>\<open>min(cap, base + step * len(events))\<close> on floats.\<close>

definition capped :: "py_std \<Rightarrow> rat \<Rightarrow> rat \<Rightarrow> rat \<Rightarrow> 'a list \<Rightarrow> rat" where
  "capped std cap base step es =
     min (float_round std cap)
       (float_add std (float_round std base) (float_mul std (float_round std step) (of_nat (length es))))"

definition crashloop_hypothesis :: "py_std \<Rightarrow> evidence_event list \<Rightarrow> hypothesis list" where
  "crashloop_hypothesis std relevant =
     (let crashloop = filter (\<lambda>e. summary_has ''crashloop'' e \<or> summary_has ''back-off restarting'' e) relevant in
      if crashloop = [] then []
      else [\<lparr>hy_title = ''CrashLoopBackOff is preventing workload recovery'',
        hy_confidence = capped std (97 / 100) (82 / 100) (4 / 100) crashloop,
        hy_facts = map ee_summary (take 4 crashloop),
        hy_inferences = [''a bounded restart is allowed only if live preflight confirms CrashLoopBackOff''],
        hy_evidence_ids = map ee_id (take 4 crashloop)\<rparr>])"

definition readiness_hypothesis :: "py_std \<Rightarrow> evidence_event option \<Rightarrow> evidence_event list \<Rightarrow> hypothesis list" where
  "readiness_hypothesis std latest_deploy relevant =
     (let readiness = filter (\<lambda>e. list_ex (\<lambda>m. summary_has m e) [''readiness'', ''unready'', ''probe failed'']) relevant in
      case latest_deploy of
        None \<Rightarrow> []
      | Some d \<Rightarrow>
          if readiness \<noteq> [] \<and> list_ex (\<lambda>e. event_time e \<ge> event_time d) readiness
          then [\<lparr>hy_title = ''Readiness regression followed the latest deployment'',
            hy_confidence = capped std (95 / 100) (80 / 100) (3 / 100) readiness,
            hy_facts = (''latest deployment='' @ ee_id d) # map ee_summary (take 3 readiness),
            hy_inferences = [''rollback is preferable to blind restart when readiness regressed after release''],
            hy_evidence_ids = ee_id d # map ee_id (take 3 readiness)\<rparr>]
          else [])"

definition oom_hypothesis :: "py_std \<Rightarrow> evidence_event list \<Rightarrow> hypothesis list" where
  "oom_hypothesis std relevant =
     (let oom = filter (\<lambda>e. summary_has ''oom'' e \<or> summary_has ''memory'' e) relevant in
      if length oom \<ge> 2
      then [\<lparr>hy_title = ''OOMKilled or memory pressure is a likely contributing factor'',
        hy_confidence = capped std (95 / 100) (55 / 100) (1 / 10) oom,
        hy_facts = map ee_summary (take 4 oom),
        hy_inferences = [''memory limits, leaks, or workload growth should be investigated''],
        hy_evidence_ids = map ee_id (take 4 oom)\<rparr>]
      else [])"

definition analyze_incident :: "py_std \<Rightarrow> evidence_event list \<Rightarrow> string \<Rightarrow> incident_analysis res" where
  "analyze_incident std events service =
     (let mine = filter (\<lambda>e. ee_service e = service) events in
      if \<not> comparable mine
      then Inl (TypeError (''can'' @ [CHR 0x27] @ ''t compare offset-naive and offset-aware datetimes''))
      else
        let relevant = sort_key event_time mine;
            deployments = filter (\<lambda>e. ee_kind e = DEPLOYMENT) relevant;
            failures = filter (\<lambda>e. ee_kind e \<in> {ALERT, K8S_EVENT, LOG} \<and> ee_severity e \<ge> 3) relevant;
            latest_deploy = (if deployments = [] then None else Some (last deployments));
            hypotheses = deployment_hypothesis std latest_deploy failures @ crashloop_hypothesis std relevant @
              readiness_hypothesis std latest_deploy relevant @ oom_hypothesis std relevant in
        Inr \<lparr>an_timeline = relevant, an_hypotheses = sort_key (\<lambda>h. - hy_confidence h) hypotheses\<rparr>)"

section \<open>Planning\<close>

record remediation_plan =
  rp_runbook_id :: string
  rp_reason :: string
  rp_evidence_ids :: "string list"
  rp_confidence :: rat

definition plan_of :: "string \<Rightarrow> string \<Rightarrow> hypothesis \<Rightarrow> remediation_plan" where
  "plan_of runbook_id reason h =
     \<lparr>rp_runbook_id = runbook_id, rp_reason = reason, rp_evidence_ids = hy_evidence_ids h, rp_confidence = hy_confidence h\<rparr>"

definition specific_plan :: "hypothesis \<Rightarrow> remediation_plan option" where
  "specific_plan h =
     (let title = py_lower (hy_title h) in
      if py_contains ''crashloopbackoff'' title
      then Some (plan_of ''aks.restart.crashloop''
        ''CrashLoopBackOff evidence selects a bounded restart with live pod-state preflight'' h)
      else if py_contains ''readiness regression'' title
      then Some (plan_of ''aks.rollback.readiness''
        ''post-release readiness regression selects rollback with rollout-history preflight'' h)
      else if py_contains ''oomkilled'' title \<or> py_contains ''memory pressure'' title
      then Some (plan_of ''aks.restart.oom''
        ''OOM evidence selects bounded recovery without silently changing resource policy'' h)
      else None)"

definition deployment_plan :: "hypothesis \<Rightarrow> remediation_plan option" where
  "deployment_plan h =
     (let title = py_lower (hy_title h) in
      if py_contains ''deployment'' title \<and> py_contains ''incident'' title
      then Some (plan_of ''aks.rollout.undo'' ''recent deployment is correlated with incident onset'' h)
      else None)"

fun first_plan :: "(hypothesis \<Rightarrow> remediation_plan option) \<Rightarrow> hypothesis list \<Rightarrow> remediation_plan option" where
  "first_plan f [] = None"
| "first_plan f (h # hs) = (case f h of None \<Rightarrow> first_plan f hs | Some p \<Rightarrow> Some p)"

definition plan_from_incident :: "incident_analysis \<Rightarrow> remediation_plan option" where
  "plan_from_incident a =
     (case first_plan specific_plan (an_hypotheses a) of
        Some p \<Rightarrow> Some p
      | None \<Rightarrow> first_plan deployment_plan (an_hypotheses a))"

section \<open>Hypotheses are grounded\<close>

text \<open>A hypothesis names between one and four pieces of evidence, all of them from the timeline.\<close>

definition grounded :: "evidence_event list \<Rightarrow> hypothesis \<Rightarrow> bool" where
  "grounded es h \<longleftrightarrow> hy_evidence_ids h \<noteq> [] \<and> length (hy_evidence_ids h) \<le> 4 \<and>
     set (hy_evidence_ids h) \<subseteq> ee_id ` set es"

lemma deployment_grounded:
  assumes "h \<in> set (deployment_hypothesis std d fs)" "set fs \<subseteq> set es" "\<forall>x. d = Some x \<longrightarrow> x \<in> set es"
  shows "grounded es h"
proof -
  from assms(1) obtain x where x: "d = Some x" by (cases d) (simp_all add: deployment_hypothesis_def)
  from assms(1) x obtain f where f: "find (\<lambda>f. event_time f \<ge> event_time x) fs = Some f" "hy_evidence_ids h = [ee_id x, ee_id f]"
    by (cases "find (\<lambda>f. event_time f \<ge> event_time x) fs")
      (simp_all add: deployment_hypothesis_def Let_def split: if_splits)
  from find_SomeD [OF f(1)] assms(2,3) x have "f \<in> set es" "x \<in> set es" by auto
  with f(2) show ?thesis by (simp add: grounded_def)
qed

lemma crashloop_grounded: "h \<in> set (crashloop_hypothesis std es) \<Longrightarrow> grounded es h"
  by (auto simp: crashloop_hypothesis_def grounded_def Let_def split: if_splits dest!: in_set_takeD)

lemma readiness_grounded:
  assumes "h \<in> set (readiness_hypothesis std d es)" "\<forall>x. d = Some x \<longrightarrow> x \<in> set es"
  shows "grounded es h"
  using assms by (auto simp: readiness_hypothesis_def grounded_def Let_def split: option.splits if_splits dest!: in_set_takeD)

lemma oom_grounded: "h \<in> set (oom_hypothesis std es) \<Longrightarrow> grounded es h"
  by (auto simp: oom_hypothesis_def grounded_def Let_def split: if_splits dest!: in_set_takeD)

lemma analysis_grounded:
  assumes "analyze_incident std events service = Inr a" "h \<in> set (an_hypotheses a)"
  shows "grounded (an_timeline a) h"
proof -
  define relevant where "relevant = sort_key event_time (filter (\<lambda>e. ee_service e = service) events)"
  define deployments where "deployments = filter (\<lambda>e. ee_kind e = DEPLOYMENT) relevant"
  define d where "d = (if deployments = [] then None else Some (last deployments))"
  define fs where "fs = filter (\<lambda>e. ee_kind e \<in> {ALERT, K8S_EVENT, LOG} \<and> ee_severity e \<ge> 3) relevant"
  have d: "\<forall>x. d = Some x \<longrightarrow> x \<in> set relevant"
    using last_in_set [of deployments] by (auto simp: d_def deployments_def split: if_splits)
  from assms have "an_timeline a = relevant" "h \<in> set (deployment_hypothesis std d fs) \<union> set (crashloop_hypothesis std relevant) \<union>
      set (readiness_hypothesis std d relevant) \<union> set (oom_hypothesis std relevant)"
    by (auto simp: analyze_incident_def Let_def relevant_def d_def deployments_def fs_def split: if_splits)
  moreover have "set fs \<subseteq> set relevant" by (auto simp: fs_def)
  ultimately show ?thesis
    using d deployment_grounded crashloop_grounded readiness_grounded oom_grounded by (metis UnE)
qed

lemma first_plan_Some: "first_plan f hs = Some p \<Longrightarrow> \<exists>h \<in> set hs. f h = Some p"
  by (induction hs) (auto split: option.splits)

lemma planned_from:
  assumes "plan_from_incident a = Some p"
  shows "\<exists>h \<in> set (an_hypotheses a). rp_evidence_ids p = hy_evidence_ids h \<and> rp_confidence p = hy_confidence h \<and>
     rp_runbook_id p \<in> {''aks.restart.crashloop'', ''aks.rollback.readiness'', ''aks.restart.oom'', ''aks.rollout.undo''}"
proof -
  from assms consider "first_plan specific_plan (an_hypotheses a) = Some p" | "first_plan deployment_plan (an_hypotheses a) = Some p"
    by (auto simp: plan_from_incident_def split: option.splits)
  then show ?thesis
    by cases (drule first_plan_Some, force simp: specific_plan_def deployment_plan_def plan_of_def Let_def split: if_splits)+
qed

lemma attribute_items_pairs: "attribute_items (map (\<lambda>(k, v). JList [JStr k, JStr v]) ps) = Inr ps"
  by (induction ps) auto

lemma evidence_kind_round_trip: "evidence_kind_of (evidence_kind_value k) = Inr k"
  by (cases k) (simp_all add: evidence_kind_of_def)

lemma evidence_kind_not_blank: "py_strip (evidence_kind_value k) \<noteq> []"
  by (cases k) (simp_all add: py_strip_def py_space_def)

section \<open>Properties\<close>

text \<open>Evidence survives its JSON form: reading back what \<open>evidence_to_mapping\<close> wrote gives the event, when
  its texts are not blank, its severity is not negative and its timestamp is one that Python's
  ISO form reads back.\<close>

theorem evidence_round_trip:
  assumes "list_all (\<lambda>t. py_strip t \<noteq> []) [ee_id e, ee_service e, ee_summary e, ee_source e]" "0 \<le> ee_severity e"
    and "fromisoformat std (datetime_isoformat std (ee_timestamp e)) = Some (ee_timestamp e)"
    and "py_strip (datetime_isoformat std (ee_timestamp e)) \<noteq> []"
  shows "evidence_from_mapping std (evidence_to_mapping std e) = Inr e"
proof -
  have get: "json_get (evidence_to_mapping std e) ''id'' = Some (JStr (ee_id e))"
    "json_get (evidence_to_mapping std e) ''kind'' = Some (JStr (evidence_kind_value (ee_kind e)))"
    "json_get (evidence_to_mapping std e) ''service'' = Some (JStr (ee_service e))"
    "json_get (evidence_to_mapping std e) ''timestamp'' = Some (JStr (datetime_isoformat std (ee_timestamp e)))"
    "json_get (evidence_to_mapping std e) ''summary'' = Some (JStr (ee_summary e))"
    "json_get (evidence_to_mapping std e) ''source'' = Some (JStr (ee_source e))"
    "json_get (evidence_to_mapping std e) ''severity'' = Some (JInt (ee_severity e))"
    "json_get (evidence_to_mapping std e) ''attributes'' = Some (JList (map (\<lambda>(k, v). JList [JStr k, JStr v]) (ee_attributes e)))"
    by (simp_all add: evidence_to_mapping_def)
  show ?thesis
    using assms
    by (simp add: evidence_from_mapping_def get attribute_pairs_def attribute_items_pairs evidence_required_text_def
        evidence_kind_round_trip evidence_kind_not_blank read_timestamp_def non_negative_int_def)
qed

definition sample_evidence_event :: evidence_event where
  "sample_evidence_event = \<lparr>ee_id = ''ev-1'', ee_kind = K8S_EVENT, ee_service = ''payments'',
     ee_timestamp = \<lparr>wall_us = 17, utc_offset_us = Some 0\<rparr>, ee_summary = ''Pod in CrashLoopBackOff'',
     ee_source = ''aks'', ee_severity = 4, ee_attributes = [(''pod'', ''p-1'')]\<rparr>"

theorem evidence_round_trip_witness:
  "evidence_from_mapping fixture_std (evidence_to_mapping fixture_std sample_evidence_event) = Inr sample_evidence_event"
proof (rule evidence_round_trip)
  show "list_all (\<lambda>t. py_strip t \<noteq> []) [ee_id sample_evidence_event, ee_service sample_evidence_event,
      ee_summary sample_evidence_event, ee_source sample_evidence_event]" by code_simp
  show "0 \<le> ee_severity sample_evidence_event" by code_simp
  show "fromisoformat fixture_std (datetime_isoformat fixture_std (ee_timestamp sample_evidence_event)) =
      Some (ee_timestamp sample_evidence_event)" by code_simp
  show "py_strip (datetime_isoformat fixture_std (ee_timestamp sample_evidence_event)) \<noteq> []" by code_simp
qed

text \<open>A plan is grounded and registered: when an incident yields a plan, its runbook is one of the
  default catalogue and its evidence is between one and four events of the service the incident
  is about; and without such events there is no plan.\<close>

theorem plan_grounded_in_evidence:
  assumes "analyze_incident std events service = Inr a" "plan_from_incident a = Some p"
  shows "(\<exists>catalog rb. default_catalog = Inr catalog \<and> catalog_get catalog (rp_runbook_id p) = Inr rb) \<and>
     rp_evidence_ids p \<noteq> [] \<and> length (rp_evidence_ids p) \<le> 4 \<and>
     (\<forall>i \<in> set (rp_evidence_ids p). \<exists>e \<in> set events. ee_id e = i \<and> ee_service e = service)"
proof -
  from planned_from [OF assms(2)] obtain h where h: "h \<in> set (an_hypotheses a)" "rp_evidence_ids p = hy_evidence_ids h"
      "rp_runbook_id p \<in> {''aks.restart.crashloop'', ''aks.rollback.readiness'', ''aks.restart.oom'', ''aks.rollout.undo''}"
    by blast
  have "set (an_timeline a) = {e \<in> set events. ee_service e = service}"
    using assms(1) by (auto simp: analyze_incident_def Let_def split: if_splits)
  with analysis_grounded [OF assms(1) h(1)] h(2) have "rp_evidence_ids p \<noteq> [] \<and> length (rp_evidence_ids p) \<le> 4 \<and>
     (\<forall>i \<in> set (rp_evidence_ids p). \<exists>e \<in> set events. ee_id e = i \<and> ee_service e = service)"
    by (auto simp: grounded_def)
  moreover have "\<exists>catalog rb. default_catalog = Inr catalog \<and> catalog_get catalog (rp_runbook_id p) = Inr rb"
    using h(3) unfolding default_catalog_eq by (auto simp: catalog_get_def default_runbooks_def)
  ultimately show ?thesis by blast
qed

theorem plan_grounded_in_evidence_witness:
  "\<exists>a p. analyze_incident fixture_std [sample_evidence_event] ''payments'' = Inr a \<and> plan_from_incident a = Some p \<and>
     rp_runbook_id p = ''aks.restart.crashloop'' \<and> rp_evidence_ids p = [''ev-1''] \<and>
     (\<exists>catalog rb. default_catalog = Inr catalog \<and> catalog_get catalog ''aks.restart.crashloop'' = Inr rb)"
proof -
  let ?a = "projr (analyze_incident fixture_std [sample_evidence_event] ''payments'')"
  have 1: "analyze_incident fixture_std [sample_evidence_event] ''payments'' = Inr ?a" by code_simp
  have 2: "map_option rp_runbook_id (plan_from_incident ?a) = Some ''aks.restart.crashloop'' \<and>
      map_option rp_evidence_ids (plan_from_incident ?a) = Some [''ev-1'']" by code_simp
  then obtain p where p: "plan_from_incident ?a = Some p" "rp_runbook_id p = ''aks.restart.crashloop''" "rp_evidence_ids p = [''ev-1'']"
    by auto
  from plan_grounded_in_evidence [OF 1 p(1)] 1 p show ?thesis by metis
qed

end
