(* ===== verification/Human_Approval.thy ===== *)
theory Human_Approval
  imports Canonical_Json
begin

text \<open>
  Signed human approvals, \<open>src/orchestration/approvals.py\<close>: an approval carries an HMAC over its
  workflow, approver, plan hash and time of issue, joined by bars. The wall clock is an
  argument beside the optional \<open>now\<close>, which the code ignores when it is zero.
\<close>

section \<open>Approvals\<close>

record approval =
  ap_workflow_id :: string
  ap_approver :: string
  ap_plan_hash :: string
  ap_issued_at :: int
  ap_signature :: string

text \<open>\<open>int(now or time.time())\<close>.\<close>

definition now_or_clock :: "int option \<Rightarrow> int \<Rightarrow> int" where
  "now_or_clock now clock = (case now of None \<Rightarrow> clock | Some t \<Rightarrow> if t = 0 then clock else t)"

definition approval_payload :: "string \<Rightarrow> string \<Rightarrow> string \<Rightarrow> int \<Rightarrow> string" where
  "approval_payload workflow_id approver plan_hash issued_at =
     workflow_id @ ''|'' @ approver @ ''|'' @ plan_hash @ ''|'' @ str_int issued_at"

definition issue_approval ::
    "py_std \<Rightarrow> string \<Rightarrow> string \<Rightarrow> string \<Rightarrow> string \<Rightarrow> int option \<Rightarrow> int \<Rightarrow> approval" where
  "issue_approval std workflow_id approver plan_hash secret now clock =
     (let issued_at = now_or_clock now clock in
      \<lparr>ap_workflow_id = workflow_id, ap_approver = approver, ap_plan_hash = plan_hash, ap_issued_at = issued_at,
       ap_signature = hmac_sha256_hex std secret (approval_payload workflow_id approver plan_hash issued_at)\<rparr>)"

text \<open>\<open>hmac.compare_digest\<close> on two texts accepts ASCII only.\<close>

definition is_ascii :: "string \<Rightarrow> bool" where
  "is_ascii s = list_all (\<lambda>c. (of_char c :: nat) < 128) s"

definition compare_digest :: "string \<Rightarrow> string \<Rightarrow> bool res" where
  "compare_digest a b =
     (if is_ascii a \<and> is_ascii b then Inr (a = b)
      else Inl (TypeError ''comparing strings with non-ASCII characters is not supported''))"

definition verify_approval ::
    "py_std \<Rightarrow> approval \<Rightarrow> string \<Rightarrow> string \<Rightarrow> string \<Rightarrow> int \<Rightarrow> int option \<Rightarrow> int \<Rightarrow> bool res" where
  "verify_approval std a expected_workflow_id expected_plan_hash secret max_age_seconds now clock =
     (let current = now_or_clock now clock in
      if ap_workflow_id a \<noteq> expected_workflow_id \<or> ap_plan_hash a \<noteq> expected_plan_hash then Inr False
      else if current - ap_issued_at a > max_age_seconds \<or> ap_issued_at a > current + 30 then Inr False
      else compare_digest
        (hmac_sha256_hex std secret
          (approval_payload (ap_workflow_id a) (ap_approver a) (ap_plan_hash a) (ap_issued_at a)))
        (ap_signature a))"

section \<open>The signed text\<close>

definition hmac_hex_ascii :: "py_std \<Rightarrow> bool" where
  "hmac_hex_ascii std \<longleftrightarrow> (\<forall>k m. is_ascii (hmac_sha256_hex std k m))"

text \<open>Two given texts with one digest under a given key.\<close>

definition hmac_collides :: "py_std \<Rightarrow> string \<Rightarrow> string \<Rightarrow> string \<Rightarrow> bool" where
  "hmac_collides std k x y \<longleftrightarrow> x \<noteq> y \<and> hmac_sha256_hex std k x = hmac_sha256_hex std k y"

lemma str_int_no_bar: "CHR ''|'' \<notin> set (str_int i)"
proof
  assume "CHR ''|'' \<in> set (str_int i)"
  with str_int_chars [of i] have "is_digit (CHR ''|'') \<or> CHR ''|'' = CHR ''-''"
    by (simp only: list_all_iff)
  then show False by (simp add: is_digit_def)
qed

text \<open>The first bar from the left and the two from the right delimit the fields: the approver may hold bars.\<close>

lemma append_sep_unique_left:
  assumes "a @ c # s = b @ c # t" "c \<notin> set a" "c \<notin> set b"
  shows "a = b \<and> s = t"
proof -
  have "rev s @ c # rev a = rev t @ c # rev b" using assms(1) by (metis append.assoc append_Cons append_Nil rev.simps(2) rev_append)
  from append_sep_unique [OF this] assms(2,3) show ?thesis by simp
qed

lemma approval_payload_unique:
  assumes "approval_payload w a p t = approval_payload w' a' p' t'"
    and "CHR ''|'' \<notin> set w" "CHR ''|'' \<notin> set w'" "CHR ''|'' \<notin> set p" "CHR ''|'' \<notin> set p'"
  shows "w = w' \<and> a = a' \<and> p = p' \<and> t = t'"
proof -
  from assms(1) have eq: "w @ CHR ''|'' # (a @ ''|'' @ p @ ''|'' @ str_int t) =
      w' @ CHR ''|'' # (a' @ ''|'' @ p' @ ''|'' @ str_int t')"
    by (simp add: approval_payload_def)
  from append_sep_unique_left [OF eq assms(2,3)]
  have w: "w = w'" and "(a @ ''|'' @ p) @ CHR ''|'' # str_int t = (a' @ ''|'' @ p') @ CHR ''|'' # str_int t'" by auto
  from append_sep_unique [OF this(2) str_int_no_bar str_int_no_bar]
  have "a @ CHR ''|'' # p = a' @ CHR ''|'' # p'" "t = t'" by auto
  with append_sep_unique [OF this(1) assms(4,5)] w show ?thesis by simp
qed

lemma verify_approval_True:
  "verify_approval std a w p k age now clock = Inr True \<longleftrightarrow>
     ap_workflow_id a = w \<and> ap_plan_hash a = p \<and> now_or_clock now clock - ap_issued_at a \<le> age \<and>
     ap_issued_at a \<le> now_or_clock now clock + 30 \<and> is_ascii (ap_signature a) \<and>
     ap_signature a = hmac_sha256_hex std k (approval_payload w (ap_approver a) p (ap_issued_at a))"
  by (auto simp: verify_approval_def Let_def compare_digest_def)

section \<open>Properties\<close>

text \<open>An approval is good for its lifetime and no longer: what \<open>issue_approval\<close> signs is accepted by
  \<open>verify_approval\<close> for its own workflow and plan exactly while it is at most \<open>max_age\<close> old and not
  more than thirty seconds in the future.\<close>

theorem approval_round_trip:
  assumes "hmac_hex_ascii std" "current \<noteq> 0" "issued \<noteq> 0"
  shows "verify_approval std (issue_approval std w approver p secret (Some issued) c0) w p secret max_age (Some current) c1 =
     Inr (current - issued \<le> max_age \<and> issued \<le> current + 30)"
  using assms
  by (auto simp: issue_approval_def verify_approval_def now_or_clock_def Let_def compare_digest_def hmac_hex_ascii_def)

lemma fixture_hmac_ascii: "hmac_hex_ascii fixture_std"
proof -
  have "is_ascii s" if "set s \<subseteq> set ''0123456789abcdef''" for s
    using that by (auto simp: is_ascii_def list_all_iff)
  then show ?thesis
    using fixture_digest_hex by (simp add: hmac_hex_ascii_def fixture_std_def)
qed

theorem approval_round_trip_witness:
  "verify_approval fixture_std (issue_approval fixture_std ''remediation:1'' ''ada'' ''sha256:00'' ''key'' (Some 100) 7)
     ''remediation:1'' ''sha256:00'' ''key'' 900 (Some 1000) 7 = Inr True \<and>
   verify_approval fixture_std (issue_approval fixture_std ''remediation:1'' ''ada'' ''sha256:00'' ''key'' (Some 100) 7)
     ''remediation:1'' ''sha256:00'' ''key'' 900 (Some 1001) 7 = Inr False"
  using approval_round_trip [OF fixture_hmac_ascii, of 1000 100] approval_round_trip [OF fixture_hmac_ascii, of 1001 100]
  by simp



end
