(* ===== verification/State_Store.thy ===== *)
theory State_Store
  imports Workflow_Lifecycle
begin

text \<open>
  The authoritative state store of \<open>src/state/store.py\<close> (\<open>SqliteStateStore\<close>): the three tables,
  compare-and-swap writes and the transactional \<open>apply_workflow_event\<close> with its idempotency
  receipts. A row keeps the record its JSON payload decodes to. Each operation runs inside one
  \<open>BEGIN IMMEDIATE\<close> transaction, so it is a function from one committed state to the next, and
  an exception leaves the state as it was (\<open>ROLLBACK\<close>).

  The contract the control plane relies on is stated by two locales (\<open>versioned_store\<close> for
  compare-and-swap writes and \<open>receipt_store\<close> for lifecycle events), which the SQLite model
  interprets.
\<close>

section \<open>Tables\<close>

record service_row =
  sr_payload :: service_record
  sr_version :: int

record workflow_row =
  wr_payload :: workflow_record
  wr_version :: int

record receipt =
  rc_workflow_id :: string
  rc_idempotency_key :: string
  rc_event_id :: string
  rc_event_fingerprint :: string
  rc_workflow_payload :: workflow_record

record state_store =
  st_services :: "string \<rightharpoonup> service_row"
  st_workflows :: "string \<rightharpoonup> workflow_row"
  st_receipts :: "receipt list"

definition empty_store :: state_store where
  "empty_store = \<lparr>st_services = Map.empty, st_workflows = Map.empty, st_receipts = []\<rparr>"

section \<open>Operations\<close>

definition str_opt_int :: "int option \<Rightarrow> string" where
  "str_opt_int v = (case v of None \<Rightarrow> ''None'' | Some i \<Rightarrow> str_int i)"

definition assert_expected :: "int option \<Rightarrow> int option \<Rightarrow> unit res" where
  "assert_expected current expected =
     (if expected \<noteq> None \<and> current \<noteq> expected
      then Inl (VersionConflict (''expected version '' @ str_opt_int expected @
             '', current version is '' @ str_opt_int current))
      else Inr ())"

definition next_version :: "int option \<Rightarrow> int" where
  "next_version current = (case current of None \<Rightarrow> 1 | Some v \<Rightarrow> v + 1)"

definition get_service :: "state_store \<Rightarrow> string \<Rightarrow> service_record option" where
  "get_service st k = map_option sr_payload (st_services st k)"

definition put_service ::
    "service_record \<Rightarrow> int option \<Rightarrow> state_store \<Rightarrow> (service_record \<times> state_store) res" where
  "put_service r expected st =
     (let current = map_option sr_version (st_services st (svc_service_id r)) in
      rbind (assert_expected current expected) (\<lambda>_.
      let stored = r\<lparr>svc_version := next_version current\<rparr> in
      Inr (stored, st\<lparr>st_services := (st_services st)(svc_service_id stored \<mapsto>
             \<lparr>sr_payload = stored, sr_version = svc_version stored\<rparr>)\<rparr>)))"

definition get_workflow :: "state_store \<Rightarrow> string \<Rightarrow> workflow_record option" where
  "get_workflow st k = map_option wr_payload (st_workflows st k)"

definition write_workflow :: "workflow_record \<Rightarrow> state_store \<Rightarrow> state_store" where
  "write_workflow r st = st\<lparr>st_workflows := (st_workflows st)(wf_workflow_id r \<mapsto>
     \<lparr>wr_payload = r, wr_version = wf_version r\<rparr>)\<rparr>"

definition put_workflow ::
    "workflow_record \<Rightarrow> int option \<Rightarrow> state_store \<Rightarrow> (workflow_record \<times> state_store) res" where
  "put_workflow r expected st =
     (let current = map_option wr_version (st_workflows st (wf_workflow_id r)) in
      rbind (assert_expected current expected) (\<lambda>_.
      let stored = r\<lparr>wf_version := next_version current\<rparr> in
      Inr (stored, write_workflow stored st)))"

definition find_receipt :: "state_store \<Rightarrow> string \<Rightarrow> string \<Rightarrow> receipt option" where
  "find_receipt st w k =
     find (\<lambda>r. rc_workflow_id r = w \<and> rc_idempotency_key r = k) (st_receipts st)"

definition find_event :: "state_store \<Rightarrow> string \<Rightarrow> string \<Rightarrow> receipt option" where
  "find_event st w e = find (\<lambda>r. rc_workflow_id r = w \<and> rc_event_id r = e) (st_receipts st)"

definition replayed_transition ::
    "py_std \<Rightarrow> lifecycle_event \<Rightarrow> receipt \<Rightarrow> transition_result res" where
  "replayed_transition std e r =
     rbind (fingerprint std e) (\<lambda>f.
     if rc_event_id r \<noteq> ev_event_id e \<or> rc_event_fingerprint r \<noteq> f
     then Inl (VersionConflict ''idempotency key has already been used for a different workflow event'')
     else Inr \<lparr>tr_record = rc_workflow_payload r, tr_event_id = ev_event_id e,
            tr_idempotency_key = ev_idempotency_key e, tr_replayed = True\<rparr>)"

text \<open>\<^verbatim>\<open>except LifecycleContractError as exc: raise VersionConflict(str(exc))\<close>\<close>

definition as_version_conflict :: "'a res \<Rightarrow> 'a res" where
  "as_version_conflict r =
     (case r of Inl (LifecycleContractError m) \<Rightarrow> Inl (VersionConflict m) | _ \<Rightarrow> r)"

definition apply_workflow_event ::
    "py_std \<Rightarrow> lifecycle_event \<Rightarrow> state_store \<Rightarrow> (transition_result \<times> state_store) res" where
  "apply_workflow_event std e st =
     rbind (validate std e) (\<lambda>_.
     case find_receipt st (ev_workflow_id e) (ev_idempotency_key e) of
       Some r \<Rightarrow> rbind (replayed_transition std e r) (\<lambda>tr. Inr (tr, st))
     | None \<Rightarrow>
         if find_event st (ev_workflow_id e) (ev_event_id e) \<noteq> None
         then Inl (VersionConflict
           ''workflow event id has already been used with a different idempotency key'')
         else
           let current = map_option wr_payload (st_workflows st (ev_workflow_id e)) in
           rbind (assert_expected (map_option wf_version current) (ev_expected_version e)) (\<lambda>_.
           rbind (as_version_conflict (apply_to std e current)) (\<lambda>candidate.
           let stored = candidate\<lparr>wf_version := next_version (map_option wf_version current)\<rparr> in
           rbind (fingerprint std e) (\<lambda>f.
           Inr (\<lparr>tr_record = stored, tr_event_id = ev_event_id e,
                  tr_idempotency_key = ev_idempotency_key e, tr_replayed = False\<rparr>,
                (write_workflow stored st)\<lparr>st_receipts := st_receipts st @
                  [\<lparr>rc_workflow_id = ev_workflow_id e, rc_idempotency_key = ev_idempotency_key e,
                    rc_event_id = ev_event_id e, rc_event_fingerprint = f,
                    rc_workflow_payload = stored\<rparr>]\<rparr>)))))"

text \<open>A sequence of deliveries, ended by the first one that is refused.\<close>

fun apply_events :: "py_std \<Rightarrow> lifecycle_event list \<Rightarrow> state_store \<Rightarrow> state_store res" where
  "apply_events std [] st = Inr st"
| "apply_events std (e # es) st = rbind (apply_workflow_event std e st) (\<lambda>(tr, st'). apply_events std es st')"

section \<open>Well-formed stores\<close>

text \<open>
  The version column agrees with the payload, a row is stored under its own key, versions are
  positive, and the receipts satisfy the two uniqueness constraints of the table.
\<close>

definition workflow_row_ok :: "string \<Rightarrow> workflow_row \<Rightarrow> bool" where
  "workflow_row_ok k row \<longleftrightarrow> wr_version row = wf_version (wr_payload row) \<and>
     wf_workflow_id (wr_payload row) = k \<and> 1 \<le> wr_version row"

definition service_row_ok :: "string \<Rightarrow> service_row \<Rightarrow> bool" where
  "service_row_ok k row \<longleftrightarrow> sr_version row = svc_version (sr_payload row) \<and>
     svc_service_id (sr_payload row) = k \<and> 1 \<le> sr_version row"

definition store_wf :: "state_store \<Rightarrow> bool" where
  "store_wf st \<longleftrightarrow>
     (\<forall>k row. st_workflows st k = Some row \<longrightarrow> workflow_row_ok k row) \<and>
     (\<forall>k row. st_services st k = Some row \<longrightarrow> service_row_ok k row) \<and>
     distinct (map (\<lambda>r. (rc_workflow_id r, rc_idempotency_key r)) (st_receipts st)) \<and>
     distinct (map (\<lambda>r. (rc_workflow_id r, rc_event_id r)) (st_receipts st))"

lemma row_ok_simps [simp]:
  "workflow_row_ok k \<lparr>wr_payload = r, wr_version = wf_version r\<rparr> \<longleftrightarrow>
     wf_workflow_id r = k \<and> 1 \<le> wf_version r"
  "service_row_ok k \<lparr>sr_payload = q\<lparr>svc_version := v\<rparr>, sr_version = v\<rparr> \<longleftrightarrow>
     svc_service_id q = k \<and> 1 \<le> v"
  by (auto simp: workflow_row_ok_def service_row_ok_def)

lemma assert_expected_ok [simp]:
  "assert_expected c x = Inr u \<longleftrightarrow> x = None \<or> c = x"
  by (auto simp: assert_expected_def)

lemma assert_expected_conflict:
  "c \<noteq> Some v \<Longrightarrow> \<exists>m. assert_expected c (Some v) = Inl (VersionConflict m)"
  by (auto simp: assert_expected_def)

lemma as_version_conflict_ok [simp]: "as_version_conflict r = Inr x \<longleftrightarrow> r = Inr x"
  by (auto simp: as_version_conflict_def split: sum.splits exn.splits)

lemma store_wf_workflow:
  "store_wf st \<Longrightarrow> st_workflows st k = Some row \<Longrightarrow>
     wr_version row = wf_version (wr_payload row) \<and> wf_workflow_id (wr_payload row) = k \<and>
     1 \<le> wf_version (wr_payload row)"
  unfolding store_wf_def workflow_row_ok_def by metis

lemma version_column:
  "store_wf st \<Longrightarrow>
     map_option wr_version (st_workflows st k) = map_option wf_version (get_workflow st k)"
  by (cases "st_workflows st k") (auto simp: get_workflow_def dest: store_wf_workflow)

lemma store_wf_empty: "store_wf empty_store"
  by (simp add: store_wf_def empty_store_def)

lemma next_version_pos: "(\<And>v. c = Some v \<Longrightarrow> 1 \<le> v) \<Longrightarrow> 1 \<le> next_version c"
  by (cases c) (auto simp: next_version_def)

lemma store_wf_write:
  assumes "store_wf st" "1 \<le> wf_version r"
  shows "store_wf (write_workflow r st)"
  using assms unfolding store_wf_def write_workflow_def by simp

lemma put_workflow_ok:
  assumes "put_workflow r x st = Inr (stored, st')"
  shows "stored = r\<lparr>wf_version := next_version (map_option wr_version (st_workflows st (wf_workflow_id r)))\<rparr>
     \<and> st' = write_workflow stored st
     \<and> (x = None \<or> map_option wr_version (st_workflows st (wf_workflow_id r)) = x)"
  using assms by (auto simp: put_workflow_def Let_def rbind_eq_Inr)

lemma put_workflow_wf:
  assumes wf: "store_wf st" and put: "put_workflow r x st = Inr (stored, st')"
  shows "store_wf st'"
proof -
  have "1 \<le> next_version (map_option wr_version (st_workflows st (wf_workflow_id r)))"
    by (rule next_version_pos) (use store_wf_workflow [OF wf] in force)
  with put_workflow_ok [OF put] wf show ?thesis by (simp add: store_wf_write)
qed

lemma put_service_wf:
  assumes wf: "store_wf st" and put: "put_service r x st = Inr (stored, st')"
  shows "store_wf st'"
proof -
  have "1 \<le> next_version (map_option sr_version (st_services st (svc_service_id r)))"
    by (rule next_version_pos) (use wf in \<open>auto simp: store_wf_def service_row_ok_def\<close>)
  with put wf show ?thesis
    unfolding put_service_def store_wf_def
    by (auto simp: Let_def rbind_eq_Inr split: if_splits)
qed

text \<open>The two ways a lifecycle event can be accepted.\<close>

lemma apply_event_cases:
  assumes "apply_workflow_event std e st = Inr (tr, st')"
  obtains (replay) r where "find_receipt st (ev_workflow_id e) (ev_idempotency_key e) = Some r"
      "replayed_transition std e r = Inr tr" "st' = st"
  | (commit) w f where "find_receipt st (ev_workflow_id e) (ev_idempotency_key e) = None"
      "find_event st (ev_workflow_id e) (ev_event_id e) = None"
      "ev_expected_version e = None \<or>
         map_option wf_version (get_workflow st (ev_workflow_id e)) = ev_expected_version e"
      "apply_to std e (get_workflow st (ev_workflow_id e)) = Inr w"
      "fingerprint std e = Inr f"
      "tr = \<lparr>tr_record = w\<lparr>wf_version := next_version (map_option wf_version (get_workflow st (ev_workflow_id e)))\<rparr>,
             tr_event_id = ev_event_id e, tr_idempotency_key = ev_idempotency_key e, tr_replayed = False\<rparr>"
      "st' = (write_workflow (tr_record tr) st)\<lparr>st_receipts := st_receipts st @
          [\<lparr>rc_workflow_id = ev_workflow_id e, rc_idempotency_key = ev_idempotency_key e,
            rc_event_id = ev_event_id e, rc_event_fingerprint = f, rc_workflow_payload = tr_record tr\<rparr>]\<rparr>"
proof (cases "find_receipt st (ev_workflow_id e) (ev_idempotency_key e)")
  case None
  from assms None obtain w f where
      ev: "find_event st (ev_workflow_id e) (ev_event_id e) = None"
    and ver: "ev_expected_version e = None \<or>
      map_option wf_version (get_workflow st (ev_workflow_id e)) = ev_expected_version e"
    and ap: "apply_to std e (get_workflow st (ev_workflow_id e)) = Inr w"
    and fp: "fingerprint std e = Inr f"
    and res: "(tr, st') =
      (let stored = w\<lparr>wf_version := next_version (map_option wf_version (get_workflow st (ev_workflow_id e)))\<rparr>
       in (\<lparr>tr_record = stored, tr_event_id = ev_event_id e,
             tr_idempotency_key = ev_idempotency_key e, tr_replayed = False\<rparr>,
           (write_workflow stored st)\<lparr>st_receipts := st_receipts st @
             [\<lparr>rc_workflow_id = ev_workflow_id e, rc_idempotency_key = ev_idempotency_key e,
               rc_event_id = ev_event_id e, rc_event_fingerprint = f,
               rc_workflow_payload = stored\<rparr>]\<rparr>))"
    unfolding apply_workflow_event_def get_workflow_def
    by (simp add: rbind_eq_Inr Let_def split: if_splits) metis
  show ?thesis
    by (rule commit [OF None ev ver ap fp]) (use res in \<open>simp_all add: Let_def\<close>)
next
  case (Some r)
  with assms have "replayed_transition std e r = Inr tr" "st' = st"
    by (auto simp: apply_workflow_event_def rbind_eq_Inr)
  with Some show ?thesis by (rule replay)
qed


lemma replayed_transition_ok:
  "replayed_transition std e r = Inr tr \<longleftrightarrow>
     (\<exists>f. fingerprint std e = Inr f \<and> rc_event_id r = ev_event_id e \<and> rc_event_fingerprint r = f \<and>
      tr = \<lparr>tr_record = rc_workflow_payload r, tr_event_id = ev_event_id e,
            tr_idempotency_key = ev_idempotency_key e, tr_replayed = True\<rparr>)"
  by (auto simp: replayed_transition_def rbind_eq_Inr)

text \<open>The record an accepted event leaves in the store carries the event's workflow id.\<close>

lemma committed_id:
  assumes "store_wf st" and "apply_to std e (get_workflow st (ev_workflow_id e)) = Inr w"
  shows "wf_workflow_id w = ev_workflow_id e"
proof (cases "get_workflow st (ev_workflow_id e)")
  case None
  with assms(2) show ?thesis by (auto dest: apply_to_creates)
next
  case (Some cur)
  with assms(1) have "wf_workflow_id cur = ev_workflow_id e"
    by (auto simp: get_workflow_def dest: store_wf_workflow)
  with Some assms(2) show ?thesis by (auto dest: apply_to_advances)
qed

lemma next_version_get:
  "store_wf st \<Longrightarrow> 1 \<le> next_version (map_option wf_version (get_workflow st k))"
  by (rule next_version_pos) (auto simp: get_workflow_def dest: store_wf_workflow)

lemma find_receipt_None:
  "find_receipt st w k = None \<longleftrightarrow>
     (w, k) \<notin> (\<lambda>r. (rc_workflow_id r, rc_idempotency_key r)) ` set (st_receipts st)"
  by (auto simp: find_receipt_def find_None_iff)

lemma find_event_None:
  "find_event st w k = None \<longleftrightarrow>
     (w, k) \<notin> (\<lambda>r. (rc_workflow_id r, rc_event_id r)) ` set (st_receipts st)"
  by (auto simp: find_event_def find_None_iff)

lemma apply_event_wf:
  assumes wf: "store_wf st" and ap: "apply_workflow_event std e st = Inr (tr, st')"
  shows "store_wf st'"
  using ap
proof (cases rule: apply_event_cases)
  case replay
  with wf show ?thesis by simp
next
  case (commit w f)
  have "1 \<le> wf_version (tr_record tr)"
    using next_version_get [OF wf] commit(6) by simp
  then have "store_wf (write_workflow (tr_record tr) st)"
    using wf by (rule store_wf_write [rotated])
  with commit(1,2,7) show ?thesis
    by (auto simp: store_wf_def write_workflow_def find_receipt_None find_event_None)
qed

section \<open>Compare-and-swap storage as an interface\<close>

text \<open>
  What a caller of \<open>put_service\<close> and \<open>put_workflow\<close> may rely on: a stale expected version is a
  \<open>VersionConflict\<close>, a current one is accepted, and an accepted record is what the next read
  of its key returns, one version higher, every other key untouched.
\<close>

locale versioned_store =
  fixes get :: "'s \<Rightarrow> string \<Rightarrow> 'r option"
    and put :: "'r \<Rightarrow> int option \<Rightarrow> 's \<Rightarrow> ('r \<times> 's) res"
    and key :: "'r \<Rightarrow> string"
    and ver :: "'r \<Rightarrow> int"
    and inv :: "'s \<Rightarrow> bool"
  assumes put_conflict: "inv st \<Longrightarrow> map_option ver (get st (key r)) \<noteq> Some v \<Longrightarrow>
      \<exists>m. put r (Some v) st = Inl (VersionConflict m)"
    and put_accepts: "inv st \<Longrightarrow> x = None \<or> map_option ver (get st (key r)) = x \<Longrightarrow>
      \<exists>stored st'. put r x st = Inr (stored, st')"
    and put_stores: "inv st \<Longrightarrow> put r x st = Inr (stored, st') \<Longrightarrow>
      get st' = (get st)(key r \<mapsto> stored) \<and> key stored = key r \<and>
      ver stored = next_version (map_option ver (get st (key r)))"
    and put_inv: "inv st \<Longrightarrow> put r x st = Inr (stored, st') \<Longrightarrow> inv st'"
begin

text \<open>Two writers that read the same version: the second one is refused.\<close>

lemma second_writer_refused:
  assumes "inv st" and "get st (key a) = Some cur"
    and first: "put a (Some (ver cur)) st = Inr (stored, st')" and "key b = key a"
  shows "\<exists>m. put b (Some (ver cur)) st' = Inl (VersionConflict m)"
proof (rule put_conflict)
  show "inv st'" using assms(1) first by (rule put_inv)
  show "map_option ver (get st' (key b)) \<noteq> Some (ver cur)"
    using put_stores [OF assms(1) first] assms(2,4) by (simp add: next_version_def)
qed

text \<open>A run of unconditional or conditional writes, each either accepted or refused.\<close>

fun put_all :: "('r \<times> int option) list \<Rightarrow> 's \<Rightarrow> 's" where
  "put_all [] st = st"
| "put_all ((r, x) # ws) st =
     (case put r x st of Inl e \<Rightarrow> put_all ws st | Inr (stored, st') \<Rightarrow> put_all ws st')"

lemma put_all_inv: "inv st \<Longrightarrow> inv (put_all ws st)"
  by (induction ws st rule: put_all.induct) (auto split: sum.splits prod.splits dest: put_inv)

lemma put_version_mono:
  assumes "inv st" "put r x st = Inr (stored, st')" "get st k = Some old"
  shows "\<exists>new. get st' k = Some new \<and> ver old \<le> ver new \<and> (ver new = ver old \<longrightarrow> new = old)"
  using put_stores [OF assms(1,2)] assms(3) by (auto simp: next_version_def)

text \<open>A record can only be replaced by one with a higher version.\<close>

lemma versions_identify_records:
  "inv st \<Longrightarrow> get st k = Some old \<Longrightarrow>
     \<exists>new. get (put_all ws st) k = Some new \<and> ver old \<le> ver new \<and> (ver new = ver old \<longrightarrow> new = old)"
proof (induction ws st arbitrary: old rule: put_all.induct)
  case (2 r x ws st)
  show ?case
  proof (cases "put r x st")
    case (Inl e)
    with 2 show ?thesis by simp
  next
    case (Inr p)
    then obtain stored st' where put: "put r x st = Inr (stored, st')" by (cases p) auto
    obtain mid where mid: "get st' k = Some mid" "ver old \<le> ver mid" "ver mid = ver old \<longrightarrow> mid = old"
      using put_version_mono [OF 2(3) put 2(4)] by auto
    have "inv st'" using 2(3) put by (rule put_inv)
    from 2(2) [OF put refl this mid(1)] mid put show ?thesis by fastforce
  qed
qed auto

end

lemma get_write_workflow:
  "get_workflow (write_workflow r st) = (get_workflow st)(wf_workflow_id r \<mapsto> r)"
  by (auto simp: get_workflow_def write_workflow_def)

lemma store_wf_service:
  "store_wf st \<Longrightarrow> st_services st k = Some row \<Longrightarrow>
     sr_version row = svc_version (sr_payload row) \<and> 1 \<le> svc_version (sr_payload row)"
  unfolding store_wf_def service_row_ok_def by metis

lemma service_version_column:
  "store_wf st \<Longrightarrow>
     map_option sr_version (st_services st k) = map_option svc_version (get_service st k)"
  by (cases "st_services st k") (auto simp: get_service_def dest: store_wf_service)

interpretation sqlite_workflows: versioned_store get_workflow put_workflow wf_workflow_id wf_version store_wf
proof (unfold_locales, goal_cases)
  case (1 st r v)
  then obtain m where
      "assert_expected (map_option wr_version (st_workflows st (wf_workflow_id r))) (Some v) =
        Inl (VersionConflict m)"
    using assert_expected_conflict version_column by metis
  then show ?case by (simp add: put_workflow_def)
next
  case (2 st x r)
  then have "assert_expected (map_option wr_version (st_workflows st (wf_workflow_id r))) x = Inr ()"
    by (auto simp: version_column)
  then show ?case by (simp add: put_workflow_def Let_def del: assert_expected_ok)
next
  case (3 st r x stored st')
  then show ?case
    using put_workflow_ok [OF 3(2)] by (auto simp: get_write_workflow version_column)
next
  case (4 st r x stored st')
  then show ?case by (rule put_workflow_wf)
qed

interpretation sqlite_services: versioned_store get_service put_service svc_service_id svc_version store_wf
proof (unfold_locales, goal_cases)
  case (1 st r v)
  then obtain m where
      "assert_expected (map_option sr_version (st_services st (svc_service_id r))) (Some v) =
        Inl (VersionConflict m)"
    using assert_expected_conflict service_version_column by metis
  then show ?case by (simp add: put_service_def)
next
  case (2 st x r)
  then have "assert_expected (map_option sr_version (st_services st (svc_service_id r))) x = Inr ()"
    by (auto simp: service_version_column)
  then show ?case by (simp add: put_service_def Let_def del: assert_expected_ok)
next
  case (3 st r x stored st')
  then show ?case
    by (auto simp: put_service_def Let_def rbind_eq_Inr service_version_column get_service_def)
next
  case (4 st r x stored st')
  then show ?case by (rule put_service_wf)
qed

section \<open>Idempotent lifecycle events as an interface\<close>

text \<open>
  What an at-least-once caller relies on: an accepted event, delivered again, returns the same
  record marked as a replay and changes nothing, now and after any other accepted events.
\<close>

locale receipt_store =
  fixes transition :: "'e \<Rightarrow> 's \<Rightarrow> (transition_result \<times> 's) res"
    and inv :: "'s \<Rightarrow> bool"
  assumes transition_inv: "inv st \<Longrightarrow> transition e st = Inr (tr, st') \<Longrightarrow> inv st'"
    and transition_replay: "inv st \<Longrightarrow> transition e st = Inr (tr, st') \<Longrightarrow>
      transition e st' = Inr (tr\<lparr>tr_replayed := True\<rparr>, st')"
    and replay_stable: "inv st \<Longrightarrow> transition e st = Inr (tr, st) \<Longrightarrow> tr_replayed tr \<Longrightarrow>
      transition d st = Inr (tr', st') \<Longrightarrow> transition e st' = Inr (tr, st')"
begin

text \<open>Delivery of a sequence of events; the first refused one ends it.\<close>

fun deliver :: "'e list \<Rightarrow> 's \<Rightarrow> 's res" where
  "deliver [] st = Inr st"
| "deliver (e # es) st = rbind (transition e st) (\<lambda>(tr, st'). deliver es st')"

definition settled :: "'e \<Rightarrow> 's \<Rightarrow> bool" where
  "settled e st \<longleftrightarrow> (\<exists>tr. tr_replayed tr \<and> transition e st = Inr (tr, st))"

lemma settled_after: "inv st \<Longrightarrow> transition e st = Inr (tr, st') \<Longrightarrow> settled e st'"
  unfolding settled_def using transition_replay by fastforce

lemma settled_stable:
  "inv st \<Longrightarrow> settled e st \<Longrightarrow> transition d st = Inr (tr, st') \<Longrightarrow> settled e st'"
  unfolding settled_def using replay_stable by blast

lemma deliver_settles:
  "inv st \<Longrightarrow> deliver es st = Inr st' \<Longrightarrow>
     inv st' \<and> (\<forall>e\<in>set es. settled e st') \<and> (\<forall>e. settled e st \<longrightarrow> settled e st')"
proof (induction es arbitrary: st)
  case (Cons e es)
  then obtain tr mid where mid: "transition e st = Inr (tr, mid)" "deliver es mid = Inr st'"
    by (auto simp: rbind_eq_Inr)
  have "inv mid" using Cons.prems(1) mid(1) by (rule transition_inv)
  then show ?case
    using Cons.IH [OF _ mid(2)] settled_after [OF Cons.prems(1) mid(1)]
      settled_stable [OF Cons.prems(1) _ mid(1)] by auto
qed simp

lemma deliver_settled: "\<forall>e\<in>set ds. settled e st \<Longrightarrow> deliver ds st = Inr st"
  by (induction ds) (auto simp: settled_def)

lemma deliver_append: "deliver (es @ fs) st = rbind (deliver es st) (deliver fs)"
  by (induction es arbitrary: st) (auto simp: rbind_def split: sum.splits)

text \<open>Redelivering events already delivered, in any order, changes nothing.\<close>

lemma redelivery_absorbed:
  assumes "inv st" "set ds \<subseteq> set es" "deliver es st = Inr st'"
  shows "deliver (es @ ds @ fs) st = deliver (es @ fs) st"
proof -
  have "deliver ds st' = Inr st'"
    using deliver_settles [OF assms(1,3)] assms(2) by (intro deliver_settled) auto
  with assms(3) show ?thesis by (simp add: deliver_append)
qed

end

lemma replay_of_receipt:
  assumes "find_receipt st (ev_workflow_id e) (ev_idempotency_key e) = Some r"
    and "replayed_transition std e r = Inr tr"
  shows "apply_workflow_event std e st = Inr (tr, st)"
proof -
  have "validate std e = Inr ()" using assms(2) by (auto simp: replayed_transition_ok fingerprint_eq_Inr)
  with assms show ?thesis by (simp add: apply_workflow_event_def)
qed

lemma find_receipt_stable:
  assumes "apply_workflow_event std d st = Inr (tr, st')" and "find_receipt st w k = Some r"
  shows "find_receipt st' w k = Some r"
  using assms(1)
proof (cases rule: apply_event_cases)
  case replay
  with assms(2) show ?thesis by simp
next
  case (commit w f)
  with assms(2) show ?thesis by (simp add: find_receipt_def find_append)
qed

lemma apply_event_replay:
  assumes "apply_workflow_event std e st = Inr (tr, st')"
  shows "apply_workflow_event std e st' = Inr (tr\<lparr>tr_replayed := True\<rparr>, st')"
  using assms
proof (cases rule: apply_event_cases)
  case (replay r)
  then have "tr\<lparr>tr_replayed := True\<rparr> = tr" by (auto simp: replayed_transition_ok)
  with replay assms show ?thesis by simp
next
  case (commit w f)
  let ?r = "\<lparr>rc_workflow_id = ev_workflow_id e, rc_idempotency_key = ev_idempotency_key e,
    rc_event_id = ev_event_id e, rc_event_fingerprint = f, rc_workflow_payload = tr_record tr\<rparr>"
  have "find_receipt st' (ev_workflow_id e) (ev_idempotency_key e) = Some ?r"
    using commit(1,7) by (simp add: find_receipt_def find_append)
  moreover have "replayed_transition std e ?r = Inr (tr\<lparr>tr_replayed := True\<rparr>)"
    using commit(5,6) by (simp add: replayed_transition_ok)
  ultimately show ?thesis by (rule replay_of_receipt)
qed

lemma replayed_has_receipt:
  assumes "apply_workflow_event std e st = Inr (tr, st')" "tr_replayed tr"
  shows "\<exists>r. find_receipt st (ev_workflow_id e) (ev_idempotency_key e) = Some r \<and>
     replayed_transition std e r = Inr tr"
  using assms(1) by (cases rule: apply_event_cases) (use assms(2) in auto)

interpretation sqlite_receipts: receipt_store "apply_workflow_event std" store_wf for std
proof (unfold_locales, goal_cases)
  case (1 st e tr st')
  then show ?case by (rule apply_event_wf)
next
  case (2 st e tr st')
  then show ?case by (intro apply_event_replay)
next
  case (3 st e tr d tr' st')
  from replayed_has_receipt [OF 3(2,3)] obtain r where
    r: "find_receipt st (ev_workflow_id e) (ev_idempotency_key e) = Some r" "replayed_transition std e r = Inr tr" by blast
  show ?case by (rule replay_of_receipt [OF find_receipt_stable [OF 3(4) r(1)] r(2)])
qed

lemma apply_events_deliver: "apply_events std es st = sqlite_receipts.deliver std es st"
  by (induction es arbitrary: st) (auto simp: rbind_def split: sum.splits)

end
