(* ===== verification/Lifecycle_History.thy ===== *)
theory Lifecycle_History
  imports State_Store
begin

text \<open>
  Runs of the state store under lifecycle events (\<open>src/state/store.py\<close>,
  \<open>src/state/lifecycle.py\<close>): the states reachable from an empty store, the history the receipts
  record for a workflow, and the properties of the store that callers depend on.
\<close>

section \<open>Reachable stores\<close>

text \<open>
  The stores any sequence of writes leads to: lifecycle events, service records and the direct
  writes \<open>put_workflow\<close> that the control-plane services make without an event. The set \<open>direct\<close>
  holds the ids of the workflows that are written directly.
\<close>

inductive lifecycle_reachable :: "py_std \<Rightarrow> string set \<Rightarrow> state_store \<Rightarrow> bool" for std direct where
  reach_empty: "lifecycle_reachable std direct empty_store"
| reach_event: "lifecycle_reachable std direct st \<Longrightarrow> apply_workflow_event std e st = Inr (tr, st') \<Longrightarrow>
     lifecycle_reachable std direct st'"
| reach_service: "lifecycle_reachable std direct st \<Longrightarrow> put_service r x st = Inr (stored, st') \<Longrightarrow>
     lifecycle_reachable std direct st'"
| reach_direct: "lifecycle_reachable std direct st \<Longrightarrow> put_workflow w x st = Inr (kept, st') \<Longrightarrow>
     wf_workflow_id w \<in> direct \<Longrightarrow> lifecycle_reachable std direct st'"

lemma reachable_wf: "lifecycle_reachable std direct st \<Longrightarrow> store_wf st"
  by (induction rule: lifecycle_reachable.induct)
    (auto intro: store_wf_empty apply_event_wf put_service_wf put_workflow_wf)

text \<open>The records a workflow went through, oldest first, as its receipts keep them.\<close>

definition history :: "state_store \<Rightarrow> string \<Rightarrow> workflow_record list" where
  "history st k = map rc_workflow_payload (filter (\<lambda>r. rc_workflow_id r = k) (st_receipts st))"

definition same_identity :: "workflow_record \<Rightarrow> workflow_record \<Rightarrow> bool" where
  "same_identity a b \<longleftrightarrow> wf_workflow_id a = wf_workflow_id b \<and> wf_tenant_id a = wf_tenant_id b \<and>
     wf_service_id a = wf_service_id b \<and> wf_environment a = wf_environment b \<and>
     wf_kind a = wf_kind b \<and> wf_correlation_id a = wf_correlation_id b"

definition legal_step :: "workflow_record option \<Rightarrow> workflow_record \<Rightarrow> bool" where
  "legal_step prev w \<longleftrightarrow>
     wf_status w \<in> set (allowed_transitions (map_option wf_status prev)) \<and>
     wf_version w = next_version (map_option wf_version prev) \<and>
     (case prev of None \<Rightarrow> True | Some p \<Rightarrow> same_identity p w)"

fun legal_history :: "workflow_record option \<Rightarrow> workflow_record list \<Rightarrow> bool" where
  "legal_history prev [] = True"
| "legal_history prev (w # ws) = (legal_step prev w \<and> legal_history (Some w) ws)"

definition latest :: "workflow_record option \<Rightarrow> workflow_record list \<Rightarrow> workflow_record option" where
  "latest prev ws = (if ws = [] then prev else Some (last ws))"

lemma legal_history_snoc:
  "legal_history prev (ws @ [w]) \<longleftrightarrow> legal_history prev ws \<and> legal_step (latest prev ws) w"
  by (induction prev ws rule: legal_history.induct) (auto simp: latest_def)

lemma legal_history_version:
  "legal_history prev ws \<Longrightarrow>
     map_option wf_version (latest prev ws) =
       (if ws = [] then map_option wf_version prev
        else Some (next_version (map_option wf_version prev) + int (length ws) - 1))"
  by (induction prev ws rule: legal_history.induct)
    (auto simp: latest_def legal_step_def next_version_def)

lemma legal_history_rank:
  "legal_history (Some p) ws \<Longrightarrow>
     status_rank (wf_status p) + length ws \<le> status_rank (wf_status (last (p # ws)))"
proof (induction ws arbitrary: p)
  case (Cons w ws)
  then have "status_rank (wf_status p) < status_rank (wf_status w)"
    by (auto simp: legal_step_def intro: allowed_transitions_rank)
  with Cons show ?case by fastforce
qed simp

lemma legal_history_length: "legal_history None ws \<Longrightarrow> length ws \<le> 7"
proof (cases ws)
  case (Cons w vs)
  moreover assume "legal_history None ws"
  ultimately have "length vs \<le> status_rank (wf_status (last ws))"
    using legal_history_rank [of w vs] by auto
  then show ?thesis using Cons status_rank_le [of "wf_status (last ws)"] by simp
qed simp

text \<open>An accepted event is a legal step from the record the store holds.\<close>

lemma commit_legal_step:
  assumes "apply_to std e cur = Inr w"
  shows "legal_step cur (w\<lparr>wf_version := next_version (map_option wf_version cur)\<rparr>)"
proof (cases cur)
  case None
  with assms show ?thesis by (auto simp: legal_step_def dest: apply_to_creates)
next
  case (Some c)
  with assms show ?thesis
    by (auto simp: legal_step_def same_identity_def dest!: apply_to_advances)
qed

lemma history_commit:
  assumes "apply_workflow_event std e st = Inr (tr, st')" "\<not> tr_replayed tr"
  shows "history st' k = history st k @ (if ev_workflow_id e = k then [tr_record tr] else [])"
  using assms(1)
proof (cases rule: apply_event_cases)
  case replay
  with assms(2) show ?thesis by (auto simp: replayed_transition_ok)
next
  case (commit w f)
  then show ?thesis by (simp add: history_def)
qed

lemma replay_keeps_store:
  assumes "apply_workflow_event std e st = Inr (tr, st')" "tr_replayed tr"
  shows "st' = st"
  using assms(1) by (cases rule: apply_event_cases) (use assms(2) in auto)

lemma commit_get:
  assumes "store_wf st" "apply_workflow_event std e st = Inr (tr, st')" "\<not> tr_replayed tr"
  shows "get_workflow st' = (get_workflow st)(ev_workflow_id e \<mapsto> tr_record tr) \<and>
     legal_step (get_workflow st (ev_workflow_id e)) (tr_record tr)"
  using assms(2)
proof (cases rule: apply_event_cases)
  case replay
  with assms(3) show ?thesis by (auto simp: replayed_transition_ok)
next
  case (commit w f)
  have "wf_workflow_id w = ev_workflow_id e" using assms(1) commit(4) by (rule committed_id)
  moreover have "get_workflow st' = get_workflow (write_workflow (tr_record tr) st)"
    unfolding commit(7) by (rule ext) (simp add: get_workflow_def)
  ultimately have "get_workflow st' = (get_workflow st)(ev_workflow_id e \<mapsto> tr_record tr)"
    using commit(6) by (simp add: get_write_workflow)
  with commit_legal_step [OF commit(4)] commit(6) show ?thesis by simp
qed

lemma put_service_frame:
  assumes "put_service r x st = Inr (stored, st')"
  shows "get_workflow st' = get_workflow st \<and> history st' = history st"
  using assms
  by (auto simp: put_service_def Let_def rbind_eq_Inr get_workflow_def history_def fun_eq_iff)

lemma put_workflow_frame:
  assumes "store_wf st" "put_workflow w x st = Inr (kept, st')" "k \<noteq> wf_workflow_id w"
  shows "get_workflow st' k = get_workflow st k" "history st' = history st"
proof -
  show "get_workflow st' k = get_workflow st k" using sqlite_workflows.put_stores [OF assms(1,2)] assms(3) by simp
  show "history st' = history st"
    using put_workflow_ok [OF assms(2)] by (simp add: history_def fun_eq_iff write_workflow_def)
qed

lemma reachable_history:
  "lifecycle_reachable std direct st \<Longrightarrow> k \<notin> direct \<Longrightarrow>
     get_workflow st k = latest None (history st k) \<and> legal_history None (history st k)"
proof (induction rule: lifecycle_reachable.induct)
  case reach_empty
  then show ?case by (simp add: get_workflow_def empty_store_def history_def latest_def)
next
  case (reach_event st e tr st')
  show ?case
  proof (cases "tr_replayed tr")
    case True
    then show ?thesis using replay_keeps_store [OF reach_event(2)] reach_event by simp
  next
    case False
    note wf = reachable_wf [OF reach_event(1)]
    show ?thesis
      using commit_get [OF wf reach_event(2) False] history_commit [OF reach_event(2) False, of k]
        reach_event(3) [OF reach_event(4)] by (auto simp: legal_history_snoc latest_def)
  qed
next
  case (reach_service st r x stored st')
  then show ?case using put_service_frame [OF reach_service(2)] by simp
next
  case (reach_direct st w x kept st')
  then have "k \<noteq> wf_workflow_id w" by blast
  from put_workflow_frame [OF reachable_wf [OF reach_direct(1)] reach_direct(2) this] reach_direct show ?case by simp
qed

section \<open>Acceptance and refusal\<close>

text \<open>The record and the event agree on everything a transition may not change.\<close>

definition event_matches :: "lifecycle_event \<Rightarrow> workflow_record \<Rightarrow> bool" where
  "event_matches e w \<longleftrightarrow> ev_from_status e = Some (wf_status w) \<and>
     ev_expected_version e = Some (wf_version w) \<and>
     ev_tenant_id e = wf_tenant_id w \<and> ev_service_id e = wf_service_id w \<and>
     ev_environment e = wf_environment w \<and> ev_kind e = wf_kind w \<and>
     ev_correlation_id e = wf_correlation_id w"

lemma apply_to_Some_iff:
  assumes "validate std e = Inr ()"
  shows "(\<exists>x. apply_to std e (Some w) = Inr x) \<longleftrightarrow>
     event_matches (e\<lparr>ev_expected_version := Some (wf_version w)\<rparr>) w"
  using assms
  by (auto simp: apply_to_def event_matches_def rbind_eq_Inr check_unchanged_ok
      split: option.splits)

lemma apply_to_None_iff:
  assumes "validate std e = Inr ()"
  shows "(\<exists>x. apply_to std e None = Inr x) \<longleftrightarrow> ev_from_status e = None"
  using assms by (auto simp: apply_to_def)

lemma fresh_apply:
  assumes "validate std e = Inr ()"
    and "find_receipt st (ev_workflow_id e) (ev_idempotency_key e) = None"
    and "find_event st (ev_workflow_id e) (ev_event_id e) = None"
  shows "(\<exists>r. apply_workflow_event std e st = Inr r) \<longleftrightarrow>
     (ev_expected_version e = None \<or>
        map_option wf_version (get_workflow st (ev_workflow_id e)) = ev_expected_version e) \<and>
     (\<exists>w. apply_to std e (get_workflow st (ev_workflow_id e)) = Inr w)"
  using assms
  by (auto simp: apply_workflow_event_def get_workflow_def rbind_eq_Inr fingerprint_eq_Inr Let_def)

lemma check_unchanged_error:
  "check_unchanged xs = Inl x \<Longrightarrow> \<exists>m. x = LifecycleContractError m"
  by (induction xs rule: check_unchanged.induct) (auto split: if_splits)

lemma valid_event_errors:
  assumes "validate std e = Inr ()" "apply_to std e c = Inl x"
  shows "\<exists>m. x = LifecycleContractError m"
  using assms
  by (auto simp: apply_to_def rbind_eq_Inl dest: check_unchanged_error split: option.splits if_splits)

lemma fresh_refusal:
  assumes valid: "validate std e = Inr ()"
    and "find_receipt st (ev_workflow_id e) (ev_idempotency_key e) = None"
    and "find_event st (ev_workflow_id e) (ev_event_id e) = None"
    and err: "apply_workflow_event std e st = Inl x"
  shows "\<exists>m. x = VersionConflict m"
proof (cases "assert_expected (map_option wf_version (get_workflow st (ev_workflow_id e)))
    (ev_expected_version e)")
  case (Inl y)
  with assms show ?thesis
    by (auto simp: apply_workflow_event_def get_workflow_def Let_def assert_expected_def split: if_splits)
next
  case (Inr u)
  show ?thesis
  proof (cases "apply_to std e (get_workflow st (ev_workflow_id e))")
    case (Inl y)
    with valid obtain m where "y = LifecycleContractError m" using valid_event_errors by blast
    with assms Inr Inl show ?thesis
      by (auto simp: apply_workflow_event_def get_workflow_def Let_def as_version_conflict_def
          assert_expected_def)
  next
    case (Inr w)
    with \<open>assert_expected _ _ = Inr u\<close> have "\<exists>r. apply_workflow_event std e st = Inr r"
      using fresh_apply [OF assms(1-3)] by simp
    with err show ?thesis by simp
  qed
qed

text \<open>Two events accepted under one idempotency key have the same content.\<close>

lemma accepted_receipt:
  assumes "apply_workflow_event std e st = Inr (tr, st')"
  shows "\<exists>r. find_receipt st' (ev_workflow_id e) (ev_idempotency_key e) = Some r \<and>
     fingerprint std e = Inr (rc_event_fingerprint r) \<and> rc_workflow_payload r = tr_record tr"
proof -
  from apply_event_replay [OF assms] obtain r where
    "find_receipt st' (ev_workflow_id e) (ev_idempotency_key e) = Some r"
    "replayed_transition std e r = Inr (tr\<lparr>tr_replayed := True\<rparr>)"
    using replayed_has_receipt by fastforce
  then show ?thesis by (cases tr) (auto simp: replayed_transition_ok)
qed

lemma fingerprint_binds:
  assumes "float_repr_ok std" "fingerprint std a = Inr f" "fingerprint std b = Inr f"
  shows "json_norm (canonical_payload a) = json_norm (canonical_payload b) \<or>
     sha256_collides std (json_dumps std (canonical_payload a)) (json_dumps std (canonical_payload b))"
proof -
  from assms(2,3) have "sha256_hex std (json_dumps std (canonical_payload a)) =
      sha256_hex std (json_dumps std (canonical_payload b))"
    by (auto simp: fingerprint_eq_Inr)
  from sha256_equal_or_collides [OF this] json_dumps_unique [OF assms(1)] show ?thesis by blast
qed

section \<open>A sample run\<close>

text \<open>Creation, planning and failure of one workflow, for the witnesses.\<close>

definition sample_event :: "string \<Rightarrow> workflow_status option \<Rightarrow> workflow_status \<Rightarrow> int option \<Rightarrow> lifecycle_event" where
  "sample_event key from to expected =
     \<lparr>ev_event_id = ''e-'' @ key, ev_idempotency_key = key, ev_workflow_id = ''wf-1'',
      ev_tenant_id = ''tenant-a'', ev_service_id = ''payments'', ev_environment = ''staging'',
      ev_kind = ''remediation'', ev_correlation_id = ''corr-1'', ev_actor = ''agent:sre'',
      ev_action = ''advance'', ev_from_status = from, ev_to_status = to,
      ev_expected_version = expected, ev_plan_hash = None, ev_causation_id = None,
      ev_consequential = False, ev_attributes = [], ev_occurred_at = ''17'', ev_schema_version = 1\<rparr>"

definition sample_created :: lifecycle_event where
  "sample_created = sample_event ''k1'' None RECEIVED None"

definition sample_failed :: lifecycle_event where
  "sample_failed = sample_event ''k-2'' (Some RECEIVED) FAILED (Some 1)"

definition sample_record :: "workflow_status \<Rightarrow> int \<Rightarrow> workflow_record" where
  "sample_record s v =
     \<lparr>wf_workflow_id = ''wf-1'', wf_service_id = ''payments'', wf_environment = ''staging'',
      wf_kind = ''remediation'', wf_status = s, wf_correlation_id = ''corr-1'', wf_plan_hash = None,
      wf_version = v, wf_updated_at = ''17'', wf_tenant_id = ''tenant-a''\<rparr>"

definition sample_result :: "lifecycle_event \<Rightarrow> workflow_record \<Rightarrow> transition_result" where
  "sample_result e w = \<lparr>tr_record = w, tr_event_id = ev_event_id e,
     tr_idempotency_key = ev_idempotency_key e, tr_replayed = False\<rparr>"

definition sample_receipt :: "lifecycle_event \<Rightarrow> workflow_record \<Rightarrow> receipt" where
  "sample_receipt e w = \<lparr>rc_workflow_id = ''wf-1'', rc_idempotency_key = ev_idempotency_key e,
     rc_event_id = ev_event_id e,
     rc_event_fingerprint = ''sha256:'' @ sha256_hex fixture_std (json_dumps fixture_std (canonical_payload e)),
     rc_workflow_payload = w\<rparr>"

definition sample_store1 :: state_store where
  "sample_store1 = (write_workflow (sample_record RECEIVED 1) empty_store)
     \<lparr>st_receipts := [sample_receipt sample_created (sample_record RECEIVED 1)]\<rparr>"

definition sample_store2 :: state_store where
  "sample_store2 = (write_workflow (sample_record FAILED 2) sample_store1)
     \<lparr>st_receipts := [sample_receipt sample_created (sample_record RECEIVED 1),
        sample_receipt sample_failed (sample_record FAILED 2)]\<rparr>"

lemmas sample_defs = sample_created_def sample_failed_def sample_event_def sample_record_def
  sample_receipt_def sample_result_def sample_store1_def sample_store2_def empty_store_def

lemma sample_valid:
  "validate fixture_std sample_created = Inr ()"
  "validate fixture_std sample_failed = Inr ()"
  by code_simp+

lemma sample_run1:
  "apply_workflow_event fixture_std sample_created empty_store =
     Inr (sample_result sample_created (sample_record RECEIVED 1), sample_store1)"
  using sample_valid(1)
  by (simp add: apply_workflow_event_def apply_to_def fingerprint_def as_version_conflict_def
      assert_expected_def next_version_def find_receipt_def find_event_def Let_def sample_defs)

lemma sample_run2:
  "apply_workflow_event fixture_std sample_failed sample_store1 =
     Inr (sample_result sample_failed (sample_record FAILED 2), sample_store2)"
  using sample_valid(2)
  by (simp add: apply_workflow_event_def apply_to_def fingerprint_def as_version_conflict_def
      assert_expected_def next_version_def find_receipt_def find_event_def write_workflow_def Let_def sample_defs)

lemma sample_rerun:
  "apply_workflow_event fixture_std sample_created sample_store2 =
     Inr ((sample_result sample_created (sample_record RECEIVED 1))\<lparr>tr_replayed := True\<rparr>, sample_store2)"
proof -
  obtain r where r: "find_receipt sample_store1 (ev_workflow_id sample_created) (ev_idempotency_key sample_created) = Some r"
      "replayed_transition fixture_std sample_created r = Inr ((sample_result sample_created (sample_record RECEIVED 1))\<lparr>tr_replayed := True\<rparr>)"
    using replayed_has_receipt [OF apply_event_replay [OF sample_run1]] by auto
  from find_receipt_stable [OF sample_run2 r(1)] r(2) sample_valid(1) show ?thesis
    by (simp add: apply_workflow_event_def)
qed

lemma sample_reachable:
  "lifecycle_reachable fixture_std direct sample_store1" "lifecycle_reachable fixture_std direct sample_store2"
  using reach_empty reach_event sample_run1 sample_run2 by blast+

lemma sample_get:
  "get_workflow sample_store1 ''wf-1'' = Some (sample_record RECEIVED 1)"
  "get_workflow sample_store2 ''wf-1'' = Some (sample_record FAILED 2)"
  by (simp_all add: get_workflow_def write_workflow_def sample_defs)

section \<open>Properties\<close>



text \<open>A workflow in a terminal status is final: no lifecycle event, whatever it carries,
  changes its record.\<close>

theorem terminal_workflow_immutable:
  assumes reach: "lifecycle_reachable std direct st"
    and ap: "apply_workflow_event std e st = Inr (tr, st')"
    and w: "get_workflow st k = Some w" and final: "terminal_status (wf_status w)"
  shows "get_workflow st' k = Some w"
proof (cases "tr_replayed tr")
  case True
  with replay_keeps_store [OF ap] w show ?thesis by simp
next
  case False
  from commit_get [OF reachable_wf [OF reach] ap False]
  have get: "get_workflow st' = (get_workflow st)(ev_workflow_id e \<mapsto> tr_record tr)"
    and legal: "legal_step (get_workflow st (ev_workflow_id e)) (tr_record tr)" by auto
  from legal w final have "ev_workflow_id e \<noteq> k" by (auto simp: legal_step_def terminal_status_iff)
  with get w show ?thesis by simp
qed

theorem terminal_workflow_immutable_witness:
  "apply_workflow_event fixture_std sample_failed sample_store2 =
     Inr ((sample_result sample_failed (sample_record FAILED 2))\<lparr>tr_replayed := True\<rparr>, sample_store2) \<and>
   get_workflow sample_store2 ''wf-1'' = Some (sample_record FAILED 2)"
proof -
  have ap: "apply_workflow_event fixture_std sample_failed sample_store2 =
      Inr ((sample_result sample_failed (sample_record FAILED 2))\<lparr>tr_replayed := True\<rparr>, sample_store2)"
    by (rule apply_event_replay [OF sample_run2])
  have "terminal_status (wf_status (sample_record FAILED 2))"
    by (simp add: sample_defs terminal_status_def)
  from terminal_workflow_immutable [OF sample_reachable(2) [of "{}"] ap sample_get(2) this] ap
  show ?thesis by blast
qed

text \<open>Exactly when a fresh, valid event is accepted: it creates a workflow that does not
  exist, or it names the current status, version, tenant, service, environment, kind and
  correlation id of the one that does. Every other fresh, valid event is a version conflict.\<close>

theorem fresh_event_accepted_iff:
  assumes valid: "validate std e = Inr ()"
    and "find_receipt st (ev_workflow_id e) (ev_idempotency_key e) = None"
    and "find_event st (ev_workflow_id e) (ev_event_id e) = None"
  shows "case apply_workflow_event std e st of
       Inr _ \<Rightarrow> (case get_workflow st (ev_workflow_id e) of
           None \<Rightarrow> ev_from_status e = None | Some w \<Rightarrow> event_matches e w)
     | Inl x \<Rightarrow> (\<exists>m. x = VersionConflict m) \<and> \<not> (case get_workflow st (ev_workflow_id e) of
           None \<Rightarrow> ev_from_status e = None | Some w \<Rightarrow> event_matches e w)"
proof -
  have "(\<exists>r. apply_workflow_event std e st = Inr r) \<longleftrightarrow>
      (case get_workflow st (ev_workflow_id e) of
         None \<Rightarrow> ev_from_status e = None | Some w \<Rightarrow> event_matches e w)"
  proof (cases "get_workflow st (ev_workflow_id e)")
    case None
    with fresh_apply [OF assms] apply_to_None_iff [OF valid] show ?thesis
      using validate_creation [OF valid] by auto
  next
    case (Some w)
    with fresh_apply [OF assms] apply_to_Some_iff [OF valid, of w] show ?thesis
      using validate_existing [OF valid] by (auto simp: event_matches_def)
  qed
  then show ?thesis
    using fresh_refusal [OF assms] by (cases "apply_workflow_event std e st") auto
qed

theorem fresh_event_accepted_iff_witness:
  "(case apply_workflow_event fixture_std sample_failed empty_store of
       Inr _ \<Rightarrow> False | Inl x \<Rightarrow> \<exists>m. x = VersionConflict m) \<and>
   ev_from_status sample_failed \<noteq> None"
proof -
  have "find_receipt empty_store (ev_workflow_id sample_failed) (ev_idempotency_key sample_failed) = None"
    "find_event empty_store (ev_workflow_id sample_failed) (ev_event_id sample_failed) = None"
    by (simp_all add: find_receipt_def find_event_def empty_store_def)
  from fresh_event_accepted_iff [OF sample_valid(2) this] show ?thesis
    by (auto simp: get_workflow_def sample_defs split: sum.splits)
qed

text \<open>C2. At-least-once delivery is exactly-once in effect: once a sequence of events has been
  accepted, redelivering any of them, in any order and any number of times, and then going on
  with further events gives the same result as going on without the redeliveries.\<close>

theorem redelivery_has_no_effect:
  assumes "lifecycle_reachable std direct st" and "set ds \<subseteq> set es" and "apply_events std es st = Inr st'"
  shows "apply_events std (es @ ds @ fs) st = apply_events std (es @ fs) st"
  using sqlite_receipts.redelivery_absorbed [of st ds es std st' fs] assms reachable_wf
  by (simp add: apply_events_deliver)

theorem redelivery_has_no_effect_witness:
  "apply_events fixture_std ([sample_created] @ [sample_created, sample_created] @ [sample_failed]) empty_store =
     apply_events fixture_std ([sample_created] @ [sample_failed]) empty_store"
  by (rule redelivery_has_no_effect [where st' = sample_store1 and direct = "{}"])
    (simp_all add: reach_empty sample_run1)

text \<open>An idempotency key names one event: a second event accepted under the key of an
  accepted one has the same canonical content (it is that event, up to the order of the keys of
  its attributes), unless the different canonical texts of the two have the same SHA-256 digest.\<close>

theorem idempotency_key_names_one_event:
  assumes "float_repr_ok std"
    and "apply_workflow_event std a st = Inr (tr, st')"
    and "apply_workflow_event std b st' = Inr (tr', st'')"
    and "ev_workflow_id b = ev_workflow_id a" "ev_idempotency_key b = ev_idempotency_key a"
  shows "(a\<lparr>ev_attributes := []\<rparr> = b\<lparr>ev_attributes := []\<rparr> \<and>
     json_norm (JObj (ev_attributes a)) = json_norm (JObj (ev_attributes b)) \<and>
     tr_record tr' = tr_record tr \<and> st'' = st') \<or>
     sha256_collides std (json_dumps std (canonical_payload a)) (json_dumps std (canonical_payload b))"
proof -
  obtain r where r: "find_receipt st' (ev_workflow_id b) (ev_idempotency_key b) = Some r"
      "fingerprint std a = Inr (rc_event_fingerprint r)" "rc_workflow_payload r = tr_record tr"
    using accepted_receipt [OF assms(2)] assms(4,5) by auto
  from assms(3) r(1) have "replayed_transition std b r = Inr tr'" "st'' = st'"
    by (auto simp: apply_workflow_event_def rbind_eq_Inr)
  then have "fingerprint std b = Inr (rc_event_fingerprint r)" "tr_record tr' = tr_record tr" "st'' = st'"
    using r(3) by (auto simp: replayed_transition_ok)
  with fingerprint_binds [OF assms(1) r(2)] canonical_payload_binds show ?thesis by blast
qed

theorem idempotency_key_names_one_event_witness:
  "apply_workflow_event fixture_std sample_created empty_store =
     Inr (sample_result sample_created (sample_record RECEIVED 1), sample_store1) \<and>
   ((sample_created\<lparr>ev_attributes := []\<rparr> = sample_created\<lparr>ev_attributes := []\<rparr> \<and> sample_store1 = sample_store1)
     \<or> sha256_collides fixture_std (json_dumps fixture_std (canonical_payload sample_created))
         (json_dumps fixture_std (canonical_payload sample_created)))"
  using idempotency_key_names_one_event [OF fixture_float_repr sample_run1 apply_event_replay [OF sample_run1]]
    sample_run1 by simp

text \<open>Concurrent writers of one workflow record: of two conditional writes that name the same
  version, the second is refused, and a record seen at some version is the record of that
  version for ever.\<close>

theorem no_lost_update:
  assumes "store_wf st" and "get_workflow st (wf_workflow_id a) = Some cur"
    and "put_workflow a (Some (wf_version cur)) st = Inr (stored, st')"
    and "wf_workflow_id b = wf_workflow_id a"
  shows "(\<exists>m. put_workflow b (Some (wf_version cur)) st' = Inl (VersionConflict m)) \<and>
     get_workflow st' (wf_workflow_id a) = Some stored \<and> wf_version stored = wf_version cur + 1"
  using sqlite_workflows.second_writer_refused [OF assms] sqlite_workflows.put_stores [OF assms(1,3)] assms(2)
  by (simp add: next_version_def)

theorem no_lost_update_witness:
  "(\<exists>stored st'. put_workflow (sample_record PLANNED 1) (Some 1) sample_store1 = Inr (stored, st') \<and>
     (\<exists>m. put_workflow (sample_record FAILED 1) (Some 1) st' = Inl (VersionConflict m)) \<and>
     wf_version stored = 2)"
proof -
  have wf: "store_wf sample_store1" by (rule reachable_wf [OF sample_reachable(1)])
  have id: "wf_workflow_id (sample_record s v) = ''wf-1''" "wf_version (sample_record s v) = v" for s v
    by (simp_all add: sample_record_def)
  obtain stored st' where put: "put_workflow (sample_record PLANNED 1) (Some 1) sample_store1 = Inr (stored, st')"
    using sqlite_workflows.put_accepts [OF wf, of "Some 1" "sample_record PLANNED 1"] sample_get(1) id by auto
  with no_lost_update [OF wf, of "sample_record PLANNED 1" "sample_record RECEIVED 1" stored st' "sample_record FAILED 1"]
  show ?thesis using sample_get(1) id by auto
qed

end
