(* ===== verification/Audit_Log.thy ===== *)
theory Audit_Log
  imports Canonical_Json
begin

text \<open>
  The hash-chained audit log of \<open>src/state/audit.py\<close> (\<open>SqliteAuditLog\<close>) over the \<open>AuditEvent\<close> of
  \<open>src/state/models.py\<close>. A table row keeps the value of its \<open>event_id\<close> column, what its payload
  text decodes to, or the exception decoding raises, and its \<open>event_hash\<close> column; rows are in
  sequence order. An append runs in one \<open>BEGIN IMMEDIATE\<close> transaction.

  The lemmas show that appending keeps the chain verifiable, that a repeated append is
  absorbed, and that the last hash commits to the whole log. The locale \<open>audit_sink\<close> is the
  idempotent-append contract (the \<open>AuditLog\<close> protocol) its clients use.
\<close>

section \<open>Events and rows\<close>

record audit_event =
  au_event_id :: string
  au_correlation_id :: string
  au_actor :: string
  au_action :: string
  au_resource :: string
  au_payload :: "(string \<times> json) list"
  au_occurred_at :: string
  au_previous_hash :: "string option"
  au_event_hash :: "string option"

definition json_of_opt :: "string option \<Rightarrow> json" where
  "json_of_opt x = (case x of None \<Rightarrow> JNull | Some s \<Rightarrow> JStr s)"

text \<open>\<open>asdict(event)\<close> as JSON data.\<close>

definition audit_json :: "audit_event \<Rightarrow> json" where
  "audit_json e = JObj
     [(''event_id'', JStr (au_event_id e)),
      (''correlation_id'', JStr (au_correlation_id e)),
      (''actor'', JStr (au_actor e)),
      (''action'', JStr (au_action e)),
      (''resource'', JStr (au_resource e)),
      (''payload'', JObj (au_payload e)),
      (''occurred_at'', JStr (au_occurred_at e)),
      (''previous_hash'', json_of_opt (au_previous_hash e)),
      (''event_hash'', json_of_opt (au_event_hash e))]"

definition canonical :: "py_std \<Rightarrow> audit_event \<Rightarrow> string" where
  "canonical std e = json_dumps std (audit_json (e\<lparr>au_event_hash := None\<rparr>))"

definition compute_event_hash :: "py_std \<Rightarrow> audit_event \<Rightarrow> string" where
  "compute_event_hash std e = sha256_hex std (canonical std e)"

definition event_identity :: "py_std \<Rightarrow> audit_event \<Rightarrow> string" where
  "event_identity std e =
     json_dumps std (audit_json (e\<lparr>au_previous_hash := None, au_event_hash := None\<rparr>))"

record audit_row =
  ar_event_id :: string
  ar_payload :: "audit_event res"
  ar_event_hash :: string

type_synonym audit_log = "audit_row list"

section \<open>Operations\<close>

definition event_count :: "audit_log \<Rightarrow> nat" where
  "event_count rows = length rows"

definition last_hash :: "audit_log \<Rightarrow> string option" where
  "last_hash rows = (if rows = [] then None else Some (ar_event_hash (last rows)))"

definition audit_append :: "py_std \<Rightarrow> audit_event \<Rightarrow> audit_log \<Rightarrow> (audit_event \<times> audit_log) res" where
  "audit_append std event rows =
     (let previous = last_hash rows;
          candidate = event\<lparr>au_previous_hash := previous, au_event_hash := None\<rparr>;
          finalized = candidate\<lparr>au_event_hash := Some (compute_event_hash std candidate)\<rparr>
      in case find (\<lambda>row. ar_event_id row = au_event_id event) rows of
           None \<Rightarrow> Inr (finalized, rows @
             [\<lparr>ar_event_id = au_event_id finalized, ar_payload = Inr finalized,
               ar_event_hash = compute_event_hash std candidate\<rparr>])
         | Some existing \<Rightarrow>
             rbind (ar_payload existing) (\<lambda>restored.
             if event_identity std restored \<noteq> event_identity std event
             then Inl (AuditConflict ''audit event id has already been used for different content'')
             else Inr (restored, rows)))"

text \<open>The loop of \<open>verify_chain\<close>, with its running \<open>previous\<close>.\<close>

fun verify_rows :: "py_std \<Rightarrow> string option \<Rightarrow> audit_log \<Rightarrow> bool" where
  "verify_rows std previous [] = True"
| "verify_rows std previous (row # rows) =
     (case ar_payload row of
        Inl _ \<Rightarrow> False
      | Inr event \<Rightarrow>
          if au_previous_hash event \<noteq> previous then False
          else if compute_event_hash std (event\<lparr>au_event_hash := None\<rparr>) \<noteq> ar_event_hash row then False
          else verify_rows std (Some (ar_event_hash row)) rows)"

definition verify_chain :: "py_std \<Rightarrow> audit_log \<Rightarrow> bool" where
  "verify_chain std rows = verify_rows std None rows"

section \<open>Appending keeps the chain\<close>

lemma compute_event_hash_ignores [simp]:
  "compute_event_hash std (e\<lparr>au_event_hash := h\<rparr>) = compute_event_hash std e"
  by (simp add: compute_event_hash_def canonical_def)

lemma event_identity_ignores [simp]:
  "event_identity std (e\<lparr>au_event_hash := h\<rparr>) = event_identity std e"
  "event_identity std (e\<lparr>au_previous_hash := p\<rparr>) = event_identity std e"
  by (simp_all add: event_identity_def)

text \<open>What one verified row says about its event.\<close>

definition row_links :: "py_std \<Rightarrow> string option \<Rightarrow> audit_row \<Rightarrow> bool" where
  "row_links std previous row \<longleftrightarrow> (\<exists>event. ar_payload row = Inr event \<and>
     au_previous_hash event = previous \<and> compute_event_hash std event = ar_event_hash row)"

lemma verify_rows_Cons:
  "verify_rows std p (row # rows) \<longleftrightarrow>
     row_links std p row \<and> verify_rows std (Some (ar_event_hash row)) rows"
  by (auto simp: row_links_def split: sum.splits)

lemma verify_rows_snoc:
  "verify_rows std p (rows @ [row]) \<longleftrightarrow>
     verify_rows std p rows \<and> row_links std (if rows = [] then p else last_hash rows) row"
proof (induction rows arbitrary: p)
  case Nil
  then show ?case unfolding append_Nil verify_rows_Cons by simp
next
  case (Cons r rows)
  then show ?case
    unfolding append_Cons verify_rows_Cons by (auto simp: last_hash_def split: if_splits)
qed

lemma verify_chain_snoc:
  "verify_chain std (rows @ [row]) \<longleftrightarrow> verify_chain std rows \<and> row_links std (last_hash rows) row"
  by (auto simp: verify_chain_def verify_rows_snoc last_hash_def)

declare verify_rows.simps(2) [simp del]

text \<open>The two ways an append succeeds.\<close>

lemma audit_append_cases:
  assumes "audit_append std e rows = Inr (f, rows')"
  obtains (fresh) "au_event_id e \<notin> ar_event_id ` set rows"
      "f = e\<lparr>au_previous_hash := last_hash rows, au_event_hash := Some (compute_event_hash std
             (e\<lparr>au_previous_hash := last_hash rows\<rparr>))\<rparr>"
      "rows' = rows @ [\<lparr>ar_event_id = au_event_id e, ar_payload = Inr f,
             ar_event_hash = compute_event_hash std f\<rparr>]"
  | (duplicate) row where "find (\<lambda>row. ar_event_id row = au_event_id e) rows = Some row"
      "ar_payload row = Inr f" "event_identity std f = event_identity std e" "rows' = rows"
proof (cases "find (\<lambda>row. ar_event_id row = au_event_id e) rows")
  case None
  then have "au_event_id e \<notin> ar_event_id ` set rows" by (auto simp: find_None_iff)
  moreover from assms None have
    f: "f = e\<lparr>au_previous_hash := last_hash rows, au_event_hash := Some (compute_event_hash std
        (e\<lparr>au_previous_hash := last_hash rows\<rparr>))\<rparr>"
    and "rows' = rows @ [\<lparr>ar_event_id = au_event_id f, ar_payload = Inr f,
        ar_event_hash = compute_event_hash std (e\<lparr>au_previous_hash := last_hash rows\<rparr>)\<rparr>]"
    by (auto simp: audit_append_def Let_def)
  ultimately show ?thesis by (intro fresh) simp_all
next
  case (Some row)
  with assms show ?thesis
    by (intro duplicate [of row]) (auto simp: audit_append_def Let_def rbind_eq_Inr)
qed

lemma audit_append_verifies:
  assumes "verify_chain std rows" "audit_append std e rows = Inr (f, rows')"
  shows "verify_chain std rows'"
  using assms(2)
proof (cases rule: audit_append_cases)
  case fresh
  then have "row_links std (last_hash rows) \<lparr>ar_event_id = au_event_id e, ar_payload = Inr f,
      ar_event_hash = compute_event_hash std f\<rparr>"
    by (simp add: row_links_def)
  with assms(1) fresh(3) show ?thesis by (simp add: verify_chain_snoc)
next
  case duplicate
  with assms(1) show ?thesis by simp
qed

lemma audit_append_extends:
  assumes "audit_append std e rows = Inr (f, rows')"
  shows "\<exists>new. rows' = rows @ new \<and> length new \<le> 1"
  using assms by (cases rule: audit_append_cases) auto

lemma audit_append_row:
  assumes "audit_append std e rows = Inr (f, rows')"
  shows "\<exists>row \<in> set rows'. ar_event_id row = au_event_id e \<and> ar_payload row = Inr f"
  using assms by (cases rule: audit_append_cases) (auto dest: find_SomeD)

section \<open>Repeated appends\<close>

lemma audit_append_find:
  assumes "audit_append std e rows = Inr (f, rows')"
    and "find (\<lambda>row. ar_event_id row = i) rows = Some row"
  shows "find (\<lambda>row. ar_event_id row = i) rows' = Some row"
  using audit_append_extends [OF assms(1)] assms(2) by (auto simp: find_append)

lemma duplicate_append:
  "find (\<lambda>row. ar_event_id row = au_event_id e) rows = Some row \<Longrightarrow> ar_payload row = Inr f \<Longrightarrow>
     event_identity std f = event_identity std e \<Longrightarrow> audit_append std e rows = Inr (f, rows)"
  by (simp add: audit_append_def Let_def)

lemma audit_append_again:
  assumes "audit_append std e rows = Inr (f, rows')"
  shows "audit_append std e rows' = Inr (f, rows')"
  using assms
proof (cases rule: audit_append_cases)
  case fresh
  let ?row = "\<lparr>ar_event_id = au_event_id e, ar_payload = Inr f, ar_event_hash = compute_event_hash std f\<rparr>"
  from fresh(1) have "find (\<lambda>row. ar_event_id row = au_event_id e) rows = None"
    by (force simp: find_None_iff)
  then have "find (\<lambda>row. ar_event_id row = au_event_id e) rows' = Some ?row"
    unfolding fresh(3) by (simp add: find_append)
  then show ?thesis by (rule duplicate_append) (simp_all add: fresh(2))
next
  case duplicate
  with assms show ?thesis by simp
qed

lemma audit_append_stable:
  assumes "audit_append std e rows = Inr (f, rows)" and "audit_append std d rows = Inr (g, rows')"
  shows "audit_append std e rows' = Inr (f, rows')"
  using assms(1)
proof (cases rule: audit_append_cases)
  case fresh
  then show ?thesis by simp
next
  case (duplicate row)
  from audit_append_find [OF assms(2) duplicate(1)] duplicate(2,3) show ?thesis
    by (rule duplicate_append)
qed

text \<open>
  The append contract of the \<open>AuditLog\<close> protocol: an acknowledged event is found again by
  every later append of it, which returns the same finalized event and adds nothing.
\<close>

locale audit_sink =
  fixes append :: "audit_event \<Rightarrow> 'a \<Rightarrow> (audit_event \<times> 'a) res"
  assumes append_again: "append e s = Inr (f, s') \<Longrightarrow> append e s' = Inr (f, s')"
    and append_stable: "append e s = Inr (f, s) \<Longrightarrow> append d s = Inr (g, s') \<Longrightarrow>
      append e s' = Inr (f, s')"
begin

fun append_all :: "audit_event list \<Rightarrow> 'a \<Rightarrow> 'a res" where
  "append_all [] s = Inr s"
| "append_all (e # es) s = rbind (append e s) (\<lambda>(f, s'). append_all es s')"

lemma append_all_keeps:
  "append e s = Inr (f, s) \<Longrightarrow> append_all es s = Inr s' \<Longrightarrow> append e s' = Inr (f, s')"
proof (induction es arbitrary: s)
  case (Cons d es)
  from Cons.prems(2) obtain g mid where mid: "append d s = Inr (g, mid)" "append_all es mid = Inr s'"
    by (auto simp: rbind_eq_Inr)
  from append_stable [OF Cons.prems(1) mid(1)] mid(2) show ?case by (rule Cons.IH)
qed simp

lemma acknowledged_for_ever:
  "append e s = Inr (f, s') \<Longrightarrow> append_all es s' = Inr s'' \<Longrightarrow> append e s'' = Inr (f, s'')"
  by (rule append_all_keeps [OF append_again])

end

interpretation sqlite_audit: audit_sink "audit_append std" for std
  by unfold_locales (auto intro: audit_append_again audit_append_stable)

text \<open>A run of appends to the SQLite log.\<close>

fun audit_appends :: "py_std \<Rightarrow> audit_event list \<Rightarrow> audit_log \<Rightarrow> audit_log res" where
  "audit_appends std [] rows = Inr rows"
| "audit_appends std (e # es) rows = rbind (audit_append std e rows) (\<lambda>(f, rows'). audit_appends std es rows')"

lemma audit_appends_all: "audit_appends std es rows = sqlite_audit.append_all std es rows"
  by (induction es arbitrary: rows) (auto simp: rbind_def split: sum.splits)

lemma audit_appends_verify:
  "verify_chain std rows \<Longrightarrow> audit_appends std es rows = Inr rows' \<Longrightarrow>
     verify_chain std rows' \<and> (\<exists>new. rows' = rows @ new \<and> length new \<le> length es)"
proof (induction es arbitrary: rows)
  case (Cons e es)
  from Cons.prems(2) obtain f mid where mid: "audit_append std e rows = Inr (f, mid)"
      "audit_appends std es mid = Inr rows'"
    by (auto simp: rbind_eq_Inr)
  have "verify_chain std mid" using Cons.prems(1) mid(1) by (rule audit_append_verifies)
  from Cons.IH [OF this mid(2)] obtain new where "verify_chain std rows'" "rows' = mid @ new"
      "length new \<le> length es" by blast
  moreover obtain one where "mid = rows @ one" "length one \<le> 1"
    using audit_append_extends [OF mid(1)] by blast
  ultimately show ?case by (intro conjI exI [of _ "one @ new"]) simp_all
qed simp

section \<open>Tamper evidence\<close>

text \<open>Equal hashes come from events with the same content, except for their own hash field.\<close>

definition same_audit_content :: "audit_event \<Rightarrow> audit_event \<Rightarrow> bool" where
  "same_audit_content a b \<longleftrightarrow>
     a\<lparr>au_event_hash := None, au_payload := []\<rparr> = b\<lparr>au_event_hash := None, au_payload := []\<rparr> \<and>
     json_norm (JObj (au_payload a)) = json_norm (JObj (au_payload b))"

lemma same_audit_content_id: "same_audit_content a b \<Longrightarrow> au_event_id a = au_event_id b"
  by (cases a; cases b) (simp add: same_audit_content_def)

lemma json_of_opt_inject [simp]: "json_norm (json_of_opt a) = json_norm (json_of_opt b) \<longleftrightarrow> a = b"
  by (cases a; cases b) (auto simp: json_of_opt_def)

lemma audit_json_binds:
  assumes "json_norm (audit_json a) = json_norm (audit_json b)"
  shows "a\<lparr>au_payload := []\<rparr> = b\<lparr>au_payload := []\<rparr> \<and>
     json_norm (JObj (au_payload a)) = json_norm (JObj (au_payload b))"
proof -
  define fs where "fs = (\<lambda>e. case audit_json e of JObj kvs \<Rightarrow> kvs | _ \<Rightarrow> [])"
  have fs: "audit_json e = JObj (fs e)" for e by (simp add: fs_def audit_json_def)
  have "distinct (map fst (fs e))" for e by (simp add: fs_def audit_json_def)
  with assms fs have *: "map_option json_norm (map_of (fs a) k) = map_option json_norm (map_of (fs b) k)" for k
    by (metis json_norm_fields)
  show ?thesis
    using * [of "''event_id''"] * [of "''correlation_id''"] * [of "''actor''"] * [of "''action''"]
      * [of "''resource''"] * [of "''payload''"] * [of "''occurred_at''"] * [of "''previous_hash''"]
      * [of "''event_hash''"]
    by (cases a; cases b) (simp add: fs_def audit_json_def)
qed

lemma event_hash_binds:
  assumes "float_repr_ok std" "compute_event_hash std a = compute_event_hash std b"
  shows "same_audit_content a b \<or> sha256_collides std (canonical std a) (canonical std b)"
proof -
  from sha256_equal_or_collides [OF assms(2) [unfolded compute_event_hash_def]]
  consider "canonical std a = canonical std b" | "sha256_collides std (canonical std a) (canonical std b)" by blast
  then show ?thesis
  proof cases
    case 1
    from audit_json_binds [OF json_dumps_unique [OF assms(1) 1 [unfolded canonical_def]]]
    show ?thesis by (simp add: same_audit_content_def)
  qed simp
qed

text \<open>Two rows that a verifier cannot tell apart.\<close>

definition same_row :: "audit_row \<Rightarrow> audit_row \<Rightarrow> bool" where
  "same_row r s \<longleftrightarrow> ar_event_hash r = ar_event_hash s \<and>
     (\<exists>a b. ar_payload r = Inr a \<and> ar_payload s = Inr b \<and> same_audit_content a b)"

text \<open>Two different events, one of each log, whose canonical texts have the same digest.\<close>

definition events_collide :: "py_std \<Rightarrow> audit_row list \<Rightarrow> audit_row list \<Rightarrow> bool" where
  "events_collide std rows rows' \<longleftrightarrow> (\<exists>a b. Inr a \<in> ar_payload ` set rows \<and> Inr b \<in> ar_payload ` set rows' \<and>
     sha256_collides std (canonical std a) (canonical std b))"

lemma events_collide_append:
  "events_collide std rows rows' \<Longrightarrow> events_collide std (rows @ ys) (rows' @ zs)"
  by (auto simp: events_collide_def)

lemma verified_logs_agree:
  assumes ok: "float_repr_ok std"
  shows "verify_chain std rows \<Longrightarrow> verify_chain std rows' \<Longrightarrow> last_hash rows = last_hash rows' \<Longrightarrow>
     list_all2 same_row rows rows' \<or> events_collide std rows rows'"
proof (induction rows arbitrary: rows' rule: rev_induct)
  case Nil
  then show ?case by (auto simp: last_hash_def split: if_splits)
next
  case (snoc r rows)
  then obtain s rest where rows': "rows' = rest @ [s]"
    by (cases rows' rule: rev_cases) (auto simp: last_hash_def)
  with snoc.prems have hash: "ar_event_hash r = ar_event_hash s" by (simp add: last_hash_def)
  from snoc.prems rows' obtain a b where
      a: "ar_payload r = Inr a" "au_previous_hash a = last_hash rows" "compute_event_hash std a = ar_event_hash r"
    and b: "ar_payload s = Inr b" "au_previous_hash b = last_hash rest" "compute_event_hash std b = ar_event_hash s"
    by (auto simp: verify_chain_snoc row_links_def)
  show ?case
  proof (cases "events_collide std (rows @ [r]) rows'")
    case False
    moreover have "Inr a \<in> ar_payload ` set (rows @ [r])" "Inr b \<in> ar_payload ` set rows'"
      using a(1) b(1) rows' by (metis imageI in_set_conv_decomp)+
    ultimately have "\<not> sha256_collides std (canonical std a) (canonical std b)" unfolding events_collide_def by blast
    with event_hash_binds [OF ok, of a b] a b hash have same: "same_audit_content a b" by simp
    then have "au_previous_hash a = au_previous_hash b"
      by (cases a; cases b) (simp add: same_audit_content_def)
    moreover have "\<not> events_collide std rows rest" using False rows' events_collide_append by blast
    ultimately have "list_all2 same_row rows rest"
      using a b snoc.IH [of rest] snoc.prems rows' by (simp add: verify_chain_snoc)
    moreover have "same_row r s" using same a b hash by (auto simp: same_row_def)
    ultimately show ?thesis using rows' by (simp add: list_all2_appendI)
  qed simp
qed

section \<open>Properties\<close>

definition sample_audit :: "string \<Rightarrow> audit_event" where
  "sample_audit i = \<lparr>au_event_id = i, au_correlation_id = ''corr-1'', au_actor = ''agent:sre'',
     au_action = ''advance'', au_resource = ''wf-1'', au_payload = [(''version'', JInt 1)],
     au_occurred_at = ''17'', au_previous_hash = None, au_event_hash = None\<rparr>"

lemma sample_appends: "\<exists>rows. audit_appends std [sample_audit ''a'', sample_audit ''b''] [] = Inr rows"
    "\<exists>rows. audit_appends std [sample_audit ''a'', sample_audit ''c''] [] = Inr rows"
  by (simp_all add: audit_append_def sample_audit_def Let_def)

text \<open>The audit log is append-only and stays verifiable: accepted appends extend a verified log
  at its end, by at most one row each, and the extended log verifies.\<close>

theorem audit_log_append_only:
  assumes "verify_chain std rows" "audit_appends std es rows = Inr rows'"
  shows "verify_chain std rows' \<and>
     (\<exists>new. rows' = rows @ new \<and> length new \<le> length es \<and>
        event_count rows' = event_count rows + length new)"
  using audit_appends_verify [OF assms] by (auto simp: event_count_def)

theorem audit_log_append_only_witness:
  "\<exists>rows. audit_appends fixture_std [sample_audit ''a'', sample_audit ''b''] [] = Inr rows \<and>
     verify_chain fixture_std rows"
proof -
  obtain rows where rows: "audit_appends fixture_std [sample_audit ''a'', sample_audit ''b''] [] = Inr rows"
    using sample_appends by blast
  have "verify_chain fixture_std []" by (simp add: verify_chain_def)
  from audit_log_append_only [OF this rows] rows show ?thesis by blast
qed

text \<open>C4. The last hash commits to the whole log: two logs that both verify and end in the same
  hash have the same number of rows, and row by row the same hash and the same event content
  (everything but the payload's own copy of the hash), unless the canonical texts of two
  different events, one of each log, have the same SHA-256 digest.\<close>

theorem last_hash_commits:
  assumes "float_repr_ok std" "verify_chain std rows" "verify_chain std rows'"
    and "last_hash rows = last_hash rows'"
  shows "list_all2 same_row rows rows' \<or>
     (\<exists>r \<in> set rows. \<exists>s \<in> set rows'. \<exists>a b. ar_payload r = Inr a \<and> ar_payload s = Inr b \<and>
        canonical std a \<noteq> canonical std b \<and> sha256_hex std (canonical std a) = sha256_hex std (canonical std b))"
proof -
  from verified_logs_agree [OF assms] consider "list_all2 same_row rows rows'" | "events_collide std rows rows'" by blast
  then show ?thesis
    by cases (auto simp: events_collide_def sha256_collides_def image_iff intro!: disjI2, metis)
qed

text \<open>The copy of the hash inside the payload of a row is not verified.\<close>

definition forget_hash :: "audit_row \<Rightarrow> audit_row" where
  "forget_hash r = r\<lparr>ar_payload := map_sum id (\<lambda>e. e\<lparr>au_event_hash := None\<rparr>) (ar_payload r)\<rparr>"

lemma verify_forget: "verify_rows std p (map forget_hash rows) = verify_rows std p rows"
  by (induction rows arbitrary: p) (auto simp: verify_rows.simps(2) forget_hash_def split: sum.splits)

lemma last_hash_forget: "last_hash (map forget_hash rows) = last_hash rows"
  by (simp add: last_hash_def last_map forget_hash_def)

text \<open>
  Under a digest without collisions: two logs that differ in the copies of the hash inside their
  payloads agree row by row, and a log of other events ends in another hash.
\<close>

theorem last_hash_commits_witness:
  "\<exists>rows rows' other. audit_appends plain_std [sample_audit ''a'', sample_audit ''b''] [] = Inr rows \<and>
     rows \<noteq> rows' \<and> verify_chain plain_std rows' \<and> list_all2 same_row rows rows' \<and>
     audit_appends plain_std [sample_audit ''a'', sample_audit ''c''] [] = Inr other \<and> last_hash other \<noteq> last_hash rows"
proof -
  have none: "\<not> (\<exists>a b. canonical plain_std a \<noteq> canonical plain_std b \<and>
      sha256_hex plain_std (canonical plain_std a) = sha256_hex plain_std (canonical plain_std b))"
    using plain_collides unfolding sha256_collides_def by blast
  obtain rows other where logs: "audit_appends plain_std [sample_audit ''a'', sample_audit ''b''] [] = Inr rows"
      "audit_appends plain_std [sample_audit ''a'', sample_audit ''c''] [] = Inr other"
    using sample_appends by blast
  have ok: "verify_chain plain_std rows" "verify_chain plain_std other"
    using audit_appends_verify [OF _ logs(1)] audit_appends_verify [OF _ logs(2)] by (simp_all add: verify_chain_def)
  have rows: "map (\<lambda>r. map_sum id au_event_id (ar_payload r)) rows = [Inr ''a'', Inr ''b'']"
      "map (\<lambda>r. map_sum id au_event_id (ar_payload r)) other = [Inr ''a'', Inr ''c'']"
      "rows \<noteq> map forget_hash rows"
    using logs by (auto simp: audit_append_def sample_audit_def Let_def forget_hash_def)
  have "verify_chain plain_std (map forget_hash rows)" "last_hash (map forget_hash rows) = last_hash rows"
    using ok(1) by (simp_all add: verify_chain_def verify_forget last_hash_forget)
  moreover from last_hash_commits [OF plain_float_repr ok(1) this(1) this(2) [symmetric]] none
  have "list_all2 same_row rows (map forget_hash rows)" by blast
  moreover have "last_hash other \<noteq> last_hash rows"
  proof
    assume "last_hash other = last_hash rows"
    from last_hash_commits [OF plain_float_repr ok(2,1) this] none have "list_all2 same_row other rows" by blast
    with rows(1,2) show False by (auto simp: list_all2_Cons1 same_row_def dest!: same_audit_content_id)
  qed
  ultimately show ?thesis using logs rows(3) by blast
qed

text \<open>An acknowledged audit event stays acknowledged: after any further appends, appending it
  again returns the same finalized event, with the hash it was first given, and adds no row.\<close>

theorem audit_append_idempotent:
  assumes "audit_append std e rows = Inr (f, rows')" "audit_appends std es rows' = Inr rows''"
  shows "audit_append std e rows'' = Inr (f, rows'')"
  using sqlite_audit.acknowledged_for_ever assms by (simp add: audit_appends_all)

theorem audit_append_idempotent_witness:
  "\<exists>f rows' rows''. audit_append fixture_std (sample_audit ''a'') [] = Inr (f, rows') \<and>
     audit_appends fixture_std [sample_audit ''b''] rows' = Inr rows'' \<and>
     audit_append fixture_std (sample_audit ''a'') rows'' = Inr (f, rows'')"
proof -
  obtain f rows' where 1: "audit_append fixture_std (sample_audit ''a'') [] = Inr (f, rows')"
    by (simp add: audit_append_def Let_def)
  then obtain rows'' where 2: "audit_appends fixture_std [sample_audit ''b''] rows' = Inr rows''"
    by (auto simp: audit_append_def sample_audit_def Let_def)
  from audit_append_idempotent [OF 1 2] 1 2 show ?thesis by blast
qed

end
