(* ===== verification/Lifecycle_Bridge.thy ===== *)
theory Lifecycle_Bridge
  imports Lifecycle_History Audit_Log
begin

text \<open>
  The activity boundary of \<open>src/orchestration/control_plane_activities.py\<close>
  (\<open>ControlPlaneActivityBridge.persist_workflow_lifecycle\<close> and \<open>_audit_event\<close>): state first, then
  the audit export, and a retry of the whole activity when the export fails. The audit sink is
  an argument, so that its outages can be described; it returns the new log with its result,
  because an export may have happened although the caller saw an error.
\<close>

record activity_result =
  lr_workflow_id :: string
  lr_workflow_version :: int
  lr_status :: string
  lr_event_id :: string
  lr_idempotency_key :: string
  lr_state_replayed :: bool
  lr_audit_event_hash :: string

definition lifecycle_audit_event :: "py_std \<Rightarrow> lifecycle_event \<Rightarrow> workflow_record \<Rightarrow> audit_event res" where
  "lifecycle_audit_event std e r =
     rbind (fingerprint std e) (\<lambda>f. Inr
     \<lparr>au_event_id = ''workflow-lifecycle:'' @ ev_event_id e,
      au_correlation_id = ev_correlation_id e,
      au_actor = ev_actor e,
      au_action = ev_action e,
      au_resource = ev_workflow_id e,
      au_payload =
        [(''schema_version'', JInt (ev_schema_version e)),
         (''event_id'', JStr (ev_event_id e)),
         (''idempotency_key'', JStr (ev_idempotency_key e)),
         (''causation_id'', json_opt_str (ev_causation_id e)),
         (''tenant_id'', JStr (ev_tenant_id e)),
         (''service_id'', JStr (ev_service_id e)),
         (''environment'', JStr (ev_environment e)),
         (''kind'', JStr (ev_kind e)),
         (''from_status'', json_opt_str (map_option status_value (ev_from_status e))),
         (''to_status'', JStr (status_value (ev_to_status e))),
         (''expected_version'', json_opt_int (ev_expected_version e)),
         (''resulting_version'', JInt (wf_version r)),
         (''plan_hash'', json_opt_str (wf_plan_hash r)),
         (''consequential'', JBool (ev_consequential e)),
         (''event_fingerprint'', JStr f),
         (''attributes'', JObj (ev_attributes e))],
      au_occurred_at = ev_occurred_at e,
      au_previous_hash = None,
      au_event_hash = None\<rparr>)"

type_synonym 'a sink = "audit_event \<Rightarrow> 'a \<Rightarrow> audit_event res \<times> 'a"

definition persist_workflow_lifecycle ::
    "py_std \<Rightarrow> 'a sink \<Rightarrow> lifecycle_event \<Rightarrow> state_store \<times> 'a \<Rightarrow> activity_result res \<times> (state_store \<times> 'a)" where
  "persist_workflow_lifecycle std sink e s =
     (case apply_workflow_event std e (fst s) of
        Inl x \<Rightarrow> (Inl x, s)
      | Inr (tr, st') \<Rightarrow>
          (case lifecycle_audit_event std e (tr_record tr) of
             Inl x \<Rightarrow> (Inl x, (st', snd s))
           | Inr ae \<Rightarrow>
               (case sink ae (snd s) of
                  (Inl x, al) \<Rightarrow> (Inl (AuditExportFailure
                     ''workflow lifecycle state was retained, but immutable audit export did not complete''),
                     (st', al))
                | (Inr exported, al) \<Rightarrow>
                    (case au_event_hash exported of
                       None \<Rightarrow> (Inl (AuditExportFailure
                          ''audit exporter returned an event without a verifiable hash''), (st', al))
                     | Some h \<Rightarrow>
                         if h = [] then (Inl (AuditExportFailure
                            ''audit exporter returned an event without a verifiable hash''), (st', al))
                         else (Inr \<lparr>lr_workflow_id = wf_workflow_id (tr_record tr),
                                lr_workflow_version = wf_version (tr_record tr),
                                lr_status = status_value (wf_status (tr_record tr)),
                                lr_event_id = ev_event_id e,
                                lr_idempotency_key = ev_idempotency_key e,
                                lr_state_replayed = tr_replayed tr,
                                lr_audit_event_hash = h\<rparr>, (st', al))))))"

section \<open>Outages and retries\<close>

text \<open>
  One attempt meets the SQLite sink in one of three modes: it answers, it commits but the answer
  is lost, or it is down. Temporal repeats the activity until it returns.
\<close>

datatype sink_mode = Up | AckLost | Down

definition sqlite_sink :: "py_std \<Rightarrow> sink_mode \<Rightarrow> audit_log sink" where
  "sqlite_sink std m e rows =
     (case m of
        Up \<Rightarrow> (case audit_append std e rows of Inl x \<Rightarrow> (Inl x, rows) | Inr (f, rows') \<Rightarrow> (Inr f, rows'))
      | AckLost \<Rightarrow> (Inl (OtherError ''OperationalError'' ''connection lost''),
          (case audit_append std e rows of Inl x \<Rightarrow> rows | Inr (f, rows') \<Rightarrow> rows'))
      | Down \<Rightarrow> (Inl (OtherError ''OperationalError'' ''unable to open database file''), rows))"

fun persist_with_retries ::
    "py_std \<Rightarrow> sink_mode list \<Rightarrow> lifecycle_event \<Rightarrow> state_store \<times> audit_log \<Rightarrow>
       activity_result option \<times> (state_store \<times> audit_log)" where
  "persist_with_retries std [] e s = (None, s)"
| "persist_with_retries std (m # ms) e s =
     (case persist_workflow_lifecycle std (sqlite_sink std m) e s of
        (Inr r, s') \<Rightarrow> (Some r, s')
      | (Inl x, s') \<Rightarrow> persist_with_retries std ms e s')"

text \<open>The outcome of an attempt is determined by the transition and the appended event.\<close>

lemma persist_step:
  assumes "apply_workflow_event std e st = Inr (tr, st')"
    and "lifecycle_audit_event std e (tr_record tr) = Inr ae"
  shows "snd (persist_workflow_lifecycle std sink e (st, al)) = (st', snd (sink ae al))"
  using assms by (auto simp: persist_workflow_lifecycle_def split: prod.splits sum.splits option.splits)

lemma sqlite_sink_log:
  "snd (sqlite_sink std m e rows) =
     (if m = Down then rows else (case audit_append std e rows of Inl x \<Rightarrow> rows | Inr (f, rows') \<Rightarrow> rows'))"
  by (cases m) (auto simp: sqlite_sink_def split: sum.splits)

lemma audit_event_of_transition:
  assumes "apply_workflow_event std e st = Inr (tr, st')"
  shows "\<exists>ae. lifecycle_audit_event std e (tr_record tr) = Inr ae"
  using accepted_receipt [OF assms] by (auto simp: lifecycle_audit_event_def)

lemma persist_Inr:
  assumes "persist_workflow_lifecycle std (sqlite_sink std m) e (st, al) = (Inr r, s')"
  obtains tr st' ae f al' where "m = Up" "apply_workflow_event std e st = Inr (tr, st')"
    "lifecycle_audit_event std e (tr_record tr) = Inr ae" "audit_append std ae al = Inr (f, al')"
    "s' = (st', al')" "au_event_hash f = Some (lr_audit_event_hash r)"
    "r = \<lparr>lr_workflow_id = wf_workflow_id (tr_record tr), lr_workflow_version = wf_version (tr_record tr),
       lr_status = status_value (wf_status (tr_record tr)), lr_event_id = ev_event_id e,
       lr_idempotency_key = ev_idempotency_key e, lr_state_replayed = tr_replayed tr,
       lr_audit_event_hash = lr_audit_event_hash r\<rparr>" "lr_audit_event_hash r \<noteq> []"
  using assms
  by (auto simp: persist_workflow_lifecycle_def sqlite_sink_def
      split: prod.splits sum.splits option.splits sink_mode.splits if_splits)

text \<open>Nothing is ever acknowledged when the store refuses the event or the log refuses its record.\<close>

lemma refused_event_never_acknowledged:
  "apply_workflow_event std e (fst s) = Inl x \<Longrightarrow> persist_with_retries std ms e s = (None, s)"
  by (induction ms) (simp_all add: persist_workflow_lifecycle_def)

lemma refused_audit_never_acknowledged:
  assumes "apply_workflow_event std e st = Inr (tr, st')"
    and "lifecycle_audit_event std e (tr_record tr) = Inr ae" and "audit_append std ae al = Inl x"
  shows "fst (persist_with_retries std ms e (st, al)) = None"
  using assms
proof (induction ms arbitrary: st tr)
  case (Cons m ms)
  let ?p = "persist_workflow_lifecycle std (sqlite_sink std m) e (st, al)"
  have "snd ?p = (st', al)"
    using persist_step [OF Cons.prems(1,2), of "sqlite_sink std m" al] Cons.prems(3) by (simp add: sqlite_sink_log)
  moreover have "\<exists>y. fst ?p = Inl y"
    using Cons.prems by (auto simp: persist_workflow_lifecycle_def sqlite_sink_def split: sink_mode.splits)
  ultimately obtain y where "?p = (Inl y, (st', al))" by (metis prod.collapse)
  moreover have "fst (persist_with_retries std ms e (st', al)) = None"
    by (rule Cons.IH [OF apply_event_replay [OF Cons.prems(1)]]) (use Cons.prems in simp_all)
  ultimately show ?case by simp
qed simp

text \<open>
  Along the retries the state is the old or the new one and the log is the old or the new one,
  and every attempt from there acts like the first.
\<close>

lemma retries_settle:
  assumes ap: "apply_workflow_event std e st = Inr (tr, st1)"
    and ae: "lifecycle_audit_event std e (tr_record tr) = Inr ae"
    and app: "audit_append std ae al = Inr (f, al1)"
    and "x \<in> {st, st1}" "y \<in> {al, al1}"
    and "persist_with_retries std ms e (x, y) = (Some r, s')"
  shows "\<exists>b. persist_workflow_lifecycle std (sqlite_sink std Up) e (st, al) =
     (Inr (r\<lparr>lr_state_replayed := b\<rparr>), s')"
  using assms(4-6)
proof (induction ms arbitrary: x y)
  case (Cons m ms)
  obtain tr' where apx: "apply_workflow_event std e x = Inr (tr', st1)" and rec: "tr_record tr' = tr_record tr"
    using Cons.prems(1) ap apply_event_replay [OF ap] by fastforce
  have appy: "audit_append std ae y = Inr (f, al1)"
    using Cons.prems(2) app audit_append_again [OF app] by blast
  let ?p = "persist_workflow_lifecycle std (sqlite_sink std m) e (x, y)"
  have snd: "snd ?p = (st1, if m = Down then y else al1)"
    using persist_step [OF apx, of ae "sqlite_sink std m" y] ae rec appy by (simp add: sqlite_sink_log)
  show ?case
  proof (cases "fst ?p")
    case (Inl z)
    with snd have "?p = (Inl z, (st1, if m = Down then y else al1))" by (metis prod.collapse)
    with Cons.prems have "persist_with_retries std ms e (st1, if m = Down then y else al1) = (Some r, s')"
      by simp
    with Cons.IH Cons.prems(2) show ?thesis by (cases "m = Down") auto
  next
    case (Inr q)
    then obtain s2 where p: "?p = (Inr q, s2)" by (cases ?p) auto
    with Cons.prems have q: "q = r" "s' = s2" by simp_all
    from p show ?thesis
    proof (rule persist_Inr)
      fix tr2 st2 ae2 f2 al2
      assume *: "m = Up" "apply_workflow_event std e x = Inr (tr2, st2)"
        "lifecycle_audit_event std e (tr_record tr2) = Inr ae2" "audit_append std ae2 y = Inr (f2, al2)"
        "s2 = (st2, al2)" "au_event_hash f2 = Some (lr_audit_event_hash q)"
        "q = \<lparr>lr_workflow_id = wf_workflow_id (tr_record tr2), lr_workflow_version = wf_version (tr_record tr2),
          lr_status = status_value (wf_status (tr_record tr2)), lr_event_id = ev_event_id e,
          lr_idempotency_key = ev_idempotency_key e, lr_state_replayed = tr_replayed tr2,
          lr_audit_event_hash = lr_audit_event_hash q\<rparr>" "lr_audit_event_hash q \<noteq> []"
      from * apx rec ae appy have same: "tr_record tr2 = tr_record tr" "f2 = f" "st2 = st1" "al2 = al1" by auto
      have "persist_workflow_lifecycle std (sqlite_sink std Up) e (st, al) =
          (Inr (q\<lparr>lr_state_replayed := tr_replayed tr\<rparr>), (st1, al1))"
        using ap ae app *(6,8) same
        by (subst *(7)) (simp add: persist_workflow_lifecycle_def sqlite_sink_def)
      with q *(5) same show ?thesis by auto
    qed
  qed
qed simp

lemma retries_acknowledge_from:
  assumes ap: "apply_workflow_event std e st = Inr (tr, st1)"
    and ae: "lifecycle_audit_event std e (tr_record tr) = Inr ae"
    and app: "audit_append std ae al = Inr (f, al1)" and hash: "au_event_hash f = Some h" "h \<noteq> []"
    and "x \<in> {st, st1}" "y \<in> {al, al1}" "Up \<in> set ms"
  shows "\<exists>r s'. persist_with_retries std ms e (x, y) = (Some r, s')"
  using assms(6-8)
proof (induction ms arbitrary: x y)
  case (Cons m ms)
  obtain tr' where apx: "apply_workflow_event std e x = Inr (tr', st1)" and rec: "tr_record tr' = tr_record tr"
    using Cons.prems(1) ap apply_event_replay [OF ap] by fastforce
  have appy: "audit_append std ae y = Inr (f, al1)"
    using Cons.prems(2) app audit_append_again [OF app] by blast
  let ?p = "persist_workflow_lifecycle std (sqlite_sink std m) e (x, y)"
  have snd: "snd ?p = (st1, if m = Down then y else al1)"
    using persist_step [OF apx, of ae "sqlite_sink std m" y] ae rec appy by (simp add: sqlite_sink_log)
  show ?case
  proof (cases "fst ?p")
    case (Inl z)
    have "m \<noteq> Up" using Inl apx rec ae appy hash
      by (auto simp: persist_workflow_lifecycle_def sqlite_sink_def)
    moreover from Inl snd have "?p = (Inl z, (st1, if m = Down then y else al1))" by (metis prod.collapse)
    ultimately show ?thesis using Cons.IH [of st1 "if m = Down then y else al1"] Cons.prems by auto
  next
    case (Inr q)
    then obtain s2 where "?p = (Inr q, s2)" by (cases ?p) auto
    then show ?thesis by simp
  qed
qed simp

lemma retries_acknowledge:
  assumes "persist_workflow_lifecycle std (sqlite_sink std Up) e (st, al) = (Inr r, s')" and "Up \<in> set ms"
  shows "\<exists>r s'. persist_with_retries std ms e (st, al) = (Some r, s')"
proof -
  obtain tr st1 ae f al1 where "apply_workflow_event std e st = Inr (tr, st1)"
    "lifecycle_audit_event std e (tr_record tr) = Inr ae" "audit_append std ae al = Inr (f, al1)"
    "au_event_hash f = Some (lr_audit_event_hash r)" "lr_audit_event_hash r \<noteq> []"
    using assms(1) by (rule persist_Inr)
  from retries_acknowledge_from [OF this _ _ assms(2)] show ?thesis by blast
qed

lemma sample_first_call:
  "\<exists>r s'. persist_workflow_lifecycle fixture_std (sqlite_sink fixture_std Up) sample_created (empty_store, []) = (Inr r, s')"
proof -
  obtain ae where "lifecycle_audit_event fixture_std sample_created (sample_record RECEIVED 1) = Inr ae"
    using audit_event_of_transition [OF sample_run1] by (auto simp: sample_result_def)
  moreover have "compute_event_hash fixture_std c \<noteq> []" for c
    by (simp add: compute_event_hash_def fixture_std_def fixture_digest_def)
  ultimately show ?thesis
    using sample_run1
    by (simp add: persist_workflow_lifecycle_def sqlite_sink_def audit_append_def sample_result_def Let_def)
qed

section \<open>Properties\<close>

text \<open>C3. Retrying the lifecycle activity is safe: whatever outages and lost acknowledgements the
  audit sink had, when an attempt is finally acknowledged the store and the log are exactly
  those of a single undisturbed call, and so is the result, but for the replay flag. State is
  advanced once and audited once.\<close>

theorem retries_equal_one_call:
  assumes "persist_with_retries std ms e (st, al) = (Some r, s')"
  shows "\<exists>b. persist_workflow_lifecycle std (sqlite_sink std Up) e (st, al) =
     (Inr (r\<lparr>lr_state_replayed := b\<rparr>), s')"
proof (cases "apply_workflow_event std e st")
  case (Inl x)
  with refused_event_never_acknowledged [of std e "(st, al)" x ms] assms show ?thesis by simp
next
  case (Inr p)
  then obtain tr st1 where ap: "apply_workflow_event std e st = Inr (tr, st1)" by (cases p) auto
  then obtain ae where ae: "lifecycle_audit_event std e (tr_record tr) = Inr ae"
    using audit_event_of_transition by blast
  show ?thesis
  proof (cases "audit_append std ae al")
    case (Inl x)
    with refused_audit_never_acknowledged [OF ap ae, of al x ms] assms show ?thesis by simp
  next
    case (Inr q)
    then obtain f al1 where "audit_append std ae al = Inr (f, al1)" by (cases q) auto
    from retries_settle [OF ap ae this _ _ assms] show ?thesis by simp
  qed
qed

theorem retries_equal_one_call_witness:
  "\<exists>r s' b. persist_with_retries fixture_std [Down, AckLost, Up] sample_created (empty_store, []) = (Some r, s') \<and>
     persist_workflow_lifecycle fixture_std (sqlite_sink fixture_std Up) sample_created (empty_store, []) =
       (Inr (r\<lparr>lr_state_replayed := b\<rparr>), s')"
proof -
  obtain r s' where
    run: "persist_with_retries fixture_std [Down, AckLost, Up] sample_created (empty_store, []) = (Some r, s')"
    using sample_first_call retries_acknowledge [of fixture_std sample_created empty_store "[]" _ _ "[Down, AckLost, Up]"] by auto
  with retries_equal_one_call [OF run] show ?thesis by blast
qed

text \<open>The activity is not lost either: if an undisturbed call would be acknowledged, then a
  sequence of attempts of which at least one finds the audit sink up is acknowledged.\<close>

theorem retries_complete:
  assumes "persist_workflow_lifecycle std (sqlite_sink std Up) e (st, al) = (Inr r, s')"
    and "Up \<in> set ms"
  shows "\<exists>b. persist_with_retries std ms e (st, al) = (Some (r\<lparr>lr_state_replayed := b\<rparr>), s')"
proof -
  obtain q s'' where run: "persist_with_retries std ms e (st, al) = (Some q, s'')"
    using retries_acknowledge [OF assms] by blast
  obtain tr st1 ae f al1 where "apply_workflow_event std e st = Inr (tr, st1)"
    "lifecycle_audit_event std e (tr_record tr) = Inr ae" "audit_append std ae al = Inr (f, al1)"
    using assms(1) by (rule persist_Inr)
  from retries_settle [OF this _ _ run] assms(1) obtain b where "r = q\<lparr>lr_state_replayed := b\<rparr>" "s'' = s'"
    by auto
  then have "q = r\<lparr>lr_state_replayed := lr_state_replayed q\<rparr>" by simp
  with run \<open>s'' = s'\<close> show ?thesis by metis
qed

theorem retries_complete_witness:
  "\<exists>r s' b. persist_workflow_lifecycle fixture_std (sqlite_sink fixture_std Up) sample_created (empty_store, []) =
       (Inr r, s') \<and>
     persist_with_retries fixture_std [AckLost, Down, Up] sample_created (empty_store, []) =
       (Some (r\<lparr>lr_state_replayed := b\<rparr>), s')"
proof -
  obtain r s' where
    call: "persist_workflow_lifecycle fixture_std (sqlite_sink fixture_std Up) sample_created (empty_store, []) =
      (Inr r, s')" using sample_first_call by blast
  with retries_complete [OF call, of "[AckLost, Down, Up]"] show ?thesis by auto
qed

text \<open>An acknowledged lifecycle event is both in the store and in the log: the record it
  produced is what the store holds for its workflow right after the call, unless the call was
  a replay, and the log ends with or already had the audit event of that transition, so the
  hash returned to the workflow is the hash of a row of the log.\<close>

theorem acknowledged_is_audited:
  assumes "store_wf st"
    and "persist_workflow_lifecycle std (sqlite_sink std m) e (st, al) = (Inr r, (st', al'))"
  shows "(\<exists>row. row \<in> set al' \<and> ar_event_id row = ''workflow-lifecycle:'' @ ev_event_id e \<and>
       (\<exists>f. ar_payload row = Inr f \<and> au_event_hash f = Some (lr_audit_event_hash r))) \<and>
     (lr_state_replayed r \<or> map_option wf_version (get_workflow st' (ev_workflow_id e)) = Some (lr_workflow_version r))"
  using assms(2)
proof (rule persist_Inr)
  fix tr st1 ae f al1
  assume *: "apply_workflow_event std e st = Inr (tr, st1)"
    "lifecycle_audit_event std e (tr_record tr) = Inr ae" "audit_append std ae al = Inr (f, al1)"
    "(st', al') = (st1, al1)" "au_event_hash f = Some (lr_audit_event_hash r)"
    and r: "r = \<lparr>lr_workflow_id = wf_workflow_id (tr_record tr), lr_workflow_version = wf_version (tr_record tr),
       lr_status = status_value (wf_status (tr_record tr)), lr_event_id = ev_event_id e,
       lr_idempotency_key = ev_idempotency_key e, lr_state_replayed = tr_replayed tr,
       lr_audit_event_hash = lr_audit_event_hash r\<rparr>"
  have id: "au_event_id ae = ''workflow-lifecycle:'' @ ev_event_id e"
    using *(2) by (auto simp: lifecycle_audit_event_def rbind_eq_Inr)
  from audit_append_row [OF *(3)] id *(4,5) have "\<exists>row. row \<in> set al' \<and>
      ar_event_id row = ''workflow-lifecycle:'' @ ev_event_id e \<and>
      (\<exists>f. ar_payload row = Inr f \<and> au_event_hash f = Some (lr_audit_event_hash r))" by auto
  moreover have "lr_workflow_version r = wf_version (tr_record tr)" "lr_state_replayed r = tr_replayed tr"
    by (subst r, simp)+
  then have "lr_state_replayed r \<or>
      map_option wf_version (get_workflow st' (ev_workflow_id e)) = Some (lr_workflow_version r)"
    using commit_get [OF assms(1) *(1)] *(4) by auto
  ultimately show ?thesis by blast
qed

theorem acknowledged_is_audited_witness:
  "\<exists>r st' al'. persist_workflow_lifecycle fixture_std (sqlite_sink fixture_std Up) sample_created (empty_store, []) =
       (Inr r, (st', al')) \<and> al' \<noteq> []"
proof -
  obtain r st' al' where
    run: "persist_workflow_lifecycle fixture_std (sqlite_sink fixture_std Up) sample_created (empty_store, []) =
      (Inr r, (st', al'))"
    using sample_first_call by (metis surj_pair)
  from acknowledged_is_audited [OF store_wf_empty run] run show ?thesis by force
qed

end
