(* ===== verification/L4_Certification.thy ===== *)
theory L4_Certification
  imports Policy_Boundary "HOL-Library.Product_Lexorder"
begin

text \<open>
  L4 certification: \<open>src/resilience/exercises.py\<close>, \<open>src/resilience/policy.py\<close> and
  \<open>src/resilience/certification.py\<close>. Exercises and the controls they demonstrate, the reviewer's
  report, the eligibility gate, the persisted certification record with its parser, and the
  refusal check the execution path uses.

  The lemmas characterise eligibility and refusal, show that a record authorises exactly the
  scope and material inputs it was issued for, and that parsing inverts serialisation.
\<close>

section \<open>Exercises and controls\<close>

datatype exercise_kind =
    SUCCESSFUL_REMEDIATION | VERIFICATION_FAILURE | ROLLBACK | KILL_SWITCH_EXERCISE | POLICY_OUTAGE
  | AUDIT_OUTAGE | ERROR_BUDGET_EXHAUSTED

fun kind_value :: "exercise_kind \<Rightarrow> string" where
  "kind_value SUCCESSFUL_REMEDIATION = ''successful_remediation''"
| "kind_value VERIFICATION_FAILURE = ''verification_failure''"
| "kind_value ROLLBACK = ''rollback''"
| "kind_value KILL_SWITCH_EXERCISE = ''kill_switch''"
| "kind_value POLICY_OUTAGE = ''policy_outage''"
| "kind_value AUDIT_OUTAGE = ''audit_outage''"
| "kind_value ERROR_BUDGET_EXHAUSTED = ''error_budget_exhausted''"

definition L3_REQUIRED_KINDS :: "exercise_kind list" where
  "L3_REQUIRED_KINDS = [SUCCESSFUL_REMEDIATION, VERIFICATION_FAILURE, ROLLBACK, KILL_SWITCH_EXERCISE,
     POLICY_OUTAGE, AUDIT_OUTAGE]"

definition L4_REQUIRED_KINDS :: "exercise_kind list" where
  "L4_REQUIRED_KINDS = L3_REQUIRED_KINDS @ [ERROR_BUDGET_EXHAUSTED]"

record exercise_result =
  ex_kind :: exercise_kind
  ex_passed :: bool
  ex_service :: string
  ex_environment :: string
  ex_runbook_id :: string
  ex_observed_blast_radius :: int
  ex_evidence_ref :: string
  ex_evidence_grade :: string

record autonomy_certification =
  au_service :: string
  au_environment :: string
  au_runbook_id :: string
  au_max_blast_radius :: int
  au_rollback_tested :: bool
  au_kill_switch_tested :: bool
  au_verification_independent :: bool
  au_security_reviewed :: bool
  au_error_budget_enforced :: bool
  au_policy_fail_closed_tested :: bool
  au_audit_fail_closed_tested :: bool
  au_successful_exercises :: nat
  au_minimum_exercises :: nat

definition l4_eligible :: "autonomy_certification \<Rightarrow> bool" where
  "l4_eligible c = list_all (\<lambda>b. b)
     [au_max_blast_radius c > 0, au_rollback_tested c, au_kill_switch_tested c, au_verification_independent c,
      au_security_reviewed c, au_error_budget_enforced c, au_policy_fail_closed_tested c,
      au_audit_fail_closed_tested c, au_successful_exercises c \<ge> au_minimum_exercises c]"

definition missing_controls :: "autonomy_certification \<Rightarrow> string list" where
  "missing_controls c = map fst (filter (\<lambda>(name, passed). \<not> passed)
     [(''bounded-blast-radius'', au_max_blast_radius c > 0),
      (''rollback-tested'', au_rollback_tested c),
      (''kill-switch-tested'', au_kill_switch_tested c),
      (''independent-verification'', au_verification_independent c),
      (''security-review'', au_security_reviewed c),
      (''error-budget-enforced'', au_error_budget_enforced c),
      (''policy-fail-closed-tested'', au_policy_fail_closed_tested c),
      (''audit-fail-closed-tested'', au_audit_fail_closed_tested c),
      (''minimum-exercises'', au_successful_exercises c \<ge> au_minimum_exercises c)])"

record platform_health =
  ph_knowledge_available :: bool
  ph_observability_available :: bool
  ph_policy_available :: bool
  ph_audit_available :: bool

definition degraded_mode :: "platform_health \<Rightarrow> string" where
  "degraded_mode h =
    (if \<not> ph_policy_available h \<or> \<not> ph_audit_available h then ''read-only''
     else if \<not> ph_observability_available h then ''recommend-only''
     else if \<not> ph_knowledge_available h then ''deterministic-runbooks-only''
     else ''normal'')"

definition in_scope :: "string \<Rightarrow> string \<Rightarrow> string \<Rightarrow> exercise_result \<Rightarrow> bool" where
  "in_scope service environment runbook_id e =
     (ex_service e = service \<and> ex_environment e = environment \<and> ex_runbook_id e = runbook_id)"

definition certification_from_exercises ::
    "string \<Rightarrow> string \<Rightarrow> string \<Rightarrow> int \<Rightarrow> bool \<Rightarrow> bool \<Rightarrow> exercise_result list \<Rightarrow> nat \<Rightarrow> autonomy_certification" where
  "certification_from_exercises service environment runbook_id budget security_reviewed verification_independent
       exercises minimum =
     (let relevant = filter (in_scope service environment runbook_id) exercises;
          passed = filter ex_passed relevant;
          observed_within_budget = list_all (\<lambda>e. ex_observed_blast_radius e \<le> budget) passed;
          kinds = set (map ex_kind passed) in
      \<lparr>au_service = service, au_environment = environment, au_runbook_id = runbook_id,
       au_max_blast_radius = (if observed_within_budget then budget else 0),
       au_rollback_tested = (ROLLBACK \<in> kinds),
       au_kill_switch_tested = (KILL_SWITCH_EXERCISE \<in> kinds),
       au_verification_independent = verification_independent,
       au_security_reviewed = security_reviewed,
       au_error_budget_enforced = (ERROR_BUDGET_EXHAUSTED \<in> kinds),
       au_policy_fail_closed_tested = (POLICY_OUTAGE \<in> kinds),
       au_audit_fail_closed_tested = (AUDIT_OUTAGE \<in> kinds),
       au_successful_exercises = length passed,
       au_minimum_exercises = minimum\<rparr>)"

definition certify_l4_policy :: "service_autonomy \<Rightarrow> autonomy_certification \<Rightarrow> unit res" where
  "certify_l4_policy p c =
    (if sa_level p \<noteq> BOUNDED_AUTONOMOUS
     then Inl (ValueError ''L4 certification requires a bounded-autonomous service policy'')
     else if (sa_service p, sa_environment p) \<noteq> (au_service c, au_environment c)
     then Inl (ValueError ''certification does not match service/environment policy scope'')
     else if au_runbook_id c \<notin> set (sa_certified_runbooks p)
     then Inl (ValueError ''certification runbook is not present in service policy'')
     else if sa_max_blast_radius p > au_max_blast_radius c
     then Inl (ValueError ''service policy blast radius exceeds certification evidence'')
     else if \<not> l4_eligible c
     then Inl (PermissionError (''L4 controls incomplete: '' @ py_join '', '' (missing_controls c)))
     else Inr ())"

section \<open>The certification report\<close>

definition exercise_json :: "exercise_result \<Rightarrow> json" where
  "exercise_json e = JObj
     [(''kind'', JStr (kind_value (ex_kind e))), (''passed'', JBool (ex_passed e)),
      (''service'', JStr (ex_service e)), (''environment'', JStr (ex_environment e)),
      (''runbook_id'', JStr (ex_runbook_id e)), (''observed_blast_radius'', JInt (ex_observed_blast_radius e)),
      (''evidence_ref'', JStr (ex_evidence_ref e)), (''evidence_grade'', JStr (ex_evidence_grade e))]"

definition exercises_digest :: "py_std \<Rightarrow> exercise_result list \<Rightarrow> string" where
  "exercises_digest std es = ''sha256:'' @ sha256_hex std (json_dumps std (JList (map exercise_json
     (sort_key (\<lambda>e. (kind_value (ex_kind e), ex_evidence_ref e)) es))))"

record certification_report =
  cr_service :: string
  cr_environment :: string
  cr_runbook_id :: string
  cr_generated_at :: string
  cr_evidence_digest :: string
  cr_passed_kinds :: "string list"
  cr_failed_kinds :: "string list"
  cr_l3_eligible :: bool
  cr_l4_eligible :: bool
  cr_missing_l3_controls :: "string list"
  cr_missing_l4_controls :: "string list"

text \<open>Names of required exercises that have not passed, in the order of their values.\<close>

definition absent_kinds :: "exercise_kind list \<Rightarrow> exercise_kind list \<Rightarrow> string list" where
  "absent_kinds required passed =
     map (\<lambda>k. ''exercise:'' @ kind_value k) (sort_key kind_value (filter (\<lambda>k. k \<notin> set passed) required))"

fun append_new :: "string list \<Rightarrow> string list \<Rightarrow> string list" where
  "append_new acc [] = acc"
| "append_new acc (x # xs) = append_new (if x \<in> set acc then acc else acc @ [x]) xs"

definition build_certification_report ::
    "py_std \<Rightarrow> instant \<Rightarrow> string \<Rightarrow> string \<Rightarrow> string \<Rightarrow> int \<Rightarrow> bool \<Rightarrow> bool \<Rightarrow> exercise_result list \<Rightarrow>
       string option \<Rightarrow> certification_report" where
  "build_certification_report std clock service environment runbook_id budget security_reviewed
       verification_independent exercises generated_at =
     (let relevant = filter (in_scope service environment runbook_id) exercises;
          passed = filter ex_passed relevant;
          failed = filter (\<lambda>e. \<not> ex_passed e) relevant;
          passed_kinds = map ex_kind passed;
          cert = certification_from_exercises service environment runbook_id budget security_reviewed
            verification_independent relevant (length L4_REQUIRED_KINDS);
          l3_missing =
            (if budget \<le> 0 then [''bounded-blast-radius''] else []) @
            (if security_reviewed then [] else [''security-review'']) @
            (if verification_independent then [] else [''independent-verification'']) @
            absent_kinds L3_REQUIRED_KINDS passed_kinds @
            (if failed \<noteq> [] then [''failed-exercise-present''] else []) @
            (if list_ex (\<lambda>e. py_strip (ex_evidence_ref e) = []) passed then [''missing-evidence-reference''] else []) @
            (if list_ex (\<lambda>e. ex_observed_blast_radius e > budget) passed then [''blast-radius-exceeded''] else []);
          l4_missing = append_new (append_new l3_missing (absent_kinds L4_REQUIRED_KINDS passed_kinds))
            (missing_controls cert);
          l3_eligible = (l3_missing = []) in
      \<lparr>cr_service = service, cr_environment = environment, cr_runbook_id = runbook_id,
       cr_generated_at = (if has_text generated_at then the generated_at else isoformat std clock),
       cr_evidence_digest = exercises_digest std relevant,
       cr_passed_kinds = sort (remdups (map kind_value passed_kinds)),
       cr_failed_kinds = sort (map (kind_value \<circ> ex_kind) failed),
       cr_l3_eligible = l3_eligible,
       cr_l4_eligible = (l3_eligible \<and> l4_eligible cert \<and> l4_missing = []),
       cr_missing_l3_controls = l3_missing,
       cr_missing_l4_controls = l4_missing\<rparr>)"

section \<open>The eligibility gate\<close>

definition MANDATORY_L4_EVIDENCE :: "string list" where
  "MANDATORY_L4_EVIDENCE = [''rollback-exercised'', ''kill-switch-exercised'', ''independent-verification'',
     ''security-review'', ''error-budget-enforced'', ''policy-fail-closed'', ''audit-fail-closed'',
     ''blast-radius-within-budget'', ''minimum-successful-exercises'']"

definition MIN_SUCCESSFUL_EXERCISES :: nat where
  "MIN_SUCCESSFUL_EXERCISES = length L4_REQUIRED_KINDS"

definition EXERCISE_BACKED_CONTROLS :: "(exercise_kind \<times> string) list" where
  "EXERCISE_BACKED_CONTROLS =
     [(ROLLBACK, ''rollback-exercised''), (KILL_SWITCH_EXERCISE, ''kill-switch-exercised''),
      (ERROR_BUDGET_EXHAUSTED, ''error-budget-enforced''), (POLICY_OUTAGE, ''policy-fail-closed''),
      (AUDIT_OUTAGE, ''audit-fail-closed'')]"

definition ATTESTED_CONTROLS :: "string list" where
  "ATTESTED_CONTROLS = [''independent-verification'', ''security-review'']"

definition L4_EVIDENCE_DECISION :: string where "L4_EVIDENCE_DECISION = ''l4-promotion''"
definition REHEARSAL_GRADE :: string where "REHEARSAL_GRADE = ''rehearsal''"
definition NON_ATTESTING_BASES :: "string list" where "NON_ATTESTING_BASES = [''modeled'']"

text \<open>The fields of a registry record the gate reads.\<close>

record evidence_record =
  er_evidence_id :: string
  er_decision :: string
  er_scope :: string
  er_basis :: string
  er_controls :: "string list"

record eligibility =
  el_eligible :: bool
  el_missing :: "string list"
  el_counted_exercises :: nat
  el_rejected_rehearsals :: nat
  el_exercises_digest :: string
  el_evidence_ids :: "string list"

definition attests :: "evidence_record \<Rightarrow> certification_scope \<Rightarrow> string \<Rightarrow> bool" where
  "attests r s control =
    (if er_decision r \<noteq> L4_EVIDENCE_DECISION then False
     else if py_strip (er_scope r) \<noteq> evidence_scope s then False
     else if py_lower (py_strip (er_basis r)) \<in> set NON_ATTESTING_BASES then False
     else control \<in> set (map py_strip (er_controls r)))"

definition is_rehearsal :: "exercise_result \<Rightarrow> bool" where
  "is_rehearsal e = (py_lower (py_strip (ex_evidence_grade e)) = REHEARSAL_GRADE)"

definition evaluate_l4_eligibility ::
    "py_std \<Rightarrow> certification_scope \<Rightarrow> exercise_result list \<Rightarrow> evidence_record list \<Rightarrow> instant \<Rightarrow> eligibility" where
  "evaluate_l4_eligibility std s exercises records now =
     (let relevant = filter (in_scope (cs_service s) (cs_environment s) (cs_runbook_id s)) exercises;
          graded = filter (\<lambda>e. \<not> is_rehearsal e) relevant;
          rejected = length relevant - length graded;
          passed = filter ex_passed graded;
          failed = filter (\<lambda>e. \<not> ex_passed e) graded;
          satisfied =
            map (\<lambda>(kind, control). (control, kind \<in> set (map ex_kind passed))) EXERCISE_BACKED_CONTROLS @
            map (\<lambda>control. (control, list_ex (\<lambda>r. attests r s control) records)) ATTESTED_CONTROLS @
            [(''blast-radius-within-budget'',
                list_all (\<lambda>e. ex_observed_blast_radius e \<le> cs_blast_radius_budget s) passed),
             (''minimum-successful-exercises'', length passed \<ge> MIN_SUCCESSFUL_EXERCISES)];
          missing =
            filter (\<lambda>name. map_of satisfied name \<noteq> Some True) MANDATORY_L4_EVIDENCE @
            (if failed \<noteq> [] then [''failed-exercise-present''] else []) @
            (if list_ex (\<lambda>e. py_strip (ex_evidence_ref e) = []) passed then [''missing-evidence-reference''] else []) @
            (if rejected \<noteq> 0 then [''rehearsal-graded-exercises-excluded''] else []) in
      \<lparr>el_eligible = (missing = []), el_missing = missing, el_counted_exercises = length passed,
       el_rejected_rehearsals = rejected, el_exercises_digest = exercises_digest std passed,
       el_evidence_ids = sort (remdups (map er_evidence_id
         (filter (\<lambda>r. list_ex (attests r s) ATTESTED_CONTROLS) records)))\<rparr>)"

section \<open>Certification records\<close>

record certification_record =
  rec_scope :: certification_scope
  rec_scope_hash :: string
  rec_inputs_hash :: string
  rec_exercises_digest :: string
  rec_issued_on :: string
  rec_expires_on :: string
  rec_issued_by :: string
  rec_evidence_ids :: "string list"

definition record_as_dict :: "certification_record \<Rightarrow> json" where
  "record_as_dict r = JObj
     [(''scope'', scope_canonical (rec_scope r)), (''scope_hash'', JStr (rec_scope_hash r)),
      (''inputs_hash'', JStr (rec_inputs_hash r)), (''exercises_digest'', JStr (rec_exercises_digest r)),
      (''issued_on'', JStr (rec_issued_on r)), (''expires_on'', JStr (rec_expires_on r)),
      (''issued_by'', JStr (rec_issued_by r)), (''evidence_ids'', JList (map JStr (rec_evidence_ids r)))]"

definition required_value :: "json \<Rightarrow> string \<Rightarrow> json res" where
  "required_value payload field =
     (case json_get payload field of
        None \<Rightarrow> Inl (ValueError (''L4 certification record is missing '' @ field))
      | Some v \<Rightarrow> Inr v)"

definition required_mapping :: "json \<Rightarrow> string \<Rightarrow> json res" where
  "required_mapping payload field = rbind (required_value payload field) (\<lambda>v.
     if \<not> is_object v then Inl (ValueError (''L4 certification record '' @ field @ '' must be an object''))
     else Inr v)"

definition required_text :: "json \<Rightarrow> string \<Rightarrow> string res" where
  "required_text payload field = rbind (required_value payload field) (\<lambda>v.
     case v of
       JStr s \<Rightarrow>
         if py_strip s = []
         then Inl (ValueError (''L4 certification record '' @ field @ '' must be a non-blank string''))
         else Inr s
     | _ \<Rightarrow> Inl (ValueError (''L4 certification record '' @ field @ '' must be a non-blank string'')))"

definition required_positive_int :: "json \<Rightarrow> string \<Rightarrow> int res" where
  "required_positive_int payload field = rbind (required_value payload field) (\<lambda>v.
     case v of
       JInt i \<Rightarrow>
         if i \<le> 0
         then Inl (ValueError (''L4 certification record '' @ field @ '' must be a positive integer''))
         else Inr i
     | _ \<Rightarrow> Inl (ValueError (''L4 certification record '' @ field @ '' must be a positive integer'')))"

fun text_items :: "json list \<Rightarrow> string list option" where
  "text_items [] = Some []"
| "text_items (JStr s # js) =
     (if py_strip s = [] then None else map_option (\<lambda>ss. s # ss) (text_items js))"
| "text_items (j # js) = None"

definition optional_text_list :: "json \<Rightarrow> string \<Rightarrow> string list res" where
  "optional_text_list payload field =
     (let err = Inl (ValueError (''L4 certification record '' @ field @ '' must be a list of non-blank strings'')) in
      case json_get_default payload field (JList []) of
        JList xs \<Rightarrow> (case text_items xs of None \<Rightarrow> err | Some ss \<Rightarrow> Inr ss)
      | _ \<Rightarrow> err)"

definition record_from_dict :: "json \<Rightarrow> certification_record res" where
  "record_from_dict payload =
     rbind (required_mapping payload ''scope'') (\<lambda>scope.
     rbind (required_text scope ''service'') (\<lambda>service.
     rbind (required_text scope ''environment'') (\<lambda>environment.
     rbind (required_text scope ''runbook_id'') (\<lambda>runbook_id.
     rbind (required_positive_int scope ''blast_radius_budget'') (\<lambda>budget.
     rbind (new_scope service environment runbook_id budget) (\<lambda>s.
     rbind (required_text payload ''scope_hash'') (\<lambda>sh.
     rbind (required_text payload ''inputs_hash'') (\<lambda>ih.
     rbind (required_text payload ''exercises_digest'') (\<lambda>ed.
     rbind (required_text payload ''issued_on'') (\<lambda>issued.
     rbind (required_text payload ''expires_on'') (\<lambda>expires.
     rbind (required_text payload ''issued_by'') (\<lambda>by_whom.
     rbind (optional_text_list payload ''evidence_ids'') (\<lambda>ids.
     Inr \<lparr>rec_scope = s, rec_scope_hash = sh, rec_inputs_hash = ih, rec_exercises_digest = ed,
       rec_issued_on = issued, rec_expires_on = expires, rec_issued_by = by_whom,
       rec_evidence_ids = ids\<rparr>)))))))))))))"

definition certification_refusal ::
    "py_std \<Rightarrow> certification_record option \<Rightarrow> string \<Rightarrow> string \<Rightarrow> instant \<Rightarrow> string option" where
  "certification_refusal std rec sh ih now =
     (case rec of
        None \<Rightarrow> Some ''l4-certification: no certification record for this L4 scope''
      | Some r \<Rightarrow>
          (case parse_instant std (rec_expires_on r) of
             None \<Rightarrow> Some ''l4-certification: record expires_on is not a readable timestamp''
           | Some expires \<Rightarrow>
               if expires \<le> now
               then Some (''l4-certification: certification expired on '' @ rec_expires_on r)
               else if rec_scope_hash r \<noteq> sh
               then Some ''l4-certification: record scope_hash does not match the requested service/environment/runbook/blast-radius scope''
               else if rec_inputs_hash r \<noteq> ih
               then Some ''l4-certification: material inputs changed since certification; recertification is required''
               else None))"

definition certification_scope_for :: "service_autonomy \<Rightarrow> action_request \<Rightarrow> runbook \<Rightarrow> certification_scope res" where
  "certification_scope_for p q rb =
     new_scope (rq_service q) (rq_environment q) (rb_id rb) (sa_max_blast_radius p)"

definition material_inputs_hash_for :: "py_std \<Rightarrow> certification_scope \<Rightarrow> runbook \<Rightarrow> string \<Rightarrow> string" where
  "material_inputs_hash_for std s rb bundle_version =
     material_inputs_hash std s (plain_runbook rb) bundle_version (rb_verify_signal rb) (rb_preconditions rb)"

text \<open>The text that hash is computed of.\<close>

definition inputs_text :: "py_std \<Rightarrow> certification_scope \<Rightarrow> runbook \<Rightarrow> string \<Rightarrow> string" where
  "inputs_text std s rb bundle_version =
     json_dumps std (material_payload s (plain_runbook rb) bundle_version (rb_verify_signal rb) (rb_preconditions rb))"

section \<open>Eligibility and refusal\<close>

lemma missing_controls_empty: "missing_controls c = [] \<longleftrightarrow> l4_eligible c"
  by (simp add: missing_controls_def l4_eligible_def)

lemma append_new_empty: "append_new acc xs = [] \<longleftrightarrow> acc = [] \<and> xs = []"
proof (induction acc xs rule: append_new.induct)
  case (2 acc x xs)
  then show ?case by (cases "x \<in> set acc") auto
qed simp

lemma absent_kinds_empty: "absent_kinds required passed = [] \<longleftrightarrow> set required \<subseteq> set passed"
proof -
  have "sort_key f xs = [] \<longleftrightarrow> xs = []" for f :: "exercise_kind \<Rightarrow> string" and xs
    by (metis length_0_conv length_sort)
  then show ?thesis by (auto simp: absent_kinds_def filter_empty_conv)
qed

lemma filter_all_length: "length xs - length (filter P xs) = 0 \<longleftrightarrow> list_all P xs"
proof -
  have "length xs - length (filter P xs) = 0 \<longleftrightarrow> length (filter P xs) = length xs"
    using length_filter_le [of P xs] by linarith
  also have "\<dots> \<longleftrightarrow> list_all P xs"
    by (metis filter_id_conv length_filter_less list_all_iff nat_less_le)
  finally show ?thesis .
qed

text \<open>The exercises of a scope, and those of them that count.\<close>

definition scope_exercises :: "certification_scope \<Rightarrow> exercise_result list \<Rightarrow> exercise_result list" where
  "scope_exercises s es = filter (in_scope (cs_service s) (cs_environment s) (cs_runbook_id s)) es"

definition exercise_backed :: "exercise_result list \<Rightarrow> exercise_kind \<Rightarrow> bool" where
  "exercise_backed es k = list_ex (\<lambda>e. ex_kind e = k \<and> ex_passed e) es"

lemma rejected_none:
  "length xs - length (filter (\<lambda>e. \<not> is_rehearsal e) xs) = 0 \<longleftrightarrow> list_all (\<lambda>e. \<not> is_rehearsal e) xs"
  by (rule filter_all_length)

lemma eligible_iff:
  "el_eligible (evaluate_l4_eligibility std s es records now) \<longleftrightarrow>
     list_all (\<lambda>e. \<not> is_rehearsal e \<and> ex_passed e \<and> py_strip (ex_evidence_ref e) \<noteq> [] \<and>
        ex_observed_blast_radius e \<le> cs_blast_radius_budget s) (scope_exercises s es) \<and>
     7 \<le> length (scope_exercises s es) \<and>
     list_all (exercise_backed (scope_exercises s es))
       [ROLLBACK, KILL_SWITCH_EXERCISE, ERROR_BUDGET_EXHAUSTED, POLICY_OUTAGE, AUDIT_OUTAGE] \<and>
     list_all (\<lambda>control. list_ex (\<lambda>r. attests r s control) records) ATTESTED_CONTROLS"
  (is "?lhs \<longleftrightarrow> ?rhs")
proof -
  define rel where "rel = scope_exercises s es"
  define graded where "graded = filter (\<lambda>e. \<not> is_rehearsal e) rel"
  define passed where "passed = filter ex_passed graded"
  have core: "?lhs \<longleftrightarrow>
      (\<forall>k \<in> {ROLLBACK, KILL_SWITCH_EXERCISE, ERROR_BUDGET_EXHAUSTED, POLICY_OUTAGE, AUDIT_OUTAGE}. k \<in> ex_kind ` set passed) \<and>
      (\<forall>c \<in> {''independent-verification'', ''security-review''}. list_ex (\<lambda>r. attests r s c) records) \<and>
      list_all (\<lambda>e. ex_observed_blast_radius e \<le> cs_blast_radius_budget s) passed \<and> 7 \<le> length passed \<and>
      filter (\<lambda>e. \<not> ex_passed e) graded = [] \<and> \<not> list_ex (\<lambda>e. py_strip (ex_evidence_ref e) = []) passed \<and>
      list_all (\<lambda>e. \<not> is_rehearsal e) rel"
    unfolding evaluate_l4_eligibility_def Let_def rel_def [symmetric, unfolded scope_exercises_def]
      graded_def [symmetric] passed_def [symmetric]
    by (simp add: MANDATORY_L4_EVIDENCE_def EXERCISE_BACKED_CONTROLS_def ATTESTED_CONTROLS_def
        MIN_SUCCESSFUL_EXERCISES_def L4_REQUIRED_KINDS_def L3_REQUIRED_KINDS_def
        rejected_none [of rel, folded graded_def] conj_ac del: diff_is_0_eq diff_is_0_eq')
  have pass: "passed = rel" if "list_all (\<lambda>e. \<not> is_rehearsal e) rel" "filter (\<lambda>e. \<not> ex_passed e) graded = []"
    using that by (auto simp: passed_def graded_def list_all_iff filter_empty_conv filter_id_conv)
  have "list_all (\<lambda>e. \<not> is_rehearsal e) rel \<and> filter (\<lambda>e. \<not> ex_passed e) graded = [] \<longleftrightarrow>
      list_all (\<lambda>e. \<not> is_rehearsal e \<and> ex_passed e) rel"
    by (auto simp: graded_def list_all_iff filter_empty_conv)
  moreover have "exercise_backed rel k \<longleftrightarrow> k \<in> ex_kind ` set rel" if "list_all (\<lambda>e. \<not> is_rehearsal e \<and> ex_passed e) rel" for k
    using that by (auto simp: exercise_backed_def list_ex_iff list_all_iff)
  ultimately show ?thesis
    unfolding core rel_def [symmetric] using pass
    by (auto simp: list_all_iff list_ex_iff ATTESTED_CONTROLS_def)
qed

lemma certification_refusal_None:
  "certification_refusal std rec sh ih now = None \<longleftrightarrow>
     (\<exists>r expires. rec = Some r \<and> parse_instant std (rec_expires_on r) = Some expires \<and> now < expires \<and>
        rec_scope_hash r = sh \<and> rec_inputs_hash r = ih)"
  by (auto simp: certification_refusal_def split: option.splits)

lemma material_inputs_hash_for_binds:
  assumes "float_repr_ok std"
    and "material_inputs_hash_for std s rb v = material_inputs_hash_for std s' rb' v'"
  shows "(s = s' \<and> rb = rb' \<and> v = v') \<or> sha256_collides std (inputs_text std s rb v) (inputs_text std s' rb' v')"
  using material_inputs_hash_binds [OF assms(1) assms(2) [unfolded material_inputs_hash_for_def]]
    plain_runbook_binds unfolding inputs_text_def by blast

text \<open>Records whose texts are not blank survive serialisation.\<close>

definition record_ok :: "certification_record \<Rightarrow> bool" where
  "record_ok r \<longleftrightarrow>
     list_all (\<lambda>t. py_strip t \<noteq> []) ([cs_service (rec_scope r), cs_environment (rec_scope r),
       cs_runbook_id (rec_scope r), rec_scope_hash r, rec_inputs_hash r, rec_exercises_digest r,
       rec_issued_on r, rec_expires_on r, rec_issued_by r] @ rec_evidence_ids r) \<and>
     0 < cs_blast_radius_budget (rec_scope r)"

lemma text_items_JStr:
  "text_items (map JStr ss) = (if list_all (\<lambda>t. py_strip t \<noteq> []) ss then Some ss else None)"
  by (induction ss) auto

lemma text_items_Some: "text_items js = Some ss \<Longrightarrow> js = map JStr ss"
proof (induction js arbitrary: ss rule: text_items.induct)
  case (2 s js)
  then obtain tt where "text_items js = Some tt" "ss = s # tt" by (auto split: if_splits)
  with 2 show ?case by (auto split: if_splits)
qed simp_all

lemma text_items_map: "text_items js = Some ss \<longleftrightarrow> js = map JStr ss \<and> list_all (\<lambda>t. py_strip t \<noteq> []) ss"
proof
  assume *: "text_items js = Some ss"
  then have "js = map JStr ss" by (rule text_items_Some)
  with * show "js = map JStr ss \<and> list_all (\<lambda>t. py_strip t \<noteq> []) ss"
    by (simp add: text_items_JStr split: if_splits)
qed (simp add: text_items_JStr)

lemma required_text_Inr:
  "required_text payload f = Inr t \<longleftrightarrow> json_get payload f = Some (JStr t) \<and> py_strip t \<noteq> []"
  by (auto simp: required_text_def required_value_def rbind_eq_Inr split: option.splits json.splits)

lemma required_positive_int_Inr:
  "required_positive_int payload f = Inr i \<longleftrightarrow> json_get payload f = Some (JInt i) \<and> 0 < i"
  by (auto simp: required_positive_int_def required_value_def rbind_eq_Inr split: option.splits json.splits)

lemma required_mapping_Inr:
  "required_mapping payload f = Inr j \<longleftrightarrow> json_get payload f = Some j \<and> is_object j"
  by (auto simp: required_mapping_def required_value_def rbind_eq_Inr split: option.splits)

lemma optional_text_list_Inr:
  "optional_text_list payload f = Inr ss \<longleftrightarrow>
     json_get_default payload f (JList []) = JList (map JStr ss) \<and> list_all (\<lambda>t. py_strip t \<noteq> []) ss"
  by (auto simp: optional_text_list_def Let_def text_items_map text_items_JStr split: json.splits option.splits)

lemma new_scope_Inr:
  "new_scope a b c n = Inr s \<longleftrightarrow>
     py_strip a \<noteq> [] \<and> py_strip b \<noteq> [] \<and> py_strip c \<noteq> [] \<and> 0 < n \<and>
     s = \<lparr>cs_service = a, cs_environment = b, cs_runbook_id = c, cs_blast_radius_budget = n\<rparr>"
  by (auto simp: new_scope_def rbind_eq_Inr)

lemmas record_fields = required_text_Inr required_positive_int_Inr required_mapping_Inr
  optional_text_list_Inr new_scope_Inr rbind_eq_Inr

lemma record_from_dict_ok: "record_from_dict payload = Inr r \<Longrightarrow> record_ok r"
  by (auto simp: record_from_dict_def record_ok_def record_fields)

lemma record_round_trip:
  assumes "record_ok r"
  shows "record_from_dict (record_as_dict r) = Inr r"
proof -
  obtain s sh ih ed io eo ib ids where r: "r = \<lparr>rec_scope = s, rec_scope_hash = sh, rec_inputs_hash = ih,
      rec_exercises_digest = ed, rec_issued_on = io, rec_expires_on = eo, rec_issued_by = ib,
      rec_evidence_ids = ids\<rparr>" by (cases r)
  obtain a b c n where s: "s = \<lparr>cs_service = a, cs_environment = b, cs_runbook_id = c,
      cs_blast_radius_budget = n\<rparr>" by (cases s)
  show ?thesis
    using assms unfolding record_from_dict_def r s record_ok_def
    by (simp add: record_fields record_as_dict_def scope_canonical_def is_object_def json_get_default_def)
qed

section \<open>Properties\<close>

text \<open>A complete, graded suite without a successful-remediation or verification-failure exercise.\<close>

definition sample_scope :: certification_scope where
  "sample_scope = \<lparr>cs_service = ''payments'', cs_environment = ''stage'', cs_runbook_id = ''aks.scale.memory'',
     cs_blast_radius_budget = 5\<rparr>"

definition sample_exercise :: "exercise_kind \<Rightarrow> string \<Rightarrow> exercise_result" where
  "sample_exercise k ref = \<lparr>ex_kind = k, ex_passed = True, ex_service = ''payments'',
     ex_environment = ''stage'', ex_runbook_id = ''aks.scale.memory'', ex_observed_blast_radius = 1,
     ex_evidence_ref = ref, ex_evidence_grade = ''production''\<rparr>"

definition sample_exercises :: "exercise_result list" where
  "sample_exercises = map (\<lambda>(k, r). sample_exercise k r)
     [(ROLLBACK, ''r1''), (KILL_SWITCH_EXERCISE, ''r2''), (ERROR_BUDGET_EXHAUSTED, ''r3''),
      (POLICY_OUTAGE, ''r4''), (AUDIT_OUTAGE, ''r5''), (ROLLBACK, ''r6''), (ROLLBACK, ''r7'')]"

definition sample_evidence :: "evidence_record list" where
  "sample_evidence = [\<lparr>er_evidence_id = ''ev-1'', er_decision = ''l4-promotion'',
     er_scope = ''payments/stage/aks.scale.memory'', er_basis = ''review'',
     er_controls = [''independent-verification'', ''security-review'']\<rparr>]"

definition sample_certification :: certification_record where
  "sample_certification = \<lparr>rec_scope = sample_scope, rec_scope_hash = scope_hash fixture_std sample_scope,
     rec_inputs_hash = ''i'', rec_exercises_digest = ''d'', rec_issued_on = ''1'', rec_expires_on = ''90'',
     rec_issued_by = ''sre-lead'', rec_evidence_ids = [''ev-1'']\<rparr>"

text \<open>Exactly when a scope is eligible for L4: every exercise recorded for it counts (none is a
  rehearsal), passed, stayed within the blast-radius budget and names its evidence; there are
  at least seven; rollback, kill switch, error budget, policy outage and audit outage were
  each exercised; and independent verification and security review are each attested by a
  retained evidence record.\<close>

theorem l4_eligible_exactly:
  "el_eligible (evaluate_l4_eligibility std s es records now) \<longleftrightarrow>
     list_all (\<lambda>e. \<not> is_rehearsal e \<and> ex_passed e \<and> py_strip (ex_evidence_ref e) \<noteq> [] \<and>
        ex_observed_blast_radius e \<le> cs_blast_radius_budget s) (scope_exercises s es) \<and>
     7 \<le> length (scope_exercises s es) \<and>
     list_all (exercise_backed (scope_exercises s es))
       [ROLLBACK, KILL_SWITCH_EXERCISE, ERROR_BUDGET_EXHAUSTED, POLICY_OUTAGE, AUDIT_OUTAGE] \<and>
     list_all (\<lambda>control. list_ex (\<lambda>r. attests r s control) records) ATTESTED_CONTROLS"
  by (rule eligible_iff)

text \<open>Seven successes need not cover the seven required kinds: a suite without any successful
  remediation and without any verification-failure exercise is eligible.\<close>

theorem eligible_without_required_kinds:
  "el_eligible (evaluate_l4_eligibility std sample_scope sample_exercises sample_evidence now) \<and>
   list_all (\<lambda>e. ex_kind e \<noteq> SUCCESSFUL_REMEDIATION \<and> ex_kind e \<noteq> VERIFICATION_FAILURE) sample_exercises"
proof -
  have rel: "scope_exercises sample_scope sample_exercises = sample_exercises"
    by (simp add: scope_exercises_def sample_exercises_def sample_exercise_def sample_scope_def in_scope_def)
  have graded: "is_rehearsal (sample_exercise k r) = False" for k r
    by (simp add: is_rehearsal_def sample_exercise_def py_strip_def py_space_def py_lower_def lower_char_def
        REHEARSAL_GRADE_def)
  have att: "list_all (\<lambda>control. list_ex (\<lambda>r. attests r sample_scope control) sample_evidence) ATTESTED_CONTROLS"
    by code_simp
  have "list_all (exercise_backed sample_exercises)
      [ROLLBACK, KILL_SWITCH_EXERCISE, ERROR_BUDGET_EXHAUSTED, POLICY_OUTAGE, AUDIT_OUTAGE]"
    by (simp add: exercise_backed_def sample_exercises_def sample_exercise_def)
  moreover have "list_all (\<lambda>e. \<not> is_rehearsal e \<and> ex_passed e \<and> py_strip (ex_evidence_ref e) \<noteq> [] \<and>
      ex_observed_blast_radius e \<le> cs_blast_radius_budget sample_scope) sample_exercises"
    by (simp add: sample_exercises_def graded)
      (simp add: sample_exercise_def sample_scope_def py_strip_def py_space_def)
  moreover have "7 \<le> length sample_exercises" by (simp add: sample_exercises_def)
  ultimately show ?thesis
    unfolding eligible_iff rel using att by (simp add: sample_exercises_def sample_exercise_def)
qed

text \<open>C39. A certification authorises only what it was issued for: if a record that carries the hashes
  of a scope and of its material inputs is not refused for a request, then the request has the
  same service, environment, runbook and budget, and the runbook definition and the policy bundle
  version are unchanged, unless the two different texts of the material inputs have the same
  SHA-256 digest; and in any case the record has not expired.\<close>

theorem certification_binds_scope_and_inputs:
  assumes "float_repr_ok std"
    and "rec_scope_hash r = scope_hash std s" "rec_inputs_hash r = material_inputs_hash_for std s rb v"
    and "certification_refusal std (Some r) (scope_hash std s') (material_inputs_hash_for std s' rb' v') now = None"
  shows "((s' = s \<and> rb' = rb \<and> v' = v) \<or> sha256_collides std (inputs_text std s rb v) (inputs_text std s' rb' v')) \<and>
     (\<exists>expires. parse_instant std (rec_expires_on r) = Some expires \<and> now < expires)"
proof -
  from assms(4) obtain expires where "parse_instant std (rec_expires_on r) = Some expires" "now < expires"
      "material_inputs_hash_for std s rb v = material_inputs_hash_for std s' rb' v'"
    using assms(3) by (auto simp: certification_refusal_None)
  with material_inputs_hash_for_binds [OF assms(1)] show ?thesis by blast
qed

text \<open>
  Under a digest without collisions a record is accepted for its own scope, and refused for the
  same scope with a larger budget and for another bundle version.
\<close>

theorem certification_binds_scope_and_inputs_witness:
  "\<exists>r. certification_refusal plain_std (Some r) (scope_hash plain_std sample_scope)
       (material_inputs_hash_for plain_std sample_scope (hd default_runbooks) ''v1'') 17 = None \<and>
     (\<exists>expires. parse_instant plain_std (rec_expires_on r) = Some expires \<and> 17 < expires) \<and>
     certification_refusal plain_std (Some r) (scope_hash plain_std (sample_scope\<lparr>cs_blast_radius_budget := 99\<rparr>))
       (material_inputs_hash_for plain_std (sample_scope\<lparr>cs_blast_radius_budget := 99\<rparr>) (hd default_runbooks) ''v1'') 17 \<noteq> None \<and>
     certification_refusal plain_std (Some r) (scope_hash plain_std sample_scope)
       (material_inputs_hash_for plain_std sample_scope (hd default_runbooks) ''v2'') 17 \<noteq> None"
proof -
  let ?r = "sample_certification\<lparr>rec_scope_hash := scope_hash plain_std sample_scope,
      rec_inputs_hash := material_inputs_hash_for plain_std sample_scope (hd default_runbooks) ''v1''\<rparr>"
  have "parse_instant plain_std ''90'' = Some 90" by code_simp
  then have ok: "certification_refusal plain_std (Some ?r) (scope_hash plain_std sample_scope)
      (material_inputs_hash_for plain_std sample_scope (hd default_runbooks) ''v1'') 17 = None"
    by (simp add: certification_refusal_None sample_certification_def)
  note binds = certification_binds_scope_and_inputs [OF plain_float_repr, of ?r sample_scope "hd default_runbooks" "''v1''"]
  have "sample_scope\<lparr>cs_blast_radius_budget := 99\<rparr> \<noteq> sample_scope" by (simp add: sample_scope_def)
  with binds [of "sample_scope\<lparr>cs_blast_radius_budget := 99\<rparr>" "hd default_runbooks" "''v1''" 17]
    binds [of sample_scope "hd default_runbooks" "''v2''" 17] binds [OF _ _ ok] ok
  show ?thesis by (intro exI [of _ ?r]) auto
qed

text \<open>C40. Parsing a persisted record inverts serialising it, for every record with non-blank texts
  and a positive budget, and parsing yields only such records: a malformed record never
  becomes authority.\<close>

theorem certification_record_round_trip:
  "(record_from_dict (record_as_dict r) = Inr r) = record_ok r \<and>
   (case record_from_dict payload of Inl _ \<Rightarrow> True | Inr parsed \<Rightarrow> record_ok parsed)"
  using record_round_trip record_from_dict_ok by (auto split: sum.splits)

text \<open>The reviewer's report is sound: L4 eligibility implies L3 eligibility, all seven required
  kinds passed, no exercise of the scope failed or exceeded the budget, and the separately
  computed list of missing controls is empty exactly when the certification is eligible.\<close>

theorem certification_report_sound:
  "(let rep = build_certification_report std clock service environment runbook_id budget sr vi es gen;
        rel = filter (in_scope service environment runbook_id) es in
    (cr_l3_eligible rep \<longleftrightarrow> 0 < budget \<and> sr \<and> vi \<and> set L3_REQUIRED_KINDS \<subseteq> ex_kind ` set (filter ex_passed rel) \<and>
       list_all (\<lambda>e. ex_passed e \<and> py_strip (ex_evidence_ref e) \<noteq> [] \<and> ex_observed_blast_radius e \<le> budget) rel) \<and>
    (cr_l4_eligible rep \<longleftrightarrow> cr_l3_eligible rep \<and> cr_missing_l4_controls rep = []) \<and>
    (cr_missing_l4_controls rep = [] \<longleftrightarrow> cr_missing_l3_controls rep = [] \<and>
       set L4_REQUIRED_KINDS \<subseteq> ex_kind ` set (filter ex_passed rel) \<and>
       l4_eligible (certification_from_exercises service environment runbook_id budget sr vi rel 7)))"
proof -
  have "length L4_REQUIRED_KINDS = 7" by (simp add: L4_REQUIRED_KINDS_def L3_REQUIRED_KINDS_def)
  then show ?thesis
    unfolding build_certification_report_def Let_def
    by (auto simp: append_new_empty missing_controls_empty absent_kinds_empty filter_empty_conv
        list_all_iff list_ex_iff not_le)
qed

end
