(* ===== verification/Blast_Radius_Lock.thy ===== *)
theory Blast_Radius_Lock
  imports Eip_Prelude
begin

text \<open>
  The concurrency lockout of \<open>src/remediation/concurrency_lock.py\<close>
  (\<open>InMemoryConcurrencyLockManager\<close>): leases in a dictionary, pruned by expiry, with a scope of
  services each. Times are microseconds; the identifier a lease is given (from \<open>uuid4\<close>) is an
  argument of \<open>acquire\<close>, and the lemmas that need it assume it is fresh.

  The contract the control loop relies on is the locale \<open>lockout\<close>; the step relation
  \<open>lock_reachable\<close> carries the mutual-exclusion invariant.
\<close>

section \<open>Leases\<close>

record lock_lease =
  ll_lease_id :: string
  ll_service_id :: string
  ll_locked_services :: "string list"
  ll_acquired_at :: instant
  ll_expires_at :: instant

record lockout_refusal =
  lo_conflicting_service :: string
  lo_active_lease_id :: string
  lo_reason :: string

type_synonym lock_state = "(string \<times> lock_lease) list"

definition is_expired :: "lock_lease \<Rightarrow> instant \<Rightarrow> bool" where
  "is_expired lease current = (current \<ge> ll_expires_at lease)"

definition prune_expired :: "instant \<Rightarrow> lock_state \<Rightarrow> lock_state" where
  "prune_expired moment leases = filter (\<lambda>(lid, lease). \<not> is_expired lease moment) leases"

definition lease_scope :: "lock_lease \<Rightarrow> string list" where
  "lease_scope l = ll_service_id l # ll_locked_services l"

definition overlap :: "string list \<Rightarrow> string list \<Rightarrow> string list" where
  "overlap target active = sort (remdups (filter (\<lambda>s. s \<in> set active) target))"

fun find_conflict :: "string list \<Rightarrow> lock_state \<Rightarrow> lockout_refusal option" where
  "find_conflict target [] = None"
| "find_conflict target ((lid, lease) # leases) =
     (case overlap target (lease_scope lease) of
        [] \<Rightarrow> find_conflict target leases
      | conflicting # _ \<Rightarrow> Some
          \<lparr>lo_conflicting_service = conflicting, lo_active_lease_id = ll_lease_id lease,
           lo_reason = ''concurrency-lockout: service '' @ [CHR 0x27] @ conflicting @ [CHR 0x27] @
             '' is under active remediation by lease '' @ [CHR 0x27] @ ll_lease_id lease @ [CHR 0x27]\<rparr>)"

definition acquire ::
    "string \<Rightarrow> string \<Rightarrow> string list \<Rightarrow> int \<Rightarrow> instant \<Rightarrow> lock_state \<Rightarrow>
       (lock_lease option \<times> lockout_refusal option) \<times> lock_state" where
  "acquire lease_id service_id impacted_services ttl_us moment leases =
     (let leases' = prune_expired moment leases;
          target_scope = service_id # impacted_services in
      case find_conflict target_scope leases' of
        Some refusal \<Rightarrow> ((None, Some refusal), leases')
      | None \<Rightarrow>
          let lease = \<lparr>ll_lease_id = lease_id, ll_service_id = service_id,
                ll_locked_services = sort (remdups target_scope), ll_acquired_at = moment,
                ll_expires_at = moment + ttl_us\<rparr> in
          ((Some lease, None), dict_set lease_id lease leases'))"

definition release :: "lock_lease \<Rightarrow> lock_state \<Rightarrow> bool \<times> lock_state" where
  "release lease leases =
     (if map_of leases (ll_lease_id lease) \<noteq> None then (True, dict_del (ll_lease_id lease) leases)
      else (False, leases))"

definition active_leases :: "instant \<Rightarrow> lock_state \<Rightarrow> lock_lease list \<times> lock_state" where
  "active_leases moment leases =
     (let leases' = prune_expired moment leases in (map snd leases', leases'))"

section \<open>Mutual exclusion\<close>

definition disjoint_leases :: "lock_lease \<Rightarrow> lock_lease \<Rightarrow> bool" where
  "disjoint_leases a b \<longleftrightarrow> set (lease_scope a) \<inter> set (lease_scope b) = {}"

definition lock_inv :: "lock_state \<Rightarrow> bool" where
  "lock_inv leases \<longleftrightarrow> distinct (map fst leases) \<and> (\<forall>(k, l) \<in> set leases. ll_lease_id l = k) \<and>
     (\<forall>(k, a) \<in> set leases. \<forall>(m, b) \<in> set leases. k = m \<or> disjoint_leases a b)"

lemma overlap_set: "set (overlap t a) = set t \<inter> set a"
  by (auto simp: overlap_def)

lemma overlap_empty: "overlap t a = [] \<longleftrightarrow> set t \<inter> set a = {}"
  by (metis overlap_set set_empty)

lemma find_conflict_None:
  "find_conflict target leases = None \<longleftrightarrow> (\<forall>(k, l) \<in> set leases. set target \<inter> set (lease_scope l) = {})"
  by (induction target leases rule: find_conflict.induct)
    (auto simp: overlap_empty [symmetric] split: list.splits)

lemma find_conflict_Some:
  assumes "find_conflict target leases = Some r"
  shows "\<exists>k l. (k, l) \<in> set leases \<and> lo_conflicting_service r \<in> set target \<inter> set (lease_scope l) \<and>
     lo_active_lease_id r = ll_lease_id l"
  using assms
proof (induction target leases rule: find_conflict.induct)
  case (2 target lid lease leases)
  show ?case
  proof (cases "overlap target (lease_scope lease)")
    case Nil
    with 2 show ?thesis by auto
  next
    case (Cons c cs)
    have "c \<in> set (overlap target (lease_scope lease))" using Cons by simp
    then have "c \<in> set target \<inter> set (lease_scope lease)" by (simp only: overlap_set)
    moreover have "lo_conflicting_service r = c" "lo_active_lease_id r = ll_lease_id lease"
      using 2(2) Cons by auto
    ultimately show ?thesis by auto
  qed
qed simp

lemma prune_subset: "set (prune_expired t ls) \<subseteq> set ls"
  by (auto simp: prune_expired_def)

lemma lock_inv_filter: "lock_inv ls \<Longrightarrow> lock_inv (filter P ls)"
  by (auto simp: lock_inv_def distinct_map inj_on_def)

lemma lock_inv_prune: "lock_inv ls \<Longrightarrow> lock_inv (prune_expired t ls)"
  by (simp add: prune_expired_def lock_inv_filter)

lemma lock_inv_add:
  assumes "lock_inv ls" "ll_lease_id l = k" "k \<notin> fst ` set ls"
    and "\<forall>(m, b) \<in> set ls. disjoint_leases l b"
  shows "lock_inv (dict_set k l ls)"
proof -
  have "disjoint_leases b l" if "(m, b) \<in> set ls" for m b
    using assms(4) that by (auto simp: disjoint_leases_def)
  then show ?thesis
    using assms by (auto simp: dict_set_fresh lock_inv_def)
qed

lemma granted_scope:
  "set (lease_scope \<lparr>ll_lease_id = i, ll_service_id = s, ll_locked_services = sort (remdups (s # im)),
      ll_acquired_at = t, ll_expires_at = e\<rparr>) = insert s (set im)"
  by (auto simp: lease_scope_def simp del: remdups.simps)

lemma acquire_granted:
  assumes "acquire i s im ttl t ls = ((Some l, None), ls')"
  shows "l = \<lparr>ll_lease_id = i, ll_service_id = s, ll_locked_services = sort (remdups (s # im)),
        ll_acquired_at = t, ll_expires_at = t + ttl\<rparr> \<and> ls' = dict_set i l (prune_expired t ls) \<and>
     (\<forall>(k, b) \<in> set (prune_expired t ls). disjoint_leases l b)"
proof -
  from assms have none: "find_conflict (s # im) (prune_expired t ls) = None"
    and l: "l = \<lparr>ll_lease_id = i, ll_service_id = s, ll_locked_services = sort (remdups (s # im)),
        ll_acquired_at = t, ll_expires_at = t + ttl\<rparr>" and ls': "ls' = dict_set i l (prune_expired t ls)"
    by (auto simp: acquire_def Let_def split: option.splits)
  have "set (lease_scope l) = set (s # im)" unfolding l granted_scope by simp
  then have "\<forall>(k, b) \<in> set (prune_expired t ls). disjoint_leases l b"
    using none unfolding find_conflict_None disjoint_leases_def by auto
  with l ls' show ?thesis by blast
qed

lemma acquire_refused:
  assumes "acquire i s im ttl t ls = ((None, Some r), ls')"
  shows "ls' = prune_expired t ls \<and> find_conflict (s # im) ls' = Some r"
  using assms by (auto simp: acquire_def Let_def split: option.splits)

lemma acquire_outcome:
  "(\<exists>l. fst (acquire i s im ttl t ls) = (Some l, None)) \<or> (\<exists>r. fst (acquire i s im ttl t ls) = (None, Some r))"
  by (auto simp: acquire_def Let_def split: option.splits)

lemma acquire_inv:
  assumes "lock_inv ls" "i \<notin> fst ` set ls" "acquire i s im ttl t ls = (res, ls')"
  shows "lock_inv ls'"
proof (cases "snd res")
  case (Some r)
  with assms(3) have "ls' = prune_expired t ls" by (auto simp: acquire_def Let_def split: option.splits)
  with assms(1) show ?thesis by (simp add: lock_inv_prune)
next
  case None
  with assms(3) acquire_outcome [of i s im ttl t ls] obtain l where "res = (Some l, None)" by auto
  with acquire_granted assms(3) have l: "ll_lease_id l = i" "ls' = dict_set i l (prune_expired t ls)"
      "\<forall>(k, b) \<in> set (prune_expired t ls). disjoint_leases l b" by fastforce+
  moreover have "i \<notin> fst ` set (prune_expired t ls)" using assms(2) prune_subset by fastforce
  ultimately show ?thesis using lock_inv_add [OF lock_inv_prune [OF assms(1)]] by simp
qed

lemma release_inv: "lock_inv ls \<Longrightarrow> lock_inv (snd (release l ls))"
  by (simp add: release_def dict_del_def lock_inv_filter)

text \<open>Giving a lease back leaves exactly the leases that were active before it was granted.\<close>

lemma release_after_acquire:
  assumes "i \<notin> fst ` set ls" "acquire i s im ttl t ls = ((Some l, None), ls')"
  shows "release l ls' = (True, prune_expired t ls)"
proof -
  have fresh: "i \<notin> fst ` set (prune_expired t ls)" using assms(1) prune_subset by fastforce
  from acquire_granted [OF assms(2)] have "ll_lease_id l = i" "ls' = prune_expired t ls @ [(i, l)]"
    using fresh by (auto simp: dict_set_fresh)
  with fresh show ?thesis
    by (auto simp: release_def dict_del_absent) (simp add: dict_del_def)
qed

section \<open>The lockout interface\<close>

text \<open>
  What the control loop relies on: a call either grants a lease or refuses, a granted lease is
  released by its own \<open>release\<close>, and then the active leases are those a refused call would have
  left.
\<close>

locale lockout =
  fixes acq :: "'r \<Rightarrow> 'l \<Rightarrow> (lock_lease option \<times> lockout_refusal option) \<times> 'l"
    and rel :: "lock_lease \<Rightarrow> 'l \<Rightarrow> bool \<times> 'l"
    and settle :: "'r \<Rightarrow> 'l \<Rightarrow> 'l"
    and fresh :: "'r \<Rightarrow> 'l \<Rightarrow> bool"
  assumes acq_total: "(\<exists>l. fst (acq r s) = (Some l, None)) \<or> (\<exists>x. fst (acq r s) = (None, Some x))"
    and acq_refuses: "acq r s = ((None, Some x), s') \<Longrightarrow> s' = settle r s"
    and rel_undoes: "fresh r s \<Longrightarrow> acq r s = ((Some l, None), s') \<Longrightarrow> rel l s' = (True, settle r s)"
begin

text \<open>A guarded section: whatever the section does, the lock state afterwards is settled.\<close>

definition guarded :: "'r \<Rightarrow> 'l \<Rightarrow> 'l" where
  "guarded r s = (case acq r s of ((Some l, _), s') \<Rightarrow> snd (rel l s') | ((None, _), s') \<Rightarrow> s')"

lemma guarded_settles: "fresh r s \<Longrightarrow> guarded r s = settle r s"
proof -
  assume fresh: "fresh r s"
  obtain res s' where acq: "acq r s = (res, s')" by fastforce
  with acq_total [of r s] consider l where "res = (Some l, None)" | x where "res = (None, Some x)" by auto
  then show ?thesis
    by cases (use acq fresh rel_undoes acq_refuses in \<open>auto simp: guarded_def\<close>)
qed

end

record lock_request =
  lk_lease_id :: string
  lk_service :: string
  lk_impacted :: "string list"
  lk_ttl_us :: int
  lk_now :: instant

interpretation memory_lock: lockout
  "\<lambda>r. acquire (lk_lease_id r) (lk_service r) (lk_impacted r) (lk_ttl_us r) (lk_now r)" release
  "\<lambda>r. prune_expired (lk_now r)" "\<lambda>r s. lk_lease_id r \<notin> fst ` set s"
proof (unfold_locales, goal_cases)
  case (1 r s)
  then show ?case by (rule acquire_outcome)
next
  case (2 r s x s')
  then show ?case by (auto dest: acquire_refused)
next
  case (3 r s l s')
  then show ?case by (rule release_after_acquire)
qed

section \<open>Runs\<close>

inductive lock_reachable :: "lock_state \<Rightarrow> bool" where
  lock_empty: "lock_reachable []"
| lock_acquire: "lock_reachable ls \<Longrightarrow> i \<notin> fst ` set ls \<Longrightarrow> acquire i s im ttl t ls = (res, ls') \<Longrightarrow>
     lock_reachable ls'"
| lock_release: "lock_reachable ls \<Longrightarrow> release l ls = (b, ls') \<Longrightarrow> lock_reachable ls'"
| lock_query: "lock_reachable ls \<Longrightarrow> active_leases t ls = (out, ls') \<Longrightarrow> lock_reachable ls'"

lemma lock_reachable_inv: "lock_reachable ls \<Longrightarrow> lock_inv ls"
proof (induction rule: lock_reachable.induct)
  case lock_empty
  then show ?case by (simp add: lock_inv_def)
next
  case (lock_acquire ls i s im ttl t res ls')
  then show ?case by (metis acquire_inv)
next
  case (lock_release ls l b ls')
  then show ?case using release_inv [of ls l] by simp
next
  case (lock_query ls t out ls')
  then show ?case by (auto simp: active_leases_def Let_def lock_inv_prune)
qed

section \<open>Properties\<close>

text \<open>Mutual exclusion: after any sequence of acquisitions, releases and queries (with fresh lease
  ids), no service is covered by two leases.\<close>

theorem no_service_locked_twice:
  assumes "lock_reachable ls" "(k, a) \<in> set ls" "(m, b) \<in> set ls" "k \<noteq> m"
  shows "set (lease_scope a) \<inter> set (lease_scope b) = {}"
  using lock_reachable_inv [OF assms(1)] assms(2-4) unfolding lock_inv_def disjoint_leases_def by fast

definition sample_lease :: "string \<Rightarrow> string \<Rightarrow> lock_lease" where
  "sample_lease i s = \<lparr>ll_lease_id = i, ll_service_id = s, ll_locked_services = [s], ll_acquired_at = 0,
     ll_expires_at = 300\<rparr>"

lemma sample_locks:
  "acquire ''lease-1'' ''payments'' [] 300 0 [] =
     ((Some (sample_lease ''lease-1'' ''payments''), None), [(''lease-1'', sample_lease ''lease-1'' ''payments'')])"
  "acquire ''lease-2'' ''search'' [] 300 0 [(''lease-1'', sample_lease ''lease-1'' ''payments'')] =
     ((Some (sample_lease ''lease-2'' ''search''), None),
      [(''lease-1'', sample_lease ''lease-1'' ''payments''), (''lease-2'', sample_lease ''lease-2'' ''search'')])"
  by (simp_all add: acquire_def Let_def prune_expired_def sample_lease_def is_expired_def overlap_def
      lease_scope_def)

theorem no_service_locked_twice_witness:
  "lock_reachable [(''lease-1'', sample_lease ''lease-1'' ''payments''), (''lease-2'', sample_lease ''lease-2'' ''search'')] \<and>
   set (lease_scope (sample_lease ''lease-1'' ''payments'')) \<inter> set (lease_scope (sample_lease ''lease-2'' ''search'')) = {}"
proof -
  have 1: "lock_reachable [(''lease-1'', sample_lease ''lease-1'' ''payments'')]"
    by (rule lock_acquire [OF lock_empty _ sample_locks(1)]) simp
  have 2: "lock_reachable [(''lease-1'', sample_lease ''lease-1'' ''payments''), (''lease-2'', sample_lease ''lease-2'' ''search'')]"
    by (rule lock_acquire [OF 1 _ sample_locks(2)]) simp
  from no_service_locked_twice [OF 2, of "''lease-1''" _ "''lease-2''"] 2 show ?thesis by simp
qed

text \<open>A lease is refused exactly when some service of the request is covered by a lease that has
  not expired, and the refusal names such a service and such a lease.\<close>

theorem acquire_refuses_exactly_on_overlap:
  "case fst (acquire i s im ttl t ls) of
     (Some l, None) \<Rightarrow> set (lease_scope l) = insert s (set im) \<and> ll_expires_at l = t + ttl \<and>
       list_all (\<lambda>(k, b). insert s (set im) \<inter> set (lease_scope b) = {}) (prune_expired t ls)
   | (None, Some r) \<Rightarrow> \<exists>k b. (k, b) \<in> set ls \<and> is_expired b t = False \<and> lo_active_lease_id r = ll_lease_id b \<and>
       lo_conflicting_service r \<in> insert s (set im) \<inter> set (lease_scope b)
   | _ \<Rightarrow> False"
proof -
  obtain ls' where ls': "acquire i s im ttl t ls = (fst (acquire i s im ttl t ls), ls')" by (metis prod.collapse)
  consider l where "fst (acquire i s im ttl t ls) = (Some l, None)" | r where "fst (acquire i s im ttl t ls) = (None, Some r)"
    using acquire_outcome by blast
  then show ?thesis
  proof cases
    case 1
    with ls' have g: "acquire i s im ttl t ls = ((Some l, None), ls')" by simp
    from acquire_granted [OF g] have "set (lease_scope l) = insert s (set im)" "ll_expires_at l = t + ttl"
        "\<forall>(k, b) \<in> set (prune_expired t ls). disjoint_leases l b"
      by (auto simp: granted_scope simp del: remdups.simps)
    with 1 show ?thesis by (simp add: list_all_iff disjoint_leases_def)
  next
    case 2
    with ls' have "acquire i s im ttl t ls = ((None, Some r), ls')" by simp
    from acquire_refused [OF this] have "find_conflict (s # im) (prune_expired t ls) = Some r" by metis
    from find_conflict_Some [OF this] 2 show ?thesis by (auto simp: prune_expired_def)
  qed
qed

end
