(* ===== verification/Canary_Rollout.thy ===== *)
theory Canary_Rollout
  imports Policy_Boundary
begin

text \<open>
  The action adapter interface and the progressive rollout of \<open>src/remediation/canary.py\<close>
  (\<open>ProgressiveCanaryExecutor.execute_progressive\<close>). An adapter acts on a world of arbitrary type:
  each of its calls returns its result, or the exception it raised, with the world after the
  call. Wrapping an adapter so that it records its calls gives the traces the lemmas speak of.
\<close>

section \<open>Adapters\<close>

text \<open>A preflight hook answers with a pair or with a bare truth value.\<close>

datatype preflight_answer = PrePair bool string | PreFlag bool

record 'w adapter =
  ad_execute :: "string \<Rightarrow> action_request \<Rightarrow> 'w \<Rightarrow> string res \<times> 'w"
  ad_verify :: "string \<Rightarrow> action_request \<Rightarrow> 'w \<Rightarrow> bool res \<times> 'w"
  ad_rollback :: "string \<Rightarrow> action_request \<Rightarrow> 'w \<Rightarrow> string res \<times> 'w"
  ad_preflight :: "(runbook \<Rightarrow> action_request \<Rightarrow> 'w \<Rightarrow> preflight_answer res \<times> 'w) option"

section \<open>Progressive rollout\<close>

record canary_strategy =
  can_percentage :: int
  can_soak_seconds :: rat
  can_canary_verify_signal :: string
  can_full_verify_signal :: string

definition default_strategy :: canary_strategy where
  "default_strategy = \<lparr>can_percentage = 10, can_soak_seconds = 30,
     can_canary_verify_signal = ''deployment.canary_ready'',
     can_full_verify_signal = ''deployment.ready_replicas''\<rparr>"

record canary_step =
  cst_phase :: string
  cst_status :: string
  cst_details :: string

abbreviation canary_step_of :: "string \<Rightarrow> string \<Rightarrow> string \<Rightarrow> canary_step" where
  "canary_step_of p s d \<equiv> \<lparr>cst_phase = p, cst_status = s, cst_details = d\<rparr>"

record canary_result =
  cx_status :: string
  cx_canary_verified :: bool
  cx_fleet_verified :: bool
  cx_steps :: "canary_step list"
  cx_error :: "string option"

abbreviation quoted :: "string \<Rightarrow> string" where
  "quoted s \<equiv> [CHR 0x27] @ s @ [CHR 0x27]"

text \<open>Calling an adapter operation inside \<^verbatim>\<open>if id: try ... except Exception\<close>.\<close>

definition call_rollback ::
    "'w adapter \<Rightarrow> runbook \<Rightarrow> action_request \<Rightarrow> 'w \<Rightarrow> string res option \<times> 'w" where
  "call_rollback ad rb q w =
     (case rb_rollback_id rb of
        None \<Rightarrow> (None, w)
      | Some rid \<Rightarrow>
          if rid = [] then (None, w)
          else (case ad_rollback ad rid q w of (res, w') \<Rightarrow> (Some res, w')))"

text \<open>The result of a verification call and the step it is recorded as.\<close>

definition verify_step :: "string \<Rightarrow> string \<Rightarrow> string \<Rightarrow> bool res \<Rightarrow> bool \<times> canary_step" where
  "verify_step phase label signal res =
     (case res of
        Inl exc \<Rightarrow> (False, canary_step_of phase ''failed'' (label @ '' verification error: '' @ exn_str exc))
      | Inr ok \<Rightarrow> (ok, canary_step_of phase (if ok then ''succeeded'' else ''degraded'')
           (label @ '' verification signal '' @ quoted signal @ '' result='' @ str_bool ok)))"

definition execute_progressive ::
    "'w adapter \<Rightarrow> runbook \<Rightarrow> action_request \<Rightarrow> canary_strategy option \<Rightarrow> 'w \<Rightarrow> canary_result \<times> 'w" where
  "execute_progressive ad rb q strategy w0 =
     (let strat = (case strategy of None \<Rightarrow> default_strategy | Some s \<Rightarrow> s) in
      case ad_execute ad (rb_id rb @ ''.canary'') q w0 of
        (Inl exc, w1) \<Rightarrow>
          (\<lparr>cx_status = ''aborted'', cx_canary_verified = False, cx_fleet_verified = False,
            cx_steps = [canary_step_of ''canary_deploy'' ''failed'' (''Canary deployment failed: '' @ exn_str exc)],
            cx_error = Some (''canary deployment failed: '' @ exn_str exc)\<rparr>, w1)
      | (Inr canary_ref, w1) \<Rightarrow>
          let deployed = canary_step_of ''canary_deploy'' ''succeeded''
                (''Canary slice deployed with ref '' @ canary_ref) in
          case ad_verify ad (can_canary_verify_signal strat) q w1 of (vres, w2) \<Rightarrow>
          let (canary_verified, vstep) =
                verify_step ''canary_verify'' ''Canary'' (can_canary_verify_signal strat) vres in
          if \<not> canary_verified then
            (case call_rollback ad rb q w2 of (rres, w3) \<Rightarrow>
             let rollback_ref = (case rres of Some (Inr r) \<Rightarrow> r | _ \<Rightarrow> ''None'');
                 failed = (case rres of Some (Inl exc) \<Rightarrow>
                     [canary_step_of ''canary_abort'' ''failed'' (''Canary rollback failed: '' @ exn_str exc)]
                   | _ \<Rightarrow> []) in
             (\<lparr>cx_status = ''aborted'', cx_canary_verified = False, cx_fleet_verified = False,
               cx_steps = [deployed, vstep] @ failed @ [canary_step_of ''canary_abort'' ''completed''
                 (''Aborted canary mutation without touching main fleet; rollback_ref='' @ rollback_ref)],
               cx_error = Some ''canary health verification failed; rollout safely aborted''\<rparr>, w3))
          else
            (case ad_execute ad (rb_id rb) q w2 of
               (Inl exc, w3) \<Rightarrow>
                 (\<lparr>cx_status = ''failed'', cx_canary_verified = True, cx_fleet_verified = False,
                   cx_steps = [deployed, vstep, canary_step_of ''fleet_promote'' ''failed''
                     (''Fleet promotion failed: '' @ exn_str exc)],
                   cx_error = Some (''fleet promotion failed: '' @ exn_str exc)\<rparr>, w3)
             | (Inr fleet_ref, w3) \<Rightarrow>
                 let promoted = canary_step_of ''fleet_promote'' ''succeeded''
                       (''Promoted to full fleet with ref '' @ fleet_ref) in
                 case ad_verify ad (can_full_verify_signal strat) q w3 of (fres, w4) \<Rightarrow>
                 let (fleet_verified, fstep) =
                       verify_step ''fleet_verify'' ''Fleet'' (can_full_verify_signal strat) fres in
                 if \<not> fleet_verified then
                   (case call_rollback ad rb q w4 of (rres, w5) \<Rightarrow>
                    let failed = (case rres of Some (Inl exc) \<Rightarrow>
                        [canary_step_of ''fleet_rollback'' ''failed'' (''Fleet rollback failed: '' @ exn_str exc)]
                      | _ \<Rightarrow> []) in
                    (\<lparr>cx_status = ''failed'', cx_canary_verified = True, cx_fleet_verified = False,
                      cx_steps = [deployed, vstep, promoted, fstep] @ failed,
                      cx_error = Some ''fleet health verification failed after promotion''\<rparr>, w5))
                 else
                   (\<lparr>cx_status = ''succeeded'', cx_canary_verified = True, cx_fleet_verified = True,
                     cx_steps = [deployed, vstep, promoted, fstep], cx_error = None\<rparr>, w4)))"

section \<open>Recording the calls\<close>

datatype adapter_call = Executed string "string res" | Verified string "bool res" | RolledBack string "string res"
  | Preflighted "preflight_answer res"

text \<open>The world of a traced adapter is the list of its calls so far and the world it acts on.\<close>

definition traced :: "'w adapter \<Rightarrow> (adapter_call list \<times> 'w) adapter" where
  "traced ad =
     \<lparr>ad_execute = (\<lambda>i q (t, w). case ad_execute ad i q w of (r, w') \<Rightarrow> (r, (t @ [Executed i r], w'))),
      ad_verify = (\<lambda>s q (t, w). case ad_verify ad s q w of (r, w') \<Rightarrow> (r, (t @ [Verified s r], w'))),
      ad_rollback = (\<lambda>i q (t, w). case ad_rollback ad i q w of (r, w') \<Rightarrow> (r, (t @ [RolledBack i r], w'))),
      ad_preflight = map_option (\<lambda>f rb q (t, w). case f rb q w of (r, w') \<Rightarrow> (r, (t @ [Preflighted r], w')))
        (ad_preflight ad)\<rparr>"

lemma traced_simps [simp]:
  "ad_execute (traced ad) i q (t, w) =
     (fst (ad_execute ad i q w), (t @ [Executed i (fst (ad_execute ad i q w))], snd (ad_execute ad i q w)))"
  "ad_verify (traced ad) s q (t, w) =
     (fst (ad_verify ad s q w), (t @ [Verified s (fst (ad_verify ad s q w))], snd (ad_verify ad s q w)))"
  "ad_rollback (traced ad) i q (t, w) =
     (fst (ad_rollback ad i q w), (t @ [RolledBack i (fst (ad_rollback ad i q w))], snd (ad_rollback ad i q w)))"
  by (simp_all add: traced_def split: prod.splits)

lemma traced_call_rollback:
  "call_rollback (traced ad) rb q (t, w) =
     (fst (call_rollback ad rb q w),
      (t @ (case fst (call_rollback ad rb q w) of None \<Rightarrow> [] | Some r \<Rightarrow> [RolledBack (the (rb_rollback_id rb)) r]),
       snd (call_rollback ad rb q w)))"
  by (simp add: call_rollback_def split: option.splits prod.splits)

text \<open>The calls a rollout makes, by outcome.\<close>

definition canary_calls_ok :: "runbook \<Rightarrow> canary_result \<Rightarrow> adapter_call list \<Rightarrow> bool" where
  "canary_calls_ok rb res t \<longleftrightarrow>
     (cx_status res = ''succeeded'' \<and> cx_canary_verified res \<and> cx_fleet_verified res \<and>
        (\<exists>r s sc sf. t = [Executed (rb_id rb @ ''.canary'') (Inr r), Verified sc (Inr True),
           Executed (rb_id rb) (Inr s), Verified sf (Inr True)])) \<or>
     (cx_status res = ''aborted'' \<and> \<not> cx_canary_verified res \<and> \<not> cx_fleet_verified res \<and>
        (\<forall>r. Executed (rb_id rb) r \<notin> set t)) \<or>
     (cx_status res = ''failed'' \<and> cx_canary_verified res \<and> \<not> cx_fleet_verified res \<and>
        (\<exists>r sc rest. t = [Executed (rb_id rb @ ''.canary'') (Inr r), Verified sc (Inr True)] @ rest))"

lemma canary_id_differs: "rb_id rb @ ''.canary'' \<noteq> rb_id rb"
  by simp

lemma verify_step_fst: "fst (verify_step ph l s r) = (r = Inr True)"
  by (cases r) (auto simp: verify_step_def)

lemma execute_progressive_trace:
  "\<exists>t res w'. execute_progressive (traced ad) rb q strategy (t0, w) = (res, (t0 @ t, w')) \<and> canary_calls_ok rb res t"
proof -
  define strat where "strat = (case strategy of None \<Rightarrow> default_strategy | Some s \<Rightarrow> s)"
  let ?cid = "rb_id rb @ ''.canary''"
  obtain e1 w1 where x1: "ad_execute ad ?cid q w = (e1, w1)" by fastforce
  obtain v1 w2 where x2: "ad_verify ad (can_canary_verify_signal strat) q w1 = (v1, w2)" by fastforce
  obtain e2 w3 where x3: "ad_execute ad (rb_id rb) q w2 = (e2, w3)" by fastforce
  obtain v2 w4 where x4: "ad_verify ad (can_full_verify_signal strat) q w3 = (v2, w4)" by fastforce
  obtain b1 c1 where vs1: "verify_step ''canary_verify'' ''Canary'' (can_canary_verify_signal strat) v1 = (b1, c1)"
    by fastforce
  obtain b2 c2 where vs2: "verify_step ''fleet_verify'' ''Fleet'' (can_full_verify_signal strat) v2 = (b2, c2)"
    by fastforce
  have b1: "v1 = Inr True" if b1
    using that verify_step_fst [of "''canary_verify''" "''Canary''"] vs1 by (metis fst_conv)
  have b2: "v2 = Inr True" if b2
    using that verify_step_fst [of "''fleet_verify''" "''Fleet''"] vs2 by (metis fst_conv)
  note run = execute_progressive_def strat_def [symmetric] Let_def x1 x2 x3 x4 vs1 vs2 traced_call_rollback
  show ?thesis
  proof (cases e1)
    case (Inl x)
    then show ?thesis
      by (intro exI [of _ "[Executed ?cid e1]"]) (simp add: run canary_calls_ok_def)
  next
    case c: (Inr r)
    show ?thesis
    proof (cases b1)
      case False
      let ?undo = "case fst (call_rollback ad rb q w2) of None \<Rightarrow> [] | Some r \<Rightarrow> [RolledBack (the (rb_rollback_id rb)) r]"
      show ?thesis
        using c False
        by (intro exI [of _ "[Executed ?cid e1, Verified (can_canary_verify_signal strat) v1] @ ?undo"])
          (auto simp: run canary_calls_ok_def split: option.splits)
    next
      case True
      note v1 = b1 [OF True]
      note run1 = run vs1 [unfolded v1] x2 [unfolded v1] v1
      show ?thesis
      proof (cases e2)
        case (Inl x)
        with c True show ?thesis
          by (intro exI [of _ "[Executed ?cid e1, Verified (can_canary_verify_signal strat) v1, Executed (rb_id rb) e2]"])
            (simp add: run1 canary_calls_ok_def)
      next
        case f: (Inr s)
        let ?pre = "[Executed ?cid e1, Verified (can_canary_verify_signal strat) v1, Executed (rb_id rb) e2,
          Verified (can_full_verify_signal strat) v2]"
        let ?undo = "case fst (call_rollback ad rb q w4) of None \<Rightarrow> [] | Some r \<Rightarrow> [RolledBack (the (rb_rollback_id rb)) r]"
        show ?thesis
        proof (cases b2)
          case b: True
          note run2 = run1 vs2 [unfolded b2 [OF b]] x4 [unfolded b2 [OF b]] b2 [OF b]
          from c f True b show ?thesis
            by (intro exI [of _ ?pre]) (simp add: run2 canary_calls_ok_def)
        next
          case False
          with c f True show ?thesis
            by (intro exI [of _ "?pre @ ?undo"]) (simp add: run1 canary_calls_ok_def)
        qed
      qed
    qed
  qed
qed

section \<open>Properties\<close>

text \<open>A progressive rollout touches the fleet only after a verified canary: in every run the
  calls are the canary deployment, its verification and only then the fleet promotion; an
  aborted rollout never executed the fleet runbook; success means both the canary and the
  fleet were verified.\<close>

theorem canary_before_fleet:
  "case execute_progressive (traced ad) rb q strategy ([], w) of (res, (t, w')) \<Rightarrow> canary_calls_ok rb res t"
  using execute_progressive_trace [of ad rb q strategy "[]" w] by fastforce

end
