(* ===== verification/Control_Loop.thy ===== *)
theory Control_Loop
  imports L4_Certification Blast_Radius_Lock Canary_Rollout Control_Plane_Runtime
begin

text \<open>
  The bounded control loop of \<open>src/remediation/executor.py\<close> and the dry run of
  \<open>src/remediation/simulation.py\<close>. The adapter, the external policy evaluator and the lock manager
  act on a world of arbitrary type, threaded through the calls in the order the code makes
  them; the environment, the time and the loop's keyword arguments are a record.

  The lemmas show which controls a mutation has passed, that the lease is always given back,
  and what each reported status means.
\<close>

section \<open>Switches\<close>

definition autonomy_kill_switch_engaged :: "environ \<Rightarrow> bool" where
  "autonomy_kill_switch_engaged env =
     (py_lower (py_strip (env_get env ''EIP_AUTONOMY_KILL_SWITCH'' ''false'')) = ''true'')"

definition opa_evaluator_required :: "environ \<Rightarrow> bool res" where
  "opa_evaluator_required env =
     rbind (control_plane_mode env) (\<lambda>mode.
     if mode \<noteq> ''reference'' then Inr True
     else Inr (py_lower (py_strip (env_get env ''EIP_REQUIRE_OPA'' ''false'')) = ''true''))"

section \<open>Levels\<close>

text \<open>What a caller may pass as \<open>autonomy_level\<close>, besides nothing.\<close>

datatype declared_claim = DeclLevel autonomy_level | DeclInt int | DeclFloat pyfloat

definition level_of_int :: "int \<Rightarrow> autonomy_level option" where
  "level_of_int i = find (\<lambda>l. level_value l = i)
     [OBSERVE, RECOMMEND, HUMAN_EXECUTE, APPROVE_AND_EXECUTE, BOUNDED_AUTONOMOUS]"

definition claimed_level_value :: "declared_claim option \<Rightarrow> int" where
  "claimed_level_value d = (case d of Some (DeclLevel l) \<Rightarrow> level_value l | Some (DeclInt i) \<Rightarrow> i | _ \<Rightarrow> 0)"

fun claim_repr :: "py_std \<Rightarrow> declared_claim \<Rightarrow> string" where
  "claim_repr std (DeclLevel l) = str_int (level_value l)"
| "claim_repr std (DeclInt i) = str_int i"
| "claim_repr std (DeclFloat (Finite r)) = repr_float std r"
| "claim_repr std (DeclFloat NaN) = ''nan''"
| "claim_repr std (DeclFloat PosInf) = ''inf''"
| "claim_repr std (DeclFloat NegInf) = ''-inf''"

text \<open>\<open>AutonomyLevel(int(declared))\<close>, with the fractional floats refused first.\<close>

fun claimed_level :: "declared_claim \<Rightarrow> autonomy_level option" where
  "claimed_level (DeclLevel l) = Some l"
| "claimed_level (DeclInt i) = level_of_int i"
| "claimed_level (DeclFloat (Finite r)) = (if r = of_int \<lfloor>r\<rfloor> then level_of_int \<lfloor>r\<rfloor> else None)"
| "claimed_level (DeclFloat f) = None"

definition level_name :: "autonomy_level \<Rightarrow> string" where
  "level_name l = ''L'' @ str_int (level_value l)"

definition resolve_level ::
    "py_std \<Rightarrow> declared_claim option \<Rightarrow> service_autonomy \<Rightarrow> autonomy_level \<times> string option" where
  "resolve_level std declared p =
     (let granted = sa_level p in
      case declared of
        None \<Rightarrow> (granted, None)
      | Some d \<Rightarrow>
          (case claimed_level d of
             None \<Rightarrow> (granted, Some (''autonomy-level: declared autonomy level '' @ claim_repr std d @
                 '' is not an autonomy level; the reviewed service policy grants '' @ level_name granted))
           | Some claimed \<Rightarrow>
               if claimed = granted then (granted, None)
               else if claimed > granted
               then (granted, Some (''autonomy-level: declared '' @ level_name claimed @
                   '' exceeds the reviewed service policy level '' @ level_name granted))
               else if claimed = APPROVE_AND_EXECUTE \<and> granted = BOUNDED_AUTONOMOUS
               then (claimed, None)
               else (granted, Some (''autonomy-level: declared '' @ level_name claimed @
                   '' is not a permitted downgrade from the reviewed service policy level '' @ level_name granted))))"

section \<open>The loop's collaborators\<close>

type_synonym 'w evaluator =
  "runbook \<Rightarrow> service_autonomy \<Rightarrow> action_request \<Rightarrow> bool \<Rightarrow> control_state \<Rightarrow> autonomy_context option \<Rightarrow>
     'w \<Rightarrow> evaluated_decision res \<times> 'w"

record 'w lock_manager =
  lm_acquire :: "string \<Rightarrow> string list \<Rightarrow> instant \<Rightarrow> 'w \<Rightarrow> (lock_lease option \<times> lockout_refusal option) \<times> 'w"
  lm_release :: "lock_lease \<Rightarrow> 'w \<Rightarrow> bool \<times> 'w"

record execution_result =
  xr_status :: string
  xr_policy :: policy_decision
  xr_execution_ref :: "string option"
  xr_verified :: bool
  xr_rollback_ref :: "string option"
  xr_error :: "string option"

definition ended :: "string \<Rightarrow> policy_decision \<Rightarrow> string option \<Rightarrow> execution_result" where
  "ended status p err = \<lparr>xr_status = status, xr_policy = p, xr_execution_ref = None, xr_verified = False,
     xr_rollback_ref = None, xr_error = err\<rparr>"

record 'w loop_args =
  la_catalog :: runbook_catalog
  la_policy :: service_autonomy
  la_request :: action_request
  la_adapter :: "'w adapter"
  la_evaluator :: "'w evaluator option"
  la_approval_verified :: bool
  la_control :: "control_state option"
  la_certification :: "certification_record option"
  la_autonomy_level :: "declared_claim option"
  la_now :: instant
  la_environ :: environ
  la_lock :: "'w lock_manager option"
  la_impacted_services :: "string list"
  la_canary_strategy :: "canary_strategy option"

definition preflight :: "'w adapter \<Rightarrow> runbook \<Rightarrow> action_request \<Rightarrow> 'w \<Rightarrow> (bool \<times> string) \<times> 'w" where
  "preflight ad rb q w =
     (case ad_preflight ad of
        None \<Rightarrow> ((True, ''adapter has no preflight hook; policy/catalog controls only''), w)
      | Some checker \<Rightarrow>
          (case checker rb q w of
             (Inl exc, w') \<Rightarrow> ((False, ''precondition evaluation failed: '' @ exn_name exc @ '': '' @ exn_str exc), w')
           | (Inr (PrePair allowed reason), w') \<Rightarrow> ((allowed, reason), w')
           | (Inr (PreFlag b), w') \<Rightarrow>
               ((b, if b then ''runbook preconditions satisfied'' else ''runbook preconditions failed''), w')))"

definition autonomy_context_for ::
    "py_std \<Rightarrow> autonomy_level \<Rightarrow> service_autonomy \<Rightarrow> action_request \<Rightarrow> runbook \<Rightarrow> certification_record option \<Rightarrow>
       instant \<Rightarrow> autonomy_context" where
  "autonomy_context_for std level p q rb cert now =
     \<lparr>ac_autonomy_level = ClaimText (level_name level),
      ac_scope_hash = (case certification_scope_for p q rb of Inl _ \<Rightarrow> [] | Inr s \<Rightarrow> scope_hash std s),
      ac_now = isoformat std now,
      ac_certification = map_option (\<lambda>r. \<lparr>cl_scope_hash = rec_scope_hash r, cl_inputs_hash = rec_inputs_hash r,
          cl_expires_on = rec_expires_on r\<rparr>) cert,
      ac_policy_level = level_value (sa_level p)\<rparr>"

definition executor_certification_refusal ::
    "py_std \<Rightarrow> certification_record option \<Rightarrow> service_autonomy \<Rightarrow> action_request \<Rightarrow> runbook \<Rightarrow> string \<Rightarrow>
       instant \<Rightarrow> string option" where
  "executor_certification_refusal std cert p q rb bundle_version now =
     (case certification_scope_for p q rb of
        Inl exc \<Rightarrow> Some (''l4-certification: '' @ exn_str exc)
      | Inr s \<Rightarrow> certification_refusal std cert (scope_hash std s)
          (material_inputs_hash_for std s rb bundle_version) now)"

definition acquire_concurrency_lease ::
    "'w lock_manager option \<Rightarrow> string \<Rightarrow> string list \<Rightarrow> instant \<Rightarrow> 'w \<Rightarrow> (lock_lease option \<times> string option) \<times> 'w" where
  "acquire_concurrency_lease manager service impacted moment w =
     (case manager of
        None \<Rightarrow> ((None, None), w)
      | Some m \<Rightarrow>
          (case lm_acquire m service impacted moment w of
             ((lease, Some refusal), w') \<Rightarrow> ((None, Some (lo_reason refusal)), w')
           | ((lease, None), w') \<Rightarrow> ((lease, None), w')))"

section \<open>Execution and verification\<close>

definition join_errors :: "string option list \<Rightarrow> string option" where
  "join_errors es =
     (let s = py_join ''; '' (filter (\<lambda>e. e \<noteq> []) (List.map_filter (\<lambda>x. x) es)) in
      if s = [] then None else Some s)"

definition run_execution_and_verify ::
    "'w adapter \<Rightarrow> runbook \<Rightarrow> action_request \<Rightarrow> policy_decision \<Rightarrow> canary_strategy option \<Rightarrow> 'w \<Rightarrow>
       execution_result \<times> 'w" where
  "run_execution_and_verify ad rb q d canary w0 =
     (case canary of
        Some strategy \<Rightarrow>
          (case execute_progressive ad rb q (Some strategy) w0 of (res, w1) \<Rightarrow>
             if cx_status res = ''succeeded''
             then (\<lparr>xr_status = ''succeeded'', xr_policy = d, xr_execution_ref = Some ''canary-fleet-promoted'',
                    xr_verified = True, xr_rollback_ref = None, xr_error = None\<rparr>, w1)
             else if cx_status res = ''aborted''
             then (\<lparr>xr_status = ''rolled_back'', xr_policy = d, xr_execution_ref = Some ''canary-aborted'',
                    xr_verified = False, xr_rollback_ref = None, xr_error = cx_error res\<rparr>, w1)
             else (\<lparr>xr_status = ''escalate'', xr_policy = d, xr_execution_ref = Some ''canary-failed'',
                    xr_verified = False, xr_rollback_ref = None, xr_error = cx_error res\<rparr>, w1))
      | None \<Rightarrow>
          (case ad_execute ad (rb_id rb) q w0 of
             (Inl exc, w1) \<Rightarrow>
               (ended ''escalate'' d (Some (''execution failed: '' @ exn_name exc @ '': '' @ exn_str exc)), w1)
           | (Inr execution_ref, w1) \<Rightarrow>
               (case ad_verify ad (rb_verify_signal rb) q w1 of (vres, w2) \<Rightarrow>
                let verified = (case vres of Inl _ \<Rightarrow> False | Inr b \<Rightarrow> b);
                    verification_error = (case vres of
                        Inl exc \<Rightarrow> Some (''verification failed: '' @ exn_name exc @ '': '' @ exn_str exc)
                      | Inr _ \<Rightarrow> None) in
                if verified
                then (\<lparr>xr_status = ''succeeded'', xr_policy = d, xr_execution_ref = Some execution_ref,
                       xr_verified = True, xr_rollback_ref = None, xr_error = None\<rparr>, w2)
                else
                  (case call_rollback ad rb q w2 of (rres, w3) \<Rightarrow>
                   let rollback_ref = (case rres of Some (Inr r) \<Rightarrow> Some r | _ \<Rightarrow> None);
                       rollback_error = (case rres of
                           Some (Inl exc) \<Rightarrow> Some (''rollback failed: '' @ exn_name exc @ '': '' @ exn_str exc)
                         | _ \<Rightarrow> None) in
                   (\<lparr>xr_status = (if has_text rollback_ref then ''rolled_back'' else ''escalate''),
                     xr_policy = d, xr_execution_ref = Some execution_ref, xr_verified = False,
                     xr_rollback_ref = rollback_ref,
                     xr_error = join_errors [verification_error, rollback_error]\<rparr>, w3)))))"

section \<open>The control loop\<close>

definition local_evaluator :: "py_std \<Rightarrow> instant \<Rightarrow> 'w evaluator" where
  "local_evaluator std clock rb p q av control autonomy w =
     (Inr (local_evaluate std clock rb p q av control autonomy), w)"

definition default_control :: control_state where
  "default_control = \<lparr>pc_audit_available = True, pc_verification_defined = True\<rparr>"

text \<open>The rest of the loop, once the evaluator has returned its verdict.\<close>

definition act_on_verdict ::
    "py_std \<Rightarrow> 'w loop_args \<Rightarrow> runbook \<Rightarrow> autonomy_level \<Rightarrow> evaluated_decision \<Rightarrow> 'w \<Rightarrow> execution_result res \<times> 'w" where
  "act_on_verdict std a rb level ev w1 =
     (let p = la_policy a; q = la_request a; moment = la_now a; d = as_policy_decision ev in
      if \<not> pd_allowed d then (Inr (ended ''denied'' d None), w1)
      else
      let refusal = (if level \<ge> BOUNDED_AUTONOMOUS
            then executor_certification_refusal std (la_certification a) p q rb (ed_policy_revision ev) moment
            else None) in
      if refusal \<noteq> None
      then (Inr (ended ''blocked'' (decision False (the refusal)) refusal), w1)
      else
      (case preflight (la_adapter a) rb q w1 of ((allowed, reason), w2) \<Rightarrow>
       if \<not> allowed then (Inr (ended ''denied'' (decision False reason) (Some reason)), w2)
       else
       (case acquire_concurrency_lease (la_lock a) (sa_service p) (la_impacted_services a) moment w2 of
          ((lease, lockout_error), w3) \<Rightarrow>
          if lockout_error \<noteq> None then (Inr (ended ''deferred'' d lockout_error), w3)
          else
          (case run_execution_and_verify (la_adapter a) rb q d (la_canary_strategy a) w3 of (res, w4) \<Rightarrow>
           (Inr res,
            (case (la_lock a, lease) of
               (Some m, Some l) \<Rightarrow> snd (lm_release m l w4)
             | _ \<Rightarrow> w4))))))"

definition execute_control_loop :: "py_std \<Rightarrow> 'w loop_args \<Rightarrow> 'w \<Rightarrow> execution_result res \<times> 'w" where
  "execute_control_loop std a w0 =
     (let p = la_policy a; q = la_request a; moment = la_now a; env = la_environ a in
      case catalog_get (la_catalog a) (rq_runbook_id q) of
        Inl exc \<Rightarrow> (Inl exc, w0)
      | Inr rb \<Rightarrow>
        (case resolve_level std (la_autonomy_level a) p of (level, level_refusal) \<Rightarrow>
         let switch_level = max (level_value (sa_level p)) (claimed_level_value (la_autonomy_level a)) in
         if switch_level \<ge> level_value APPROVE_AND_EXECUTE \<and> autonomy_kill_switch_engaged env
         then (Inr (ended ''blocked'' (decision False ''kill-switch'')
                (Some ''EIP_AUTONOMY_KILL_SWITCH is engaged; no L3 or L4 execution runs'')), w0)
         else if level_refusal \<noteq> None
         then (Inr (ended ''blocked'' (decision False (the level_refusal)) level_refusal), w0)
         else
         (case (if Option.is_none (la_evaluator a) then opa_evaluator_required env else Inr False) of
            Inl exc \<Rightarrow> (Inl exc, w0)
          | Inr required \<Rightarrow>
            if required
            then (Inr (ended ''denied'' (decision False ''OPA policy evaluator is required but not configured'') None), w0)
            else
            let evaluator = (case la_evaluator a of None \<Rightarrow> local_evaluator std moment | Some e \<Rightarrow> e);
                autonomy = autonomy_context_for std level p q rb (la_certification a) moment;
                denial = (if level \<ge> BOUNDED_AUTONOMOUS then certification_denial std autonomy else None) in
            if denial \<noteq> None
            then (Inr (ended ''blocked'' (decision False (reason_value (the denial)))
                   (Some (reason_value (the denial)))), w0)
            else
            (case evaluator rb p q (la_approval_verified a)
                 (case la_control a of None \<Rightarrow> default_control | Some c \<Rightarrow> c) (Some autonomy) w0 of
               (Inl exc, w1) \<Rightarrow> (Inl exc, w1)
             | (Inr ev, w1) \<Rightarrow> act_on_verdict std a rb level ev w1))))"

section \<open>Dry runs\<close>

record simulation_result =
  sim_safe_to_promote :: bool
  sim_execution :: execution_result
  sim_notes :: "string list"

definition simulation_of :: "execution_result \<Rightarrow> simulation_result" where
  "simulation_of r =
     \<lparr>sim_safe_to_promote = (xr_status r = ''succeeded'' \<and> xr_verified r),
      sim_execution = r,
      sim_notes =
        [if xr_status r = ''succeeded'' then ''sandbox execution verified''
         else ''sandbox execution ended with status='' @ xr_status r] @
        (if xr_verified r then [] else [''production promotion must remain blocked''])\<rparr>"

definition simulate ::
    "py_std \<Rightarrow> instant \<Rightarrow> environ \<Rightarrow> runbook_catalog \<Rightarrow> service_autonomy \<Rightarrow> action_request \<Rightarrow> 'w adapter \<Rightarrow> bool \<Rightarrow>
       'w \<Rightarrow> simulation_result res \<times> 'w" where
  "simulate std clock process_env catalog p q sandbox approval_verified w =
     (case execute_control_loop std
         \<lparr>la_catalog = catalog, la_policy = p, la_request = q, la_adapter = sandbox, la_evaluator = None,
          la_approval_verified = approval_verified, la_control = None, la_certification = None,
          la_autonomy_level = None, la_now = clock, la_environ = process_env, la_lock = None,
          la_impacted_services = [], la_canary_strategy = None\<rparr> w of
        (Inl exc, w') \<Rightarrow> (Inl exc, w')
      | (Inr r, w') \<Rightarrow> (Inr (simulation_of r), w'))"

section \<open>The gates in front of a mutation\<close>

text \<open>The level a request runs at, its context, and the policy evaluator the loop uses.\<close>

definition loop_level :: "py_std \<Rightarrow> 'w loop_args \<Rightarrow> autonomy_level" where
  "loop_level std a = fst (resolve_level std (la_autonomy_level a) (la_policy a))"

definition loop_context :: "py_std \<Rightarrow> 'w loop_args \<Rightarrow> runbook \<Rightarrow> autonomy_context" where
  "loop_context std a rb = autonomy_context_for std (loop_level std a) (la_policy a) (la_request a) rb
     (la_certification a) (la_now a)"

definition loop_evaluator :: "py_std \<Rightarrow> 'w loop_args \<Rightarrow> 'w evaluator" where
  "loop_evaluator std a = (case la_evaluator a of None \<Rightarrow> local_evaluator std (la_now a) | Some e \<Rightarrow> e)"

definition loop_evaluate :: "py_std \<Rightarrow> 'w loop_args \<Rightarrow> runbook \<Rightarrow> 'w \<Rightarrow> evaluated_decision res \<times> 'w" where
  "loop_evaluate std a rb w = loop_evaluator std a rb (la_policy a) (la_request a) (la_approval_verified a)
     (case la_control a of None \<Rightarrow> default_control | Some c \<Rightarrow> c) (Some (loop_context std a rb)) w"

text \<open>Everything the loop has checked when it comes to act: the runbook, the verdict and the world.\<close>

definition cleared :: "py_std \<Rightarrow> 'w loop_args \<Rightarrow> 'w \<Rightarrow> runbook \<Rightarrow> evaluated_decision \<Rightarrow> 'w \<Rightarrow> bool" where
  "cleared std a w0 rb ev w2 \<longleftrightarrow>
     catalog_get (la_catalog a) (rq_runbook_id (la_request a)) = Inr rb \<and>
     (sa_level (la_policy a) < APPROVE_AND_EXECUTE \<or> autonomy_kill_switch_engaged (la_environ a) = False) \<and>
     snd (resolve_level std (la_autonomy_level a) (la_policy a)) = None \<and>
     (la_evaluator a = None \<longrightarrow> opa_evaluator_required (la_environ a) = Inr False) \<and>
     (loop_level std a = BOUNDED_AUTONOMOUS \<longrightarrow>
        certification_denial std (loop_context std a rb) = None \<and>
        executor_certification_refusal std (la_certification a) (la_policy a) (la_request a) rb
          (ed_policy_revision ev) (la_now a) = None) \<and>
     ed_allowed ev \<and>
     (\<exists>w1 reason. loop_evaluate std a rb w0 = (Inr ev, w1) \<and>
        preflight (la_adapter a) rb (la_request a) w1 = ((True, reason), w2))"

definition give_back :: "'w loop_args \<Rightarrow> lock_lease option \<Rightarrow> 'w \<Rightarrow> 'w" where
  "give_back a lease w = (case (la_lock a, lease) of (Some m, Some l) \<Rightarrow> snd (lm_release m l w) | _ \<Rightarrow> w)"

text \<open>A result that reports that nothing was done.\<close>

definition not_run :: "execution_result res \<Rightarrow> bool" where
  "not_run out \<longleftrightarrow> (case out of Inl _ \<Rightarrow> True | Inr r \<Rightarrow> xr_status r \<in> {''blocked'', ''denied'', ''deferred''} \<and>
     xr_execution_ref r = None \<and> xr_rollback_ref r = None \<and> \<not> xr_verified r)"

lemma not_run_ended [simp]:
  "s \<in> {''blocked'', ''denied'', ''deferred''} \<Longrightarrow> not_run (Inr (ended s d e))"
  by (auto simp: not_run_def ended_def)

lemma not_run_Inl [simp]: "not_run (Inl e)"
  by (simp add: not_run_def)

lemma bounded_level: "l \<ge> BOUNDED_AUTONOMOUS \<longleftrightarrow> l = BOUNDED_AUTONOMOUS"
  by (cases l) (simp_all add: level_order)

lemma switch_level_low:
  "\<not> (max (level_value l) c \<ge> level_value APPROVE_AND_EXECUTE \<and> e) \<Longrightarrow> l < APPROVE_AND_EXECUTE \<or> e = False"
  by (auto simp: level_order)

lemma pd_allowed_as_policy_decision [simp]: "pd_allowed (as_policy_decision ev) = ed_allowed ev"
  by (simp add: as_policy_decision_def)

definition loop_lease :: "'w loop_args \<Rightarrow> 'w \<Rightarrow> (lock_lease option \<times> string option) \<times> 'w" where
  "loop_lease a w = acquire_concurrency_lease (la_lock a) (sa_service (la_policy a)) (la_impacted_services a) (la_now a) w"

lemma act_on_verdict_cases:
  assumes "act_on_verdict std a rb level ev w1 = (out, w')"
  obtains (stopped) "not_run out" "w' = w1 \<or> w' = snd (preflight (la_adapter a) rb (la_request a) w1) \<or>
      (w' = snd (loop_lease a (snd (preflight (la_adapter a) rb (la_request a) w1))) \<and>
       snd (fst (loop_lease a (snd (preflight (la_adapter a) rb (la_request a) w1)))) \<noteq> None)"
  | (acted) reason w2 lease w3 res w4 where "ed_allowed ev"
      "level = BOUNDED_AUTONOMOUS \<longrightarrow> executor_certification_refusal std (la_certification a) (la_policy a)
         (la_request a) rb (ed_policy_revision ev) (la_now a) = None"
      "preflight (la_adapter a) rb (la_request a) w1 = ((True, reason), w2)"
      "loop_lease a w2 = ((lease, None), w3)"
      "run_execution_and_verify (la_adapter a) rb (la_request a) (as_policy_decision ev)
         (la_canary_strategy a) w3 = (res, w4)"
      "out = Inr res" "w' = give_back a lease w4"
proof -
  obtain allowed reason w2 where pre: "preflight (la_adapter a) rb (la_request a) w1 = ((allowed, reason), w2)"
    by (metis prod.collapse)
  obtain lease lockout w3 where acq: "acquire_concurrency_lease (la_lock a) (sa_service (la_policy a))
      (la_impacted_services a) (la_now a) w2 = ((lease, lockout), w3)" by (metis prod.collapse)
  obtain res w4 where exe: "run_execution_and_verify (la_adapter a) rb (la_request a) (as_policy_decision ev)
      (la_canary_strategy a) w3 = (res, w4)" by fastforce
  let ?refusal = "if level \<ge> BOUNDED_AUTONOMOUS then executor_certification_refusal std (la_certification a)
      (la_policy a) (la_request a) rb (ed_policy_revision ev) (la_now a) else None"
  note run = act_on_verdict_def Let_def pre acq exe
  show ?thesis
  proof (cases "ed_allowed ev \<and> ?refusal = None \<and> allowed \<and> lockout = None")
    case True
    with assms have "out = Inr res" "w' = give_back a lease w4"
      by (simp_all add: run give_back_def)
    with True pre acq exe show ?thesis by (intro acted) (simp_all add: bounded_level loop_lease_def split: if_splits)
  next
    case False
    with assms have "not_run out \<and> (w' = w1 \<or> w' = w2 \<or> (w' = w3 \<and> lockout \<noteq> None))"
      by (auto simp: run split: if_splits)
    with pre acq show ?thesis by (intro stopped) (auto simp: loop_lease_def)
  qed
qed

definition switch_blocks :: "'w loop_args \<Rightarrow> bool" where
  "switch_blocks a \<longleftrightarrow> max (level_value (sa_level (la_policy a))) (claimed_level_value (la_autonomy_level a))
      \<ge> level_value APPROVE_AND_EXECUTE \<and> autonomy_kill_switch_engaged (la_environ a)"

definition evaluator_missing :: "'w loop_args \<Rightarrow> bool res" where
  "evaluator_missing a = (if Option.is_none (la_evaluator a) then opa_evaluator_required (la_environ a) else Inr False)"

definition early_denial :: "py_std \<Rightarrow> 'w loop_args \<Rightarrow> runbook \<Rightarrow> policy_reason option" where
  "early_denial std a rb =
     (if loop_level std a \<ge> BOUNDED_AUTONOMOUS then certification_denial std (loop_context std a rb) else None)"

lemma loop_unfold:
  assumes "catalog_get (la_catalog a) (rq_runbook_id (la_request a)) = Inr rb"
    and "resolve_level std (la_autonomy_level a) (la_policy a) = (level, refusal)"
  shows "execute_control_loop std a w0 =
    (if switch_blocks a
     then (Inr (ended ''blocked'' (decision False ''kill-switch'')
            (Some ''EIP_AUTONOMY_KILL_SWITCH is engaged; no L3 or L4 execution runs'')), w0)
     else if refusal \<noteq> None then (Inr (ended ''blocked'' (decision False (the refusal)) refusal), w0)
     else case evaluator_missing a of
         Inl exc \<Rightarrow> (Inl exc, w0)
       | Inr required \<Rightarrow>
           if required
           then (Inr (ended ''denied'' (decision False ''OPA policy evaluator is required but not configured'') None), w0)
           else if early_denial std a rb \<noteq> None
           then (Inr (ended ''blocked'' (decision False (reason_value (the (early_denial std a rb))))
                  (Some (reason_value (the (early_denial std a rb))))), w0)
           else (case loop_evaluate std a rb w0 of
               (Inl exc, w1) \<Rightarrow> (Inl exc, w1)
             | (Inr ev, w1) \<Rightarrow> act_on_verdict std a rb level ev w1))"
  unfolding execute_control_loop_def Let_def assms sum.case prod.case switch_blocks_def evaluator_missing_def
    early_denial_def loop_evaluate_def loop_evaluator_def loop_context_def loop_level_def fst_conv
  by (rule refl)

lemma loop_cases:
  assumes "execute_control_loop std a w0 = (out, w')"
  shows "(not_run out \<and>
       (w' = w0 \<or> (\<exists>rb w1 w2. w1 = snd (loop_evaluate std a rb w0) \<and>
          w2 = snd (preflight (la_adapter a) rb (la_request a) w1) \<and>
          (w' = w1 \<or> w' = w2 \<or> (w' = snd (loop_lease a w2) \<and> snd (fst (loop_lease a w2)) \<noteq> None))))) \<or>
     (\<exists>rb ev w2 lease w3 res w4. cleared std a w0 rb ev w2 \<and>
        loop_lease a w2 = ((lease, None), w3) \<and>
        run_execution_and_verify (la_adapter a) rb (la_request a) (as_policy_decision ev)
          (la_canary_strategy a) w3 = (res, w4) \<and>
        out = Inr res \<and> w' = give_back a lease w4)"
proof (cases "catalog_get (la_catalog a) (rq_runbook_id (la_request a))")
  case (Inl exc)
  with assms show ?thesis by (auto simp: execute_control_loop_def Let_def)
next
  case rb: (Inr rb)
  obtain level refusal where lvl: "resolve_level std (la_autonomy_level a) (la_policy a) = (level, refusal)"
    by fastforce
  obtain er w1 where ev: "loop_evaluate std a rb w0 = (er, w1)" by fastforce
  note run = loop_unfold [OF rb lvl] ev
  show ?thesis
  proof (cases "\<not> switch_blocks a \<and> refusal = None \<and> evaluator_missing a = Inr False \<and> early_denial std a rb = None")
    case False
    with assms show ?thesis by (intro disjI1) (auto simp: run split: if_splits sum.splits)
  next
    case True
    show ?thesis
    proof (cases er)
      case (Inl exc)
      with assms True have "out = Inl exc" "w' = snd (loop_evaluate std a rb w0)" by (auto simp: run)
      then show ?thesis by (intro disjI1) (metis not_run_Inl)
    next
      case (Inr v)
      with assms True have "act_on_verdict std a rb level v w1 = (out, w')" by (simp add: run)
      then show ?thesis
      proof (cases rule: act_on_verdict_cases)
        case stopped
        with ev show ?thesis by (intro disjI1) (metis snd_conv)
      next
        case (acted reason w2 lease w3 res w4)
        have "cleared std a w0 rb v w2"
          unfolding cleared_def
          using rb lvl True acted(1-3) ev Inr switch_level_low
          by (auto simp: bounded_level loop_level_def switch_blocks_def evaluator_missing_def early_denial_def
              Option.is_none_def split: if_splits)
        with acted show ?thesis by blast
      qed
    qed
  qed
qed

section \<open>Instrumented runs\<close>

text \<open>
  The same loop over a world with a second component its collaborators do not see: the adapter
  records its calls there, or the lock manager keeps its leases there.
\<close>

definition on_snd :: "('w \<Rightarrow> 'r \<times> 'w) \<Rightarrow> 'x \<times> 'w \<Rightarrow> 'r \<times> ('x \<times> 'w)" where
  "on_snd f s = (case f (snd s) of (r, w') \<Rightarrow> (r, (fst s, w')))"

lemma on_snd_simps [simp]: "fst (on_snd f s) = fst (f (snd s))" "snd (on_snd f s) = (fst s, snd (f (snd s)))"
  by (simp_all add: on_snd_def split: prod.splits)

definition lift_evaluator :: "'w evaluator \<Rightarrow> ('x \<times> 'w) evaluator" where
  "lift_evaluator e rb p q av c ctx = on_snd (e rb p q av c ctx)"

definition lift_adapter :: "'w adapter \<Rightarrow> ('x \<times> 'w) adapter" where
  "lift_adapter ad = \<lparr>ad_execute = (\<lambda>i q. on_snd (ad_execute ad i q)), ad_verify = (\<lambda>s q. on_snd (ad_verify ad s q)),
     ad_rollback = (\<lambda>i q. on_snd (ad_rollback ad i q)),
     ad_preflight = map_option (\<lambda>f rb q. on_snd (f rb q)) (ad_preflight ad)\<rparr>"

definition lift_manager :: "'w lock_manager \<Rightarrow> ('x \<times> 'w) lock_manager" where
  "lift_manager m = \<lparr>lm_acquire = (\<lambda>s im n. on_snd (lm_acquire m s im n)), lm_release = (\<lambda>l. on_snd (lm_release m l))\<rparr>"

definition lift_args :: "('x \<times> 'w) adapter \<Rightarrow> ('x \<times> 'w) lock_manager option \<Rightarrow> 'w loop_args \<Rightarrow> ('x \<times> 'w) loop_args" where
  "lift_args ad m a =
     \<lparr>la_catalog = la_catalog a, la_policy = la_policy a, la_request = la_request a, la_adapter = ad,
      la_evaluator = map_option lift_evaluator (la_evaluator a), la_approval_verified = la_approval_verified a,
      la_control = la_control a, la_certification = la_certification a, la_autonomy_level = la_autonomy_level a,
      la_now = la_now a, la_environ = la_environ a, la_lock = m,
      la_impacted_services = la_impacted_services a, la_canary_strategy = la_canary_strategy a\<rparr>"

definition traced_args :: "'w loop_args \<Rightarrow> (adapter_call list \<times> 'w) loop_args" where
  "traced_args a = lift_args (traced (la_adapter a)) (map_option lift_manager (la_lock a)) a"

lemma lift_args_simps [simp]:
  "la_catalog (lift_args ad m a) = la_catalog a" "la_policy (lift_args ad m a) = la_policy a"
  "la_request (lift_args ad m a) = la_request a" "la_adapter (lift_args ad m a) = ad"
  "la_evaluator (lift_args ad m a) = map_option lift_evaluator (la_evaluator a)"
  "la_approval_verified (lift_args ad m a) = la_approval_verified a" "la_control (lift_args ad m a) = la_control a"
  "la_certification (lift_args ad m a) = la_certification a"
  "la_autonomy_level (lift_args ad m a) = la_autonomy_level a" "la_now (lift_args ad m a) = la_now a"
  "la_environ (lift_args ad m a) = la_environ a" "la_lock (lift_args ad m a) = m"
  "la_impacted_services (lift_args ad m a) = la_impacted_services a"
  "la_canary_strategy (lift_args ad m a) = la_canary_strategy a"
  by (simp_all add: lift_args_def)

lemma lift_loop_level [simp]:
  "loop_level std (lift_args ad m a) = loop_level std a" "loop_context std (lift_args ad m a) rb = loop_context std a rb"
  by (simp_all add: loop_level_def loop_context_def)

lemma lift_loop_evaluate [simp]:
  "loop_evaluate std (lift_args ad m a) rb = on_snd (loop_evaluate std a rb)"
  by (rule ext) (simp add: loop_evaluate_def loop_evaluator_def lift_evaluator_def local_evaluator_def on_snd_def
      split: option.splits prod.splits)

lemma traced_preflight:
  "fst (preflight (traced ad) rb q (t, w)) = fst (preflight ad rb q w) \<and>
   (\<exists>pre. snd (preflight (traced ad) rb q (t, w)) = (t @ pre, snd (preflight ad rb q w)) \<and>
      set pre \<subseteq> range Preflighted)"
  by (auto simp: preflight_def traced_def split: option.splits prod.splits sum.splits preflight_answer.splits)

lemma lift_acquire:
  "acquire_concurrency_lease (map_option lift_manager m) s im n (t, w) =
     (fst (acquire_concurrency_lease m s im n w), (t, snd (acquire_concurrency_lease m s im n w)))"
  by (simp add: acquire_concurrency_lease_def lift_manager_def on_snd_def split: option.splits prod.splits)

definition mutating :: "adapter_call \<Rightarrow> bool" where
  "mutating c = (case c of Executed _ _ \<Rightarrow> True | RolledBack _ _ \<Rightarrow> True | _ \<Rightarrow> False)"

lemma preflight_not_mutating: "set pre \<subseteq> range Preflighted \<Longrightarrow> c \<in> set pre \<Longrightarrow> \<not> mutating c"
  by (auto simp: mutating_def)

lemma traced_cleared:
  assumes "cleared std (traced_args a) ([], w) rb ev s2"
  shows "cleared std a w rb ev (snd s2) \<and> (\<forall>c \<in> set (fst s2). \<not> mutating c)"
proof -
  from assms obtain w1 reason where ev: "on_snd (loop_evaluate std a rb) ([], w) = (Inr ev, w1)"
      and pre: "preflight (traced (la_adapter a)) rb (la_request a) w1 = ((True, reason), s2)"
    unfolding cleared_def traced_args_def by auto
  then have ev': "loop_evaluate std a rb w = (Inr ev, snd w1)" and w1: "w1 = ([], snd w1)"
    by (auto simp: on_snd_def split: prod.splits)
  obtain calls where calls: "snd (preflight (traced (la_adapter a)) rb (la_request a) ([], snd w1)) =
      ([] @ calls, snd (preflight (la_adapter a) rb (la_request a) (snd w1)))" "set calls \<subseteq> range Preflighted"
    and fst: "fst (preflight (traced (la_adapter a)) rb (la_request a) ([], snd w1)) =
      fst (preflight (la_adapter a) rb (la_request a) (snd w1))"
    using traced_preflight [of "la_adapter a" rb "la_request a" "[]" "snd w1"] by blast
  have pre': "preflight (la_adapter a) rb (la_request a) (snd w1) = ((True, reason), snd s2)"
    using pre calls(1) fst w1 by (metis fst_conv prod.collapse snd_conv)
  have "fst s2 = calls" using pre calls(1) w1 by (metis append_Nil fst_conv snd_conv)
  then have "\<forall>c \<in> set (fst s2). \<not> mutating c" using calls(2) preflight_not_mutating by blast
  moreover have "cleared std a w rb ev (snd s2)"
    using assms ev' pre' unfolding cleared_def traced_args_def lift_args_simps lift_loop_level
      map_option_is_None by blast
  ultimately show ?thesis by blast
qed

text \<open>The calls made before and by the execution.\<close>

lemma traced_not_run_calls:
  assumes "execute_control_loop std (traced_args a) ([], w) = (out, (t, w'))" "c \<in> set t" "mutating c"
  shows "\<exists>rb ev s2 lease s3 res s4. cleared std (traced_args a) ([], w) rb ev s2 \<and>
     loop_lease (traced_args a) s2 = ((lease, None), s3) \<and>
     run_execution_and_verify (traced (la_adapter a)) rb (la_request a) (as_policy_decision ev)
       (la_canary_strategy a) s3 = (res, s4) \<and> out = Inr res \<and> (t, w') = give_back (traced_args a) lease s4"
proof -
  have quiet: "\<not> (\<exists>c \<in> set (fst s). mutating c)"
    if "s = ([], w) \<or> (\<exists>rb s1 s2. s1 = snd (loop_evaluate std (traced_args a) rb ([], w)) \<and>
      s2 = snd (preflight (traced (la_adapter a)) rb (la_request a) s1) \<and>
      (s = s1 \<or> s = s2 \<or> s = snd (loop_lease (traced_args a) s2)))" for s
  proof -
    have "\<not> (\<exists>c \<in> set (fst (snd (preflight (traced (la_adapter a)) rb (la_request a) ([], v)))). mutating c)" for rb v
      using traced_preflight [of "la_adapter a" rb "la_request a" "[]" v] preflight_not_mutating by fastforce
    with that show ?thesis
      by (auto simp: traced_args_def loop_lease_def) (metis fst_conv lift_acquire prod.collapse snd_conv)+
  qed
  from loop_cases [OF assms(1)] quiet [of "(t, w')"] assms(2,3) show ?thesis
    by (auto simp: traced_args_def)
qed

section \<open>What a status means\<close>

lemma run_verified_iff:
  assumes "run_execution_and_verify ad rb q d canary w = (r, w')"
  shows "(xr_verified r \<longleftrightarrow> xr_status r = ''succeeded'') \<and>
     (xr_status r \<in> {''succeeded'', ''rolled_back'', ''escalate''}) \<and> xr_policy r = d \<and>
     (canary = None \<and> xr_status r = ''rolled_back'' \<longrightarrow> has_text (xr_rollback_ref r))"
proof (cases canary)
  case None
  obtain e w1 where e: "ad_execute ad (rb_id rb) q w = (e, w1)" by fastforce
  obtain v w2 where v: "ad_verify ad (rb_verify_signal rb) q w1 = (v, w2)" by fastforce
  obtain b w3 where b: "call_rollback ad rb q w2 = (b, w3)" by fastforce
  from assms None e v b show ?thesis
    by (auto simp: run_execution_and_verify_def ended_def Let_def split: sum.splits if_splits)
next
  case (Some s)
  obtain res w1 where "execute_progressive ad rb q (Some s) w = (res, w1)" by fastforce
  with assms Some show ?thesis
    by (auto simp: run_execution_and_verify_def split: if_splits)
qed

section \<open>The lease is given back\<close>

text \<open>The in-memory manager on the leases of a world; its default lifetime is 300 seconds.\<close>

definition memory_manager :: "string \<Rightarrow> int \<Rightarrow> (lock_state \<times> 'w) lock_manager" where
  "memory_manager lease_id ttl =
     \<lparr>lm_acquire = (\<lambda>s im now st. case acquire lease_id s im ttl now (fst st) of (r, ls) \<Rightarrow> (r, (ls, snd st))),
      lm_release = (\<lambda>l st. case release l (fst st) of (b, ls) \<Rightarrow> (b, (ls, snd st)))\<rparr>"

definition locked_args :: "string \<Rightarrow> 'w loop_args \<Rightarrow> (lock_state \<times> 'w) loop_args" where
  "locked_args lease_id a =
     lift_args (lift_adapter (la_adapter a)) (Some (memory_manager lease_id 300000000)) a"

lemma lift_adapter_simps [simp]:
  "ad_execute (lift_adapter ad) i q = on_snd (ad_execute ad i q)"
  "ad_verify (lift_adapter ad) i q = on_snd (ad_verify ad i q)"
  "ad_rollback (lift_adapter ad) i q = on_snd (ad_rollback ad i q)"
  by (simp_all add: lift_adapter_def)

lemma on_snd_eqD: "on_snd f s = (r, s') \<Longrightarrow> fst s' = fst s"
  by (auto simp: on_snd_def split: prod.splits)

lemma lift_call_rollback: "call_rollback (lift_adapter ad) rb q s = (r, s') \<Longrightarrow> fst s' = fst s"
  by (auto simp: call_rollback_def split: option.splits if_splits prod.splits dest: on_snd_eqD)

lemma lift_execute_progressive:
  assumes "execute_progressive (lift_adapter ad) rb q strat s = (r, s')"
  shows "fst s' = fst s"
  using assms unfolding execute_progressive_def Let_def
  by (auto split: prod.splits sum.splits if_splits dest!: on_snd_eqD lift_call_rollback)

lemma lift_run:
  assumes "run_execution_and_verify (lift_adapter ad) rb q d canary s = (r, s')"
  shows "fst s' = fst s"
proof (cases canary)
  case None
  with assms show ?thesis
    unfolding run_execution_and_verify_def Let_def
    by (auto split: prod.splits sum.splits if_splits dest!: on_snd_eqD lift_call_rollback)
next
  case (Some strat)
  with assms show ?thesis
    unfolding run_execution_and_verify_def
    by (auto split: prod.splits if_splits dest!: lift_execute_progressive)
qed

lemma lift_preflight: "fst (snd (preflight (lift_adapter ad) rb q s)) = fst s"
  by (auto simp: preflight_def lift_adapter_def split: option.splits prod.splits sum.splits preflight_answer.splits
      dest: on_snd_eqD)

lemma memory_acquire:
  "acquire_concurrency_lease (Some (memory_manager i ttl)) s im n st =
     (case acquire i s im ttl n (fst st) of
        ((lease, Some refusal), ls) \<Rightarrow> ((None, Some (lo_reason refusal)), (ls, snd st))
      | ((lease, None), ls) \<Rightarrow> ((lease, None), (ls, snd st)))"
  by (simp add: acquire_concurrency_lease_def memory_manager_def split: prod.splits option.splits)

lemma locked_lease:
  "loop_lease (locked_args i a) (ls, v) =
     (case acquire i (sa_service (la_policy a)) (la_impacted_services a) 300000000 (la_now a) ls of
        ((lease, Some refusal), ls') \<Rightarrow> ((None, Some (lo_reason refusal)), (ls', v))
      | ((lease, None), ls') \<Rightarrow> ((lease, None), (ls', v)))"
  by (simp add: loop_lease_def locked_args_def memory_acquire split: prod.splits option.splits)

lemma locked_lease_refused:
  assumes "snd (fst (loop_lease (locked_args i a) (ls, v))) \<noteq> None"
  shows "fst (snd (loop_lease (locked_args i a) (ls, v))) = prune_expired (la_now a) ls"
  using assms by (auto simp: locked_lease acquire_def Let_def split: option.splits)

lemma locked_lease_granted:
  assumes "i \<notin> fst ` set ls" "loop_lease (locked_args i a) (ls, v) = ((lease, None), (ls3, v'))"
  shows "fst (give_back (locked_args i a) lease (ls3, v4)) = prune_expired (la_now a) ls"
proof -
  from assms(2) obtain l where l: "lease = Some l"
      "acquire i (sa_service (la_policy a)) (la_impacted_services a) 300000000 (la_now a) ls = ((Some l, None), ls3)"
    by (auto simp: locked_lease acquire_def Let_def split: option.splits)
  from release_after_acquire [OF assms(1) l(2)] l(1) show ?thesis
    by (simp add: give_back_def locked_args_def memory_manager_def)
qed

lemma lease_returned:
  assumes fresh: "i \<notin> fst ` set ls"
    and run: "execute_control_loop std (locked_args i a) (ls, w) = (out, (ls', w'))"
  shows "ls' = ls \<or> ls' = prune_expired (la_now a) ls"
proof -
  have ev: "fst (snd (loop_evaluate std (locked_args i a) rb (ls, w))) = ls" for rb
    by (simp add: locked_args_def)
  have pre: "fst (snd (preflight (la_adapter (locked_args i a)) rb q s)) = fst s" for rb q s
    by (simp add: locked_args_def lift_preflight)
  from loop_cases [OF run] show ?thesis
  proof (elim disjE conjE exE)
    fix rb w1 w2
    assume w1: "w1 = snd (loop_evaluate std (locked_args i a) rb (ls, w))"
      and w2: "w2 = snd (preflight (la_adapter (locked_args i a)) rb (la_request (locked_args i a)) w1)"
      and "(ls', w') = snd (loop_lease (locked_args i a) w2)"
        "snd (fst (loop_lease (locked_args i a) w2)) \<noteq> None"
    moreover have "w2 = (ls, snd w2)" using ev pre w1 w2 by (metis prod.collapse)
    ultimately show ?thesis using locked_lease_refused by (metis fst_conv)
  next
    fix rb e w2 lease w3 res w4
    assume c: "cleared std (locked_args i a) (ls, w) rb e w2"
      and lease: "loop_lease (locked_args i a) w2 = ((lease, None), w3)"
      and exe: "run_execution_and_verify (la_adapter (locked_args i a)) rb (la_request (locked_args i a))
        (as_policy_decision e) (la_canary_strategy (locked_args i a)) w3 = (res, w4)"
      and out: "(ls', w') = give_back (locked_args i a) lease w4"
    from c have "fst w2 = ls" unfolding cleared_def using ev pre by (metis snd_conv)
    moreover have "fst w4 = fst w3" using exe by (auto simp: locked_args_def dest: lift_run)
    ultimately show ?thesis
      using locked_lease_granted [OF fresh] lease out by (metis fst_conv prod.collapse)
  qed (use ev pre in \<open>metis fst_conv\<close>)+
qed

section \<open>A concrete run\<close>

text \<open>A supervised L3 request with verified approval, on an adapter that counts its calls.\<close>

definition sample_loop_adapter :: "bool \<Rightarrow> nat adapter" where
  "sample_loop_adapter healthy = \<lparr>ad_execute = (\<lambda>i q n. (Inr (''ref:'' @ i), Suc n)), ad_verify = (\<lambda>s q n. (Inr healthy, Suc n)),
     ad_rollback = (\<lambda>i q n. (Inl (RuntimeError ''undo refused''), Suc n)), ad_preflight = None\<rparr>"

definition sample_loop_args :: "nat loop_args" where
  "sample_loop_args = \<lparr>la_catalog = [(''aks.rollout.undo'', sample_l4_runbook)],
     la_policy = sample_l4_policy\<lparr>sa_level := APPROVE_AND_EXECUTE\<rparr>, la_request = sample_l4_request,
     la_adapter = sample_loop_adapter True, la_evaluator = None, la_approval_verified = True, la_control = None,
     la_certification = None, la_autonomy_level = None, la_now = 0, la_environ = Map.empty, la_lock = None,
     la_impacted_services = [], la_canary_strategy = None\<rparr>"

lemma sample_loop_traced:
  "case execute_control_loop fixture_std (traced_args sample_loop_args) ([], 0) of (out, s) \<Rightarrow>
     s = ([Executed ''aks.rollout.undo'' (Inr ''ref:aks.rollout.undo''), Verified ''deployment.ready'' (Inr True)], 2)"
  by code_simp

lemma sample_loop_status:
  "case execute_control_loop fixture_std sample_loop_args 0 of (Inr r, w) \<Rightarrow> xr_status r = ''succeeded'' | _ \<Rightarrow> False"
  by code_simp

lemma sample_loop_locked:
  "case execute_control_loop fixture_std (locked_args ''lease-1'' sample_loop_args) ([], 0) of (out, s) \<Rightarrow> s = ([], 2)"
  by code_simp

section \<open>Properties\<close>



text \<open>C38. The lease is always given back: whatever the adapter and the evaluator do, and whichever
  exception or refusal ends the run, the lock manager afterwards holds the leases it held
  before, less those that had expired.\<close>

theorem lease_always_returned:
  assumes "i \<notin> fst ` set ls"
    and "execute_control_loop std (locked_args i a) (ls, w) = (out, (ls', w'))"
  shows "ls' = ls \<or> ls' = prune_expired (la_now a) ls"
  using assms by (rule lease_returned)

theorem lease_always_returned_witness:
  "snd (execute_control_loop fixture_std (locked_args ''lease-1'' sample_loop_args) ([], 0)) = ([], 2)"
proof -
  obtain out where run: "execute_control_loop fixture_std (locked_args ''lease-1'' sample_loop_args) ([], 0) = (out, ([], 2))"
    using sample_loop_locked by (auto split: prod.splits)
  from lease_always_returned [OF _ this] show ?thesis by (simp add: run)
qed

text \<open>The kill switch stops L3 and L4: with it engaged, every request of a service at those levels,
  and every request that claims such a level, ends blocked before the evaluator, the lock
  manager or the adapter is called, and the world is unchanged.\<close>

theorem kill_switch_blocks:
  assumes "catalog_get (la_catalog a) (rq_runbook_id (la_request a)) = Inr rb"
    and "autonomy_kill_switch_engaged (la_environ a)"
    and "sa_level (la_policy a) \<ge> APPROVE_AND_EXECUTE \<or> claimed_level_value (la_autonomy_level a) \<ge> 3"
  shows "\<exists>r. execute_control_loop std a w = (Inr r, w) \<and> xr_status r = ''blocked'' \<and>
     pd_reason (xr_policy r) = ''kill-switch''"
proof -
  obtain level refusal where lvl: "resolve_level std (la_autonomy_level a) (la_policy a) = (level, refusal)"
    by fastforce
  have "switch_blocks a"
    using assms(2,3) by (auto simp: switch_blocks_def level_order)
  then show ?thesis by (simp add: loop_unfold [OF assms(1) lvl] ended_def)
qed

theorem kill_switch_blocks_witness:
  "\<exists>r. execute_control_loop fixture_std
       (sample_loop_args\<lparr>la_environ := [''EIP_AUTONOMY_KILL_SWITCH'' \<mapsto> '' TRUE '']\<rparr>) 0 = (Inr r, 0) \<and>
     xr_status r = ''blocked''"
proof -
  let ?a = "sample_loop_args\<lparr>la_environ := [''EIP_AUTONOMY_KILL_SWITCH'' \<mapsto> '' TRUE '']\<rparr>"
  have engaged: "autonomy_kill_switch_engaged (la_environ ?a)" by code_simp
  have "catalog_get (la_catalog ?a) (rq_runbook_id (la_request ?a)) = Inr sample_l4_runbook"
      "sa_level (la_policy ?a) \<ge> APPROVE_AND_EXECUTE"
    by (simp_all add: sample_loop_args_def catalog_get_def sample_l4_request_def)
  from kill_switch_blocks [OF this(1) engaged disjI1 [OF this(2)], of fixture_std 0] show ?thesis by blast
qed

text \<open>What a status means: a run that returns reports one of six statuses; it reports success
  exactly when the effect was verified; a blocked, denied or deferred run reports no
  execution; and without a canary strategy a rolled-back run names the rollback it made.\<close>

theorem status_is_truthful:
  assumes "execute_control_loop std a w = (Inr r, w')"
  shows "(xr_verified r \<longleftrightarrow> xr_status r = ''succeeded'') \<and>
     xr_status r \<in> {''succeeded'', ''rolled_back'', ''escalate'', ''blocked'', ''denied'', ''deferred''} \<and>
     (xr_status r \<in> {''blocked'', ''denied'', ''deferred''} \<longrightarrow> xr_execution_ref r = None \<and> xr_rollback_ref r = None) \<and>
     (la_canary_strategy a = None \<and> xr_status r = ''rolled_back'' \<longrightarrow> has_text (xr_rollback_ref r))"
  using loop_cases [OF assms]
proof (elim disjE exE conjE)
  fix rb e w2 lease w3 res w4
  assume "run_execution_and_verify (la_adapter a) rb (la_request a) (as_policy_decision e) (la_canary_strategy a) w3 = (res, w4)"
    and "Inr r = Inr res"
  then show ?thesis using run_verified_iff by fastforce
qed (auto simp: not_run_def)

theorem status_is_truthful_witness:
  "\<exists>r w'. execute_control_loop fixture_std sample_loop_args 0 = (Inr r, w') \<and> xr_status r = ''succeeded'' \<and> xr_verified r"
proof -
  obtain r w' where run: "execute_control_loop fixture_std sample_loop_args 0 = (Inr r, w')" "xr_status r = ''succeeded''"
    using sample_loop_status by (auto split: prod.splits sum.splits)
  with status_is_truthful [OF run(1)] show ?thesis by blast
qed

text \<open>A canary abort is reported as rolled back whatever became of the rollback: when the canary
  slice was deployed and its verification failed, the status is \<open>rolled_back\<close> even if the
  rollback call raised, and the result names no rollback.\<close>

theorem canary_abort_reports_rolled_back:
  assumes "ad_execute ad (rb_id rb @ ''.canary'') q w = (Inr ref, w1)"
    and "ad_verify ad (can_canary_verify_signal strategy) q w1 = (Inr False, w2)"
    and "call_rollback ad rb q w2 = (Some (Inl exc), w3)"
  shows "xr_status (fst (run_execution_and_verify ad rb q d (Some strategy) w)) = ''rolled_back'' \<and>
     xr_rollback_ref (fst (run_execution_and_verify ad rb q d (Some strategy) w)) = None"
  using assms by (simp add: run_execution_and_verify_def execute_progressive_def verify_step_def)

theorem canary_abort_reports_rolled_back_witness:
  "xr_status (fst (run_execution_and_verify (sample_loop_adapter False) sample_l4_runbook sample_l4_request
     (decision True ''authorized'') (Some default_strategy) 0)) = ''rolled_back'' \<and>
   fst (ad_rollback (sample_loop_adapter False) ''aks.rollout.redo'' sample_l4_request 2) = Inl (RuntimeError ''undo refused'')"
  using canary_abort_reports_rolled_back [of "sample_loop_adapter False" sample_l4_runbook sample_l4_request 0
      "''ref:aks.rollout.undo.canary''" 1 default_strategy 2 "RuntimeError ''undo refused''" 3 "decision True ''authorized''"]
  by (simp add: sample_loop_adapter_def call_rollback_def sample_l4_runbook_def)

text \<open>A declared level never raises authority: an accepted request runs at the level of the
  reviewed service policy or, by the one permitted downgrade, at L3 under an L4 policy.\<close>

theorem declared_level_never_escalates:
  "case resolve_level std declared p of (level, refusal) \<Rightarrow>
     level \<le> sa_level p \<and>
     (level = sa_level p \<or> (level = APPROVE_AND_EXECUTE \<and> sa_level p = BOUNDED_AUTONOMOUS \<and> refusal = None))"
  by (auto simp: resolve_level_def Let_def level_order split: option.splits)

end
