(* ===== verification/Remediation_Activities.thy ===== *)
theory Remediation_Activities
  imports Remediation_Workflow Incident_Planner Human_Approval Lifecycle_Bridge Control_Loop
begin

text \<open>
  The activities behind the remediation workflow, \<open>RemediationActivities\<close> of
  \<open>src/orchestration/control_plane_activities.py\<close>, with the plan and its hash from
  \<open>src/control_plane/remediation.py\<close>. Every state change goes through the lifecycle bridge; the
  evidence provider, the policy evaluator, the digital twin and the action adapter act on an
  external world. The world of the activities is the state store and the audit sink of the
  bridge, and that external world.

  The theory closes with what each activity leaves in the store; \<open>Governed_Remediation\<close> runs the
  workflow over these activities.
\<close>

section \<open>Plans\<close>

definition plan_hash_of :: "py_std \<Rightarrow> json \<Rightarrow> string" where
  "plan_hash_of std v = ''sha256:'' @ sha256_hex std (json_dumps std v)"

record workflow_plan =
  wp_workflow_id :: string
  wp_service :: string
  wp_environment :: string
  wp_runbook_id :: string
  wp_blast_radius :: int
  wp_evidence_ids :: "string list"
  wp_confidence :: rat

definition plan_payload :: "workflow_plan \<Rightarrow> (string \<times> json) list" where
  "plan_payload p =
     [(''service'', JStr (wp_service p)), (''environment'', JStr (wp_environment p)),
      (''runbook_id'', JStr (wp_runbook_id p)), (''blast_radius'', JInt (wp_blast_radius p)),
      (''evidence_ids'', JList (map JStr (wp_evidence_ids p))), (''confidence'', JFloat (wp_confidence p))]"

section \<open>Configuration\<close>

type_synonym 'x twin_simulate =
  "string \<Rightarrow> string \<Rightarrow> runbook_catalog \<Rightarrow> service_autonomy \<Rightarrow> action_request \<Rightarrow> bool \<Rightarrow> 'x \<Rightarrow> simulation_result res \<times> 'x"

record 'x remediation_activities =
  ra_catalog :: runbook_catalog
  ra_autonomy_policies :: "service_autonomy list"
  ra_adapter :: "'x adapter"
  ra_evidence_provider :: "string \<Rightarrow> string \<Rightarrow> string \<Rightarrow> 'x \<Rightarrow> evidence_event list res \<times> 'x"
  ra_approval_secret :: string
  ra_evaluator :: "'x evaluator option"
  ra_twin :: "'x twin_simulate option"
  ra_twin_source_namespace :: "string option"
  ra_environ :: environ
  ra_actor :: string
  ra_process_environ :: environ
  ra_clock_seconds :: "'x \<Rightarrow> int"
  ra_clock_now :: "'x \<Rightarrow> instant"

text \<open>The bridge: the library, the audit sink and the configured activities.\<close>

record ('a, 'x) activity_host =
  ah_std :: py_std
  ah_sink :: "'a sink"
  ah_conf :: "'x remediation_activities"

type_synonym ('a, 'x) host_world = "(state_store \<times> 'a) \<times> 'x"

definition require_step_time :: "string \<Rightarrow> string res" where
  "require_step_time occurred_at =
     (if py_strip occurred_at = []
      then Inl (RemediationConfigurationError ''a persisting remediation activity requires a caller-supplied, replay-safe occurred_at timestamp'')
      else Inr (py_strip occurred_at))"

definition fixture_evidence :: "py_std \<Rightarrow> json \<Rightarrow> string \<Rightarrow> evidence_event list res" where
  "fixture_evidence std raw incident_id =
     (let records = (case raw of JObj kvs \<Rightarrow> map_of kvs incident_id | _ \<Rightarrow> Some raw) in
      case records of
        None \<Rightarrow> Inr []
      | Some JNull \<Rightarrow> Inr []
      | Some (JList items) \<Rightarrow>
          foldr (\<lambda>item rest.
            if \<not> is_object item then Inl (RemediationConfigurationError ''evidence fixture records must be objects'')
            else rbind (evidence_from_mapping std item) (\<lambda>e. rbind rest (\<lambda>es. Inr (e # es)))) items (Inr [])
      | _ \<Rightarrow> Inl (RemediationConfigurationError ''evidence fixture records must be an array''))"

definition autonomy_for :: "'x remediation_activities \<Rightarrow> remediation_request \<Rightarrow> service_autonomy res" where
  "autonomy_for ra req =
     (case find (\<lambda>p. sa_service p = rr_service req \<and> sa_environment p = rr_environment req) (ra_autonomy_policies ra) of
        Some p \<Rightarrow> Inr p
      | None \<Rightarrow> Inl (RemediationConfigurationError
          (''no reviewed autonomy policy for '' @ rr_service req @ ''/'' @ rr_environment req)))"

definition action_request_for :: "remediation_request \<Rightarrow> string \<Rightarrow> action_request" where
  "action_request_for req runbook_id =
     \<lparr>rq_service = rr_service req, rq_environment = rr_environment req, rq_runbook_id = runbook_id,
      rq_blast_radius = rr_blast_radius req, rq_approval_token = None, rq_error_budget_remaining = Finite 1\<rparr>"

section \<open>Advancing the lifecycle\<close>

record step_event =
  se_step :: string
  se_action :: string
  se_from_status :: "workflow_status option"
  se_expected_version :: "int option"
  se_to_status :: workflow_status
  se_occurred_at :: string
  se_plan_hash :: "string option"
  se_attributes :: "(string \<times> json) list"
  se_consequential :: bool

definition lifecycle_event_for :: "string \<Rightarrow> remediation_request \<Rightarrow> string \<Rightarrow> step_event \<Rightarrow> lifecycle_event" where
  "lifecycle_event_for actor req wid e =
     \<lparr>ev_event_id = wid @ '':'' @ se_step e, ev_idempotency_key = wid @ '':'' @ se_step e, ev_workflow_id = wid,
      ev_tenant_id = rr_tenant_id req, ev_service_id = rr_service req, ev_environment = rr_environment req,
      ev_kind = ''remediation'', ev_correlation_id = rr_correlation_id req, ev_actor = actor, ev_action = se_action e,
      ev_from_status = se_from_status e, ev_to_status = se_to_status e, ev_expected_version = se_expected_version e,
      ev_plan_hash = se_plan_hash e, ev_causation_id = None, ev_consequential = se_consequential e,
      ev_attributes = se_attributes e, ev_occurred_at = se_occurred_at e, ev_schema_version = LIFECYCLE_SCHEMA_VERSION\<rparr>"

definition advance ::
    "('a, 'x) activity_host \<Rightarrow> remediation_request \<Rightarrow> step_event \<Rightarrow> ('a, 'x) host_world \<Rightarrow> activity_result res \<times> ('a, 'x) host_world" where
  "advance ah req e s =
     (case request_workflow_id req of
        Inl x \<Rightarrow> (Inl x, s)
      | Inr wid \<Rightarrow>
          (case persist_workflow_lifecycle (ah_std ah) (ah_sink ah)
               (lifecycle_event_for (ra_actor (ah_conf ah)) req wid e) (fst s) of
             (r, b) \<Rightarrow> (r, (b, snd s))))"

text \<open>A call on the external world.\<close>

definition external :: "('x \<Rightarrow> 'b res \<times> 'x) \<Rightarrow> ('a, 'x) host_world \<Rightarrow> 'b res \<times> ('a, 'x) host_world" where
  "external f s = (case f (snd s) of (r, x) \<Rightarrow> (r, (fst s, x)))"

section \<open>The activities\<close>

definition collect_evidence ::
    "('a, 'x) activity_host \<Rightarrow> remediation_request \<Rightarrow> string \<Rightarrow> ('a, 'x) host_world \<Rightarrow> evidence_bundle res \<times> ('a, 'x) host_world" where
  "collect_evidence ah req occurred_at =
     wbind (lift_res (require_remediation_workflows ''collect_evidence'' (ra_environ (ah_conf ah)))) (\<lambda>_.
     wbind (lift_res (validate_request req)) (\<lambda>_.
     wbind (external (ra_evidence_provider (ah_conf ah) (rr_incident_id req) (rr_service req) (rr_environment req))) (\<lambda>events.
     wbind (lift_res (require_step_time occurred_at)) (\<lambda>t.
     wbind (advance ah req \<lparr>se_step = ''evidence'', se_action = ''collect-remediation-evidence'', se_from_status = None,
       se_expected_version = None, se_to_status = RECEIVED, se_occurred_at = t, se_plan_hash = None,
       se_attributes = [(''incident_id'', JStr (rr_incident_id req)), (''evidence_ids'', JList (map (\<lambda>e. JStr (ee_id e)) events))],
       se_consequential = False\<rparr>) (\<lambda>result.
     wbind (lift_res (request_workflow_id req)) (\<lambda>wid.
     lift_res (Inr \<lparr>eb_workflow_id = wid, eb_workflow_version = lr_workflow_version result,
       eb_evidence = map (evidence_to_mapping (ah_std ah)) events, eb_evidence_ids = map ee_id events,
       eb_audit_event_hash = lr_audit_event_hash result\<rparr>)))))))"

fun read_evidence :: "py_std \<Rightarrow> json list \<Rightarrow> evidence_event list res" where
  "read_evidence std [] = Inr []"
| "read_evidence std (j # js) = rbind (evidence_from_mapping std j) (\<lambda>e. rbind (read_evidence std js) (\<lambda>es. Inr (e # es)))"

definition plan_remediation ::
    "('a, 'x) activity_host \<Rightarrow> remediation_request \<Rightarrow> evidence_bundle option \<Rightarrow> string \<Rightarrow> ('a, 'x) host_world \<Rightarrow>
       plan_result res \<times> ('a, 'x) host_world" where
  "plan_remediation ah req eb occurred_at =
     wbind (lift_res (require_remediation_workflows ''plan_remediation'' (ra_environ (ah_conf ah)))) (\<lambda>_.
     wbind (lift_res (validate_request req)) (\<lambda>_.
     case eb of
       None \<Rightarrow> lift_res (Inl (RemediationConfigurationError ''plan_remediation requires an evidence bundle''))
     | Some evidence \<Rightarrow>
     wbind (lift_res (read_evidence (ah_std ah) (eb_evidence evidence))) (\<lambda>events.
     wbind (lift_res (analyze_incident (ah_std ah) events (rr_service req))) (\<lambda>analysis.
     wbind (lift_res (request_workflow_id req)) (\<lambda>wid.
     case plan_from_incident analysis of
       None \<Rightarrow> lift_res (Inr \<lparr>pr_workflow_id = wid, pr_planned = False,
         pr_reason = ''no certified runbook matched the incident evidence'', pr_runbook_id = None, pr_plan_hash = None,
         pr_confidence = 0, pr_evidence_ids = eb_evidence_ids evidence, pr_workflow_version = eb_workflow_version evidence\<rparr>)
     | Some plan \<Rightarrow>
     let payload = plan_payload \<lparr>wp_workflow_id = wid, wp_service = rr_service req, wp_environment = rr_environment req,
           wp_runbook_id = rp_runbook_id plan, wp_blast_radius = rr_blast_radius req,
           wp_evidence_ids = rp_evidence_ids plan, wp_confidence = rp_confidence plan\<rparr>;
         h = plan_hash_of (ah_std ah) (JObj payload) in
     wbind (lift_res (require_step_time occurred_at)) (\<lambda>t.
     wbind (advance ah req \<lparr>se_step = ''planned'', se_action = ''prepare-remediation'', se_from_status = Some RECEIVED,
       se_expected_version = Some (eb_workflow_version evidence), se_to_status = PLANNED, se_occurred_at = t,
       se_plan_hash = Some h, se_attributes = payload @ [(''reason'', JStr (rp_reason plan))], se_consequential = False\<rparr>) (\<lambda>planned.
     wbind (advance ah req \<lparr>se_step = ''awaiting-approval'', se_action = ''await-human-approval'',
       se_from_status = Some PLANNED, se_expected_version = Some (lr_workflow_version planned),
       se_to_status = WAITING_APPROVAL, se_occurred_at = t, se_plan_hash = Some h,
       se_attributes = [(''plan_hash'', JStr h)], se_consequential = False\<rparr>) (\<lambda>waiting.
     lift_res (Inr \<lparr>pr_workflow_id = wid, pr_planned = True, pr_reason = rp_reason plan,
       pr_runbook_id = Some (rp_runbook_id plan), pr_plan_hash = Some h, pr_confidence = rp_confidence plan,
       pr_evidence_ids = rp_evidence_ids plan, pr_workflow_version = lr_workflow_version waiting\<rparr>)))))))))"

definition approval_of_signal :: "approval_signal \<Rightarrow> approval" where
  "approval_of_signal c = \<lparr>ap_workflow_id = as_workflow_id c, ap_approver = as_approver c, ap_plan_hash = as_plan_hash c,
     ap_issued_at = as_issued_at c, ap_signature = as_signature c\<rparr>"

definition verify_approval_activity ::
    "('a, 'x) activity_host \<Rightarrow> remediation_request \<Rightarrow> plan_result \<Rightarrow> approval_signal \<Rightarrow> ('a, 'x) host_world \<Rightarrow>
       approval_verification res \<times> ('a, 'x) host_world" where
  "verify_approval_activity ah req plan c =
     wbind (lift_res (require_remediation_workflows ''verify_approval'' (ra_environ (ah_conf ah)))) (\<lambda>_.
     if \<not> has_text (pr_plan_hash plan)
     then lift_res (Inr \<lparr>av_verified = False, av_reason = ''there is no plan hash to approve against'', av_approver = []\<rparr>)
     else
     wbind (lift_res (request_workflow_id req)) (\<lambda>wid s.
     (case verify_approval (ah_std ah) (approval_of_signal c) wid (the (pr_plan_hash plan))
         (ra_approval_secret (ah_conf ah)) 900 None (ra_clock_seconds (ah_conf ah) (snd s)) of
        Inl x \<Rightarrow> (Inl x, s)
      | Inr verified \<Rightarrow>
          (Inr (if \<not> verified
             then \<lparr>av_verified = False, av_reason = ''approval is invalid, stale, expired, or bound to another plan'', av_approver = []\<rparr>
             else \<lparr>av_verified = True, av_reason = ''approval signature verified'', av_approver = as_approver c\<rparr>), s))))"

definition evaluate_policy ::
    "('a, 'x) activity_host \<Rightarrow> remediation_request \<Rightarrow> plan_result \<Rightarrow> bool \<Rightarrow> ('a, 'x) host_world \<Rightarrow> policy_verdict res \<times> ('a, 'x) host_world" where
  "evaluate_policy ah req plan approval_verified =
     wbind (lift_res (require_remediation_workflows ''evaluate_policy'' (ra_environ (ah_conf ah)))) (\<lambda>_.
     case ra_evaluator (ah_conf ah) of
       None \<Rightarrow> lift_res (Inr \<lparr>pv_allowed = False, pv_reason = ''no policy evaluator is configured; failing closed'',
         pv_policy_revision = ''unknown''\<rparr>)
     | Some evaluator \<Rightarrow>
     if \<not> has_text (pr_runbook_id plan)
     then lift_res (Inr \<lparr>pv_allowed = False, pv_reason = ''there is no planned runbook to authorize'', pv_policy_revision = ''unknown''\<rparr>)
     else
     wbind (lift_res (catalog_get (ra_catalog (ah_conf ah)) (the (pr_runbook_id plan)))) (\<lambda>rb.
     wbind (lift_res (autonomy_for (ah_conf ah) req)) (\<lambda>policy.
     wbind (external (evaluator rb policy (action_request_for req (the (pr_runbook_id plan))) approval_verified default_control None)) (\<lambda>ev.
     lift_res (Inr \<lparr>pv_allowed = ed_allowed ev, pv_reason = ed_reason ev, pv_policy_revision = ed_policy_revision ev\<rparr>)))))"

definition rehearse_in_twin ::
    "('a, 'x) activity_host \<Rightarrow> remediation_request \<Rightarrow> plan_result \<Rightarrow> bool \<Rightarrow> ('a, 'x) host_world \<Rightarrow> rehearsal_verdict res \<times> ('a, 'x) host_world" where
  "rehearse_in_twin ah req plan approval_verified =
     wbind (lift_res (require_remediation_workflows ''rehearse_in_twin'' (ra_environ (ah_conf ah)))) (\<lambda>_.
     if ra_twin (ah_conf ah) = None \<or> \<not> has_text (ra_twin_source_namespace (ah_conf ah))
     then lift_res (Inr \<lparr>rv_safe_to_promote = False, rv_status = ''unconfigured'',
       rv_notes = [''digital twin is not configured; failing closed'']\<rparr>)
     else if \<not> has_text (pr_runbook_id plan)
     then lift_res (Inr \<lparr>rv_safe_to_promote = False, rv_status = ''unplanned'', rv_notes = [''there is no planned runbook to rehearse'']\<rparr>)
     else
     wbind (lift_res (autonomy_for (ah_conf ah) req)) (\<lambda>policy.
     wbind (external ((the (ra_twin (ah_conf ah))) (rr_request_id req) (the (ra_twin_source_namespace (ah_conf ah)))
       (ra_catalog (ah_conf ah)) policy (action_request_for req (the (pr_runbook_id plan))) approval_verified)) (\<lambda>result.
     lift_res (Inr \<lparr>rv_safe_to_promote = sim_safe_to_promote result, rv_status = xr_status (sim_execution result),
       rv_notes = sim_notes result\<rparr>))))"

text \<open>The arguments of the control loop: everything the activity does not pass has its default.\<close>

definition activity_loop_args ::
    "'x remediation_activities \<Rightarrow> service_autonomy \<Rightarrow> action_request \<Rightarrow> 'x \<Rightarrow> 'x loop_args" where
  "activity_loop_args ra policy q x =
     \<lparr>la_catalog = ra_catalog ra, la_policy = policy, la_request = q, la_adapter = ra_adapter ra,
      la_evaluator = ra_evaluator ra, la_approval_verified = True, la_control = None, la_certification = None,
      la_autonomy_level = None, la_now = ra_clock_now ra x, la_environ = ra_process_environ ra, la_lock = None,
      la_impacted_services = [], la_canary_strategy = None\<rparr>"

abbreviation denied_outcome :: "string \<Rightarrow> int \<Rightarrow> action_outcome" where
  "denied_outcome reason version \<equiv> \<lparr>ao_status = ''denied'', ao_reason = reason, ao_execution_ref = None, ao_verified = False,
     ao_rollback_ref = None, ao_error = None, ao_from_status = ''waiting_approval'', ao_workflow_version = version\<rparr>"

definition executing_event :: "remediation_request \<Rightarrow> plan_result \<Rightarrow> string \<Rightarrow> step_event" where
  "executing_event req plan t =
     \<lparr>se_step = ''executing'', se_action = ''execute-remediation'', se_from_status = Some WAITING_APPROVAL,
      se_expected_version = Some (pr_workflow_version plan), se_to_status = EXECUTING, se_occurred_at = t,
      se_plan_hash = pr_plan_hash plan,
      se_attributes = [(''runbook_id'', JStr (the (pr_runbook_id plan))), (''blast_radius'', JInt (rr_blast_radius req))],
      se_consequential = True\<rparr>"

text \<open>The activity from the moment the store says \<open>executing\<close>.\<close>

definition act_and_verify ::
    "('a, 'x) activity_host \<Rightarrow> remediation_request \<Rightarrow> plan_result \<Rightarrow> string \<Rightarrow> activity_result \<Rightarrow> ('a, 'x) host_world \<Rightarrow>
       action_outcome res \<times> ('a, 'x) host_world" where
  "act_and_verify ah req plan t executing =
     wbind (lift_res (autonomy_for (ah_conf ah) req)) (\<lambda>policy.
     wbind (external (\<lambda>x. execute_control_loop (ah_std ah)
       (activity_loop_args (ah_conf ah) policy (action_request_for req (the (pr_runbook_id plan))) x) x)) (\<lambda>result.
     wbind (advance ah req \<lparr>se_step = ''verifying'', se_action = ''verify-remediation'', se_from_status = Some EXECUTING,
       se_expected_version = Some (lr_workflow_version executing), se_to_status = VERIFYING, se_occurred_at = t,
       se_plan_hash = pr_plan_hash plan,
       se_attributes = [(''execution_status'', JStr (xr_status result)), (''verified'', JBool (xr_verified result)),
         (''rollback_ref'', json_opt_str (xr_rollback_ref result))], se_consequential = True\<rparr>) (\<lambda>verifying.
     lift_res (Inr \<lparr>ao_status = xr_status result, ao_reason = pd_reason (xr_policy result),
       ao_execution_ref = xr_execution_ref result, ao_verified = xr_verified result, ao_rollback_ref = xr_rollback_ref result,
       ao_error = xr_error result, ao_from_status = ''verifying'', ao_workflow_version = lr_workflow_version verifying\<rparr>))))"

definition execute_action ::
    "('a, 'x) activity_host \<Rightarrow> remediation_request \<Rightarrow> plan_result option \<Rightarrow> bool \<Rightarrow> string \<Rightarrow> ('a, 'x) host_world \<Rightarrow>
       action_outcome res \<times> ('a, 'x) host_world" where
  "execute_action ah req plan_opt approval_verified occurred_at =
     wbind (lift_res (require_remediation_workflows ''execute_action'' (ra_environ (ah_conf ah)))) (\<lambda>_.
     case plan_opt of
       None \<Rightarrow> lift_res (Inr (denied_outcome ''there is no planned runbook to execute'' 0))
     | Some plan \<Rightarrow>
     if \<not> has_text (pr_runbook_id plan)
     then lift_res (Inr (denied_outcome ''there is no planned runbook to execute'' (pr_workflow_version plan)))
     else if \<not> approval_verified
     then lift_res (Inr (denied_outcome ''verified human approval is required before any mutation'' (pr_workflow_version plan)))
     else
     wbind (lift_res (require_step_time occurred_at)) (\<lambda>t.
     wbind (advance ah req (executing_event req plan t)) (act_and_verify ah req plan t)))"

definition terminal_workflow_status :: "(string \<times> workflow_status) list" where
  "terminal_workflow_status = [(''succeeded'', SUCCEEDED), (''rolled_back'', ROLLED_BACK), (''escalated'', ESCALATED),
     (''denied'', FAILED), (''failed'', FAILED)]"

definition record_outcome ::
    "('a, 'x) activity_host \<Rightarrow> remediation_request \<Rightarrow> plan_result option \<Rightarrow> action_outcome \<Rightarrow> string \<Rightarrow> string \<Rightarrow>
       ('a, 'x) host_world \<Rightarrow> remediation_outcome res \<times> ('a, 'x) host_world" where
  "record_outcome ah req plan_opt outcome approver occurred_at =
     (let status = terminal_status_for_action outcome;
          h = (case plan_opt of None \<Rightarrow> None | Some plan \<Rightarrow> pr_plan_hash plan) in
     wbind (lift_res (require_remediation_workflows ''record_outcome'' (ra_environ (ah_conf ah)))) (\<lambda>_.
     wbind (lift_res (case workflow_status_of (ao_from_status outcome) of
        None \<Rightarrow> Inl (ValueError (quoted (ao_from_status outcome) @ '' is not a valid WorkflowStatus''))
      | Some f \<Rightarrow> Inr f)) (\<lambda>from_status.
     wbind (lift_res (case map_of terminal_workflow_status status of None \<Rightarrow> Inl (KeyError status) | Some x \<Rightarrow> Inr x)) (\<lambda>to_status.
     wbind (lift_res (require_step_time occurred_at)) (\<lambda>t.
     wbind (advance ah req \<lparr>se_step = ''outcome'', se_action = ''finish-remediation'', se_from_status = Some from_status,
       se_expected_version = Some (ao_workflow_version outcome), se_to_status = to_status, se_occurred_at = t,
       se_plan_hash = h,
       se_attributes = [(''status'', JStr status), (''reason'', JStr (ao_reason outcome)), (''approver'', JStr approver),
         (''execution_ref'', json_opt_str (ao_execution_ref outcome)), (''rollback_ref'', json_opt_str (ao_rollback_ref outcome)),
         (''verified'', JBool (ao_verified outcome)), (''error'', json_opt_str (ao_error outcome))],
       se_consequential = True\<rparr>) (\<lambda>result.
     wbind (lift_res (request_workflow_id req)) (\<lambda>wid.
     lift_res (Inr \<lparr>ro_workflow_id = wid, ro_status = status, ro_reason = ao_reason outcome, ro_plan_hash = h,
       ro_approver = approver, ro_execution_ref = ao_execution_ref outcome, ro_rollback_ref = ao_rollback_ref outcome,
       ro_audit_event_hash = lr_audit_event_hash result, ro_mutation_attempted = (ao_execution_ref outcome \<noteq> None)\<rparr>))))))))"

text \<open>Each activity run once, as the workflow's port.\<close>

definition port_of :: "('a, 'x) activity_host \<Rightarrow> (('a, 'x) host_world) activity_port" where
  "port_of ah =
     \<lparr>ap_collect_evidence = collect_evidence ah, ap_plan = (\<lambda>r e. plan_remediation ah r (Some e)),
      ap_verify_approval = verify_approval_activity ah, ap_evaluate_policy = evaluate_policy ah,
      ap_rehearse = rehearse_in_twin ah, ap_execute_action = (\<lambda>r p. execute_action ah r (Some p)),
      ap_record_outcome = (\<lambda>r p. record_outcome ah r (Some p))\<rparr>"

section \<open>What an advanced lifecycle leaves behind\<close>

lemma persist_store:
  assumes "persist_workflow_lifecycle std sink e s = (r, s')"
  shows "fst s' = fst s \<or> (\<exists>tr. apply_workflow_event std e (fst s) = Inr (tr, fst s'))"
  using assms
  by (auto simp: persist_workflow_lifecycle_def split: sum.splits prod.splits option.splits if_splits)

lemma persist_acknowledged:
  assumes "persist_workflow_lifecycle std sink e s = (Inr r, s')"
  shows "(\<exists>tr. apply_workflow_event std e (fst s) = Inr (tr, fst s')) \<and> lr_audit_event_hash r \<noteq> []"
  using assms
  by (auto simp: persist_workflow_lifecycle_def split: sum.splits prod.splits option.splits if_splits)

text \<open>The store holds the receipt of this event of the workflow.\<close>

definition step_recorded ::
    "('a, 'x) activity_host \<Rightarrow> remediation_request \<Rightarrow> string \<Rightarrow> step_event \<Rightarrow> ('a, 'x) host_world \<Rightarrow> bool" where
  "step_recorded ah req wid e s \<longleftrightarrow>
     (\<exists>r. find_receipt (fst (fst s)) wid (wid @ '':'' @ se_step e) = Some r \<and>
       fingerprint (ah_std ah) (lifecycle_event_for (ra_actor (ah_conf ah)) req wid e) = Inr (rc_event_fingerprint r))"

lemma advance_Inr:
  assumes "advance ah req e s = (Inr a, s')"
  obtains wid where "request_workflow_id req = Inr wid" "step_recorded ah req wid e s'"
    "lr_audit_event_hash a \<noteq> []" "snd s' = snd s"
proof -
  from assms obtain wid b where wid: "request_workflow_id req = Inr wid" "s' = (b, snd s)"
      and p: "persist_workflow_lifecycle (ah_std ah) (ah_sink ah)
        (lifecycle_event_for (ra_actor (ah_conf ah)) req wid e) (fst s) = (Inr a, b)"
    by (auto simp: advance_def split: sum.splits prod.splits)
  from persist_acknowledged [OF p] obtain tr where
    ap: "apply_workflow_event (ah_std ah) (lifecycle_event_for (ra_actor (ah_conf ah)) req wid e) (fst (fst s)) = Inr (tr, fst b)"
    and h: "lr_audit_event_hash a \<noteq> []" by auto
  from accepted_receipt [OF ap] wid h that show thesis
    by (auto simp: lifecycle_event_for_def step_recorded_def)
qed

lemma advance_keeps:
  assumes "advance ah req e s = (a, s')"
  shows "snd s' = snd s \<and> (step_recorded ah req' wid' e' s \<longrightarrow> step_recorded ah req' wid' e' s')"
proof (cases "request_workflow_id req")
  case (Inl x)
  with assms show ?thesis by (simp add: advance_def)
next
  case (Inr wid)
  with assms have s': "snd s' = snd s" and "persist_workflow_lifecycle (ah_std ah) (ah_sink ah)
      (lifecycle_event_for (ra_actor (ah_conf ah)) req wid e) (fst s) = (a, fst s')"
    by (auto simp: advance_def split: prod.splits)
  from persist_store [OF this(2)] s' find_receipt_stable show ?thesis by (auto simp: step_recorded_def)
qed

text \<open>Steps that keep what is recorded, and steps that change the external world only after a step is recorded.\<close>

definition keeps :: "('s \<Rightarrow> bool) \<Rightarrow> ('s \<Rightarrow> 'b res \<times> 's) \<Rightarrow> bool" where
  "keeps P m \<longleftrightarrow> (\<forall>s. P s \<longrightarrow> P (snd (m s)))"

lemma keeps_wbind:
  assumes "keeps P m" "\<And>x. keeps P (f x)"
  shows "keeps P (wbind m f)"
  unfolding keeps_def
proof (intro allI impI)
  fix s assume "P s"
  obtain r s1 where m: "m s = (r, s1)" by (metis prod.collapse)
  with assms(1) \<open>P s\<close> have "P s1" unfolding keeps_def by (metis snd_conv)
  with m assms(2) show "P (snd (wbind m f s))" by (cases r) (auto simp: wbind_def keeps_def)
qed

lemma keeps_lift: "keeps P (lift_res r)"
  by (simp add: keeps_def lift_res_def)

lemma keeps_external: "keeps (step_recorded ah req wid e) (external f)"
  by (auto simp: keeps_def external_def step_recorded_def split: prod.splits)

lemma keeps_advance: "keeps (step_recorded ah req wid e) (advance ah req' e')"
  unfolding keeps_def using advance_keeps by (metis prod.collapse)

lemma wbind_advance:
  assumes "wbind (advance ah req e) k w = (out, w')" "snd w' \<noteq> snd w" "\<And>x wid. keeps (step_recorded ah req wid e) (k x)"
  shows "\<exists>wid. request_workflow_id req = Inr wid \<and> step_recorded ah req wid e w'"
proof -
  obtain r w1 where adv: "advance ah req e w = (r, w1)" by (metis prod.collapse)
  with advance_keeps have same: "snd w1 = snd w" by blast
  show ?thesis
  proof (cases r)
    case (Inl x)
    with adv same assms(1,2) show ?thesis by (simp add: wbind_def)
  next
    case (Inr x)
    with adv obtain wid where wid: "request_workflow_id req = Inr wid" "step_recorded ah req wid e w1"
      by (auto elim: advance_Inr)
    from Inr adv assms(1) have "k x w1 = (out, w')" by (simp add: wbind_def)
    with assms(3) [of wid x] wid show ?thesis unfolding keeps_def by (metis snd_conv)
  qed
qed

section \<open>The gate\<close>

lemma gated_activity [simp]:
  assumes "\<not> remediation_workflows_enabled env"
  shows "wbind (lift_res (require_remediation_workflows step env)) f w =
     (Inl (RemediationWorkflowsDisabled (step @
        '' is a consequential remediation activity; set EIP_TEMPORAL_REMEDIATION_WORKFLOWS=enabled to register it'')), w)"
  using assms by (simp add: require_remediation_workflows_def lift_res_bind)

section \<open>Recorded outcomes\<close>

lemma record_outcome_Inr:
  assumes "record_outcome ah req plan outcome approver t w = (Inr o', w')"
  shows "\<exists>wid e. request_workflow_id req = Inr wid \<and> step_recorded ah req wid e w' \<and> se_step e = ''outcome'' \<and>
     map_of terminal_workflow_status (ro_status o') = Some (se_to_status e) \<and>
     ro_workflow_id o' = wid \<and> ro_audit_event_hash o' \<noteq> []"
  using assms unfolding record_outcome_def Let_def
  by (elim wbind_Inr advance_Inr) (auto simp: lift_res_def split: option.splits intro!: exI)

section \<open>What was approved\<close>

lemma verified_signature:
  assumes "answers (verify_approval_activity ah req plan c) v" "av_verified v"
    "request_workflow_id req = Inr wid" "pr_plan_hash plan = Some h"
  shows "\<exists>clock. verify_approval (ah_std ah) (approval_of_signal c) wid h (ra_approval_secret (ah_conf ah)) 900 None clock = Inr True"
proof -
  from assms(1) obtain s s' where "verify_approval_activity ah req plan c s = (Inr v, s')" by (auto simp: answers_def)
  then show ?thesis using assms(2-4) unfolding verify_approval_activity_def
    by (auto simp: lift_res_def elim!: wbind_Inr split: if_splits sum.splits)
qed

text \<open>The plan a signature is over: what the planning activity hashed.\<close>

definition approved_plan :: "remediation_request \<Rightarrow> string \<Rightarrow> string \<Rightarrow> string list \<Rightarrow> rat \<Rightarrow> workflow_plan" where
  "approved_plan req wid runbook_id evidence_ids confidence =
     \<lparr>wp_workflow_id = wid, wp_service = rr_service req, wp_environment = rr_environment req,
      wp_runbook_id = runbook_id, wp_blast_radius = rr_blast_radius req,
      wp_evidence_ids = evidence_ids, wp_confidence = confidence\<rparr>"

lemma planned_hash:
  assumes "answers (plan_remediation ah req eb t) plan" "pr_planned plan"
  shows "\<exists>wid runbook_id. request_workflow_id req = Inr wid \<and> pr_runbook_id plan = Some runbook_id \<and>
     pr_plan_hash plan = Some (plan_hash_of (ah_std ah)
       (JObj (plan_payload (approved_plan req wid runbook_id (pr_evidence_ids plan) (pr_confidence plan)))))"
proof -
  from assms(1) obtain s s' where "plan_remediation ah req eb t s = (Inr plan, s')" by (auto simp: answers_def)
  then show ?thesis using assms(2) unfolding plan_remediation_def Let_def
    by (auto simp: lift_res_def approved_plan_def elim!: wbind_Inr split: option.splits)
qed

end
