(* ===== verification/Governed_Remediation.thy ===== *)
theory Governed_Remediation
  imports Remediation_Activities
begin

text \<open>
  The remediation workflow run over its real activities: the composition of the workflow, the
  lifecycle bridge with its store and audit sink, the planner, the approvals and the control
  loop. First that persistence never stands in the way of a run, then the properties of the
  composition.
\<close>

section \<open>Where a workflow stands\<close>

text \<open>The store holds the workflow of the request in this status and version, after these steps.\<close>

definition identifies :: "remediation_request \<Rightarrow> string \<Rightarrow> workflow_record \<Rightarrow> bool" where
  "identifies req wid w \<longleftrightarrow> wf_workflow_id w = wid \<and> wf_tenant_id w = rr_tenant_id req \<and> wf_service_id w = rr_service req \<and>
     wf_environment w = rr_environment req \<and> wf_kind w = ''remediation'' \<and> wf_correlation_id w = rr_correlation_id req"

definition steps_taken :: "string \<Rightarrow> string list \<Rightarrow> state_store \<Rightarrow> bool" where
  "steps_taken wid steps st \<longleftrightarrow> (\<forall>r \<in> set (st_receipts st). rc_workflow_id r = wid \<longrightarrow>
     rc_event_id r = rc_idempotency_key r \<and> rc_idempotency_key r \<in> (\<lambda>s. wid @ '':'' @ s) ` set steps)"

definition workflow_at :: "remediation_request \<Rightarrow> string \<Rightarrow> workflow_status \<Rightarrow> int \<Rightarrow> string list \<Rightarrow> state_store \<Rightarrow> bool" where
  "workflow_at req wid status v steps st \<longleftrightarrow> 1 \<le> v \<and> steps_taken wid steps st \<and>
     (\<exists>w. get_workflow st wid = Some w \<and> identifies req wid w \<and> wf_status w = status \<and> wf_version w = v)"

definition workflow_absent :: "string \<Rightarrow> state_store \<Rightarrow> bool" where
  "workflow_absent wid st \<longleftrightarrow> get_workflow st wid = None \<and> steps_taken wid [] st"

lemma step_not_taken:
  assumes "steps_taken wid steps st" "step \<notin> set steps"
  shows "find_receipt st wid (wid @ '':'' @ step) = None" "find_event st wid (wid @ '':'' @ step) = None"
  using assms by (fastforce simp: find_receipt_def find_event_def find_None_iff steps_taken_def)+

definition sink_answers :: "'a sink \<Rightarrow> bool" where
  "sink_answers sink \<longleftrightarrow> (\<forall>e a. \<exists>f h a'. sink e a = (Inr f, a') \<and> au_event_hash f = Some h \<and> h \<noteq> [])"

lemma persist_answers:
  assumes "sink_answers sink" "apply_workflow_event std e (fst s) = Inr (tr, st')"
  shows "\<exists>r al. persist_workflow_lifecycle std sink e s = (Inr r, (st', al)) \<and> lr_workflow_version r = wf_version (tr_record tr)"
proof -
  obtain ae where ae: "lifecycle_audit_event std e (tr_record tr) = Inr ae"
    using audit_event_of_transition [OF assms(2)] by blast
  obtain f h al where "sink ae (snd s) = (Inr f, al)" "au_event_hash f = Some h" "h \<noteq> []"
    using assms(1) unfolding sink_answers_def by blast
  with assms(2) ae show ?thesis by (simp add: persist_workflow_lifecycle_def)
qed

lemma fresh_commit:
  assumes valid: "validate std e = Inr ()"
    and none: "find_receipt st (ev_workflow_id e) (ev_idempotency_key e) = None"
      "find_event st (ev_workflow_id e) (ev_event_id e) = None"
    and ver: "map_option wf_version (get_workflow st (ev_workflow_id e)) = ev_expected_version e"
    and ap: "apply_to std e (get_workflow st (ev_workflow_id e)) = Inr w" and wid: "wf_workflow_id w = ev_workflow_id e"
  shows "\<exists>tr st' rc. apply_workflow_event std e st = Inr (tr, st') \<and>
     tr_record tr = w\<lparr>wf_version := next_version (ev_expected_version e)\<rparr> \<and>
     get_workflow st' (ev_workflow_id e) = Some (tr_record tr) \<and>
     st_receipts st' = st_receipts st @ [rc] \<and> rc_event_id rc = ev_event_id e \<and> rc_idempotency_key rc = ev_idempotency_key e"
proof -
  from fresh_apply [OF valid none] ver ap obtain tr st' where run: "apply_workflow_event std e st = Inr (tr, st')" by fastforce
  then show ?thesis
  proof (cases rule: apply_event_cases)
    case (replay r)
    with none show ?thesis by simp
  next
    case (commit w' f)
    with ap ver wid run show ?thesis by (auto simp: get_workflow_def write_workflow_def)
  qed
qed

lemma advance_commits:
  assumes wid: "request_workflow_id req = Inr wid" and sink: "sink_answers (ah_sink ah)"
    and valid: "validate (ah_std ah) (lifecycle_event_for (ra_actor (ah_conf ah)) req wid e) = Inr ()"
    and fresh: "steps_taken wid steps (fst (fst s))" "se_step e \<notin> set steps"
    and ver: "map_option wf_version (get_workflow (fst (fst s)) wid) = se_expected_version e"
    and ap: "apply_to (ah_std ah) (lifecycle_event_for (ra_actor (ah_conf ah)) req wid e) (get_workflow (fst (fst s)) wid) = Inr w"
    and w: "identifies req wid w" and pos: "1 \<le> next_version (se_expected_version e)"
  shows "\<exists>a b. advance ah req e s = (Inr a, (b, snd s)) \<and> lr_workflow_version a = next_version (se_expected_version e) \<and>
     workflow_at req wid (wf_status w) (next_version (se_expected_version e)) (se_step e # steps) (fst b)"
proof -
  let ?E = "lifecycle_event_for (ra_actor (ah_conf ah)) req wid e" and ?st = "fst (fst s)"
  have ids: "ev_workflow_id ?E = wid" "ev_idempotency_key ?E = wid @ '':'' @ se_step e" "ev_event_id ?E = wid @ '':'' @ se_step e"
    "ev_expected_version ?E = se_expected_version e"
    by (simp_all add: lifecycle_event_for_def)
  have wwid: "wf_workflow_id w = wid" using w by (simp add: identifies_def)
  from fresh_commit [OF valid, unfolded ids, OF step_not_taken [OF fresh] ver ap wwid]
  obtain tr st' rc where run: "apply_workflow_event (ah_std ah) ?E ?st = Inr (tr, st')"
      "tr_record tr = w\<lparr>wf_version := next_version (se_expected_version e)\<rparr>" "get_workflow st' wid = Some (tr_record tr)"
      "st_receipts st' = st_receipts ?st @ [rc]" "rc_event_id rc = wid @ '':'' @ se_step e"
      "rc_idempotency_key rc = wid @ '':'' @ se_step e" by blast
  from persist_answers [OF sink run(1)] obtain r al where
    "persist_workflow_lifecycle (ah_std ah) (ah_sink ah) ?E (fst s) = (Inr r, (st', al))"
    "lr_workflow_version r = next_version (se_expected_version e)" using run(2) by auto
  moreover have "steps_taken wid (se_step e # steps) st'" using fresh(1) run(4-6) by (auto simp: steps_taken_def)
  then have "workflow_at req wid (wf_status w) (next_version (se_expected_version e)) (se_step e # steps) st'"
    using run(2,3) w pos by (simp add: workflow_at_def identifies_def)
  ultimately show ?thesis using wid by (simp add: advance_def)
qed

lemma advance_creates:
  assumes "workflow_absent wid (fst (fst s))" "request_workflow_id req = Inr wid" "sink_answers (ah_sink ah)"
    and valid: "validate (ah_std ah) (lifecycle_event_for (ra_actor (ah_conf ah)) req wid e) = Inr ()"
    and e: "se_from_status e = None"
  shows "\<exists>a b. advance ah req e s = (Inr a, (b, snd s)) \<and> lr_workflow_version a = 1 \<and>
     workflow_at req wid RECEIVED 1 [se_step e] (fst b)"
proof -
  let ?E = "lifecycle_event_for (ra_actor (ah_conf ah)) req wid e"
  have f: "ev_from_status ?E = None" using e by (simp add: lifecycle_event_for_def)
  with validate_creation [OF valid] have v: "se_expected_version e = None" by (simp add: lifecycle_event_for_def)
  obtain w where w: "apply_to (ah_std ah) ?E None = Inr w" using apply_to_None_iff [OF valid] f by auto
  from apply_to_creates [OF this] have "identifies req wid w" "wf_status w = RECEIVED"
    by (auto simp: identifies_def lifecycle_event_for_def)
  with advance_commits [OF assms(2,3) valid, of "[]" s w] assms(1) w v show ?thesis
    by (simp add: workflow_absent_def next_version_def)
qed

lemma advance_succeeds:
  assumes at: "workflow_at req wid status v steps (fst (fst s))" and "request_workflow_id req = Inr wid" "sink_answers (ah_sink ah)"
    and valid: "validate (ah_std ah) (lifecycle_event_for (ra_actor (ah_conf ah)) req wid e) = Inr ()"
    and e: "se_from_status e = Some status" "se_expected_version e = Some v" "se_step e \<notin> set steps"
  shows "\<exists>a b. advance ah req e s = (Inr a, (b, snd s)) \<and> lr_workflow_version a = v + 1 \<and>
     workflow_at req wid (se_to_status e) (v + 1) (se_step e # steps) (fst b)"
proof -
  let ?E = "lifecycle_event_for (ra_actor (ah_conf ah)) req wid e"
  from at obtain c where c: "get_workflow (fst (fst s)) wid = Some c" "identifies req wid c" "wf_status c = status"
      "wf_version c = v" "1 \<le> v" "steps_taken wid steps (fst (fst s))" by (auto simp: workflow_at_def)
  have "event_matches (?E\<lparr>ev_expected_version := Some (wf_version c)\<rparr>) c"
    using c e by (simp add: event_matches_def identifies_def lifecycle_event_for_def)
  then obtain w where w: "apply_to (ah_std ah) ?E (Some c) = Inr w" using apply_to_Some_iff [OF valid] by blast
  from apply_to_advances [OF w] have "identifies req wid w" "wf_status w = se_to_status e"
    using c(2) by (auto simp: identifies_def lifecycle_event_for_def)
  with advance_commits [OF assms(2,3) valid c(6) e(3), of w] w c e show ?thesis
    by (simp add: next_version_def add.commute)
qed

section \<open>Events that validate\<close>

definition stamped :: "py_std \<Rightarrow> string \<Rightarrow> bool" where
  "stamped std t \<longleftrightarrow> (\<exists>d. fromisoformat std t = Some d \<and> utc_offset_us d \<noteq> None)"

definition step_name :: "string \<Rightarrow> bool" where
  "step_name s \<longleftrightarrow> list_all (\<lambda>c. is_alnum c \<or> c \<in> set ''._:/@-'') s \<and> length s \<le> 20"

definition good_step :: "py_std \<Rightarrow> step_event \<Rightarrow> bool" where
  "good_step std e \<longleftrightarrow>
     step_name (se_step e) \<and> lifecycle_identifier (se_action e) \<and>
     (\<forall>h. se_plan_hash e = Some h \<longrightarrow> is_plan_hash h) \<and> stamped std (se_occurred_at e) \<and>
     se_to_status e \<in> set (allowed_transitions (se_from_status e)) \<and>
     (case se_from_status e of None \<Rightarrow> se_expected_version e = None | Some f \<Rightarrow> (\<exists>v. se_expected_version e = Some v \<and> 1 \<le> v))"

lemma request_identifiers:
  assumes "validate_request req = Inr ()"
  shows "request_identifier (rr_request_id req)" "request_identifier (rr_service req)" "request_identifier (rr_environment req)"
    "request_identifier (rr_correlation_id req)" "request_identifier (rr_tenant_id req)"
  using assms by (auto simp: validate_request_def rbind_eq_Inr split: if_splits)

lemma request_identifier_lifecycle: "request_identifier s \<Longrightarrow> lifecycle_identifier s"
  unfolding request_identifier_def lifecycle_identifier_def by (erule bounded_identifier_mono) auto

lemma workflow_id_identifier:
  assumes "request_identifier r" "step_name step"
  shows "lifecycle_identifier (''remediation:'' @ r @ '':'' @ step)" "lifecycle_identifier (''remediation:'' @ r)"
proof -
  from assms(1) have r: "list_all (\<lambda>c. is_alnum c \<or> c \<in> set ''._:/@-'') r" "length r \<le> 128"
    by (cases r; auto simp: request_identifier_def bounded_identifier_def list_all_iff)+
  have p: "bounded_identifier ''._:/@-'' 191 ''remediation:''" by code_simp
  show "lifecycle_identifier (''remediation:'' @ r @ '':'' @ step)" "lifecycle_identifier (''remediation:'' @ r)"
    unfolding lifecycle_identifier_def
    using p r assms(2) by (intro bounded_identifier_append [OF p]; simp add: step_name_def)+
qed

definition wid_of :: "remediation_request \<Rightarrow> string" where
  "wid_of req = ''remediation:'' @ rr_request_id req"

lemma event_valid:
  assumes req: "validate_request req = Inr ()" and actor: "lifecycle_identifier actor" and e: "good_step std e"
  shows "validate std (lifecycle_event_for actor req (wid_of req) e) = Inr ()"
proof -
  let ?E = "lifecycle_event_for actor req (wid_of req) e"
  note ids = request_identifiers [OF req]
  from e have step: "step_name (se_step e)"
    and action: "lifecycle_identifier (se_action e)" by (simp_all add: good_step_def)
  have "lifecycle_identifier ''remediation''" by code_simp
  then have "check_identifiers (labelled_identifiers ?E) = Inr ()"
    using actor action ids [THEN request_identifier_lifecycle] workflow_id_identifier [OF ids(1) step]
    by (simp add: check_identifiers_ok labelled_identifiers_def lifecycle_event_for_def wid_of_def)
  then show ?thesis using e
    by (auto simp: validate_def good_step_def stamped_def lifecycle_event_for_def split: option.splits)
qed

section \<open>Healthy collaborators\<close>

definition planned_runbooks :: "string set" where
  "planned_runbooks = {''aks.restart.crashloop'', ''aks.rollback.readiness'', ''aks.restart.oom'', ''aks.rollout.undo''}"

definition provider_answers :: "('a, 'x) activity_host \<Rightarrow> remediation_request \<Rightarrow> bool" where
  "provider_answers ah req \<longleftrightarrow>
     (\<forall>x. \<exists>events x' a. ra_evidence_provider (ah_conf ah) (rr_incident_id req) (rr_service req) (rr_environment req) x = (Inr events, x') \<and>
        read_evidence (ah_std ah) (map (evidence_to_mapping (ah_std ah)) events) = Inr events \<and>
        analyze_incident (ah_std ah) events (rr_service req) = Inr a)"

definition gates_answer :: "('a, 'x) activity_host \<Rightarrow> remediation_request \<Rightarrow> bool" where
  "gates_answer ah req \<longleftrightarrow>
     (\<exists>policy. autonomy_for (ah_conf ah) req = Inr policy \<and>
      (\<forall>rid \<in> planned_runbooks. \<exists>rb. catalog_get (ra_catalog (ah_conf ah)) rid = Inr rb \<and>
        (\<forall>evaluator x. ra_evaluator (ah_conf ah) = Some evaluator \<longrightarrow>
          (\<exists>d x'. evaluator rb policy (action_request_for req rid) True default_control None x = (Inr d, x'))) \<and>
        (\<forall>twin ns x. ra_twin (ah_conf ah) = Some twin \<longrightarrow>
          (\<exists>v x'. twin (rr_request_id req) ns (ra_catalog (ah_conf ah)) policy (action_request_for req rid) True x = (Inr v, x'))) \<and>
        (\<forall>x. \<exists>r x'. execute_control_loop (ah_std ah) (activity_loop_args (ah_conf ah) policy (action_request_for req rid) x) x = (Inr r, x'))))"

definition signals_of :: "schedule \<Rightarrow> approval_signal set" where
  "signals_of sc = set (sc_early sc) \<union> (\<Union>(t, sigs) \<in> set (sc_wakes sc). set sigs)"

definition healthy :: "('a, 'x) activity_host \<Rightarrow> remediation_request \<Rightarrow> schedule \<Rightarrow> bool" where
  "healthy ah req sc \<longleftrightarrow>
     remediation_workflows_enabled (ra_environ (ah_conf ah)) \<and> validate_request req = Inr () \<and>
     lifecycle_identifier (ra_actor (ah_conf ah)) \<and> sink_answers (ah_sink ah) \<and>
     sha256_hex_shape (ah_std ah) \<and> hmac_hex_ascii (ah_std ah) \<and>
     (\<forall>n. py_strip (sc_times sc n) \<noteq> [] \<and> stamped (ah_std ah) (py_strip (sc_times sc n))) \<and>
     (\<forall>c \<in> signals_of sc. is_ascii (as_signature c)) \<and> provider_answers ah req \<and> gates_answer ah req"

lemma healthy_simps:
  assumes "healthy ah req sc"
  shows "require_remediation_workflows step (ra_environ (ah_conf ah)) = Inr ()" "validate_request req = Inr ()"
    "request_workflow_id req = Inr (wid_of req)" "sink_answers (ah_sink ah)"
    "require_step_time (sc_times sc n) = Inr (py_strip (sc_times sc n))" "stamped (ah_std ah) (py_strip (sc_times sc n))"
    "lifecycle_identifier (ra_actor (ah_conf ah))"
  using assms by (simp_all add: healthy_def require_remediation_workflows_def request_workflow_id_def require_step_time_def wid_of_def)

lemma healthy_advance:
  assumes "healthy ah req sc" "workflow_at req (wid_of req) status v steps (fst (fst s))" "good_step (ah_std ah) e"
    "se_from_status e = Some status" "se_expected_version e = Some v" "se_step e \<notin> set steps"
  shows "\<exists>a b. advance ah req e s = (Inr a, (b, snd s)) \<and> lr_workflow_version a = v + 1 \<and>
     workflow_at req (wid_of req) (se_to_status e) (v + 1) (se_step e # steps) (fst b)"
  using advance_succeeds [OF assms(2) healthy_simps(3,4) [OF assms(1)] event_valid [OF healthy_simps(2,7) [OF assms(1)] assms(3)] assms(4-6)] .

lemma step_name_ok:
  "step_name ''evidence''" "step_name ''planned''"
  "step_name ''awaiting-approval''" "step_name ''executing''"
  "step_name ''verifying''" "step_name ''outcome''"
  "lifecycle_identifier ''collect-remediation-evidence''" "lifecycle_identifier ''prepare-remediation''"
  "lifecycle_identifier ''await-human-approval''" "lifecycle_identifier ''execute-remediation''"
  "lifecycle_identifier ''verify-remediation''" "lifecycle_identifier ''finish-remediation''"
  by (simp_all add: step_name_def lifecycle_identifier_def bounded_identifier_def is_alnum_def)

lemma collect_ok:
  assumes h: "healthy ah req sc" and abs: "workflow_absent (wid_of req) (fst (fst s))"
  shows "\<exists>eb s' events a. collect_evidence ah req (sc_times sc n) s = (Inr eb, s') \<and> eb_workflow_version eb = 1 \<and>
     workflow_at req (wid_of req) RECEIVED 1 [''evidence''] (fst (fst s')) \<and>
     (\<exists>x. ra_evidence_provider (ah_conf ah) (rr_incident_id req) (rr_service req) (rr_environment req) (snd s) = (Inr events, x)) \<and>
     read_evidence (ah_std ah) (eb_evidence eb) = Inr events \<and> analyze_incident (ah_std ah) events (rr_service req) = Inr a"
proof -
  from h obtain events x' a where p: "ra_evidence_provider (ah_conf ah) (rr_incident_id req) (rr_service req) (rr_environment req) (snd s) = (Inr events, x')"
      "read_evidence (ah_std ah) (map (evidence_to_mapping (ah_std ah)) events) = Inr events"
      "analyze_incident (ah_std ah) events (rr_service req) = Inr a"
    unfolding healthy_def provider_answers_def by blast
  let ?e = "\<lparr>se_step = ''evidence'', se_action = ''collect-remediation-evidence'', se_from_status = None,
       se_expected_version = None, se_to_status = RECEIVED, se_occurred_at = py_strip (sc_times sc n), se_plan_hash = None,
       se_attributes = [(''incident_id'', JStr (rr_incident_id req)), (''evidence_ids'', JList (map (\<lambda>e. JStr (ee_id e)) events))],
       se_consequential = False\<rparr>"
  have "good_step (ah_std ah) ?e" using healthy_simps(6) [OF h] by (simp add: good_step_def step_name_ok)
  from advance_creates [of _ "(fst s, x')", OF _ healthy_simps(3,4) [OF h] event_valid [OF healthy_simps(2,7) [OF h] this]] abs
  obtain ar b where "advance ah req ?e (fst s, x') = (Inr ar, (b, x'))" "lr_workflow_version ar = 1"
      "workflow_at req (wid_of req) RECEIVED 1 [''evidence''] (fst b)" by auto
  with p show ?thesis
    by (simp add: collect_evidence_def lift_res_bind healthy_simps [OF h] wbind_def external_def lift_res_def)
qed

lemma plan_hash_shape:
  assumes "sha256_hex_shape std"
  shows "is_plan_hash (plan_hash_of std v)"
proof -
  let ?x = "sha256_hex std (json_dumps std v)"
  have "take 7 (''sha256:'' @ ?x) = ''sha256:''" "drop 7 (''sha256:'' @ ?x) = ?x" by simp_all
  moreover have "length ?x = 64" using assms unfolding sha256_hex_shape_def by blast
  moreover have "set ?x \<subseteq> set ''0123456789abcdef''" using assms unfolding sha256_hex_shape_def by blast
  then have "\<forall>c \<in> set ?x. c \<in> set ''0123456789abcdef''" by (rule subset_iff [THEN iffD1, unfolded Ball_def [symmetric]])
  ultimately show ?thesis unfolding is_plan_hash_def plan_hash_of_def list_all_iff by (simp only: simp_thms)
qed

text \<open>After planning the workflow has no plan and is where it was, or waits for the approval of a plan.\<close>

definition plan_reported :: "('a, 'x) activity_host \<Rightarrow> remediation_request \<Rightarrow> incident_analysis \<Rightarrow> plan_result \<Rightarrow> bool" where
  "plan_reported ah req an plan \<longleftrightarrow>
     (case plan_from_incident an of
        None \<Rightarrow> \<not> pr_planned plan
      | Some p \<Rightarrow> pr_planned plan \<and> pr_runbook_id plan = Some (rp_runbook_id p) \<and>
          pr_plan_hash plan = Some (plan_hash_of (ah_std ah) (JObj (plan_payload
            (approved_plan req (wid_of req) (rp_runbook_id p) (rp_evidence_ids p) (rp_confidence p))))))"

definition planned_ok :: "remediation_request \<Rightarrow> plan_result \<Rightarrow> state_store \<Rightarrow> bool" where
  "planned_ok req plan st \<longleftrightarrow>
     (if pr_planned plan
      then workflow_at req (wid_of req) WAITING_APPROVAL 3 [''awaiting-approval'', ''planned'', ''evidence''] st \<and>
        pr_workflow_version plan = 3 \<and>
        (\<exists>rid h. rid \<in> planned_runbooks \<and> pr_runbook_id plan = Some rid \<and> pr_plan_hash plan = Some h \<and> is_plan_hash h)
      else workflow_at req (wid_of req) RECEIVED 1 [''evidence''] st \<and> pr_plan_hash plan = None)"

lemma plan_ok:
  assumes h: "healthy ah req sc" and at: "workflow_at req (wid_of req) RECEIVED 1 [''evidence''] (fst (fst s))"
    and eb: "eb_workflow_version eb = 1" "read_evidence (ah_std ah) (eb_evidence eb) = Inr events"
      "analyze_incident (ah_std ah) events (rr_service req) = Inr an"
  shows "\<exists>plan s'. plan_remediation ah req (Some eb) (sc_times sc n) s = (Inr plan, s') \<and> planned_ok req plan (fst (fst s')) \<and>
     plan_reported ah req an plan"
proof (cases "plan_from_incident an")
  case None
  with at eb show ?thesis
    by (simp add: plan_remediation_def lift_res_bind healthy_simps [OF h] planned_ok_def plan_reported_def approved_plan_def lift_res_def)
next
  case (Some plan)
  let ?payload = "plan_payload \<lparr>wp_workflow_id = wid_of req, wp_service = rr_service req, wp_environment = rr_environment req,
           wp_runbook_id = rp_runbook_id plan, wp_blast_radius = rr_blast_radius req,
           wp_evidence_ids = rp_evidence_ids plan, wp_confidence = rp_confidence plan\<rparr>"
  let ?h = "plan_hash_of (ah_std ah) (JObj ?payload)" and ?t = "py_strip (sc_times sc n)"
  let ?e1 = "\<lparr>se_step = ''planned'', se_action = ''prepare-remediation'', se_from_status = Some RECEIVED,
       se_expected_version = Some 1, se_to_status = PLANNED, se_occurred_at = ?t,
       se_plan_hash = Some ?h, se_attributes = ?payload @ [(''reason'', JStr (rp_reason plan))], se_consequential = False\<rparr>"
  let ?e2 = "\<lparr>se_step = ''awaiting-approval'', se_action = ''await-human-approval'',
       se_from_status = Some PLANNED, se_expected_version = Some 2,
       se_to_status = WAITING_APPROVAL, se_occurred_at = ?t, se_plan_hash = Some ?h,
       se_attributes = [(''plan_hash'', JStr ?h)], se_consequential = False\<rparr>"
  have hash: "is_plan_hash ?h" using h by (simp add: healthy_def plan_hash_shape)
  have good: "good_step (ah_std ah) ?e1" "good_step (ah_std ah) ?e2"
    using hash healthy_simps(6) [OF h] by (simp_all add: good_step_def step_name_ok)
  from healthy_advance [OF h at good(1)] obtain a1 b1 where a1: "advance ah req ?e1 s = (Inr a1, (b1, snd s))"
      "lr_workflow_version a1 = 2" "workflow_at req (wid_of req) PLANNED 2 [''planned'', ''evidence''] (fst b1)" by auto
  have "workflow_at req (wid_of req) PLANNED 2 [''planned'', ''evidence''] (fst (fst (b1, snd s)))" using a1(3) by simp
  from healthy_advance [OF h this good(2)] obtain a2 b2 where
      a2: "advance ah req ?e2 (b1, snd s) = (Inr a2, (b2, snd s))" "lr_workflow_version a2 = 3"
      "workflow_at req (wid_of req) WAITING_APPROVAL 3 [''awaiting-approval'', ''planned'', ''evidence''] (fst b2)" by auto
  from planned_from [OF Some] have "rp_runbook_id plan \<in> planned_runbooks" by (auto simp: planned_runbooks_def)
  with Some eb a1 a2 hash show ?thesis
    by (simp add: plan_remediation_def lift_res_bind healthy_simps [OF h] planned_ok_def plan_reported_def approved_plan_def lift_res_def Let_def wbind_def [of "advance _ _ _"])
qed

lemma record_ok:
  assumes h: "healthy ah req sc" and at: "workflow_at req (wid_of req) status v steps (fst (fst s))" "''outcome'' \<notin> set steps"
    and a: "ao_from_status a = status_value status" "ao_workflow_version a = v"
      "map_of terminal_workflow_status (terminal_status_for_action a) = Some to" "to \<in> set (allowed_transitions (Some status))"
    and hash: "\<And>x. pr_plan_hash plan = Some x \<Longrightarrow> is_plan_hash x"
  shows "\<exists>o' s'. record_outcome ah req (Some plan) a approver (sc_times sc n) s = (Inr o', s') \<and>
     ro_status o' = terminal_status_for_action a \<and>
     workflow_at req (wid_of req) to (v + 1) (''outcome'' # steps) (fst (fst s'))"
proof -
  let ?e = "\<lparr>se_step = ''outcome'', se_action = ''finish-remediation'', se_from_status = Some status,
       se_expected_version = Some v, se_to_status = to, se_occurred_at = py_strip (sc_times sc n),
       se_plan_hash = pr_plan_hash plan,
       se_attributes = [(''status'', JStr (terminal_status_for_action a)), (''reason'', JStr (ao_reason a)), (''approver'', JStr approver),
         (''execution_ref'', json_opt_str (ao_execution_ref a)), (''rollback_ref'', json_opt_str (ao_rollback_ref a)),
         (''verified'', JBool (ao_verified a)), (''error'', json_opt_str (ao_error a))],
       se_consequential = True\<rparr>"
  have "good_step (ah_std ah) ?e"
    using hash healthy_simps(6) [OF h] a(4) at(1) by (auto simp: good_step_def step_name_ok workflow_at_def)
  from healthy_advance [OF h at(1) this] at(2) obtain r b where "advance ah req ?e s = (Inr r, (b, snd s))"
      "workflow_at req (wid_of req) to (v + 1) (''outcome'' # steps) (fst b)" by auto
  with a show ?thesis
    by (simp add: record_outcome_def lift_res_bind healthy_simps [OF h] lift_res_def Let_def wbind_def [of "advance _ _ _"])
qed

lemma verify_ok:
  assumes h: "healthy ah req sc" and c: "c \<in> signals_of sc"
  shows "\<exists>v. verify_approval_activity ah req plan c s = (Inr v, s)"
proof -
  have "is_ascii (as_signature c)" "hmac_hex_ascii (ah_std ah)" using h c unfolding healthy_def by blast+
  then have "\<exists>b. verify_approval (ah_std ah) (approval_of_signal c) w p k age now clock = Inr b" for w p k age now clock
    by (auto simp: verify_approval_def compare_digest_def hmac_hex_ascii_def approval_of_signal_def Let_def)
  then show ?thesis
    by (auto simp: verify_approval_activity_def lift_res_bind healthy_simps [OF h] lift_res_def split: sum.splits)
      (metis sum.distinct(1))+
qed

lemma gates_answer_at:
  assumes h: "healthy ah req sc" and rid: "rid \<in> planned_runbooks"
  obtains policy rb where "autonomy_for (ah_conf ah) req = Inr policy" "catalog_get (ra_catalog (ah_conf ah)) rid = Inr rb"
    "\<And>evaluator x. ra_evaluator (ah_conf ah) = Some evaluator \<Longrightarrow>
       \<exists>d x'. evaluator rb policy (action_request_for req rid) True default_control None x = (Inr d, x')"
    "\<And>twin ns x. ra_twin (ah_conf ah) = Some twin \<Longrightarrow>
       \<exists>v x'. twin (rr_request_id req) ns (ra_catalog (ah_conf ah)) policy (action_request_for req rid) True x = (Inr v, x')"
    "\<And>x. \<exists>r x'. execute_control_loop (ah_std ah) (activity_loop_args (ah_conf ah) policy (action_request_for req rid) x) x = (Inr r, x')"
proof -
  from h obtain policy where "autonomy_for (ah_conf ah) req = Inr policy"
    and all: "\<forall>rid \<in> planned_runbooks. \<exists>rb. catalog_get (ra_catalog (ah_conf ah)) rid = Inr rb \<and>
        (\<forall>evaluator x. ra_evaluator (ah_conf ah) = Some evaluator \<longrightarrow>
          (\<exists>d x'. evaluator rb policy (action_request_for req rid) True default_control None x = (Inr d, x'))) \<and>
        (\<forall>twin ns x. ra_twin (ah_conf ah) = Some twin \<longrightarrow>
          (\<exists>v x'. twin (rr_request_id req) ns (ra_catalog (ah_conf ah)) policy (action_request_for req rid) True x = (Inr v, x'))) \<and>
        (\<forall>x. \<exists>r x'. execute_control_loop (ah_std ah) (activity_loop_args (ah_conf ah) policy (action_request_for req rid) x) x = (Inr r, x'))"
    unfolding healthy_def gates_answer_def by blast
  with rid that show thesis by blast
qed

lemma external_Inr: "f (snd s) = (Inr r, x) \<Longrightarrow> wbind (external f) k s = k r (fst s, x)"
  by (simp add: wbind_def external_def)

lemma policy_ok:
  assumes h: "healthy ah req sc" and rid: "rid \<in> planned_runbooks" "pr_runbook_id plan = Some rid"
  shows "\<exists>d x. evaluate_policy ah req plan True s = (Inr d, (fst s, x))"
proof -
  obtain policy rb where g: "autonomy_for (ah_conf ah) req = Inr policy" "catalog_get (ra_catalog (ah_conf ah)) rid = Inr rb"
    "\<And>evaluator x. ra_evaluator (ah_conf ah) = Some evaluator \<Longrightarrow>
       \<exists>d x'. evaluator rb policy (action_request_for req rid) True default_control None x = (Inr d, x')"
    using gates_answer_at [OF h rid(1)] by metis
  show ?thesis
  proof (cases "ra_evaluator (ah_conf ah)")
    case None
    then show ?thesis by (auto simp: evaluate_policy_def lift_res_bind healthy_simps [OF h] lift_res_def) (metis prod.collapse)
  next
    case (Some evaluator)
    with g(3) obtain d x where "evaluator rb policy (action_request_for req rid) True default_control None (snd s) = (Inr d, x)" by blast
    with Some g(1,2) rid(2) show ?thesis
      by (auto simp: evaluate_policy_def lift_res_bind healthy_simps [OF h] external_Inr lift_res_def) (metis prod.collapse)
  qed
qed

lemma rehearse_ok:
  assumes h: "healthy ah req sc" and rid: "rid \<in> planned_runbooks" "pr_runbook_id plan = Some rid"
  shows "\<exists>r x. rehearse_in_twin ah req plan True s = (Inr r, (fst s, x))"
proof -
  obtain policy where g: "autonomy_for (ah_conf ah) req = Inr policy"
    "\<And>twin ns x. ra_twin (ah_conf ah) = Some twin \<Longrightarrow>
       \<exists>v x'. twin (rr_request_id req) ns (ra_catalog (ah_conf ah)) policy (action_request_for req rid) True x = (Inr v, x')"
    using gates_answer_at [OF h rid(1)] by metis
  show ?thesis
  proof (cases "ra_twin (ah_conf ah)")
    case None
    then show ?thesis by (auto simp: rehearse_in_twin_def lift_res_bind healthy_simps [OF h] lift_res_def) (metis prod.collapse)
  next
    case (Some twin)
    with g(2) obtain v x where "twin (rr_request_id req) (the (ra_twin_source_namespace (ah_conf ah))) (ra_catalog (ah_conf ah)) policy
      (action_request_for req rid) True (snd s) = (Inr v, x)" by blast
    with Some g(1) rid(2) show ?thesis
      by (auto simp: rehearse_in_twin_def lift_res_bind healthy_simps [OF h] external_Inr lift_res_def) (metis prod.collapse)+
  qed
qed

lemma action_ok:
  assumes h: "healthy ah req sc" and rid: "rid \<in> planned_runbooks" "pr_runbook_id plan = Some rid" "pr_workflow_version plan = 3"
    and hash: "pr_plan_hash plan = Some ph" "is_plan_hash ph"
    and at: "workflow_at req (wid_of req) WAITING_APPROVAL 3 steps (fst (fst s))" "set steps \<inter> {''executing'', ''verifying''} = {}"
  shows "\<exists>a s'. execute_action ah req (Some plan) True (sc_times sc n) s = (Inr a, s') \<and>
     ao_from_status a = status_value VERIFYING \<and> ao_workflow_version a = 5 \<and>
     workflow_at req (wid_of req) VERIFYING 5 (''verifying'' # ''executing'' # steps) (fst (fst s'))"
proof -
  obtain policy where g: "autonomy_for (ah_conf ah) req = Inr policy"
    "\<And>x. \<exists>r x'. execute_control_loop (ah_std ah) (activity_loop_args (ah_conf ah) policy (action_request_for req rid) x) x = (Inr r, x')"
    using gates_answer_at [OF h rid(1)] by metis
  let ?t = "py_strip (sc_times sc n)"
  have ht: "has_text (pr_runbook_id plan)" using rid by (auto simp: planned_runbooks_def has_text_def)
  have "good_step (ah_std ah) (executing_event req plan ?t)"
    using hash healthy_simps(6) [OF h] rid by (simp add: good_step_def step_name_ok executing_event_def)
  from healthy_advance [OF h at(1) this] at(2) rid(3) obtain a1 b1 where a1: "advance ah req (executing_event req plan ?t) s = (Inr a1, (b1, snd s))"
      "lr_workflow_version a1 = 4" "workflow_at req (wid_of req) EXECUTING 4 (''executing'' # steps) (fst b1)"
    by (auto simp: executing_event_def)
  from g(2) obtain r x where r: "execute_control_loop (ah_std ah)
      (activity_loop_args (ah_conf ah) policy (action_request_for req rid) (snd s)) (snd s) = (Inr r, x)" by blast
  let ?e = "\<lparr>se_step = ''verifying'', se_action = ''verify-remediation'', se_from_status = Some EXECUTING,
       se_expected_version = Some 4, se_to_status = VERIFYING, se_occurred_at = ?t, se_plan_hash = pr_plan_hash plan,
       se_attributes = [(''execution_status'', JStr (xr_status r)), (''verified'', JBool (xr_verified r)),
         (''rollback_ref'', json_opt_str (xr_rollback_ref r))], se_consequential = True\<rparr>"
  have "good_step (ah_std ah) ?e" using hash healthy_simps(6) [OF h] by (simp add: good_step_def step_name_ok)
  moreover have "workflow_at req (wid_of req) EXECUTING 4 (''executing'' # steps) (fst (fst (b1, x)))" using a1(3) by simp
  ultimately obtain a2 b2 where "advance ah req ?e (b1, x) = (Inr a2, (b2, x))" "lr_workflow_version a2 = 5"
      "workflow_at req (wid_of req) VERIFYING 5 (''verifying'' # ''executing'' # steps) (fst b2)"
    using healthy_advance [OF h, of EXECUTING 4 "''executing'' # steps" "(b1, x)" ?e] at(2) by auto
  with a1 r g(1) rid ht show ?thesis
    by (simp add: execute_action_def act_and_verify_def lift_res_bind healthy_simps [OF h] external_Inr lift_res_def
        wbind_def [of "advance _ _ _"])
qed

lemma drain_returns: "\<exists>x. drain_signals (Inr wid) h cs rejected = Inr x"
  by (induction cs arbitrary: rejected) (auto simp: Let_def)

lemma await_returns: "\<exists>x. await_approval (Inr wid) h deadline now wakes s = Inr x"
proof (induction wakes arbitrary: now s)
  case Nil
  then show ?case using drain_returns by auto
next
  case (Cons a wakes)
  obtain acc s1 where "drain_signals (Inr wid) h (aq_pending s) (aq_rejected s) = Inr (acc, s1)"
    using drain_returns by (metis prod.collapse)
  with Cons show ?case by (cases a) auto
qed

lemma wait_ok:
  assumes h: "healthy ah req sc"
  shows "\<exists>x. wait_for_approval sc req plan = Inr x \<and> (\<forall>c. x = Some c \<longrightarrow> c \<in> signals_of sc)"
proof -
  obtain acc s where run: "await_approval (request_workflow_id req) (pr_plan_hash plan)
       (sc_wait_start sc + rr_approval_timeout_seconds req * 1000000) (sc_wait_start sc) (sc_wakes sc)
       \<lparr>aq_pending = sc_early sc, aq_rejected = []\<rparr> = Inr (acc, s)"
    unfolding healthy_simps(3) [OF h] using await_returns by (metis prod.collapse)
  moreover have "c \<in> signals_of sc" if "acc = Some c" for c
    using await_accepts run that by (fastforce simp: signals_of_def)
  ultimately show ?thesis by (simp add: wait_for_approval_def)
qed

section \<open>A healthy run\<close>

definition finished :: "remediation_request \<Rightarrow> remediation_outcome \<Rightarrow> ('a, 'x) host_world \<Rightarrow> bool" where
  "finished req o' s \<longleftrightarrow> (\<exists>to v steps. map_of terminal_workflow_status (ro_status o') = Some to \<and>
     workflow_at req (wid_of req) to v steps (fst (fst s)))"

lemma terminal_action:
  "terminal_status_for_action a \<in> {''succeeded'', ''rolled_back'', ''escalated'', ''denied'', ''failed''}"
  by (auto simp: terminal_status_for_action_def terminal_status_table_def split: option.splits if_splits)

lemma finish_ok:
  assumes h: "healthy ah req sc" and at: "workflow_at req (wid_of req) status v steps (fst (fst s))" "''outcome'' \<notin> set steps"
    and d: "st_terminal_status d \<in> {''escalate'', ''denied''}" "status \<in> {RECEIVED, WAITING_APPROVAL}" "fs = status_value status"
    and hash: "\<And>x. pr_plan_hash plan = Some x \<Longrightarrow> is_plan_hash x"
  shows "\<exists>o' s'. finish_step (port_of ah) sc req plan d ap fs v s = (Inr o', s') \<and> finished req o' s'"
proof -
  let ?a = "\<lparr>ao_status = st_terminal_status d, ao_reason = st_reason d, ao_execution_ref = None, ao_verified = False,
        ao_rollback_ref = None, ao_error = None, ao_from_status = fs, ao_workflow_version = v\<rparr>"
  have "\<exists>to. map_of terminal_workflow_status (terminal_status_for_action ?a) = Some to \<and> to \<in> set (allowed_transitions (Some status))"
    using d(1,2) by (auto simp: terminal_status_for_action_def terminal_status_table_def terminal_workflow_status_def)
  then obtain to where to: "map_of terminal_workflow_status (terminal_status_for_action ?a) = Some to"
      "to \<in> set (allowed_transitions (Some status))" by blast
  from record_ok [OF h at _ _ to hash, where approver = ap and n = 3] d(3) to(1) show ?thesis
    by (force simp: finish_step_def record_step_def port_of_def finished_def)
qed

text \<open>The workflow waits for its approval, with this plan.\<close>

definition awaiting :: "remediation_request \<Rightarrow> plan_result \<Rightarrow> ('a, 'x) host_world \<Rightarrow> bool" where
  "awaiting req plan s \<longleftrightarrow> pr_planned plan \<and> planned_ok req plan (fst (fst s))"

lemma awaitingE:
  assumes "awaiting req plan s"
  obtains rid ph where "rid \<in> planned_runbooks" "pr_runbook_id plan = Some rid" "pr_plan_hash plan = Some ph" "is_plan_hash ph"
    "pr_workflow_version plan = 3"
    "workflow_at req (wid_of req) WAITING_APPROVAL 3 [''awaiting-approval'', ''planned'', ''evidence''] (fst (fst s))"
  using assms by (auto simp: awaiting_def planned_ok_def)

lemma awaiting_external: "awaiting req plan s \<Longrightarrow> awaiting req plan (fst s, x)"
  by (simp add: awaiting_def)

lemma awaiting_finish:
  assumes h: "healthy ah req sc" and w: "awaiting req plan s" and d: "st_terminal_status d \<in> {''escalate'', ''denied''}"
  shows "\<exists>o' s'. finish_step (port_of ah) sc req plan d ap ''waiting_approval'' (pr_workflow_version plan) s = (Inr o', s') \<and> finished req o' s'"
  using w
proof (rule awaitingE)
  fix rid ph assume p: "pr_plan_hash plan = Some ph" "is_plan_hash ph" "pr_workflow_version plan = 3"
    "workflow_at req (wid_of req) WAITING_APPROVAL 3 [''awaiting-approval'', ''planned'', ''evidence''] (fst (fst s))"
  show ?thesis using finish_ok [OF h p(4) _ d, where fs = "''waiting_approval''" and plan = plan and ap = ap] p(1-3) by simp
qed

lemma action_step_ok:
  assumes h: "healthy ah req sc" and w: "awaiting req plan s"
  shows "\<exists>o' s'. action_step (port_of ah) sc req plan v s = (Inr o', s') \<and> finished req o' s'"
  using w
proof (rule awaitingE)
  fix rid ph assume p: "rid \<in> planned_runbooks" "pr_runbook_id plan = Some rid" "pr_plan_hash plan = Some ph" "is_plan_hash ph"
    "pr_workflow_version plan = 3"
    "workflow_at req (wid_of req) WAITING_APPROVAL 3 [''awaiting-approval'', ''planned'', ''evidence''] (fst (fst s))"
  from action_ok [OF h p(1,2,5,3,4,6), where n = 2] obtain a s1 where a: "execute_action ah req (Some plan) True (sc_times sc 2) s = (Inr a, s1)"
      "ao_from_status a = status_value VERIFYING" "ao_workflow_version a = 5"
      "workflow_at req (wid_of req) VERIFYING 5 [''verifying'', ''executing'', ''awaiting-approval'', ''planned'', ''evidence''] (fst (fst s1))"
    by auto
  have "\<exists>to. map_of terminal_workflow_status (terminal_status_for_action a) = Some to \<and> to \<in> set (allowed_transitions (Some VERIFYING))"
    using terminal_action [of a] by (auto simp: terminal_workflow_status_def)
  then obtain to where to: "map_of terminal_workflow_status (terminal_status_for_action a) = Some to"
      "to \<in> set (allowed_transitions (Some VERIFYING))" by blast
  have "\<exists>o' s'. record_outcome ah req (Some plan) a (av_approver v) (sc_times sc 3) s1 = (Inr o', s') \<and>
      ro_status o' = terminal_status_for_action a \<and>
      workflow_at req (wid_of req) to 6 [''outcome'', ''verifying'', ''executing'', ''awaiting-approval'', ''planned'', ''evidence''] (fst (fst s'))"
    using record_ok [OF h a(4) _ a(2,3) to, where plan = plan and approver = "av_approver v" and n = 3] p(3,4) by simp
  with a(1) to(1) show ?thesis
    by (force simp: action_step_def record_step_def port_of_def finished_def wbind_def)
qed

lemma decision_cases:
  "st_proceed (decide_after_approval v) \<or> st_terminal_status (decide_after_approval v) \<in> {''escalate'', ''denied''}"
  "st_proceed (decide_after_policy d) \<or> st_terminal_status (decide_after_policy d) \<in> {''escalate'', ''denied''}"
  "st_proceed (decide_after_rehearsal r) \<or> st_terminal_status (decide_after_rehearsal r) \<in> {''escalate'', ''denied''}"
  by (auto simp: decide_after_approval_def decide_after_policy_def decide_after_rehearsal_def)

lemma rehearsal_step_ok:
  assumes h: "healthy ah req sc" and w: "awaiting req plan s"
  shows "\<exists>o' s'. rehearsal_step (port_of ah) sc req plan v s = (Inr o', s') \<and> finished req o' s'"
proof -
  from w obtain rid where "rid \<in> planned_runbooks" "pr_runbook_id plan = Some rid" by (rule awaitingE)
  from rehearse_ok [OF h this] obtain r x where "rehearse_in_twin ah req plan True s = (Inr r, (fst s, x))" by blast
  with awaiting_finish [OF h awaiting_external [OF w]] action_step_ok [OF h awaiting_external [OF w]] decision_cases(3) [of r] show ?thesis
    by (auto simp: rehearsal_step_def port_of_def wbind_def Let_def)
qed

lemma policy_step_ok:
  assumes h: "healthy ah req sc" and w: "awaiting req plan s"
  shows "\<exists>o' s'. policy_step (port_of ah) sc req plan v s = (Inr o', s') \<and> finished req o' s'"
proof -
  from w obtain rid where "rid \<in> planned_runbooks" "pr_runbook_id plan = Some rid" by (rule awaitingE)
  from policy_ok [OF h this] obtain r x where "evaluate_policy ah req plan True s = (Inr r, (fst s, x))" by blast
  with awaiting_finish [OF h awaiting_external [OF w]] rehearsal_step_ok [OF h awaiting_external [OF w]] decision_cases(2) [of r] show ?thesis
    by (auto simp: policy_step_def port_of_def wbind_def Let_def)
qed

lemma approval_step_ok:
  assumes h: "healthy ah req sc" and w: "awaiting req plan s" and c: "c \<in> signals_of sc"
  shows "\<exists>o' s'. after_approval (port_of ah) sc req plan c s = (Inr o', s') \<and> finished req o' s'"
proof -
  from verify_ok [OF h c] obtain v where "verify_approval_activity ah req plan c s = (Inr v, s)" by blast
  with awaiting_finish [OF h w] policy_step_ok [OF h w] decision_cases(1) [of v] show ?thesis
    by (auto simp: after_approval_def port_of_def wbind_def Let_def)
qed

lemma healthy_run:
  assumes h: "healthy ah req sc" and abs: "workflow_absent (wid_of req) (fst (fst s))"
  shows "\<exists>o' s'. run_workflow (port_of ah) sc req s = (Inr o', s') \<and> finished req o' s'"
proof -
  from collect_ok [OF h abs] obtain eb s1 events an where c: "collect_evidence ah req (sc_times sc 0) s = (Inr eb, s1)"
      "eb_workflow_version eb = 1" "workflow_at req (wid_of req) RECEIVED 1 [''evidence''] (fst (fst s1))"
      "read_evidence (ah_std ah) (eb_evidence eb) = Inr events" "analyze_incident (ah_std ah) events (rr_service req) = Inr an" by blast
  from plan_ok [OF h c(3,2,4,5)] obtain plan s2 where p: "plan_remediation ah req (Some eb) (sc_times sc 1) s1 = (Inr plan, s2)"
      "planned_ok req plan (fst (fst s2))" by blast
  have run: "run_workflow (port_of ah) sc req s = (let d = decide_after_plan plan in
     if \<not> st_proceed d then finish_step (port_of ah) sc req plan d [] ''received'' 1 s2
     else wbind (Pair (wait_for_approval sc req plan)) (\<lambda>sig. case sig of
       None \<Rightarrow> finish_step (port_of ah) sc req plan
         (stop_step ''escalate'' ''no valid human approval was received before the approval deadline'') []
         ''waiting_approval'' (pr_workflow_version plan)
     | Some c \<Rightarrow> after_approval (port_of ah) sc req plan c) s2)"
    using c(1,2) p(1)
    by (cases "st_proceed (decide_after_plan plan)") (simp_all add: run_workflow_def port_of_def wbind_def Let_def)
  show ?thesis
  proof (cases "pr_planned plan")
    case False
    with p(2) have "workflow_at req (wid_of req) RECEIVED 1 [''evidence''] (fst (fst s2))" "pr_plan_hash plan = None"
      by (auto simp: planned_ok_def)
    from finish_ok [OF h this(1), where fs = "''received''" and plan = plan and ap = "[]" and d = "decide_after_plan plan"] this(2) False run
    show ?thesis by (simp add: decide_after_plan_def)
  next
    case True
    with p(2) have w: "awaiting req plan s2" by (simp add: awaiting_def)
    from w have go: "st_proceed (decide_after_plan plan)"
      by (rule awaitingE) (auto simp: proceed_iffs True has_text_def planned_runbooks_def is_plan_hash_def)
    from wait_ok [OF h] obtain sig where sig: "wait_for_approval sc req plan = Inr sig" "\<And>c. sig = Some c \<Longrightarrow> c \<in> signals_of sc" by blast
    show ?thesis
    proof (cases sig)
      case None
      with awaiting_finish [OF h w] run go sig(1) show ?thesis by (simp add: wbind_def)
    next
      case (Some c)
      with approval_step_ok [OF h w] run go sig show ?thesis by (simp add: wbind_def)
    qed
  qed
qed

text \<open>A run whose gates all answer favourably reaches its action.\<close>

lemma logged_action_reached:
  assumes "ap_collect_evidence p req (sc_times sc 0) s = (Inr eb, s1)" "ap_plan p req eb (sc_times sc 1) s1 = (Inr plan, s2)"
    "st_proceed (decide_after_plan plan)" "wait_for_approval sc req plan = Inr (Some c)"
    "ap_verify_approval p req plan c s2 = (Inr v, s3)" "av_verified v"
    "ap_evaluate_policy p req plan True s3 = (Inr d, s4)" "pv_allowed d"
    "ap_rehearse p req plan True s4 = (Inr r, s5)" "rv_safe_to_promote r"
  shows "ActionRun \<in> set (fst (snd (run_workflow (logged_port p) sc req ([], s))))"
proof -
  have "run_workflow (logged_port p) sc req ([], s) =
      action_step (logged_port p) sc req plan v ([EvidenceCollected, Planned plan, ApprovalChecked c v, PolicyChecked d, Rehearsed r], s5)"
    using assms by (simp add: run_workflow_def after_approval_def policy_step_def rehearsal_step_def wbind_def logged_def proceed_iffs Let_def)
  then obtain out t w where run: "run_workflow (logged_port p) sc req ([], s) = (out, (t, w))"
    and a: "action_step (logged_port p) sc req plan v
      ([EvidenceCollected, Planned plan, ApprovalChecked c v, PolicyChecked d, Rehearsed r], s5) = (out, (t, w))"
    by (metis prod.collapse)
  from action_trace [OF a] run show ?thesis by (auto simp: acts_def ends_def)
qed

section \<open>A sample host\<close>

definition sample_sink :: "nat sink" where
  "sample_sink e n = (Inr (e\<lparr>au_event_hash := Some ''h''\<rparr>), Suc n)"

definition sample_runbook_ids :: "string list" where
  "sample_runbook_ids = [''aks.restart.crashloop'', ''aks.rollback.readiness'', ''aks.restart.oom'', ''aks.rollout.undo'']"

definition sample_host_policy :: service_autonomy where
  "sample_host_policy = sample_l4_policy\<lparr>sa_level := APPROVE_AND_EXECUTE, sa_certified_runbooks := sample_runbook_ids\<rparr>"

definition sample_conf :: "nat remediation_activities" where
  "sample_conf =
     \<lparr>ra_catalog = map (\<lambda>i. (i, sample_l4_runbook\<lparr>rb_id := i\<rparr>))
        sample_runbook_ids,
      ra_autonomy_policies = [sample_host_policy],
      ra_adapter = sample_loop_adapter True, ra_evidence_provider = (\<lambda>i s e n. (Inr [sample_evidence_event], n)),
      ra_approval_secret = ''key'',
      ra_evaluator = Some (\<lambda>rb p q a c ctx n. (Inr (evaluated a ''ok'' ''v1''), n)),
      ra_twin = Some (\<lambda>i ns catalog p q a. simulate fixture_std 0 Map.empty catalog p q (sample_loop_adapter True) a),
      ra_twin_source_namespace = Some ''stage'', ra_environ = [''EIP_TEMPORAL_REMEDIATION_WORKFLOWS'' \<mapsto> '' Enabled''],
      ra_actor = ''agent:sre'', ra_process_environ = Map.empty, ra_clock_seconds = (\<lambda>n. 7), ra_clock_now = (\<lambda>n. 0)\<rparr>"

definition sample_host :: "(nat, nat) activity_host" where
  "sample_host = \<lparr>ah_std = fixture_std, ah_sink = sample_sink, ah_conf = sample_conf\<rparr>"

definition sample_world :: "(nat, nat) host_world" where
  "sample_world = ((empty_store, 0), 0)"

definition sample_approved_hash :: string where
  "sample_approved_hash = plan_hash_of fixture_std (JObj (plan_payload
     (approved_plan sample_request (wid_of sample_request) ''aks.restart.crashloop'' [''ev-1''] (43 / 50))))"

definition sample_signed :: approval_signal where
  "sample_signed =
     (let a = issue_approval fixture_std (wid_of sample_request) ''ada'' sample_approved_hash ''key'' (Some 7) 7 in
      \<lparr>as_workflow_id = ap_workflow_id a, as_approver = ap_approver a, as_plan_hash = ap_plan_hash a,
       as_issued_at = ap_issued_at a, as_signature = ap_signature a\<rparr>)"

definition sample_signed_schedule :: schedule where
  "sample_signed_schedule = \<lparr>sc_times = (\<lambda>n. ''17''), sc_wait_start = 0, sc_wakes = [(20, [sample_signed])], sc_early = []\<rparr>"

lemma sample_policy_found:
  "autonomy_for sample_conf sample_request = Inr sample_host_policy"
  by code_simp

lemma sample_loops:
  "list_all (\<lambda>rid. case execute_control_loop fixture_std (activity_loop_args sample_conf sample_host_policy
      (action_request_for sample_request rid) x) x of (Inr r, y) \<Rightarrow> y = Suc (Suc x) | _ \<Rightarrow> False)
    sample_runbook_ids"
  by code_simp

lemma sample_twins:
  "list_all (\<lambda>rid. case simulate fixture_std 0 Map.empty (ra_catalog sample_conf) sample_host_policy
      (action_request_for sample_request rid) (sample_loop_adapter True) True x of (Inr r, y) \<Rightarrow> sim_safe_to_promote r | _ \<Rightarrow> False)
    sample_runbook_ids"
  by code_simp

lemma sample_catalog:
  "list_all (\<lambda>rid. \<not> (case catalog_get (ra_catalog sample_conf) rid of Inl e \<Rightarrow> True | Inr rb \<Rightarrow> False))
    sample_runbook_ids"
  by code_simp

lemma sample_evidence:
  "read_evidence fixture_std (map (evidence_to_mapping fixture_std) [sample_evidence_event]) = Inr [sample_evidence_event]"
  "analyze_incident fixture_std [sample_evidence_event] ''payments'' =
     Inr (projr (analyze_incident fixture_std [sample_evidence_event] ''payments''))"
  "map_option (\<lambda>p. (rp_runbook_id p, rp_evidence_ids p, rp_confidence p))
     (plan_from_incident (projr (analyze_incident fixture_std [sample_evidence_event] ''payments''))) =
     Some (''aks.restart.crashloop'', [''ev-1''], 43 / 50)"
  by code_simp+

lemma sample_runbooks: "planned_runbooks = set sample_runbook_ids"
  by (simp add: planned_runbooks_def sample_runbook_ids_def)

lemma case_Inr: "(case p of (Inr r, y) \<Rightarrow> P r y | _ \<Rightarrow> False) \<Longrightarrow> \<exists>r y. p = (Inr r, y) \<and> P r y"
  by (auto split: prod.splits sum.splits)

lemma sample_gates: "gates_answer sample_host sample_request"
proof -
  have "\<exists>rb. catalog_get (ra_catalog sample_conf) rid = Inr rb" if "rid \<in> set sample_runbook_ids" for rid
    using sample_catalog that by (cases "catalog_get (ra_catalog sample_conf) rid") (auto simp: list_all_iff)
  moreover have "\<exists>r y. execute_control_loop fixture_std (activity_loop_args sample_conf sample_host_policy
      (action_request_for sample_request rid) x) x = (Inr r, y)" if "rid \<in> set sample_runbook_ids" for rid x
    using sample_loops [of x] that by (auto simp: list_all_iff dest!: bspec case_Inr)
  moreover have "\<exists>r y. simulate fixture_std 0 Map.empty (ra_catalog sample_conf) sample_host_policy
      (action_request_for sample_request rid) (sample_loop_adapter True) True x = (Inr r, y)" if "rid \<in> set sample_runbook_ids" for rid x
    using sample_twins [of x] that by (auto simp: list_all_iff dest!: bspec case_Inr)
  moreover have "ra_evaluator sample_conf = Some (\<lambda>rb p q a c ctx n. (Inr (evaluated a ''ok'' ''v1''), n))"
    "ra_twin sample_conf = Some (\<lambda>i ns catalog p q a. simulate fixture_std 0 Map.empty catalog p q (sample_loop_adapter True) a)"
    by (simp_all add: sample_conf_def)
  ultimately show ?thesis
    unfolding gates_answer_def sample_runbooks
    by (simp add: sample_host_def sample_policy_found)
qed

lemma sample_stamp: "py_strip ''17'' = ''17''"
  by code_simp

lemma sample_healthy: "healthy sample_host sample_request sample_signed_schedule"
proof -
  have "is_ascii (as_signature sample_signed)"
    using fixture_hmac_ascii by (simp add: sample_signed_def issue_approval_def hmac_hex_ascii_def Let_def)
  then have "\<forall>c \<in> signals_of sample_signed_schedule. is_ascii (as_signature c)"
    by (simp add: signals_of_def sample_signed_schedule_def)
  moreover have "remediation_workflows_enabled (ra_environ sample_conf)" "validate_request sample_request = Inr ()"
    "lifecycle_identifier (ra_actor sample_conf)" "py_strip ''17'' = ''17''" by code_simp+
  moreover have "stamped fixture_std ''17''" by (simp add: stamped_def fixture_std_def)
  moreover have "sink_answers sample_sink" by (simp add: sink_answers_def sample_sink_def)
  moreover have "provider_answers sample_host sample_request"
    using sample_evidence(1,2) by (auto simp: provider_answers_def sample_host_def sample_conf_def sample_request_def)
  ultimately show ?thesis
    using sample_gates fixture_digest_shape fixture_hmac_ascii
    by (simp add: healthy_def sample_host_def sample_signed_schedule_def)
qed

lemma sample_absent: "workflow_absent (wid_of sample_request) (fst (fst sample_world))"
  by (simp add: workflow_absent_def sample_world_def empty_store_def steps_taken_def get_workflow_def)

lemma py_strip_nonempty:
  assumes "c \<in> set s" "\<not> py_space c"
  shows "py_strip s \<noteq> []"
proof
  assume "py_strip s = []"
  then have "\<forall>d \<in> set (dropWhile py_space s). py_space d" by (simp add: py_strip_def dropWhile_eq_Nil_conv)
  then have "dropWhile py_space s = []" using hd_dropWhile hd_in_set by blast
  with assms show False by (simp add: dropWhile_eq_Nil_conv)
qed

lemma sample_approval_accepted:
  assumes "pr_plan_hash plan = Some sample_approved_hash"
  shows "wait_for_approval sample_signed_schedule sample_request plan = Inr (Some sample_signed)"
proof -
  have hash: "is_plan_hash sample_approved_hash"
    unfolding sample_approved_hash_def by (rule plan_hash_shape) (rule fixture_digest_shape)
  have "CHR ''0'' \<in> set (as_signature sample_signed)"
    by (simp add: sample_signed_def issue_approval_def fixture_std_def fixture_digest_def Let_def)
  then have "py_strip (as_signature sample_signed) \<noteq> []" by (rule py_strip_nonempty) (simp add: py_space_def)
  moreover have "py_strip ''ada'' \<noteq> []" by code_simp
  ultimately have "sd_accepted (evaluate_approval_signal (wid_of sample_request) (Some sample_approved_hash) sample_signed)"
    using hash by (simp add: evaluate_approval_signal_def sample_signed_def issue_approval_def Let_def)
  moreover have "rr_approval_timeout_seconds sample_request = 3600" by (simp add: sample_request_def)
  ultimately show ?thesis using assms
    by (simp add: wait_for_approval_def healthy_simps(3) [OF sample_healthy] sample_signed_schedule_def submit_approval_def Let_def)
qed

lemma sample_verified:
  assumes "pr_plan_hash plan = Some sample_approved_hash"
  shows "\<exists>v. verify_approval_activity sample_host sample_request plan sample_signed s = (Inr v, s) \<and> av_verified v"
proof -
  have "is_ascii (as_signature sample_signed)"
    using fixture_hmac_ascii by (simp add: sample_signed_def issue_approval_def hmac_hex_ascii_def Let_def)
  then have "verify_approval fixture_std (approval_of_signal sample_signed) (wid_of sample_request) sample_approved_hash ''key'' 900 None 7 = Inr True"
    by (simp add: verify_approval_True approval_of_signal_def sample_signed_def issue_approval_def now_or_clock_def Let_def)
  moreover have "has_text (Some sample_approved_hash)"
    by (simp add: has_text_def sample_approved_hash_def plan_hash_of_def)
  ultimately show ?thesis using assms
    by (simp add: verify_approval_activity_def lift_res_bind healthy_simps [OF sample_healthy] sample_host_def [symmetric])
      (simp add: sample_host_def sample_conf_def)
qed

lemma sample_host_simps:
  "ah_std sample_host = fixture_std" "ah_conf sample_host = sample_conf"
  "ra_evaluator sample_conf = Some (\<lambda>rb p q a c ctx n. (Inr (evaluated a ''ok'' ''v1''), n))"
  "ra_twin sample_conf = Some (\<lambda>i ns catalog p q a. simulate fixture_std 0 Map.empty catalog p q (sample_loop_adapter True) a)"
  "ra_twin_source_namespace sample_conf = Some ''stage''" "has_text (Some ''stage'')" "has_text (Some ''aks.restart.crashloop'')"
  "require_remediation_workflows step (ra_environ sample_conf) = Inr ()"
  using healthy_simps(1) [OF sample_healthy, of step] by (simp_all add: sample_host_def sample_conf_def has_text_def)

lemma sample_prepared:
  obtains eb s1 plan s2 where "collect_evidence sample_host sample_request ''17'' sample_world = (Inr eb, s1)"
    "plan_remediation sample_host sample_request (Some eb) ''17'' s1 = (Inr plan, s2)"
    "awaiting sample_request plan s2" "pr_runbook_id plan = Some ''aks.restart.crashloop''" "pr_plan_hash plan = Some sample_approved_hash"
proof -
  let ?an = "projr (analyze_incident fixture_std [sample_evidence_event] ''payments'')"
  have t: "sc_times sample_signed_schedule n = ''17''" for n by (simp add: sample_signed_schedule_def)
  have host: "ah_std sample_host = fixture_std" "ah_conf sample_host = sample_conf" "rr_service sample_request = ''payments''"
    by (simp_all add: sample_host_def sample_request_def)
  from collect_ok [OF sample_healthy sample_absent, where n = 0, unfolded t host] obtain eb s1 events an where
    c: "collect_evidence sample_host sample_request ''17'' sample_world = (Inr eb, s1)" "eb_workflow_version eb = 1"
      "workflow_at sample_request (wid_of sample_request) RECEIVED 1 [''evidence''] (fst (fst s1))"
      "read_evidence fixture_std (eb_evidence eb) = Inr events" "analyze_incident fixture_std events ''payments'' = Inr an"
      "events = [sample_evidence_event]" by (auto simp: sample_conf_def)
  have an: "analyze_incident fixture_std [sample_evidence_event] ''payments'' = Inr an" using c(5,6) by simp
  from plan_ok [OF sample_healthy c(3,2), where n = 0, unfolded t host, OF c(4,5)] obtain plan s2 where
    p: "plan_remediation sample_host sample_request (Some eb) ''17'' s1 = (Inr plan, s2)"
      "planned_ok sample_request plan (fst (fst s2))" "plan_reported sample_host sample_request an plan" by blast
  have "map_option (\<lambda>p. (rp_runbook_id p, rp_evidence_ids p, rp_confidence p)) (plan_from_incident an) =
     Some (''aks.restart.crashloop'', [''ev-1''], 43 / 50)" using sample_evidence(3) unfolding an by simp
  then obtain q where q: "plan_from_incident an = Some q" and
    "(rp_runbook_id q, rp_evidence_ids q, rp_confidence q) = (''aks.restart.crashloop'', [''ev-1''], 43 / 50)" by blast
  then have q': "rp_runbook_id q = ''aks.restart.crashloop''" "rp_evidence_ids q = [''ev-1'']" "rp_confidence q = 43 / 50"
    by (blast dest: Pair_inject)+
  have "pr_planned plan" "pr_runbook_id plan = Some ''aks.restart.crashloop''" "pr_plan_hash plan = Some sample_approved_hash"
    using p(3) by (simp_all add: plan_reported_def sample_approved_hash_def host q q')
  with c(1) p(1,2) that show thesis by (simp add: awaiting_def)
qed

lemma sample_action_reached:
  "ActionRun \<in> set (fst (snd (run_workflow (logged_port (port_of sample_host)) sample_signed_schedule sample_request ([], sample_world))))"
proof -
  obtain eb s1 plan s2 where c: "collect_evidence sample_host sample_request ''17'' sample_world = (Inr eb, s1)"
    "plan_remediation sample_host sample_request (Some eb) ''17'' s1 = (Inr plan, s2)"
    "awaiting sample_request plan s2" "pr_runbook_id plan = Some ''aks.restart.crashloop''" "pr_plan_hash plan = Some sample_approved_hash"
    by (rule sample_prepared)
  have go: "st_proceed (decide_after_plan plan)"
    using c(3-5) by (auto simp: proceed_iffs awaiting_def has_text_def sample_approved_hash_def plan_hash_of_def)
  obtain v where v: "verify_approval_activity sample_host sample_request plan sample_signed s2 = (Inr v, s2)" "av_verified v"
    using sample_verified [OF c(5)] by blast
  obtain rb where rb: "catalog_get (ra_catalog sample_conf) ''aks.restart.crashloop'' = Inr rb"
    using sample_catalog by (auto simp: sample_runbook_ids_def split: sum.splits)
  then obtain d where d: "evaluate_policy sample_host sample_request plan True s2 = (Inr d, s2)" "pv_allowed d"
    using c(4) sample_policy_found
    by (simp add: evaluate_policy_def sample_host_simps lift_res_bind external_Inr lift_res_def)
  obtain r y where sim: "simulate fixture_std 0 Map.empty (ra_catalog sample_conf) sample_host_policy
      (action_request_for sample_request ''aks.restart.crashloop'') (sample_loop_adapter True) True (snd s2) = (Inr r, y)" "sim_safe_to_promote r"
    using sample_twins [of "snd s2"] by (auto simp: sample_runbook_ids_def dest!: case_Inr)
  then obtain rv where rv: "rehearse_in_twin sample_host sample_request plan True s2 = (Inr rv, (fst s2, y))" "rv_safe_to_promote rv"
    using c(4) sample_policy_found
    by (simp add: rehearse_in_twin_def sample_host_simps lift_res_bind external_Inr lift_res_def)
  have t: "sc_times sample_signed_schedule n = ''17''" for n by (simp add: sample_signed_schedule_def)
  show ?thesis
    using logged_action_reached [where p = "port_of sample_host" and sc = sample_signed_schedule and req = sample_request and s = sample_world
        and eb = eb and plan = plan and v = v and d = d and r = rv and c = sample_signed and ?s1.0 = s1 and ?s2.0 = s2 and
        ?s3.0 = s2 and ?s4.0 = s2 and ?s5.0 = "(fst s2, y)"]
      go sample_approval_accepted [OF c(5)] c(1,2) v d rv by (simp add: port_of_def t)
qed

lemma sample_action_acts:
  obtains plan s out w' where "execute_action sample_host sample_request (Some plan) True ''17'' s = (out, w')" "snd w' \<noteq> snd s"
proof -
  obtain eb s1 plan s2 where "collect_evidence sample_host sample_request ''17'' sample_world = (Inr eb, s1)"
    "plan_remediation sample_host sample_request (Some eb) ''17'' s1 = (Inr plan, s2)"
    and c: "awaiting sample_request plan s2" "pr_runbook_id plan = Some ''aks.restart.crashloop''"
    "pr_plan_hash plan = Some sample_approved_hash"
    by (rule sample_prepared)
  obtain ph where p: "pr_plan_hash plan = Some ph" "is_plan_hash ph" "pr_workflow_version plan = 3"
      "workflow_at sample_request (wid_of sample_request) WAITING_APPROVAL 3 [''awaiting-approval'', ''planned'', ''evidence''] (fst (fst s2))"
    using c(1) by (rule awaitingE)
  have "good_step (ah_std sample_host) (executing_event sample_request plan ''17'')"
    using p healthy_simps(6) [OF sample_healthy, of 0]
    by (simp add: good_step_def step_name_ok executing_event_def sample_signed_schedule_def sample_stamp)
  from healthy_advance [OF sample_healthy p(4) this] p(3) obtain a1 b1 where
    a1: "advance sample_host sample_request (executing_event sample_request plan ''17'') s2 = (Inr a1, (b1, snd s2))"
    by (auto simp: executing_event_def)
  obtain r where r: "execute_control_loop fixture_std (activity_loop_args sample_conf sample_host_policy
      (action_request_for sample_request ''aks.restart.crashloop'') (snd s2)) (snd s2) = (Inr r, Suc (Suc (snd s2)))"
    using sample_loops [of "snd s2"] by (auto simp: sample_runbook_ids_def dest!: case_Inr)
  obtain out w' where run: "execute_action sample_host sample_request (Some plan) True ''17'' s2 = (out, w')" by (metis prod.collapse)
  let ?e = "\<lparr>se_step = ''verifying'', se_action = ''verify-remediation'', se_from_status = Some EXECUTING,
       se_expected_version = Some (lr_workflow_version a1), se_to_status = VERIFYING, se_occurred_at = ''17'', se_plan_hash = pr_plan_hash plan,
       se_attributes = [(''execution_status'', JStr (xr_status r)), (''verified'', JBool (xr_verified r)),
         (''rollback_ref'', json_opt_str (xr_rollback_ref r))], se_consequential = True\<rparr>"
  obtain a2 s3 where adv: "advance sample_host sample_request ?e (b1, Suc (Suc (snd s2))) = (a2, s3)" by (metis prod.collapse)
  from advance_keeps [OF adv] have "snd s3 = Suc (Suc (snd s2))" by simp
  moreover have "w' = s3"
    using run a1 r c(2) sample_policy_found adv
    by (cases a2) (simp_all add: execute_action_def act_and_verify_def sample_host_simps lift_res_bind external_Inr lift_res_def
        require_step_time_def sample_stamp wbind_def [of "advance _ _ _"])
  ultimately show thesis using that [OF run] by simp
qed

section \<open>Properties\<close>



text \<open>Switched off means inert: while the opt-in variable is not \<open>enabled\<close>, the workflow and each of its
  seven activities fail with \<open>RemediationWorkflowsDisabled\<close> and leave the store, the audit log and
  the external world exactly as they were.\<close>

theorem disabled_is_inert:
  assumes "\<not> remediation_workflows_enabled (ra_environ (ah_conf ah))"
  shows "(\<exists>m. run_workflow (port_of ah) sc req w = (Inl (RemediationWorkflowsDisabled m), w)) \<and>
     (\<exists>m. collect_evidence ah req t w = (Inl (RemediationWorkflowsDisabled m), w)) \<and>
     (\<exists>m. plan_remediation ah req eb t w = (Inl (RemediationWorkflowsDisabled m), w)) \<and>
     (\<exists>m. verify_approval_activity ah req plan c w = (Inl (RemediationWorkflowsDisabled m), w)) \<and>
     (\<exists>m. evaluate_policy ah req plan b w = (Inl (RemediationWorkflowsDisabled m), w)) \<and>
     (\<exists>m. rehearse_in_twin ah req plan b w = (Inl (RemediationWorkflowsDisabled m), w)) \<and>
     (\<exists>m. execute_action ah req plan' b t w = (Inl (RemediationWorkflowsDisabled m), w)) \<and>
     (\<exists>m. record_outcome ah req plan' a ap t w = (Inl (RemediationWorkflowsDisabled m), w))"
proof -
  have "collect_evidence ah req t w = (Inl (RemediationWorkflowsDisabled (''collect_evidence'' @
     '' is a consequential remediation activity; set EIP_TEMPORAL_REMEDIATION_WORKFLOWS=enabled to register it'')), w)" for t
    using assms by (simp add: collect_evidence_def)
  then show ?thesis using assms
    by (simp add: run_workflow_def port_of_def wbind_def [of "collect_evidence ah req (sc_times sc 0)"]
      plan_remediation_def verify_approval_activity_def evaluate_policy_def rehearse_in_twin_def
      execute_action_def record_outcome_def Let_def)
qed

theorem disabled_is_inert_witness:
  "\<exists>m. run_workflow (port_of (sample_host\<lparr>ah_conf := sample_conf\<lparr>ra_environ := Map.empty\<rparr>\<rparr>)) sample_signed_schedule
     sample_request sample_world = (Inl (RemediationWorkflowsDisabled m), sample_world)"
proof -
  have "\<not> remediation_workflows_enabled (ra_environ (ah_conf (sample_host\<lparr>ah_conf := sample_conf\<lparr>ra_environ := Map.empty\<rparr>\<rparr>)))"
    by (simp add: remediation_workflows_enabled_def env_get_def py_strip_def py_lower_def)
  from disabled_is_inert [OF this, of sample_signed_schedule sample_request sample_world] show ?thesis by blast
qed



text \<open>No outcome without a record: when the workflow returns an outcome, the store holds the receipt of
  its outcome event, whose target status is the terminal status of the reported one, and the
  outcome names the audit hash of its export.\<close>

theorem finished_run_is_recorded:
  assumes "run_workflow (port_of ah) sc req w = (Inr o', w')"
  shows "\<exists>wid e. request_workflow_id req = Inr wid \<and> step_recorded ah req wid e w' \<and> se_step e = ''outcome'' \<and>
     map_of terminal_workflow_status (ro_status o') = Some (se_to_status e) \<and>
     ro_workflow_id o' = wid \<and> ro_audit_event_hash o' \<noteq> []"
proof -
  from run_recorded [OF assms] obtain plan a approver w1 where
    "record_outcome ah req (Some plan) a approver (sc_times sc 3) w1 = (Inr o', w')"
    by (auto simp: recorded_def port_of_def)
  then show ?thesis by (rule record_outcome_Inr)
qed

theorem finished_run_is_recorded_witness:
  "\<exists>o' w' wid e. run_workflow (port_of sample_host) sample_signed_schedule sample_request sample_world = (Inr o', w') \<and>
     step_recorded sample_host sample_request wid e w' \<and> se_step e = ''outcome''"
proof -
  obtain o' w' where run: "run_workflow (port_of sample_host) sample_signed_schedule sample_request sample_world = (Inr o', w')"
    using healthy_run [OF sample_healthy sample_absent] by blast
  from finished_run_is_recorded [OF run] run show ?thesis by blast
qed

text \<open>C26. No action without a record: if the execute-action activity changed the external world, then the
  store holds the receipt of the workflow's transition to \<open>executing\<close>, which was audited before
  the control loop ran.\<close>

theorem action_is_recorded_first:
  assumes "execute_action ah req plan b t w = (out, w')" "snd w' \<noteq> snd w"
  shows "\<exists>p x wid. plan = Some p \<and> request_workflow_id req = Inr wid \<and> b \<and>
     step_recorded ah req wid (executing_event req p x) w'"
proof -
  from assms obtain p x where "plan = Some p" "b"
    "wbind (advance ah req (executing_event req p x)) (act_and_verify ah req p x) w = (out, w')"
    by (auto simp: execute_action_def lift_res_bind lift_res_def split: option.splits if_splits sum.splits)
  moreover have "keeps (step_recorded ah req wid e) (act_and_verify ah req p x a)" for wid e a
    unfolding act_and_verify_def by (intro keeps_wbind keeps_lift keeps_external keeps_advance)
  ultimately show ?thesis using wbind_advance assms(2) by blast
qed

theorem action_is_recorded_first_witness:
  "\<exists>plan s out w'. execute_action sample_host sample_request (Some plan) True ''17'' s = (out, w') \<and> snd w' \<noteq> snd s \<and>
     (\<exists>wid x. step_recorded sample_host sample_request wid (executing_event sample_request plan x) w')"
proof -
  obtain plan s out w' where run: "execute_action sample_host sample_request (Some plan) True ''17'' s = (out, w')" "snd w' \<noteq> snd s"
    by (rule sample_action_acts)
  from action_is_recorded_first [OF run] run show ?thesis by blast
qed

end
