(* ===== verification/Lease_Contract.thy ===== *)
theory Lease_Contract
  imports Eip_Prelude
begin

text \<open>
  The contract of a table whose rows are leased for a limited time: operations other than those of
  the holder, made before the lease expires, leave it held, and none of them hands the row
  out. The job queue and the artifact outbox interpret it.
\<close>

locale lease_contract =
  fixes wf :: "'s \<Rightarrow> bool" and held :: "'i \<Rightarrow> 't \<Rightarrow> 's \<Rightarrow> bool" and step :: "'o \<Rightarrow> 's \<Rightarrow> 's"
    and others :: "'i \<Rightarrow> 't \<Rightarrow> 'o \<Rightarrow> bool" and handed_out :: "'o \<Rightarrow> 's \<Rightarrow> 'i option"
  assumes keeps_lease: "wf s \<Longrightarrow> held i limit s \<Longrightarrow> others i limit op \<Longrightarrow> wf (step op s) \<and> held i limit (step op s)"
    and excludes: "wf s \<Longrightarrow> held i limit s \<Longrightarrow> others i limit op \<Longrightarrow> handed_out op s \<noteq> Some i"
begin

lemma run_keeps_lease:
  "wf s \<Longrightarrow> held i limit s \<Longrightarrow> list_all (others i limit) ops \<Longrightarrow> wf (fold step ops s) \<and> held i limit (fold step ops s)"
  by (induction ops arbitrary: s) (simp_all add: keeps_lease)

lemma exclusive:
  assumes "wf s" "held i limit s" "list_all (others i limit) ops" "others i limit op"
  shows "handed_out op (fold step ops s) \<noteq> Some i"
  using run_keeps_lease [OF assms(1-3)] assms(4) excludes by blast

end

end
