(* ===== verification/Job_Queue.thy ===== *)
theory Job_Queue
  imports Canonical_Json Lease_Contract
begin

text \<open>
  The durable job queue of \<open>src/orchestration/jobs.py\<close> (\<open>SqliteJobQueue\<close>) and its runner,
  \<open>src/orchestration/runner.py\<close> (\<open>DurableRunner.run_once\<close>). The table is the list of its rows, with the
  primary key as an invariant; a row keeps the value its JSON payload decodes to. Times are
  finite floats, read from the clock by the caller. Handlers act on a world of arbitrary type.

  The lemmas show that a lease is exclusive until it expires, and that the runner works off
  the attempts of the jobs it is given.
\<close>

section \<open>Jobs\<close>

record job =
  jb_job_id :: string
  jb_workflow_id :: string
  jb_kind :: string
  jb_payload :: json
  jb_status :: string
  jb_attempts :: int
  jb_max_attempts :: int
  jb_not_before :: rat
  jb_lease_until :: "rat option"
  jb_last_error :: "string option"

type_synonym job_queue = "job list"

definition get_job :: "job_queue \<Rightarrow> string \<Rightarrow> job option" where
  "get_job q job_id = find (\<lambda>j. jb_job_id j = job_id) q"

text \<open>\<open>UPDATE jobs SET ... WHERE job_id = ?\<close>.\<close>

definition update_job :: "string \<Rightarrow> (job \<Rightarrow> job) \<Rightarrow> job_queue \<Rightarrow> job_queue" where
  "update_job job_id f q = map (\<lambda>j. if jb_job_id j = job_id then f j else j) q"

definition enqueue ::
    "string \<Rightarrow> string \<Rightarrow> string \<Rightarrow> json \<Rightarrow> int \<Rightarrow> rat option \<Rightarrow> rat \<Rightarrow> job_queue \<Rightarrow> bool \<times> job_queue" where
  "enqueue job_id workflow_id kind payload max_attempts not_before clock q =
     (if get_job q job_id \<noteq> None then (False, q)
      else (True, q @ [\<lparr>jb_job_id = job_id, jb_workflow_id = workflow_id, jb_kind = kind,
        jb_payload = json_norm payload, jb_status = ''queued'', jb_attempts = 0, jb_max_attempts = max_attempts,
        jb_not_before = (case not_before of None \<Rightarrow> clock | Some t \<Rightarrow> t), jb_lease_until = None,
        jb_last_error = None\<rparr>]))"

text \<open>The selection of \<open>claim\<close>: the \<open>WHERE\<close> clause, and \<open>ORDER BY not_before, job_id LIMIT 1\<close>.\<close>

definition claimable :: "rat \<Rightarrow> job \<Rightarrow> bool" where
  "claimable current j \<longleftrightarrow>
     jb_status j \<in> {''queued'', ''leased''} \<and> jb_not_before j \<le> current \<and>
     (jb_status j = ''queued'' \<or> (case jb_lease_until j of None \<Rightarrow> True | Some t \<Rightarrow> t \<le> current))"

definition first_claimable :: "rat \<Rightarrow> job_queue \<Rightarrow> job option" where
  "first_claimable current q =
     (case sort_key jb_not_before (sort_key jb_job_id (filter (claimable current) q)) of
        [] \<Rightarrow> None | j # _ \<Rightarrow> Some j)"

definition claim :: "py_std \<Rightarrow> int \<Rightarrow> rat \<Rightarrow> job_queue \<Rightarrow> job option \<times> job_queue" where
  "claim std lease_seconds current q =
     (case first_claimable current q of
        None \<Rightarrow> (None, q)
      | Some row \<Rightarrow>
          let q' = update_job (jb_job_id row) (\<lambda>j. j\<lparr>jb_status := ''leased'', jb_attempts := jb_attempts row + 1,
                jb_lease_until := Some (float_add std current (of_int lease_seconds))\<rparr>) q in
          (get_job q' (jb_job_id row), q'))"

definition complete :: "string \<Rightarrow> job_queue \<Rightarrow> job_queue" where
  "complete job_id q =
     update_job job_id (\<lambda>j. j\<lparr>jb_status := ''completed'', jb_lease_until := None, jb_last_error := None\<rparr>) q"

definition backoff :: "py_std \<Rightarrow> rat \<Rightarrow> rat \<Rightarrow> int \<Rightarrow> rat" where
  "backoff std current base attempts =
     float_add std current (float_mul std base (2 ^ nat (max 0 (attempts - 1))))"

definition fail_job :: "py_std \<Rightarrow> string \<Rightarrow> exn \<Rightarrow> rat \<Rightarrow> rat \<Rightarrow> job_queue \<Rightarrow> (job \<times> job_queue) res" where
  "fail_job std job_id err base_backoff_seconds current q =
     (case get_job q job_id of
        None \<Rightarrow> Inl (KeyError job_id)
      | Some job \<Rightarrow>
          let message = exn_name err @ '': '' @ exn_str err;
              (status, not_before) =
                (if jb_attempts job \<ge> jb_max_attempts job then (''dead_letter'', current)
                 else (''queued'', backoff std current base_backoff_seconds (jb_attempts job)));
              q' = update_job job_id (\<lambda>j. j\<lparr>jb_status := status, jb_not_before := not_before,
                     jb_lease_until := None, jb_last_error := Some message\<rparr>) q in
          (case get_job q' job_id of
             None \<Rightarrow> Inl (OtherError ''AssertionError'' [])
           | Some updated \<Rightarrow> Inr (updated, q')))"

section \<open>The runner\<close>

record 'w runner =
  rn_handlers :: "string \<Rightarrow> (job \<Rightarrow> 'w \<Rightarrow> unit res \<times> 'w) option"
  rn_lease_seconds :: int
  rn_base_backoff_seconds :: rat

text \<open>One pass, with the clock as \<open>claim\<close> and as \<open>fail\<close> read it (both are \<open>now\<close> when it is given).\<close>

definition run_once ::
    "py_std \<Rightarrow> 'w runner \<Rightarrow> rat \<Rightarrow> rat \<Rightarrow> job_queue \<times> 'w \<Rightarrow> string res \<times> (job_queue \<times> 'w)" where
  "run_once std r t_claim t_fail s =
     (case claim std (rn_lease_seconds r) t_claim (fst s) of
        (None, q) \<Rightarrow> (Inr ''idle'', (q, snd s))
      | (Some job, q) \<Rightarrow>
          (case rn_handlers r (jb_kind job) of
             None \<Rightarrow>
               (case fail_job std (jb_job_id job) (KeyError (''no handler registered for job kind '' @ jb_kind job))
                    (rn_base_backoff_seconds r) t_fail q of
                  Inl e \<Rightarrow> (Inl e, (q, snd s))
                | Inr (updated, q') \<Rightarrow> (Inr ''failed'', (q', snd s)))
           | Some handler \<Rightarrow>
               (case handler job (snd s) of
                  (Inl exc, w') \<Rightarrow>
                    (case fail_job std (jb_job_id job) exc (rn_base_backoff_seconds r) t_fail q of
                       Inl e \<Rightarrow> (Inl e, (q, w'))
                     | Inr (updated, q') \<Rightarrow>
                         (Inr (if jb_status updated = ''dead_letter'' then ''dead_letter'' else ''retry''), (q', w')))
                | (Inr _, w') \<Rightarrow> (Inr ''completed'', (complete (jb_job_id job) q, w')))))"

section \<open>Rows\<close>

definition queue_wf :: "job_queue \<Rightarrow> bool" where
  "queue_wf q \<longleftrightarrow> distinct (map jb_job_id q)"

lemma ids_update [simp]: "\<lbrakk>\<And>j. jb_job_id (f j) = jb_job_id j\<rbrakk> \<Longrightarrow> map jb_job_id (update_job k f q) = map jb_job_id q"
  by (induction q) (auto simp: update_job_def)

lemma get_update:
  assumes "\<And>j. jb_job_id (f j) = jb_job_id j"
  shows "get_job (update_job k f q) i = (if i = k then map_option f (get_job q i) else get_job q i)"
  using assms by (induction q) (auto simp: get_job_def update_job_def)

lemma get_job_mem: "get_job q i = Some j \<Longrightarrow> j \<in> set q \<and> jb_job_id j = i"
  by (auto simp: get_job_def dest: find_SomeD)

lemma get_job_wf: "queue_wf q \<Longrightarrow> j \<in> set q \<Longrightarrow> get_job q (jb_job_id j) = Some j"
  by (induction q) (auto simp: queue_wf_def get_job_def)

lemma get_job_None: "get_job q i = None \<longleftrightarrow> i \<notin> jb_job_id ` set q"
  by (induction q) (auto simp: get_job_def)

lemma set_update: "set (update_job k f q) = (\<lambda>j. if jb_job_id j = k then f j else j) ` set q"
  by (simp add: update_job_def)

lemma first_claimable_Some:
  assumes "first_claimable t q = Some j"
  shows "j \<in> set q \<and> claimable t j \<and>
     (\<forall>k \<in> set q. claimable t k \<longrightarrow>
        jb_not_before j < jb_not_before k \<or> (jb_not_before j = jb_not_before k \<and> jb_job_id j \<le> jb_job_id k))"
proof -
  let ?xs = "filter (claimable t) q" and ?ys = "sort_key jb_job_id (filter (claimable t) q)"
  obtain zs where zs: "sort_key jb_not_before ?ys = j # zs"
    using assms by (auto simp: first_claimable_def split: list.splits)
  then have mem: "j \<in> set ?xs" using set_sort [of jb_not_before ?ys] by (metis list.set_intros(1) set_sort)
  have "jb_not_before j < jb_not_before k \<or> (jb_not_before j = jb_not_before k \<and> jb_job_id j \<le> jb_job_id k)"
    if k: "k \<in> set ?xs" for k
  proof (cases "jb_not_before k = jb_not_before j")
    case False
    have "k \<in> set (j # zs)" using k zs by (metis set_sort)
    moreover have "sorted (map jb_not_before (j # zs))" using zs by (metis sorted_sort_key)
    ultimately show ?thesis using False by (auto simp: order_less_le)
  next
    case True
    have "filter (\<lambda>x. jb_not_before x = jb_not_before j) (j # zs) = filter (\<lambda>x. jb_not_before x = jb_not_before j) ?ys"
      unfolding zs [symmetric] by (rule sort_key_stable)
    then have "j # filter (\<lambda>x. jb_not_before x = jb_not_before j) zs = filter (\<lambda>x. jb_not_before x = jb_not_before j) ?ys"
      by simp
    moreover have "sorted (map jb_job_id (filter (\<lambda>x. jb_not_before x = jb_not_before j) ?ys))"
      using sorted_filter sorted_sort_key by blast
    moreover have "k \<in> set (filter (\<lambda>x. jb_not_before x = jb_not_before j) ?ys)" using k True by simp
    ultimately have "sorted (map jb_job_id (j # filter (\<lambda>x. jb_not_before x = jb_not_before j) zs))"
      "k \<in> set (j # filter (\<lambda>x. jb_not_before x = jb_not_before j) zs)" by simp_all
    then have "jb_job_id j \<le> jb_job_id k" by auto
    with True show ?thesis by simp
  qed
  with mem show ?thesis by auto
qed

lemma first_claimable_None: "first_claimable t q = None \<longleftrightarrow> (\<forall>j \<in> set q. \<not> claimable t j)"
proof -
  have "first_claimable t q = None \<longleftrightarrow> filter (claimable t) q = []"
    by (auto simp: first_claimable_def split: list.splits) (metis length_0_conv length_sort)+
  then show ?thesis by (simp add: filter_empty_conv)
qed

definition leased_row :: "py_std \<Rightarrow> int \<Rightarrow> rat \<Rightarrow> job \<Rightarrow> job" where
  "leased_row std lease t j = j\<lparr>jb_status := ''leased'', jb_attempts := jb_attempts j + 1,
     jb_lease_until := Some (float_add std t (of_int lease))\<rparr>"

lemma leased_row_id [simp]: "jb_job_id (leased_row std l t j) = jb_job_id j"
  by (simp add: leased_row_def)

lemma update_cong: "(\<And>j. j \<in> set q \<Longrightarrow> jb_job_id j = k \<Longrightarrow> f j = g j) \<Longrightarrow> update_job k f q = update_job k g q"
  by (auto simp: update_job_def)

lemma claim_cases:
  assumes "queue_wf q" "claim std lease t q = (out, q')"
  obtains (idle) "out = None" "q' = q" "\<forall>j \<in> set q. \<not> claimable t j"
  | (leased) row where "first_claimable t q = Some row" "row \<in> set q" "claimable t row" "out = Some (leased_row std lease t row)"
      "q' = update_job (jb_job_id row) (leased_row std lease t) q"
proof (cases "first_claimable t q")
  case None
  with assms(2) show ?thesis by (intro idle) (auto simp: claim_def first_claimable_None [symmetric])
next
  case (Some row)
  with first_claimable_Some have row: "row \<in> set q" "claimable t row" by blast+
  let ?f = "\<lambda>j. j\<lparr>jb_status := ''leased'', jb_attempts := jb_attempts row + 1,
     jb_lease_until := Some (float_add std t (of_int lease))\<rparr>"
  have only: "j = row" if "j \<in> set q" "jb_job_id j = jb_job_id row" for j
    using that row(1) assms(1) by (metis get_job_wf option.inject)
  have eq: "update_job (jb_job_id row) ?f q = update_job (jb_job_id row) (leased_row std lease t) q"
    by (rule update_cong) (auto dest: only simp: leased_row_def)
  from assms(2) Some eq have "q' = update_job (jb_job_id row) (leased_row std lease t) q" "out = get_job q' (jb_job_id row)"
    by (auto simp: claim_def Let_def)
  with Some row get_job_wf [OF assms(1) row(1)] show ?thesis
    by (intro leased) (auto simp: get_update)
qed

lemma queue_wf_update: "\<lbrakk>\<And>j. jb_job_id (f j) = jb_job_id j\<rbrakk> \<Longrightarrow> queue_wf (update_job k f q) = queue_wf q"
  by (simp add: queue_wf_def)

lemma fail_job_ok:
  assumes "get_job q i = Some j" "queue_wf q"
  shows "\<exists>u m. fail_job std i e base t q = Inr (u, update_job i (\<lambda>_. u) q) \<and> u = j
     \<lparr>jb_status := (if jb_attempts j \<ge> jb_max_attempts j then ''dead_letter'' else ''queued''),
      jb_not_before := (if jb_attempts j \<ge> jb_max_attempts j then t else backoff std t base (jb_attempts j)),
      jb_lease_until := None, jb_last_error := Some m\<rparr>"
proof -
  define f :: "job \<Rightarrow> job" where "f = (\<lambda>j'. j'\<lparr>jb_status := (if jb_attempts j \<ge> jb_max_attempts j then ''dead_letter'' else ''queued''),
      jb_not_before := (if jb_attempts j \<ge> jb_max_attempts j then t else backoff std t base (jb_attempts j)),
      jb_lease_until := None, jb_last_error := Some (exn_name e @ '': '' @ exn_str e)\<rparr>)"
  have ids: "jb_job_id (f j') = jb_job_id j'" for j' by (simp add: f_def)
  have only: "j' = j" if "j' \<in> set q" "jb_job_id j' = i" for j'
    using that assms(1) get_job_wf [OF assms(2)] by fastforce
  have eq: "update_job i f q = update_job i (\<lambda>_. f j) q" by (rule update_cong) (auto dest: only)
  have "fail_job std i e base t q = (case get_job (update_job i f q) i of
      None \<Rightarrow> Inl (OtherError ''AssertionError'' []) | Some updated \<Rightarrow> Inr (updated, update_job i f q))"
    using assms(1) by (cases "jb_attempts j \<ge> jb_max_attempts j") (unfold fail_job_def Let_def f_def, simp_all)
  also have "... = Inr (f j, update_job i (\<lambda>_. f j) q)"
    using assms(1) get_update [of f i q i] ids by (simp add: eq [symmetric])
  finally have "fail_job std i e base t q = Inr (f j, update_job i (\<lambda>_. f j) q)" .
  then show ?thesis by (intro exI [of _ "f j"] exI [of _ "exn_name e @ '': '' @ exn_str e"]) (simp add: f_def)
qed

section \<open>Leases exclude\<close>

text \<open>The operations on a queue, and runs of them that leave the row of one job to its holder.\<close>

datatype queue_op =
    Enqueue string string string json int "rat option" rat
  | Claim int rat
  | Complete string
  | Fail string exn rat rat

definition apply_op :: "py_std \<Rightarrow> queue_op \<Rightarrow> job_queue \<Rightarrow> job_queue" where
  "apply_op std op q =
     (case op of
        Enqueue i w k p m nb c \<Rightarrow> snd (enqueue i w k p m nb c q)
      | Claim l t \<Rightarrow> snd (claim std l t q)
      | Complete i \<Rightarrow> complete i q
      | Fail i e base t \<Rightarrow> (case fail_job std i e base t q of Inl _ \<Rightarrow> q | Inr (u, q') \<Rightarrow> q'))"

definition others_only :: "string \<Rightarrow> rat \<Rightarrow> queue_op \<Rightarrow> bool" where
  "others_only i limit op \<longleftrightarrow>
     (case op of Enqueue _ _ _ _ _ _ _ \<Rightarrow> True | Claim l t \<Rightarrow> t < limit | Complete k \<Rightarrow> k \<noteq> i | Fail k _ _ _ \<Rightarrow> k \<noteq> i)"

definition held :: "string \<Rightarrow> rat \<Rightarrow> job_queue \<Rightarrow> bool" where
  "held i limit q \<longleftrightarrow> (\<exists>j. get_job q i = Some j \<and> jb_status j = ''leased'' \<and> jb_lease_until j = Some limit)"

lemma enqueue_wf: "queue_wf q \<Longrightarrow> queue_wf (snd (enqueue i w k p m nb c q))"
  by (auto simp: enqueue_def queue_wf_def get_job_None)

lemma enqueue_get: "get_job q i = Some j \<Longrightarrow> get_job (snd (enqueue i' w k p m nb c q)) i = Some j"
  by (auto simp: enqueue_def get_job_def find_append)

lemma claim_wf: "queue_wf q \<Longrightarrow> queue_wf (snd (claim std l t q))"
  by (auto simp: claim_def Let_def queue_wf_def split: option.splits)

lemma claim_keeps_held:
  assumes "queue_wf q" "held i limit q" "t < limit"
  shows "held i limit (snd (claim std l t q)) \<and> (\<forall>j. fst (claim std l t q) = Some j \<longrightarrow> jb_job_id j \<noteq> i)"
proof -
  obtain out q' where c: "claim std l t q = (out, q')" by fastforce
  from assms(2) obtain j where j: "get_job q i = Some j" "jb_status j = ''leased''" "jb_lease_until j = Some limit"
    unfolding held_def by blast
  from assms(1) c show ?thesis
  proof (cases rule: claim_cases)
    case idle
    with assms(2) c show ?thesis by simp
  next
    case (leased row)
    have "jb_job_id row \<noteq> i"
    proof
      assume "jb_job_id row = i"
      with j(1) leased(2) get_job_wf [OF assms(1)] have "row = j" by fastforce
      with leased(3) j(2,3) assms(3) show False by (simp add: claimable_def)
    qed
    with leased c j show ?thesis by (auto simp: held_def get_update)
  qed
qed

lemma complete_get: "k \<noteq> i \<Longrightarrow> get_job (complete k q) i = get_job q i"
  by (simp add: complete_def get_update)

lemma complete_wf: "queue_wf (complete k q) = queue_wf q"
  by (simp add: complete_def queue_wf_update)

lemma fail_job_Inr:
  assumes "fail_job std k e base t q = Inr (u, q')"
  shows "(queue_wf q' = queue_wf q) \<and> (\<forall>i. i \<noteq> k \<longrightarrow> get_job q' i = get_job q i)"
proof -
  from assms obtain f where "q' = update_job k f q" "\<And>j. jb_job_id (f j) = jb_job_id j"
    by (auto simp: fail_job_def Let_def split: option.splits if_splits)
  then show ?thesis by (simp add: queue_wf_update get_update)
qed

lemma apply_op_held:
  assumes "queue_wf q" "held i limit q" "others_only i limit op"
  shows "queue_wf (apply_op std op q) \<and> held i limit (apply_op std op q)"
proof (cases op)
  case (Enqueue i' w k p m nb c)
  with assms enqueue_get enqueue_wf show ?thesis by (fastforce simp: apply_op_def held_def)
next
  case (Claim l t)
  with assms claim_keeps_held claim_wf show ?thesis by (simp add: apply_op_def others_only_def)
next
  case (Complete k)
  with assms show ?thesis by (simp add: apply_op_def others_only_def held_def complete_get complete_wf)
next
  case (Fail k e base t)
  with assms fail_job_Inr show ?thesis
    by (auto simp: apply_op_def others_only_def held_def split: sum.splits) 
qed

text \<open>The job a queue operation hands to a worker.\<close>

definition claimed_job :: "py_std \<Rightarrow> queue_op \<Rightarrow> job_queue \<Rightarrow> string option" where
  "claimed_job std op q = (case op of Claim l t \<Rightarrow> map_option jb_job_id (fst (claim std l t q)) | _ \<Rightarrow> None)"

interpretation job_leases: lease_contract queue_wf held "apply_op std" others_only "claimed_job std" for std
proof
  show "queue_wf (apply_op std op q) \<and> held i limit (apply_op std op q)"
    if "queue_wf q" "held i limit q" "others_only i limit op" for q i limit op
    using that by (rule apply_op_held)
  show "claimed_job std op q \<noteq> Some i" if "queue_wf q" "held i limit q" "others_only i limit op" for q i limit op
    using that claim_keeps_held [OF that(1,2)]
    by (cases op) (auto simp: claimed_job_def others_only_def)
qed

section \<open>Attempts run out\<close>

text \<open>
  Between passes of a runner no row is leased. The work left in a queue is the number of
  attempts its queued jobs still have.
\<close>

definition runner_inv :: "job_queue \<Rightarrow> bool" where
  "runner_inv q \<longleftrightarrow> queue_wf q \<and>
     list_all (\<lambda>j. jb_status j \<in> {''queued'', ''completed'', ''dead_letter''} \<and>
       (jb_status j = ''queued'' \<longrightarrow> jb_attempts j < jb_max_attempts j)) q"

definition attempts_left :: "job \<Rightarrow> nat" where
  "attempts_left j = (if jb_status j = ''queued'' then nat (jb_max_attempts j - jb_attempts j) else 0)"

definition work_left :: "job_queue \<Rightarrow> nat" where
  "work_left q = sum_list (map attempts_left q)"

lemma update_job_absent: "k \<notin> jb_job_id ` set q \<Longrightarrow> update_job k f q = q"
  by (induction q) (auto simp: update_job_def)

lemma work_left_update:
  assumes "queue_wf q" "row \<in> set q" "attempts_left u < attempts_left row"
  shows "work_left (update_job (jb_job_id row) (\<lambda>_. u) q) < work_left q"
  using assms
proof (induction q)
  case (Cons j q)
  show ?case
  proof (cases "j = row")
    case True
    with Cons.prems(1) have "update_job (jb_job_id row) (\<lambda>_. u) q = q"
      by (intro update_job_absent) (auto simp: queue_wf_def)
    with True Cons.prems(3) show ?thesis by (simp add: work_left_def update_job_def)
  next
    case False
    with Cons.prems have "row \<in> set q" "jb_job_id j \<noteq> jb_job_id row" "queue_wf q"
      by (auto simp: queue_wf_def)
    with Cons show ?thesis by (simp add: work_left_def update_job_def)
  qed
qed simp

lemma runner_inv_update:
  assumes "runner_inv q" "jb_job_id u = i" "jb_status u \<in> {''queued'', ''completed'', ''dead_letter''}"
    and "jb_status u = ''queued'' \<longrightarrow> jb_attempts u < jb_max_attempts u"
  shows "runner_inv (update_job i (\<lambda>_. u) q)"
proof -
  have "map jb_job_id (update_job i (\<lambda>_. u) q) = map jb_job_id q"
    using assms(2) by (induction q) (auto simp: update_job_def)
  with assms show ?thesis by (auto simp: runner_inv_def queue_wf_def list_all_iff set_update)
qed

lemma update_twice:
  "(\<And>j. jb_job_id (f j) = jb_job_id j) \<Longrightarrow> update_job i (\<lambda>_. u) (update_job i f q) = update_job i (\<lambda>_. u) q"
  by (simp add: update_job_def)

lemma runner_inv_enqueue:
  "runner_inv q \<Longrightarrow> 1 \<le> m \<Longrightarrow> runner_inv (snd (enqueue i w k p m nb c q))"
  using enqueue_wf [of q] by (auto simp: runner_inv_def enqueue_def list_all_iff)

lemma runner_row:
  assumes "runner_inv q" "row \<in> set q" "claimable t row"
  shows "jb_status row = ''queued'' \<and> jb_attempts row < jb_max_attempts row"
proof -
  have "jb_status row \<in> {''queued'', ''completed'', ''dead_letter''}"
    "jb_status row = ''queued'' \<longrightarrow> jb_attempts row < jb_max_attempts row"
    using assms(1,2) unfolding runner_inv_def list_all_iff by blast+
  moreover have "jb_status row = ''queued'' \<or> jb_status row = ''leased''" using assms(3) by (simp add: claimable_def)
  ultimately show ?thesis by (elim disjE) simp_all
qed

text \<open>What becomes of a leased job: it is completed, queued again with one attempt less, or given up.\<close>

lemma settled_row:
  assumes inv: "runner_inv q" and row: "row \<in> set q" "claimable t row"
    and u: "jb_job_id u = jb_job_id row" "jb_attempts u = jb_attempts row + 1" "jb_max_attempts u = jb_max_attempts row"
    and st: "jb_status u = ''completed'' \<or> jb_status u = ''dead_letter'' \<or>
       (jb_status u = ''queued'' \<and> jb_attempts u < jb_max_attempts u)"
  shows "runner_inv (update_job (jb_job_id row) (\<lambda>_. u) q) \<and>
     work_left (update_job (jb_job_id row) (\<lambda>_. u) q) < work_left q"
proof -
  from runner_row [OF inv row] u st have "attempts_left u < attempts_left row"
    by (auto simp: attempts_left_def)
  moreover have "queue_wf q" using inv by (simp add: runner_inv_def)
  ultimately have "work_left (update_job (jb_job_id row) (\<lambda>_. u) q) < work_left q"
    using work_left_update row(1) by blast
  moreover have "runner_inv (update_job (jb_job_id row) (\<lambda>_. u) q)"
    by (rule runner_inv_update [OF inv u(1)]) (use st in auto)
  ultimately show ?thesis by blast
qed

lemma leased_then_failed:
  assumes inv: "runner_inv q" and row: "row \<in> set q" "claimable t row"
    and q1: "q1 = update_job (jb_job_id row) (leased_row std l t) q"
  shows "\<exists>u. fail_job std (jb_job_id row) e base t2 q1 = Inr (u, update_job (jb_job_id row) (\<lambda>_. u) q) \<and>
     runner_inv (update_job (jb_job_id row) (\<lambda>_. u) q) \<and> work_left (update_job (jb_job_id row) (\<lambda>_. u) q) < work_left q"
proof -
  let ?l = "leased_row std l t"
  from inv have wf: "queue_wf q" "queue_wf q1" by (simp_all add: runner_inv_def q1 queue_wf_update)
  have "get_job q1 (jb_job_id row) = Some (?l row)" using get_job_wf [OF wf(1) row(1)] by (simp add: q1 get_update)
  from fail_job_ok [OF this wf(2)] obtain u m where u: "fail_job std (jb_job_id row) e base t2 q1 =
      Inr (u, update_job (jb_job_id row) (\<lambda>_. u) q1)"
    "u = (?l row)\<lparr>jb_status := (if jb_attempts (?l row) \<ge> jb_max_attempts (?l row) then ''dead_letter'' else ''queued''),
       jb_not_before := (if jb_attempts (?l row) \<ge> jb_max_attempts (?l row) then t2
         else backoff std t2 base (jb_attempts (?l row))),
       jb_lease_until := None, jb_last_error := Some m\<rparr>" by blast
  from u(2) have "runner_inv (update_job (jb_job_id row) (\<lambda>_. u) q) \<and>
      work_left (update_job (jb_job_id row) (\<lambda>_. u) q) < work_left q"
    by (intro settled_row [OF inv row]) (auto simp: leased_row_def)
  with u(1) show ?thesis by (simp add: q1 update_twice)
qed

lemma leased_then_completed:
  assumes inv: "runner_inv q" and row: "row \<in> set q" "claimable t row"
    and q1: "q1 = update_job (jb_job_id row) (leased_row std l t) q"
  shows "runner_inv (complete (jb_job_id row) q1) \<and> work_left (complete (jb_job_id row) q1) < work_left q"
proof -
  let ?done = "(leased_row std l t row)\<lparr>jb_status := ''completed'', jb_lease_until := None, jb_last_error := None\<rparr>"
  have "j = row" if "j \<in> set q" "jb_job_id j = jb_job_id row" for j
    using that row(1) inv by (metis get_job_wf option.inject runner_inv_def)
  then have "complete (jb_job_id row) q1 = update_job (jb_job_id row) (\<lambda>_. ?done) q"
    unfolding complete_def q1 update_job_def by auto
  moreover have "runner_inv (update_job (jb_job_id row) (\<lambda>_. ?done) q) \<and>
      work_left (update_job (jb_job_id row) (\<lambda>_. ?done) q) < work_left q"
    by (intro settled_row [OF inv row]) (auto simp: leased_row_def)
  ultimately show ?thesis by simp
qed

lemma run_once_step:
  assumes inv: "runner_inv q"
  shows "case run_once std r t1 t2 (q, w) of
     (Inl e, s) \<Rightarrow> False
   | (Inr m, (q', w')) \<Rightarrow> runner_inv q' \<and>
       (m = ''idle'' \<and> q' = q \<and> (\<forall>j \<in> set q. \<not> claimable t1 j) \<or> m \<noteq> ''idle'' \<and> work_left q' < work_left q)"
proof -
  from inv have wf: "queue_wf q" by (simp add: runner_inv_def)
  obtain out q1 where c: "claim std (rn_lease_seconds r) t1 q = (out, q1)" by fastforce
  from wf c show ?thesis
  proof (cases rule: claim_cases)
    case idle
    with inv c show ?thesis by (simp add: run_once_def)
  next
    case (leased row)
    let ?job = "leased_row std (rn_lease_seconds r) t1 row"
    note failed = leased_then_failed [OF inv leased(2,3,5), where base = "rn_base_backoff_seconds r" and ?t2.0 = t2]
    note run = run_once_def c leased(4)
    show ?thesis
    proof (cases "rn_handlers r (jb_kind ?job)")
      case None
      with failed [of "KeyError (''no handler registered for job kind '' @ jb_kind ?job)"] show ?thesis
        by (auto simp: run simp del: append_Cons append_Nil)
    next
      case (Some h)
      obtain o1 w1 where h: "h ?job w = (o1, w1)" by fastforce
      show ?thesis
      proof (cases o1)
        case (Inl e)
        with failed [of e] show ?thesis by (auto simp: run Some h)
      next
        case (Inr x)
        with leased_then_completed [OF inv leased(2,3,5)] show ?thesis by (simp add: run Some h)
      qed
    qed
  qed
qed

section \<open>Properties\<close>

text \<open>A lease excludes every other worker until it expires: once a job has been claimed, any sequence
  of enqueues, of claims before the lease expires and of completions and failures of other jobs
  leaves it leased, and no claim before that time returns it again.\<close>

theorem lease_excludes:
  assumes "queue_wf q" "claim std lease t q = (Some j, q1)"
    and "limit = float_add std t (of_int lease)"
    and "list_all (others_only (jb_job_id j) limit) ops" "t' < limit"
  shows "case claim std lease' t' (fold (apply_op std) ops q1) of (out, q2) \<Rightarrow> map_option jb_job_id out \<noteq> Some (jb_job_id j)"
proof -
  from assms(1,2) have "queue_wf q1 \<and> held (jb_job_id j) limit q1"
  proof (cases rule: claim_cases)
    case (leased row)
    with assms(1,3) get_job_wf [OF assms(1)] show ?thesis
      by (auto simp: queue_wf_update held_def get_update) (simp_all add: leased_row_def)
  qed simp
  from job_leases.exclusive [OF conjunct1 [OF this] conjunct2 [OF this] assms(4), of "Claim lease' t'" std] assms(5)
  show ?thesis by (simp add: claimed_job_def others_only_def split: prod.splits)
qed

definition sample_job :: job where
  "sample_job = \<lparr>jb_job_id = ''job-1'', jb_workflow_id = ''wf-1'', jb_kind = ''remediate'', jb_payload = JObj [],
     jb_status = ''queued'', jb_attempts = 0, jb_max_attempts = 2, jb_not_before = 0, jb_lease_until = None, jb_last_error = None\<rparr>"

lemma sample_claim:
  "claim fixture_std 60 10 [sample_job] =
     (Some (leased_row fixture_std 60 10 sample_job), [leased_row fixture_std 60 10 sample_job])"
  by code_simp

theorem lease_excludes_witness:
  "case claim fixture_std 60 69 (fold (apply_op fixture_std) [Claim 60 20] [leased_row fixture_std 60 10 sample_job]) of
     (out, q2) \<Rightarrow> map_option jb_job_id out \<noteq> Some ''job-1''"
  using lease_excludes [OF _ sample_claim refl, of "[Claim 60 20]" 69 60]
  by (simp add: queue_wf_def others_only_def fixture_std_def sample_job_def)

fun run_many :: "py_std \<Rightarrow> 'w runner \<Rightarrow> (rat \<times> rat) list \<Rightarrow> job_queue \<times> 'w \<Rightarrow> string res list \<times> (job_queue \<times> 'w)" where
  "run_many std r [] s = ([], s)"
| "run_many std r ((t1, t2) # ts) s =
     (case run_once std r t1 t2 s of (m, s') \<Rightarrow> (case run_many std r ts s' of (ms, s'') \<Rightarrow> (m # ms, s'')))"

lemma run_many_bound:
  assumes "runner_inv q" "run_many std r ts (q, w) = (ms, (q', w'))"
  shows "runner_inv q' \<and> (\<forall>m \<in> set ms. \<exists>x. m = Inr x) \<and>
     length (filter (\<lambda>m. m \<noteq> Inr ''idle'') ms) + work_left q' \<le> work_left q"
  using assms
proof (induction ts arbitrary: q w ms)
  case (Cons t ts)
  obtain t1 t2 where t: "t = (t1, t2)" by fastforce
  obtain m q1 w1 where once: "run_once std r t1 t2 (q, w) = (Inr m, (q1, w1))"
    and step: "runner_inv q1" "m = ''idle'' \<and> q1 = q \<or> m \<noteq> ''idle'' \<and> work_left q1 < work_left q"
    using run_once_step [OF Cons.prems(1), where std = std and r = r and ?t1.0 = t1 and ?t2.0 = t2 and w = w] by (auto split: prod.splits sum.splits)
  obtain ms' where rest: "run_many std r ts (q1, w1) = (ms', (q', w'))" "ms = Inr m # ms'"
    using Cons.prems(2) once t by (auto split: prod.splits)
  from Cons.IH [OF step(1) rest(1)] step(2) rest(2) show ?case by auto
qed simp

lemma idle_drained:
  assumes "runner_inv q" "\<forall>j \<in> set q. \<not> claimable t j" "\<forall>j \<in> set q. jb_not_before j \<le> t" "j \<in> set q"
  shows "jb_status j = ''completed'' \<or> jb_status j = ''dead_letter''"
  using assms by (auto simp: runner_inv_def list_all_iff claimable_def)

text \<open>The runner works the queue off: from a queue of jobs with at least one attempt each, every pass
  returns a result and, whatever the handlers do, either finds nothing to claim or uses up an
  attempt, so at most as many passes do work as there were attempts; a queue that is idle at a
  time when every queued job is due has only completed and dead-lettered jobs.\<close>

theorem runner_works_off:
  assumes "runner_inv q" "run_many std r ts (q, w) = (ms, (q', w'))"
  shows "(\<forall>m \<in> set ms. \<exists>x. m = Inr x) \<and> length (filter (\<lambda>m. m \<noteq> Inr ''idle'') ms) \<le> work_left q \<and>
     (\<forall>t t'. (\<forall>j \<in> set q'. jb_not_before j \<le> t) \<and> fst (run_once std r t t' (q', w')) = Inr ''idle'' \<longrightarrow>
        (\<forall>j \<in> set q'. jb_status j = ''completed'' \<or> jb_status j = ''dead_letter''))"
proof -
  from run_many_bound [OF assms] have inv: "runner_inv q'" and 1: "(\<forall>m \<in> set ms. \<exists>x. m = Inr x) \<and>
      length (filter (\<lambda>m. m \<noteq> Inr ''idle'') ms) \<le> work_left q" by auto
  have "\<forall>j \<in> set q'. \<not> claimable t j" if "fst (run_once std r t t' (q', w')) = Inr ''idle''" for t t'
    using run_once_step [OF inv, where std = std and r = r and ?t1.0 = t and ?t2.0 = t' and w = w'] that by (auto split: prod.splits sum.splits)
  with idle_drained [OF inv] 1 show ?thesis by blast
qed

definition sample_runner :: "nat runner" where
  "sample_runner = \<lparr>rn_handlers = (\<lambda>k. Some (\<lambda>j n. if n = 0 then (Inl (RuntimeError ''down''), 1) else (Inr (), n))),
     rn_lease_seconds = 60, rn_base_backoff_seconds = 5\<rparr>"

theorem runner_works_off_witness:
  "fst (run_many fixture_std sample_runner [(0, 0), (1, 1), (5, 5), (6, 6)] ([sample_job], 0)) =
     [Inr ''retry'', Inr ''idle'', Inr ''completed'', Inr ''idle''] \<and> work_left [sample_job] = 2"
proof -
  have inv: "runner_inv [sample_job]" by code_simp
  obtain q w where run: "run_many fixture_std sample_runner [(0, 0), (1, 1), (5, 5), (6, 6)] ([sample_job], 0) =
      (fst (run_many fixture_std sample_runner [(0, 0), (1, 1), (5, 5), (6, 6)] ([sample_job], 0)), (q, w))"
    by (metis prod.collapse)
  have "fst (run_many fixture_std sample_runner [(0, 0), (1, 1), (5, 5), (6, 6)] ([sample_job], 0)) =
     [Inr ''retry'', Inr ''idle'', Inr ''completed'', Inr ''idle'']" by code_simp
  moreover have "work_left [sample_job] = 2" by code_simp
  ultimately show ?thesis using runner_works_off [OF inv run] by simp
qed

text \<open>A crashing worker is never given up: a job whose lease has expired is claimed again although its
  attempts have reached the maximum, and is not dead-lettered.\<close>

theorem expired_lease_exceeds_attempts:
  assumes "jb_status j = ''leased''" "jb_lease_until j = Some l" "l \<le> t" "jb_not_before j \<le> t"
    and "jb_attempts j \<ge> jb_max_attempts j"
  shows "\<exists>j'. claim std lease t [j] = (Some j', [j']) \<and> jb_attempts j' > jb_max_attempts j' \<and> jb_status j' = ''leased''"
  using assms by (simp add: claim_def first_claimable_def claimable_def update_job_def get_job_def Let_def)

theorem expired_lease_exceeds_attempts_witness:
  "\<exists>j'. claim fixture_std 60 100 [sample_job\<lparr>jb_status := ''leased'', jb_attempts := 2, jb_lease_until := Some 70\<rparr>] =
     (Some j', [j']) \<and> jb_attempts j' > jb_max_attempts j'"
  using expired_lease_exceeds_attempts [of "sample_job\<lparr>jb_status := ''leased'', jb_attempts := 2, jb_lease_until := Some 70\<rparr>" 70 100 fixture_std 60]
  by (auto simp: sample_job_def)

text \<open>A late failure reopens a completed job: \<open>fail\<close> does not look at the status or at a lease token,
  so a worker whose lease had expired requeues the job another worker has completed.\<close>

theorem late_failure_requeues:
  assumes "queue_wf q" "get_job q i = Some j" "jb_status j = ''completed''" "jb_attempts j < jb_max_attempts j"
  shows "\<exists>u q'. fail_job std i e base t q = Inr (u, q') \<and> jb_status u = ''queued''"
  using fail_job_ok [OF assms(2,1), of std e base t] assms(4) by fastforce

theorem late_failure_requeues_witness:
  "\<exists>u q'. fail_job fixture_std ''job-1'' (RuntimeError ''late'') 5 100
     [sample_job\<lparr>jb_status := ''completed'', jb_attempts := 1\<rparr>] = Inr (u, q') \<and> jb_status u = ''queued''"
  using late_failure_requeues [of "[sample_job\<lparr>jb_status := ''completed'', jb_attempts := 1\<rparr>]" "''job-1''"
      "sample_job\<lparr>jb_status := ''completed'', jb_attempts := 1\<rparr>" fixture_std "RuntimeError ''late''" 5 100]
  by (simp add: queue_wf_def get_job_def sample_job_def)

end
