(* ===== verification/Dependency_Boundary.thy ===== *)
theory Dependency_Boundary
  imports Canonical_Json "HOL-Library.Multiset"
begin

text \<open>
  The bulkhead and circuit breaker of \<open>src/resilience/dependencies.py\<close>. The semaphore, the lock and
  the breaker's fields are one record; each critical section under the lock is one step. A
  call is the composition of its beginning (capacity and admission), the operation and its end
  (the record of the outcome and the release of the capacity), and concurrent calls are the
  interleavings of their beginnings and ends: the relation \<open>boundary_run\<close>. Times are the values of
  the monotonic clock, added with the float addition of the standard library.
\<close>

section \<open>Limits and state\<close>

datatype dependency_state = CLOSED | OPENED | HALF_OPEN

record dependency_limits =
  dl_max_in_flight :: int
  dl_failure_threshold :: int
  dl_recovery_seconds :: rat

definition new_limits :: "int \<Rightarrow> int \<Rightarrow> rat \<Rightarrow> dependency_limits res" where
  "new_limits max_in_flight failure_threshold recovery_seconds =
     (if max_in_flight < 1 then Inl (ValueError ''max_in_flight must be at least one'')
      else if failure_threshold < 1 then Inl (ValueError ''failure_threshold must be at least one'')
      else if recovery_seconds \<le> 0 then Inl (ValueError ''recovery_seconds must be positive'')
      else Inr \<lparr>dl_max_in_flight = max_in_flight, dl_failure_threshold = failure_threshold,
        dl_recovery_seconds = recovery_seconds\<rparr>)"

definition DEFAULT_DEPENDENCY_LIMITS :: dependency_limits where
  "DEFAULT_DEPENDENCY_LIMITS = \<lparr>dl_max_in_flight = 8, dl_failure_threshold = 3, dl_recovery_seconds = 30\<rparr>"

record dependency_health =
  dh_dependency :: string
  dh_state :: dependency_state
  dh_consecutive_transient_failures :: int
  dh_retry_after_seconds :: rat

record admission =
  adm_generation :: int
  adm_half_open_probe :: bool

record boundary =
  db_dependency :: string
  db_limits :: dependency_limits
  db_capacity :: int
  db_consecutive_transient_failures :: int
  db_open_until :: "rat option"
  db_half_open_probe_active :: bool
  db_generation :: int

definition new_boundary :: "string \<Rightarrow> dependency_limits \<Rightarrow> boundary res" where
  "new_boundary dependency limits =
     (if py_strip dependency = [] then Inl (ValueError ''dependency must be non-blank'')
      else Inr \<lparr>db_dependency = dependency, db_limits = limits, db_capacity = dl_max_in_flight limits,
        db_consecutive_transient_failures = 0, db_open_until = None, db_half_open_probe_active = False,
        db_generation = 0\<rparr>)"

definition health :: "rat \<Rightarrow> boundary \<Rightarrow> dependency_health" where
  "health now b =
     (let (state, retry_after) =
        (case db_open_until b of
           None \<Rightarrow> (CLOSED, 0)
         | Some t \<Rightarrow> if t > now then (OPENED, t - now) else (HALF_OPEN, 0)) in
      \<lparr>dh_dependency = db_dependency b, dh_state = state,
       dh_consecutive_transient_failures = db_consecutive_transient_failures b,
       dh_retry_after_seconds = retry_after\<rparr>)"

section \<open>Admission and outcomes\<close>

definition admit :: "rat \<Rightarrow> boundary \<Rightarrow> admission res \<times> boundary" where
  "admit now b =
     (case db_open_until b of
        Some t \<Rightarrow>
          if t > now then (Inl (DependencyUnavailable (db_dependency b) ''circuit is open''), b)
          else if db_half_open_probe_active b
          then (Inl (DependencyUnavailable (db_dependency b) ''recovery probe is already in flight''), b)
          else (Inr \<lparr>adm_generation = db_generation b, adm_half_open_probe = True\<rparr>,
                b\<lparr>db_half_open_probe_active := True\<rparr>)
      | None \<Rightarrow> (Inr \<lparr>adm_generation = db_generation b, adm_half_open_probe = False\<rparr>, b))"

definition record_success :: "admission \<Rightarrow> boundary \<Rightarrow> boundary" where
  "record_success adm b =
     (if adm_generation adm \<noteq> db_generation b then b
      else if db_open_until b \<noteq> None \<and> \<not> adm_half_open_probe adm then b
      else b\<lparr>db_consecutive_transient_failures := 0, db_open_until := None, db_half_open_probe_active := False\<rparr>)"

definition record_transient_failure :: "py_std \<Rightarrow> rat \<Rightarrow> admission \<Rightarrow> boundary \<Rightarrow> boundary" where
  "record_transient_failure std now adm b =
     (if adm_generation adm \<noteq> db_generation b then b
      else
        let failures = db_consecutive_transient_failures b + 1;
            b1 = b\<lparr>db_consecutive_transient_failures := failures\<rparr>;
            b2 = (if adm_half_open_probe adm \<or> failures \<ge> dl_failure_threshold (db_limits b)
                  then b1\<lparr>db_open_until := Some (float_add std now (dl_recovery_seconds (db_limits b))),
                          db_generation := db_generation b + 1\<rparr>
                  else b1) in
        b2\<lparr>db_half_open_probe_active := False\<rparr>)"

text \<open>The beginning of \<open>call\<close>: a refused admission gives its capacity back.\<close>

definition call_begin :: "rat \<Rightarrow> boundary \<Rightarrow> admission res \<times> boundary" where
  "call_begin now b =
     (if db_capacity b \<le> 0
      then (Inl (DependencyUnavailable (db_dependency b) ''in-flight capacity is exhausted''), b)
      else case admit now (b\<lparr>db_capacity := db_capacity b - 1\<rparr>) of
          (Inl e, b') \<Rightarrow> (Inl e, b'\<lparr>db_capacity := db_capacity b' + 1\<rparr>)
        | (Inr adm, b') \<Rightarrow> (Inr adm, b'))"

text \<open>
  How an operation ends: with a result, with an exception the caller counts as transient, with
  another \<open>Exception\<close>, or with a \<open>BaseException\<close> the handler does not see (an interrupt or a
  cancellation). The capacity is given back in every case.
\<close>

datatype outcome = Returned | TransientError | PermanentError | Interrupted

definition call_end :: "py_std \<Rightarrow> rat \<Rightarrow> outcome \<Rightarrow> admission \<Rightarrow> boundary \<Rightarrow> boundary" where
  "call_end std now out adm b =
     (let b' = (case out of
          Returned \<Rightarrow> record_success adm b
        | TransientError \<Rightarrow> record_transient_failure std now adm b
        | PermanentError \<Rightarrow> if adm_half_open_probe adm then record_success adm b else b
        | Interrupted \<Rightarrow> b) in
      b'\<lparr>db_capacity := db_capacity b' + 1\<rparr>)"

definition outcome_of :: "(exn \<Rightarrow> bool) \<Rightarrow> 'a res \<Rightarrow> outcome" where
  "outcome_of is_transient r =
     (case r of Inr _ \<Rightarrow> Returned | Inl e \<Rightarrow> if is_transient e then TransientError else PermanentError)"

text \<open>One call, with nothing else in flight: the clock is read from the world before and after.\<close>

definition call ::
    "py_std \<Rightarrow> ('w \<Rightarrow> rat) \<Rightarrow> (exn \<Rightarrow> bool) \<Rightarrow> ('w \<Rightarrow> 'a res \<times> 'w) \<Rightarrow> boundary \<times> 'w \<Rightarrow> 'a res \<times> (boundary \<times> 'w)" where
  "call std clock is_transient operation s =
     (case call_begin (clock (snd s)) (fst s) of
        (Inl e, b) \<Rightarrow> (Inl e, (b, snd s))
      | (Inr adm, b) \<Rightarrow>
          (case operation (snd s) of
             (r, w') \<Rightarrow> (r, (call_end std (clock w') (outcome_of is_transient r) adm b, w'))))"

section \<open>Interleaved calls\<close>

text \<open>The state of a boundary with the admissions of the calls in flight.\<close>

inductive boundary_run :: "py_std \<Rightarrow> boundary \<Rightarrow> boundary \<Rightarrow> admission multiset \<Rightarrow> bool"
  for std :: py_std and b0 :: boundary where
  run_start: "boundary_run std b0 b0 {#}"
| run_begin: "boundary_run std b0 b fl \<Longrightarrow> call_begin now b = (Inr adm, b') \<Longrightarrow> boundary_run std b0 b' (add_mset adm fl)"
| run_refused: "boundary_run std b0 b fl \<Longrightarrow> call_begin now b = (Inl e, b') \<Longrightarrow> boundary_run std b0 b' fl"
| run_end: "boundary_run std b0 b (add_mset adm fl) \<Longrightarrow> call_end std now out adm b = b' \<Longrightarrow> boundary_run std b0 b' fl"

inductive_cases boundary_run_cases: "boundary_run std b0 b fl"

text \<open>The capacity and the calls in flight share the limit; a probe belongs to the current generation and
  is alone; while the circuit is not closed every other call in flight is of an older one.\<close>

definition call_ok :: "boundary \<Rightarrow> admission \<Rightarrow> bool" where
  "call_ok b a \<longleftrightarrow> adm_generation a \<le> db_generation b \<and>
     (adm_half_open_probe a \<longrightarrow> adm_generation a = db_generation b \<and> db_half_open_probe_active b \<and>
        db_open_until b \<noteq> None) \<and>
     (db_open_until b \<noteq> None \<and> adm_generation a = db_generation b \<longrightarrow> adm_half_open_probe a)"

abbreviation probes :: "admission multiset \<Rightarrow> nat" where
  "probes fl \<equiv> size (filter_mset adm_half_open_probe fl)"

definition boundary_inv :: "boundary \<Rightarrow> admission multiset \<Rightarrow> bool" where
  "boundary_inv b fl \<longleftrightarrow>
     0 \<le> db_capacity b \<and> db_capacity b + int (size fl) = dl_max_in_flight (db_limits b) \<and>
     probes fl \<le> 1 \<and> (\<forall>a \<in># fl. call_ok b a)"

declare filter_mset_eq_mempty_iff [simp del]

lemma call_ok_capacity [simp]: "call_ok (b\<lparr>db_capacity := c\<rparr>) a = call_ok b a"
  by (simp add: call_ok_def)

lemma no_probe_size: "(\<forall>a \<in># fl. \<not> adm_half_open_probe a) \<longleftrightarrow> probes fl = 0"
  by (auto simp: filter_mset_eq_mempty_iff)

lemma call_ok_no_probe:
  assumes "call_ok b a" "\<not> adm_half_open_probe a" "db_generation b \<le> db_generation b'"
    and "db_open_until b' = None \<or> db_generation b < db_generation b'"
  shows "call_ok b' a"
  using assms by (auto simp: call_ok_def)

text \<open>An end that leaves no probe in flight keeps the invariant if the generation does not go back, and
  moves on when the circuit opens.\<close>

lemma inv_no_probe:
  assumes inv: "boundary_inv b (add_mset adm fl)" and np: "\<forall>a \<in># fl. \<not> adm_half_open_probe a"
    and "db_limits b' = db_limits b" "db_capacity b' = db_capacity b + 1" "db_generation b \<le> db_generation b'"
    and "db_open_until b' = None \<or> db_generation b < db_generation b'"
  shows "boundary_inv b' fl"
proof -
  from inv have ok: "\<forall>a \<in># fl. call_ok b a" and cap: "0 \<le> db_capacity b"
      "db_capacity b + 1 + int (size fl) = dl_max_in_flight (db_limits b)" by (simp_all add: boundary_inv_def)
  from ok np assms(5,6) have "\<forall>a \<in># fl. call_ok b' a" using call_ok_no_probe by blast
  with cap np [unfolded no_probe_size] assms(3,4) show ?thesis by (simp add: boundary_inv_def)
qed

lemma inv_release:
  assumes "boundary_inv b (add_mset adm fl)"
  shows "boundary_inv (b\<lparr>db_capacity := db_capacity b + 1\<rparr>) fl"
  using assms by (simp add: boundary_inv_def split: if_splits)

lemma call_begin_admitted:
  "call_begin now b = (Inr adm, b') \<longleftrightarrow>
     db_capacity b > 0 \<and>
     (db_open_until b = None \<and> adm = \<lparr>adm_generation = db_generation b, adm_half_open_probe = False\<rparr> \<and>
        b' = b\<lparr>db_capacity := db_capacity b - 1\<rparr> \<or>
      (\<exists>t. db_open_until b = Some t) \<and> \<not> the (db_open_until b) > now \<and> \<not> db_half_open_probe_active b \<and>
        adm = \<lparr>adm_generation = db_generation b, adm_half_open_probe = True\<rparr> \<and>
        b' = b\<lparr>db_capacity := db_capacity b - 1, db_half_open_probe_active := True\<rparr>)"
  by (auto simp: call_begin_def admit_def split: option.splits)

lemma call_begin_refused:
  "call_begin now b = (Inl e, b') \<Longrightarrow> b' = b"
  by (auto simp: call_begin_def admit_def split: option.splits if_splits)

lemma call_ok_probing:
  "call_ok b a \<Longrightarrow> \<not> db_half_open_probe_active b \<Longrightarrow> call_ok (b\<lparr>db_capacity := c, db_half_open_probe_active := True\<rparr>) a"
  by (auto simp: call_ok_def)

lemma inv_begin:
  assumes inv: "boundary_inv b fl" and adm: "call_begin now b = (Inr adm, b')"
  shows "boundary_inv b' (add_mset adm fl)"
  using adm unfolding call_begin_admitted
proof (elim conjE disjE exE)
  assume new: "0 < db_capacity b" "db_open_until b = None"
    "adm = \<lparr>adm_generation = db_generation b, adm_half_open_probe = False\<rparr>" "b' = b\<lparr>db_capacity := db_capacity b - 1\<rparr>"
  then have "call_ok b adm" by (simp add: call_ok_def)
  with inv new show ?thesis by (simp add: boundary_inv_def)
next
  fix t
  assume o: "0 < db_capacity b" "db_open_until b = Some t" "\<not> db_half_open_probe_active b"
    and new: "adm = \<lparr>adm_generation = db_generation b, adm_half_open_probe = True\<rparr>"
      "b' = b\<lparr>db_capacity := db_capacity b - 1, db_half_open_probe_active := True\<rparr>"
  from inv o(3) have "\<forall>a \<in># fl. \<not> adm_half_open_probe a" by (auto simp: boundary_inv_def call_ok_def)
  then have "probes fl = 0" unfolding no_probe_size .
  moreover have "call_ok b' adm" using o new by (simp add: call_ok_def)
  moreover have "\<forall>a \<in># fl. call_ok b' a" using inv call_ok_probing [OF _ o(3)] by (simp add: boundary_inv_def new(2))
  ultimately show ?thesis using inv o(1) new by (simp add: boundary_inv_def)
qed

lemma record_success_cases:
  obtains "record_success adm b = b"
  | "adm_generation adm = db_generation b" "db_open_until b = None \<or> adm_half_open_probe adm"
    "record_success adm b =
       b\<lparr>db_consecutive_transient_failures := 0, db_open_until := None, db_half_open_probe_active := False\<rparr>"
  unfolding record_success_def by (metis (full_types))

lemma inv_rest_no_probe:
  assumes inv: "boundary_inv b (add_mset adm fl)"
    and "db_open_until b = None \<or> adm_half_open_probe adm"
  shows "\<forall>a \<in># fl. \<not> adm_half_open_probe a"
proof (cases "adm_half_open_probe adm")
  case True
  with inv have "probes fl = 0" by (simp add: boundary_inv_def)
  then show ?thesis unfolding no_probe_size .
next
  case False
  with assms(2) have "db_open_until b = None" by blast
  with inv show ?thesis by (auto simp: boundary_inv_def call_ok_def)
qed

lemma inv_record_success:
  assumes inv: "boundary_inv b (add_mset adm fl)"
  shows "boundary_inv ((record_success adm b)\<lparr>db_capacity := db_capacity (record_success adm b) + 1\<rparr>) fl"
proof (rule record_success_cases [of adm b])
  assume "record_success adm b = b"
  with inv_release [OF inv] show ?thesis by simp
next
  assume c: "db_open_until b = None \<or> adm_half_open_probe adm"
    and eq: "record_success adm b =
       b\<lparr>db_consecutive_transient_failures := 0, db_open_until := None, db_half_open_probe_active := False\<rparr>"
  show ?thesis unfolding eq by (rule inv_no_probe [OF inv inv_rest_no_probe [OF inv c]]) simp_all
qed

lemma inv_record_transient_failure:
  assumes inv: "boundary_inv b (add_mset adm fl)"
  shows "boundary_inv ((record_transient_failure std now adm b)
     \<lparr>db_capacity := db_capacity (record_transient_failure std now adm b) + 1\<rparr>) fl"
proof (cases "adm_generation adm = db_generation b")
  case False
  with inv_release [OF inv] show ?thesis by (simp add: record_transient_failure_def)
next
  case True
  with inv have c: "db_open_until b = None \<or> adm_half_open_probe adm" by (auto simp: boundary_inv_def call_ok_def)
  show ?thesis
  proof (rule inv_no_probe [OF inv inv_rest_no_probe [OF inv c]])
  qed (use True c in \<open>auto simp: record_transient_failure_def Let_def\<close>)
qed

lemma inv_end:
  assumes inv: "boundary_inv b (add_mset adm fl)"
  shows "boundary_inv (call_end std now out adm b) fl"
  using inv_release [OF inv] inv_record_success [OF inv] inv_record_transient_failure [OF inv]
  by (cases out) (simp_all add: call_end_def Let_def)

lemma boundary_run_inv:
  assumes "new_boundary d limits = Inr b0" "dl_max_in_flight limits \<ge> 0" "boundary_run std b0 b fl"
  shows "boundary_inv b fl \<and> db_limits b = limits"
  using assms(3)
proof (induction rule: boundary_run.induct)
  case run_start
  then show ?case using assms(1,2) by (auto simp: new_boundary_def boundary_inv_def split: if_splits)
next
  case (run_begin b fl now adm b')
  then show ?case using inv_begin by (auto simp: call_begin_admitted)
next
  case (run_refused b fl now e b')
  then show ?case using call_begin_refused by blast
next
  case (run_end b adm fl now out b')
  then have "db_limits b' = limits"
    by (auto simp: call_end_def record_success_def record_transient_failure_def Let_def split: outcome.splits if_splits)
  with run_end inv_end show ?case by blast
qed

section \<open>Properties\<close>

text \<open>C25. Bounded concurrency and a single probe: in every interleaving of calls, whatever the operations do
  and however they end, the calls in flight never exceed the limit, the free capacity is the
  rest of it, and at most one recovery probe is in flight.\<close>

theorem in_flight_bounded:
  assumes "new_limits n k r = Inr limits" "new_boundary d limits = Inr b0" "boundary_run std b0 b fl"
  shows "int (size fl) \<le> n \<and> db_capacity b = n - int (size fl) \<and> probes fl \<le> 1"
proof -
  from assms(1) have "dl_max_in_flight limits = n" "0 \<le> n" by (auto simp: new_limits_def split: if_splits)
  with boundary_run_inv [OF assms(2) _ assms(3)] show ?thesis by (auto simp: boundary_inv_def)
qed

text \<open>A late outcome cannot undo the breaker: while the circuit is not closed, the end of any call other
  than the recovery probe, with whatever outcome, changes nothing but the free capacity.\<close>

theorem late_outcome_ignored:
  assumes "new_limits n k r = Inr limits" "new_boundary d limits = Inr b0"
    and "boundary_run std b0 b (add_mset adm fl)"
    and "db_open_until b = Some t" "\<not> adm_half_open_probe adm"
  shows "call_end std now out adm b = b\<lparr>db_capacity := db_capacity b + 1\<rparr>"
proof -
  from assms(1) have "0 \<le> dl_max_in_flight limits" by (auto simp: new_limits_def split: if_splits)
  from boundary_run_inv [OF assms(2) this assms(3)] have "call_ok b adm" by (simp add: boundary_inv_def)
  with assms(4,5) have "adm_generation adm \<noteq> db_generation b" by (auto simp: call_ok_def)
  with assms(5) show ?thesis
    by (cases out) (simp_all add: call_end_def record_success_def record_transient_failure_def)
qed

definition sample_limits :: dependency_limits where
  "sample_limits = \<lparr>dl_max_in_flight = 2, dl_failure_threshold = 1, dl_recovery_seconds = 30\<rparr>"

definition sample_boundary :: boundary where
  "sample_boundary = \<lparr>db_dependency = ''opa'', db_limits = sample_limits, db_capacity = 2,
     db_consecutive_transient_failures = 0, db_open_until = None, db_half_open_probe_active = False, db_generation = 0\<rparr>"

text \<open>Two calls in flight, one of which has failed: the circuit is open and the other is late.\<close>

definition sample_adm :: admission where
  "sample_adm = \<lparr>adm_generation = 0, adm_half_open_probe = False\<rparr>"

definition sample_opened :: boundary where
  "sample_opened = sample_boundary\<lparr>db_capacity := 1, db_consecutive_transient_failures := 1,
     db_open_until := Some 30, db_generation := 1\<rparr>"

lemma sample_boundary_new: "new_limits 2 1 30 = Inr sample_limits" "new_boundary ''opa'' sample_limits = Inr sample_boundary"
  by code_simp+

lemma sample_boundary_run: "boundary_run fixture_std sample_boundary sample_opened (add_mset sample_adm {#})"
proof -
  have b1: "call_begin 0 sample_boundary = (Inr sample_adm, sample_boundary\<lparr>db_capacity := 1\<rparr>)"
    and b2: "call_begin 0 (sample_boundary\<lparr>db_capacity := 1\<rparr>) = (Inr sample_adm, sample_boundary\<lparr>db_capacity := 0\<rparr>)"
    by (simp_all add: call_begin_admitted sample_boundary_def sample_adm_def)
  have e: "call_end fixture_std 0 TransientError sample_adm (sample_boundary\<lparr>db_capacity := 0\<rparr>) = sample_opened"
    by code_simp
  from run_end [OF run_begin [OF run_begin [OF run_start b1] b2] e] show ?thesis .
qed

theorem in_flight_bounded_witness:
  "boundary_run fixture_std sample_boundary sample_opened {#sample_adm#} \<and>
   db_capacity sample_opened = 2 - int (size {#sample_adm#})"
  using in_flight_bounded [OF sample_boundary_new sample_boundary_run] sample_boundary_run by simp

theorem late_outcome_ignored_witness:
  "call_end fixture_std 5 Returned sample_adm sample_opened = sample_opened\<lparr>db_capacity := 2\<rparr> \<and>
   db_open_until sample_opened = Some 30"
  using late_outcome_ignored [OF sample_boundary_new sample_boundary_run, of 30 5 Returned]
  by (simp add: sample_opened_def sample_adm_def)

fun failing_calls :: "py_std \<Rightarrow> rat \<Rightarrow> nat \<Rightarrow> boundary \<Rightarrow> boundary" where
  "failing_calls std now 0 b = b"
| "failing_calls std now (Suc n) b =
     (case call_begin now b of
        (Inl e, b') \<Rightarrow> failing_calls std now n b'
      | (Inr adm, b') \<Rightarrow> failing_calls std now n (call_end std now TransientError adm b'))"

lemma failing_call_closed:
  assumes "db_open_until b = None" "db_capacity b > 0"
  shows "failing_calls std now (Suc n) b = failing_calls std now n
     (if dl_failure_threshold (db_limits b) \<le> db_consecutive_transient_failures b + 1
      then b\<lparr>db_consecutive_transient_failures := db_consecutive_transient_failures b + 1,
             db_open_until := Some (float_add std now (dl_recovery_seconds (db_limits b))),
             db_generation := db_generation b + 1, db_half_open_probe_active := False\<rparr>
      else b\<lparr>db_consecutive_transient_failures := db_consecutive_transient_failures b + 1,
             db_half_open_probe_active := False\<rparr>)"
  using assms by (simp add: call_begin_def admit_def call_end_def record_transient_failure_def Let_def)

lemma failing_calls_opened:
  assumes "db_open_until b = Some t" "now < t"
  shows "failing_calls std now n b = b"
  using assms by (induction n) (simp_all add: call_begin_def admit_def)

lemma failing_calls_from:
  assumes "db_open_until b = None" "db_capacity b > 0" "now < float_add std now (dl_recovery_seconds (db_limits b))"
    and "db_consecutive_transient_failures b < dl_failure_threshold (db_limits b)"
  shows "(db_open_until (failing_calls std now n b) \<noteq> None) =
     (dl_failure_threshold (db_limits b) \<le> db_consecutive_transient_failures b + int n)"
  using assms
proof (induction n arbitrary: b)
  case (Suc n)
  show ?case
  proof (cases "dl_failure_threshold (db_limits b) \<le> db_consecutive_transient_failures b + 1")
    case True
    with Suc.prems show ?thesis
      unfolding failing_call_closed [OF Suc.prems(1,2)]
      by (subst failing_calls_opened [where t = "float_add std now (dl_recovery_seconds (db_limits b))"]) auto
  next
    case False
    let ?b = "b\<lparr>db_consecutive_transient_failures := db_consecutive_transient_failures b + 1,
       db_half_open_probe_active := False\<rparr>"
    have "(db_open_until (failing_calls std now n ?b) \<noteq> None) =
        (dl_failure_threshold (db_limits ?b) \<le> db_consecutive_transient_failures ?b + int n)"
      by (rule Suc.IH) (use Suc.prems False in simp_all)
    with False show ?thesis unfolding failing_call_closed [OF Suc.prems(1,2)] by (simp add: algebra_simps)
  qed
qed simp

text \<open>The circuit opens after exactly the configured number of consecutive transient failures: after a
  number of calls that all fail transiently, one at a time and before any recovery, a new
  boundary is open if and only if that number has reached the threshold, and every later call
  before the recovery time is refused without touching the dependency.\<close>

theorem opens_at_threshold:
  assumes "new_limits m k r = Inr limits" "new_boundary d limits = Inr b0" "now < float_add std now r"
  shows "(dh_state (health now (failing_calls std now n b0)) = OPENED) = (k \<le> int n)"
proof -
  from assms(1,2) have b0: "db_open_until b0 = None" "db_capacity b0 > 0" "db_consecutive_transient_failures b0 = 0"
      "dl_failure_threshold (db_limits b0) = k" "0 < k" "dl_recovery_seconds (db_limits b0) = r"
    by (auto simp: new_limits_def new_boundary_def split: if_splits)
  have "db_open_until (failing_calls std now n b) = None \<or> db_open_until (failing_calls std now n b) = Some (float_add std now r)"
    if "db_open_until b = None" "db_capacity b > 0" "dl_recovery_seconds (db_limits b) = r" for b
    using that
  proof (induction n arbitrary: b)
    case (Suc n)
    then show ?case unfolding failing_call_closed [OF Suc.prems(1,2)]
      using assms(3) by (auto simp: failing_calls_opened [where t = "float_add std now r"])
  qed simp
  from this [OF b0(1,2,6)] assms(3) have "(dh_state (health now (failing_calls std now n b0)) = OPENED) =
      (db_open_until (failing_calls std now n b0) \<noteq> None)"
    by (auto simp: health_def)
  with failing_calls_from [of b0 now std n] b0 assms(3) show ?thesis by simp
qed

theorem opens_at_threshold_witness:
  "dh_state (health 0 (failing_calls fixture_std 0 1 sample_boundary)) = OPENED \<and>
   dh_state (health 0 (failing_calls fixture_std 0 0 sample_boundary)) = CLOSED"
  using opens_at_threshold [OF sample_boundary_new, of 0 fixture_std 1] by (simp add: fixture_std_def health_def sample_boundary_def)

text \<open>An interrupted probe wedges the boundary: if the recovery probe ends with an exception that is not
  an \<open>Exception\<close> (an interrupt or a cancellation), every later call, at any time, is refused.\<close>

theorem interrupted_probe_wedges:
  assumes "db_open_until b = Some t" "t \<le> now" "db_half_open_probe_active b = False" "db_capacity b > 0"
  shows "\<exists>adm b'. call_begin now b = (Inr adm, b') \<and>
     (\<forall>later std at_end. \<exists>e. fst (call_begin later (call_end std at_end Interrupted adm b')) = Inl e)"
  using assms by (auto simp: call_begin_def admit_def call_end_def)

theorem interrupted_probe_wedges_witness:
  "\<exists>adm b'. call_begin 40 sample_opened = (Inr adm, b') \<and>
     (\<exists>e. fst (call_begin 1000 (call_end fixture_std 50 Interrupted adm b')) = Inl e)"
  using interrupted_probe_wedges [of sample_opened 30 40] by (auto simp: sample_opened_def sample_boundary_def)

end
