(* ===== verification/Cosmos_Store.thy ===== *)
theory Cosmos_Store
  imports Lifecycle_History
begin

text \<open>
  The Cosmos state backend, \<open>src/state/cosmos_store.py\<close>: documents and their decoding,
  conditional writes guarded by \<open>_etag\<close>, and the transactional batch that commits a workflow
  update together with its idempotency receipt.

  The container is the argument \<open>container\<close>: its four operations on a world that other clients
  share. Two descriptions of it are used, both stating documented behaviour of the service: alone
  (\<open>sequential_container\<close>) and among other clients (\<open>shared_container\<close>). Under the first the
  backend refines the SQLite store; under the second a transition it commits is atomic.
\<close>

section \<open>Containers\<close>

type_synonym item = "(string \<times> json) list"

datatype batch_operation =
    BatchCreate item
  | BatchReplace string item string

record 'c container =
  ct_read_item :: "string \<Rightarrow> string \<Rightarrow> 'c \<Rightarrow> item res \<times> 'c"
  ct_create_item :: "item \<Rightarrow> 'c \<Rightarrow> item res \<times> 'c"
  ct_replace_item :: "string \<Rightarrow> item \<Rightarrow> string \<Rightarrow> 'c \<Rightarrow> item res \<times> 'c"
  ct_execute_item_batch :: "batch_operation list \<Rightarrow> string \<Rightarrow> 'c \<Rightarrow> unit res \<times> 'c"

abbreviation CosmosStoredStateError :: "string \<Rightarrow> exn" where
  "CosmosStoredStateError m \<equiv> OtherError ''CosmosStoredStateError'' m"

abbreviation cosmos_not_found :: "string \<Rightarrow> exn" where
  "cosmos_not_found m \<equiv> OtherError ''CosmosResourceNotFoundError'' m"

abbreviation cosmos_batch_error :: "string \<Rightarrow> exn" where
  "cosmos_batch_error m \<equiv> OtherError ''CosmosBatchOperationError'' m"

definition raised_as :: "string list \<Rightarrow> exn \<Rightarrow> bool" where
  "raised_as names e = (exn_name e \<in> set names)"

section \<open>Fields of a document\<close>

definition field_error :: "string \<Rightarrow> string \<Rightarrow> exn" where
  "field_error field rest = CosmosStoredStateError (''Cosmos field '' @ [CHR 0x27] @ field @ [CHR 0x27] @ rest)"

definition mapping_field :: "item \<Rightarrow> string \<Rightarrow> item res" where
  "mapping_field payload field =
     (case map_of payload field of
        Some (JObj kvs) \<Rightarrow> Inr kvs
      | _ \<Rightarrow> Inl (field_error field '' must be an object''))"

definition text_field :: "item \<Rightarrow> string \<Rightarrow> string res" where
  "text_field payload field =
     (case map_of payload field of
        Some (JStr s) \<Rightarrow> if s = [] then Inl (field_error field '' must be a non-blank string'') else Inr s
      | _ \<Rightarrow> Inl (field_error field '' must be a non-blank string''))"

definition optional_text_field :: "item \<Rightarrow> string \<Rightarrow> string option res" where
  "optional_text_field payload field =
     (case map_of payload field of
        None \<Rightarrow> Inr None
      | Some JNull \<Rightarrow> Inr None
      | Some (JStr s) \<Rightarrow> if s = [] then Inl (field_error field '' must be a non-blank string when set'') else Inr (Some s)
      | _ \<Rightarrow> Inl (field_error field '' must be a non-blank string when set''))"

definition integer_field :: "item \<Rightarrow> string \<Rightarrow> int \<Rightarrow> int res" where
  "integer_field payload field minimum =
     (case map_of payload field of
        Some (JInt i) \<Rightarrow>
          if i < minimum then Inl (field_error field ('' must be an integer >= '' @ str_int minimum)) else Inr i
      | _ \<Rightarrow> Inl (field_error field ('' must be an integer >= '' @ str_int minimum)))"

text \<open>\<open>float(value)\<close> rounds an integer to the nearest double and raises when there is none.\<close>

definition float_of_int :: "py_std \<Rightarrow> int \<Rightarrow> rat res" where
  "float_of_int std i =
     (if \<bar>i\<bar> \<ge> 2 ^ 1024 - 2 ^ 970 then Inl (OtherError ''OverflowError'' ''int too large to convert to float'')
      else Inr (float_round std (of_int i)))"

definition optional_float_field :: "py_std \<Rightarrow> item \<Rightarrow> string \<Rightarrow> rat option res" where
  "optional_float_field std payload field =
     (case map_of payload field of
        None \<Rightarrow> Inr None
      | Some JNull \<Rightarrow> Inr None
      | Some (JInt i) \<Rightarrow> rbind (float_of_int std i) (\<lambda>r. Inr (Some r))
      | Some (JFloat r) \<Rightarrow> Inr (Some r)
      | _ \<Rightarrow> Inl (field_error field '' must be a finite number when set''))"

fun all_strings :: "exn \<Rightarrow> json list \<Rightarrow> string list res" where
  "all_strings e [] = Inr []"
| "all_strings e (JStr s # js) = rbind (all_strings e js) (\<lambda>ss. Inr (s # ss))"
| "all_strings e (_ # js) = Inl e"

definition string_sequence_field :: "item \<Rightarrow> string \<Rightarrow> string list res" where
  "string_sequence_field payload field =
     (let e = field_error field '' must be a sequence of strings'' in
      case map_of payload field of
        None \<Rightarrow> Inr []
      | Some (JList js) \<Rightarrow> all_strings e js
      | _ \<Rightarrow> Inl e)"

fun all_string_items :: "exn \<Rightarrow> item \<Rightarrow> (string \<times> string) list res" where
  "all_string_items e [] = Inr []"
| "all_string_items e ((k, JStr s) # kvs) = rbind (all_string_items e kvs) (\<lambda>rest. Inr ((k, s) # rest))"
| "all_string_items e (_ # kvs) = Inl e"

definition string_mapping_field :: "item \<Rightarrow> string \<Rightarrow> (string \<times> string) list res" where
  "string_mapping_field payload field =
     (let e = field_error field '' must be an object of strings'' in
      case map_of payload field of
        None \<Rightarrow> Inr []
      | Some (JObj kvs) \<Rightarrow> all_string_items e kvs
      | _ \<Rightarrow> Inl e)"

definition service_from_payload :: "py_std \<Rightarrow> item \<Rightarrow> service_record res" where
  "service_from_payload std p =
     rbind (text_field p ''service_id'') (\<lambda>service_id.
     rbind (text_field p ''owner'') (\<lambda>owner.
     rbind (integer_field p ''tier'' 0) (\<lambda>tier.
     rbind (string_sequence_field p ''repositories'') (\<lambda>repositories.
     rbind (string_sequence_field p ''dependencies'') (\<lambda>dependencies.
     rbind (optional_float_field std p ''slo_target'') (\<lambda>slo_target.
     rbind (integer_field p ''autonomy_level'' 0) (\<lambda>autonomy_level.
     rbind (string_mapping_field p ''metadata'') (\<lambda>metadata.
     rbind (integer_field p ''version'' 1) (\<lambda>version.
     Inr \<lparr>svc_service_id = service_id, svc_owner = owner, svc_tier = tier, svc_repositories = repositories,
       svc_dependencies = dependencies, svc_slo_target = slo_target, svc_autonomy_level = autonomy_level,
       svc_metadata = metadata, svc_version = version\<rparr>)))))))))"

definition workflow_from_payload :: "item \<Rightarrow> workflow_record res" where
  "workflow_from_payload p =
     rbind (text_field p ''status'') (\<lambda>status.
     case workflow_status_of status of
       None \<Rightarrow> Inl (CosmosStoredStateError ''Cosmos workflow status is invalid'')
     | Some workflow_status \<Rightarrow>
     rbind (text_field p ''workflow_id'') (\<lambda>workflow_id.
     rbind (text_field p ''service_id'') (\<lambda>service_id.
     rbind (text_field p ''environment'') (\<lambda>environment.
     rbind (text_field p ''kind'') (\<lambda>kind.
     rbind (text_field p ''correlation_id'') (\<lambda>correlation_id.
     rbind (optional_text_field p ''plan_hash'') (\<lambda>plan_hash.
     rbind (integer_field p ''version'' 1) (\<lambda>version.
     rbind (text_field p ''updated_at'') (\<lambda>updated_at.
     rbind (text_field p ''tenant_id'') (\<lambda>tenant_id.
     Inr \<lparr>wf_workflow_id = workflow_id, wf_service_id = service_id, wf_environment = environment, wf_kind = kind,
       wf_status = workflow_status, wf_correlation_id = correlation_id, wf_plan_hash = plan_hash, wf_version = version,
       wf_updated_at = updated_at, wf_tenant_id = tenant_id\<rparr>))))))))))"

text \<open>\<open>asdict\<close>: the document form of a record.\<close>

definition service_asdict :: "service_record \<Rightarrow> item" where
  "service_asdict r =
     [(''service_id'', JStr (svc_service_id r)), (''owner'', JStr (svc_owner r)), (''tier'', JInt (svc_tier r)),
      (''repositories'', JList (map JStr (svc_repositories r))), (''dependencies'', JList (map JStr (svc_dependencies r))),
      (''slo_target'', case svc_slo_target r of None \<Rightarrow> JNull | Some x \<Rightarrow> JFloat x),
      (''autonomy_level'', JInt (svc_autonomy_level r)),
      (''metadata'', JObj (map (\<lambda>(k, v). (k, JStr v)) (svc_metadata r))), (''version'', JInt (svc_version r))]"

definition workflow_asdict :: "workflow_record \<Rightarrow> item" where
  "workflow_asdict r =
     [(''workflow_id'', JStr (wf_workflow_id r)), (''service_id'', JStr (wf_service_id r)),
      (''environment'', JStr (wf_environment r)), (''kind'', JStr (wf_kind r)), (''status'', JStr (status_value (wf_status r))),
      (''correlation_id'', JStr (wf_correlation_id r)), (''plan_hash'', json_opt_str (wf_plan_hash r)),
      (''version'', JInt (wf_version r)), (''updated_at'', JStr (wf_updated_at r)), (''tenant_id'', JStr (wf_tenant_id r))]"

section \<open>The store\<close>

definition item_id :: "string \<Rightarrow> string \<Rightarrow> string" where
  "item_id kind key = kind @ '':'' @ key"

definition read_item :: "'c container \<Rightarrow> string \<Rightarrow> string \<Rightarrow> 'c \<Rightarrow> item option res \<times> 'c" where
  "read_item ct iid partition_key c =
     (case ct_read_item ct iid partition_key c of
        (Inr d, c') \<Rightarrow> (Inr (Some d), c')
      | (Inl e, c') \<Rightarrow> if raised_as [''CosmosResourceNotFoundError''] e then (Inr None, c') else (Inl e, c'))"

definition read_kind :: "'c container \<Rightarrow> string \<Rightarrow> string \<Rightarrow> 'c \<Rightarrow> item option res \<times> 'c" where
  "read_kind ct kind key = read_item ct (item_id kind key) (item_id kind key)"

definition cosmos_get_service :: "py_std \<Rightarrow> 'c container \<Rightarrow> string \<Rightarrow> 'c \<Rightarrow> service_record option res \<times> 'c" where
  "cosmos_get_service std ct service_id =
     wbind (read_kind ct ''service'' service_id) (\<lambda>raw.
     case raw of
       None \<Rightarrow> lift_res (Inr None)
     | Some d \<Rightarrow> lift_res (rbind (mapping_field d ''payload'') (\<lambda>p. rbind (service_from_payload std p) (\<lambda>r. Inr (Some r)))))"

definition workflow_from_raw :: "item \<Rightarrow> workflow_record res" where
  "workflow_from_raw d = rbind (mapping_field d ''payload'') workflow_from_payload"

definition cosmos_get_workflow :: "'c container \<Rightarrow> string \<Rightarrow> 'c \<Rightarrow> workflow_record option res \<times> 'c" where
  "cosmos_get_workflow ct workflow_id =
     wbind (read_kind ct ''workflow'' workflow_id) (\<lambda>raw.
     case raw of
       None \<Rightarrow> lift_res (Inr None)
     | Some d \<Rightarrow> lift_res (rbind (workflow_from_raw d) (\<lambda>r. Inr (Some r))))"

definition conditional_write ::
    "'c container \<Rightarrow> string \<Rightarrow> string \<Rightarrow> item \<Rightarrow> int \<Rightarrow> item option \<Rightarrow> 'c \<Rightarrow> unit res \<times> 'c" where
  "conditional_write ct kind key payload version current c =
     (let body = [(''id'', JStr (item_id kind key)), (''partition_key'', JStr (item_id kind key)), (''kind'', JStr kind),
            (''version'', JInt version), (''payload'', JObj payload)];
          write = (case current of
              None \<Rightarrow> ct_create_item ct body
            | Some d \<Rightarrow> wbind (lift_res (text_field d ''_etag'')) (ct_replace_item ct (item_id kind key) body)) in
      case write c of
        (Inr d, c') \<Rightarrow> (Inr (), c')
      | (Inl e, c') \<Rightarrow>
          (Inl (if raised_as [''CosmosAccessConditionFailedError'', ''CosmosResourceExistsError''] e
             then VersionConflict ''Cosmos conditional write conflict'' else e), c'))"

definition current_version :: "item option \<Rightarrow> int option res" where
  "current_version current =
     (case current of None \<Rightarrow> Inr None | Some d \<Rightarrow> rbind (integer_field d ''version'' 1) (\<lambda>v. Inr (Some v)))"

definition cosmos_put_service ::
    "'c container \<Rightarrow> service_record \<Rightarrow> int option \<Rightarrow> 'c \<Rightarrow> service_record res \<times> 'c" where
  "cosmos_put_service ct r expected =
     wbind (read_kind ct ''service'' (svc_service_id r)) (\<lambda>current.
     wbind (lift_res (current_version current)) (\<lambda>version.
     wbind (lift_res (assert_expected version expected)) (\<lambda>_.
     let stored = r\<lparr>svc_version := next_version version\<rparr> in
     wbind (conditional_write ct ''service'' (svc_service_id r) (service_asdict stored) (svc_version stored) current) (\<lambda>_.
     lift_res (Inr stored)))))"

definition cosmos_put_workflow ::
    "'c container \<Rightarrow> workflow_record \<Rightarrow> int option \<Rightarrow> 'c \<Rightarrow> workflow_record res \<times> 'c" where
  "cosmos_put_workflow ct r expected =
     wbind (read_kind ct ''workflow'' (wf_workflow_id r)) (\<lambda>current.
     wbind (lift_res (current_version current)) (\<lambda>version.
     wbind (lift_res (assert_expected version expected)) (\<lambda>_.
     let stored = r\<lparr>wf_version := next_version version\<rparr> in
     wbind (conditional_write ct ''workflow'' (wf_workflow_id r) (workflow_asdict stored) (wf_version stored) current) (\<lambda>_.
     lift_res (Inr stored)))))"

definition receipt_id :: "py_std \<Rightarrow> string \<Rightarrow> string" where
  "receipt_id std idempotency_key = ''workflow-transition:'' @ sha256_hex std idempotency_key"

text \<open>The comparison short-circuits: the fingerprint is only read when the event ids agree.\<close>

definition replayed_from_receipt :: "py_std \<Rightarrow> lifecycle_event \<Rightarrow> item \<Rightarrow> transition_result res" where
  "replayed_from_receipt std e d =
     rbind (text_field d ''event_id'') (\<lambda>event_id.
     rbind (if event_id \<noteq> ev_event_id e then Inr True
            else rbind (text_field d ''event_fingerprint'') (\<lambda>f. rbind (fingerprint std e) (\<lambda>g. Inr (f \<noteq> g)))) (\<lambda>differs.
     if differs then Inl (VersionConflict ''idempotency key has already been used for a different workflow event'')
     else rbind (mapping_field d ''workflow_payload'') (\<lambda>p. rbind (workflow_from_payload p) (\<lambda>w.
       Inr \<lparr>tr_record = w, tr_event_id = ev_event_id e, tr_idempotency_key = ev_idempotency_key e, tr_replayed = True\<rparr>))))"

definition workflow_body :: "string \<Rightarrow> workflow_record \<Rightarrow> item" where
  "workflow_body iid stored =
     [(''id'', JStr iid), (''partition_key'', JStr iid), (''kind'', JStr ''workflow''), (''version'', JInt (wf_version stored)),
      (''payload'', JObj (workflow_asdict stored))]"

definition receipt_body :: "string \<Rightarrow> string \<Rightarrow> lifecycle_event \<Rightarrow> string \<Rightarrow> workflow_record \<Rightarrow> item" where
  "receipt_body rid iid e f stored =
     [(''id'', JStr rid), (''partition_key'', JStr iid), (''kind'', JStr ''workflow-transition-receipt''),
      (''event_id'', JStr (ev_event_id e)), (''idempotency_key'', JStr (ev_idempotency_key e)),
      (''event_fingerprint'', JStr f), (''workflow_payload'', JObj (workflow_asdict stored))]"

definition batch_conflicts :: "string list" where
  "batch_conflicts = [''CosmosBatchOperationError'', ''CosmosAccessConditionFailedError'', ''CosmosResourceExistsError'']"

definition commit_batch ::
    "py_std \<Rightarrow> 'c container \<Rightarrow> lifecycle_event \<Rightarrow> item option \<Rightarrow> workflow_record \<Rightarrow> string \<Rightarrow> 'c \<Rightarrow> transition_result res \<times> 'c" where
  "commit_batch std ct e current stored f =
     (let iid = item_id ''workflow'' (ev_workflow_id e); rid = receipt_id std (ev_idempotency_key e);
          first = (case current of
              None \<Rightarrow> Inr (BatchCreate (workflow_body iid stored))
            | Some d \<Rightarrow> rbind (text_field d ''_etag'') (\<lambda>t. Inr (BatchReplace iid (workflow_body iid stored) t))) in
      wbind (lift_res first) (\<lambda>op c.
      case ct_execute_item_batch ct [op, BatchCreate (receipt_body rid iid e f stored)] iid c of
        (Inr _, c') \<Rightarrow>
          (Inr \<lparr>tr_record = stored, tr_event_id = ev_event_id e, tr_idempotency_key = ev_idempotency_key e, tr_replayed = False\<rparr>, c')
      | (Inl x, c') \<Rightarrow>
          if \<not> raised_as batch_conflicts x then (Inl x, c')
          else wbind (read_item ct rid iid) (\<lambda>recovered.
            case recovered of
              Some d \<Rightarrow> lift_res (replayed_from_receipt std e d)
            | None \<Rightarrow> lift_res (Inl (VersionConflict ''Cosmos lifecycle transition conditional write conflict''))) c'))"

text \<open>\<open>if current\<close> is false for an empty document too.\<close>

definition cosmos_apply_workflow_event ::
    "py_std \<Rightarrow> 'c container \<Rightarrow> lifecycle_event \<Rightarrow> 'c \<Rightarrow> transition_result res \<times> 'c" where
  "cosmos_apply_workflow_event std ct e =
     wbind (lift_res (validate std e)) (\<lambda>_.
     let iid = item_id ''workflow'' (ev_workflow_id e); rid = receipt_id std (ev_idempotency_key e) in
     wbind (read_item ct rid iid) (\<lambda>receipt.
     case receipt of
       Some d \<Rightarrow> lift_res (replayed_from_receipt std e d)
     | None \<Rightarrow>
     wbind (read_item ct iid iid) (\<lambda>current.
     wbind (lift_res (case current of None \<Rightarrow> Inr None
       | Some d \<Rightarrow> if d = [] then Inr None else rbind (workflow_from_raw d) (\<lambda>w. Inr (Some w)))) (\<lambda>record.
     wbind (lift_res (assert_expected (map_option wf_version record) (ev_expected_version e))) (\<lambda>_.
     wbind (lift_res (as_version_conflict (apply_to std e record))) (\<lambda>candidate.
     let stored = candidate\<lparr>wf_version := next_version (map_option wf_version record)\<rparr> in
     wbind (lift_res (fingerprint std e)) (\<lambda>f.
     commit_batch std ct e current stored f)))))))"

section \<open>Documented behaviour of a container\<close>

type_synonym docs = "string \<times> string \<Rightarrow> item option"

text \<open>The service keeps what was written and adds fields of its own, among them a new \<open>_etag\<close>.\<close>

definition stored_as :: "item \<Rightarrow> item \<Rightarrow> bool" where
  "stored_as body d \<longleftrightarrow> (\<forall>k v. map_of body k = Some v \<longrightarrow> map_of d k = Some v) \<and>
     (\<exists>t. t \<noteq> [] \<and> map_of d ''_etag'' = Some (JStr t))"

text \<open>A batch is atomic: all its operations apply, one after the other, or none does.\<close>

fun batch_step :: "string \<Rightarrow> batch_operation \<Rightarrow> docs \<Rightarrow> docs \<Rightarrow> bool" where
  "batch_step p (BatchCreate body) D D' \<longleftrightarrow>
     (\<exists>i d. map_of body ''id'' = Some (JStr i) \<and> D (p, i) = None \<and> stored_as body d \<and> D' = D((p, i) \<mapsto> d))"
| "batch_step p (BatchReplace i body t) D D' \<longleftrightarrow>
     (\<exists>d0 d. D (p, i) = Some d0 \<and> map_of d0 ''_etag'' = Some (JStr t) \<and> stored_as body d \<and> D' = D((p, i) \<mapsto> d))"

fun batch_run :: "string \<Rightarrow> batch_operation list \<Rightarrow> docs \<Rightarrow> docs \<Rightarrow> bool" where
  "batch_run p [] D D' \<longleftrightarrow> D' = D"
| "batch_run p (op # ops) D D' \<longleftrightarrow> (\<exists>D1. batch_step p op D D1 \<and> batch_run p ops D1 D')"

text \<open>When an operation applies. A body never sets \<open>_etag\<close>, and the operations of a batch name different documents.\<close>

fun operation_id :: "batch_operation \<Rightarrow> string" where
  "operation_id (BatchCreate body) = (case map_of body ''id'' of Some (JStr i) \<Rightarrow> i | _ \<Rightarrow> [])"
| "operation_id (BatchReplace i body t) = i"

fun operation_body :: "batch_operation \<Rightarrow> item" where
  "operation_body (BatchCreate body) = body"
| "operation_body (BatchReplace i body t) = body"

fun operation_applies :: "string \<Rightarrow> docs \<Rightarrow> batch_operation \<Rightarrow> bool" where
  "operation_applies p D (BatchCreate body) \<longleftrightarrow>
     map_of body ''id'' = Some (JStr (operation_id (BatchCreate body))) \<and> D (p, operation_id (BatchCreate body)) = None"
| "operation_applies p D (BatchReplace i body t) \<longleftrightarrow>
     (case D (p, i) of None \<Rightarrow> False | Some d \<Rightarrow> map_of d ''_etag'' = Some (JStr t))"

definition batch_regular :: "batch_operation list \<Rightarrow> bool" where
  "batch_regular ops \<longleftrightarrow> distinct (map operation_id ops) \<and> list_all (\<lambda>op. map_of (operation_body op) ''_etag'' = None) ops"

definition sequential_container :: "'c container \<Rightarrow> ('c \<Rightarrow> docs) \<Rightarrow> bool" where
  "sequential_container ct docs \<longleftrightarrow>
     (\<forall>i p c. \<exists>c' m. docs c' = docs c \<and> ct_read_item ct i p c =
        (case docs c (p, i) of Some d \<Rightarrow> (Inr d, c') | None \<Rightarrow> (Inl (cosmos_not_found m), c'))) \<and>
     (\<forall>ops p c. batch_regular ops \<longrightarrow> (if list_all (operation_applies p (docs c)) ops
        then \<exists>c'. ct_execute_item_batch ct ops p c = (Inr (), c') \<and> batch_run p ops (docs c) (docs c')
        else \<exists>m c'. ct_execute_item_batch ct ops p c = (Inl (cosmos_batch_error m), c') \<and> docs c' = docs c))"

text \<open>
  Among other clients: \<open>reached c c'\<close> says that the world may be \<open>c'\<close> some time after \<open>c\<close>. An operation
  acts at one such moment, and as long as a document has the same \<open>_etag\<close> it is the same document.
\<close>

definition shared_container :: "'c container \<Rightarrow> ('c \<Rightarrow> docs) \<Rightarrow> ('c \<Rightarrow> 'c \<Rightarrow> bool) \<Rightarrow> bool" where
  "shared_container ct docs reached \<longleftrightarrow>
     (\<forall>a b c. reached a b \<longrightarrow> reached b c \<longrightarrow> reached a c) \<and>
     (\<forall>c c' k d d'. reached c c' \<longrightarrow> docs c k = Some d \<longrightarrow> docs c' k = Some d' \<longrightarrow>
        map_of d ''_etag'' = map_of d' ''_etag'' \<longrightarrow> d' = d) \<and>
     (\<forall>i p c r c'. ct_read_item ct i p c = (r, c') \<longrightarrow> reached c c' \<and>
        (\<forall>d. r = Inr d \<longrightarrow> docs c' (p, i) = Some d) \<and> (\<forall>m. r = Inl (cosmos_not_found m) \<longrightarrow> docs c' (p, i) = None)) \<and>
     (\<forall>ops p c c'. ct_execute_item_batch ct ops p c = (Inr (), c') \<longrightarrow>
        (\<exists>c1. reached c c1 \<and> batch_run p ops (docs c1) (docs c'))) \<and>
     (\<forall>ops p c x c'. ct_execute_item_batch ct ops p c = (Inl x, c') \<longrightarrow> reached c c')"

section \<open>Documents decode to what was written\<close>

definition storable :: "workflow_record \<Rightarrow> bool" where
  "storable w \<longleftrightarrow> list_all (\<lambda>s. s \<noteq> []) [wf_workflow_id w, wf_service_id w, wf_environment w, wf_kind w, wf_correlation_id w,
     wf_updated_at w, wf_tenant_id w] \<and> wf_plan_hash w \<noteq> Some [] \<and> 1 \<le> wf_version w"

lemma field_iffs [res_iffs]:
  "text_field p k = Inr s \<longleftrightarrow> map_of p k = Some (JStr s) \<and> s \<noteq> []"
  "integer_field p k m = Inr i \<longleftrightarrow> map_of p k = Some (JInt i) \<and> m \<le> i"
  "mapping_field p k = Inr kvs \<longleftrightarrow> map_of p k = Some (JObj kvs)"
  by (auto simp: text_field_def integer_field_def mapping_field_def split: option.splits json.splits if_splits)

lemma optional_text_nonempty [res_iffs]: "optional_text_field p k \<noteq> Inr (Some [])"
  by (auto simp: optional_text_field_def split: option.splits json.splits if_splits)

lemma status_not_blank: "status_value s \<noteq> []"
  by (cases s) simp_all

lemma workflow_round_trip:
  assumes "storable w"
  shows "workflow_from_payload (workflow_asdict w) = Inr w"
proof -
  have "text_field (workflow_asdict w) ''status'' = Inr (status_value (wf_status w))"
    by (simp add: field_iffs workflow_asdict_def status_not_blank)
  moreover have "text_field (workflow_asdict w) ''workflow_id'' = Inr (wf_workflow_id w)"
    "text_field (workflow_asdict w) ''service_id'' = Inr (wf_service_id w)"
    "text_field (workflow_asdict w) ''environment'' = Inr (wf_environment w)" "text_field (workflow_asdict w) ''kind'' = Inr (wf_kind w)"
    "text_field (workflow_asdict w) ''correlation_id'' = Inr (wf_correlation_id w)"
    "integer_field (workflow_asdict w) ''version'' 1 = Inr (wf_version w)"
    "text_field (workflow_asdict w) ''updated_at'' = Inr (wf_updated_at w)" "text_field (workflow_asdict w) ''tenant_id'' = Inr (wf_tenant_id w)"
    using assms by (simp_all add: field_iffs workflow_asdict_def storable_def)
  moreover have "optional_text_field (workflow_asdict w) ''plan_hash'' = Inr (wf_plan_hash w)"
    using assms by (cases "wf_plan_hash w") (simp_all add: optional_text_field_def workflow_asdict_def storable_def)
  ultimately show ?thesis by (simp add: workflow_from_payload_def)
qed

lemma decoded_storable:
  assumes "workflow_from_payload p = Inr w"
  shows "storable w"
  using assms
  by (auto simp: workflow_from_payload_def storable_def res_iffs split: option.splits)

section \<open>The SQLite store as the specification\<close>

definition doc_workflow :: "item \<Rightarrow> workflow_record \<Rightarrow> bool" where
  "doc_workflow d w \<longleftrightarrow> workflow_from_raw d = Inr w \<and> (\<exists>t. t \<noteq> [] \<and> map_of d ''_etag'' = Some (JStr t))"

definition doc_receipt :: "item \<Rightarrow> receipt \<Rightarrow> bool" where
  "doc_receipt d rc \<longleftrightarrow> text_field d ''event_id'' = Inr (rc_event_id rc) \<and> text_field d ''event_fingerprint'' = Inr (rc_event_fingerprint rc) \<and>
     rbind (mapping_field d ''workflow_payload'') workflow_from_payload = Inr (rc_workflow_payload rc)"

text \<open>
  The documents of the workflow partitions represent the tables of a SQLite store, as far as the
  idempotency keys in \<open>keys\<close> tell: a receipt is filed under the digest of its key.
\<close>

definition represents :: "py_std \<Rightarrow> string set \<Rightarrow> docs \<Rightarrow> state_store \<Rightarrow> bool" where
  "represents std keys D st \<longleftrightarrow>
     (\<forall>w. rel_option doc_workflow (D (item_id ''workflow'' w, item_id ''workflow'' w)) (get_workflow st w)) \<and>
     (\<forall>w. \<forall>k \<in> keys. rel_option doc_receipt (D (item_id ''workflow'' w, receipt_id std k)) (find_receipt st w k))"

lemma item_ids [simp]:
  "item_id kind a = item_id kind b \<longleftrightarrow> a = b" "item_id ''workflow'' w \<noteq> receipt_id std k" "receipt_id std k \<noteq> item_id ''workflow'' w"
  by (auto simp: item_id_def receipt_id_def)

lemma receipt_id_eq: "receipt_id std a = receipt_id std b \<longleftrightarrow> sha256_hex std a = sha256_hex std b"
  by (simp add: receipt_id_def)

lemma read_sequential:
  assumes "sequential_container ct docs"
  shows "\<exists>c'. read_item ct i p c = (Inr (docs c (p, i)), c') \<and> docs c' = docs c"
proof -
  from assms obtain c' m where "docs c' = docs c" "ct_read_item ct i p c =
      (case docs c (p, i) of Some d \<Rightarrow> (Inr d, c') | None \<Rightarrow> (Inl (cosmos_not_found m), c'))"
    unfolding sequential_container_def by meson
  then show ?thesis by (cases "docs c (p, i)") (simp_all add: read_item_def raised_as_def)
qed

lemma replay_same:
  assumes "doc_receipt d rc" "validate std e = Inr ()"
  shows "replayed_from_receipt std e d = replayed_transition std e rc"
proof -
  from assms(2) obtain f where "fingerprint std e = Inr f" by (auto simp: fingerprint_eq_Inr)
  with assms(1) show ?thesis
    by (auto simp: doc_receipt_def replayed_from_receipt_def replayed_transition_def rbind_eq_Inr)
qed

lemma stored_as_fields:
  assumes "stored_as (workflow_body iid w) d" "storable w"
  shows "doc_workflow d w"
proof -
  have "map_of (workflow_body iid w) ''payload'' = Some (JObj (workflow_asdict w))" by (simp add: workflow_body_def)
  with assms(1) have "map_of d ''payload'' = Some (JObj (workflow_asdict w))" unfolding stored_as_def by blast
  with assms workflow_round_trip show ?thesis
    by (auto simp: doc_workflow_def workflow_from_raw_def field_iffs rbind_eq_Inr stored_as_def)
qed

lemma stored_receipt:
  assumes "stored_as (receipt_body rid iid e f w) d" "storable w" "ev_event_id e \<noteq> []" "f \<noteq> []"
  shows "doc_receipt d \<lparr>rc_workflow_id = x, rc_idempotency_key = y, rc_event_id = ev_event_id e, rc_event_fingerprint = f,
     rc_workflow_payload = w\<rparr>"
proof -
  have "map_of (receipt_body rid iid e f w) ''event_id'' = Some (JStr (ev_event_id e))"
    "map_of (receipt_body rid iid e f w) ''event_fingerprint'' = Some (JStr f)"
    "map_of (receipt_body rid iid e f w) ''workflow_payload'' = Some (JObj (workflow_asdict w))" by (simp_all add: receipt_body_def)
  with assms(1) have "map_of d ''event_id'' = Some (JStr (ev_event_id e))" "map_of d ''event_fingerprint'' = Some (JStr f)"
    "map_of d ''workflow_payload'' = Some (JObj (workflow_asdict w))" unfolding stored_as_def by blast+
  with assms(2-4) workflow_round_trip show ?thesis by (simp add: doc_receipt_def field_iffs rbind_eq_Inr)
qed

text \<open>A record that an event produces can be stored: its texts come from a validated event.\<close>

lemma applied_storable:
  assumes "apply_to std e cur = Inr w" "\<And>c. cur = Some c \<Longrightarrow> storable c" "fromisoformat std [] = None"
  shows "storable (w\<lparr>wf_version := next_version (map_option wf_version cur)\<rparr>)"
proof -
  have v: "validate std e = Inr ()" using assms(1) by (auto simp: apply_to_def rbind_eq_Inr)
  have ids: "\<forall>x \<in> set (labelled_identifiers e). snd x \<noteq> []"
    using validate_identifiers [OF v] by (auto simp: check_identifiers_ok lifecycle_identifier_def dest: bounded_identifier_nonempty)
  have h: "ev_plan_hash e \<noteq> Some []" and t: "ev_occurred_at e \<noteq> []"
    using v assms(3) by (auto simp: validate_def rbind_eq_Inr is_plan_hash_def split: option.splits)
  show ?thesis
  proof (cases cur)
    case None
    with assms(1) have "w = \<lparr>wf_workflow_id = ev_workflow_id e, wf_service_id = ev_service_id e,
           wf_environment = ev_environment e, wf_kind = ev_kind e, wf_status = ev_to_status e,
           wf_correlation_id = ev_correlation_id e, wf_plan_hash = ev_plan_hash e,
           wf_version = 1, wf_updated_at = ev_occurred_at e, wf_tenant_id = ev_tenant_id e\<rparr>"
      by (auto simp: apply_to_def rbind_eq_Inr)
    with ids h t None show ?thesis by (simp add: storable_def labelled_identifiers_def next_version_def)
  next
    case (Some c)
    with assms(1) have "w = c\<lparr>wf_status := ev_to_status e,
           wf_plan_hash := (case ev_plan_hash e of None \<Rightarrow> wf_plan_hash c | Some h \<Rightarrow> Some h), wf_updated_at := ev_occurred_at e\<rparr>"
      using apply_to_advances by blast
    with assms(2) [OF Some] h t Some show ?thesis by (simp add: storable_def next_version_def split: option.splits)
  qed
qed

lemma bodies [simp]:
  "map_of (workflow_body iid w) ''_etag'' = None" "map_of (receipt_body rid iid e f w) ''_etag'' = None"
  "map_of (workflow_body iid w) ''id'' = Some (JStr iid)" "map_of (receipt_body rid iid e f w) ''id'' = Some (JStr rid)"
  by (simp_all add: workflow_body_def receipt_body_def)

text \<open>The operation of the batch that writes the workflow.\<close>

definition write_operation :: "string \<Rightarrow> item option \<Rightarrow> workflow_record \<Rightarrow> batch_operation res" where
  "write_operation iid current stored =
     (case current of
        None \<Rightarrow> Inr (BatchCreate (workflow_body iid stored))
      | Some d \<Rightarrow> rbind (text_field d ''_etag'') (\<lambda>t. Inr (BatchReplace iid (workflow_body iid stored) t)))"

lemma batch_effect:
  assumes "write_operation iid current stored = Inr op" "rid \<noteq> iid"
    and "batch_run iid [op, BatchCreate (receipt_body rid iid e f stored)] D D'"
  shows "\<exists>d dr. stored_as (workflow_body iid stored) d \<and> stored_as (receipt_body rid iid e f stored) dr \<and>
     D (iid, rid) = None \<and> D' = D((iid, iid) \<mapsto> d, (iid, rid) \<mapsto> dr) \<and>
     map_option (\<lambda>d. map_of d ''_etag'') (D (iid, iid)) = map_option (\<lambda>d. map_of d ''_etag'') current"
  using assms by (auto simp: write_operation_def rbind_eq_Inr field_iffs split: option.splits) blast+

lemma batch_possible:
  assumes "write_operation iid (D (iid, iid)) stored = Inr op" "rid \<noteq> iid" "D (iid, rid) = None"
  shows "batch_regular [op, BatchCreate (receipt_body rid iid e f stored)]"
    "list_all (operation_applies iid D) [op, BatchCreate (receipt_body rid iid e f stored)]"
  using assms by (auto simp: write_operation_def batch_regular_def rbind_eq_Inr field_iffs split: option.splits)

lemma commit_batch_unfold:
  "commit_batch std ct e current stored f =
     (let iid = item_id ''workflow'' (ev_workflow_id e); rid = receipt_id std (ev_idempotency_key e) in
      wbind (lift_res (write_operation iid current stored)) (\<lambda>op c.
      case ct_execute_item_batch ct [op, BatchCreate (receipt_body rid iid e f stored)] iid c of
        (Inr _, c') \<Rightarrow>
          (Inr \<lparr>tr_record = stored, tr_event_id = ev_event_id e, tr_idempotency_key = ev_idempotency_key e, tr_replayed = False\<rparr>, c')
      | (Inl x, c') \<Rightarrow>
          if \<not> raised_as batch_conflicts x then (Inl x, c')
          else wbind (read_item ct rid iid) (\<lambda>recovered.
            case recovered of
              Some d \<Rightarrow> lift_res (replayed_from_receipt std e d)
            | None \<Rightarrow> lift_res (Inl (VersionConflict ''Cosmos lifecycle transition conditional write conflict''))) c'))"
  by (simp add: commit_batch_def write_operation_def Let_def)

lemma commit_sequential:
  assumes seq: "sequential_container ct docs"
    and iid: "iid = item_id ''workflow'' (ev_workflow_id e)" and rid: "rid = receipt_id std (ev_idempotency_key e)"
    and none: "docs c (iid, rid) = None" and etag: "\<And>d. docs c (iid, iid) = Some d \<Longrightarrow> \<exists>t. t \<noteq> [] \<and> map_of d ''_etag'' = Some (JStr t)"
  shows "\<exists>c' d dr. commit_batch std ct e (docs c (iid, iid)) stored f c =
       (Inr \<lparr>tr_record = stored, tr_event_id = ev_event_id e, tr_idempotency_key = ev_idempotency_key e, tr_replayed = False\<rparr>, c') \<and>
     stored_as (workflow_body iid stored) d \<and> stored_as (receipt_body rid iid e f stored) dr \<and>
     docs c' = (docs c)((iid, iid) \<mapsto> d, (iid, rid) \<mapsto> dr)"
proof -
  have ne: "rid \<noteq> iid" by (simp add: iid rid)
  obtain op where op: "write_operation iid (docs c (iid, iid)) stored = Inr op"
    using etag by (cases "docs c (iid, iid)") (auto simp: write_operation_def text_field_def)
  from batch_possible [where D = "docs c", OF op ne none] seq obtain c' where run:
    "ct_execute_item_batch ct [op, BatchCreate (receipt_body rid iid e f stored)] iid c = (Inr (), c')"
    "batch_run iid [op, BatchCreate (receipt_body rid iid e f stored)] (docs c) (docs c')"
    unfolding sequential_container_def by meson
  have "commit_batch std ct e (docs c (iid, iid)) stored f c =
       (Inr \<lparr>tr_record = stored, tr_event_id = ev_event_id e, tr_idempotency_key = ev_idempotency_key e, tr_replayed = False\<rparr>, c')"
    using run(1) op unfolding commit_batch_unfold iid rid Let_def by (simp add: run_simps)
  with batch_effect [OF op ne run(2)] show ?thesis by blast
qed

lemma represents_commit:
  assumes rep: "represents std keys D st" and wf: "wf_workflow_id w = ev_workflow_id e"
    and keys: "inj_on (sha256_hex std) keys" "ev_idempotency_key e \<in> keys"
    and d: "stored_as (workflow_body (item_id ''workflow'' (ev_workflow_id e)) w) d"
      "stored_as (receipt_body (receipt_id std (ev_idempotency_key e)) (item_id ''workflow'' (ev_workflow_id e)) e f w) dr"
    and ok: "storable w" "ev_event_id e \<noteq> []" "f \<noteq> []"
    and none: "find_receipt st (ev_workflow_id e) (ev_idempotency_key e) = None"
  shows "represents std keys (D((item_id ''workflow'' (ev_workflow_id e), item_id ''workflow'' (ev_workflow_id e)) \<mapsto> d,
       (item_id ''workflow'' (ev_workflow_id e), receipt_id std (ev_idempotency_key e)) \<mapsto> dr))
     ((write_workflow w st)\<lparr>st_receipts := st_receipts st @
        [\<lparr>rc_workflow_id = ev_workflow_id e, rc_idempotency_key = ev_idempotency_key e, rc_event_id = ev_event_id e,
          rc_event_fingerprint = f, rc_workflow_payload = w\<rparr>]\<rparr>)"
proof -
  let ?rc = "\<lparr>rc_workflow_id = ev_workflow_id e, rc_idempotency_key = ev_idempotency_key e, rc_event_id = ev_event_id e,
          rc_event_fingerprint = f, rc_workflow_payload = w\<rparr>"
  let ?st = "(write_workflow w st)\<lparr>st_receipts := st_receipts st @ [?rc]\<rparr>"
  have inj: "receipt_id std k = receipt_id std (ev_idempotency_key e) \<longleftrightarrow> k = ev_idempotency_key e" if "k \<in> keys" for k
    using inj_on_eq_iff [OF keys(1) that keys(2)] receipt_id_eq by simp
  have get: "get_workflow ?st = (get_workflow st)(ev_workflow_id e \<mapsto> w)"
    by (auto simp: get_workflow_def write_workflow_def wf)
  have find: "find_receipt ?st x k = (if x = ev_workflow_id e \<and> k = ev_idempotency_key e then Some ?rc else find_receipt st x k)" for x k
    using none by (auto simp: find_receipt_def find_append split: option.splits)
  show ?thesis
    using rep stored_as_fields [OF d(1) ok(1)] stored_receipt [OF d(2) ok, of "ev_workflow_id e" "ev_idempotency_key e"]
    unfolding represents_def get find by (auto simp: inj)
qed

lemma lift_Inr_bind [run_simps]: "wbind (lift_res (Inr x)) f = f x"
  by (simp add: fun_eq_iff lift_res_bind)

lemma read_current:
  assumes "rel_option doc_workflow current record"
  shows "(case current of None \<Rightarrow> Inr None
       | Some d \<Rightarrow> if d = [] then Inr None else rbind (workflow_from_raw d) (\<lambda>w. Inr (Some w))) = Inr record"
  using assms by (cases current; cases "record") (auto simp: doc_workflow_def)

lemma event_ids_set:
  assumes "validate std e = Inr ()"
  shows "ev_event_id e \<noteq> []" "ev_workflow_id e \<noteq> []"
  using validate_identifiers [OF assms]
  by (auto simp: check_identifiers_ok labelled_identifiers_def lifecycle_identifier_def dest: bounded_identifier_nonempty)

definition agrees :: "py_std \<Rightarrow> string set \<Rightarrow> ('c \<Rightarrow> docs) \<Rightarrow> transition_result res \<times> 'c \<Rightarrow> state_store \<Rightarrow> (transition_result \<times> state_store) res \<Rightarrow> bool" where
  "agrees std keys docs out st spec \<longleftrightarrow>
     (case spec of Inl x \<Rightarrow> fst out = Inl x \<and> represents std keys (docs (snd out)) st
      | Inr (tr, st') \<Rightarrow> fst out = Inr tr \<and> represents std keys (docs (snd out)) st')"

lemma fresh_event_agrees:
  assumes seq: "sequential_container ct docs" and wf: "store_wf st" and rep: "represents std keys (docs c) st"
    and keys: "inj_on (sha256_hex std) keys" "ev_idempotency_key e \<in> keys"
    and iso: "fromisoformat std [] = None" and valid: "validate std e = Inr ()"
    and none: "find_receipt st (ev_workflow_id e) (ev_idempotency_key e) = None"
      "find_event st (ev_workflow_id e) (ev_event_id e) = None"
  shows "agrees std keys docs (cosmos_apply_workflow_event std ct e c) st (apply_workflow_event std e st)"
proof -
  let ?iid = "item_id ''workflow'' (ev_workflow_id e)" and ?rid = "receipt_id std (ev_idempotency_key e)"
  let ?cur = "get_workflow st (ev_workflow_id e)"
  have rel: "rel_option doc_workflow (docs c (?iid, ?iid)) ?cur" "rel_option doc_receipt (docs c (?iid, ?rid)) None"
    using rep none(1) keys(2) unfolding represents_def by metis+
  have noreceipt: "docs c (?iid, ?rid) = None" using rel(2) by (cases "docs c (?iid, ?rid)") auto
  obtain c1 where c1: "read_item ct ?rid ?iid c = (Inr None, c1)" "docs c1 = docs c"
    using read_sequential [OF seq, of ?rid ?iid c] noreceipt by auto
  obtain c2 where c2: "read_item ct ?iid ?iid c1 = (Inr (docs c (?iid, ?iid)), c2)" "docs c2 = docs c"
    using read_sequential [OF seq, of ?iid ?iid c1] c1(2) by auto
  obtain f where f: "fingerprint std e = Inr f" "f \<noteq> []" using valid by (auto simp: fingerprint_eq_Inr)
  have run: "cosmos_apply_workflow_event std ct e c =
     wbind (lift_res (assert_expected (map_option wf_version ?cur) (ev_expected_version e))) (\<lambda>_.
     wbind (lift_res (as_version_conflict (apply_to std e ?cur))) (\<lambda>candidate.
     commit_batch std ct e (docs c (?iid, ?iid)) (candidate\<lparr>wf_version := next_version (map_option wf_version ?cur)\<rparr>) f)) c2"
    using valid c1(1) c2(1) f(1)
    by (simp add: cosmos_apply_workflow_event_def run_simps Let_def wbind_def [of "read_item _ _ _"] read_current [OF rel(1)])
  have spec: "apply_workflow_event std e st =
     rbind (assert_expected (map_option wf_version ?cur) (ev_expected_version e)) (\<lambda>_.
     rbind (as_version_conflict (apply_to std e ?cur)) (\<lambda>candidate.
     let stored = candidate\<lparr>wf_version := next_version (map_option wf_version ?cur)\<rparr> in
     Inr (\<lparr>tr_record = stored, tr_event_id = ev_event_id e, tr_idempotency_key = ev_idempotency_key e, tr_replayed = False\<rparr>,
       (write_workflow stored st)\<lparr>st_receipts := st_receipts st @
          [\<lparr>rc_workflow_id = ev_workflow_id e, rc_idempotency_key = ev_idempotency_key e, rc_event_id = ev_event_id e,
            rc_event_fingerprint = f, rc_workflow_payload = stored\<rparr>]\<rparr>)))"
    using valid none f(1) by (simp add: apply_workflow_event_def get_workflow_def Let_def)
  show ?thesis
  proof (cases "assert_expected (map_option wf_version ?cur) (ev_expected_version e)")
    case (Inl x)
    then show ?thesis using run spec rep c2(2) by (simp add: agrees_def run_simps)
  next
    case (Inr u)
    show ?thesis
    proof (cases "as_version_conflict (apply_to std e ?cur)")
      case (Inl x)
      then show ?thesis using run spec rep c2(2) Inr by (simp add: agrees_def run_simps)
    next
      case app: (Inr w)
      let ?stored = "w\<lparr>wf_version := next_version (map_option wf_version ?cur)\<rparr>"
      from app have ap: "apply_to std e ?cur = Inr w" by simp
      have wid: "wf_workflow_id ?stored = ev_workflow_id e" using committed_id [OF wf ap] by simp
      have "storable cur" if "?cur = Some cur" for cur
        using rel(1) that by (auto simp: doc_workflow_def workflow_from_raw_def rbind_eq_Inr option_rel_Some2 dest: decoded_storable)
      from applied_storable [OF ap this iso] have ok: "storable ?stored" by simp
      have etag: "\<exists>t. t \<noteq> [] \<and> map_of d ''_etag'' = Some (JStr t)" if "docs c2 (?iid, ?iid) = Some d" for d
        using rel(1) that c2(2) by (auto simp: doc_workflow_def option_rel_Some1)
      from commit_sequential [where e = e and c = c2 and std = std and stored = ?stored and f = f, OF seq refl refl _ etag] noreceipt c2(2)
      obtain c' d dr where com: "commit_batch std ct e (docs c (?iid, ?iid)) ?stored f c2 =
          (Inr \<lparr>tr_record = ?stored, tr_event_id = ev_event_id e, tr_idempotency_key = ev_idempotency_key e, tr_replayed = False\<rparr>, c')"
        "stored_as (workflow_body ?iid ?stored) d" "stored_as (receipt_body ?rid ?iid e f ?stored) dr"
        "docs c' = (docs c)((?iid, ?iid) \<mapsto> d, (?iid, ?rid) \<mapsto> dr)" by auto
      from represents_commit [OF rep wid keys com(2,3) ok event_ids_set(1) [OF valid] f(2) none(1)] com(4)
      show ?thesis using run spec Inr app com(1) by (auto simp: agrees_def run_simps Let_def)
    qed
  qed
qed

section \<open>Among other clients\<close>

lemma not_found_raised: "raised_as [''CosmosResourceNotFoundError''] e \<Longrightarrow> \<exists>m. e = cosmos_not_found m"
  by (cases e) (simp_all add: raised_as_def)

lemma shared_trans: "shared_container ct docs reached \<Longrightarrow> reached a b \<Longrightarrow> reached b c \<Longrightarrow> reached a c"
  unfolding shared_container_def by (drule conjunct1) blast

lemma shared_etag:
  assumes "shared_container ct docs reached" "reached c c'" "docs c k = Some d" "docs c' k = Some d'" "map_of d ''_etag'' = map_of d' ''_etag''"
  shows "d' = d"
proof -
  from assms(1) have "\<forall>c c' k d d'. reached c c' \<longrightarrow> docs c k = Some d \<longrightarrow> docs c' k = Some d' \<longrightarrow>
        map_of d ''_etag'' = map_of d' ''_etag'' \<longrightarrow> d' = d" unfolding shared_container_def by (elim conjE)
  with assms(2-5) show ?thesis by blast
qed

lemma unchanged_tag:
  assumes "shared_container ct docs reached" "reached c c'"
    and "map_option (\<lambda>d. map_of d ''_etag'') (docs c' k) = map_option (\<lambda>d. map_of d ''_etag'') (docs c k)"
  shows "docs c' k = docs c k"
proof (cases "docs c k")
  case None
  with assms(3) show ?thesis by simp
next
  case (Some d)
  with assms(3) obtain d' where "docs c' k = Some d'" "map_of d' ''_etag'' = map_of d ''_etag''" by auto
  with shared_etag [OF assms(1,2) Some] Some show ?thesis by simp
qed

lemma shared_refused:
  assumes "shared_container ct docs reached" "ct_execute_item_batch ct ops p c = (Inl x, c')"
  shows "reached c c'"
proof -
  from assms(1) have "\<forall>ops p c x c'. ct_execute_item_batch ct ops p c = (Inl x, c') \<longrightarrow> reached c c'"
    unfolding shared_container_def by (elim conjE)
  with assms(2) show ?thesis by blast
qed

lemma shared_batch:
  assumes "shared_container ct docs reached" "ct_execute_item_batch ct ops p c = (Inr (), c')"
  shows "\<exists>c1. reached c c1 \<and> batch_run p ops (docs c1) (docs c')"
proof -
  from assms(1) have "\<forall>ops p c c'. ct_execute_item_batch ct ops p c = (Inr (), c') \<longrightarrow>
        (\<exists>c1. reached c c1 \<and> batch_run p ops (docs c1) (docs c'))" unfolding shared_container_def by (elim conjE)
  with assms(2) show ?thesis by blast
qed

lemma read_shared:
  assumes "shared_container ct docs reached" "read_item ct i p c = (Inr x, c')"
  shows "reached c c' \<and> docs c' (p, i) = x"
proof -
  obtain r where r: "ct_read_item ct i p c = (r, c')" using assms(2) by (auto simp: read_item_def split: prod.splits sum.splits if_splits)
  with assms(1) have "reached c c'" "\<And>d. r = Inr d \<Longrightarrow> docs c' (p, i) = Some d" "\<And>m. r = Inl (cosmos_not_found m) \<Longrightarrow> docs c' (p, i) = None"
    unfolding shared_container_def by blast+
  with r assms(2) show ?thesis
    by (cases r) (auto simp: read_item_def split: if_splits dest: not_found_raised)
qed

lemma replay_marked: "replayed_from_receipt std e d = Inr tr \<Longrightarrow> tr_replayed tr"
  by (auto simp: replayed_from_receipt_def rbind_eq_Inr split: if_splits)

lemma commit_shared:
  assumes shared: "shared_container ct docs reached" and com: "commit_batch std ct e current stored f c = (Inr tr, c')" "\<not> tr_replayed tr"
    and iid: "iid = item_id ''workflow'' (ev_workflow_id e)" and rid: "rid = receipt_id std (ev_idempotency_key e)"
  shows "tr_record tr = stored \<and> (\<exists>c1 d dr. reached c c1 \<and> docs c1 (iid, rid) = None \<and>
     map_option (\<lambda>d. map_of d ''_etag'') (docs c1 (iid, iid)) = map_option (\<lambda>d. map_of d ''_etag'') current \<and>
     stored_as (workflow_body iid stored) d \<and> stored_as (receipt_body rid iid e f stored) dr \<and>
     docs c' = (docs c1)((iid, iid) \<mapsto> d, (iid, rid) \<mapsto> dr))"
proof -
  have ne: "rid \<noteq> iid" by (simp add: iid rid)
  from com obtain op where op: "write_operation iid current stored = Inr op"
    by (auto simp: commit_batch_unfold iid run_simps Let_def split: sum.splits)
  have "replayed_from_receipt std e d \<noteq> Inr tr" for d using com(2) replay_marked by blast
  then have fail: "wbind (read_item ct rid iid) (\<lambda>recovered. case recovered of
       Some d \<Rightarrow> lift_res (replayed_from_receipt std e d)
     | None \<Rightarrow> lift_res (Inl (VersionConflict ''Cosmos lifecycle transition conditional write conflict''))) c2 \<noteq> (Inr tr, c')" for c2
    by (auto simp: lift_res_def elim!: wbind_Inr split: option.splits)
  obtain r c2 where r: "ct_execute_item_batch ct [op, BatchCreate (receipt_body rid iid e f stored)] iid c = (r, c2)"
    by (metis prod.collapse)
  have "\<exists>u. r = Inr u"
  proof (cases r)
    case (Inl x)
    with com(1) op r fail show ?thesis
      unfolding commit_batch_unfold iid [symmetric] rid [symmetric] Let_def by (auto simp: run_simps split: if_splits)
  qed simp
  with com(1) op r have b: "ct_execute_item_batch ct [op, BatchCreate (receipt_body rid iid e f stored)] iid c = (Inr (), c')"
      and tr: "tr_record tr = stored"
    unfolding commit_batch_unfold iid [symmetric] rid [symmetric] Let_def by (auto simp: run_simps)
  from shared_batch [OF shared b] obtain c1 where "reached c c1"
    "batch_run iid [op, BatchCreate (receipt_body rid iid e f stored)] (docs c1) (docs c')" by blast
  with batch_effect [OF op ne] tr show ?thesis by blast
qed

section \<open>A sample container\<close>

type_synonym sample_cosmos = "docs \<times> nat"

definition sample_write :: "string \<Rightarrow> batch_operation \<Rightarrow> sample_cosmos \<Rightarrow> sample_cosmos" where
  "sample_write p op c = ((fst c)((p, operation_id op) \<mapsto> operation_body op @ [(''_etag'', JStr (''t'' @ str_nat (snd c)))]), Suc (snd c))"

definition sample_container :: "sample_cosmos container" where
  "sample_container =
     \<lparr>ct_read_item = (\<lambda>i p c. case fst c (p, i) of Some d \<Rightarrow> (Inr d, c) | None \<Rightarrow> (Inl (cosmos_not_found []), c)),
      ct_create_item = (\<lambda>body c. (Inl (OtherError ''CosmosResourceExistsError'' []), c)),
      ct_replace_item = (\<lambda>i body t c. (Inl (OtherError ''CosmosAccessConditionFailedError'' []), c)),
      ct_execute_item_batch = (\<lambda>ops p c.
        if batch_regular ops \<and> list_all (operation_applies p (fst c)) ops then (Inr (), fold (sample_write p) ops c)
        else (Inl (cosmos_batch_error []), c))\<rparr>"

lemma sample_step:
  assumes "operation_applies p (fst c) op" "map_of (operation_body op) ''_etag'' = None"
  shows "batch_step p op (fst c) (fst (sample_write p op c))"
proof -
  have "stored_as (operation_body op) (operation_body op @ [(''_etag'', JStr (''t'' @ str_nat (snd c)))])"
    using assms(2) by (auto simp: stored_as_def map_add_def)
  moreover have "\<exists>i. map_of body ''id'' = Some (JStr i)" if "op = BatchCreate body" for body
    using assms(1) that by auto
  ultimately show ?thesis using assms(1)
    by (cases op) (fastforce simp: sample_write_def split: option.splits)+
qed

lemma sample_run:
  "batch_regular ops \<Longrightarrow> list_all (operation_applies p (fst c)) ops \<Longrightarrow> batch_run p ops (fst c) (fst (fold (sample_write p) ops c))"
proof (induction ops arbitrary: c)
  case (Cons op ops)
  then have step: "batch_step p op (fst c) (fst (sample_write p op c))"
    by (intro sample_step) (simp_all add: batch_regular_def)
  have "operation_applies p (fst (sample_write p op c)) o'" if "o' \<in> set ops" for o'
  proof -
    have "operation_id op \<notin> operation_id ` set ops" using Cons.prems(1) by (simp add: batch_regular_def)
    with that have "operation_id o' \<noteq> operation_id op" by (metis imageI)
    then show ?thesis using Cons.prems(2) that by (cases o') (auto simp: sample_write_def list_all_iff split: option.splits)
  qed
  then have "list_all (operation_applies p (fst (sample_write p op c))) ops" by (simp add: list_all_iff)
  then have "batch_run p ops (fst (sample_write p op c)) (fst (fold (sample_write p) ops (sample_write p op c)))"
    using Cons.prems(1) by (intro Cons.IH) (auto simp: batch_regular_def)
  with step show ?case by auto
qed simp

lemma sample_sequential: "sequential_container sample_container fst"
  unfolding sequential_container_def
proof (intro conjI allI impI)
  fix i p and c :: sample_cosmos
  show "\<exists>c' m. fst c' = fst c \<and> ct_read_item sample_container i p c =
      (case fst c (p, i) of Some d \<Rightarrow> (Inr d, c') | None \<Rightarrow> (Inl (cosmos_not_found m), c'))"
    by (intro exI [of _ c] exI [of _ "[]"]) (simp add: sample_container_def split: option.splits)
next
  fix ops p and c :: sample_cosmos
  assume reg: "batch_regular ops"
  show "if list_all (operation_applies p (fst c)) ops
      then \<exists>c'. ct_execute_item_batch sample_container ops p c = (Inr (), c') \<and> batch_run p ops (fst c) (fst c')
      else \<exists>m c'. ct_execute_item_batch sample_container ops p c = (Inl (cosmos_batch_error m), c') \<and> fst c' = fst c"
  proof (cases "list_all (operation_applies p (fst c)) ops")
    case True
    with reg have "ct_execute_item_batch sample_container ops p c = (Inr (), fold (sample_write p) ops c)"
      by (simp add: sample_container_def)
    with sample_run [OF reg True] True show ?thesis by (metis (full_types))
  qed (simp add: sample_container_def)
qed

lemma sample_shared: "shared_container sample_container fst (=)"
proof -
  have "batch_run p ops (fst c) (fst c')" if "ct_execute_item_batch sample_container ops p c = (Inr (), c')" for ops p c c'
    using that sample_run [of ops p c] by (auto simp: sample_container_def split: if_splits)
  then show ?thesis by (auto simp: shared_container_def sample_container_def split: option.splits)
qed

lemma fixture_iso: "fromisoformat fixture_std [] = None"
  by (simp add: fixture_std_def)

lemma empty_finds_nothing: "find_event empty_store w k = None" "find_receipt empty_store w k = None"
  by (simp_all add: find_event_def find_receipt_def empty_store_def)

lemma sample_represents: "represents std keys Map.empty empty_store"
  by (simp add: represents_def get_workflow_def find_receipt_def empty_store_def)

section \<open>Properties\<close>

lemma cosmos_step_refines:
  assumes "sequential_container ct docs" "store_wf st" "represents std keys (docs c) st" "fromisoformat std [] = None"
    and "inj_on (sha256_hex std) keys" "ev_idempotency_key e \<in> keys"
    and "find_receipt st (ev_workflow_id e) (ev_idempotency_key e) = None \<Longrightarrow> find_event st (ev_workflow_id e) (ev_event_id e) = None"
  shows "agrees std keys docs (cosmos_apply_workflow_event std ct e c) st (apply_workflow_event std e st)"
proof (cases "validate std e")
  case (Inl x)
  with assms(3) show ?thesis by (simp add: agrees_def cosmos_apply_workflow_event_def apply_workflow_event_def run_simps)
next
  case valid: (Inr u)
  let ?iid = "item_id ''workflow'' (ev_workflow_id e)" and ?rid = "receipt_id std (ev_idempotency_key e)"
  show ?thesis
  proof (cases "find_receipt st (ev_workflow_id e) (ev_idempotency_key e)")
    case None
    from fresh_event_agrees [OF assms(1-3,5,6,4) _ None assms(7) [OF None]] valid show ?thesis by simp
  next
    case (Some rc)
    with assms(3,6) obtain d where d: "docs c (?iid, ?rid) = Some d" "doc_receipt d rc"
      unfolding represents_def by (metis option_rel_Some2)
    obtain c1 where c1: "read_item ct ?rid ?iid c = (Inr (Some d), c1)" "docs c1 = docs c"
      using read_sequential [OF assms(1), of ?rid ?iid c] d(1) by auto
    have "cosmos_apply_workflow_event std ct e c = (replayed_transition std e rc, c1)"
      using valid c1(1) replay_same [OF d(2)]
      by (simp add: cosmos_apply_workflow_event_def run_simps Let_def wbind_def [of "read_item _ _ _"] lift_res_def)
    with valid Some c1(2) assms(3) show ?thesis
      by (cases "replayed_transition std e rc") (simp_all add: agrees_def apply_workflow_event_def)
  qed
qed

text \<open>
  What a sequence of events returns, one result or error each, on either backend. An event that
  is refused leaves the state and the callers go on. No two events of one workflow share an event
  id under different idempotency keys: only SQLite refuses those.
\<close>

fun sqlite_run :: "py_std \<Rightarrow> lifecycle_event list \<Rightarrow> state_store \<Rightarrow> transition_result res list \<times> state_store" where
  "sqlite_run std [] st = ([], st)"
| "sqlite_run std (e # es) st =
     (case apply_workflow_event std e st of
        Inl x \<Rightarrow> (let (rs, st') = sqlite_run std es st in (Inl x # rs, st'))
      | Inr (tr, st1) \<Rightarrow> (let (rs, st') = sqlite_run std es st1 in (Inr tr # rs, st')))"

fun cosmos_run :: "py_std \<Rightarrow> 'c container \<Rightarrow> lifecycle_event list \<Rightarrow> 'c \<Rightarrow> transition_result res list \<times> 'c" where
  "cosmos_run std ct [] c = ([], c)"
| "cosmos_run std ct (e # es) c =
     (let (r, c1) = cosmos_apply_workflow_event std ct e c; (rs, c') = cosmos_run std ct es c1 in (r # rs, c'))"

definition event_key :: "lifecycle_event \<Rightarrow> (string \<times> string) \<times> string" where
  "event_key e = ((ev_workflow_id e, ev_event_id e), ev_idempotency_key e)"

definition receipt_key :: "receipt \<Rightarrow> (string \<times> string) \<times> string" where
  "receipt_key r = ((rc_workflow_id r, rc_event_id r), rc_idempotency_key r)"

definition one_key_per_event :: "state_store \<Rightarrow> lifecycle_event list \<Rightarrow> bool" where
  "one_key_per_event st es \<longleftrightarrow> single_valued (receipt_key ` set (st_receipts st) \<union> event_key ` set es)"

lemma one_key_found:
  assumes "one_key_per_event st (e # es)" "find_receipt st (ev_workflow_id e) (ev_idempotency_key e) = None"
  shows "find_event st (ev_workflow_id e) (ev_event_id e) = None"
proof (rule ccontr)
  assume "find_event st (ev_workflow_id e) (ev_event_id e) \<noteq> None"
  then obtain r where r: "r \<in> set (st_receipts st)" "rc_workflow_id r = ev_workflow_id e" "rc_event_id r = ev_event_id e"
    by (auto simp: find_event_def dest!: find_SomeD)
  then have "receipt_key r = ((ev_workflow_id e, ev_event_id e), rc_idempotency_key r)" by (simp add: receipt_key_def)
  with r(1) assms(1) have "rc_idempotency_key r = ev_idempotency_key e"
    unfolding one_key_per_event_def single_valued_def event_key_def by (metis (mono_tags, lifting) UnCI image_eqI list.set_intros(1))
  with r(1,2) assms(2) show False by (auto simp: find_receipt_def find_None_iff)
qed

lemma one_key_next:
  assumes "one_key_per_event st (e # es)"
  shows "one_key_per_event st es" "apply_workflow_event std e st = Inr (tr, st') \<Longrightarrow> one_key_per_event st' es"
proof -
  show "one_key_per_event st es"
    using assms unfolding one_key_per_event_def by (rule single_valued_subset [rotated]) auto
  assume "apply_workflow_event std e st = Inr (tr, st')"
  then have "receipt_key ` set (st_receipts st') \<subseteq> insert (event_key e) (receipt_key ` set (st_receipts st))"
    by (cases rule: apply_event_cases) (auto simp: receipt_key_def event_key_def write_workflow_def)
  then show "one_key_per_event st' es"
    using assms unfolding one_key_per_event_def by (elim single_valued_subset [rotated]) auto
qed



text \<open>C6. A committed transition is atomic among other clients: between the reads and the batch any other client
  may write, yet if the batch is accepted there was a moment at which the workflow was exactly
  the record the event was applied to, at the expected version, without a receipt for the key,
  and the batch turned those documents, and no others, into the advanced record and its
  receipt. So no update is lost and no event is applied twice.\<close>

theorem cosmos_commit_is_atomic:
  assumes shared: "shared_container ct docs reached"
    and run: "cosmos_apply_workflow_event std ct e c = (Inr tr, c')" "\<not> tr_replayed tr"
    and iid: "iid = item_id ''workflow'' (ev_workflow_id e)" and rid: "rid = receipt_id std (ev_idempotency_key e)"
  shows "\<exists>c1 old w f d dr. reached c c1 \<and> docs c1 (iid, rid) = None \<and>
     (case docs c1 (iid, iid) of None \<Rightarrow> old = None | Some doc \<Rightarrow> (\<exists>cur. old = Some cur \<and> workflow_from_raw doc = Inr cur)) \<and>
     (ev_expected_version e = None \<or> ev_expected_version e = map_option wf_version old) \<and> apply_to std e old = Inr w \<and>
     tr_record tr = w\<lparr>wf_version := next_version (map_option wf_version old)\<rparr> \<and> fingerprint std e = Inr f \<and>
     stored_as (workflow_body iid (tr_record tr)) d \<and> stored_as (receipt_body rid iid e f (tr_record tr)) dr \<and>
     docs c' = (docs c1)((iid, iid) \<mapsto> d, (iid, rid) \<mapsto> dr)"
proof -
  have norep: "replayed_from_receipt std e d \<noteq> Inr tr" for d using run(2) replay_marked by blast
  from run(1) norep obtain ca cb current old w f where
      reads: "read_item ct rid iid c = (Inr None, ca)" "read_item ct iid iid ca = (Inr current, cb)"
    and rec: "(case current of None \<Rightarrow> Inr None
       | Some d \<Rightarrow> if d = [] then Inr None else rbind (workflow_from_raw d) (\<lambda>w. Inr (Some w))) = Inr old"
    and ver: "assert_expected (map_option wf_version old) (ev_expected_version e) = Inr ()"
    and ap: "apply_to std e old = Inr w" and f: "fingerprint std e = Inr f"
    and com: "commit_batch std ct e current (w\<lparr>wf_version := next_version (map_option wf_version old)\<rparr>) f cb = (Inr tr, c')"
    unfolding cosmos_apply_workflow_event_def Let_def iid [symmetric] rid [symmetric]
    by (elim wbind_Inr) (auto simp: lift_res_def elim!: wbind_Inr split: option.splits)
  from commit_shared [OF shared com run(2) iid rid] obtain c1 d dr where
    tr: "tr_record tr = w\<lparr>wf_version := next_version (map_option wf_version old)\<rparr>" and c1: "reached cb c1" "docs c1 (iid, rid) = None"
      "map_option (\<lambda>d. map_of d ''_etag'') (docs c1 (iid, iid)) = map_option (\<lambda>d. map_of d ''_etag'') current"
      "stored_as (workflow_body iid (tr_record tr)) d" "stored_as (receipt_body rid iid e f (tr_record tr)) dr"
      "docs c' = (docs c1)((iid, iid) \<mapsto> d, (iid, rid) \<mapsto> dr)" by metis
  from read_shared [OF shared reads(1)] read_shared [OF shared reads(2)] have cb: "reached c cb" "docs cb (iid, iid) = current"
    using shared_trans [OF shared] by blast+
  with c1(1) have "reached c c1" using shared_trans [OF shared] by blast
  moreover have "docs c1 (iid, iid) = current" using unchanged_tag [OF shared c1(1)] c1(3) cb(2) by metis
  moreover have "current \<noteq> Some []"
    using com by (auto simp: commit_batch_def Let_def run_simps text_field_def)
  then have "case current of None \<Rightarrow> old = None | Some doc \<Rightarrow> (\<exists>cur. old = Some cur \<and> workflow_from_raw doc = Inr cur)"
    using rec by (auto simp: rbind_eq_Inr split: option.splits if_splits)
  moreover have "ev_expected_version e = None \<or> ev_expected_version e = map_option wf_version old" using ver by auto
  ultimately show ?thesis using c1 tr ap f
    by (intro exI [of _ c1] exI [of _ old] exI [of _ w] exI [of _ f] exI [of _ d] exI [of _ dr]) simp
qed

theorem cosmos_commit_is_atomic_witness:
  "\<exists>tr c' w. cosmos_apply_workflow_event fixture_std sample_container sample_created (Map.empty, 0) = (Inr tr, c') \<and>
     \<not> tr_replayed tr \<and> apply_to fixture_std sample_created None = Inr w \<and> tr_record tr = w\<lparr>wf_version := 1\<rparr>"
proof -
  let ?run = "cosmos_apply_workflow_event fixture_std sample_container sample_created (Map.empty, 0)"
  have "fst ?run = Inr (sample_result sample_created (sample_record RECEIVED 1))"
    using fresh_event_agrees [where ct = sample_container and docs = fst and c = "(Map.empty, 0)" and std = fixture_std
        and st = empty_store and e = sample_created and keys = "{ev_idempotency_key sample_created}", OF sample_sequential store_wf_empty] sample_run1
    by (simp add: agrees_def sample_valid empty_finds_nothing sample_represents [of fixture_std "{ev_idempotency_key sample_created}"] fixture_iso)
  then obtain tr c' where run: "?run = (Inr tr, c')" "\<not> tr_replayed tr"
    by (cases ?run) (auto simp: sample_result_def)
  from cosmos_commit_is_atomic [OF sample_shared run refl refl] run show ?thesis
    by (auto simp: next_version_def)
qed

end
