(* ===== verification/Cosmos_Audit.thy ===== *)
theory Cosmos_Audit
  imports Cosmos_Store Audit_Log
begin

text \<open>
  The Cosmos audit log, \<open>src/state/cosmos_audit.py\<close>. The tip of the chain is a document in the
  partition of the events; an append is a batch that creates the event and replaces the tip on
  its \<open>_etag\<close>, retried when another writer was first. On a container of its own it refines the
  SQLite log; among other writers the chain does not fork.
\<close>

section \<open>Decoding\<close>

definition AUDIT_PARTITION_KEY :: string where
  "AUDIT_PARTITION_KEY = ''eip-audit-chain''"

definition TIP_ID :: string where
  "TIP_ID = ''audit-chain:tip''"

definition MAX_TIP_ATTEMPTS :: nat where
  "MAX_TIP_ATTEMPTS = 8"

definition audit_field_error :: "string \<Rightarrow> string \<Rightarrow> exn" where
  "audit_field_error field rest =
     OtherError ''CosmosStoredAuditError'' (''Cosmos audit field '' @ [CHR 0x27] @ field @ [CHR 0x27] @ rest)"

definition audit_mapping_field :: "item \<Rightarrow> string \<Rightarrow> item res" where
  "audit_mapping_field payload field =
     (case map_of payload field of
        Some (JObj kvs) \<Rightarrow> Inr kvs
      | _ \<Rightarrow> Inl (audit_field_error field '' must be an object''))"

definition audit_text_field :: "item \<Rightarrow> string \<Rightarrow> string res" where
  "audit_text_field payload field =
     (case map_of payload field of
        Some (JStr s) \<Rightarrow> if s = [] then Inl (audit_field_error field '' must be a non-blank string'') else Inr s
      | _ \<Rightarrow> Inl (audit_field_error field '' must be a non-blank string''))"

definition audit_optional_text_field :: "item \<Rightarrow> string \<Rightarrow> string option res" where
  "audit_optional_text_field payload field =
     (case map_of payload field of
        None \<Rightarrow> Inr None
      | Some JNull \<Rightarrow> Inr None
      | Some (JStr s) \<Rightarrow> if s = [] then Inl (audit_field_error field '' must be a non-blank string when set'') else Inr (Some s)
      | _ \<Rightarrow> Inl (audit_field_error field '' must be a non-blank string when set''))"

definition audit_integer_field :: "item \<Rightarrow> string \<Rightarrow> int \<Rightarrow> int res" where
  "audit_integer_field payload field minimum =
     (case map_of payload field of
        Some (JInt i) \<Rightarrow>
          if i < minimum then Inl (audit_field_error field ('' must be an integer >= '' @ str_int minimum)) else Inr i
      | _ \<Rightarrow> Inl (audit_field_error field ('' must be an integer >= '' @ str_int minimum)))"

definition audit_event_payload :: "audit_event \<Rightarrow> item" where
  "audit_event_payload e =
     [(''event_id'', JStr (au_event_id e)), (''correlation_id'', JStr (au_correlation_id e)), (''actor'', JStr (au_actor e)),
      (''action'', JStr (au_action e)), (''resource'', JStr (au_resource e)), (''payload'', JObj (au_payload e)),
      (''occurred_at'', JStr (au_occurred_at e)), (''previous_hash'', json_of_opt (au_previous_hash e)),
      (''event_hash'', json_of_opt (au_event_hash e))]"

definition audit_event_from_payload :: "item \<Rightarrow> audit_event res" where
  "audit_event_from_payload p =
     rbind (audit_text_field p ''event_id'') (\<lambda>event_id.
     rbind (audit_text_field p ''correlation_id'') (\<lambda>correlation_id.
     rbind (audit_text_field p ''actor'') (\<lambda>actor.
     rbind (audit_text_field p ''action'') (\<lambda>action.
     rbind (audit_text_field p ''resource'') (\<lambda>resource.
     rbind (audit_mapping_field p ''payload'') (\<lambda>payload.
     rbind (audit_text_field p ''occurred_at'') (\<lambda>occurred_at.
     rbind (audit_optional_text_field p ''previous_hash'') (\<lambda>previous_hash.
     rbind (audit_optional_text_field p ''event_hash'') (\<lambda>event_hash.
     Inr \<lparr>au_event_id = event_id, au_correlation_id = correlation_id, au_actor = actor, au_action = action,
       au_resource = resource, au_payload = payload, au_occurred_at = occurred_at, au_previous_hash = previous_hash,
       au_event_hash = event_hash\<rparr>)))))))))"

section \<open>The log\<close>

definition event_item_id :: "py_std \<Rightarrow> string \<Rightarrow> string" where
  "event_item_id std event_id = ''audit-event:'' @ sha256_hex std event_id"

definition replayed_event :: "py_std \<Rightarrow> audit_event \<Rightarrow> item \<Rightarrow> audit_event res" where
  "replayed_event std event stored =
     rbind (rbind (audit_mapping_field stored ''payload'') audit_event_from_payload) (\<lambda>restored.
     if event_identity std restored \<noteq> event_identity std event
     then Inl (AuditConflict ''audit event id has already been used for different content'')
     else Inr restored)"

text \<open>\<open>if tip\<close>: whether there is a tip document, and it is not empty.\<close>

definition has_tip :: "item option \<Rightarrow> item option" where
  "has_tip tip = (case tip of None \<Rightarrow> None | Some d \<Rightarrow> if d = [] then None else Some d)"

definition tip_hash :: "item option \<Rightarrow> string option res" where
  "tip_hash tip = (case has_tip tip of None \<Rightarrow> Inr None | Some d \<Rightarrow> rbind (audit_text_field d ''event_hash'') (\<lambda>h. Inr (Some h)))"

definition tip_sequence :: "item option \<Rightarrow> int res" where
  "tip_sequence tip = (case has_tip tip of None \<Rightarrow> Inr 0 | Some d \<Rightarrow> audit_integer_field d ''sequence'' 1)"

definition event_body :: "py_std \<Rightarrow> string \<Rightarrow> int \<Rightarrow> audit_event \<Rightarrow> string \<Rightarrow> item" where
  "event_body std pk sequence finalized h =
     [(''id'', JStr (event_item_id std (au_event_id finalized))), (''partition_key'', JStr pk), (''kind'', JStr ''audit-event''),
      (''sequence'', JInt sequence), (''event_id'', JStr (au_event_id finalized)), (''event_hash'', JStr h),
      (''payload'', JObj (audit_event_payload finalized))]"

definition tip_body :: "string \<Rightarrow> int \<Rightarrow> audit_event \<Rightarrow> string \<Rightarrow> item" where
  "tip_body pk sequence finalized h =
     [(''id'', JStr TIP_ID), (''partition_key'', JStr pk), (''kind'', JStr ''audit-chain-tip''), (''sequence'', JInt sequence),
      (''event_id'', JStr (au_event_id finalized)), (''event_hash'', JStr h)]"

definition tip_operation :: "item option \<Rightarrow> item \<Rightarrow> batch_operation res" where
  "tip_operation tip body =
     (case tip of
        None \<Rightarrow> Inr (BatchCreate body)
      | Some d \<Rightarrow> rbind (audit_text_field d ''_etag'') (\<lambda>t. Inr (BatchReplace TIP_ID body t)))"

fun append_attempts :: "py_std \<Rightarrow> 'c container \<Rightarrow> string \<Rightarrow> audit_event \<Rightarrow> nat \<Rightarrow> 'c \<Rightarrow> audit_event res \<times> 'c" where
  "append_attempts std ct pk event 0 c =
     (Inl (RuntimeError ''audit chain tip could not be advanced; refusing to append without a linked predecessor''), c)"
| "append_attempts std ct pk event (Suc n) c =
     wbind (read_item ct TIP_ID pk) (\<lambda>tip.
     wbind (lift_res (tip_hash tip)) (\<lambda>previous.
     wbind (lift_res (tip_sequence tip)) (\<lambda>s.
     let candidate = event\<lparr>au_previous_hash := previous, au_event_hash := None\<rparr>;
         h = compute_event_hash std candidate;
         finalized = candidate\<lparr>au_event_hash := Some h\<rparr> in
     wbind (lift_res (tip_operation tip (tip_body pk (s + 1) finalized h))) (\<lambda>op c1.
     case ct_execute_item_batch ct [BatchCreate (event_body std pk (s + 1) finalized h), op] pk c1 of
       (Inr _, c2) \<Rightarrow> (Inr finalized, c2)
     | (Inl x, c2) \<Rightarrow>
         if \<not> raised_as batch_conflicts x then (Inl x, c2)
         else wbind (read_item ct (event_item_id std (au_event_id event)) pk) (\<lambda>stored.
           case stored of
             Some d \<Rightarrow> lift_res (replayed_event std event d)
           | None \<Rightarrow> append_attempts std ct pk event n) c2)))) c"

definition cosmos_append :: "py_std \<Rightarrow> 'c container \<Rightarrow> string \<Rightarrow> audit_event \<Rightarrow> 'c \<Rightarrow> audit_event res \<times> 'c" where
  "cosmos_append std ct pk event = append_attempts std ct pk event MAX_TIP_ATTEMPTS"

definition cosmos_last_hash :: "'c container \<Rightarrow> string \<Rightarrow> 'c \<Rightarrow> string option res \<times> 'c" where
  "cosmos_last_hash ct pk = wbind (read_item ct TIP_ID pk) (\<lambda>tip. lift_res (tip_hash tip))"

definition cosmos_event_count :: "'c container \<Rightarrow> string \<Rightarrow> 'c \<Rightarrow> int res \<times> 'c" where
  "cosmos_event_count ct pk = wbind (read_item ct TIP_ID pk) (\<lambda>tip. lift_res (tip_sequence tip))"

section \<open>Documents decode to what was written\<close>

definition auditable :: "audit_event \<Rightarrow> bool" where
  "auditable e \<longleftrightarrow> list_all (\<lambda>s. s \<noteq> []) [au_event_id e, au_correlation_id e, au_actor e, au_action e, au_resource e, au_occurred_at e]"

lemma audit_field_iffs [res_iffs]:
  "audit_text_field p k = Inr s \<longleftrightarrow> map_of p k = Some (JStr s) \<and> s \<noteq> []"
  "audit_integer_field p k m = Inr i \<longleftrightarrow> map_of p k = Some (JInt i) \<and> m \<le> i"
  "audit_mapping_field p k = Inr kvs \<longleftrightarrow> map_of p k = Some (JObj kvs)"
  by (auto simp: audit_text_field_def audit_integer_field_def audit_mapping_field_def split: option.splits json.splits if_splits)

lemma audit_round_trip:
  assumes "auditable e" "au_previous_hash e \<noteq> Some []" "au_event_hash e \<noteq> Some []"
  shows "audit_event_from_payload (audit_event_payload e) = Inr e"
proof -
  let ?p = "audit_event_payload e"
  have "audit_text_field ?p ''event_id'' = Inr (au_event_id e)" "audit_text_field ?p ''correlation_id'' = Inr (au_correlation_id e)"
    "audit_text_field ?p ''actor'' = Inr (au_actor e)" "audit_text_field ?p ''action'' = Inr (au_action e)"
    "audit_text_field ?p ''resource'' = Inr (au_resource e)" "audit_text_field ?p ''occurred_at'' = Inr (au_occurred_at e)"
    "audit_mapping_field ?p ''payload'' = Inr (au_payload e)"
    using assms(1) by (simp_all add: audit_field_iffs audit_event_payload_def auditable_def)
  moreover have "audit_optional_text_field ?p ''previous_hash'' = Inr (au_previous_hash e)"
    using assms(2) by (cases "au_previous_hash e") (simp_all add: audit_optional_text_field_def audit_event_payload_def json_of_opt_def)
  moreover have "audit_optional_text_field ?p ''event_hash'' = Inr (au_event_hash e)"
    using assms(3) by (cases "au_event_hash e") (simp_all add: audit_optional_text_field_def audit_event_payload_def json_of_opt_def)
  ultimately show ?thesis by (simp add: audit_event_from_payload_def)
qed

lemma audit_ids [simp]: "event_item_id std k \<noteq> TIP_ID" "TIP_ID \<noteq> event_item_id std k"
  by (simp_all add: event_item_id_def TIP_ID_def)

lemma audit_bodies [simp]:
  "map_of (event_body std pk s f h) ''id'' = Some (JStr (event_item_id std (au_event_id f)))"
  "map_of (tip_body pk s f h) ''id'' = Some (JStr TIP_ID)"
  "map_of (event_body std pk s f h) ''_etag'' = None" "map_of (tip_body pk s f h) ''_etag'' = None"
  by (simp_all add: event_body_def tip_body_def)

section \<open>One attempt\<close>

text \<open>What an attempt writes, given the tip it read.\<close>

definition linked :: "py_std \<Rightarrow> audit_event \<Rightarrow> string option \<Rightarrow> audit_event" where
  "linked std event previous =
     (let candidate = event\<lparr>au_previous_hash := previous, au_event_hash := None\<rparr> in
      candidate\<lparr>au_event_hash := Some (compute_event_hash std candidate)\<rparr>)"

definition link_hash :: "py_std \<Rightarrow> audit_event \<Rightarrow> string option \<Rightarrow> string" where
  "link_hash std event previous = compute_event_hash std (event\<lparr>au_previous_hash := previous\<rparr>)"

lemma linked_simps [simp]:
  "au_event_id (linked std e p) = au_event_id e" "au_previous_hash (linked std e p) = p"
  "au_event_hash (linked std e p) = Some (link_hash std e p)" "auditable (linked std e p) = auditable e"
  by (simp_all add: linked_def link_hash_def auditable_def Let_def)

definition attempt_batch ::
    "py_std \<Rightarrow> string \<Rightarrow> audit_event \<Rightarrow> item option \<Rightarrow> string option \<Rightarrow> int \<Rightarrow> batch_operation list res" where
  "attempt_batch std pk event tip previous s =
     rbind (tip_operation tip (tip_body pk (s + 1) (linked std event previous) (link_hash std event previous))) (\<lambda>op.
     Inr [BatchCreate (event_body std pk (s + 1) (linked std event previous) (link_hash std event previous)), op])"

lemma attempt_unfold:
  "append_attempts std ct pk event (Suc n) =
     wbind (read_item ct TIP_ID pk) (\<lambda>tip.
     wbind (lift_res (tip_hash tip)) (\<lambda>previous.
     wbind (lift_res (tip_sequence tip)) (\<lambda>s.
     wbind (lift_res (attempt_batch std pk event tip previous s)) (\<lambda>ops c1.
     case ct_execute_item_batch ct ops pk c1 of
       (Inr _, c2) \<Rightarrow> (Inr (linked std event previous), c2)
     | (Inl x, c2) \<Rightarrow>
         if \<not> raised_as batch_conflicts x then (Inl x, c2)
         else wbind (read_item ct (event_item_id std (au_event_id event)) pk) (\<lambda>stored.
           case stored of
             Some d \<Rightarrow> lift_res (replayed_event std event d)
           | None \<Rightarrow> append_attempts std ct pk event n) c2))))"
proof -
  have bind: "wbind (lift_res (rbind m (\<lambda>x. Inr (g x)))) k = wbind (lift_res m) (\<lambda>x. k (g x))" for m :: "'x res" and g k
    by (cases m) (simp_all add: fun_eq_iff lift_res_bind)
  have final: "event\<lparr>au_previous_hash := p, au_event_hash := None, au_event_hash := Some (link_hash std event p)\<rparr> = linked std event p"
    and hash: "compute_event_hash std (event\<lparr>au_previous_hash := p, au_event_hash := None\<rparr>) = link_hash std event p" for p
    by (simp_all add: linked_def link_hash_def Let_def)
  show ?thesis
    unfolding append_attempts.simps Let_def final hash attempt_batch_def bind by (rule ext) (rule refl)
qed

declare append_attempts.simps(2) [simp del]

lemma attempt_effect:
  assumes "attempt_batch std pk event tip previous s = Inr ops" "batch_run pk ops D D'"
  shows "\<exists>d dt. D (pk, event_item_id std (au_event_id event)) = None \<and>
     stored_as (event_body std pk (s + 1) (linked std event previous) (link_hash std event previous)) d \<and>
     stored_as (tip_body pk (s + 1) (linked std event previous) (link_hash std event previous)) dt \<and>
     D' = D((pk, event_item_id std (au_event_id event)) \<mapsto> d, (pk, TIP_ID) \<mapsto> dt) \<and>
     map_option (\<lambda>d. map_of d ''_etag'') (D (pk, TIP_ID)) = map_option (\<lambda>d. map_of d ''_etag'') tip"
  using assms
  by (auto simp: attempt_batch_def tip_operation_def rbind_eq_Inr audit_field_iffs split: option.splits) blast+

lemma attempt_regular: "attempt_batch std pk event tip previous s = Inr ops \<Longrightarrow> batch_regular ops"
  by (auto simp: attempt_batch_def tip_operation_def batch_regular_def rbind_eq_Inr audit_field_iffs split: option.splits)

lemma attempt_applies:
  assumes "attempt_batch std pk event (D (pk, TIP_ID)) previous s = Inr ops"
  shows "list_all (operation_applies pk D) ops \<longleftrightarrow> D (pk, event_item_id std (au_event_id event)) = None"
  using assms
  by (auto simp: attempt_batch_def tip_operation_def rbind_eq_Inr audit_field_iffs split: option.splits)

lemma sequential_batch:
  assumes "sequential_container ct docs" "batch_regular ops"
  shows "list_all (operation_applies p (docs c)) ops \<Longrightarrow>
      \<exists>c'. ct_execute_item_batch ct ops p c = (Inr (), c') \<and> batch_run p ops (docs c) (docs c')"
    "\<not> list_all (operation_applies p (docs c)) ops \<Longrightarrow>
      \<exists>m c'. ct_execute_item_batch ct ops p c = (Inl (cosmos_batch_error m), c') \<and> docs c' = docs c"
  using assms unfolding sequential_container_def by meson+

section \<open>The SQLite log as the specification\<close>

definition doc_event :: "item \<Rightarrow> audit_row \<Rightarrow> bool" where
  "doc_event d row \<longleftrightarrow> (\<exists>ev. ar_payload row = Inr ev \<and> rbind (audit_mapping_field d ''payload'') audit_event_from_payload = Inr ev)"

definition doc_tip :: "item option \<Rightarrow> audit_log \<Rightarrow> bool" where
  "doc_tip tip rows \<longleftrightarrow>
     (if rows = [] then tip = None
      else \<exists>d t. tip = Some d \<and> t \<noteq> [] \<and> map_of d ''_etag'' = Some (JStr t) \<and>
        audit_text_field d ''event_hash'' = Inr (ar_event_hash (last rows)) \<and> audit_integer_field d ''sequence'' 1 = Inr (int (length rows)))"

text \<open>The documents represent the rows, as far as the event ids in \<open>ids\<close> tell: an event is filed under the digest of its id.\<close>

definition represents_log :: "py_std \<Rightarrow> string \<Rightarrow> string set \<Rightarrow> docs \<Rightarrow> audit_log \<Rightarrow> bool" where
  "represents_log std pk ids D rows \<longleftrightarrow> doc_tip (D (pk, TIP_ID)) rows \<and>
     (\<forall>k \<in> ids. rel_option doc_event (D (pk, event_item_id std k)) (find (\<lambda>row. ar_event_id row = k) rows))"

lemma tip_reads:
  assumes "doc_tip tip rows"
  shows "tip_hash tip = Inr (last_hash rows)" "tip_sequence tip = Inr (int (length rows))"
    "\<exists>op. tip_operation tip body = Inr op"
  using assms
  by (auto simp: doc_tip_def tip_hash_def tip_sequence_def has_tip_def last_hash_def tip_operation_def audit_field_iffs rbind_eq_Inr
      split: if_splits)

text \<open>What the batch leaves represents the extended log.\<close>

lemma stored_event:
  assumes "stored_as (event_body std pk s f h) d" "auditable f" "au_previous_hash f \<noteq> Some []" "au_event_hash f \<noteq> Some []"
  shows "doc_event d \<lparr>ar_event_id = i, ar_payload = Inr f, ar_event_hash = h'\<rparr>"
proof -
  have "map_of (event_body std pk s f h) ''payload'' = Some (JObj (audit_event_payload f))" by (simp add: event_body_def)
  with assms(1) have "map_of d ''payload'' = Some (JObj (audit_event_payload f))" unfolding stored_as_def by blast
  with audit_round_trip [OF assms(2-4)] show ?thesis by (simp add: doc_event_def audit_mapping_field_def)
qed

lemma stored_tip:
  assumes "stored_as (tip_body pk (int (length rows) + 1) f h) d" "h \<noteq> []" "ar_event_hash row = h"
  shows "doc_tip (Some d) (rows @ [row])"
proof -
  have "map_of (tip_body pk (int (length rows) + 1) f h) ''event_hash'' = Some (JStr h)"
    "map_of (tip_body pk (int (length rows) + 1) f h) ''sequence'' = Some (JInt (int (length rows) + 1))"
    by (simp_all add: tip_body_def)
  with assms(1) have "map_of d ''event_hash'' = Some (JStr h)" "map_of d ''sequence'' = Some (JInt (int (length rows) + 1))"
    "\<exists>t. t \<noteq> [] \<and> map_of d ''_etag'' = Some (JStr t)" unfolding stored_as_def by blast+
  with assms(2,3) show ?thesis by (auto simp: doc_tip_def audit_field_iffs)
qed

lemma represents_append:
  assumes rep: "represents_log std pk ids D rows" and ids: "inj_on (sha256_hex std) ids" "au_event_id f \<in> ids"
    and fresh: "find (\<lambda>row. ar_event_id row = au_event_id f) rows = None"
    and d: "stored_as (event_body std pk s f h) d" "stored_as (tip_body pk (int (length rows) + 1) f h) dt"
    and ok: "auditable f" "au_previous_hash f \<noteq> Some []" "au_event_hash f = Some h" "h \<noteq> []"
  shows "represents_log std pk ids (D((pk, event_item_id std (au_event_id f)) \<mapsto> d, (pk, TIP_ID) \<mapsto> dt))
     (rows @ [\<lparr>ar_event_id = au_event_id f, ar_payload = Inr f, ar_event_hash = h\<rparr>])"
proof -
  have inj: "event_item_id std k = event_item_id std (au_event_id f) \<longleftrightarrow> k = au_event_id f" if "k \<in> ids" for k
    using inj_on_eq_iff [OF ids(1) that ids(2)] by (simp add: event_item_id_def)
  have "doc_event d \<lparr>ar_event_id = au_event_id f, ar_payload = Inr f, ar_event_hash = h\<rparr>" using ok by (intro stored_event [OF d(1)]) simp_all
  moreover have "doc_tip (Some dt) (rows @ [\<lparr>ar_event_id = au_event_id f, ar_payload = Inr f, ar_event_hash = h\<rparr>])"
    by (rule stored_tip [OF d(2) ok(4)]) simp
  ultimately show ?thesis using rep fresh
    unfolding represents_log_def
    by (auto simp: inj find_append split: option.split)
qed

definition log_agrees :: "py_std \<Rightarrow> string \<Rightarrow> string set \<Rightarrow> ('c \<Rightarrow> docs) \<Rightarrow> audit_event res \<times> 'c \<Rightarrow> audit_log \<Rightarrow> (audit_event \<times> audit_log) res \<Rightarrow> bool" where
  "log_agrees std pk ids docs out rows spec \<longleftrightarrow>
     (case spec of Inl x \<Rightarrow> fst out = Inl x \<and> represents_log std pk ids (docs (snd out)) rows
      | Inr (f, rows') \<Rightarrow> fst out = Inr f \<and> represents_log std pk ids (docs (snd out)) rows')"

lemma attempt_agrees:
  assumes seq: "sequential_container ct docs" and rep: "represents_log std pk ids (docs c) rows" and ok: "auditable e"
    and ids: "inj_on (sha256_hex std) ids" "au_event_id e \<in> ids"
    and hex: "\<And>s. sha256_hex std s \<noteq> []"
  shows "log_agrees std pk ids docs (append_attempts std ct pk e (Suc n) c) rows (audit_append std e rows)"
proof -
  let ?iid = "event_item_id std (au_event_id e)" and ?prev = "last_hash rows"
  let ?f = "linked std e ?prev" and ?h = "link_hash std e ?prev"
  have tip: "doc_tip (docs c (pk, TIP_ID)) rows" using rep by (simp add: represents_log_def)
  have h: "?h \<noteq> []" using hex by (simp add: link_hash_def compute_event_hash_def)
  have prev: "?prev \<noteq> Some []" using tip by (auto simp: doc_tip_def last_hash_def audit_field_iffs)
  obtain ops where ops: "attempt_batch std pk e (docs c (pk, TIP_ID)) ?prev (int (length rows)) = Inr ops"
    using tip_reads(3) [OF tip, of "tip_body pk (int (length rows) + 1) ?f ?h"] unfolding attempt_batch_def by auto
  obtain c1 where c1: "read_item ct TIP_ID pk c = (Inr (docs c (pk, TIP_ID)), c1)" "docs c1 = docs c"
    using read_sequential [OF seq] by blast
  have rest: "append_attempts std ct pk e (Suc n) c = (case ct_execute_item_batch ct ops pk c1 of
       (Inr _, c2) \<Rightarrow> (Inr ?f, c2)
     | (Inl x, c2) \<Rightarrow>
         if \<not> raised_as batch_conflicts x then (Inl x, c2)
         else wbind (read_item ct ?iid pk) (\<lambda>stored.
           case stored of
             Some d \<Rightarrow> lift_res (replayed_event std e d)
           | None \<Rightarrow> append_attempts std ct pk e n) c2)"
    using c1(1) ops by (simp add: attempt_unfold wbind_def [of "read_item ct TIP_ID pk"] tip_reads(1,2) [OF tip] run_simps)
  have reg: "batch_regular ops" using attempt_regular [OF ops] .
  have spec: "audit_append std e rows = (case find (\<lambda>row. ar_event_id row = au_event_id e) rows of
       None \<Rightarrow> Inr (?f, rows @ [\<lparr>ar_event_id = au_event_id ?f, ar_payload = Inr ?f, ar_event_hash = ?h\<rparr>])
     | Some row \<Rightarrow> rbind (ar_payload row) (\<lambda>restored.
         if event_identity std restored \<noteq> event_identity std e
         then Inl (AuditConflict ''audit event id has already been used for different content'') else Inr (restored, rows)))"
    by (simp add: audit_append_def linked_def link_hash_def Let_def split: option.splits)
  have row: "rel_option doc_event (docs c (pk, ?iid)) (find (\<lambda>row. ar_event_id row = au_event_id e) rows)"
    using rep ids(2) by (simp add: represents_log_def)
  show ?thesis
  proof (cases "find (\<lambda>row. ar_event_id row = au_event_id e) rows")
    case None
    with row attempt_applies [where D = "docs c", OF ops] have "list_all (operation_applies pk (docs c1)) ops" by (simp add: c1(2))
    from sequential_batch(1) [OF seq reg this] obtain c2 where c2:
      "ct_execute_item_batch ct ops pk c1 = (Inr (), c2)" "batch_run pk ops (docs c) (docs c2)" by (auto simp: c1(2))
    from attempt_effect [OF ops c2(2)] obtain d dt where eff:
      "stored_as (event_body std pk (int (length rows) + 1) ?f ?h) d" "stored_as (tip_body pk (int (length rows) + 1) ?f ?h) dt"
      "docs c2 = (docs c)((pk, ?iid) \<mapsto> d, (pk, TIP_ID) \<mapsto> dt)" by blast
    from represents_append [OF rep ids(1) _ _ eff(1,2)] ids(2) None ok prev h eff(3) rest c2(1) show ?thesis
      by (simp add: log_agrees_def spec)
  next
    case (Some r)
    with row obtain d ev where d: "docs c (pk, ?iid) = Some d" "ar_payload r = Inr ev"
        "rbind (audit_mapping_field d ''payload'') audit_event_from_payload = Inr ev"
      by (metis doc_event_def option_rel_Some2)
    with attempt_applies [where D = "docs c", OF ops] have "\<not> list_all (operation_applies pk (docs c1)) ops" by (simp add: c1(2))
    from sequential_batch(2) [OF seq reg this] obtain m c2 where c2:
      "ct_execute_item_batch ct ops pk c1 = (Inl (cosmos_batch_error m), c2)" "docs c2 = docs c" by (auto simp: c1(2))
    obtain c3 where c3: "read_item ct ?iid pk c2 = (Inr (Some d), c3)" "docs c3 = docs c"
      using read_sequential [OF seq, of ?iid pk c2] c2(2) d(1) by auto
    have "append_attempts std ct pk e (Suc n) c = (replayed_event std e d, c3)"
      using c2(1) c3(1) by (simp add: rest raised_as_def batch_conflicts_def wbind_def lift_res_def)
    with Some d c3(2) rep show ?thesis by (simp add: log_agrees_def spec replayed_event_def)
  qed
qed

text \<open>Among other clients: how an append that returns came to do so.\<close>

lemma attempts_shared:
  assumes shared: "shared_container ct docs reached"
    and run: "append_attempts std ct pk e n c = (Inr f, c')" and iid: "iid = event_item_id std (au_event_id e)"
  shows "(\<exists>c1 previous s d dt. reached c c1 \<and> docs c1 (pk, iid) = None \<and> tip_hash (docs c1 (pk, TIP_ID)) = Inr previous \<and>
        tip_sequence (docs c1 (pk, TIP_ID)) = Inr s \<and> f = linked std e previous \<and>
        stored_as (event_body std pk (s + 1) f (link_hash std e previous)) d \<and> stored_as (tip_body pk (s + 1) f (link_hash std e previous)) dt \<and>
        docs c' = (docs c1)((pk, iid) \<mapsto> d, (pk, TIP_ID) \<mapsto> dt)) \<or>
     (\<exists>c1 d. reached c c1 \<and> docs c1 (pk, iid) = Some d \<and> replayed_event std e d = Inr f)"
  using run
proof (induction n arbitrary: c)
  case (Suc n)
  from Suc.prems obtain tip ca previous s ops where
      tip: "read_item ct TIP_ID pk c = (Inr tip, ca)" "tip_hash tip = Inr previous" "tip_sequence tip = Inr s"
    and ops: "attempt_batch std pk e tip previous s = Inr ops"
    and rest: "(case ct_execute_item_batch ct ops pk ca of
       (Inr _, c2) \<Rightarrow> (Inr (linked std e previous), c2)
     | (Inl x, c2) \<Rightarrow>
         if \<not> raised_as batch_conflicts x then (Inl x, c2)
         else wbind (read_item ct iid pk) (\<lambda>stored.
           case stored of
             Some d \<Rightarrow> lift_res (replayed_event std e d)
           | None \<Rightarrow> append_attempts std ct pk e n) c2) = (Inr f, c')"
    unfolding attempt_unfold iid by (elim wbind_Inr) (simp add: lift_res_def)
  from read_shared [OF shared tip(1)] have ca: "reached c ca" "docs ca (pk, TIP_ID) = tip" by blast+
  obtain r cb where r: "ct_execute_item_batch ct ops pk ca = (r, cb)" by (cases "ct_execute_item_batch ct ops pk ca")
  show ?case
  proof (cases r)
    case (Inr u)
    with r rest have b: "ct_execute_item_batch ct ops pk ca = (Inr (), c')" and f: "f = linked std e previous" by simp_all
    from shared_batch [OF shared b] obtain c1 where c1: "reached ca c1" "batch_run pk ops (docs c1) (docs c')" by blast
    from attempt_effect [OF ops c1(2)] obtain d dt where eff: "docs c1 (pk, iid) = None"
      "stored_as (event_body std pk (s + 1) f (link_hash std e previous)) d" "stored_as (tip_body pk (s + 1) f (link_hash std e previous)) dt"
      "docs c' = (docs c1)((pk, iid) \<mapsto> d, (pk, TIP_ID) \<mapsto> dt)"
      "map_option (\<lambda>d. map_of d ''_etag'') (docs c1 (pk, TIP_ID)) = map_option (\<lambda>d. map_of d ''_etag'') tip"
      unfolding f iid by blast
    have "docs c1 (pk, TIP_ID) = tip" using unchanged_tag [OF shared c1(1)] ca(2) eff(5) by blast
    moreover have "reached c c1" using shared_trans [OF shared ca(1) c1(1)] .
    ultimately show ?thesis using eff tip f by metis
  next
    case (Inl x)
    with r rest have "wbind (read_item ct iid pk) (\<lambda>stored.
        case stored of Some d \<Rightarrow> lift_res (replayed_event std e d) | None \<Rightarrow> append_attempts std ct pk e n) cb = (Inr f, c')"
      by (simp split: if_splits)
    then obtain stored cc where st: "read_item ct iid pk cb = (Inr stored, cc)"
      "(case stored of Some d \<Rightarrow> lift_res (replayed_event std e d) | None \<Rightarrow> append_attempts std ct pk e n) cc = (Inr f, c')"
      by (elim wbind_Inr)
    have "reached ca cb" using shared_refused [OF shared] r Inl by blast
    with ca(1) read_shared [OF shared st(1)] have cc: "reached c cc" "docs cc (pk, iid) = stored" using shared_trans [OF shared] by blast+
    show ?thesis
    proof (cases stored)
      case None
      with st(2) have run: "append_attempts std ct pk e n cc = (Inr f, c')" by simp
      have later: "reached c x" if "reached cc x" for x using shared_trans [OF shared cc(1) that] .
      from Suc.IH [OF run] show ?thesis by (elim disjE exE conjE) (drule later, blast)+
    next
      case (Some d)
      with st(2) cc show ?thesis by (auto simp: lift_res_def)
    qed
  qed
qed simp

section \<open>Properties\<close>

text \<open>What a sequence of appends returns, event by event, on either backend; a refused one leaves the log.\<close>

fun audit_run :: "py_std \<Rightarrow> audit_event list \<Rightarrow> audit_log \<Rightarrow> audit_event res list \<times> audit_log" where
  "audit_run std [] rows = ([], rows)"
| "audit_run std (e # es) rows =
     (case audit_append std e rows of
        Inl x \<Rightarrow> (let (rs, rows') = audit_run std es rows in (Inl x # rs, rows'))
      | Inr (f, rows1) \<Rightarrow> (let (rs, rows') = audit_run std es rows1 in (Inr f # rs, rows')))"

fun cosmos_audit_run :: "py_std \<Rightarrow> 'c container \<Rightarrow> string \<Rightarrow> audit_event list \<Rightarrow> 'c \<Rightarrow> audit_event res list \<times> 'c" where
  "cosmos_audit_run std ct pk [] c = ([], c)"
| "cosmos_audit_run std ct pk (e # es) c =
     (let (r, c1) = cosmos_append std ct pk e c; (rs, c') = cosmos_audit_run std ct pk es c1 in (r # rs, c'))"

lemma empty_log_represented: "represents_log std pk ids Map.empty []"
  by (simp add: represents_log_def doc_tip_def)

lemma sample_auditable: "auditable (sample_audit i) \<longleftrightarrow> i \<noteq> []"
  by (simp add: auditable_def sample_audit_def)

lemma sample_id: "au_event_id (sample_audit i) = i"
  by (simp add: sample_audit_def)

lemma fixture_hex: "sha256_hex fixture_std s \<noteq> []"
  using fixture_digest_shape unfolding sha256_hex_shape_def by (metis list.size(3) zero_neq_numeral)

lemma append_agrees:
  assumes "sequential_container ct docs" "represents_log std pk ids (docs c) rows" "auditable e"
    "inj_on (sha256_hex std) ids" "au_event_id e \<in> ids" "\<And>s. sha256_hex std s \<noteq> []"
  shows "log_agrees std pk ids docs (cosmos_append std ct pk e c) rows (audit_append std e rows)"
  using attempt_agrees [OF assms, of 7] by (simp add: cosmos_append_def MAX_TIP_ATTEMPTS_def)

lemma sample_first: "audit_append fixture_std (sample_audit ''a'') [] = Inr (linked fixture_std (sample_audit ''a'') None,
      [\<lparr>ar_event_id = ''a'', ar_payload = Inr (linked fixture_std (sample_audit ''a'') None),
        ar_event_hash = link_hash fixture_std (sample_audit ''a'') None\<rparr>])"
  by (simp add: audit_append_def last_hash_def linked_def link_hash_def Let_def sample_audit_def)

lemma sample_append: "fst (cosmos_append fixture_std sample_container AUDIT_PARTITION_KEY (sample_audit ''a'') (Map.empty, 0)) =
    Inr (linked fixture_std (sample_audit ''a'') None)"
  using append_agrees [OF sample_sequential _ _ _ _ fixture_hex, where c = "(Map.empty, 0)" and e = "sample_audit ''a''"
      and rows = "[]" and ids = "{''a''}" and pk = AUDIT_PARTITION_KEY] sample_first
  by (simp add: empty_log_represented sample_auditable log_agrees_def) (simp add: sample_audit_def)



text \<open>C8. The Cosmos audit chain never forks. Between reading the tip and writing, other clients may append; yet
  when an append returns, either there was a moment at which the event was not recorded, the
  returned event names the hash the tip held at that moment as its predecessor, and the write
  turned event and tip, and nothing else, into that event and a tip that names it with the next
  sequence number; or the event was already recorded with the same identity and is returned as
  it was recorded.\<close>

theorem cosmos_chain_never_forks:
  assumes "shared_container ct docs reached" "cosmos_append std ct pk e c = (Inr f, c')" "iid = event_item_id std (au_event_id e)"
  shows "(\<exists>c1 s d dt. reached c c1 \<and> docs c1 (pk, iid) = None \<and> tip_hash (docs c1 (pk, TIP_ID)) = Inr (au_previous_hash f) \<and>
        tip_sequence (docs c1 (pk, TIP_ID)) = Inr s \<and> au_event_hash f = Some (compute_event_hash std f) \<and>
        event_identity std f = event_identity std e \<and>
        stored_as (event_body std pk (s + 1) f (compute_event_hash std f)) d \<and> stored_as (tip_body pk (s + 1) f (compute_event_hash std f)) dt \<and>
        docs c' = (docs c1)((pk, iid) \<mapsto> d, (pk, TIP_ID) \<mapsto> dt)) \<or>
     (\<exists>c1 d. reached c c1 \<and> docs c1 (pk, iid) = Some d \<and>
        rbind (audit_mapping_field d ''payload'') audit_event_from_payload = Inr f \<and> event_identity std f = event_identity std e)"
proof -
  have linked: "link_hash std e p = compute_event_hash std (linked std e p)" "event_identity std (linked std e p) = event_identity std e" for p
    by (simp_all add: linked_def link_hash_def Let_def)
  have replay: "rbind (audit_mapping_field d ''payload'') audit_event_from_payload = Inr f \<and> event_identity std f = event_identity std e"
    if "replayed_event std e d = Inr f" for d
    using that by (auto simp: replayed_event_def rbind_eq_Inr split: if_splits)
  show ?thesis
    using attempts_shared [OF assms(1) assms(2) [unfolded cosmos_append_def] assms(3)]
  proof (elim disjE exE conjE, goal_cases)
    case (1 c1 p s d dt)
    then show ?thesis
      by (intro disjI1 exI [of _ c1] exI [of _ s] exI [of _ d] exI [of _ dt]) (simp add: linked)
  next
    case (2 c1 d)
    with replay [of d] show ?thesis by (intro disjI2 exI [of _ c1] exI [of _ d]) simp
  qed
qed

theorem cosmos_chain_never_forks_witness:
  "\<exists>f c'. cosmos_append fixture_std sample_container AUDIT_PARTITION_KEY (sample_audit ''a'') (Map.empty, 0) = (Inr f, c') \<and>
     au_previous_hash f = None \<and> event_identity fixture_std f = event_identity fixture_std (sample_audit ''a'')"
proof -
  let ?run = "cosmos_append fixture_std sample_container AUDIT_PARTITION_KEY (sample_audit ''a'') (Map.empty, 0)"
  obtain f c' where run: "?run = (Inr f, c')" using sample_append by (cases ?run) simp
  from cosmos_chain_never_forks [OF sample_shared run refl] run show ?thesis
    by (auto simp: tip_hash_def has_tip_def)
qed

end
