(* ===== verification/Fallible_Loops.thy ===== *)
theory Fallible_Loops
  imports Eip_Prelude "HOL-Library.Product_Lexorder"
begin

text \<open>
  Loops whose body may raise: a comprehension with a fallible condition (\<open>filter_res\<close>), one with
  a fallible element (\<open>map_res\<close>), and a \<open>for\<close> statement that updates a state (\<open>fold_res\<close>). The
  first exception ends the loop. Also \<open>sorted(set(xs))\<close>, in the order of the tuples' components.
\<close>

fun filter_res :: "('a \<Rightarrow> bool res) \<Rightarrow> 'a list \<Rightarrow> 'a list res" where
  "filter_res p [] = Inr []"
| "filter_res p (x # xs) = rbind (p x) (\<lambda>b. rbind (filter_res p xs) (\<lambda>ys. Inr (if b then x # ys else ys)))"

fun map_res :: "('a \<Rightarrow> 'b res) \<Rightarrow> 'a list \<Rightarrow> 'b list res" where
  "map_res f [] = Inr []"
| "map_res f (x # xs) = rbind (f x) (\<lambda>y. rbind (map_res f xs) (\<lambda>ys. Inr (y # ys)))"

fun fold_res :: "('a \<Rightarrow> 's \<Rightarrow> 's res) \<Rightarrow> 'a list \<Rightarrow> 's \<Rightarrow> 's res" where
  "fold_res f [] s = Inr s"
| "fold_res f (x # xs) s = rbind (f x s) (fold_res f xs)"

definition sorted_set :: "'a :: linorder list \<Rightarrow> 'a list" where
  "sorted_set xs = sort (remdups xs)"

lemma filter_res_total:
  "(\<And>x. x \<in> set xs \<Longrightarrow> p x = Inr (q x)) \<Longrightarrow> filter_res p xs = Inr (filter q xs)"
  by (induction xs) simp_all

lemma map_res_total:
  "(\<And>x. x \<in> set xs \<Longrightarrow> f x = Inr (g x)) \<Longrightarrow> map_res f xs = Inr (map g xs)"
  by (induction xs) simp_all

lemma map_res_Inr: "map_res f xs = Inr ys \<longleftrightarrow> list_all2 (\<lambda>x y. f x = Inr y) xs ys"
  by (induction xs arbitrary: ys) (auto simp: rbind_eq_Inr list_all2_Cons1)

lemma map_res_cong [fundef_cong]: "xs = ys \<Longrightarrow> (\<And>x. x \<in> set ys \<Longrightarrow> f x = g x) \<Longrightarrow> map_res f xs = map_res g ys"
  by (induction xs arbitrary: ys) auto

lemma filter_res_cong [fundef_cong]: "xs = ys \<Longrightarrow> (\<And>x. x \<in> set ys \<Longrightarrow> f x = g x) \<Longrightarrow> filter_res f xs = filter_res g ys"
  by (induction xs arbitrary: ys) auto

lemma fold_res_append: "fold_res f (xs @ ys) s = rbind (fold_res f xs s) (fold_res f ys)"
  by (induction xs arbitrary: s) (auto simp: rbind_def split: sum.splits)

text \<open>A property every step keeps holds after the loop; a loop whose steps do not raise returns.\<close>

lemma fold_res_invariant:
  assumes "fold_res f xs s = Inr t" "P s" "\<And>x s s'. x \<in> set xs \<Longrightarrow> P s \<Longrightarrow> f x s = Inr s' \<Longrightarrow> P s'"
  shows "P t"
  using assms by (induction xs arbitrary: s) (auto simp: rbind_eq_Inr)

lemma fold_res_total:
  assumes "P s" "\<And>x s. x \<in> set xs \<Longrightarrow> P s \<Longrightarrow> \<exists>s'. f x s = Inr s' \<and> P s'"
  shows "\<exists>t. fold_res f xs s = Inr t \<and> P t"
  using assms by (induction xs arbitrary: s) (auto, metis rbind_simps(2))

lemma set_sorted_set [simp]: "set (sorted_set xs) = set xs"
  by (simp add: sorted_set_def)

lemma sorted_set_props [simp]: "sorted (sorted_set xs)" "distinct (sorted_set xs)"
  by (simp_all add: sorted_set_def)

lemma sorted_set_unique: "set xs = set ys \<Longrightarrow> sorted_set xs = sorted_set ys"
  by (metis set_sorted_set sorted_distinct_set_unique sorted_set_props)

lemma sorted_set_fixed: "sorted_set xs = xs \<longleftrightarrow> sorted xs \<and> distinct xs"
  by (metis set_sorted_set sorted_distinct_set_unique sorted_set_props)

lemma sorted_set_idem [simp]: "sorted_set (sorted_set xs) = sorted_set xs"
  by (simp add: sorted_set_fixed)

lemma sorted_set_Nil [simp]: "sorted_set xs = [] \<longleftrightarrow> xs = []"
  by (metis set_empty set_sorted_set)

end
