(* ===== verification/Company_Brain.thy ===== *)
theory Company_Brain
  imports Fallible_Loops
begin

text \<open>
  The Company Brain world model, \<open>src/company_brain/model.py\<close>: entities, relationships and evidence
  pointers with access lists, and the authorised context of a change. A dictionary is an
  association list in insertion order; the constructors of the frozen data classes are functions
  that may refuse their arguments.

  The lemmas show that the operations keep the endpoints of every relationship in the model, that
  the blast radius is the set of services that transitively depend on the change, and that a
  context shows evidence only to principals on its access list.
\<close>

section \<open>Records\<close>

datatype entity_kind =
    EK_REPOSITORY | EK_SERVICE | EK_TEAM | EK_OWNER | EK_ADR | EK_CHANGE | EK_DEPLOYMENT | EK_INCIDENT
  | EK_RUNBOOK | EK_WORK_ITEM | EK_DOCUMENT | EK_CONVERSATION | EK_FINDING | EK_OUTCOME | EK_EVIDENCE

fun entity_kind_value :: "entity_kind \<Rightarrow> string" where
  "entity_kind_value EK_REPOSITORY = ''repository''"
| "entity_kind_value EK_SERVICE = ''service''"
| "entity_kind_value EK_TEAM = ''team''"
| "entity_kind_value EK_OWNER = ''owner''"
| "entity_kind_value EK_ADR = ''adr''"
| "entity_kind_value EK_CHANGE = ''change''"
| "entity_kind_value EK_DEPLOYMENT = ''deployment''"
| "entity_kind_value EK_INCIDENT = ''incident''"
| "entity_kind_value EK_RUNBOOK = ''runbook''"
| "entity_kind_value EK_WORK_ITEM = ''work_item''"
| "entity_kind_value EK_DOCUMENT = ''document''"
| "entity_kind_value EK_CONVERSATION = ''conversation''"
| "entity_kind_value EK_FINDING = ''finding''"
| "entity_kind_value EK_OUTCOME = ''outcome''"
| "entity_kind_value EK_EVIDENCE = ''evidence''"

datatype relationship_kind =
    RK_OWNS | RK_DEPENDS_ON | RK_CHANGED_BY | RK_CAUSED | RK_RESOLVED_BY | RK_GOVERNED_BY | RK_BELONGS_TO
  | RK_HAS_EVIDENCE | RK_ASSESSED_BY | RK_HAS_OUTCOME

fun relationship_kind_value :: "relationship_kind \<Rightarrow> string" where
  "relationship_kind_value RK_OWNS = ''owns''"
| "relationship_kind_value RK_DEPENDS_ON = ''depends_on''"
| "relationship_kind_value RK_CHANGED_BY = ''changed_by''"
| "relationship_kind_value RK_CAUSED = ''caused''"
| "relationship_kind_value RK_RESOLVED_BY = ''resolved_by''"
| "relationship_kind_value RK_GOVERNED_BY = ''governed_by''"
| "relationship_kind_value RK_BELONGS_TO = ''belongs_to''"
| "relationship_kind_value RK_HAS_EVIDENCE = ''has_evidence''"
| "relationship_kind_value RK_ASSESSED_BY = ''assessed_by''"
| "relationship_kind_value RK_HAS_OUTCOME = ''has_outcome''"

definition company_brain_error :: "string \<Rightarrow> exn" where
  "company_brain_error m = OtherError ''CompanyBrainError'' m"

definition brain_required :: "string \<Rightarrow> string \<Rightarrow> nat \<Rightarrow> unit res" where
  "brain_required value label maximum =
     (if value = [] \<or> maximum < length value \<or> CHR 0x0A \<in> set value
      then Inl (company_brain_error (label @ '' is invalid'')) else Inr ())"

definition normalized_strings :: "string list \<Rightarrow> string \<Rightarrow> unit res" where
  "normalized_strings values label =
     (if values \<noteq> sorted_set values then Inl (company_brain_error (label @ '' must be sorted and unique''))
      else fold_res (\<lambda>v _. brain_required v label 200) values ())"

definition normalized_attributes :: "(string \<times> string) list \<Rightarrow> unit res" where
  "normalized_attributes values =
     (if values \<noteq> sort values \<or> length (remdups (map fst values)) \<noteq> length values
      then Inl (company_brain_error ''attributes must be sorted by unique key'')
      else fold_res (\<lambda>(k, v) _. rbind (brain_required k ''attribute key'' 100)
        (\<lambda>_. brain_required v ''attribute value'' 500)) values ())"

record brain_principal =
  pr_groups :: "string list"
  pr_users :: "string list"

definition new_principal :: "string list \<Rightarrow> string list \<Rightarrow> brain_principal res" where
  "new_principal groups users =
     rbind (normalized_strings groups ''principal groups'') (\<lambda>_.
     rbind (normalized_strings users ''principal users'') (\<lambda>_.
     if groups = [] \<and> users = [] then Inl (company_brain_error ''principal requires a group or user identity'')
     else Inr \<lparr>pr_groups = groups, pr_users = users\<rparr>))"

record brain_entity =
  en_entity_id :: string
  en_kind :: entity_kind
  en_label :: string
  en_attributes :: "(string \<times> string) list"

definition new_entity :: "string \<Rightarrow> entity_kind \<Rightarrow> string \<Rightarrow> (string \<times> string) list \<Rightarrow> brain_entity res" where
  "new_entity entity_id kind label attributes =
     rbind (brain_required entity_id ''entity_id'' 500) (\<lambda>_.
     rbind (brain_required label ''entity label'' 300) (\<lambda>_.
     rbind (normalized_attributes attributes) (\<lambda>_.
     Inr \<lparr>en_entity_id = entity_id, en_kind = kind, en_label = label, en_attributes = attributes\<rparr>)))"

record brain_evidence =
  bv_evidence_id :: string
  bv_source_kind :: string
  bv_citation :: string
  bv_revision :: string
  bv_acl_groups :: "string list"
  bv_acl_users :: "string list"

definition new_evidence :: "string \<Rightarrow> string \<Rightarrow> string \<Rightarrow> string \<Rightarrow> string list \<Rightarrow> string list \<Rightarrow> brain_evidence res" where
  "new_evidence evidence_id source_kind citation revision acl_groups acl_users =
     rbind (brain_required evidence_id ''evidence_id'' 500) (\<lambda>_.
     rbind (brain_required source_kind ''source_kind'' 100) (\<lambda>_.
     rbind (brain_required citation ''citation'' 500) (\<lambda>_.
     rbind (brain_required revision ''revision'' 200) (\<lambda>_.
     rbind (normalized_strings acl_groups ''evidence acl_groups'') (\<lambda>_.
     rbind (normalized_strings acl_users ''evidence acl_users'') (\<lambda>_.
     Inr \<lparr>bv_evidence_id = evidence_id, bv_source_kind = source_kind, bv_citation = citation, bv_revision = revision,
       bv_acl_groups = acl_groups, bv_acl_users = acl_users\<rparr>))))))"

definition visible_to :: "brain_evidence \<Rightarrow> brain_principal \<Rightarrow> bool" where
  "visible_to ev p \<longleftrightarrow> set (bv_acl_groups ev) \<inter> set (pr_groups p) \<noteq> {} \<or> set (bv_acl_users ev) \<inter> set (pr_users p) \<noteq> {}"

record brain_relationship =
  rl_source_id :: string
  rl_target_id :: string
  rl_kind :: relationship_kind
  rl_evidence_ids :: "string list"

definition new_relationship :: "string \<Rightarrow> string \<Rightarrow> relationship_kind \<Rightarrow> string list \<Rightarrow> brain_relationship res" where
  "new_relationship source_id target_id kind evidence_ids =
     rbind (brain_required source_id ''relationship source_id'' 500) (\<lambda>_.
     rbind (brain_required target_id ''relationship target_id'' 500) (\<lambda>_.
     if source_id = target_id then Inl (company_brain_error ''relationship endpoints must differ'')
     else rbind (normalized_strings evidence_ids ''relationship evidence_ids'') (\<lambda>_.
     Inr \<lparr>rl_source_id = source_id, rl_target_id = target_id, rl_kind = kind, rl_evidence_ids = evidence_ids\<rparr>)))"

record company_brain_context =
  cx_repository_id :: string
  cx_changed_services :: "string list"
  cx_blast_radius :: "string list"
  cx_owner_ids :: "string list"
  cx_evidence :: "brain_evidence list"
  cx_limitations :: "string list"

section \<open>The model\<close>

type_synonym relationship_key = "string \<times> string \<times> relationship_kind"

record company_brain =
  br_entities :: "(string \<times> brain_entity) list"
  br_evidence :: "(string \<times> brain_evidence) list"
  br_relationships :: "(relationship_key \<times> brain_relationship) list"

definition empty_brain :: company_brain where
  "empty_brain = \<lparr>br_entities = [], br_evidence = [], br_relationships = []\<rparr>"

definition upsert_entity :: "brain_entity \<Rightarrow> company_brain \<Rightarrow> company_brain" where
  "upsert_entity e b = b\<lparr>br_entities := dict_set (en_entity_id e) e (br_entities b)\<rparr>"

definition evidence_entity :: "brain_evidence \<Rightarrow> brain_entity res" where
  "evidence_entity ev = new_entity (bv_evidence_id ev) EK_EVIDENCE (bv_citation ev)
     [(''revision'', bv_revision ev), (''source_kind'', bv_source_kind ev)]"

text \<open>The evidence is in its dictionary when the entity is refused: a citation may be longer than a label.\<close>

definition record_evidence :: "brain_evidence \<Rightarrow> company_brain \<Rightarrow> unit res \<times> company_brain" where
  "record_evidence ev b =
     (let b1 = b\<lparr>br_evidence := dict_set (bv_evidence_id ev) ev (br_evidence b)\<rparr> in
      case evidence_entity ev of
        Inl x \<Rightarrow> (Inl x, b1)
      | Inr e \<Rightarrow> (Inr (), upsert_entity e b1))"

definition remove_entity :: "string \<Rightarrow> company_brain \<Rightarrow> company_brain" where
  "remove_entity i b = b\<lparr>br_entities := dict_del i (br_entities b),
     br_relationships := filter (\<lambda>(k, r). rl_source_id r \<noteq> i \<and> rl_target_id r \<noteq> i) (br_relationships b)\<rparr>"

definition remove_evidence :: "string \<Rightarrow> company_brain \<Rightarrow> company_brain" where
  "remove_evidence i b = remove_entity i (b\<lparr>br_evidence := dict_del i (br_evidence b)\<rparr>)"

definition py_repr_list :: "string list \<Rightarrow> string" where
  "py_repr_list xs = ''['' @ py_join '', '' (map (\<lambda>x. [CHR 0x27] @ x @ [CHR 0x27]) xs) @ '']''"

definition relate :: "string \<Rightarrow> string \<Rightarrow> relationship_kind \<Rightarrow> string list \<Rightarrow> company_brain \<Rightarrow> (brain_relationship \<times> company_brain) res" where
  "relate source_id target_id kind evidence_ids b =
     (if source_id \<notin> fst ` set (br_entities b) \<or> target_id \<notin> fst ` set (br_entities b)
      then Inl (company_brain_error ''relationship endpoints must exist before they are linked'')
      else let missing = filter (\<lambda>i. i \<notin> fst ` set (br_evidence b)) evidence_ids in
      if missing \<noteq> [] then Inl (company_brain_error (''relationship references unknown evidence: '' @ py_repr_list (sorted_set missing)))
      else let key = (source_id, target_id, kind);
               previous = (case map_of (br_relationships b) key of None \<Rightarrow> [] | Some r \<Rightarrow> rl_evidence_ids r) in
      rbind (new_relationship source_id target_id kind (sorted_set (evidence_ids @ previous))) (\<lambda>r.
      Inr (r, b\<lparr>br_relationships := dict_set key r (br_relationships b)\<rparr>)))"

text \<open>The sort key of the property \<open>relationships\<close>.\<close>

definition relationship_order :: "brain_relationship \<Rightarrow> string \<times> string \<times> string" where
  "relationship_order r = (rl_source_id r, relationship_kind_value (rl_kind r), rl_target_id r)"

definition relationships :: "company_brain \<Rightarrow> brain_relationship list" where
  "relationships b = sort_key relationship_order (map snd (br_relationships b))"

definition outgoing :: "company_brain \<Rightarrow> string \<Rightarrow> relationship_kind option \<Rightarrow> brain_relationship list" where
  "outgoing b i kind = filter (\<lambda>r. rl_source_id r = i \<and> (kind = None \<or> kind = Some (rl_kind r))) (relationships b)"

definition incoming :: "company_brain \<Rightarrow> string \<Rightarrow> relationship_kind option \<Rightarrow> brain_relationship list" where
  "incoming b i kind = filter (\<lambda>r. rl_target_id r = i \<and> (kind = None \<or> kind = Some (rl_kind r))) (relationships b)"

text \<open>\<open>self.entities[i].kind\<close>.\<close>

definition kind_of :: "company_brain \<Rightarrow> string \<Rightarrow> entity_kind res" where
  "kind_of b i = (case map_of (br_entities b) i of None \<Rightarrow> Inl (KeyError i) | Some e \<Rightarrow> Inr (en_kind e))"

definition services_for_repository :: "company_brain \<Rightarrow> string \<Rightarrow> string list res" where
  "services_for_repository b repo =
     rbind (filter_res (\<lambda>r. rbind (kind_of b (rl_source_id r)) (\<lambda>k. Inr (k = EK_SERVICE))) (incoming b repo (Some RK_BELONGS_TO))) (\<lambda>rs.
     Inr (sort (map rl_source_id rs)))"

definition owner_ids_for_service :: "company_brain \<Rightarrow> string \<Rightarrow> string list res" where
  "owner_ids_for_service b service =
     rbind (filter_res (\<lambda>r. rbind (kind_of b (rl_source_id r)) (\<lambda>k. Inr (k = EK_OWNER \<or> k = EK_TEAM))) (incoming b service (Some RK_OWNS))) (\<lambda>rs.
     Inr (sort (map rl_source_id rs)))"

section \<open>The blast radius\<close>

text \<open>The body of the inner loop: one dependent, with the set \<open>seen\<close> and the stack \<open>pending\<close>.\<close>

definition visit_dependent :: "company_brain \<Rightarrow> brain_relationship \<Rightarrow> string list \<times> string list \<Rightarrow> (string list \<times> string list) res" where
  "visit_dependent b r s =
     (let dependent = rl_source_id r in
      if dependent \<in> set (fst s) then Inr s
      else rbind (kind_of b dependent) (\<lambda>k.
        Inr (if k = EK_SERVICE then (dependent # fst s, snd s @ [dependent]) else s)))"

text \<open>What is not seen yet, and what is left to do.\<close>

definition unseen :: "company_brain \<Rightarrow> string list \<Rightarrow> nat" where
  "unseen b seen = card (rl_source_id ` set (relationships b) - set seen)"

lemma visit_dependent_measure:
  assumes "visit_dependent b r s = Inr s'" "r \<in> set (relationships b)"
  shows "unseen b (fst s') + length (snd s') \<le> unseen b (fst s) + length (snd s)"
    and "2 * unseen b (fst s') + length (snd s') \<le> 2 * unseen b (fst s) + length (snd s)"
proof -
  have drop: "unseen b (rl_source_id r # seen) = unseen b seen - 1 \<and> 0 < unseen b seen" if "rl_source_id r \<notin> set seen" for seen
  proof -
    have "rl_source_id ` set (relationships b) - set (rl_source_id r # seen) = rl_source_id ` set (relationships b) - set seen - {rl_source_id r}"
      by auto
    moreover have "rl_source_id r \<in> rl_source_id ` set (relationships b) - set seen" using assms(2) that by simp
    ultimately show ?thesis unfolding unseen_def by (simp add: card_gt_0_iff card_Diff_singleton) blast
  qed
  show "unseen b (fst s') + length (snd s') \<le> unseen b (fst s) + length (snd s)"
    "2 * unseen b (fst s') + length (snd s') \<le> 2 * unseen b (fst s) + length (snd s)"
    using assms(1) drop [of "fst s"] by (auto simp: visit_dependent_def Let_def rbind_eq_Inr split: if_splits)
qed

lemma visit_all_measure:
  "fold_res (visit_dependent b) rs s = Inr s' \<Longrightarrow> set rs \<subseteq> set (relationships b) \<Longrightarrow>
     2 * unseen b (fst s') + length (snd s') \<le> 2 * unseen b (fst s) + length (snd s)"
proof (induction rs arbitrary: s)
  case (Cons r rs)
  then obtain s1 where "visit_dependent b r s = Inr s1" "fold_res (visit_dependent b) rs s1 = Inr s'" by (auto simp: rbind_eq_Inr)
  with Cons.IH [of s1] Cons.prems(2) visit_dependent_measure(2) [of b r s s1] show ?case by simp
qed simp

function blast_loop :: "company_brain \<Rightarrow> string list \<times> string list \<Rightarrow> string list res" where
  "blast_loop b s =
     (if snd s = [] then Inr (fst s)
      else case fold_res (visit_dependent b) (incoming b (last (snd s)) (Some RK_DEPENDS_ON)) (fst s, butlast (snd s)) of
        Inl x \<Rightarrow> Inl x
      | Inr s' \<Rightarrow> blast_loop b s')"
  by pat_completeness auto

termination
proof (relation "measure (\<lambda>(b, s). 2 * unseen b (fst s) + length (snd s))", goal_cases)
  case (2 b s s')
  then have "2 * unseen b (fst s') + length (snd s') \<le> 2 * unseen b (fst s) + length (butlast (snd s))"
    using visit_all_measure [of b _ "(fst s, butlast (snd s))" s'] by (auto simp: incoming_def)
  with 2(1) show ?case by (cases "snd s" rule: rev_cases) simp_all
qed simp

declare blast_loop.simps [simp del]

text \<open>\<open>list(seen)\<close> lists a set: its order is not specified, and the result does not depend on it.\<close>

definition blast_radius :: "company_brain \<Rightarrow> string list \<Rightarrow> string list res" where
  "blast_radius b changed =
     (let seen = remdups (filter (\<lambda>s. s \<in> fst ` set (br_entities b)) changed) in
      rbind (blast_loop b (seen, seen)) (\<lambda>all. Inr (sort all)))"

section \<open>Authorised context\<close>

definition authorized_evidence :: "company_brain \<Rightarrow> string list \<Rightarrow> brain_principal \<Rightarrow> brain_evidence list" where
  "authorized_evidence b entity_ids p =
     (let linked = concat (map (\<lambda>i. map rl_target_id (outgoing b i (Some RK_HAS_EVIDENCE))) entity_ids);
          evidence_ids = sorted_set (filter (\<lambda>t. t \<in> fst ` set (br_evidence b)) linked) in
      filter (\<lambda>ev. visible_to ev p) (map (\<lambda>i. the (map_of (br_evidence b) i)) evidence_ids))"

definition context_for_change :: "company_brain \<Rightarrow> string \<Rightarrow> string list \<Rightarrow> brain_principal \<Rightarrow> company_brain_context res" where
  "context_for_change b repo changed p =
     (if map_option en_kind (map_of (br_entities b) repo) \<noteq> Some EK_REPOSITORY
      then Inl (company_brain_error ''repository_id does not identify a repository'')
      else rbind (services_for_repository b repo) (\<lambda>services.
      let requested = sorted_set changed;
          scoped = filter (\<lambda>s. s \<in> set services) requested in
      rbind (blast_radius b scoped) (\<lambda>radius.
      let authorized = authorized_evidence b (repo # radius) p in
      rbind (map_res (owner_ids_for_service b) radius) (\<lambda>owners.
      let unmapped = filter (\<lambda>s. s \<notin> set services) requested in
      Inr \<lparr>cx_repository_id = repo, cx_changed_services = scoped, cx_blast_radius = radius,
        cx_owner_ids = sorted_set (concat owners), cx_evidence = authorized,
        cx_limitations =
          (if unmapped \<noteq> [] then [''Changed services are outside the repository scope: '' @ py_join '', '' unmapped @ ''.''] else []) @
          (if authorized = [] then [''No authorized evidence was available for the requested company context.''] else [])\<rparr>))))"

section \<open>Well-formed models\<close>

text \<open>Dictionaries are keyed by what they hold, and relationships name entities of the model.\<close>

definition brain_wf :: "company_brain \<Rightarrow> bool" where
  "brain_wf b \<longleftrightarrow>
     distinct (map fst (br_entities b)) \<and> distinct (map fst (br_evidence b)) \<and> distinct (map fst (br_relationships b)) \<and>
     (\<forall>(k, e) \<in> set (br_entities b). en_entity_id e = k) \<and>
     (\<forall>(k, ev) \<in> set (br_evidence b). bv_evidence_id ev = k) \<and>
     (\<forall>(k, r) \<in> set (br_relationships b). k = (rl_source_id r, rl_target_id r, rl_kind r) \<and> rl_source_id r \<noteq> rl_target_id r \<and>
        rl_source_id r \<in> fst ` set (br_entities b) \<and> rl_target_id r \<in> fst ` set (br_entities b))"

lemma in_dict_set: "x \<in> set (dict_set k v d) \<Longrightarrow> x = (k, v) \<or> x \<in> set d"
  by (induction k v d rule: dict_set.induct) (auto split: if_splits)

lemma distinct_dict_del: "distinct (map fst d) \<Longrightarrow> distinct (map fst (dict_del k d))"
  unfolding dict_del_def by (induction d) auto

lemma in_dict_del: "x \<in> set (dict_del k d) \<Longrightarrow> x \<in> set d"
  by (auto simp: dict_del_def)

lemma keys_dict_del: "fst ` set (dict_del k d) = fst ` set d - {k}"
  by (force simp: set_dict_del)

lemma brain_wf_empty: "brain_wf empty_brain"
  by (simp add: brain_wf_def empty_brain_def)

lemma brain_wf_upsert: "brain_wf b \<Longrightarrow> brain_wf (upsert_entity e b)"
  unfolding brain_wf_def upsert_entity_def
  by (auto simp: keys_dict_set distinct_dict_set dest!: in_dict_set)

lemma brain_wf_evidence: "brain_wf b \<Longrightarrow> brain_wf (b\<lparr>br_evidence := dict_set (bv_evidence_id ev) ev (br_evidence b)\<rparr>)"
  unfolding brain_wf_def by (auto simp: distinct_dict_set dest!: in_dict_set)

lemma brain_wf_record: "brain_wf b \<Longrightarrow> brain_wf (snd (record_evidence ev b))"
  by (simp add: record_evidence_def Let_def brain_wf_upsert brain_wf_evidence split: sum.split)

lemma brain_wf_remove_entity: "brain_wf b \<Longrightarrow> brain_wf (remove_entity i b)"
  unfolding brain_wf_def remove_entity_def
  by (auto simp: distinct_dict_del keys_dict_del distinct_map_filter dest!: in_dict_del)

lemma brain_wf_remove_evidence: "brain_wf b \<Longrightarrow> brain_wf (remove_evidence i b)"
  unfolding remove_evidence_def
  by (rule brain_wf_remove_entity) (auto simp: brain_wf_def distinct_dict_del dest!: in_dict_del)

lemma new_relationship_Inr:
  "new_relationship s t k evs = Inr r \<Longrightarrow> r = \<lparr>rl_source_id = s, rl_target_id = t, rl_kind = k, rl_evidence_ids = evs\<rparr> \<and> s \<noteq> t"
  by (auto simp: new_relationship_def rbind_eq_Inr split: if_splits)

lemma relate_Inr:
  assumes "relate s t k evs b = Inr (r, b')"
  shows "s \<in> fst ` set (br_entities b)" "t \<in> fst ` set (br_entities b)" "set evs \<subseteq> fst ` set (br_evidence b)" "s \<noteq> t"
    "b' = b\<lparr>br_relationships := dict_set (s, t, k) r (br_relationships b)\<rparr>"
    "r = \<lparr>rl_source_id = s, rl_target_id = t, rl_kind = k, rl_evidence_ids = sorted_set (evs @
        (case map_of (br_relationships b) (s, t, k) of None \<Rightarrow> [] | Some r \<Rightarrow> rl_evidence_ids r))\<rparr>"
  using assms by (auto simp: relate_def Let_def rbind_eq_Inr filter_empty_conv split: if_splits dest: new_relationship_Inr)

lemma brain_wf_relate:
  assumes "brain_wf b" "relate s t k evs b = Inr (r, b')"
  shows "brain_wf b'"
proof -
  note r = relate_Inr [OF assms(2)]
  have "(\<lambda>(k, r). k = (rl_source_id r, rl_target_id r, rl_kind r) \<and> rl_source_id r \<noteq> rl_target_id r \<and>
        rl_source_id r \<in> fst ` set (br_entities b) \<and> rl_target_id r \<in> fst ` set (br_entities b)) x"
    if "x \<in> set (br_relationships b')" for x
  proof -
    from that r(5) have "x = ((s, t, k), r) \<or> x \<in> set (br_relationships b)" by (auto dest: in_dict_set)
    then show ?thesis
    proof
      assume "x = ((s, t, k), r)"
      then show ?thesis using r(1,2,4) by (simp add: r(6))
    next
      assume "x \<in> set (br_relationships b)"
      then show ?thesis using assms(1) unfolding brain_wf_def by blast
    qed
  qed
  with assms(1) show ?thesis unfolding r(5) brain_wf_def by (simp add: distinct_dict_set)
qed

lemma set_relationships: "set (relationships b) = snd ` set (br_relationships b)"
  by (simp add: relationships_def)

lemma wf_endpoints:
  assumes "brain_wf b" "r \<in> set (relationships b)"
  shows "rl_source_id r \<in> fst ` set (br_entities b)" "rl_target_id r \<in> fst ` set (br_entities b)"
  using assms by (auto simp: brain_wf_def set_relationships)

lemma kind_known: "i \<in> fst ` set (br_entities b) \<Longrightarrow> \<exists>k. kind_of b i = Inr k"
  by (cases "map_of (br_entities b) i") (auto simp: kind_of_def map_of_eq_None_iff)

section \<open>The blast radius is the set of transitive dependents\<close>

inductive affected :: "company_brain \<Rightarrow> string set \<Rightarrow> string \<Rightarrow> bool" for b changed where
  changed: "s \<in> changed \<Longrightarrow> s \<in> fst ` set (br_entities b) \<Longrightarrow> affected b changed s"
| dependent: "affected b changed t \<Longrightarrow> r \<in> set (relationships b) \<Longrightarrow> rl_kind r = RK_DEPENDS_ON \<Longrightarrow> rl_target_id r = t \<Longrightarrow>
    kind_of b (rl_source_id r) = Inr EK_SERVICE \<Longrightarrow> affected b changed (rl_source_id r)"

text \<open>What the loop maintains: everything seen is affected, and what a finished node leads to has been seen.\<close>

definition leads_to :: "company_brain \<Rightarrow> string \<Rightarrow> string set" where
  "leads_to b t = {rl_source_id r |r. r \<in> set (relationships b) \<and> rl_kind r = RK_DEPENDS_ON \<and> rl_target_id r = t \<and>
     kind_of b (rl_source_id r) = Inr EK_SERVICE}"

definition blast_inv :: "company_brain \<Rightarrow> string set \<Rightarrow> string list \<times> string list \<Rightarrow> bool" where
  "blast_inv b changed s \<longleftrightarrow> distinct (fst s) \<and> set (snd s) \<subseteq> set (fst s) \<and> (\<forall>x \<in> set (fst s). affected b changed x) \<and>
     (\<forall>x \<in> changed. x \<in> fst ` set (br_entities b) \<longrightarrow> x \<in> set (fst s)) \<and>
     (\<forall>x \<in> set (fst s) - set (snd s). leads_to b x \<subseteq> set (fst s))"

text \<open>The inner loop adds exactly the dependents of the node it works on.\<close>

lemma visit_all:
  assumes "brain_wf b" "set rs \<subseteq> set (relationships b)"
  shows "\<exists>new. fold_res (visit_dependent b) rs s = Inr (rev new @ fst s, snd s @ new) \<and>
     set new = {rl_source_id r |r. r \<in> set rs \<and> kind_of b (rl_source_id r) = Inr EK_SERVICE} - set (fst s) \<and> distinct new"
  using assms(2)
proof (induction rs arbitrary: s)
  case (Cons r rs)
  obtain k where k: "kind_of b (rl_source_id r) = Inr k" using kind_known wf_endpoints(1) [OF assms(1)] Cons.prems by fastforce
  let ?s = "if rl_source_id r \<notin> set (fst s) \<and> k = EK_SERVICE then (rl_source_id r # fst s, snd s @ [rl_source_id r]) else s"
  have step: "visit_dependent b r s = Inr ?s" using k by (simp add: visit_dependent_def Let_def)
  from Cons.IH [of ?s] Cons.prems obtain new where new:
    "fold_res (visit_dependent b) rs ?s = Inr (rev new @ fst ?s, snd ?s @ new)"
    "set new = {rl_source_id r |r. r \<in> set rs \<and> kind_of b (rl_source_id r) = Inr EK_SERVICE} - set (fst ?s)" "distinct new" by auto
  show ?case
  proof (cases "rl_source_id r \<notin> set (fst s) \<and> k = EK_SERVICE")
    case True
    then show ?thesis using new step k by (intro exI [of _ "rl_source_id r # new"]) auto
  next
    case False
    then show ?thesis using new step k by (intro exI [of _ new]) auto
  qed
qed simp

lemma blast_inv_step:
  assumes wf: "brain_wf b" and inv: "blast_inv b changed s" and ne: "snd s \<noteq> []"
  shows "\<exists>s'. fold_res (visit_dependent b) (incoming b (last (snd s)) (Some RK_DEPENDS_ON)) (fst s, butlast (snd s)) = Inr s' \<and> blast_inv b changed s'"
proof -
  let ?cur = "last (snd s)" and ?rest = "butlast (snd s)"
  let ?rs = "incoming b ?cur (Some RK_DEPENDS_ON)"
  have rs: "set ?rs = {r \<in> set (relationships b). rl_kind r = RK_DEPENDS_ON \<and> rl_target_id r = ?cur}" by (auto simp: incoming_def)
  obtain new where new: "fold_res (visit_dependent b) ?rs (fst s, ?rest) = Inr (rev new @ fst s, ?rest @ new)"
    "set new = {rl_source_id r |r. r \<in> set ?rs \<and> kind_of b (rl_source_id r) = Inr EK_SERVICE} - set (fst s)" "distinct new"
    using visit_all [OF wf, of ?rs "(fst s, ?rest)"] rs by auto
  have lead: "leads_to b ?cur \<subseteq> set new \<union> set (fst s)" "set new \<subseteq> leads_to b ?cur" using new(2) rs unfolding leads_to_def by auto
  have cur: "affected b changed ?cur" using inv ne unfolding blast_inv_def by (meson last_in_set subsetD)
  have "affected b changed x" if "x \<in> set new" for x
    using that lead(2) cur unfolding leads_to_def by (auto intro: affected.dependent)
  moreover have "set (snd s) = insert ?cur (set ?rest)" using ne by (metis append_butlast_last_id list.simps(15) rotate1.simps(2) set_rotate1)
  moreover have "distinct (rev new @ fst s)" using inv new(2,3) by (auto simp: blast_inv_def)
  moreover have "leads_to b x \<subseteq> set new \<union> set (fst s)" if "x \<in> set (fst s)" "x \<notin> set ?rest" for x
  proof (cases "x = ?cur")
    case False
    with that calculation(2) have "x \<in> set (fst s) - set (snd s)" by simp
    with inv show ?thesis by (auto simp: blast_inv_def)
  qed (simp add: lead(1))
  ultimately have "blast_inv b changed (rev new @ fst s, ?rest @ new)"
    using inv unfolding blast_inv_def by auto
  with new(1) show ?thesis by blast
qed

lemma blast_loop_exact:
  "brain_wf b \<Longrightarrow> blast_inv b changed s \<Longrightarrow> \<exists>all. blast_loop b s = Inr all \<and> distinct all \<and> set all = {x. affected b changed x}"
proof (induction b s rule: blast_loop.induct)
  case (1 b s)
  show ?case
  proof (cases "snd s = []")
    case True
    have "x \<in> set (fst s)" if "affected b changed x" for x
      using that
    proof induction
      case (dependent t r)
      with "1.prems"(2) True have "leads_to b t \<subseteq> set (fst s)" by (simp add: blast_inv_def)
      with dependent show ?case by (auto simp: leads_to_def)
    qed (use "1.prems"(2) in \<open>simp add: blast_inv_def\<close>)
    with "1.prems"(2) True show ?thesis by (auto simp: blast_loop.simps [of b s] blast_inv_def)
  next
    case False
    from blast_inv_step [OF "1.prems" False] obtain s' where s':
      "fold_res (visit_dependent b) (incoming b (last (snd s)) (Some RK_DEPENDS_ON)) (fst s, butlast (snd s)) = Inr s'" "blast_inv b changed s'"
      by blast
    from "1.IH" [OF False s'(1) "1.prems"(1) s'(2)] False s'(1) show ?thesis by (simp add: blast_loop.simps [of b s])
  qed
qed

lemma blast_radius_spec:
  assumes "brain_wf b"
  shows "\<exists>r. blast_radius b changed = Inr r \<and> sorted r \<and> distinct r \<and> set r = {x. affected b (set changed) x}"
proof -
  let ?seen = "remdups (filter (\<lambda>s. s \<in> fst ` set (br_entities b)) changed)"
  have "blast_inv b (set changed) (?seen, ?seen)" by (auto simp: blast_inv_def intro: affected.changed)
  from blast_loop_exact [OF assms this] obtain all where
    "blast_loop b (?seen, ?seen) = Inr all" "distinct all" "set all = {x. affected b (set changed) x}" by blast
  then show ?thesis by (auto simp: blast_radius_def Let_def)
qed

section \<open>What a context contains\<close>

lemma filter_kind_total:
  assumes "brain_wf b" "set rs \<subseteq> set (relationships b)"
  shows "filter_res (\<lambda>r. rbind (kind_of b (rl_source_id r)) (\<lambda>k. Inr (q k))) rs =
     Inr (filter (\<lambda>r. \<exists>k. kind_of b (rl_source_id r) = Inr k \<and> q k) rs)"
proof (rule filter_res_total)
  fix r
  assume "r \<in> set rs"
  with assms(2) have "rl_source_id r \<in> fst ` set (br_entities b)" by (intro wf_endpoints(1) [OF assms(1)]) blast
  from kind_known [OF this] show "rbind (kind_of b (rl_source_id r)) (\<lambda>k. Inr (q k)) =
      Inr (\<exists>k. kind_of b (rl_source_id r) = Inr k \<and> q k)" by auto
qed

lemma incoming_subset: "set (incoming b i k) \<subseteq> set (relationships b)"
  by (auto simp: incoming_def)

lemma services_total:
  assumes "brain_wf b"
  shows "\<exists>s. services_for_repository b repo = Inr s"
  by (simp add: services_for_repository_def filter_kind_total [OF assms incoming_subset])

lemma owners_total:
  assumes "brain_wf b"
  shows "\<exists>s. owner_ids_for_service b svc = Inr s"
  by (simp add: owner_ids_for_service_def filter_kind_total [OF assms incoming_subset])

lemma context_total:
  assumes wf: "brain_wf b" and repo: "map_option en_kind (map_of (br_entities b) repo) = Some EK_REPOSITORY"
  shows "\<exists>cx. context_for_change b repo changed p = Inr cx"
proof -
  obtain services where s: "services_for_repository b repo = Inr services" using services_total [OF wf] by blast
  let ?scoped = "filter (\<lambda>s. s \<in> set services) (sorted_set changed)"
  obtain radius where r: "blast_radius b ?scoped = Inr radius" using blast_radius_spec [OF wf] by blast
  obtain f where "\<And>x. owner_ids_for_service b x = Inr (f x)" using owners_total [OF wf] by metis
  then have o: "map_res (owner_ids_for_service b) radius = Inr (map f radius)" by (intro map_res_total)
  show ?thesis using repo s r o by (auto simp: context_for_change_def Let_def)
qed

lemma context_Inr:
  assumes "brain_wf b" "context_for_change b repo changed p = Inr cx"
  obtains services where "services_for_repository b repo = Inr services"
    "cx_changed_services cx = filter (\<lambda>s. s \<in> set services) (sorted_set changed)"
    "blast_radius b (cx_changed_services cx) = Inr (cx_blast_radius cx)"
    "cx_evidence cx = authorized_evidence b (repo # cx_blast_radius cx) p"
  using assms(2) by (auto simp: context_for_change_def Let_def rbind_eq_Inr split: if_splits)

section \<open>Contexts do not depend on hidden evidence\<close>

definition visible_part :: "brain_principal \<Rightarrow> company_brain \<Rightarrow> string \<Rightarrow> brain_evidence option" where
  "visible_part p b i = (case map_of (br_evidence b) i of Some ev \<Rightarrow> if visible_to ev p then Some ev else None | None \<Rightarrow> None)"

lemma filter_sorted_set: "filter P (sorted_set xs) = sorted_set (filter P xs)"
  using sorted_filter [of id "sorted_set xs" P] by (intro sorted_distinct_set_unique) simp_all

lemma authorized_visible:
  "authorized_evidence b ids p =
     map (\<lambda>i. the (visible_part p b i)) (sorted_set (filter (\<lambda>i. visible_part p b i \<noteq> None)
       (concat (map (\<lambda>i. map rl_target_id (outgoing b i (Some RK_HAS_EVIDENCE))) ids))))"
proof -
  let ?linked = "concat (map (\<lambda>i. map rl_target_id (outgoing b i (Some RK_HAS_EVIDENCE))) ids)"
  have dom: "i \<in> fst ` set (br_evidence b) \<longleftrightarrow> map_of (br_evidence b) i \<noteq> None" for i
    by (simp add: map_of_eq_None_iff)
  have "filter (\<lambda>ev. visible_to ev p) (map (\<lambda>i. the (map_of (br_evidence b) i)) (sorted_set (filter (\<lambda>t. map_of (br_evidence b) t \<noteq> None) ?linked))) =
      map (\<lambda>i. the (map_of (br_evidence b) i)) (sorted_set (filter (\<lambda>i. visible_part p b i \<noteq> None) ?linked))"
    unfolding filter_map o_def filter_sorted_set filter_filter
    by (intro arg_cong [of _ _ "map _"] arg_cong [of _ _ sorted_set] filter_cong) (auto simp: visible_part_def split: option.splits)
  also have "\<dots> = map (\<lambda>i. the (visible_part p b i)) (sorted_set (filter (\<lambda>i. visible_part p b i \<noteq> None) ?linked))"
    by (rule map_cong) (auto simp: visible_part_def split: option.splits if_splits)
  finally show ?thesis unfolding authorized_evidence_def Let_def dom .
qed

lemma set_authorized:
  "set (authorized_evidence b ids p) = {ev. visible_to ev p \<and> (\<exists>r \<in> set (relationships b). rl_source_id r \<in> set ids \<and>
      rl_kind r = RK_HAS_EVIDENCE \<and> map_of (br_evidence b) (rl_target_id r) = Some ev)}"
proof -
  have linked: "set (concat (map (\<lambda>i. map rl_target_id (outgoing b i (Some RK_HAS_EVIDENCE))) ids)) =
      rl_target_id ` {r \<in> set (relationships b). rl_source_id r \<in> set ids \<and> rl_kind r = RK_HAS_EVIDENCE}"
    by (auto simp: outgoing_def)
  have vp: "visible_part p b i = Some ev \<longleftrightarrow> map_of (br_evidence b) i = Some ev \<and> visible_to ev p" for i ev
    by (auto simp: visible_part_def split: option.splits)
  have "(\<lambda>i. the (visible_part p b i)) ` {i \<in> T. visible_part p b i \<noteq> None} = {ev. \<exists>i \<in> T. visible_part p b i = Some ev}" for T
    by (force simp: image_iff)
  then show ?thesis unfolding authorized_visible set_map set_sorted_set set_filter linked by (auto simp: vp)
qed

lemma blast_loop_cong:
  "relationships b = relationships b' \<Longrightarrow> kind_of b = kind_of b' \<Longrightarrow> blast_loop b s = blast_loop b' s"
proof (induction b s rule: blast_loop.induct)
  case (1 b s)
  have "visit_dependent b = visit_dependent b'" "incoming b = incoming b'"
    unfolding visit_dependent_def [abs_def] incoming_def [abs_def] "1.prems" by (rule refl)+
  with 1 show ?case by (auto simp: blast_loop.simps [of b s] blast_loop.simps [of b' s] split: sum.splits)
qed

lemma context_cong:
  assumes rel: "relationships b = relationships b'" and kind: "kind_of b = kind_of b'"
    and ev: "visible_part p b = visible_part p b'"
  shows "context_for_change b repo changed p = context_for_change b' repo changed p"
proof -
  have dom: "i \<in> fst ` set (br_entities c) \<longleftrightarrow> (\<exists>k. kind_of c i = Inr k)" for c i
    using map_of_eq_None_iff [of "br_entities c" i] by (auto simp: kind_of_def split: option.splits)
  have repo_kind: "map_option en_kind (map_of (br_entities c) i) = Some k \<longleftrightarrow> kind_of c i = Inr k" for c i k
    by (auto simp: kind_of_def split: option.splits)
  have inc: "incoming b = incoming b'" and out: "outgoing b = outgoing b'"
    unfolding incoming_def [abs_def] outgoing_def [abs_def] rel by (rule refl)+
  have "services_for_repository b = services_for_repository b'" "owner_ids_for_service b = owner_ids_for_service b'"
    unfolding services_for_repository_def [abs_def] owner_ids_for_service_def [abs_def] inc kind by (rule refl)+
  moreover have "blast_radius b = blast_radius b'"
    unfolding blast_radius_def [abs_def] dom kind blast_loop_cong [OF rel kind] by (rule refl)
  moreover have "authorized_evidence b ids p = authorized_evidence b' ids p" for ids
    unfolding authorized_visible ev out by (rule refl)
  ultimately show ?thesis unfolding context_for_change_def by (simp only: repo_kind kind)
qed

section \<open>Reachable models\<close>

inductive brain_reachable :: "company_brain \<Rightarrow> bool" where
  start: "brain_reachable empty_brain"
| upsert: "brain_reachable b \<Longrightarrow> brain_reachable (upsert_entity e b)"
| observe: "brain_reachable b \<Longrightarrow> brain_reachable (snd (record_evidence ev b))"
| forget_entity: "brain_reachable b \<Longrightarrow> brain_reachable (remove_entity i b)"
| forget_evidence: "brain_reachable b \<Longrightarrow> brain_reachable (remove_evidence i b)"
| link: "brain_reachable b \<Longrightarrow> relate s t k evs b = Inr (r, b') \<Longrightarrow> brain_reachable b'"

lemma reachable_brain_wf: "brain_reachable b \<Longrightarrow> brain_wf b"
  by (induction rule: brain_reachable.induct)
     (auto intro: brain_wf_empty brain_wf_upsert brain_wf_record brain_wf_remove_entity brain_wf_remove_evidence brain_wf_relate)

text \<open>A model with a repository, two services of which one depends on the other, and a pointer to evidence.\<close>

definition sample_entity :: "string \<Rightarrow> entity_kind \<Rightarrow> brain_entity" where
  "sample_entity i k = \<lparr>en_entity_id = i, en_kind = k, en_label = i, en_attributes = []\<rparr>"

definition sample_relationship :: "string \<Rightarrow> string \<Rightarrow> relationship_kind \<Rightarrow> relationship_key \<times> brain_relationship" where
  "sample_relationship s t k = ((s, t, k), \<lparr>rl_source_id = s, rl_target_id = t, rl_kind = k, rl_evidence_ids = []\<rparr>)"

definition sample_pointer :: brain_evidence where
  "sample_pointer = \<lparr>bv_evidence_id = ''e'', bv_source_kind = ''adr'', bv_citation = ''c'', bv_revision = ''1'', bv_acl_groups = [''g''], bv_acl_users = []\<rparr>"

definition sample_brain :: company_brain where
  "sample_brain =
     \<lparr>br_entities = [(''r'', sample_entity ''r'' EK_REPOSITORY), (''a'', sample_entity ''a'' EK_SERVICE),
        (''b'', sample_entity ''b'' EK_SERVICE), (''e'', sample_entity ''e'' EK_EVIDENCE)],
      br_evidence = [(''e'', sample_pointer)],
      br_relationships = [sample_relationship ''a'' ''r'' RK_BELONGS_TO, sample_relationship ''b'' ''a'' RK_DEPENDS_ON,
        sample_relationship ''b'' ''e'' RK_HAS_EVIDENCE]\<rparr>"

lemma sample_brain_wf: "brain_wf sample_brain"
  by (simp add: brain_wf_def sample_brain_def sample_entity_def sample_relationship_def sample_pointer_def)

lemma sample_repository: "map_option en_kind (map_of (br_entities sample_brain) ''r'') = Some EK_REPOSITORY"
  by (simp add: sample_brain_def sample_entity_def)

section \<open>Properties\<close>

text \<open>C17. The blast radius of a change is exact: the work list of \<open>blast_radius\<close> ends, and what it returns is, sorted and
  without repetitions, the changed entities that the model knows together with every service that
  depends on one of them over any number of steps.\<close>

theorem blast_radius_exact:
  assumes "brain_wf b"
  shows "\<exists>r. blast_radius b changed = Inr r \<and> sorted r \<and> distinct r \<and> set r = {x. affected b (set changed) x}"
  using assms by (rule blast_radius_spec)

theorem blast_radius_exact_witness:
  "\<exists>r. blast_radius sample_brain [''a''] = Inr r \<and> ''b'' \<in> set r"
proof -
  obtain r where r: "blast_radius sample_brain [''a''] = Inr r" "set r = {x. affected sample_brain (set [''a'']) x}"
    using blast_radius_exact [OF sample_brain_wf] by blast
  have "affected sample_brain {''a''} ''a''" by (rule affected.changed) (simp_all add: sample_brain_def)
  from affected.dependent [OF this, of "snd (sample_relationship ''b'' ''a'' RK_DEPENDS_ON)"]
  have "affected sample_brain {''a''} ''b''"
    by (simp add: set_relationships kind_of_def sample_brain_def sample_relationship_def sample_entity_def)
  with r show ?thesis by simp
qed

text \<open>C18. A context contains exactly what its principal may see. When \<open>context_for_change\<close> returns, its changed services
  belong to the repository, its blast radius is the set of their transitive dependents, and its
  evidence is every pointer that the repository or one of those services is linked to and whose
  access list names a group or a user of the principal - and no other.\<close>

theorem context_is_authorized:
  assumes "brain_wf b" "context_for_change b repo changed p = Inr cx"
  shows "\<exists>services. services_for_repository b repo = Inr services \<and> set (cx_changed_services cx) = set changed \<inter> set services \<and>
     set (cx_blast_radius cx) = {x. affected b (set (cx_changed_services cx)) x} \<and>
     set (cx_evidence cx) = {ev. (set (bv_acl_groups ev) \<inter> set (pr_groups p) \<noteq> {} \<or> set (bv_acl_users ev) \<inter> set (pr_users p) \<noteq> {}) \<and>
        (\<exists>r \<in> set (relationships b). (rl_source_id r = repo \<or> affected b (set (cx_changed_services cx)) (rl_source_id r)) \<and>
           rl_kind r = RK_HAS_EVIDENCE \<and> map_of (br_evidence b) (rl_target_id r) = Some ev)}"
proof -
  from context_Inr [OF assms] obtain services where s: "services_for_repository b repo = Inr services"
    "cx_changed_services cx = filter (\<lambda>s. s \<in> set services) (sorted_set changed)"
    "blast_radius b (cx_changed_services cx) = Inr (cx_blast_radius cx)"
    "cx_evidence cx = authorized_evidence b (repo # cx_blast_radius cx) p" by blast
  have radius: "set (cx_blast_radius cx) = {x. affected b (set (cx_changed_services cx)) x}"
    using blast_radius_spec [OF assms(1), of "cx_changed_services cx"] s(3) by auto
  have "set (cx_evidence cx) = {ev. (set (bv_acl_groups ev) \<inter> set (pr_groups p) \<noteq> {} \<or> set (bv_acl_users ev) \<inter> set (pr_users p) \<noteq> {}) \<and>
      (\<exists>r \<in> set (relationships b). (rl_source_id r = repo \<or> affected b (set (cx_changed_services cx)) (rl_source_id r)) \<and>
         rl_kind r = RK_HAS_EVIDENCE \<and> map_of (br_evidence b) (rl_target_id r) = Some ev)}"
    unfolding s(4) set_authorized visible_to_def by (simp add: radius)
  moreover have "set (cx_changed_services cx) = set changed \<inter> set services" by (auto simp: s(2))
  ultimately show ?thesis using s(1) radius by blast
qed

theorem context_is_authorized_witness:
  "\<exists>cx. context_for_change sample_brain ''r'' [''a''] \<lparr>pr_groups = [''h''], pr_users = [''u'']\<rparr> = Inr cx \<and> cx_evidence cx = []"
proof -
  let ?p = "\<lparr>pr_groups = [''h''], pr_users = [''u'']\<rparr>"
  obtain cx where cx: "context_for_change sample_brain ''r'' [''a''] ?p = Inr cx"
    using context_total [OF sample_brain_wf sample_repository] by blast
  from context_is_authorized [OF sample_brain_wf cx] have eq: "set (cx_evidence cx) =
      {ev. (set (bv_acl_groups ev) \<inter> set (pr_groups ?p) \<noteq> {} \<or> set (bv_acl_users ev) \<inter> set (pr_users ?p) \<noteq> {}) \<and>
        (\<exists>r \<in> set (relationships sample_brain). (rl_source_id r = ''r'' \<or> affected sample_brain (set (cx_changed_services cx)) (rl_source_id r)) \<and>
           rl_kind r = RK_HAS_EVIDENCE \<and> map_of (br_evidence sample_brain) (rl_target_id r) = Some ev)}"
    by (elim exE conjE)
  have "ev \<notin> set (cx_evidence cx)" for ev
  proof
    assume "ev \<in> set (cx_evidence cx)"
    then have "set (bv_acl_groups ev) \<inter> set (pr_groups ?p) \<noteq> {} \<or> set (bv_acl_users ev) \<inter> set (pr_users ?p) \<noteq> {}"
      and "\<exists>i. map_of (br_evidence sample_brain) i = Some ev"
      unfolding eq mem_Collect_eq by blast+
    then show False by (auto simp: sample_brain_def sample_pointer_def split: if_splits)
  qed
  then have "cx_evidence cx = []" using last_in_set by blast
  with cx show ?thesis by simp
qed

text \<open>Hidden evidence has no influence on a context: if two models have the same relationships, the same kinds of
  entities and the same evidence as far as the principal may see it, every request of that
  principal is answered alike - with the same context or the same exception. So neither the
  content nor the presence of a pointer outside the principal's access shows.\<close>

theorem hidden_evidence_has_no_influence:
  assumes "br_relationships b = br_relationships b'"
    and "\<And>i. map_option en_kind (map_of (br_entities b) i) = map_option en_kind (map_of (br_entities b') i)"
    and "\<And>i ev. visible_to ev p \<Longrightarrow> map_of (br_evidence b) i = Some ev \<longleftrightarrow> map_of (br_evidence b') i = Some ev"
  shows "context_for_change b repo changed p = context_for_change b' repo changed p"
proof (rule context_cong)
  show "relationships b = relationships b'" by (simp add: relationships_def assms(1))
  show "kind_of b = kind_of b'"
  proof
    fix i
    show "kind_of b i = kind_of b' i" using assms(2) [of i]
      by (cases "map_of (br_entities b) i"; cases "map_of (br_entities b') i") (simp_all add: kind_of_def)
  qed
  show "visible_part p b = visible_part p b'"
  proof
    fix i
    show "visible_part p b i = visible_part p b' i"
    proof (cases "visible_part p b i")
      case None
      then show ?thesis using assms(3) [of _ i] by (auto simp: visible_part_def split: option.splits if_splits)
    next
      case (Some ev)
      then show ?thesis using assms(3) [of ev i] by (auto simp: visible_part_def split: option.splits if_splits)
    qed
  qed
qed

theorem hidden_evidence_has_no_influence_witness:
  "context_for_change sample_brain ''r'' [''a''] \<lparr>pr_groups = [''h''], pr_users = []\<rparr> =
     context_for_change (sample_brain\<lparr>br_evidence := []\<rparr>) ''r'' [''a''] \<lparr>pr_groups = [''h''], pr_users = []\<rparr>"
  by (rule hidden_evidence_has_no_influence) (auto simp: sample_brain_def sample_pointer_def visible_to_def split: if_splits)

text \<open>Every model built by its operations answers: whatever sequence of upserts, observations, links and
  removals led to it, each relationship joins two different entities the model knows, and a context
  request is refused exactly when its repository id does not name a repository; no lookup fails.\<close>

theorem reachable_model_answers:
  assumes "brain_reachable b"
  shows "(\<forall>r \<in> set (relationships b). rl_source_id r \<noteq> rl_target_id r \<and>
       rl_source_id r \<in> fst ` set (br_entities b) \<and> rl_target_id r \<in> fst ` set (br_entities b)) \<and>
     (if map_option en_kind (map_of (br_entities b) repo) = Some EK_REPOSITORY
      then \<exists>cx. context_for_change b repo changed p = Inr cx
      else context_for_change b repo changed p = Inl (OtherError ''CompanyBrainError'' ''repository_id does not identify a repository''))"
proof -
  have wf: "brain_wf b" using reachable_brain_wf [OF assms] .
  have "\<forall>r \<in> set (relationships b). rl_source_id r \<noteq> rl_target_id r \<and>
       rl_source_id r \<in> fst ` set (br_entities b) \<and> rl_target_id r \<in> fst ` set (br_entities b)"
    using wf wf_endpoints [OF wf] by (auto simp: brain_wf_def set_relationships)
  then show ?thesis using context_total [OF wf] by (simp add: context_for_change_def company_brain_error_def)
qed

theorem reachable_model_answers_witness:
  "context_for_change empty_brain ''r'' [''a''] \<lparr>pr_groups = [''h''], pr_users = []\<rparr> =
     Inl (OtherError ''CompanyBrainError'' ''repository_id does not identify a repository'')"
  using reachable_model_answers [OF brain_reachable.start, of "''r''" "[''a'']" "\<lparr>pr_groups = [''h''], pr_users = []\<rparr>"] by (simp add: empty_brain_def)

end
