(* ===== verification/Brain_Codec.thy ===== *)
theory Brain_Codec
  imports Company_Brain Canonical_Json
begin

text \<open>
  The codecs of the Company Brain store: \<open>src/company_brain/serialization.py\<close> and the payload functions
  and data classes of \<open>src/company_brain/store.py\<close>. A JSON column is what its text parses to,
  \<open>None\<close> when it is not JSON. An aware \<open>datetime\<close> is the instant it denotes, which is also how
  Python compares them. The lemmas show that what is written is read again.
\<close>

section \<open>Typed decoding\<close>

type_synonym payload = "(string \<times> json) list"

definition payload_error :: "string \<Rightarrow> string \<Rightarrow> exn" where
  "payload_error label rest = OtherError ''PayloadValidationError'' (label @ rest)"

definition payload_from_json :: "json option \<Rightarrow> string \<Rightarrow> payload res" where
  "payload_from_json serialized label =
     (case serialized of
        None \<Rightarrow> Inl (payload_error label '' is not valid JSON'')
      | Some (JObj kvs) \<Rightarrow> Inr kvs
      | Some _ \<Rightarrow> Inl (payload_error label '' must be a JSON object''))"

definition payload_from_value :: "json \<Rightarrow> string \<Rightarrow> payload res" where
  "payload_from_value value label =
     (case value of JObj kvs \<Rightarrow> Inr kvs | _ \<Rightarrow> Inl (payload_error label '' must be an object''))"

definition field_label :: "string \<Rightarrow> string \<Rightarrow> string" where
  "field_label label field = label @ ''.'' @ field"

definition payload_text :: "payload \<Rightarrow> string \<Rightarrow> string \<Rightarrow> string res" where
  "payload_text p field label =
     (case map_of p field of
        Some (JStr s) \<Rightarrow> if s = [] then Inl (payload_error (field_label label field) '' must be a non-empty string'') else Inr s
      | _ \<Rightarrow> Inl (payload_error (field_label label field) '' must be a non-empty string''))"

definition optional_text :: "payload \<Rightarrow> string \<Rightarrow> string \<Rightarrow> string option res" where
  "optional_text p field label =
     (case map_of p field of
        None \<Rightarrow> Inr None
      | Some JNull \<Rightarrow> Inr None
      | Some (JStr s) \<Rightarrow> Inr (Some s)
      | _ \<Rightarrow> Inl (payload_error (field_label label field) '' must be a string when supplied''))"

fun text_items :: "exn \<Rightarrow> json list \<Rightarrow> string list res" where
  "text_items x [] = Inr []"
| "text_items x (JStr s # js) = rbind (text_items x js) (\<lambda>ss. Inr (s # ss))"
| "text_items x (j # js) = Inl x"

definition text_sequence :: "payload \<Rightarrow> string \<Rightarrow> string \<Rightarrow> string list res" where
  "text_sequence p field label =
     (case map_of p field of
        None \<Rightarrow> Inr []
      | Some JNull \<Rightarrow> Inr []
      | Some (JList js) \<Rightarrow> text_items (payload_error (field_label label field) '' must be a list of strings'') js
      | _ \<Rightarrow> Inl (payload_error (field_label label field) '' must be a list of strings''))"

definition required_text_sequence :: "payload \<Rightarrow> string \<Rightarrow> string \<Rightarrow> string list res" where
  "required_text_sequence p field label =
     (if map_of p field = None then Inl (payload_error (field_label label field) '' is required'') else text_sequence p field label)"

definition required_object_sequence :: "payload \<Rightarrow> string \<Rightarrow> string \<Rightarrow> json list res" where
  "required_object_sequence p field label =
     (case map_of p field of
        Some (JList js) \<Rightarrow> Inr js
      | _ \<Rightarrow> Inl (payload_error (field_label label field) '' must be a list''))"

fun pair_items :: "exn \<Rightarrow> json list \<Rightarrow> (string \<times> string) list res" where
  "pair_items x [] = Inr []"
| "pair_items x (JList [JStr a, JStr b] # js) = rbind (pair_items x js) (\<lambda>ps. Inr ((a, b) # ps))"
| "pair_items x (j # js) = Inl x"

definition text_pairs :: "payload \<Rightarrow> string \<Rightarrow> string \<Rightarrow> (string \<times> string) list res" where
  "text_pairs p field label =
     (case map_of p field of
        None \<Rightarrow> Inr []
      | Some (JList js) \<Rightarrow> pair_items (payload_error (field_label label field) '' must contain two-string pairs'') js
      | _ \<Rightarrow> Inl (payload_error (field_label label field) '' must be a list''))"

definition parse_timestamp :: "py_std \<Rightarrow> json option \<Rightarrow> string \<Rightarrow> instant res" where
  "parse_timestamp std value label =
     (case value of
        Some (JStr s) \<Rightarrow>
          (case fromisoformat std s of
             None \<Rightarrow> Inl (payload_error label '' must be an ISO timestamp string'')
           | Some d \<Rightarrow> if utc_offset_us d = None then Inl (payload_error label '' must include a timezone'') else Inr (as_instant d))
      | _ \<Rightarrow> Inl (payload_error label '' must be an ISO timestamp string''))"

text \<open>\<open>EntityKind(value)\<close> and \<open>RelationshipKind(value)\<close>.\<close>

definition all_entity_kinds :: "entity_kind list" where
  "all_entity_kinds = [EK_REPOSITORY, EK_SERVICE, EK_TEAM, EK_OWNER, EK_ADR, EK_CHANGE, EK_DEPLOYMENT, EK_INCIDENT,
     EK_RUNBOOK, EK_WORK_ITEM, EK_DOCUMENT, EK_CONVERSATION, EK_FINDING, EK_OUTCOME, EK_EVIDENCE]"

definition entity_kind_of :: "string \<Rightarrow> entity_kind res" where
  "entity_kind_of v = (case find (\<lambda>k. entity_kind_value k = v) all_entity_kinds of
     Some k \<Rightarrow> Inr k | None \<Rightarrow> Inl (ValueError ([CHR 0x27] @ v @ [CHR 0x27] @ '' is not a valid EntityKind'')))"

definition all_relationship_kinds :: "relationship_kind list" where
  "all_relationship_kinds = [RK_OWNS, RK_DEPENDS_ON, RK_CHANGED_BY, RK_CAUSED, RK_RESOLVED_BY, RK_GOVERNED_BY, RK_BELONGS_TO,
     RK_HAS_EVIDENCE, RK_ASSESSED_BY, RK_HAS_OUTCOME]"

definition relationship_kind_of :: "string \<Rightarrow> relationship_kind res" where
  "relationship_kind_of v = (case find (\<lambda>k. relationship_kind_value k = v) all_relationship_kinds of
     Some k \<Rightarrow> Inr k | None \<Rightarrow> Inl (ValueError ([CHR 0x27] @ v @ [CHR 0x27] @ '' is not a valid RelationshipKind'')))"

section \<open>Payloads of the facts\<close>

definition json_texts :: "string list \<Rightarrow> json" where
  "json_texts ss = JList (map JStr ss)"

definition entity_payload :: "brain_entity \<Rightarrow> payload" where
  "entity_payload e =
     [(''entity_id'', JStr (en_entity_id e)), (''kind'', JStr (entity_kind_value (en_kind e))), (''label'', JStr (en_label e)),
      (''attributes'', JList (map (\<lambda>(k, v). JList [JStr k, JStr v]) (en_attributes e)))]"

definition entity_from_payload :: "payload \<Rightarrow> brain_entity res" where
  "entity_from_payload p =
     rbind (payload_text p ''entity_id'' ''entity'') (\<lambda>i.
     rbind (payload_text p ''kind'' ''entity'') (\<lambda>kv. rbind (entity_kind_of kv) (\<lambda>k.
     rbind (payload_text p ''label'' ''entity'') (\<lambda>l.
     rbind (text_pairs p ''attributes'' ''entity'') (\<lambda>a. new_entity i k l a)))))"

definition evidence_payload :: "brain_evidence \<Rightarrow> payload" where
  "evidence_payload e =
     [(''evidence_id'', JStr (bv_evidence_id e)), (''source_kind'', JStr (bv_source_kind e)), (''citation'', JStr (bv_citation e)),
      (''revision'', JStr (bv_revision e)), (''acl_groups'', json_texts (bv_acl_groups e)), (''acl_users'', json_texts (bv_acl_users e))]"

definition evidence_from_payload :: "payload \<Rightarrow> brain_evidence res" where
  "evidence_from_payload p =
     rbind (payload_text p ''evidence_id'' ''evidence'') (\<lambda>i.
     rbind (payload_text p ''source_kind'' ''evidence'') (\<lambda>k.
     rbind (payload_text p ''citation'' ''evidence'') (\<lambda>c.
     rbind (payload_text p ''revision'' ''evidence'') (\<lambda>r.
     rbind (text_sequence p ''acl_groups'' ''evidence'') (\<lambda>g.
     rbind (text_sequence p ''acl_users'' ''evidence'') (\<lambda>u. new_evidence i k c r g u))))))"

definition relationship_payload :: "brain_relationship \<Rightarrow> payload" where
  "relationship_payload r =
     [(''source_id'', JStr (rl_source_id r)), (''target_id'', JStr (rl_target_id r)),
      (''kind'', JStr (relationship_kind_value (rl_kind r))), (''evidence_ids'', json_texts (rl_evidence_ids r))]"

definition relationship_from_payload :: "payload \<Rightarrow> brain_relationship res" where
  "relationship_from_payload p =
     rbind (payload_text p ''source_id'' ''relationship'') (\<lambda>s.
     rbind (payload_text p ''target_id'' ''relationship'') (\<lambda>t.
     rbind (payload_text p ''kind'' ''relationship'') (\<lambda>kv. rbind (relationship_kind_of kv) (\<lambda>k.
     rbind (text_sequence p ''evidence_ids'' ''relationship'') (\<lambda>e. new_relationship s t k e)))))"

section \<open>Provenance and retention\<close>

definition store_error :: "string \<Rightarrow> exn" where
  "store_error m = OtherError ''CompanyBrainStoreError'' m"

definition store_required :: "string \<Rightarrow> string \<Rightarrow> nat \<Rightarrow> unit res" where
  "store_required value label maximum =
     (if value = [] \<or> maximum < length value \<or> CHR 0x0A \<in> set value then Inl (store_error (label @ '' is invalid'')) else Inr ())"

definition store_timestamp :: "py_datetime \<Rightarrow> string \<Rightarrow> instant res" where
  "store_timestamp d label = (if utc_offset_us d = None then Inl (store_error (label @ '' must include a timezone'')) else Inr (as_instant d))"

definition store_parse_timestamp :: "py_std \<Rightarrow> string \<Rightarrow> instant res" where
  "store_parse_timestamp std s =
     (case fromisoformat std s of
        None \<Rightarrow> Inl (ValueError (''Invalid isoformat string: '' @ [CHR 0x27] @ s @ [CHR 0x27]))
      | Some d \<Rightarrow> store_timestamp d ''stored timestamp'')"

record brain_provenance =
  pv_source_system :: string
  pv_source_record_id :: string
  pv_source_revision :: string
  pv_projection_policy_version :: string
  pv_observed_at :: instant
  pv_event_id :: "string option"

definition new_provenance :: "string \<Rightarrow> string \<Rightarrow> string \<Rightarrow> string \<Rightarrow> py_datetime \<Rightarrow> string option \<Rightarrow> brain_provenance res" where
  "new_provenance system record_id revision policy observed event =
     rbind (store_required system ''provenance source_system'' 100) (\<lambda>_.
     rbind (store_required record_id ''provenance source_record_id'' 500) (\<lambda>_.
     rbind (store_required revision ''provenance source_revision'' 200) (\<lambda>_.
     rbind (store_required policy ''provenance projection_policy_version'' 200) (\<lambda>_.
     rbind (store_timestamp observed ''provenance observed_at'') (\<lambda>t.
     rbind (case event of None \<Rightarrow> Inr () | Some i \<Rightarrow> store_required i ''provenance event_id'' 200) (\<lambda>_.
     Inr \<lparr>pv_source_system = system, pv_source_record_id = record_id, pv_source_revision = revision,
       pv_projection_policy_version = policy, pv_observed_at = t, pv_event_id = event\<rparr>))))))"

definition utc :: "instant \<Rightarrow> py_datetime" where
  "utc t = \<lparr>wall_us = t, utc_offset_us = Some 0\<rparr>"

definition provenance_payload :: "py_std \<Rightarrow> brain_provenance \<Rightarrow> payload" where
  "provenance_payload std v =
     [(''source_system'', JStr (pv_source_system v)), (''source_record_id'', JStr (pv_source_record_id v)),
      (''source_revision'', JStr (pv_source_revision v)), (''projection_policy_version'', JStr (pv_projection_policy_version v)),
      (''observed_at'', JStr (isoformat std (pv_observed_at v))),
      (''event_id'', case pv_event_id v of None \<Rightarrow> JNull | Some i \<Rightarrow> JStr i)]"

definition provenance_from_payload :: "py_std \<Rightarrow> payload \<Rightarrow> brain_provenance res" where
  "provenance_from_payload std p =
     rbind (payload_text p ''source_system'' ''provenance'') (\<lambda>sys.
     rbind (payload_text p ''source_record_id'' ''provenance'') (\<lambda>i.
     rbind (payload_text p ''source_revision'' ''provenance'') (\<lambda>r.
     rbind (optional_text p ''projection_policy_version'' ''provenance'') (\<lambda>pol.
     rbind (parse_timestamp std (map_of p ''observed_at'') ''provenance.observed_at'') (\<lambda>t.
     rbind (optional_text p ''event_id'' ''provenance'') (\<lambda>e.
     new_provenance sys i r (case pol of None \<Rightarrow> ''legacy-unversioned'' | Some s \<Rightarrow> if s = [] then ''legacy-unversioned'' else s)
       (utc t) e))))))"

record retention_policy =
  rt_retain_until :: "instant option"
  rt_legal_hold :: bool

definition new_retention :: "py_datetime option \<Rightarrow> bool \<Rightarrow> retention_policy res" where
  "new_retention until hold =
     (case until of
        None \<Rightarrow> Inr \<lparr>rt_retain_until = None, rt_legal_hold = hold\<rparr>
      | Some d \<Rightarrow> rbind (store_timestamp d ''retain_until'') (\<lambda>t. Inr \<lparr>rt_retain_until = Some t, rt_legal_hold = hold\<rparr>))"

definition DEFAULT_RETENTION_POLICY :: retention_policy where
  "DEFAULT_RETENTION_POLICY = \<lparr>rt_retain_until = None, rt_legal_hold = False\<rparr>"

section \<open>Round trips\<close>

text \<open>Facts the constructors accept.\<close>

definition entity_ok :: "brain_entity \<Rightarrow> bool" where
  "entity_ok e \<longleftrightarrow> new_entity (en_entity_id e) (en_kind e) (en_label e) (en_attributes e) = Inr e"

definition evidence_ok :: "brain_evidence \<Rightarrow> bool" where
  "evidence_ok e \<longleftrightarrow> new_evidence (bv_evidence_id e) (bv_source_kind e) (bv_citation e) (bv_revision e) (bv_acl_groups e) (bv_acl_users e) = Inr e"

definition relationship_ok :: "brain_relationship \<Rightarrow> bool" where
  "relationship_ok r \<longleftrightarrow> new_relationship (rl_source_id r) (rl_target_id r) (rl_kind r) (rl_evidence_ids r) = Inr r"

definition provenance_ok :: "brain_provenance \<Rightarrow> bool" where
  "provenance_ok v \<longleftrightarrow> new_provenance (pv_source_system v) (pv_source_record_id v) (pv_source_revision v)
     (pv_projection_policy_version v) (utc (pv_observed_at v)) (pv_event_id v) = Inr v"

lemma utc_simps [simp]: "as_instant (utc t) = t" "utc_offset_us (utc t) = Some 0"
  by (simp_all add: utc_def as_instant_def)

lemma required_nonempty:
  "brain_required s l m = Inr u \<Longrightarrow> s \<noteq> []" "store_required s l m = Inr u \<Longrightarrow> s \<noteq> []"
  by (auto simp: brain_required_def store_required_def split: if_splits)

lemma kind_of_value [simp]: "entity_kind_of (entity_kind_value k) = Inr k" "entity_kind_value k \<noteq> []"
  by (cases k; simp add: entity_kind_of_def all_entity_kinds_def)+

lemma relationship_kind_of_value [simp]: "relationship_kind_of (relationship_kind_value k) = Inr k" "relationship_kind_value k \<noteq> []"
  by (cases k; simp add: relationship_kind_of_def all_relationship_kinds_def)+

lemma payload_textI: "map_of p f = Some (JStr s) \<Longrightarrow> s \<noteq> [] \<Longrightarrow> payload_text p f l = Inr s"
  by (simp add: payload_text_def)

lemma json_texts_items: "text_items x (map JStr ss) = Inr ss"
  by (induction ss) simp_all

lemma pair_items_map: "pair_items x (map (\<lambda>(k, v). JList [JStr k, JStr v]) ps) = Inr ps"
  by (induction ps) auto

lemma text_sequenceI: "map_of p f = Some (json_texts ss) \<Longrightarrow> text_sequence p f l = Inr ss"
  by (simp add: text_sequence_def json_texts_def json_texts_items)

lemma entity_round_trip:
  assumes "entity_ok e"
  shows "entity_from_payload (entity_payload e) = Inr e"
proof -
  have ne: "en_entity_id e \<noteq> []" "en_label e \<noteq> []"
    using assms by (auto simp: entity_ok_def new_entity_def rbind_eq_Inr dest: required_nonempty)
  have "text_pairs (entity_payload e) ''attributes'' ''entity'' = Inr (en_attributes e)"
    by (simp add: text_pairs_def entity_payload_def pair_items_map)
  moreover have "payload_text (entity_payload e) ''entity_id'' ''entity'' = Inr (en_entity_id e)"
    "payload_text (entity_payload e) ''label'' ''entity'' = Inr (en_label e)"
    "payload_text (entity_payload e) ''kind'' ''entity'' = Inr (entity_kind_value (en_kind e))"
    using ne by (auto intro!: payload_textI simp: entity_payload_def)
  ultimately show ?thesis using assms by (simp add: entity_from_payload_def entity_ok_def)
qed

lemma pointer_round_trip:
  assumes "evidence_ok e"
  shows "evidence_from_payload (evidence_payload e) = Inr e"
proof -
  have ne: "bv_evidence_id e \<noteq> []" "bv_source_kind e \<noteq> []" "bv_citation e \<noteq> []" "bv_revision e \<noteq> []"
    using assms by (auto simp: evidence_ok_def new_evidence_def rbind_eq_Inr dest: required_nonempty)
  have "text_sequence (evidence_payload e) ''acl_groups'' ''evidence'' = Inr (bv_acl_groups e)"
    "text_sequence (evidence_payload e) ''acl_users'' ''evidence'' = Inr (bv_acl_users e)"
    by (auto intro!: text_sequenceI simp: evidence_payload_def)
  moreover have "payload_text (evidence_payload e) ''evidence_id'' ''evidence'' = Inr (bv_evidence_id e)"
    "payload_text (evidence_payload e) ''source_kind'' ''evidence'' = Inr (bv_source_kind e)"
    "payload_text (evidence_payload e) ''citation'' ''evidence'' = Inr (bv_citation e)"
    "payload_text (evidence_payload e) ''revision'' ''evidence'' = Inr (bv_revision e)"
    using ne by (auto intro!: payload_textI simp: evidence_payload_def)
  ultimately show ?thesis using assms by (simp add: evidence_from_payload_def evidence_ok_def)
qed

lemma relationship_round_trip:
  assumes "relationship_ok r"
  shows "relationship_from_payload (relationship_payload r) = Inr r"
proof -
  have ne: "rl_source_id r \<noteq> []" "rl_target_id r \<noteq> []"
    using assms by (auto simp: relationship_ok_def new_relationship_def rbind_eq_Inr dest: required_nonempty split: if_splits)
  have "text_sequence (relationship_payload r) ''evidence_ids'' ''relationship'' = Inr (rl_evidence_ids r)"
    by (auto intro!: text_sequenceI simp: relationship_payload_def)
  moreover have "payload_text (relationship_payload r) ''source_id'' ''relationship'' = Inr (rl_source_id r)"
    "payload_text (relationship_payload r) ''target_id'' ''relationship'' = Inr (rl_target_id r)"
    "payload_text (relationship_payload r) ''kind'' ''relationship'' = Inr (relationship_kind_value (rl_kind r))"
    using ne by (auto intro!: payload_textI simp: relationship_payload_def)
  ultimately show ?thesis using assms by (simp add: relationship_from_payload_def relationship_ok_def)
qed

lemma provenance_round_trip:
  assumes "provenance_ok v" "isoformat_parses std"
  shows "provenance_from_payload std (provenance_payload std v) = Inr v"
proof -
  let ?p = "provenance_payload std v"
  have ne: "pv_source_system v \<noteq> []" "pv_source_record_id v \<noteq> []" "pv_source_revision v \<noteq> []" "pv_projection_policy_version v \<noteq> []"
    using assms(1) by (auto simp: provenance_ok_def new_provenance_def rbind_eq_Inr dest: required_nonempty)
  obtain d where "fromisoformat std (isoformat std (pv_observed_at v)) = Some d" "utc_offset_us d = Some 0" "wall_us d = pv_observed_at v"
    using assms(2) unfolding isoformat_parses_def by blast
  then have "parse_timestamp std (map_of ?p ''observed_at'') ''provenance.observed_at'' = Inr (pv_observed_at v)"
    by (simp add: parse_timestamp_def provenance_payload_def as_instant_def)
  moreover have "optional_text ?p ''event_id'' ''provenance'' = Inr (pv_event_id v)"
    "optional_text ?p ''projection_policy_version'' ''provenance'' = Inr (Some (pv_projection_policy_version v))"
    by (auto simp: optional_text_def provenance_payload_def split: option.splits)
  moreover have "payload_text ?p ''source_system'' ''provenance'' = Inr (pv_source_system v)"
    "payload_text ?p ''source_record_id'' ''provenance'' = Inr (pv_source_record_id v)"
    "payload_text ?p ''source_revision'' ''provenance'' = Inr (pv_source_revision v)"
    using ne by (auto intro!: payload_textI simp: provenance_payload_def)
  ultimately show ?thesis using assms(1) ne(4) by (simp add: provenance_from_payload_def provenance_ok_def)
qed

end
