(* ===== verification/Brain_Store.thy ===== *)
theory Brain_Store
  imports Brain_Codec
begin

text \<open>
  The durable Company Brain store, \<open>src/company_brain/store.py\<close> over \<open>src/company_brain/sqlite.py\<close>. A table maps
  its primary key, the tenant and the key of the record, to the remaining columns; a row is
  decoded whenever it is read. The three tables are handled alike, so the operations on a row
  are written once over the codec of the table. A write is one \<open>BEGIN IMMEDIATE\<close> transaction: it returns the
  new store, or raises and leaves the store as it was. The clock readings are arguments.
\<close>

section \<open>Stored records\<close>

record 'a stored =
  sd_tenant_id :: string
  sd_item :: 'a
  sd_version :: int
  sd_provenance :: brain_provenance
  sd_retention :: retention_policy
  sd_created_at :: instant
  sd_updated_at :: instant
  sd_deleted_at :: "instant option"
  sd_deletion_reason :: "string option"

type_synonym stored_entity = "brain_entity stored"
type_synonym stored_evidence = "brain_evidence stored"
type_synonym stored_relationship = "brain_relationship stored"

text \<open>\<open>__post_init__\<close>; the timestamps are instants already.\<close>

definition new_stored :: "'a stored \<Rightarrow> 'a stored res" where
  "new_stored r =
     rbind (store_required (sd_tenant_id r) ''tenant_id'' 200) (\<lambda>_.
     if sd_version r < 1 then Inl (store_error ''record version must be positive'')
     else rbind (case sd_deleted_at r of
         Some _ \<Rightarrow> store_required (case sd_deletion_reason r of None \<Rightarrow> [] | Some s \<Rightarrow> s) ''deletion_reason'' 500
       | None \<Rightarrow> if sd_deletion_reason r \<noteq> None then Inl (store_error ''deletion_reason requires deleted_at'') else Inr ()) (\<lambda>_.
     Inr r))"

section \<open>Tables\<close>

record db_row =
  rw_payload :: "json option"
  rw_version :: int
  rw_provenance :: "json option"
  rw_retain_until :: "string option"
  rw_legal_hold :: int
  rw_created_at :: string
  rw_updated_at :: string
  rw_deleted_at :: "string option"
  rw_deletion_reason :: "string option"

type_synonym 'k table = "((string \<times> 'k) \<times> db_row) list"

text \<open>What distinguishes the tables: the name of the record, its key, its key in the audit log and its payload.\<close>

record ('k, 'a) codec =
  cd_record_type :: string
  cd_key :: "'a \<Rightarrow> 'k"
  cd_payload :: "'a \<Rightarrow> payload"
  cd_from_payload :: "payload \<Rightarrow> 'a res"

definition entity_codec :: "(string, brain_entity) codec" where
  "entity_codec = \<lparr>cd_record_type = ''entity'', cd_key = en_entity_id, cd_payload = entity_payload, cd_from_payload = entity_from_payload\<rparr>"

definition evidence_codec :: "(string, brain_evidence) codec" where
  "evidence_codec = \<lparr>cd_record_type = ''evidence'', cd_key = bv_evidence_id, cd_payload = evidence_payload, cd_from_payload = evidence_from_payload\<rparr>"

definition relationship_codec :: "(string \<times> string \<times> string, brain_relationship) codec" where
  "relationship_codec = \<lparr>cd_record_type = ''relationship'',
     cd_key = (\<lambda>r. (rl_source_id r, rl_target_id r, relationship_kind_value (rl_kind r))),
     cd_payload = relationship_payload, cd_from_payload = relationship_from_payload\<rparr>"

definition record_values :: "py_std \<Rightarrow> ('k, 'a) codec \<Rightarrow> 'a stored \<Rightarrow> db_row" where
  "record_values std cd r =
     \<lparr>rw_payload = Some (JObj (cd_payload cd (sd_item r))), rw_version = sd_version r,
      rw_provenance = Some (JObj (provenance_payload std (sd_provenance r))),
      rw_retain_until = map_option (isoformat std) (rt_retain_until (sd_retention r)),
      rw_legal_hold = (if rt_legal_hold (sd_retention r) then 1 else 0),
      rw_created_at = isoformat std (sd_created_at r), rw_updated_at = isoformat std (sd_updated_at r),
      rw_deleted_at = map_option (isoformat std) (sd_deleted_at r), rw_deletion_reason = sd_deletion_reason r\<rparr>"

text \<open>An optional timestamp column: \<open>parse(row[c]) if row[c] else None\<close>.\<close>

definition optional_timestamp :: "py_std \<Rightarrow> string option \<Rightarrow> instant option res" where
  "optional_timestamp std c =
     (case c of
        None \<Rightarrow> Inr None
      | Some s \<Rightarrow> if s = [] then Inr None else rbind (store_parse_timestamp std s) (\<lambda>t. Inr (Some t)))"

definition record_from_row :: "py_std \<Rightarrow> ('k, 'a) codec \<Rightarrow> string \<Rightarrow> db_row \<Rightarrow> 'a stored res" where
  "record_from_row std cd tenant row =
     rbind (rbind (payload_from_json (rw_payload row) (''stored '' @ cd_record_type cd)) (cd_from_payload cd)) (\<lambda>x.
     rbind (rbind (payload_from_json (rw_provenance row) (''stored '' @ cd_record_type cd @ '' provenance'')) (provenance_from_payload std)) (\<lambda>v.
     rbind (optional_timestamp std (rw_retain_until row)) (\<lambda>until.
     rbind (store_parse_timestamp std (rw_created_at row)) (\<lambda>created.
     rbind (store_parse_timestamp std (rw_updated_at row)) (\<lambda>updated.
     rbind (optional_timestamp std (rw_deleted_at row)) (\<lambda>deleted.
     new_stored \<lparr>sd_tenant_id = tenant, sd_item = x, sd_version = rw_version row, sd_provenance = v,
       sd_retention = \<lparr>rt_retain_until = until, rt_legal_hold = (rw_legal_hold row \<noteq> 0)\<rparr>,
       sd_created_at = created, sd_updated_at = updated, sd_deleted_at = deleted, sd_deletion_reason = rw_deletion_reason row\<rparr>))))))"

definition write_record :: "py_std \<Rightarrow> ('k, 'a) codec \<Rightarrow> 'a stored \<Rightarrow> 'k table \<Rightarrow> 'k table" where
  "write_record std cd r tbl = dict_set (sd_tenant_id r, cd_key cd (sd_item r)) (record_values std cd r) tbl"

text \<open>\<open>SELECT * ... fetchone()\<close> and its decoding.\<close>

definition fetch_record :: "py_std \<Rightarrow> ('k, 'a) codec \<Rightarrow> string \<Rightarrow> 'k \<Rightarrow> bool \<Rightarrow> 'k table \<Rightarrow> 'a stored option res" where
  "fetch_record std cd tenant key include_deleted tbl =
     (case map_of tbl (tenant, key) of
        None \<Rightarrow> Inr None
      | Some row \<Rightarrow>
          if \<not> include_deleted \<and> rw_deleted_at row \<noteq> None then Inr None
          else rbind (record_from_row std cd tenant row) (\<lambda>r. Inr (Some r)))"

definition str_version :: "int option \<Rightarrow> string" where
  "str_version v = (case v of None \<Rightarrow> ''None'' | Some i \<Rightarrow> str_int i)"

definition brain_assert_expected :: "int option \<Rightarrow> int option \<Rightarrow> unit res" where
  "brain_assert_expected current expected =
     (if expected \<noteq> None \<and> current \<noteq> expected
      then Inl (OtherError ''CompanyBrainVersionConflict''
        (''expected version '' @ str_version expected @ '', current version is '' @ str_version current))
      else Inr ())"

definition retention_error :: "string \<Rightarrow> exn" where
  "retention_error m = OtherError ''CompanyBrainRetentionError'' m"

definition assert_mutable :: "'a stored option \<Rightarrow> retention_policy \<Rightarrow> unit res" where
  "assert_mutable current requested =
     (case current of
        None \<Rightarrow> Inr ()
      | Some r \<Rightarrow>
          if sd_deleted_at r \<noteq> None then Inl (store_error ''tombstoned records cannot be silently recreated'')
          else if rt_legal_hold (sd_retention r) \<and> \<not> rt_legal_hold requested
          then Inl (retention_error ''legal hold cannot be removed by an ordinary update'')
          else (case rt_retain_until (sd_retention r) of
              None \<Rightarrow> Inr ()
            | Some t \<Rightarrow> (case rt_retain_until requested of
                  None \<Rightarrow> Inl (retention_error ''retention cannot be shortened by an ordinary update'')
                | Some t' \<Rightarrow> if t' < t then Inl (retention_error ''retention cannot be shortened by an ordinary update'') else Inr ())))"

text \<open>\<open>_put_entity\<close>, \<open>_put_evidence\<close>, \<open>_put_relationship\<close>: the stored record, whether it is new, and the table.\<close>

definition put_record ::
    "py_std \<Rightarrow> ('k, 'a) codec \<Rightarrow> instant \<Rightarrow> string \<Rightarrow> 'a \<Rightarrow> brain_provenance \<Rightarrow> retention_policy \<Rightarrow> int option \<Rightarrow> 'k table \<Rightarrow>
     ('a stored \<times> bool \<times> 'k table) res" where
  "put_record std cd now tenant x v retention expected tbl =
     rbind (fetch_record std cd tenant (cd_key cd x) True tbl) (\<lambda>current.
     rbind (brain_assert_expected (map_option sd_version current) expected) (\<lambda>_.
     rbind (assert_mutable current retention) (\<lambda>_.
     rbind (new_stored \<lparr>sd_tenant_id = tenant, sd_item = x,
         sd_version = (case current of None \<Rightarrow> 1 | Some r \<Rightarrow> sd_version r + 1), sd_provenance = v, sd_retention = retention,
         sd_created_at = (case current of None \<Rightarrow> now | Some r \<Rightarrow> sd_created_at r), sd_updated_at = now,
         sd_deleted_at = None, sd_deletion_reason = None\<rparr>) (\<lambda>stored.
     Inr (stored, current = None, write_record std cd stored tbl)))))"

text \<open>The checks of a delete, with those of its own the table adds after the tombstone check.\<close>

definition deletable ::
    "py_std \<Rightarrow> ('k, 'a) codec \<Rightarrow> string \<Rightarrow> 'k \<Rightarrow> int \<Rightarrow> ('a \<Rightarrow> unit res) \<Rightarrow> 'k table \<Rightarrow> 'a stored res" where
  "deletable std cd tenant key expected extra tbl =
     rbind (fetch_record std cd tenant key True tbl) (\<lambda>row.
     case row of
       None \<Rightarrow> Inl (store_error (cd_record_type cd @ '' does not exist''))
     | Some current \<Rightarrow>
         rbind (brain_assert_expected (Some (sd_version current)) (Some expected)) (\<lambda>_.
         if sd_deleted_at current \<noteq> None then Inl (store_error (cd_record_type cd @ '' is already deleted''))
         else rbind (extra (sd_item current)) (\<lambda>_.
         if rt_legal_hold (sd_retention current)
         then Inl (retention_error (cd_record_type cd @ '' is under legal hold and cannot be tombstoned''))
         else Inr current)))"

definition tombstone :: "'a stored \<Rightarrow> instant \<Rightarrow> string \<Rightarrow> 'a stored res" where
  "tombstone current at_time reason =
     new_stored (current\<lparr>sd_version := sd_version current + 1, sd_updated_at := at_time, sd_deleted_at := Some at_time,
       sd_deletion_reason := Some reason\<rparr>)"

section \<open>The store\<close>

record event_row =
  er_sequence :: nat
  er_tenant_id :: string
  er_record_type :: string
  er_record_key :: string
  er_operation :: string
  er_version :: int
  er_occurred_at :: string
  er_provenance :: "json option"
  er_deletion_reason :: "string option"

record brain_store =
  bs_entities :: "string table"
  bs_evidence :: "string table"
  bs_relationships :: "(string \<times> string \<times> string) table"
  bs_events :: "event_row list"
  bs_read_only :: bool

definition empty_brain_store :: brain_store where
  "empty_brain_store = \<lparr>bs_entities = [], bs_evidence = [], bs_relationships = [], bs_events = [], bs_read_only = False\<rparr>"

definition append_event ::
    "py_std \<Rightarrow> string \<Rightarrow> string \<Rightarrow> string \<Rightarrow> string \<Rightarrow> int \<Rightarrow> instant \<Rightarrow> brain_provenance \<Rightarrow> string option \<Rightarrow> brain_store \<Rightarrow> brain_store" where
  "append_event std tenant record_type record_key operation version occurred_at v reason st =
     st\<lparr>bs_events := bs_events st @ [\<lparr>er_sequence = Suc (length (bs_events st)), er_tenant_id = tenant, er_record_type = record_type,
       er_record_key = record_key, er_operation = operation, er_version = version, er_occurred_at = isoformat std occurred_at,
       er_provenance = Some (JObj (provenance_payload std v)), er_deletion_reason = reason\<rparr>]\<rparr>"

text \<open>\<open>with self._immediate(db)\<close> refuses a store opened for reading.\<close>

definition immediate :: "brain_store \<Rightarrow> 'b res \<Rightarrow> 'b res" where
  "immediate st body =
     (if bs_read_only st then Inl (OtherError ''OperationalError'' ''read-only reference database cannot start a write transaction'') else body)"

definition operation_name :: "bool \<Rightarrow> string" where
  "operation_name created = (if created then ''created'' else ''updated'')"

definition event_key :: "brain_relationship \<Rightarrow> string" where
  "event_key r = rl_source_id r @ ''|'' @ relationship_kind_value (rl_kind r) @ ''|'' @ rl_target_id r"

definition put_entity_row ::
    "py_std \<Rightarrow> instant \<Rightarrow> string \<Rightarrow> brain_entity \<Rightarrow> brain_provenance \<Rightarrow> retention_policy \<Rightarrow> int option \<Rightarrow> brain_store \<Rightarrow>
     (stored_entity \<times> brain_store) res" where
  "put_entity_row std now tenant e v retention expected st =
     rbind (put_record std entity_codec now tenant e v retention expected (bs_entities st)) (\<lambda>(stored, created, tbl).
     Inr (stored, append_event std tenant ''entity'' (en_entity_id e) (operation_name created) (sd_version stored) now v None
       (st\<lparr>bs_entities := tbl\<rparr>)))"

definition put_entity ::
    "py_std \<Rightarrow> instant \<Rightarrow> string \<Rightarrow> brain_entity \<Rightarrow> brain_provenance \<Rightarrow> retention_policy \<Rightarrow> int option \<Rightarrow> brain_store \<Rightarrow>
     (stored_entity \<times> brain_store) res" where
  "put_entity std now tenant e v retention expected st =
     rbind (store_required tenant ''tenant_id'' 200) (\<lambda>_. immediate st (put_entity_row std now tenant e v retention expected st))"

definition put_evidence_row ::
    "py_std \<Rightarrow> instant \<Rightarrow> string \<Rightarrow> brain_evidence \<Rightarrow> brain_provenance \<Rightarrow> retention_policy \<Rightarrow> int option \<Rightarrow> brain_store \<Rightarrow>
     (stored_evidence \<times> brain_store) res" where
  "put_evidence_row std now tenant e v retention expected st =
     rbind (put_record std evidence_codec now tenant e v retention expected (bs_evidence st)) (\<lambda>(stored, created, tbl).
     Inr (stored, append_event std tenant ''evidence'' (bv_evidence_id e) (operation_name created) (sd_version stored) now v None
       (st\<lparr>bs_evidence := tbl\<rparr>)))"

text \<open>The evidence and the entity that stands for it are written in one transaction, each with a clock reading of its own.\<close>

definition put_evidence ::
    "py_std \<Rightarrow> instant \<Rightarrow> instant \<Rightarrow> string \<Rightarrow> brain_evidence \<Rightarrow> brain_provenance \<Rightarrow> retention_policy \<Rightarrow> int option \<Rightarrow> brain_store \<Rightarrow>
     (stored_evidence \<times> brain_store) res" where
  "put_evidence std now now' tenant e v retention expected st =
     rbind (store_required tenant ''tenant_id'' 200) (\<lambda>_. immediate st (
     rbind (put_evidence_row std now tenant e v retention expected st) (\<lambda>(stored, st1).
     rbind (evidence_entity e) (\<lambda>structural.
     rbind (put_entity_row std now' tenant structural v retention
         (map_option rw_version (map_of (bs_entities st1) (tenant, bv_evidence_id e))) st1) (\<lambda>(_, st2).
     Inr (stored, st2))))))"

definition assert_active :: "string \<Rightarrow> string \<Rightarrow> string \<Rightarrow> string table \<Rightarrow> unit res" where
  "assert_active what tenant key tbl =
     (case map_of tbl (tenant, key) of
        None \<Rightarrow> Inl (store_error (''relationship '' @ what @ '' must exist in the same tenant''))
      | Some row \<Rightarrow> if rw_deleted_at row \<noteq> None then Inl (store_error (''relationship '' @ what @ '' must be active'')) else Inr ())"

definition put_relationship ::
    "py_std \<Rightarrow> instant \<Rightarrow> string \<Rightarrow> brain_relationship \<Rightarrow> brain_provenance \<Rightarrow> retention_policy \<Rightarrow> int option \<Rightarrow> brain_store \<Rightarrow>
     (stored_relationship \<times> brain_store) res" where
  "put_relationship std now tenant r v retention expected st =
     rbind (store_required tenant ''tenant_id'' 200) (\<lambda>_. immediate st (
     rbind (assert_active ''endpoints'' tenant (rl_source_id r) (bs_entities st)) (\<lambda>_.
     rbind (assert_active ''endpoints'' tenant (rl_target_id r) (bs_entities st)) (\<lambda>_.
     rbind (fold_res (\<lambda>i _. assert_active ''evidence'' tenant i (bs_evidence st)) (rl_evidence_ids r) ()) (\<lambda>_.
     rbind (put_record std relationship_codec now tenant r v retention expected (bs_relationships st)) (\<lambda>(stored, created, tbl).
     Inr (stored, append_event std tenant ''relationship'' (event_key r) (operation_name created) (sd_version stored) now v None
       (st\<lparr>bs_relationships := tbl\<rparr>))))))))"

definition deletion_time :: "instant \<Rightarrow> py_datetime option \<Rightarrow> instant res" where
  "deletion_time now deleted_at = (case deleted_at of None \<Rightarrow> Inr now | Some d \<Rightarrow> store_timestamp d ''deleted_at'')"

definition not_evidence :: "brain_entity \<Rightarrow> unit res" where
  "not_evidence e = (if en_kind e = EK_EVIDENCE then Inl (store_error ''evidence entities must be deleted through delete_evidence'') else Inr ())"

definition delete_entity ::
    "py_std \<Rightarrow> instant \<Rightarrow> string \<Rightarrow> string \<Rightarrow> int \<Rightarrow> string \<Rightarrow> py_datetime option \<Rightarrow> brain_store \<Rightarrow> (stored_entity \<times> brain_store) res" where
  "delete_entity std now tenant key expected reason deleted_at st =
     rbind (store_required tenant ''tenant_id'' 200) (\<lambda>_.
     rbind (store_required key ''entity_id'' 500) (\<lambda>_.
     rbind (store_required reason ''deletion reason'' 500) (\<lambda>_.
     rbind (deletion_time now deleted_at) (\<lambda>at_time. immediate st (
     rbind (deletable std entity_codec tenant key expected not_evidence (bs_entities st)) (\<lambda>current.
     rbind (tombstone current at_time reason) (\<lambda>stored.
     Inr (stored, append_event std tenant ''entity'' key ''tombstoned'' (sd_version stored) at_time (sd_provenance current) (Some reason)
       (st\<lparr>bs_entities := write_record std entity_codec stored (bs_entities st)\<rparr>)))))))))"

definition structural_deletable :: "py_std \<Rightarrow> string \<Rightarrow> string \<Rightarrow> brain_store \<Rightarrow> stored_entity res" where
  "structural_deletable std tenant key st =
     rbind (fetch_record std entity_codec tenant key True (bs_entities st)) (\<lambda>row.
     case row of
       None \<Rightarrow> Inl (store_error ''evidence is missing its structural entity'')
     | Some s \<Rightarrow>
         if en_kind (sd_item s) \<noteq> EK_EVIDENCE then Inl (store_error ''evidence structural entity has an invalid kind'')
         else if sd_deleted_at s \<noteq> None then Inl (store_error ''evidence structural entity is already deleted'')
         else if rt_legal_hold (sd_retention s) then Inl (retention_error ''evidence entity is under legal hold and cannot be tombstoned'')
         else Inr s)"

definition delete_evidence ::
    "py_std \<Rightarrow> instant \<Rightarrow> string \<Rightarrow> string \<Rightarrow> int \<Rightarrow> string \<Rightarrow> py_datetime option \<Rightarrow> brain_store \<Rightarrow> (stored_evidence \<times> brain_store) res" where
  "delete_evidence std now tenant key expected reason deleted_at st =
     rbind (store_required tenant ''tenant_id'' 200) (\<lambda>_.
     rbind (store_required key ''evidence_id'' 500) (\<lambda>_.
     rbind (store_required reason ''deletion reason'' 500) (\<lambda>_.
     rbind (deletion_time now deleted_at) (\<lambda>at_time. immediate st (
     rbind (deletable std evidence_codec tenant key expected (\<lambda>_. Inr ()) (bs_evidence st)) (\<lambda>current.
     rbind (structural_deletable std tenant key st) (\<lambda>structural.
     rbind (tombstone current at_time reason) (\<lambda>stored.
     let st1 = append_event std tenant ''evidence'' key ''tombstoned'' (sd_version stored) at_time (sd_provenance current) (Some reason)
       (st\<lparr>bs_evidence := write_record std evidence_codec stored (bs_evidence st)\<rparr>) in
     rbind (tombstone structural at_time reason) (\<lambda>tombstoned.
     Inr (stored, append_event std tenant ''entity'' key ''tombstoned'' (sd_version tombstoned) at_time (sd_provenance structural) (Some reason)
       (st1\<lparr>bs_entities := write_record std entity_codec tombstoned (bs_entities st1)\<rparr>)))))))))))"

definition delete_relationship ::
    "py_std \<Rightarrow> instant \<Rightarrow> string \<Rightarrow> string \<Rightarrow> string \<Rightarrow> relationship_kind \<Rightarrow> int \<Rightarrow> string \<Rightarrow> py_datetime option \<Rightarrow> brain_store \<Rightarrow>
     (stored_relationship \<times> brain_store) res" where
  "delete_relationship std now tenant source_id target_id kind expected reason deleted_at st =
     rbind (store_required tenant ''tenant_id'' 200) (\<lambda>_.
     rbind (store_required source_id ''relationship source_id'' 500) (\<lambda>_.
     rbind (store_required target_id ''relationship target_id'' 500) (\<lambda>_.
     rbind (store_required reason ''deletion reason'' 500) (\<lambda>_.
     rbind (deletion_time now deleted_at) (\<lambda>at_time. immediate st (
     rbind (deletable std relationship_codec tenant (source_id, target_id, relationship_kind_value kind) expected (\<lambda>_. Inr ()) (bs_relationships st)) (\<lambda>current.
     rbind (tombstone current at_time reason) (\<lambda>stored.
     Inr (stored, append_event std tenant ''relationship'' (event_key (sd_item current)) ''tombstoned'' (sd_version stored) at_time
       (sd_provenance current) (Some reason)
       (st\<lparr>bs_relationships := write_record std relationship_codec stored (bs_relationships st)\<rparr>))))))))))"

section \<open>Reading\<close>

definition get_entity :: "py_std \<Rightarrow> string \<Rightarrow> string \<Rightarrow> bool \<Rightarrow> brain_store \<Rightarrow> stored_entity option res" where
  "get_entity std tenant key include_deleted st =
     rbind (store_required tenant ''tenant_id'' 200) (\<lambda>_.
     rbind (store_required key ''entity_id'' 500) (\<lambda>_. fetch_record std entity_codec tenant key include_deleted (bs_entities st)))"

definition get_evidence :: "py_std \<Rightarrow> string \<Rightarrow> string \<Rightarrow> bool \<Rightarrow> brain_store \<Rightarrow> stored_evidence option res" where
  "get_evidence std tenant key include_deleted st =
     rbind (store_required tenant ''tenant_id'' 200) (\<lambda>_.
     rbind (store_required key ''evidence_id'' 500) (\<lambda>_. fetch_record std evidence_codec tenant key include_deleted (bs_evidence st)))"

definition get_relationship ::
    "py_std \<Rightarrow> string \<Rightarrow> string \<Rightarrow> string \<Rightarrow> relationship_kind \<Rightarrow> bool \<Rightarrow> brain_store \<Rightarrow> stored_relationship option res" where
  "get_relationship std tenant source_id target_id kind include_deleted st =
     rbind (store_required tenant ''tenant_id'' 200) (\<lambda>_.
     rbind (store_required source_id ''relationship source_id'' 500) (\<lambda>_.
     rbind (store_required target_id ''relationship target_id'' 500) (\<lambda>_.
     fetch_record std relationship_codec tenant (source_id, target_id, relationship_kind_value kind) include_deleted (bs_relationships st))))"

text \<open>\<open>SELECT * ... WHERE tenant_id=? ORDER BY\<close> the key.\<close>

definition tenant_rows :: "string \<Rightarrow> bool \<Rightarrow> 'k table \<Rightarrow> ('k \<times> db_row) list" where
  "tenant_rows tenant include_deleted tbl =
     map (\<lambda>((t, k), row). (k, row)) (filter (\<lambda>((t, k), row). t = tenant \<and> (include_deleted \<or> rw_deleted_at row = None)) tbl)"

definition list_entities :: "py_std \<Rightarrow> string \<Rightarrow> bool \<Rightarrow> brain_store \<Rightarrow> stored_entity list res" where
  "list_entities std tenant include_deleted st =
     rbind (store_required tenant ''tenant_id'' 200) (\<lambda>_.
     map_res (\<lambda>(k, row). record_from_row std entity_codec tenant row) (sort_key fst (tenant_rows tenant include_deleted (bs_entities st))))"

definition list_evidence :: "py_std \<Rightarrow> string \<Rightarrow> bool \<Rightarrow> brain_store \<Rightarrow> stored_evidence list res" where
  "list_evidence std tenant include_deleted st =
     rbind (store_required tenant ''tenant_id'' 200) (\<lambda>_.
     map_res (\<lambda>(k, row). record_from_row std evidence_codec tenant row) (sort_key fst (tenant_rows tenant include_deleted (bs_evidence st))))"

text \<open>The join: both endpoints are entities of the tenant, and active ones unless tombstones are asked for.\<close>

definition joined :: "string \<Rightarrow> bool \<Rightarrow> brain_store \<Rightarrow> (string \<times> string \<times> string) \<times> db_row \<Rightarrow> bool" where
  "joined tenant include_deleted st = (\<lambda>((s, t, k), row).
     (case (map_of (bs_entities st) (tenant, s), map_of (bs_entities st) (tenant, t)) of
        (Some a, Some b) \<Rightarrow> include_deleted \<or> rw_deleted_at a = None \<and> rw_deleted_at b = None
      | _ \<Rightarrow> False))"

definition list_relationships :: "py_std \<Rightarrow> string \<Rightarrow> bool \<Rightarrow> brain_store \<Rightarrow> stored_relationship list res" where
  "list_relationships std tenant include_deleted st =
     rbind (store_required tenant ''tenant_id'' 200) (\<lambda>_.
     map_res (\<lambda>(k, row). record_from_row std relationship_codec tenant row)
       (sort_key (\<lambda>((s, t, k), row). (s, k, t)) (filter (joined tenant include_deleted st) (tenant_rows tenant include_deleted (bs_relationships st)))))"

record brain_audit_event =
  bae_sequence :: nat
  bae_tenant_id :: string
  bae_record_type :: string
  bae_record_key :: string
  bae_operation :: string
  bae_version :: int
  bae_occurred_at :: instant
  bae_provenance :: brain_provenance
  bae_deletion_reason :: "string option"

definition event_from_row :: "py_std \<Rightarrow> event_row \<Rightarrow> brain_audit_event res" where
  "event_from_row std r =
     rbind (store_parse_timestamp std (er_occurred_at r)) (\<lambda>t.
     rbind (rbind (payload_from_json (er_provenance r) ''stored audit provenance'') (provenance_from_payload std)) (\<lambda>v.
     Inr \<lparr>bae_sequence = er_sequence r, bae_tenant_id = er_tenant_id r, bae_record_type = er_record_type r, bae_record_key = er_record_key r,
       bae_operation = er_operation r, bae_version = er_version r, bae_occurred_at = t, bae_provenance = v,
       bae_deletion_reason = er_deletion_reason r\<rparr>))"

definition audit_events :: "py_std \<Rightarrow> string \<Rightarrow> string option \<Rightarrow> string option \<Rightarrow> brain_store \<Rightarrow> brain_audit_event list res" where
  "audit_events std tenant record_type record_key st =
     rbind (store_required tenant ''tenant_id'' 200) (\<lambda>_.
     rbind (case record_type of None \<Rightarrow> Inr () | Some s \<Rightarrow> store_required s ''record_type'' 50) (\<lambda>_.
     rbind (case record_key of None \<Rightarrow> Inr () | Some s \<Rightarrow> store_required s ''record_key'' 500) (\<lambda>_.
     map_res (event_from_row std) (sort_key er_sequence (filter (\<lambda>r. er_tenant_id r = tenant \<and>
       (case record_type of None \<Rightarrow> True | Some s \<Rightarrow> er_record_type r = s) \<and>
       (case record_key of None \<Rightarrow> True | Some s \<Rightarrow> er_record_key r = s)) (bs_events st))))))"

definition relate_stored :: "stored_relationship \<Rightarrow> company_brain \<Rightarrow> company_brain res" where
  "relate_stored s b =
     rbind (relate (rl_source_id (sd_item s)) (rl_target_id (sd_item s)) (rl_kind (sd_item s)) (rl_evidence_ids (sd_item s)) b) (\<lambda>(_, b'). Inr b')"

definition snapshot :: "py_std \<Rightarrow> string \<Rightarrow> brain_store \<Rightarrow> company_brain res" where
  "snapshot std tenant st =
     rbind (list_entities std tenant False st) (\<lambda>es.
     let b1 = fold (\<lambda>s. upsert_entity (sd_item s)) es empty_brain in
     rbind (list_evidence std tenant False st) (\<lambda>evs.
     let b2 = fold (\<lambda>s b. b\<lparr>br_evidence := dict_set (bv_evidence_id (sd_item s)) (sd_item s) (br_evidence b)\<rparr>) evs b1 in
     rbind (list_relationships std tenant False st) (\<lambda>rs. fold_res relate_stored rs b2)))"

section \<open>A table as a map of records\<close>

definition stored_ok :: "('a \<Rightarrow> bool) \<Rightarrow> 'a stored \<Rightarrow> bool" where
  "stored_ok ok r \<longleftrightarrow> ok (sd_item r) \<and> provenance_ok (sd_provenance r) \<and> new_stored r = Inr r"

definition table_ok :: "py_std \<Rightarrow> ('k, 'a) codec \<Rightarrow> ('a \<Rightarrow> bool) \<Rightarrow> 'k table \<Rightarrow> bool" where
  "table_ok std cd ok tbl \<longleftrightarrow> distinct (map fst tbl) \<and>
     (\<forall>t k row. ((t, k), row) \<in> set tbl \<longrightarrow>
        (\<exists>r. stored_ok ok r \<and> sd_tenant_id r = t \<and> cd_key cd (sd_item r) = k \<and> row = record_values std cd r))"

definition view :: "py_std \<Rightarrow> ('k, 'a) codec \<Rightarrow> 'k table \<Rightarrow> string \<Rightarrow> 'k \<Rightarrow> 'a stored option" where
  "view std cd tbl t k =
     (case map_of tbl (t, k) of None \<Rightarrow> None | Some row \<Rightarrow> (case record_from_row std cd t row of Inl _ \<Rightarrow> None | Inr r \<Rightarrow> Some r))"

text \<open>What the stored timestamps rely on: the text of a UTC time is parsed to it, and no time is printed as nothing.\<close>

definition clock_ok :: "py_std \<Rightarrow> bool" where
  "clock_ok std \<longleftrightarrow> isoformat_parses std \<and> fromisoformat std [] = None"

lemma parse_iso:
  assumes "clock_ok std"
  shows "store_parse_timestamp std (isoformat std t) = Inr t" "isoformat std t \<noteq> []"
proof -
  obtain d where d: "fromisoformat std (isoformat std t) = Some d" "utc_offset_us d = Some 0" "wall_us d = t"
    using assms unfolding clock_ok_def isoformat_parses_def by blast
  then show "store_parse_timestamp std (isoformat std t) = Inr t"
    by (simp add: store_parse_timestamp_def store_timestamp_def as_instant_def)
  show "isoformat std t \<noteq> []" using d(1) assms unfolding clock_ok_def by (metis option.distinct(1))
qed

lemma optional_iso: "clock_ok std \<Longrightarrow> optional_timestamp std (map_option (isoformat std) x) = Inr x"
  by (cases x) (simp_all add: optional_timestamp_def parse_iso)

lemma record_values_simps [simp]:
  "rw_deleted_at (record_values std cd r) = map_option (isoformat std) (sd_deleted_at r)" "rw_version (record_values std cd r) = sd_version r"
  by (simp_all add: record_values_def)

text \<open>What the codec of a table promises.\<close>

locale record_table =
  fixes cd :: "('k, 'a) codec" and ok :: "'a \<Rightarrow> bool"
  assumes round_trip: "ok x \<Longrightarrow> cd_from_payload cd (cd_payload cd x) = Inr x"
begin

lemma row_round_trip:
  assumes "clock_ok std" "stored_ok ok r"
  shows "record_from_row std cd (sd_tenant_id r) (record_values std cd r) = Inr r"
proof -
  have "cd_from_payload cd (cd_payload cd (sd_item r)) = Inr (sd_item r)" "new_stored r = Inr r"
    "provenance_from_payload std (provenance_payload std (sd_provenance r)) = Inr (sd_provenance r)"
    using assms round_trip provenance_round_trip by (simp_all add: stored_ok_def clock_ok_def)
  moreover have "\<lparr>sd_tenant_id = sd_tenant_id r, sd_item = sd_item r, sd_version = sd_version r, sd_provenance = sd_provenance r,
      sd_retention = \<lparr>rt_retain_until = rt_retain_until (sd_retention r), rt_legal_hold = ((if rt_legal_hold (sd_retention r) then 1 else 0 :: int) \<noteq> 0)\<rparr>,
      sd_created_at = sd_created_at r, sd_updated_at = sd_updated_at r, sd_deleted_at = sd_deleted_at r,
      sd_deletion_reason = sd_deletion_reason r\<rparr> = r"
    by (intro stored.equality retention_policy.equality) simp_all
  ultimately show ?thesis
    using assms(1) unfolding record_from_row_def record_values_def db_row.simps payload_from_json_def option.case json.case rbind_simps
    by (simp only: parse_iso optional_iso rbind_simps)
qed

lemma view_some:
  assumes std: "clock_ok std" and tbl: "table_ok std cd ok tbl" and row: "map_of tbl (t, k) = Some row"
  obtains r where "view std cd tbl t k = Some r" "row = record_values std cd r" "stored_ok ok r" "sd_tenant_id r = t" "cd_key cd (sd_item r) = k"
proof -
  from tbl row obtain r where r: "stored_ok ok r" "sd_tenant_id r = t" "cd_key cd (sd_item r) = k" "row = record_values std cd r"
    unfolding table_ok_def by (meson map_of_SomeD)
  then have "record_from_row std cd t row = Inr r" using row_round_trip [OF std r(1)] by simp
  then have "view std cd tbl t k = Some r" using row by (simp add: view_def)
  with r show ?thesis by (intro that)
qed

lemma view_cases:
  assumes "clock_ok std" "table_ok std cd ok tbl"
  shows "(case view std cd tbl t k of None \<Rightarrow> map_of tbl (t, k) = None
     | Some r \<Rightarrow> map_of tbl (t, k) = Some (record_values std cd r) \<and> stored_ok ok r \<and> sd_tenant_id r = t \<and> cd_key cd (sd_item r) = k)"
proof (cases "map_of tbl (t, k)")
  case (Some row)
  obtain r where "view std cd tbl t k = Some r" "row = record_values std cd r" "stored_ok ok r" "sd_tenant_id r = t" "cd_key cd (sd_item r) = k"
    by (rule view_some [OF assms Some])
  with Some show ?thesis by simp
qed (simp add: view_def)

lemma fetch_view:
  assumes "clock_ok std" "table_ok std cd ok tbl"
  shows "fetch_record std cd t k include_deleted tbl = Inr (case view std cd tbl t k of None \<Rightarrow> None
     | Some r \<Rightarrow> if \<not> include_deleted \<and> sd_deleted_at r \<noteq> None then None else Some r)"
proof (cases "map_of tbl (t, k)")
  case (Some row)
  obtain r where "view std cd tbl t k = Some r" "row = record_values std cd r" "stored_ok ok r" "sd_tenant_id r = t"
    by (rule view_some [OF assms Some])
  with Some row_round_trip [OF assms(1)] show ?thesis by (auto simp: fetch_record_def)
qed (simp add: view_def fetch_record_def)

lemma view_write:
  assumes "clock_ok std" "stored_ok ok r"
  shows "view std cd (write_record std cd r tbl) t k =
     (if t = sd_tenant_id r \<and> k = cd_key cd (sd_item r) then Some r else view std cd tbl t k)"
  using row_round_trip [OF assms] by (auto simp: view_def write_record_def)

lemma table_ok_write:
  assumes "table_ok std cd ok tbl" "stored_ok ok r"
  shows "table_ok std cd ok (write_record std cd r tbl)"
  using assms distinct_dict_set unfolding table_ok_def write_record_def by (fastforce dest: in_dict_set)

text \<open>An accepted write and an accepted delete.\<close>

lemma put_record_Inr:
  assumes std: "clock_ok std" and tbl: "table_ok std cd ok tbl" and x: "ok x" "provenance_ok v"
    and put: "put_record std cd now tenant x v retention expected tbl = Inr (stored, created, tbl')"
  shows "let current = view std cd tbl tenant (cd_key cd x) in
     (expected = None \<or> expected = map_option sd_version current) \<and> assert_mutable current retention = Inr () \<and> created = (current = None) \<and>
     stored = \<lparr>sd_tenant_id = tenant, sd_item = x, sd_version = (case current of None \<Rightarrow> 1 | Some r \<Rightarrow> sd_version r + 1),
       sd_provenance = v, sd_retention = retention, sd_created_at = (case current of None \<Rightarrow> now | Some r \<Rightarrow> sd_created_at r),
       sd_updated_at = now, sd_deleted_at = None, sd_deletion_reason = None\<rparr> \<and>
     stored_ok ok stored \<and> tbl' = write_record std cd stored tbl \<and> table_ok std cd ok tbl'"
proof -
  have fetch: "fetch_record std cd tenant (cd_key cd x) True tbl = Inr (view std cd tbl tenant (cd_key cd x))"
    using fetch_view [OF std tbl, of tenant "cd_key cd x" True] by (simp split: option.splits)
  have same: "new_stored r = Inr r' \<Longrightarrow> r' = r" for r r' by (auto simp: new_stored_def rbind_eq_Inr split: if_splits)
  from put fetch obtain new where new: "brain_assert_expected (map_option sd_version (view std cd tbl tenant (cd_key cd x))) expected = Inr ()"
      "assert_mutable (view std cd tbl tenant (cd_key cd x)) retention = Inr ()" "new_stored new = Inr stored"
      "new = \<lparr>sd_tenant_id = tenant, sd_item = x, sd_version = (case view std cd tbl tenant (cd_key cd x) of None \<Rightarrow> 1 | Some r \<Rightarrow> sd_version r + 1),
         sd_provenance = v, sd_retention = retention, sd_created_at = (case view std cd tbl tenant (cd_key cd x) of None \<Rightarrow> now | Some r \<Rightarrow> sd_created_at r),
         sd_updated_at = now, sd_deleted_at = None, sd_deletion_reason = None\<rparr>"
      "created = (view std cd tbl tenant (cd_key cd x) = None)" "tbl' = write_record std cd stored tbl"
    by (auto simp: put_record_def rbind_eq_Inr)
  have eq: "stored = new" using same [OF new(3)] .
  then have "stored_ok ok stored" using new(3,4) x by (simp add: stored_ok_def)
  with table_ok_write [OF tbl this] new eq show ?thesis
    by (auto simp: Let_def brain_assert_expected_def split: if_splits)
qed

lemma deletable_Inr:
  assumes "clock_ok std" "table_ok std cd ok tbl" "deletable std cd tenant key expected extra tbl = Inr current"
  shows "view std cd tbl tenant key = Some current \<and> sd_version current = expected \<and> sd_deleted_at current = None \<and>
     \<not> rt_legal_hold (sd_retention current) \<and> extra (sd_item current) = Inr ()"
  using assms fetch_view [OF assms(1,2), of tenant key True]
  by (auto simp: deletable_def brain_assert_expected_def rbind_eq_Inr split: option.splits if_splits)

lemma tombstone_ok:
  assumes "stored_ok ok current" "tombstone current at_time reason = Inr stored"
  shows "stored = current\<lparr>sd_version := sd_version current + 1, sd_updated_at := at_time, sd_deleted_at := Some at_time,
       sd_deletion_reason := Some reason\<rparr>" "stored_ok ok stored"
proof -
  show eq: "stored = current\<lparr>sd_version := sd_version current + 1, sd_updated_at := at_time, sd_deleted_at := Some at_time,
       sd_deletion_reason := Some reason\<rparr>"
    using assms(2) by (auto simp: tombstone_def new_stored_def rbind_eq_Inr split: if_splits)
  with assms show "stored_ok ok stored" by (simp add: stored_ok_def tombstone_def)
qed

end

interpretation entities: record_table entity_codec entity_ok
  by unfold_locales (simp add: entity_codec_def entity_round_trip)

interpretation evidence: record_table evidence_codec evidence_ok
  by unfold_locales (simp add: evidence_codec_def pointer_round_trip)

interpretation relations: record_table relationship_codec relationship_ok
  by unfold_locales (simp add: relationship_codec_def relationship_round_trip)

end
