(* ===== verification/Brain_Store_Safety.thy ===== *)
theory Brain_Store_Safety
  imports Brain_Store
begin

text \<open>
  What holds of every sequence of writes to the Company Brain store: tenants do not see each other,
  every version of a fact is in the audit log, tombstones are final and retention is never
  shortened, and a snapshot shows the active facts of its tenant. The lemma \<open>op_effect\<close>
  describes one accepted write; the properties follow from it.
\<close>

section \<open>Writes\<close>

datatype brain_op =
    PutEntity string brain_entity brain_provenance retention_policy "int option"
  | PutEvidence string brain_evidence brain_provenance retention_policy "int option"
  | PutRelationship string brain_relationship brain_provenance retention_policy "int option"
  | DeleteEntity string string int string "py_datetime option"
  | DeleteEvidence string string int string "py_datetime option"
  | DeleteRelationship string string string relationship_kind int string "py_datetime option"

fun op_tenant :: "brain_op \<Rightarrow> string" where
  "op_tenant (PutEntity t e v q x) = t"
| "op_tenant (PutEvidence t e v q x) = t"
| "op_tenant (PutRelationship t e v q x) = t"
| "op_tenant (DeleteEntity t k x r d) = t"
| "op_tenant (DeleteEvidence t k x r d) = t"
| "op_tenant (DeleteRelationship t a b k x r d) = t"

text \<open>The objects passed to the store have been constructed, so their constructors accepted them.\<close>

fun op_ok :: "brain_op \<Rightarrow> bool" where
  "op_ok (PutEntity t e v q x) \<longleftrightarrow> entity_ok e \<and> provenance_ok v"
| "op_ok (PutEvidence t e v q x) \<longleftrightarrow> evidence_ok e \<and> provenance_ok v"
| "op_ok (PutRelationship t e v q x) \<longleftrightarrow> relationship_ok e \<and> provenance_ok v"
| "op_ok op \<longleftrightarrow> True"

definition state_after :: "('a \<times> brain_store) res \<Rightarrow> brain_store res" where
  "state_after m = rbind m (\<lambda>(_, st). Inr st)"

fun run_op :: "py_std \<Rightarrow> instant \<Rightarrow> instant \<Rightarrow> brain_op \<Rightarrow> brain_store \<Rightarrow> brain_store res" where
  "run_op std now now' (PutEntity t e v q x) st = state_after (put_entity std now t e v q x st)"
| "run_op std now now' (PutEvidence t e v q x) st = state_after (put_evidence std now now' t e v q x st)"
| "run_op std now now' (PutRelationship t e v q x) st = state_after (put_relationship std now t e v q x st)"
| "run_op std now now' (DeleteEntity t k x r d) st = state_after (delete_entity std now t k x r d st)"
| "run_op std now now' (DeleteEvidence t k x r d) st = state_after (delete_evidence std now t k x r d st)"
| "run_op std now now' (DeleteRelationship t a b k x r d) st = state_after (delete_relationship std now t a b k x r d st)"

inductive brain_store_reachable :: "py_std \<Rightarrow> brain_store \<Rightarrow> bool" for std where
  start: "brain_store_reachable std empty_brain_store"
| step: "brain_store_reachable std st \<Longrightarrow> op_ok op \<Longrightarrow> run_op std now now' op st = Inr st' \<Longrightarrow> brain_store_reachable std st'"

definition store_ok :: "py_std \<Rightarrow> brain_store \<Rightarrow> bool" where
  "store_ok std st \<longleftrightarrow> table_ok std entity_codec entity_ok (bs_entities st) \<and> table_ok std evidence_codec evidence_ok (bs_evidence st) \<and>
     table_ok std relationship_codec relationship_ok (bs_relationships st)"

lemma codec_keys [simp]: "cd_key entity_codec = en_entity_id" "cd_key evidence_codec = bv_evidence_id"
    "cd_key relationship_codec = (\<lambda>r. (rl_source_id r, rl_target_id r, relationship_kind_value (rl_kind r)))"
  by (simp_all add: entity_codec_def evidence_codec_def relationship_codec_def)

section \<open>One accepted write\<close>

text \<open>The next version of a record: a tombstone has none, and a legal hold and a retention date are kept.\<close>

definition record_step :: "'a stored option \<Rightarrow> 'a stored \<Rightarrow> bool" where
  "record_step current r \<longleftrightarrow>
     (case current of
        None \<Rightarrow> sd_version r = 1 \<and> sd_deleted_at r = None
      | Some c \<Rightarrow> sd_deleted_at c = None \<and> sd_version r = sd_version c + 1 \<and> sd_created_at r = sd_created_at c \<and>
          (rt_legal_hold (sd_retention c) \<longrightarrow> rt_legal_hold (sd_retention r) \<and> sd_deleted_at r = None) \<and>
          (\<forall>t. rt_retain_until (sd_retention c) = Some t \<longrightarrow> (\<exists>t' \<ge> t. rt_retain_until (sd_retention r) = Some t')) \<and>
          (sd_deleted_at r \<noteq> None \<longrightarrow> sd_item r = sd_item c))"

definition advances :: "py_std \<Rightarrow> ('k, 'a) codec \<Rightarrow> ('a \<Rightarrow> bool) \<Rightarrow> string \<Rightarrow> 'k table \<Rightarrow> 'a stored \<Rightarrow> bool" where
  "advances std cd ok t tbl r \<longleftrightarrow> stored_ok ok r \<and> sd_tenant_id r = t \<and> record_step (view std cd tbl t (cd_key cd (sd_item r))) r"

definition write_option :: "py_std \<Rightarrow> ('k, 'a) codec \<Rightarrow> 'a stored option \<Rightarrow> 'k table \<Rightarrow> 'k table" where
  "write_option std cd w tbl = (case w of None \<Rightarrow> tbl | Some r \<Rightarrow> write_record std cd r tbl)"

lemma write_option_simps [simp]: "write_option std cd None tbl = tbl" "write_option std cd (Some r) tbl = write_record std cd r tbl"
  by (simp_all add: write_option_def)

context record_table
begin

lemma put_advances:
  assumes "clock_ok std" "table_ok std cd ok tbl" "ok x" "provenance_ok v"
    and "put_record std cd now tenant x v retention expected tbl = Inr (stored, created, tbl')"
  shows "advances std cd ok tenant tbl stored" "sd_item stored = x" "tbl' = write_record std cd stored tbl" "sd_deleted_at stored = None"
proof -
  note put = put_record_Inr [OF assms, unfolded Let_def]
  show "sd_item stored = x" "tbl' = write_record std cd stored tbl" "sd_deleted_at stored = None" using put by simp_all
  from put have "record_step (view std cd tbl tenant (cd_key cd x)) stored"
    by (auto simp: record_step_def assert_mutable_def split: option.splits if_splits)
  moreover have "stored_ok ok stored" "sd_tenant_id stored = tenant" "sd_item stored = x" using put by (blast, simp_all)
  ultimately show "advances std cd ok tenant tbl stored" by (simp add: advances_def)
qed

lemma delete_advances:
  assumes "clock_ok std" "table_ok std cd ok tbl" "deletable std cd tenant key expected extra tbl = Inr current"
    and "tombstone current at_time reason = Inr stored"
  shows "advances std cd ok tenant tbl stored" "cd_key cd (sd_item stored) = key" "sd_item stored = sd_item current" "sd_deleted_at stored \<noteq> None"
proof -
  note del = deletable_Inr [OF assms(1-3)]
  have c: "stored_ok ok current" "sd_tenant_id current = tenant" "cd_key cd (sd_item current) = key"
    using view_cases [OF assms(1,2), of tenant key] del by simp_all
  note st = tombstone_ok [OF c(1) assms(4)]
  show "cd_key cd (sd_item stored) = key" "sd_item stored = sd_item current" "sd_deleted_at stored \<noteq> None" using st(1) c(3) by simp_all
  show "advances std cd ok tenant tbl stored" using st c del by (auto simp: advances_def record_step_def)
qed

lemma advances_table:
  assumes "table_ok std cd ok tbl" "\<forall>r. w = Some r \<longrightarrow> advances std cd ok t tbl r"
  shows "table_ok std cd ok (write_option std cd w tbl)"
  using assms table_ok_write by (cases w) (auto simp: advances_def)

lemma advances_view:
  assumes "clock_ok std" "\<forall>r. w = Some r \<longrightarrow> advances std cd ok t tbl r"
  shows "view std cd (write_option std cd w tbl) t' k = (case w of None \<Rightarrow> view std cd tbl t' k
     | Some r \<Rightarrow> if t' = t \<and> k = cd_key cd (sd_item r) then Some r else view std cd tbl t' k)"
  using assms view_write by (cases w) (auto simp: advances_def)

end

definition log_entries :: "string \<Rightarrow> string \<Rightarrow> event_row list \<Rightarrow> (string \<times> int) list" where
  "log_entries t type evs = map (\<lambda>e. (er_record_key e, er_version e)) (filter (\<lambda>e. er_tenant_id e = t \<and> er_record_type e = type) evs)"

definition entry :: "('a \<Rightarrow> string) \<Rightarrow> 'a stored option \<Rightarrow> (string \<times> int) list" where
  "entry key w = (case w of None \<Rightarrow> [] | Some r \<Rightarrow> [(key (sd_item r), sd_version r)])"

definition numbered :: "event_row list \<Rightarrow> bool" where
  "numbered evs \<longleftrightarrow> map er_sequence evs = [1..<Suc (length evs)]"

definition op_effects ::
    "py_std \<Rightarrow> string \<Rightarrow> brain_store \<Rightarrow> brain_store \<Rightarrow> stored_entity option \<Rightarrow> stored_evidence option \<Rightarrow> stored_relationship option \<Rightarrow>
     event_row list \<Rightarrow> bool" where
  "op_effects std t st st' we wv wr evs \<longleftrightarrow>
     bs_entities st' = write_option std entity_codec we (bs_entities st) \<and> (\<forall>r. we = Some r \<longrightarrow> advances std entity_codec entity_ok t (bs_entities st) r) \<and>
     bs_evidence st' = write_option std evidence_codec wv (bs_evidence st) \<and> (\<forall>r. wv = Some r \<longrightarrow> advances std evidence_codec evidence_ok t (bs_evidence st) r) \<and>
     bs_relationships st' = write_option std relationship_codec wr (bs_relationships st) \<and>
     (\<forall>r. wr = Some r \<longrightarrow> advances std relationship_codec relationship_ok t (bs_relationships st) r) \<and>
     bs_events st' = bs_events st @ evs \<and> (\<forall>e \<in> set evs. er_tenant_id e = t) \<and> (numbered (bs_events st) \<longrightarrow> numbered (bs_events st')) \<and>
     log_entries t ''entity'' evs = entry en_entity_id we \<and> log_entries t ''evidence'' evs = entry bv_evidence_id wv \<and>
     log_entries t ''relationship'' evs = entry event_key wr"

lemma immediate_Inr: "immediate st m = Inr x \<Longrightarrow> m = Inr x"
  by (auto simp: immediate_def split: if_splits)

lemma log_entries_simps [simp]:
  "log_entries t type [] = []"
  "log_entries t type (e # evs) = (if er_tenant_id e = t \<and> er_record_type e = type then (er_record_key e, er_version e) # log_entries t type evs else log_entries t type evs)"
  "log_entries t type (evs @ evs') = log_entries t type evs @ log_entries t type evs'"
  by (simp_all add: log_entries_def)

lemma numbered_snoc: "numbered evs \<Longrightarrow> er_sequence e = Suc (length evs) \<Longrightarrow> numbered (evs @ [e])"
  by (simp add: numbered_def)

lemma append_event_simps [simp]:
  "bs_entities (append_event std t ty k o' ver at_time v why st) = bs_entities st"
  "bs_evidence (append_event std t ty k o' ver at_time v why st) = bs_evidence st"
  "bs_relationships (append_event std t ty k o' ver at_time v why st) = bs_relationships st"
  by (simp_all add: append_event_def)

text \<open>The event an operation logs.\<close>

definition logged :: "event_row \<Rightarrow> nat \<Rightarrow> string \<Rightarrow> string \<Rightarrow> string \<Rightarrow> int \<Rightarrow> bool" where
  "logged ev n t type k ver \<longleftrightarrow> er_sequence ev = Suc n \<and> er_tenant_id ev = t \<and> er_record_type ev = type \<and> er_record_key ev = k \<and> er_version ev = ver"

lemma append_event_logs:
  "\<exists>ev. bs_events (append_event std t type k o' ver at_time v why st) = bs_events st @ [ev] \<and> logged ev (length (bs_events st)) t type k ver"
  by (simp add: append_event_def logged_def)

lemma put_entity_row_effect:
  assumes "clock_ok std" "store_ok std st" "entity_ok e" "provenance_ok v" "put_entity_row std now t e v q x st = Inr (stored, st')"
  shows "\<exists>ev. op_effects std t st st' (Some stored) None None [ev] \<and> sd_item stored = e"
proof -
  from assms(5) obtain created tbl where put: "put_record std entity_codec now t e v q x (bs_entities st) = Inr (stored, created, tbl)"
    "st' = append_event std t ''entity'' (en_entity_id e) (operation_name created) (sd_version stored) now v None (st\<lparr>bs_entities := tbl\<rparr>)"
    by (auto simp: put_entity_row_def rbind_eq_Inr)
  note adv = entities.put_advances [OF assms(1) _ assms(3,4) put(1)]
  obtain ev where "bs_events st' = bs_events st @ [ev]" "logged ev (length (bs_events st)) t ''entity'' (en_entity_id e) (sd_version stored)"
    using append_event_logs [of std t "''entity''" "en_entity_id e" "operation_name created" "sd_version stored" now v None "st\<lparr>bs_entities := tbl\<rparr>"] by (auto simp: put(2))
  with put(2) adv assms(2) show ?thesis
    by (intro exI [of _ ev]) (simp add: op_effects_def store_ok_def numbered_snoc entry_def logged_def)
qed

lemma put_evidence_row_effect:
  assumes "clock_ok std" "store_ok std st" "evidence_ok e" "provenance_ok v" "put_evidence_row std now t e v q x st = Inr (stored, st')"
  shows "\<exists>ev. op_effects std t st st' None (Some stored) None [ev] \<and> sd_item stored = e \<and> sd_deleted_at stored = None"
proof -
  from assms(5) obtain created tbl where put: "put_record std evidence_codec now t e v q x (bs_evidence st) = Inr (stored, created, tbl)"
    "st' = append_event std t ''evidence'' (bv_evidence_id e) (operation_name created) (sd_version stored) now v None (st\<lparr>bs_evidence := tbl\<rparr>)"
    by (auto simp: put_evidence_row_def rbind_eq_Inr)
  note adv = evidence.put_advances [OF assms(1) _ assms(3,4) put(1)]
  obtain ev where "bs_events st' = bs_events st @ [ev]" "logged ev (length (bs_events st)) t ''evidence'' (bv_evidence_id e) (sd_version stored)"
    using append_event_logs [of std t "''evidence''" "bv_evidence_id e" "operation_name created" "sd_version stored" now v None "st\<lparr>bs_evidence := tbl\<rparr>"] by (auto simp: put(2))
  with put(2) adv assms(2) show ?thesis
    by (intro exI [of _ ev]) (simp add: op_effects_def store_ok_def numbered_snoc entry_def logged_def)
qed

text \<open>Writes to the evidence and then to the entities, in one transaction.\<close>

lemma op_effects_join:
  assumes "op_effects std t st st1 None wv None evs" "op_effects std t st1 st' we None None evs'"
  shows "op_effects std t st st' we wv None (evs @ evs')"
proof -
  have none: "entry f None = []" for f :: "'x \<Rightarrow> string" by (simp add: entry_def)
  show ?thesis using assms unfolding op_effects_def log_entries_simps(3) none by (auto simp: none)
qed

lemma evidence_entity_ok: "evidence_entity e = Inr s \<Longrightarrow> entity_ok s \<and> en_entity_id s = bv_evidence_id e \<and> en_kind s = EK_EVIDENCE"
  by (auto simp: evidence_entity_def new_entity_def entity_ok_def rbind_eq_Inr)

lemma put_evidence_effect:
  assumes "clock_ok std" "store_ok std st" "evidence_ok e" "provenance_ok v" "put_evidence std now now' t e v q x st = Inr (stored, st')"
  shows "\<exists>we evs. op_effects std t st st' (Some we) (Some stored) None evs \<and> sd_item stored = e \<and> evidence_entity e = Inr (sd_item we) \<and>
     sd_deleted_at stored = None"
proof -
  from assms(5) obtain st1 s se where put: "put_evidence_row std now t e v q x st = Inr (stored, st1)" "evidence_entity e = Inr s"
      "put_entity_row std now' t s v q (map_option rw_version (map_of (bs_entities st1) (t, bv_evidence_id e))) st1 = Inr (se, st')"
    by (auto simp: put_evidence_def rbind_eq_Inr dest!: immediate_Inr)
  from put_evidence_row_effect [OF assms(1-4) put(1)] obtain ev where
    ev: "op_effects std t st st1 None (Some stored) None [ev]" "sd_item stored = e" "sd_deleted_at stored = None" by blast
  have "table_ok std evidence_codec evidence_ok (bs_evidence st1)"
    using ev(1) assms(2) evidence.advances_table [of std "bs_evidence st" "Some stored" t] by (simp add: op_effects_def store_ok_def)
  with ev(1) assms(2) have "store_ok std st1" by (simp add: op_effects_def store_ok_def)
  from put_entity_row_effect [OF assms(1) this _ assms(4) put(3)] evidence_entity_ok [OF put(2)] obtain ev' where
    ev': "op_effects std t st1 st' (Some se) None None [ev']" "sd_item se = s" by blast
  have "op_effects std t st st' (Some se) (Some stored) None [ev, ev']"
    using op_effects_join [OF ev(1) ev'(1)] by simp
  with ev(2,3) ev'(2) put(2) show ?thesis by blast
qed

lemma put_relationship_effect:
  assumes "clock_ok std" "store_ok std st" "relationship_ok r" "provenance_ok v" "put_relationship std now t r v q x st = Inr (stored, st')"
  shows "\<exists>ev. op_effects std t st st' None None (Some stored) [ev] \<and> sd_item stored = r \<and> sd_deleted_at stored = None \<and>
     assert_active ''endpoints'' t (rl_source_id r) (bs_entities st) = Inr () \<and> assert_active ''endpoints'' t (rl_target_id r) (bs_entities st) = Inr () \<and>
     fold_res (\<lambda>i _. assert_active ''evidence'' t i (bs_evidence st)) (rl_evidence_ids r) () = Inr ()"
proof -
  from assms(5) obtain created tbl where put: "put_record std relationship_codec now t r v q x (bs_relationships st) = Inr (stored, created, tbl)"
    "st' = append_event std t ''relationship'' (event_key r) (operation_name created) (sd_version stored) now v None (st\<lparr>bs_relationships := tbl\<rparr>)"
    "assert_active ''endpoints'' t (rl_source_id r) (bs_entities st) = Inr ()" "assert_active ''endpoints'' t (rl_target_id r) (bs_entities st) = Inr ()"
    "fold_res (\<lambda>i _. assert_active ''evidence'' t i (bs_evidence st)) (rl_evidence_ids r) () = Inr ()"
    by (auto simp: put_relationship_def rbind_eq_Inr dest!: immediate_Inr)
  note adv = relations.put_advances [OF assms(1) _ assms(3,4) put(1)]
  obtain ev where "bs_events st' = bs_events st @ [ev]" "logged ev (length (bs_events st)) t ''relationship'' (event_key r) (sd_version stored)"
    using append_event_logs [of std t "''relationship''" "event_key r" "operation_name created" "sd_version stored" now v None "st\<lparr>bs_relationships := tbl\<rparr>"] by (auto simp: put(2))
  with put(2-5) adv assms(2) show ?thesis
    by (intro exI [of _ ev]) (simp add: op_effects_def store_ok_def numbered_snoc entry_def logged_def)
qed

lemma delete_entity_effect:
  assumes "clock_ok std" "store_ok std st" "delete_entity std now t k x why d st = Inr (stored, st')"
  shows "\<exists>ev. op_effects std t st st' (Some stored) None None [ev] \<and> en_kind (sd_item stored) \<noteq> EK_EVIDENCE"
proof -
  from assms(3) obtain at_time current where del: "deletable std entity_codec t k x not_evidence (bs_entities st) = Inr current"
    "tombstone current at_time why = Inr stored"
    "st' = append_event std t ''entity'' k ''tombstoned'' (sd_version stored) at_time (sd_provenance current) (Some why)
       (st\<lparr>bs_entities := write_record std entity_codec stored (bs_entities st)\<rparr>)"
    by (auto simp: delete_entity_def rbind_eq_Inr dest!: immediate_Inr)
  have tbl: "table_ok std entity_codec entity_ok (bs_entities st)" using assms(2) by (simp add: store_ok_def)
  note adv = entities.delete_advances [OF assms(1) tbl del(1,2)]
  have kind: "en_kind (sd_item stored) \<noteq> EK_EVIDENCE"
    using entities.deletable_Inr [OF assms(1) tbl del(1)] adv(3) by (simp add: not_evidence_def split: if_splits)
  have key: "en_entity_id (sd_item stored) = k" using adv(2) by (simp add: entity_codec_def)
  obtain ev where "bs_events st' = bs_events st @ [ev]" "logged ev (length (bs_events st)) t ''entity'' k (sd_version stored)"
    using append_event_logs [of std t "''entity''" k "''tombstoned''" "sd_version stored" at_time "sd_provenance current" "Some why"
      "st\<lparr>bs_entities := write_record std entity_codec stored (bs_entities st)\<rparr>"] by (auto simp: del(3))
  with del(3) adv key kind show ?thesis
    by (intro exI [of _ ev]) (simp add: op_effects_def numbered_snoc entry_def logged_def)
qed

lemma delete_relationship_effect:
  assumes "clock_ok std" "store_ok std st" "delete_relationship std now t a b k x why d st = Inr (stored, st')"
  shows "\<exists>ev. op_effects std t st st' None None (Some stored) [ev] \<and> sd_deleted_at stored \<noteq> None \<and>
     cd_key relationship_codec (sd_item stored) = (a, b, relationship_kind_value k)"
proof -
  from assms(3) obtain at_time current where del:
    "deletable std relationship_codec t (a, b, relationship_kind_value k) x (\<lambda>_. Inr ()) (bs_relationships st) = Inr current"
    "tombstone current at_time why = Inr stored"
    "st' = append_event std t ''relationship'' (event_key (sd_item current)) ''tombstoned'' (sd_version stored) at_time (sd_provenance current) (Some why)
       (st\<lparr>bs_relationships := write_record std relationship_codec stored (bs_relationships st)\<rparr>)"
    by (auto simp: delete_relationship_def rbind_eq_Inr dest!: immediate_Inr)
  have tbl: "table_ok std relationship_codec relationship_ok (bs_relationships st)" using assms(2) by (simp add: store_ok_def)
  note adv = relations.delete_advances [OF assms(1) tbl del(1,2)]
  obtain ev where "bs_events st' = bs_events st @ [ev]" "logged ev (length (bs_events st)) t ''relationship'' (event_key (sd_item current)) (sd_version stored)"
    using append_event_logs [of std t "''relationship''" "event_key (sd_item current)" "''tombstoned''" "sd_version stored" at_time "sd_provenance current" "Some why"
      "st\<lparr>bs_relationships := write_record std relationship_codec stored (bs_relationships st)\<rparr>"] by (auto simp: del(3))
  with del(3) adv show ?thesis
    by (intro exI [of _ ev]) (simp add: op_effects_def numbered_snoc entry_def logged_def)
qed

lemma structural_Inr:
  assumes "clock_ok std" "store_ok std st" "structural_deletable std t k st = Inr s"
  shows "view std entity_codec (bs_entities st) t k = Some s \<and> sd_deleted_at s = None \<and> \<not> rt_legal_hold (sd_retention s)"
  using assms entities.fetch_view [OF assms(1), of "bs_entities st" t k True]
  by (auto simp: structural_deletable_def store_ok_def rbind_eq_Inr split: option.splits if_splits)

lemma delete_evidence_effect:
  assumes "clock_ok std" "store_ok std st" "delete_evidence std now t k x why d st = Inr (stored, st')"
  shows "\<exists>we evs. op_effects std t st st' (Some we) (Some stored) None evs \<and> bv_evidence_id (sd_item stored) = k \<and> en_entity_id (sd_item we) = k \<and>
     sd_deleted_at stored \<noteq> None"
proof -
  from assms(3) obtain at_time current s se where del: "deletable std evidence_codec t k x (\<lambda>_. Inr ()) (bs_evidence st) = Inr current"
    "structural_deletable std t k st = Inr s" "tombstone current at_time why = Inr stored" "tombstone s at_time why = Inr se"
    and st': "st' = append_event std t ''entity'' k ''tombstoned'' (sd_version se) at_time (sd_provenance s) (Some why)
       ((append_event std t ''evidence'' k ''tombstoned'' (sd_version stored) at_time (sd_provenance current) (Some why)
         (st\<lparr>bs_evidence := write_record std evidence_codec stored (bs_evidence st)\<rparr>))
         \<lparr>bs_entities := write_record std entity_codec se (bs_entities st)\<rparr>)"
    by (auto simp: delete_evidence_def Let_def rbind_eq_Inr dest!: immediate_Inr)
  have tbl: "table_ok std evidence_codec evidence_ok (bs_evidence st)" "table_ok std entity_codec entity_ok (bs_entities st)"
    using assms(2) by (simp_all add: store_ok_def)
  note adv = evidence.delete_advances [OF assms(1) tbl(1) del(1,3)]
  note str = structural_Inr [OF assms(1,2) del(2)]
  have s: "stored_ok entity_ok s" "sd_tenant_id s = t" "en_entity_id (sd_item s) = k"
    using entities.view_cases [OF assms(1) tbl(2), of t k] str by (simp_all add: entity_codec_def)
  note se = entities.tombstone_ok [OF s(1) del(4)]
  have adv_e: "advances std entity_codec entity_ok t (bs_entities st) se" and key_e: "en_entity_id (sd_item se) = k"
    using se s str by (auto simp: advances_def record_step_def entity_codec_def)
  have key: "bv_evidence_id (sd_item stored) = k" using adv(2) by (simp add: evidence_codec_def)
  let ?st1 = "append_event std t ''evidence'' k ''tombstoned'' (sd_version stored) at_time (sd_provenance current) (Some why)
         (st\<lparr>bs_evidence := write_record std evidence_codec stored (bs_evidence st)\<rparr>)"
  obtain ev where ev: "bs_events ?st1 = bs_events st @ [ev]" "logged ev (length (bs_events st)) t ''evidence'' k (sd_version stored)"
    using append_event_logs [of std t "''evidence''" k "''tombstoned''" "sd_version stored" at_time "sd_provenance current" "Some why"
      "st\<lparr>bs_evidence := write_record std evidence_codec stored (bs_evidence st)\<rparr>"] by auto
  then have "op_effects std t st ?st1 None (Some stored) None [ev]"
    using adv key by (simp add: op_effects_def numbered_snoc entry_def logged_def)
  moreover obtain ev' where ev': "bs_events st' = bs_events ?st1 @ [ev']" "logged ev' (length (bs_events ?st1)) t ''entity'' k (sd_version se)"
    using append_event_logs [of std t "''entity''" k "''tombstoned''" "sd_version se" at_time "sd_provenance s" "Some why"
      "?st1\<lparr>bs_entities := write_record std entity_codec se (bs_entities st)\<rparr>"] by (auto simp: st')
  then have "op_effects std t ?st1 st' (Some se) None None [ev']"
    using adv_e key_e by (simp add: op_effects_def numbered_snoc entry_def logged_def st')
  ultimately show ?thesis using op_effects_join key key_e adv(4) by blast
qed

text \<open>The effect of any accepted write.\<close>

lemma op_effect:
  assumes "clock_ok std" "store_ok std st" "op_ok op" "run_op std now now' op st = Inr st'"
  shows "\<exists>we wv wr evs. op_effects std (op_tenant op) st st' we wv wr evs"
proof (cases op)
  case (PutEntity t e v q x)
  with assms(4) obtain stored where "put_entity_row std now t e v q x st = Inr (stored, st')"
    by (auto simp: state_after_def put_entity_def rbind_eq_Inr dest!: immediate_Inr)
  with put_entity_row_effect [OF assms(1,2)] assms(3) PutEntity show ?thesis by fastforce
next
  case (PutEvidence t e v q x)
  with assms(4) obtain stored where "put_evidence std now now' t e v q x st = Inr (stored, st')"
    by (auto simp: state_after_def rbind_eq_Inr)
  with put_evidence_effect [OF assms(1,2)] assms(3) PutEvidence show ?thesis by fastforce
next
  case (PutRelationship t e v q x)
  with assms(4) obtain stored where "put_relationship std now t e v q x st = Inr (stored, st')"
    by (auto simp: state_after_def rbind_eq_Inr)
  with put_relationship_effect [OF assms(1,2)] assms(3) PutRelationship show ?thesis by fastforce
next
  case (DeleteEntity t k x r d)
  with assms(4) obtain stored where "delete_entity std now t k x r d st = Inr (stored, st')"
    by (auto simp: state_after_def rbind_eq_Inr)
  from delete_entity_effect [OF assms(1,2) this] DeleteEntity show ?thesis by auto
next
  case (DeleteEvidence t k x r d)
  with assms(4) obtain stored where "delete_evidence std now t k x r d st = Inr (stored, st')"
    by (auto simp: state_after_def rbind_eq_Inr)
  from delete_evidence_effect [OF assms(1,2) this] DeleteEvidence show ?thesis by auto
next
  case (DeleteRelationship t a b k x r d)
  with assms(4) obtain stored where "delete_relationship std now t a b k x r d st = Inr (stored, st')"
    by (auto simp: state_after_def rbind_eq_Inr)
  from delete_relationship_effect [OF assms(1,2) this] DeleteRelationship show ?thesis by auto
qed

lemma store_ok_step: "store_ok std st \<Longrightarrow> op_effects std t st st' we wv wr evs \<Longrightarrow> store_ok std st'"
  using entities.advances_table [of std "bs_entities st" we t] evidence.advances_table [of std "bs_evidence st" wv t]
    relations.advances_table [of std "bs_relationships st" wr t] by (simp add: store_ok_def op_effects_def)

lemma store_ok_empty: "store_ok std empty_brain_store"
  by (simp add: store_ok_def empty_brain_store_def table_ok_def)

lemma reachable_store_ok:
  assumes "brain_store_reachable std st" "clock_ok std"
  shows "store_ok std st"
  using assms(1)
proof induction
  case (step st op now now' st')
  from op_effect [OF assms(2) step.IH step.hyps(2,3)] store_ok_step [OF step.IH] show ?case by blast
qed (rule store_ok_empty)

section \<open>Tenants\<close>

text \<open>What a tenant can read.\<close>

definition table_part :: "string \<Rightarrow> 'k table \<Rightarrow> 'k table" where
  "table_part t tbl = filter (\<lambda>x. fst (fst x) = t) tbl"

definition tenant_part :: "string \<Rightarrow> brain_store \<Rightarrow> brain_store" where
  "tenant_part t st = \<lparr>bs_entities = table_part t (bs_entities st), bs_evidence = table_part t (bs_evidence st),
     bs_relationships = table_part t (bs_relationships st), bs_events = filter (\<lambda>e. er_tenant_id e = t) (bs_events st), bs_read_only = False\<rparr>"

lemma table_part_set: "fst k \<noteq> t \<Longrightarrow> table_part t (dict_set k v d) = table_part t d"
  unfolding table_part_def by (induction k v d rule: dict_set.induct) auto

lemma table_part_write:
  assumes "\<forall>r. w = Some r \<longrightarrow> advances std cd ok t tbl r" "t \<noteq> t'"
  shows "table_part t' (write_option std cd w tbl) = table_part t' tbl"
  using assms by (cases w) (simp_all add: write_record_def table_part_set advances_def)

lemma tenant_part_step:
  assumes "op_effects std t st st' we wv wr evs" "t \<noteq> t'"
  shows "tenant_part t' st' = tenant_part t' st"
proof -
  have "filter (\<lambda>e. er_tenant_id e = t') evs = []" using assms by (simp add: op_effects_def filter_empty_conv)
  moreover have "table_part t' (bs_entities st') = table_part t' (bs_entities st)" "table_part t' (bs_evidence st') = table_part t' (bs_evidence st)"
    "table_part t' (bs_relationships st') = table_part t' (bs_relationships st)"
    using assms table_part_write [of we std entity_codec entity_ok t "bs_entities st" t']
      table_part_write [of wv std evidence_codec evidence_ok t "bs_evidence st" t']
      table_part_write [of wr std relationship_codec relationship_ok t "bs_relationships st" t'] by (simp_all add: op_effects_def)
  ultimately show ?thesis using assms(1) by (simp add: tenant_part_def op_effects_def)
qed

lemma map_of_part: "map_of (table_part t tbl) (t, k) = map_of tbl (t, k)"
  unfolding table_part_def by (induction tbl) auto

lemma tenant_rows_part: "tenant_rows t inc (table_part t tbl) = tenant_rows t inc tbl"
  unfolding tenant_rows_def table_part_def by (induction tbl) auto

lemma fetch_part: "fetch_record std cd t k inc (table_part t tbl) = fetch_record std cd t k inc tbl"
  by (simp add: fetch_record_def map_of_part)

lemma joined_part: "joined t inc (tenant_part t st) = joined t inc st"
  by (simp add: joined_def tenant_part_def map_of_part)

lemma reads_part:
  "get_entity std t k inc (tenant_part t st) = get_entity std t k inc st"
  "get_evidence std t k inc (tenant_part t st) = get_evidence std t k inc st"
  "get_relationship std t a b rk inc (tenant_part t st) = get_relationship std t a b rk inc st"
  "list_entities std t inc (tenant_part t st) = list_entities std t inc st"
  "list_evidence std t inc (tenant_part t st) = list_evidence std t inc st"
  "list_relationships std t inc (tenant_part t st) = list_relationships std t inc st"
  unfolding get_entity_def get_evidence_def get_relationship_def list_entities_def list_evidence_def list_relationships_def joined_part
  by (simp_all add: tenant_part_def fetch_part tenant_rows_part)

lemma snapshot_part: "snapshot std t (tenant_part t st) = snapshot std t st"
  unfolding snapshot_def reads_part by (rule refl)

lemma audit_part: "audit_events std t rt rk (tenant_part t st) = audit_events std t rt rk st"
proof -
  have "filter (\<lambda>r. er_tenant_id r = t \<and> P r) (filter (\<lambda>e. er_tenant_id e = t) evs) = filter (\<lambda>r. er_tenant_id r = t \<and> P r) evs" for P evs
    by (induction evs) auto
  then show ?thesis unfolding audit_events_def tenant_part_def brain_store.simps by simp
qed

section \<open>The audit log\<close>

definition versions_of :: "string \<Rightarrow> (string \<times> int) list \<Rightarrow> int list" where
  "versions_of k es = map snd (filter (\<lambda>x. fst x = k) es)"

definition versions_upto :: "'a stored option \<Rightarrow> int list" where
  "versions_upto current = (case current of None \<Rightarrow> [] | Some r \<Rightarrow> map int [1..<Suc (nat (sd_version r))])"

lemma versions_of_simps [simp]: "versions_of k [] = []" "versions_of k (es @ es') = versions_of k es @ versions_of k es'"
  by (simp_all add: versions_of_def)

lemma upto_step: "record_step current r \<Longrightarrow> (\<And>c. current = Some c \<Longrightarrow> 1 \<le> sd_version c) \<Longrightarrow> versions_upto (Some r) = versions_upto current @ [sd_version r]"
  by (cases current) (auto simp: record_step_def versions_upto_def nat_add_distrib)

lemma stored_version: "stored_ok ok r \<Longrightarrow> 1 \<le> sd_version r"
  by (auto simp: stored_ok_def new_stored_def rbind_eq_Inr split: if_splits)

context record_table
begin

text \<open>One write and its log entry keep the log complete, when the audit key is the key of the table.\<close>

lemma audited_step:
  assumes std: "clock_ok std" and tbl: "table_ok std cd ok tbl" and w: "\<forall>r. w = Some r \<longrightarrow> advances std cd ok t tbl r"
    and key: "\<And>x. name x = shown (cd_key cd x)" "inj shown"
    and before: "versions_of (shown k) es = versions_upto (view std cd tbl t' k)"
  shows "versions_of (shown k) (es @ (if t' = t then entry name w else [])) = versions_upto (view std cd (write_option std cd w tbl) t' k)"
proof (cases w)
  case None
  with before show ?thesis by (simp add: entry_def split: if_splits)
next
  case (Some r)
  with w have r: "advances std cd ok t tbl r" by simp
  then have step: "record_step (view std cd tbl t (cd_key cd (sd_item r))) r" by (simp add: advances_def)
  have pos: "1 \<le> sd_version c" if "view std cd tbl t (cd_key cd (sd_item r)) = Some c" for c
    using that view_cases [OF std tbl, of t "cd_key cd (sd_item r)"] by (auto intro: stored_version)
  have entry: "versions_of (shown k) (entry name (Some r)) = (if k = cd_key cd (sd_item r) then [sd_version r] else [])" for k
    using key by (auto simp: entry_def versions_of_def inj_eq)
  show ?thesis
    using before upto_step [OF step pos] unfolding advances_view [OF std w] by (auto simp: entry Some)
qed

end

lemma log_other_tenant: "\<forall>e \<in> set evs. er_tenant_id e = t \<Longrightarrow> t' \<noteq> t \<Longrightarrow> log_entries t' type evs = []"
  by (induction evs) auto

definition audited :: "py_std \<Rightarrow> brain_store \<Rightarrow> bool" where
  "audited std st \<longleftrightarrow> numbered (bs_events st) \<and>
     (\<forall>t k. versions_of k (log_entries t ''entity'' (bs_events st)) = versions_upto (view std entity_codec (bs_entities st) t k)) \<and>
     (\<forall>t k. versions_of k (log_entries t ''evidence'' (bs_events st)) = versions_upto (view std evidence_codec (bs_evidence st) t k))"

lemma audited_after:
  assumes std: "clock_ok std" and ok: "store_ok std st" and before: "audited std st" and eff: "op_effects std t st st' we wv wr evs"
  shows "audited std st'"
proof -
  have log: "log_entries t' type (bs_events st') = log_entries t' type (bs_events st) @ (if t' = t then log_entries t type evs else [])" for t' type
    using eff log_other_tenant [of evs t t'] by (auto simp: op_effects_def)
  have e: "bs_entities st' = write_option std entity_codec we (bs_entities st)" "bs_evidence st' = write_option std evidence_codec wv (bs_evidence st)"
    "log_entries t ''entity'' evs = entry en_entity_id we" "log_entries t ''evidence'' evs = entry bv_evidence_id wv"
    using eff by (simp_all add: op_effects_def)
  have tbl: "table_ok std entity_codec entity_ok (bs_entities st)" "table_ok std evidence_codec evidence_ok (bs_evidence st)"
    using ok by (simp_all add: store_ok_def)
  have w: "\<forall>r. we = Some r \<longrightarrow> advances std entity_codec entity_ok t (bs_entities st) r"
    "\<forall>r. wv = Some r \<longrightarrow> advances std evidence_codec evidence_ok t (bs_evidence st) r" using eff by (simp_all add: op_effects_def)
  have "versions_of k (log_entries t' ''entity'' (bs_events st')) = versions_upto (view std entity_codec (bs_entities st') t' k)" for t' k
    using entities.audited_step [OF std tbl(1) w(1), of en_entity_id id k "log_entries t' ''entity'' (bs_events st)" t'] before
    unfolding log e by (simp add: audited_def)
  moreover have "versions_of k (log_entries t' ''evidence'' (bs_events st')) = versions_upto (view std evidence_codec (bs_evidence st') t' k)" for t' k
    using evidence.audited_step [OF std tbl(2) w(2), of bv_evidence_id id k "log_entries t' ''evidence'' (bs_events st)" t'] before
    unfolding log e by (simp add: audited_def)
  moreover have "numbered (bs_events st')" using before eff unfolding audited_def op_effects_def by blast
  ultimately show ?thesis by (simp add: audited_def)
qed

lemma reachable_audited:
  assumes "brain_store_reachable std st" "clock_ok std"
  shows "audited std st"
  using assms(1)
proof induction
  case (step st op now now' st')
  from reachable_store_ok [OF step.hyps(1) assms(2)] op_effect [OF assms(2) _ step.hyps(2,3)] audited_after [OF assms(2) _ step.IH]
  show ?case by blast
qed (simp add: audited_def empty_brain_store_def numbered_def view_def versions_upto_def)

section \<open>Tombstones and retention\<close>

definition kept :: "'a stored \<Rightarrow> 'a stored \<Rightarrow> bool" where
  "kept r r' \<longleftrightarrow> r' = r \<or> record_step (Some r) r'"

context record_table
begin

lemma kept_after:
  assumes "clock_ok std" "\<forall>r. w = Some r \<longrightarrow> advances std cd ok t tbl r" "view std cd tbl t' k = Some r"
  shows "\<exists>r'. view std cd (write_option std cd w tbl) t' k = Some r' \<and> kept r r'"
proof (cases w)
  case None
  with assms(3) show ?thesis by (simp add: kept_def)
next
  case (Some s)
  show ?thesis
  proof (cases "t' = t \<and> k = cd_key cd (sd_item s)")
    case True
    with assms(2,3) Some have "record_step (Some r) s" by (simp add: advances_def)
    with True Some show ?thesis unfolding advances_view [OF assms(1,2)] by (simp add: kept_def)
  next
    case False
    with Some assms(3) show ?thesis unfolding advances_view [OF assms(1,2)] by (auto simp: kept_def)
  qed
qed

end

section \<open>Snapshots\<close>

text \<open>The active fact of a tenant under a key.\<close>

definition active :: "py_std \<Rightarrow> ('k, 'a) codec \<Rightarrow> 'k table \<Rightarrow> string \<Rightarrow> 'k \<Rightarrow> 'a option" where
  "active std cd tbl t k =
     (case view std cd tbl t k of None \<Rightarrow> None | Some r \<Rightarrow> if sd_deleted_at r = None then Some (sd_item r) else None)"

context record_table
begin

text \<open>The rows of a tenant decode, and the items are the active facts under their keys.\<close>

lemma tenant_rows_decode:
  assumes std: "clock_ok std" and tbl: "table_ok std cd ok tbl"
  shows "list_all (\<lambda>(k, row). \<exists>r. record_from_row std cd t row = Inr r \<and> stored_ok ok r \<and> cd_key cd (sd_item r) = k \<and>
     active std cd tbl t k = Some (sd_item r)) (tenant_rows t False tbl)"
  unfolding list_all_iff
proof
  fix x
  assume "x \<in> set (tenant_rows t False tbl)"
  then obtain k row where x: "x = (k, row)" "((t, k), row) \<in> set tbl" "rw_deleted_at row = None" by (auto simp: tenant_rows_def)
  with tbl have row: "map_of tbl (t, k) = Some row" unfolding table_ok_def by simp
  obtain r where r: "view std cd tbl t k = Some r" "row = record_values std cd r" "stored_ok ok r" "sd_tenant_id r = t" "cd_key cd (sd_item r) = k"
    by (rule view_some [OF std tbl row])
  then have "record_from_row std cd t row = Inr r" using row_round_trip [OF std r(3)] by simp
  with r x(1,3) show "(\<lambda>(k, row). \<exists>r. record_from_row std cd t row = Inr r \<and> stored_ok ok r \<and> cd_key cd (sd_item r) = k \<and>
     active std cd tbl t k = Some (sd_item r)) x" by (simp add: active_def)
qed

lemma tenant_rows_keys:
  assumes std: "clock_ok std" and tbl: "table_ok std cd ok tbl"
  shows "distinct (map fst (tenant_rows t False tbl))" "fst ` set (tenant_rows t False tbl) = {k. active std cd tbl t k \<noteq> None}"
proof -
  show "distinct (map fst (tenant_rows t False tbl))"
    using tbl unfolding table_ok_def tenant_rows_def by (induction tbl) (auto simp: image_iff)
  show "fst ` set (tenant_rows t False tbl) = {k. active std cd tbl t k \<noteq> None}"
  proof (intro set_eqI iffI)
    fix k
    assume "k \<in> fst ` set (tenant_rows t False tbl)"
    with tenant_rows_decode [OF std tbl, of t] show "k \<in> {k. active std cd tbl t k \<noteq> None}" by (fastforce simp: list_all_iff)
  next
    fix k
    assume "k \<in> {k. active std cd tbl t k \<noteq> None}"
    with view_cases [OF std tbl, of t k] obtain r where "map_of tbl (t, k) = Some (record_values std cd r)" "sd_deleted_at r = None"
      by (auto simp: active_def split: option.splits if_splits)
    then show "k \<in> fst ` set (tenant_rows t False tbl)" by (force simp: tenant_rows_def dest: map_of_SomeD)
  qed
qed

text \<open>So a listing of some of the rows, in any order, returns the records of those keys.\<close>

lemma listing:
  assumes "clock_ok std" "table_ok std cd ok tbl" "set rows \<subseteq> set (tenant_rows t False tbl)"
  shows "\<exists>rs. map_res (\<lambda>(k, row). record_from_row std cd t row) rows = Inr rs \<and> map (\<lambda>r. cd_key cd (sd_item r)) rs = map fst rows \<and>
     (\<forall>r \<in> set rs. ok (sd_item r) \<and> active std cd tbl t (cd_key cd (sd_item r)) = Some (sd_item r))"
  using assms(3)
proof (induction rows)
  case (Cons x rows)
  obtain k row where x: "x = (k, row)" by (cases x)
  with Cons.prems tenant_rows_decode [OF assms(1,2), of t] obtain r where r: "record_from_row std cd t row = Inr r" "stored_ok ok r"
    "cd_key cd (sd_item r) = k" "active std cd tbl t k = Some (sd_item r)" by (fastforce simp: list_all_iff)
  from Cons obtain rs where "map_res (\<lambda>(k, row). record_from_row std cd t row) rows = Inr rs" "map (\<lambda>r. cd_key cd (sd_item r)) rs = map fst rows"
    "\<forall>r \<in> set rs. ok (sd_item r) \<and> active std cd tbl t (cd_key cd (sd_item r)) = Some (sd_item r)" by auto
  with r x show ?case by (intro exI [of _ "r # rs"]) (simp add: stored_ok_def)
qed simp

end

lemma map_of_fold_set:
  assumes "\<forall>x \<in> set xs. A (f x) = Some (g x)"
  shows "map_of (fold (\<lambda>x. dict_set (f x) (g x)) xs d) k = (if k \<in> f ` set xs then A k else map_of d k)"
  using assms by (induction xs arbitrary: d) auto

lemma fold_upsert:
  "fold (\<lambda>s. upsert_entity (sd_item s)) es b =
     b\<lparr>br_entities := fold (\<lambda>s. dict_set (en_entity_id (sd_item s)) (sd_item s)) es (br_entities b)\<rparr>"
  by (induction es arbitrary: b) (simp_all add: upsert_entity_def)

lemma fold_pointers:
  "fold (\<lambda>s b. b\<lparr>br_evidence := dict_set (bv_evidence_id (sd_item s)) (sd_item s) (br_evidence b)\<rparr>) es b =
     b\<lparr>br_evidence := fold (\<lambda>s. dict_set (bv_evidence_id (sd_item s)) (sd_item s)) es (br_evidence b)\<rparr>"
  by (induction es arbitrary: b) simp_all

lemma brain_wf_fold:
  "brain_wf b \<Longrightarrow> brain_wf (fold (\<lambda>s. upsert_entity (sd_item s)) es b)"
  "brain_wf b \<Longrightarrow> brain_wf (fold (\<lambda>s b. b\<lparr>br_evidence := dict_set (bv_evidence_id (sd_item s)) (sd_item s) (br_evidence b)\<rparr>) evs b)"
proof -
  show "brain_wf b \<Longrightarrow> brain_wf (fold (\<lambda>s. upsert_entity (sd_item s)) es b)" by (induction es arbitrary: b) (simp_all add: brain_wf_upsert)
  show "brain_wf b \<Longrightarrow> brain_wf (fold (\<lambda>s b. b\<lparr>br_evidence := dict_set (bv_evidence_id (sd_item s)) (sd_item s) (br_evidence b)\<rparr>) evs b)"
    by (induction evs arbitrary: b) (simp_all add: brain_wf_evidence)
qed

text \<open>Adding stored relationships to a model that knows their endpoints.\<close>

definition model_key :: "brain_relationship \<Rightarrow> relationship_key" where
  "model_key r = (rl_source_id r, rl_target_id r, rl_kind r)"

lemma relationship_ok_sorted: "relationship_ok r \<Longrightarrow> sorted_set (rl_evidence_ids r) = rl_evidence_ids r"
  by (auto simp: relationship_ok_def new_relationship_def normalized_strings_def rbind_eq_Inr split: if_splits)

lemma relationship_ok_ends: "relationship_ok r \<Longrightarrow> rl_source_id r \<noteq> rl_target_id r"
  unfolding relationship_ok_def by (drule new_relationship_Inr) simp

lemma relate_stored_cases:
  assumes "relationship_ok (sd_item s)" "rl_source_id (sd_item s) \<in> fst ` set (br_entities b)" "rl_target_id (sd_item s) \<in> fst ` set (br_entities b)"
    and "model_key (sd_item s) \<notin> fst ` set (br_relationships b)"
  shows "if set (rl_evidence_ids (sd_item s)) \<subseteq> fst ` set (br_evidence b)
     then relate_stored s b = Inr (b\<lparr>br_relationships := br_relationships b @ [(model_key (sd_item s), sd_item s)]\<rparr>)
     else \<exists>m. relate_stored s b = Inl (OtherError ''CompanyBrainError'' m)"
proof (cases "set (rl_evidence_ids (sd_item s)) \<subseteq> fst ` set (br_evidence b)")
  case True
  then have "filter (\<lambda>i. i \<notin> fst ` set (br_evidence b)) (rl_evidence_ids (sd_item s)) = []" by (auto simp: filter_empty_conv)
  moreover have "map_of (br_relationships b) (model_key (sd_item s)) = None" using assms(4) by (simp add: map_of_eq_None_iff)
  ultimately show ?thesis using True assms relationship_ok_sorted [OF assms(1)]
    by (simp add: relate_stored_def relate_def Let_def model_key_def relationship_ok_def dict_set_fresh)
next
  case False
  then have "filter (\<lambda>i. i \<notin> fst ` set (br_evidence b)) (rl_evidence_ids (sd_item s)) \<noteq> []" by (auto simp: filter_empty_conv)
  with False assms(2,3) show ?thesis by (simp add: relate_stored_def relate_def Let_def company_brain_error_def)
qed

lemma relate_all:
  assumes "\<forall>s \<in> set rs. relationship_ok (sd_item s) \<and> rl_source_id (sd_item s) \<in> fst ` set (br_entities b) \<and>
      rl_target_id (sd_item s) \<in> fst ` set (br_entities b) \<and> model_key (sd_item s) \<notin> fst ` set (br_relationships b)"
    and "distinct (map (\<lambda>s. model_key (sd_item s)) rs)"
  shows "if \<forall>s \<in> set rs. set (rl_evidence_ids (sd_item s)) \<subseteq> fst ` set (br_evidence b)
     then fold_res relate_stored rs b = Inr (b\<lparr>br_relationships := br_relationships b @ map (\<lambda>s. (model_key (sd_item s), sd_item s)) rs\<rparr>)
     else \<exists>m. fold_res relate_stored rs b = Inl (OtherError ''CompanyBrainError'' m)"
  using assms
proof (induction rs arbitrary: b)
  case (Cons s rs)
  have s: "relationship_ok (sd_item s)" "rl_source_id (sd_item s) \<in> fst ` set (br_entities b)"
    "rl_target_id (sd_item s) \<in> fst ` set (br_entities b)" "model_key (sd_item s) \<notin> fst ` set (br_relationships b)" using Cons.prems(1) by simp_all
  note step = relate_stored_cases [OF s]
  show ?case
  proof (cases "set (rl_evidence_ids (sd_item s)) \<subseteq> fst ` set (br_evidence b)")
    case True
    let ?b = "b\<lparr>br_relationships := br_relationships b @ [(model_key (sd_item s), sd_item s)]\<rparr>"
    have "\<forall>s' \<in> set rs. model_key (sd_item s') \<noteq> model_key (sd_item s)" using Cons.prems(2) by (auto simp: image_iff)
    with Cons.prems have "\<forall>s \<in> set rs. relationship_ok (sd_item s) \<and> rl_source_id (sd_item s) \<in> fst ` set (br_entities ?b) \<and>
      rl_target_id (sd_item s) \<in> fst ` set (br_entities ?b) \<and> model_key (sd_item s) \<notin> fst ` set (br_relationships ?b)" by auto
    from Cons.IH [OF this] Cons.prems(2) step True show ?thesis by (simp split: if_splits)
  next
    case False
    with step show ?thesis by auto
  qed
qed simp

lemma relationship_kind_inject [simp]: "relationship_kind_value a = relationship_kind_value b \<longleftrightarrow> a = b"
  by (metis relationship_kind_of_value(1) sum.inject(2))

definition linked_facts :: "py_std \<Rightarrow> brain_store \<Rightarrow> string \<Rightarrow> brain_relationship set" where
  "linked_facts std st t = {r. \<exists>k. active std relationship_codec (bs_relationships st) t k = Some r \<and>
     active std entity_codec (bs_entities st) t (rl_source_id r) \<noteq> None \<and> active std entity_codec (bs_entities st) t (rl_target_id r) \<noteq> None}"

context record_table
begin

lemma row_active:
  assumes "clock_ok std" "table_ok std cd ok tbl"
  shows "(\<exists>row. map_of tbl (t, k) = Some row \<and> rw_deleted_at row = None) \<longleftrightarrow> active std cd tbl t k \<noteq> None"
  using view_cases [OF assms, of t k] by (auto simp: active_def split: option.splits)

lemma active_key:
  assumes "clock_ok std" "table_ok std cd ok tbl" "active std cd tbl t k = Some x"
  shows "cd_key cd x = k \<and> ok x"
  using assms(3) view_cases [OF assms(1,2), of t k] by (auto simp: active_def stored_ok_def split: option.splits if_splits)

text \<open>A listing of all rows, sorted in some way, is a listing of the active facts.\<close>

lemma listing_all:
  assumes "clock_ok std" "table_ok std cd ok tbl"
  shows "\<exists>rs. map_res (\<lambda>(k, row). record_from_row std cd t row) (sort_key f (tenant_rows t False tbl)) = Inr rs \<and>
     (\<lambda>r. cd_key cd (sd_item r)) ` set rs = {k. active std cd tbl t k \<noteq> None} \<and>
     (\<forall>r \<in> set rs. active std cd tbl t (cd_key cd (sd_item r)) = Some (sd_item r))"
proof -
  have sub: "set (sort_key f (tenant_rows t False tbl)) \<subseteq> set (tenant_rows t False tbl)" by simp
  from listing [OF assms sub] obtain rs where
    rs: "map_res (\<lambda>(k, row). record_from_row std cd t row) (sort_key f (tenant_rows t False tbl)) = Inr rs"
    "map (\<lambda>r. cd_key cd (sd_item r)) rs = map fst (sort_key f (tenant_rows t False tbl))"
    "\<forall>r \<in> set rs. ok (sd_item r) \<and> active std cd tbl t (cd_key cd (sd_item r)) = Some (sd_item r)" by blast
  have "(\<lambda>r. cd_key cd (sd_item r)) ` set rs = fst ` set (tenant_rows t False tbl)"
    using arg_cong [OF rs(2), of set] by simp
  with rs tenant_rows_keys(2) [OF assms] show ?thesis by auto
qed

end

lemma joined_active:
  assumes "clock_ok std" "store_ok std st"
  shows "joined t False st ((a, b, k), row) \<longleftrightarrow>
     active std entity_codec (bs_entities st) t a \<noteq> None \<and> active std entity_codec (bs_entities st) t b \<noteq> None"
proof -
  have tbl: "table_ok std entity_codec entity_ok (bs_entities st)" using assms(2) by (simp add: store_ok_def)
  show ?thesis unfolding entities.row_active [OF assms(1) tbl, symmetric] by (auto simp: joined_def split: option.splits)
qed

lemma list_relationships_spec:
  assumes std: "clock_ok std" and st: "store_ok std st" and t: "store_required t ''tenant_id'' 200 = Inr ()"
  shows "\<exists>rs. list_relationships std t False st = Inr rs \<and> distinct (map (\<lambda>s. model_key (sd_item s)) rs) \<and>
     (\<forall>s \<in> set rs. relationship_ok (sd_item s)) \<and> sd_item ` set rs = linked_facts std st t"
proof -
  let ?tbl = "bs_relationships st"
  let ?rows = "sort_key (\<lambda>((s, t, k), row). (s, k, t)) (filter (joined t False st) (tenant_rows t False ?tbl))"
  have tbl: "table_ok std relationship_codec relationship_ok ?tbl" using st by (simp add: store_ok_def)
  have sub: "set ?rows \<subseteq> set (tenant_rows t False ?tbl)" by auto
  from relations.listing [OF std tbl sub] obtain rs where rs:
    "map_res (\<lambda>(k, row). record_from_row std relationship_codec t row) ?rows = Inr rs"
    "map (\<lambda>r. cd_key relationship_codec (sd_item r)) rs = map fst ?rows"
    "\<forall>r \<in> set rs. relationship_ok (sd_item r) \<and> active std relationship_codec ?tbl t (cd_key relationship_codec (sd_item r)) = Some (sd_item r)" by blast
  have keys: "(\<lambda>s. cd_key relationship_codec (sd_item s)) ` set rs = fst ` set ?rows"
    using arg_cong [OF rs(2), of set] by (simp only: set_map)
  have "distinct (map fst ?rows)"
    using relations.tenant_rows_keys(1) [OF std tbl, of t] by (auto simp: distinct_map intro: inj_on_subset)
  then have "distinct (map (\<lambda>s. model_key (sd_item s)) rs)"
    unfolding rs(2) [symmetric] by (auto simp: distinct_map inj_on_def model_key_def)
  moreover have "sd_item ` set rs = linked_facts std st t"
  proof (intro set_eqI iffI)
    fix r
    assume "r \<in> sd_item ` set rs"
    then obtain s where s: "s \<in> set rs" "r = sd_item s" by blast
    then have "cd_key relationship_codec r \<in> fst ` set ?rows" unfolding keys [symmetric] by blast
    then have "\<exists>row. joined t False st (cd_key relationship_codec r, row)" by (simp only: set_sort set_filter) (metis (no_types, lifting) fst_conv imageE mem_Collect_eq prod.collapse)
    then obtain row where "joined t False st (cd_key relationship_codec r, row)" by blast
    then have "active std entity_codec (bs_entities st) t (rl_source_id r) \<noteq> None" "active std entity_codec (bs_entities st) t (rl_target_id r) \<noteq> None"
      using joined_active [OF std st] by auto
    with s rs(3) show "r \<in> linked_facts std st t" unfolding linked_facts_def by blast
  next
    fix r
    assume "r \<in> linked_facts std st t"
    then obtain k where k: "active std relationship_codec ?tbl t k = Some r" "active std entity_codec (bs_entities st) t (rl_source_id r) \<noteq> None"
      "active std entity_codec (bs_entities st) t (rl_target_id r) \<noteq> None" unfolding linked_facts_def by blast
    have key: "k = cd_key relationship_codec r" using relations.active_key [OF std tbl k(1)] by simp
    have "k \<in> fst ` set (tenant_rows t False ?tbl)" unfolding relations.tenant_rows_keys(2) [OF std tbl] using k(1) by simp
    then obtain x where "k = fst x" "x \<in> set (tenant_rows t False ?tbl)" by (rule imageE)
    then obtain row where "(k, row) \<in> set (tenant_rows t False ?tbl)" by (cases x) simp
    with k(2,3) key joined_active [OF std st] have "(k, row) \<in> set ?rows" by simp
    then have "k \<in> (\<lambda>s. cd_key relationship_codec (sd_item s)) ` set rs" unfolding keys by (rule image_eqI [rotated]) simp
    then obtain s where "s \<in> set rs" "cd_key relationship_codec (sd_item s) = k" by blast
    with rs(3) have "active std relationship_codec ?tbl t k = Some (sd_item s)" by blast
    with k(1) have "sd_item s = r" by simp
    with \<open>s \<in> set rs\<close> show "r \<in> sd_item ` set rs" by blast
  qed
  ultimately show ?thesis using rs t by (auto simp: list_relationships_def)
qed

lemma dom_keys: "map_of d = A \<Longrightarrow> fst ` set d = {k. A k \<noteq> None}"
  by (metis (no_types, lifting) Collect_cong dom_def dom_map_of_conv_image_fst)

lemma snapshot_spec:
  assumes std: "clock_ok std" and st: "store_ok std st" and t: "store_required t ''tenant_id'' 200 = Inr ()"
  shows "if \<exists>r \<in> linked_facts std st t. \<exists>i \<in> set (rl_evidence_ids r). active std evidence_codec (bs_evidence st) t i = None
     then \<exists>m. snapshot std t st = Inl (OtherError ''CompanyBrainError'' m)
     else \<exists>b. snapshot std t st = Inr b \<and> brain_wf b \<and> map_of (br_entities b) = active std entity_codec (bs_entities st) t \<and>
       map_of (br_evidence b) = active std evidence_codec (bs_evidence st) t \<and> set (relationships b) = linked_facts std st t"
proof -
  have tbl: "table_ok std entity_codec entity_ok (bs_entities st)" "table_ok std evidence_codec evidence_ok (bs_evidence st)"
    using st by (simp_all add: store_ok_def)
  let ?A = "active std entity_codec (bs_entities st) t" and ?V = "active std evidence_codec (bs_evidence st) t"
  obtain es where es: "list_entities std t False st = Inr es" "(\<lambda>r. en_entity_id (sd_item r)) ` set es = {k. ?A k \<noteq> None}"
      "\<forall>r \<in> set es. ?A (en_entity_id (sd_item r)) = Some (sd_item r)"
    using entities.listing_all [OF std tbl(1), of t fst] t by (auto simp: list_entities_def)
  obtain vs where vs: "list_evidence std t False st = Inr vs" "(\<lambda>r. bv_evidence_id (sd_item r)) ` set vs = {k. ?V k \<noteq> None}"
      "\<forall>r \<in> set vs. ?V (bv_evidence_id (sd_item r)) = Some (sd_item r)"
    using evidence.listing_all [OF std tbl(2), of t fst] t by (auto simp: list_evidence_def)
  obtain rs where rs: "list_relationships std t False st = Inr rs" "distinct (map (\<lambda>s. model_key (sd_item s)) rs)"
      "\<forall>s \<in> set rs. relationship_ok (sd_item s)" "sd_item ` set rs = linked_facts std st t"
    using list_relationships_spec [OF assms] by blast
  define b2 where "b2 = fold (\<lambda>s b. b\<lparr>br_evidence := dict_set (bv_evidence_id (sd_item s)) (sd_item s) (br_evidence b)\<rparr>) vs
      (fold (\<lambda>s. upsert_entity (sd_item s)) es empty_brain)"
  have wf: "brain_wf b2" unfolding b2_def by (intro brain_wf_fold brain_wf_empty)
  have b2: "map_of (br_entities b2) = ?A" "map_of (br_evidence b2) = ?V" "br_relationships b2 = []"
    using map_of_fold_set [of es ?A "\<lambda>s. en_entity_id (sd_item s)" sd_item] map_of_fold_set [of vs ?V "\<lambda>s. bv_evidence_id (sd_item s)" sd_item] es vs
    by (auto simp: b2_def fold_upsert fold_pointers empty_brain_def fun_eq_iff)
  have snap: "snapshot std t st = fold_res relate_stored rs b2"
    by (simp add: snapshot_def es(1) vs(1) rs(1) b2_def)
  have keys: "fst ` set (br_entities b2) = {k. ?A k \<noteq> None}" "fst ` set (br_evidence b2) = {k. ?V k \<noteq> None}" by (rule dom_keys, rule b2)+
  have ends: "\<forall>s \<in> set rs. relationship_ok (sd_item s) \<and> rl_source_id (sd_item s) \<in> fst ` set (br_entities b2) \<and>
      rl_target_id (sd_item s) \<in> fst ` set (br_entities b2) \<and> model_key (sd_item s) \<notin> fst ` set (br_relationships b2)"
  proof
    fix s
    assume "s \<in> set rs"
    then have "sd_item s \<in> linked_facts std st t" using rs(4) by blast
    then show "relationship_ok (sd_item s) \<and> rl_source_id (sd_item s) \<in> fst ` set (br_entities b2) \<and>
      rl_target_id (sd_item s) \<in> fst ` set (br_entities b2) \<and> model_key (sd_item s) \<notin> fst ` set (br_relationships b2)"
      using \<open>s \<in> set rs\<close> rs(3) unfolding keys linked_facts_def by (auto simp: b2(3))
  qed
  have cond: "(\<forall>s \<in> set rs. set (rl_evidence_ids (sd_item s)) \<subseteq> fst ` set (br_evidence b2)) \<longleftrightarrow>
      \<not> (\<exists>r \<in> linked_facts std st t. \<exists>i \<in> set (rl_evidence_ids r). ?V i = None)"
    unfolding keys rs(4) [symmetric] by auto
  note all = relate_all [OF ends rs(2), unfolded cond]
  show ?thesis
  proof (cases "\<exists>r \<in> linked_facts std st t. \<exists>i \<in> set (rl_evidence_ids r). ?V i = None")
    case True
    with all show ?thesis unfolding snap by simp
  next
    case False
    let ?b = "b2\<lparr>br_relationships := map (\<lambda>s. (model_key (sd_item s), sd_item s)) rs\<rparr>"
    have res: "snapshot std t st = Inr ?b" using all False unfolding snap b2(3) by (simp only: if_True if_False not_False_eq_True append_Nil)
    have "set (relationships ?b) = linked_facts std st t" unfolding set_relationships rs(4) [symmetric] by (auto simp: image_image)
    moreover have "brain_wf ?b"
      using wf ends rs(2) relationship_ok_ends unfolding brain_wf_def
      by (auto simp: o_def model_key_def)
    ultimately show ?thesis using res b2 False by auto
  qed
qed

section \<open>A sample store\<close>

definition sample_provenance :: brain_provenance where
  "sample_provenance = \<lparr>pv_source_system = ''s'', pv_source_record_id = ''r'', pv_source_revision = ''1'', pv_projection_policy_version = ''p'',
     pv_observed_at = 0, pv_event_id = None\<rparr>"

definition sample_put :: brain_op where
  "sample_put = PutEntity ''t'' (sample_entity ''a'' EK_SERVICE) sample_provenance DEFAULT_RETENTION_POLICY None"

lemma fixture_clock: "clock_ok fixture_std"
  using fixture_isoformat by (simp add: clock_ok_def fixture_std_def)

lemma sample_provenance_ok: "provenance_ok sample_provenance"
  by (simp add: provenance_ok_def sample_provenance_def new_provenance_def store_required_def store_timestamp_def)

lemma sample_put_ok: "op_ok sample_put"
  by (simp add: sample_put_def sample_provenance_ok entity_ok_def sample_entity_def new_entity_def brain_required_def normalized_attributes_def)

lemma sample_put_runs: "\<exists>st. run_op fixture_std 0 0 sample_put empty_brain_store = Inr st"
  by (simp add: sample_put_def state_after_def put_entity_def put_entity_row_def put_record_def fetch_record_def empty_brain_store_def
      store_required_def immediate_def brain_assert_expected_def assert_mutable_def new_stored_def)

definition sample_stored :: "'a \<Rightarrow> 'a stored" where
  "sample_stored x = \<lparr>sd_tenant_id = ''t'', sd_item = x, sd_version = 1, sd_provenance = sample_provenance, sd_retention = DEFAULT_RETENTION_POLICY,
     sd_created_at = 0, sd_updated_at = 0, sd_deleted_at = None, sd_deletion_reason = None\<rparr>"

definition sample_citing :: brain_relationship where
  "sample_citing = \<lparr>rl_source_id = ''a'', rl_target_id = ''b'', rl_kind = RK_OWNS, rl_evidence_ids = [''e'']\<rparr>"

definition sample_store :: brain_store where
  "sample_store =
     \<lparr>bs_entities = write_record fixture_std entity_codec (sample_stored (sample_entity ''a'' EK_TEAM))
        (write_record fixture_std entity_codec (sample_stored (sample_entity ''b'' EK_SERVICE))
        (write_record fixture_std entity_codec (sample_stored (sample_entity ''e'' EK_EVIDENCE)) [])),
      bs_evidence = write_record fixture_std evidence_codec (sample_stored sample_pointer) [],
      bs_relationships = write_record fixture_std relationship_codec (sample_stored sample_citing) [],
      bs_events = [], bs_read_only = False\<rparr>"

lemma sample_stored_ok: "ok x \<Longrightarrow> stored_ok ok (sample_stored x)"
  by (simp add: stored_ok_def sample_stored_def sample_provenance_ok new_stored_def store_required_def)

lemma sample_facts_ok: "i \<noteq> [] \<Longrightarrow> length i \<le> 300 \<Longrightarrow> CHR 0x0A \<notin> set i \<Longrightarrow> entity_ok (sample_entity i k)" "evidence_ok sample_pointer" "relationship_ok sample_citing"
  by (simp_all add: entity_ok_def sample_entity_def new_entity_def brain_required_def normalized_attributes_def evidence_ok_def sample_pointer_def
      new_evidence_def normalized_strings_def sorted_set_def relationship_ok_def sample_citing_def new_relationship_def)

lemma empty_table_ok: "table_ok std cd ok []"
  by (simp add: table_ok_def)

lemma sample_store_ok: "store_ok fixture_std sample_store"
  by (simp add: store_ok_def sample_store_def entities.table_ok_write evidence.table_ok_write relations.table_ok_write empty_table_ok
      sample_stored_ok sample_facts_ok)

lemma sample_views:
  "view fixture_std entity_codec (bs_entities sample_store) ''t'' ''a'' = Some (sample_stored (sample_entity ''a'' EK_TEAM))"
  "view fixture_std entity_codec (bs_entities sample_store) ''t'' ''b'' = Some (sample_stored (sample_entity ''b'' EK_SERVICE))"
  "view fixture_std entity_codec (bs_entities sample_store) ''t'' ''e'' = Some (sample_stored (sample_entity ''e'' EK_EVIDENCE))"
  "view fixture_std evidence_codec (bs_evidence sample_store) ''t'' ''e'' = Some (sample_stored sample_pointer)"
  "view fixture_std relationship_codec (bs_relationships sample_store) ''t'' (''a'', ''b'', ''owns'') = Some (sample_stored sample_citing)"
  by (simp_all add: sample_store_def entities.view_write evidence.view_write relations.view_write fixture_clock sample_stored_ok sample_facts_ok)
     (simp_all add: sample_stored_def sample_entity_def sample_pointer_def sample_citing_def)

lemma sample_tombstone: "\<exists>r. tombstone (sample_stored x) 0 ''gone'' = Inr r"
  by (simp add: tombstone_def new_stored_def sample_stored_def store_required_def)

lemma sample_deletes: "\<exists>stored st'. delete_evidence fixture_std 0 ''t'' ''e'' 1 ''gone'' None sample_store = Inr (stored, st')"
proof -
  have tbl: "table_ok fixture_std entity_codec entity_ok (bs_entities sample_store)" "table_ok fixture_std evidence_codec evidence_ok (bs_evidence sample_store)"
    using sample_store_ok by (simp_all add: store_ok_def)
  have f: "fetch_record fixture_std entity_codec ''t'' ''e'' True (bs_entities sample_store) = Inr (Some (sample_stored (sample_entity ''e'' EK_EVIDENCE)))"
    "fetch_record fixture_std evidence_codec ''t'' ''e'' True (bs_evidence sample_store) = Inr (Some (sample_stored sample_pointer))"
    by (simp_all add: entities.fetch_view [OF fixture_clock tbl(1)] evidence.fetch_view [OF fixture_clock tbl(2)] sample_views)
  have "deletable fixture_std evidence_codec ''t'' ''e'' 1 (\<lambda>_. Inr ()) (bs_evidence sample_store) = Inr (sample_stored sample_pointer)"
    by (simp add: deletable_def f brain_assert_expected_def sample_stored_def DEFAULT_RETENTION_POLICY_def)
  moreover have "structural_deletable fixture_std ''t'' ''e'' sample_store = Inr (sample_stored (sample_entity ''e'' EK_EVIDENCE))"
    by (simp add: structural_deletable_def f sample_stored_def sample_entity_def DEFAULT_RETENTION_POLICY_def)
  moreover obtain r where "tombstone (sample_stored sample_pointer) 0 ''gone'' = Inr r" by (rule exE [OF sample_tombstone])
  moreover obtain r' where "tombstone (sample_stored (sample_entity ''e'' EK_EVIDENCE)) 0 ''gone'' = Inr r'" by (rule exE [OF sample_tombstone])
  moreover have "\<not> bs_read_only sample_store" by (simp add: sample_store_def)
  ultimately show ?thesis
    by (simp add: delete_evidence_def store_required_def deletion_time_def immediate_def Let_def)
qed

section \<open>Properties\<close>

text \<open>C9. Tenants are isolated. A write that the store accepts for one tenant changes nothing another tenant can read: no
  lookup, listing, audit query or snapshot of the other tenant returns anything else than
  before, be it a record, an absence or an exception.\<close>

theorem tenants_are_isolated:
  assumes "clock_ok std" "brain_store_reachable std st" "op_ok op" "run_op std now now' op st = Inr st'" "op_tenant op \<noteq> t"
  shows "snapshot std t st' = snapshot std t st \<and> get_entity std t k inc st' = get_entity std t k inc st \<and>
     get_evidence std t k inc st' = get_evidence std t k inc st \<and> get_relationship std t a b rk inc st' = get_relationship std t a b rk inc st \<and>
     list_entities std t inc st' = list_entities std t inc st \<and> list_evidence std t inc st' = list_evidence std t inc st \<and>
     list_relationships std t inc st' = list_relationships std t inc st \<and> audit_events std t kind key st' = audit_events std t kind key st"
proof -
  from op_effect [OF assms(1) reachable_store_ok [OF assms(2,1)] assms(3,4)] assms(5) have "tenant_part t st' = tenant_part t st"
    using tenant_part_step by blast
  then show ?thesis by (metis reads_part snapshot_part audit_part)
qed

theorem tenants_are_isolated_witness:
  "\<exists>st. run_op fixture_std 0 0 sample_put empty_brain_store = Inr st \<and> snapshot fixture_std ''u'' st = snapshot fixture_std ''u'' empty_brain_store"
proof -
  obtain st where st: "run_op fixture_std 0 0 sample_put empty_brain_store = Inr st" using sample_put_runs by blast
  from tenants_are_isolated [OF fixture_clock brain_store_reachable.start sample_put_ok st, of "''u''"] st show ?thesis
    by (simp add: sample_put_def)
qed

text \<open>C10. Every version is audited. In every reachable store the audit log numbers its events from one without gaps, and for
  every entity and every evidence pointer of every tenant it holds one event per version, in order,
  from the first version to the current one - and none for a record that was never written.\<close>

theorem every_version_is_audited:
  assumes "clock_ok std" "brain_store_reachable std st"
  shows "map er_sequence (bs_events st) = [1..<Suc (length (bs_events st))] \<and>
     map er_version (filter (\<lambda>e. er_tenant_id e = t \<and> er_record_type e = ''entity'' \<and> er_record_key e = k) (bs_events st)) =
       (case fetch_record std entity_codec t k True (bs_entities st) of Inr (Some r) \<Rightarrow> map int [1..<Suc (nat (sd_version r))] | _ \<Rightarrow> []) \<and>
     map er_version (filter (\<lambda>e. er_tenant_id e = t \<and> er_record_type e = ''evidence'' \<and> er_record_key e = k) (bs_events st)) =
       (case fetch_record std evidence_codec t k True (bs_evidence st) of Inr (Some r) \<Rightarrow> map int [1..<Suc (nat (sd_version r))] | _ \<Rightarrow> [])"
proof -
  have st: "store_ok std st" by (rule reachable_store_ok [OF assms(2,1)])
  have f: "fetch_record std entity_codec t k True (bs_entities st) = Inr (view std entity_codec (bs_entities st) t k)"
    "fetch_record std evidence_codec t k True (bs_evidence st) = Inr (view std evidence_codec (bs_evidence st) t k)"
    using st entities.fetch_view [OF assms(1), of "bs_entities st" t k True] evidence.fetch_view [OF assms(1), of "bs_evidence st" t k True]
    by (simp_all add: store_ok_def split: option.splits)
  have log: "versions_of k (log_entries t type evs) =
      map er_version (filter (\<lambda>e. er_tenant_id e = t \<and> er_record_type e = type \<and> er_record_key e = k) evs)" for type evs
    by (induction evs) (auto simp: versions_of_def)
  show ?thesis using reachable_audited [OF assms(2,1)]
    unfolding audited_def numbered_def log [symmetric] f versions_upto_def sum.case by blast
qed

theorem every_version_is_audited_witness:
  "\<exists>st. run_op fixture_std 0 0 sample_put empty_brain_store = Inr st \<and> map er_sequence (bs_events st) = [1..<Suc (length (bs_events st))]"
proof -
  obtain st where st: "run_op fixture_std 0 0 sample_put empty_brain_store = Inr st" using sample_put_runs by blast
  from every_version_is_audited [OF fixture_clock brain_store_reachable.step [OF brain_store_reachable.start sample_put_ok st]] st show ?thesis by blast
qed

text \<open>C11. Retention is kept. When the store accepts a write, every record it held is still there; a tombstoned record is
  exactly as it was; a record that did change has the next version, keeps its creation time, keeps a
  legal hold - and is not deleted while under one - and keeps or extends its retention date. This
  holds of entities, evidence and relationships alike.\<close>

theorem retention_is_kept:
  assumes "clock_ok std" "brain_store_reachable std st" "op_ok op" "run_op std now now' op st = Inr st'"
  shows "(\<forall>r. view std entity_codec (bs_entities st) t k = Some r \<longrightarrow> (\<exists>r'. view std entity_codec (bs_entities st') t k = Some r' \<and> kept r r')) \<and>
     (\<forall>r. view std evidence_codec (bs_evidence st) t k = Some r \<longrightarrow> (\<exists>r'. view std evidence_codec (bs_evidence st') t k = Some r' \<and> kept r r')) \<and>
     (\<forall>r. view std relationship_codec (bs_relationships st) t rk = Some r \<longrightarrow> (\<exists>r'. view std relationship_codec (bs_relationships st') t rk = Some r' \<and> kept r r'))"
proof -
  obtain we wv wr evs where eff: "op_effects std (op_tenant op) st st' we wv wr evs"
    using op_effect [OF assms(1) reachable_store_ok [OF assms(2,1)] assms(3,4)] by blast
  then have w: "\<forall>r. we = Some r \<longrightarrow> advances std entity_codec entity_ok (op_tenant op) (bs_entities st) r"
      "\<forall>r. wv = Some r \<longrightarrow> advances std evidence_codec evidence_ok (op_tenant op) (bs_evidence st) r"
      "\<forall>r. wr = Some r \<longrightarrow> advances std relationship_codec relationship_ok (op_tenant op) (bs_relationships st) r"
    and tbl: "bs_entities st' = write_option std entity_codec we (bs_entities st)" "bs_evidence st' = write_option std evidence_codec wv (bs_evidence st)"
      "bs_relationships st' = write_option std relationship_codec wr (bs_relationships st)"
    by (simp_all add: op_effects_def)
  show ?thesis unfolding tbl
    using entities.kept_after [OF assms(1) w(1)] evidence.kept_after [OF assms(1) w(2)] relations.kept_after [OF assms(1) w(3)] by blast
qed

theorem retention_is_kept_witness:
  "\<exists>st. run_op fixture_std 0 0 sample_put empty_brain_store = Inr st \<and>
     (\<forall>r. view fixture_std entity_codec (bs_entities empty_brain_store) ''t'' ''a'' = Some r \<longrightarrow>
       (\<exists>r'. view fixture_std entity_codec (bs_entities st) ''t'' ''a'' = Some r' \<and> kept r r'))"
proof -
  obtain st where st: "run_op fixture_std 0 0 sample_put empty_brain_store = Inr st" using sample_put_runs by blast
  from retention_is_kept [OF fixture_clock brain_store_reachable.start sample_put_ok st] st show ?thesis by blast
qed

text \<open>A snapshot is exactly the active facts. For a valid tenant of a reachable store, \<open>snapshot\<close> either returns a
  well-formed model whose entities and evidence are the tenant's records without a tombstone and
  whose relationships are those without a tombstone whose endpoints have none; or, exactly when one
  of those relationships cites evidence that is not active, it raises and returns nothing for the
  whole tenant.\<close>

theorem snapshot_is_exact:
  assumes "clock_ok std" "brain_store_reachable std st" "store_required t ''tenant_id'' 200 = Inr ()"
  shows "if \<exists>r \<in> linked_facts std st t. \<exists>i \<in> set (rl_evidence_ids r). active std evidence_codec (bs_evidence st) t i = None
     then \<exists>m. snapshot std t st = Inl (OtherError ''CompanyBrainError'' m)
     else \<exists>b. snapshot std t st = Inr b \<and> brain_wf b \<and> map_of (br_entities b) = active std entity_codec (bs_entities st) t \<and>
       map_of (br_evidence b) = active std evidence_codec (bs_evidence st) t \<and> set (relationships b) = linked_facts std st t"
  by (rule snapshot_spec [OF assms(1) reachable_store_ok [OF assms(2,1)] assms(3)])

theorem snapshot_is_exact_witness:
  "\<exists>b. snapshot fixture_std ''t'' empty_brain_store = Inr b \<and> brain_wf b"
proof -
  have "store_required ''t'' ''tenant_id'' 200 = Inr ()" by (simp add: store_required_def)
  moreover have "linked_facts fixture_std empty_brain_store ''t'' = {}" by (simp add: linked_facts_def active_def view_def empty_brain_store_def)
  ultimately show ?thesis using snapshot_is_exact [OF fixture_clock brain_store_reachable.start, of "''t''"] by auto
qed



end
