(* ===== verification/Brain_Projector.thy ===== *)
theory Brain_Projector
  imports Brain_Codec
begin

text \<open>
  The records of the ingestion pipeline, \<open>src/ingestion/models.py\<close> and \<open>src/ingestion/documents.py\<close>, and their
  projection into the world model, \<open>src/company_brain/projector.py\<close>. A projection changes the model step by
  step, and an exception leaves the steps before it done; so each step takes the model and returns
  a result with the model, and \<open>wbind\<close> sequences them.

  The lemmas show what a projected change adds to the model, and which files a deletion removes.
\<close>

section \<open>Ingestion records\<close>

datatype change_type = UPSERT | DELETE

fun change_type_value :: "change_type \<Rightarrow> string" where
  "change_type_value UPSERT = ''upsert''"
| "change_type_value DELETE = ''delete''"

record source_identity =
  si_provider :: string
  si_repository :: string
  si_branch :: string
  si_commit_sha :: string
  si_path :: string

definition source_document_id :: "source_identity \<Rightarrow> string" where
  "source_document_id s = si_provider s @ '':'' @ si_repository s @ '':'' @ si_branch s @ '':'' @ si_path s"

definition source_citation :: "source_identity \<Rightarrow> string" where
  "source_citation s = si_provider s @ '':'' @ si_repository s @ ''@'' @ si_commit_sha s @ '':'' @ si_path s"

record acl =
  acl_groups :: "string list"
  acl_users :: "string list"

record file_change =
  fc_source :: source_identity
  fc_change_type :: change_type
  fc_content :: "string option"
  fc_language :: "string option"
  fc_owner :: "string option"
  fc_service :: "string option"
  fc_acl :: acl

datatype knowledge_source_type =
    KS_WORK_ITEM | KS_DOCUMENTATION | KS_ADR | KS_RUNBOOK | KS_INCIDENT | KS_DEPLOYMENT | KS_CONVERSATION

fun knowledge_source_value :: "knowledge_source_type \<Rightarrow> string" where
  "knowledge_source_value KS_WORK_ITEM = ''work_item''"
| "knowledge_source_value KS_DOCUMENTATION = ''documentation''"
| "knowledge_source_value KS_ADR = ''adr''"
| "knowledge_source_value KS_RUNBOOK = ''runbook''"
| "knowledge_source_value KS_INCIDENT = ''incident''"
| "knowledge_source_value KS_DEPLOYMENT = ''deployment''"
| "knowledge_source_value KS_CONVERSATION = ''conversation''"

record knowledge_identity =
  ki_provider :: string
  ki_source_type :: knowledge_source_type
  ki_source_id :: string

definition knowledge_document_id :: "knowledge_identity \<Rightarrow> string" where
  "knowledge_document_id i = ''knowledge:'' @ ki_provider i @ '':'' @ knowledge_source_value (ki_source_type i) @ '':'' @ ki_source_id i"

record knowledge_document =
  kd_identity :: knowledge_identity
  kd_title :: string
  kd_body :: string
  kd_revision :: string
  kd_updated_at :: py_datetime
  kd_source_url :: "string option"
  kd_owner :: "string option"
  kd_service :: "string option"
  kd_acl :: acl
  kd_metadata :: "(string \<times> string) list"

definition content_hash :: "py_std \<Rightarrow> knowledge_document \<Rightarrow> string" where
  "content_hash std d = sha256_hex std (kd_body d)"

record knowledge_change =
  kc_change_type :: change_type
  kc_document :: knowledge_document

section \<open>Identifiers and attributes\<close>

definition repository_id :: "string \<Rightarrow> string \<Rightarrow> string" where
  "repository_id provider repository = ''repository:'' @ provider @ '':'' @ repository"

definition service_id :: "string \<Rightarrow> string" where
  "service_id service = ''service:'' @ service"

definition owner_id :: "string \<Rightarrow> string" where
  "owner_id owner = ''owner:'' @ owner"

text \<open>A truthy optional string.\<close>

definition given :: "string option \<Rightarrow> string option" where
  "given v = (case v of None \<Rightarrow> None | Some s \<Rightarrow> if s = [] then None else Some s)"

definition projected_attributes :: "(string \<times> string option) list \<Rightarrow> (string \<times> string) list" where
  "projected_attributes values = sort (map (\<lambda>(k, v). (k, the v)) (filter (\<lambda>(k, v). given v \<noteq> None) values))"

definition source_updated_at :: "py_std \<Rightarrow> py_datetime \<Rightarrow> string res" where
  "source_updated_at std d =
     (if utc_offset_us d = None then Inl (ValueError ''knowledge document updated_at must include a timezone'')
      else Inr (isoformat std (as_instant d)))"

definition scope_prefix :: "string \<Rightarrow> source_identity \<Rightarrow> string" where
  "scope_prefix what s = what @ '':'' @ si_provider s @ '':'' @ si_repository s @ '':'' @ si_branch s @ '':''"

definition change_entity_id :: "source_identity \<Rightarrow> string" where
  "change_entity_id s = scope_prefix ''change'' s @ si_commit_sha s @ '':'' @ si_path s"

definition change_evidence_id :: "source_identity \<Rightarrow> string" where
  "change_evidence_id s = scope_prefix ''evidence'' s @ si_commit_sha s @ '':'' @ si_path s"

section \<open>Steps on the model\<close>

record projection_result =
  pj_entity_ids :: "string list"
  pj_evidence_id :: string
  pj_unresolved_relationships :: "string list"
  pj_deleted_entity_ids :: "string list"

type_synonym 'a step = "company_brain \<Rightarrow> 'a res \<times> company_brain"

definition add_entity :: "string \<Rightarrow> entity_kind \<Rightarrow> string \<Rightarrow> (string \<times> string) list \<Rightarrow> unit step" where
  "add_entity i kind label attributes b =
     (case new_entity i kind label attributes of Inl x \<Rightarrow> (Inl x, b) | Inr e \<Rightarrow> (Inr (), upsert_entity e b))"

definition add_evidence :: "string \<Rightarrow> string \<Rightarrow> string \<Rightarrow> string \<Rightarrow> acl \<Rightarrow> unit step" where
  "add_evidence i source_kind citation revision a b =
     (case new_evidence i source_kind citation revision (sorted_set (acl_groups a)) (sorted_set (acl_users a)) of
        Inl x \<Rightarrow> (Inl x, b)
      | Inr ev \<Rightarrow> record_evidence ev b)"

definition add_link :: "string \<Rightarrow> string \<Rightarrow> relationship_kind \<Rightarrow> string \<Rightarrow> unit step" where
  "add_link source_id target_id kind evidence_id b =
     (case relate source_id target_id kind [evidence_id] b of Inl x \<Rightarrow> (Inl x, b) | Inr (_, b') \<Rightarrow> (Inr (), b'))"

section \<open>File changes\<close>

definition remove_file_change_projection :: "source_identity \<Rightarrow> company_brain \<Rightarrow> string list \<times> company_brain" where
  "remove_file_change_projection s b =
     (let suffix = '':'' @ si_path s;
          evidence_ids = sort (filter (\<lambda>i. py_startswith (scope_prefix ''evidence'' s) i \<and> py_endswith suffix i) (map fst (br_evidence b)));
          change_ids = sort (map fst (filter (\<lambda>(i, e). en_kind e = EK_CHANGE \<and>
            py_startswith (scope_prefix ''change'' s) i \<and> py_endswith suffix i) (br_entities b))) in
      (sort (evidence_ids @ change_ids), fold remove_entity change_ids (fold remove_evidence evidence_ids b)))"

definition project_service :: "file_change \<Rightarrow> string \<Rightarrow> string step" where
  "project_service c service =
     (let s = fc_source c; repo = repository_id (si_provider s) (si_repository s); i = service_id service; ev = change_evidence_id s in
      wbind (add_entity i EK_SERVICE service (projected_attributes [(''repository'', Some (si_repository s))])) (\<lambda>_.
      wbind (add_link i repo RK_BELONGS_TO ev) (\<lambda>_.
      wbind (add_link i (change_entity_id s) RK_CHANGED_BY ev) (\<lambda>_.
      wbind (add_link i ev RK_HAS_EVIDENCE ev) (\<lambda>_. Pair (Inr i))))))"

definition project_owner :: "string \<Rightarrow> string \<Rightarrow> string \<Rightarrow> string step" where
  "project_owner owner target ev =
     wbind (add_entity (owner_id owner) EK_OWNER owner []) (\<lambda>_.
     wbind (add_link (owner_id owner) target RK_OWNS ev) (\<lambda>_. Pair (Inr (owner_id owner))))"

definition project_file_upsert :: "file_change \<Rightarrow> projection_result step" where
  "project_file_upsert c =
     (let s = fc_source c; repo = repository_id (si_provider s) (si_repository s); change = change_entity_id s; ev = change_evidence_id s in
      wbind (add_entity repo EK_REPOSITORY (si_repository s)
        (projected_attributes [(''provider'', Some (si_provider s)), (''branch'', Some (si_branch s))])) (\<lambda>_.
      wbind (add_entity change EK_CHANGE (si_repository s @ ''@'' @ si_commit_sha s @ '':'' @ si_path s)
        (projected_attributes [(''branch'', Some (si_branch s)), (''commit_sha'', Some (si_commit_sha s)), (''path'', Some (si_path s)),
          (''change_type'', Some (change_type_value (fc_change_type c))), (''language'', fc_language c)])) (\<lambda>_.
      wbind (add_evidence ev ''repository-change'' (source_citation s) (si_commit_sha s) (fc_acl c)) (\<lambda>_.
      wbind (add_link repo change RK_CHANGED_BY ev) (\<lambda>_.
      wbind (add_link repo ev RK_HAS_EVIDENCE ev) (\<lambda>_.
      wbind (add_link change ev RK_HAS_EVIDENCE ev) (\<lambda>_.
      wbind (case given (fc_service c) of
          None \<Rightarrow> Pair (Inr [])
        | Some service \<Rightarrow>
            wbind (project_service c service) (\<lambda>i.
            case given (fc_owner c) of
              None \<Rightarrow> Pair (Inr [i])
            | Some owner \<Rightarrow> wbind (project_owner owner i ev) (\<lambda>oi. Pair (Inr [i, oi])))) (\<lambda>more.
      Pair (Inr \<lparr>pj_entity_ids = sort ([repo, change] @ more), pj_evidence_id = ev, pj_unresolved_relationships = [],
        pj_deleted_entity_ids = []\<rparr>)))))))))"

definition project_file_change :: "file_change \<Rightarrow> projection_result step" where
  "project_file_change c b =
     (if fc_change_type c = DELETE
      then let (removed, b') = remove_file_change_projection (fc_source c) b in
        (Inr \<lparr>pj_entity_ids = [], pj_evidence_id = change_evidence_id (fc_source c), pj_unresolved_relationships = [],
           pj_deleted_entity_ids = removed\<rparr>, b')
      else project_file_upsert c b)"

section \<open>Knowledge documents\<close>

fun document_entity_kind :: "knowledge_source_type \<Rightarrow> entity_kind" where
  "document_entity_kind KS_ADR = EK_ADR"
| "document_entity_kind KS_DEPLOYMENT = EK_DEPLOYMENT"
| "document_entity_kind KS_INCIDENT = EK_INCIDENT"
| "document_entity_kind KS_RUNBOOK = EK_RUNBOOK"
| "document_entity_kind KS_WORK_ITEM = EK_WORK_ITEM"
| "document_entity_kind KS_CONVERSATION = EK_CONVERSATION"
| "document_entity_kind KS_DOCUMENTATION = EK_DOCUMENT"

definition artifact_id :: "knowledge_identity \<Rightarrow> string" where
  "artifact_id i = entity_kind_value (document_entity_kind (ki_source_type i)) @ '':'' @ ki_provider i @ '':'' @ ki_source_id i"

definition document_evidence_id :: "knowledge_document \<Rightarrow> string" where
  "document_evidence_id d = ''evidence:'' @ knowledge_document_id (kd_identity d) @ '':'' @ kd_revision d"

text \<open>One declared relationship: linked when the named entity is known, reported when it is not.\<close>

definition declared_link :: "string \<Rightarrow> string option \<Rightarrow> (string \<Rightarrow> unit step) \<Rightarrow> string list step" where
  "declared_link field value add b =
     (case given value of
        None \<Rightarrow> (Inr [], b)
      | Some i \<Rightarrow> if i \<in> fst ` set (br_entities b) then wbind (add i) (\<lambda>_. Pair (Inr [])) b else (Inr [field @ '':'' @ i], b))"

definition project_declared_operational_relationships :: "string \<Rightarrow> knowledge_document \<Rightarrow> string \<Rightarrow> string list step" where
  "project_declared_operational_relationships artifact d ev =
     (if ki_source_type (kd_identity d) \<noteq> KS_INCIDENT then Pair (Inr [])
      else
        wbind (declared_link ''caused_by'' (map_of (kd_metadata d) ''caused_by'') (\<lambda>i. add_link i artifact RK_CAUSED ev)) (\<lambda>u1.
        wbind (declared_link ''resolved_by'' (map_of (kd_metadata d) ''resolved_by'') (\<lambda>i. add_link artifact i RK_RESOLVED_BY ev)) (\<lambda>u2.
        Pair (Inr (sort (u1 @ u2))))))"

definition project_document_service :: "knowledge_document \<Rightarrow> string \<Rightarrow> string step" where
  "project_document_service d service =
     (let i = service_id service; ev = document_evidence_id d in
      wbind (add_entity i EK_SERVICE service []) (\<lambda>_.
      wbind (add_link i ev RK_HAS_EVIDENCE ev) (\<lambda>_.
      wbind (if document_entity_kind (ki_source_type (kd_identity d)) = EK_ADR then add_link i (artifact_id (kd_identity d)) RK_GOVERNED_BY ev
        else Pair (Inr ())) (\<lambda>_. Pair (Inr i)))))"

definition project_knowledge_document :: "py_std \<Rightarrow> knowledge_document \<Rightarrow> projection_result step" where
  "project_knowledge_document std d =
     (let kind = document_entity_kind (ki_source_type (kd_identity d)); artifact = artifact_id (kd_identity d); ev = document_evidence_id d;
          citation = (case given (kd_source_url d) of Some u \<Rightarrow> u | None \<Rightarrow> knowledge_document_id (kd_identity d)) in
      wbind (lift_res (source_updated_at std (kd_updated_at d))) (\<lambda>updated.
      wbind (add_entity artifact kind (kd_title d)
        (projected_attributes [(''provider'', Some (ki_provider (kd_identity d))),
          (''source_type'', Some (knowledge_source_value (ki_source_type (kd_identity d)))), (''revision'', Some (kd_revision d)),
          (''source_updated_at'', Some updated)])) (\<lambda>_.
      wbind (add_evidence ev (knowledge_source_value (ki_source_type (kd_identity d))) citation (kd_revision d) (kd_acl d)) (\<lambda>_.
      wbind (add_link artifact ev RK_HAS_EVIDENCE ev) (\<lambda>_.
      wbind (case given (kd_service d) of None \<Rightarrow> Pair (Inr []) | Some service \<Rightarrow> wbind (project_document_service d service) (\<lambda>i. Pair (Inr [i]))) (\<lambda>services.
      wbind (case given (kd_owner d) of None \<Rightarrow> Pair (Inr []) | Some owner \<Rightarrow> wbind (project_owner owner artifact ev) (\<lambda>i. Pair (Inr [i]))) (\<lambda>owners.
      wbind (project_declared_operational_relationships artifact d ev) (\<lambda>unresolved.
      Pair (Inr \<lparr>pj_entity_ids = sort ([artifact] @ services @ owners), pj_evidence_id = ev, pj_unresolved_relationships = unresolved,
        pj_deleted_entity_ids = []\<rparr>)))))))))"

section \<open>Steps that keep a property of the model\<close>

definition keeps :: "(company_brain \<Rightarrow> bool) \<Rightarrow> 'a step \<Rightarrow> bool" where
  "keeps P m \<longleftrightarrow> (\<forall>b. P b \<longrightarrow> P (snd (m b)))"

lemma keeps_bind [intro]: "keeps P m \<Longrightarrow> (\<And>x. keeps P (f x)) \<Longrightarrow> keeps P (wbind m f)"
  unfolding keeps_def wbind_def by (auto split: prod.splits sum.splits)

lemma keeps_pure [simp, intro]: "keeps P (Pair r)" "keeps P (lift_res r)"
  by (simp_all add: keeps_def lift_res_def)

lemma keeps_result: "keeps P m \<Longrightarrow> P b \<Longrightarrow> m b = (r, b') \<Longrightarrow> P b'"
  unfolding keeps_def by (metis snd_conv)

locale model_invariant =
  fixes P :: "company_brain \<Rightarrow> bool"
  assumes entity: "kind \<noteq> EK_EVIDENCE \<Longrightarrow> keeps P (add_entity i kind label attributes)" and link: "keeps P (add_link s t k ev)"
begin

lemma document_kind [simp]: "document_entity_kind k \<noteq> EK_EVIDENCE"
  by (cases k) simp_all

lemma service: "keeps P (project_service c service)"
  unfolding project_service_def Let_def by (intro keeps_bind keeps_pure entity link) simp_all

lemma owner: "keeps P (project_owner owner target ev)"
  unfolding project_owner_def by (intro keeps_bind keeps_pure entity link) simp_all

lemma document_service: "keeps P (project_document_service d service)"
  unfolding project_document_service_def Let_def by (intro keeps_bind keeps_pure entity) (simp_all add: link)

lemma declared:
  assumes "\<And>i. keeps P (add i)"
  shows "keeps P (declared_link field value add)"
proof -
  have "keeps P (wbind (add i) (\<lambda>_. Pair (Inr [])))" for i by (rule keeps_bind [OF assms keeps_pure(1)])
  then show ?thesis unfolding keeps_def declared_link_def by (auto split: option.split)
qed

lemma declared_relationships: "keeps P (project_declared_operational_relationships artifact d ev)"
  unfolding project_declared_operational_relationships_def by (auto intro!: keeps_bind declared link)

end

locale projection_invariant = model_invariant +
  assumes pointer: "keeps P (add_evidence i source_kind citation revision a)"
begin

lemma file_upsert: "keeps P (project_file_upsert c)"
  unfolding project_file_upsert_def Let_def
  by (intro keeps_bind entity link pointer) (auto intro!: keeps_bind service owner split: option.split)

lemma knowledge: "keeps P (project_knowledge_document std d)"
  unfolding project_knowledge_document_def Let_def
  by (intro keeps_bind keeps_pure entity link pointer declared_relationships)
     (auto intro!: keeps_bind document_service owner split: option.split)

end

text \<open>Models that hold only what the constructors accept.\<close>

definition brain_ok :: "company_brain \<Rightarrow> bool" where
  "brain_ok b \<longleftrightarrow> brain_wf b \<and> (\<forall>x \<in> set (br_entities b). entity_ok (snd x)) \<and> (\<forall>x \<in> set (br_evidence b). evidence_ok (snd x)) \<and>
     (\<forall>x \<in> set (br_relationships b). relationship_ok (snd x))"

lemma constructed:
  "new_entity i k l a = Inr e \<Longrightarrow> entity_ok e" "new_evidence i sk c r g u = Inr ev \<Longrightarrow> evidence_ok ev" "new_relationship s t rk evs = Inr rel \<Longrightarrow> relationship_ok rel"
  by (auto simp: entity_ok_def new_entity_def evidence_ok_def new_evidence_def relationship_ok_def new_relationship_def rbind_eq_Inr split: if_splits)

lemma brain_ok_upsert: "brain_ok b \<Longrightarrow> entity_ok e \<Longrightarrow> brain_ok (upsert_entity e b)"
  using brain_wf_upsert [of b e] by (auto simp: brain_ok_def upsert_entity_def dest: in_dict_set)

interpretation built: projection_invariant brain_ok
proof
  show "keeps brain_ok (add_entity i kind label attributes)" for i kind label attributes
    by (auto simp: keeps_def add_entity_def brain_ok_upsert constructed split: sum.split)
  show "keeps brain_ok (add_link s t k ev)" for s t k ev
    unfolding keeps_def
  proof (intro allI impI)
    fix b
    assume b: "brain_ok b"
    show "brain_ok (snd (add_link s t k ev b))"
    proof (cases "relate s t k [ev] b")
      case (Inr x)
      obtain r b' where x: "relate s t k [ev] b = Inr (r, b')" using Inr by (cases x) simp
      then have "relationship_ok r" by (auto simp: relate_def Let_def rbind_eq_Inr constructed split: if_splits)
      with b brain_wf_relate [OF _ x] relate_Inr(5) [OF x] show ?thesis
        by (auto simp: add_link_def x brain_ok_def dest: in_dict_set)
    qed (simp add: add_link_def b)
  qed
  show "keeps brain_ok (add_evidence i source_kind citation revision a)" for i source_kind citation revision a
  proof -
    have "brain_ok (snd (record_evidence ev b))" if "brain_ok b" "evidence_ok ev" for ev b
    proof -
      have "brain_ok (b\<lparr>br_evidence := dict_set (bv_evidence_id ev) ev (br_evidence b)\<rparr>)"
        using that brain_wf_evidence [of b ev] by (auto simp: brain_ok_def dest: in_dict_set)
      then show ?thesis
        by (auto simp: record_evidence_def Let_def evidence_entity_def intro: brain_ok_upsert constructed split: sum.split)
    qed
    then show ?thesis by (auto simp: keeps_def add_evidence_def constructed split: sum.split)
  qed
qed

text \<open>A pointer the model holds, and that an entity is linked to.\<close>

definition observed :: "string \<Rightarrow> brain_evidence \<Rightarrow> company_brain \<Rightarrow> bool" where
  "observed i ev b \<longleftrightarrow> map_of (br_evidence b) (bv_evidence_id ev) = Some ev \<and>
     (i, bv_evidence_id ev, RK_HAS_EVIDENCE) \<in> fst ` set (br_relationships b)"

lemma add_link_grows:
  "br_evidence (snd (add_link s t k ev b)) = br_evidence b"
  "fst ` set (br_relationships b) \<subseteq> fst ` set (br_relationships (snd (add_link s t k ev b)))"
proof -
  have "br_evidence (snd (add_link s t k ev b)) = br_evidence b \<and>
      fst ` set (br_relationships b) \<subseteq> fst ` set (br_relationships (snd (add_link s t k ev b)))"
  proof (cases "relate s t k [ev] b")
    case (Inr x)
    obtain r b' where x: "relate s t k [ev] b = Inr (r, b')" using Inr by (cases x) simp
    show ?thesis unfolding add_link_def x sum.case prod.case snd_conv relate_Inr(5) [OF x] by (simp add: keys_dict_set subset_insertI)
  qed (simp add: add_link_def)
  then show "br_evidence (snd (add_link s t k ev b)) = br_evidence b"
    "fst ` set (br_relationships b) \<subseteq> fst ` set (br_relationships (snd (add_link s t k ev b)))" by simp_all
qed

interpretation observation: model_invariant "observed i ev" for i ev
proof
  show "keeps (observed i ev) (add_entity j kind label attributes)" for j kind label attributes
    by (simp add: keeps_def add_entity_def observed_def upsert_entity_def split: sum.split)
  show "keeps (observed i ev) (add_link s t k e)" for s t k e
    unfolding keeps_def observed_def add_link_grows(1) by (intro allI impI conjI subsetD [OF add_link_grows(2)]; elim conjE)
qed

section \<open>What a file change adds\<close>

definition change_pointer :: "file_change \<Rightarrow> brain_evidence" where
  "change_pointer c = \<lparr>bv_evidence_id = change_evidence_id (fc_source c), bv_source_kind = ''repository-change'',
     bv_citation = source_citation (fc_source c), bv_revision = si_commit_sha (fc_source c),
     bv_acl_groups = sorted_set (acl_groups (fc_acl c)), bv_acl_users = sorted_set (acl_users (fc_acl c))\<rparr>"

lemma add_evidence_Inr:
  assumes "add_evidence i sk cit rv a b = (Inr u, b')"
  shows "map_of (br_evidence b') i = Some \<lparr>bv_evidence_id = i, bv_source_kind = sk, bv_citation = cit, bv_revision = rv,
     bv_acl_groups = sorted_set (acl_groups a), bv_acl_users = sorted_set (acl_users a)\<rparr>"
  using assms by (auto simp: add_evidence_def new_evidence_def record_evidence_def upsert_entity_def Let_def rbind_eq_Inr split: sum.splits if_splits)

lemma add_link_Inr:
  assumes "add_link s t k ev b = (Inr u, b')"
  shows "(s, t, k) \<in> fst ` set (br_relationships b')" "br_evidence b' = br_evidence b"
  using assms by (auto simp: add_link_def keys_dict_set split: sum.splits dest!: relate_Inr(5))

lemma file_upsert_observed:
  assumes "project_file_upsert c b = (Inr res, b')"
  shows "observed (repository_id (si_provider (fc_source c)) (si_repository (fc_source c))) (change_pointer c) b'"
proof -
  let ?s = "fc_source c" and ?ev = "change_evidence_id (fc_source c)"
  let ?repo = "repository_id (si_provider ?s) (si_repository ?s)" and ?P = "observed (repository_id (si_provider ?s) (si_repository ?s)) (change_pointer c)"
  let ?more = "case given (fc_service c) of None \<Rightarrow> Pair (Inr [])
    | Some service \<Rightarrow> wbind (project_service c service) (\<lambda>i. case given (fc_owner c) of None \<Rightarrow> Pair (Inr [i])
        | Some owner \<Rightarrow> wbind (project_owner owner i ?ev) (\<lambda>oi. Pair (Inr [i, oi])))"
  from assms obtain b2 b3 b4 b5 b6 where steps:
      "add_evidence ?ev ''repository-change'' (source_citation ?s) (si_commit_sha ?s) (fc_acl c) b2 = (Inr (), b3)"
      "add_link ?repo (change_entity_id ?s) RK_CHANGED_BY ?ev b3 = (Inr (), b4)" "add_link ?repo ?ev RK_HAS_EVIDENCE ?ev b4 = (Inr (), b5)"
      "add_link (change_entity_id ?s) ?ev RK_HAS_EVIDENCE ?ev b5 = (Inr (), b6)" and rest: "\<exists>more. ?more b6 = (Inr more, b')"
    unfolding project_file_upsert_def Let_def by (elim wbind_Inr) (auto elim!: wbind_Inr)
  have "?P b5" using add_evidence_Inr [OF steps(1)] add_link_Inr(2) [OF steps(2)] add_link_Inr [OF steps(3)]
    by (simp add: observed_def change_pointer_def)
  then have "?P b6" by (rule keeps_result [OF observation.link _ steps(4)])
  moreover have "keeps ?P ?more" by (auto intro!: keeps_bind observation.service observation.owner split: option.split)
  ultimately show ?thesis using rest keeps_result by blast
qed

section \<open>What a deletion removes\<close>

lemma startswith_iff: "py_startswith p s \<longleftrightarrow> (\<exists>r. s = p @ r)"
  unfolding py_startswith_def by (metis append_eq_conv_conj append_take_drop_id)

lemma endswith_iff: "py_endswith p s \<longleftrightarrow> (\<exists>r. s = r @ p)"
  unfolding py_endswith_def startswith_iff by (metis rev_append rev_rev_ident)

lemma first_sep_unique:
  assumes "a @ c # s = b @ c # t" "c \<notin> set a" "c \<notin> set b"
  shows "a = b \<and> s = t"
proof -
  have "rev s @ c # rev a = rev t @ c # rev b" using arg_cong [OF assms(1), of rev] by simp
  with assms(2,3) append_sep_unique [of "rev s" c "rev a" "rev t" "rev b"] show ?thesis by simp
qed

text \<open>Sources none of whose parts contains the separator of the identifiers.\<close>

definition plain_source :: "source_identity \<Rightarrow> bool" where
  "plain_source s \<longleftrightarrow> CHR '':'' \<notin> set (si_provider s) \<and> CHR '':'' \<notin> set (si_repository s) \<and> CHR '':'' \<notin> set (si_branch s) \<and>
     CHR '':'' \<notin> set (si_commit_sha s) \<and> CHR '':'' \<notin> set (si_path s)"

definition same_file :: "source_identity \<Rightarrow> source_identity \<Rightarrow> bool" where
  "same_file s s' \<longleftrightarrow> si_provider s = si_provider s' \<and> si_repository s = si_repository s' \<and> si_branch s = si_branch s' \<and> si_path s = si_path s'"

lemma scope_matches:
  assumes "plain_source s" "plain_source s'" and i: "i = scope_prefix what s @ si_commit_sha s @ '':'' @ si_path s"
  shows "py_startswith (scope_prefix what s') i \<and> py_endswith ('':'' @ si_path s') i \<longleftrightarrow> same_file s s'"
proof
  assume "py_startswith (scope_prefix what s') i \<and> py_endswith ('':'' @ si_path s') i"
  then obtain r r' where r: "i = scope_prefix what s' @ r" "i = r' @ CHR '':'' # si_path s'"
    unfolding startswith_iff endswith_iff by (elim conjE exE) simp
  have "si_path s = si_path s'"
    using r(2) i assms(1,2) append_sep_unique [of "scope_prefix what s @ si_commit_sha s" "CHR '':''" "si_path s" r' "si_path s'"]
    by (simp add: plain_source_def)
  moreover have "si_provider s = si_provider s'" "si_repository s = si_repository s'" "si_branch s = si_branch s'"
    using r(1) i assms(1,2) by (auto simp: scope_prefix_def plain_source_def dest!: first_sep_unique)
  ultimately show "same_file s s'" by (simp add: same_file_def)
next
  assume "same_file s s'"
  then show "py_startswith (scope_prefix what s') i \<and> py_endswith ('':'' @ si_path s') i"
    by (auto simp: i startswith_iff endswith_iff scope_prefix_def same_file_def)
qed

lemma fold_remove_entity:
  "fst ` set (br_entities (fold remove_entity is b)) = fst ` set (br_entities b) - set is" "br_evidence (fold remove_entity is b) = br_evidence b"
  by (induction "is" arbitrary: b) (auto simp: remove_entity_def keys_dict_del)

lemma fold_remove_evidence:
  "fst ` set (br_entities (fold remove_evidence is b)) = fst ` set (br_entities b) - set is"
  "fst ` set (br_evidence (fold remove_evidence is b)) = fst ` set (br_evidence b) - set is"
  by (induction "is" arbitrary: b) (auto simp: remove_evidence_def remove_entity_def keys_dict_del)

lemma evidence_not_change: "scope_prefix ''evidence'' s @ x \<noteq> scope_prefix ''change'' s' @ y"
  by (simp add: scope_prefix_def)

section \<open>Properties\<close>

definition sample_change :: file_change where
  "sample_change = \<lparr>fc_source = \<lparr>si_provider = ''p'', si_repository = ''r'', si_branch = ''m'', si_commit_sha = ''1'', si_path = ''f''\<rparr>,
     fc_change_type = UPSERT, fc_content = Some ''x'', fc_language = None, fc_owner = Some ''o'', fc_service = Some ''s'',
     fc_acl = \<lparr>acl_groups = [''g''], acl_users = []\<rparr>\<rparr>"

lemma sample_projects: "\<not> isl (fst (project_file_change sample_change empty_brain))"
  by code_simp

lemma sample_context: "\<not> isl (context_for_change (snd (project_file_change sample_change empty_brain)) ''repository:p:r'' [] \<lparr>pr_groups = [''g''], pr_users = []\<rparr>)"
  by code_simp

lemma empty_brain_ok: "brain_ok empty_brain"
  by (simp add: brain_ok_def brain_wf_empty) (simp add: empty_brain_def)

text \<open>C16. The access list of a source change decides who sees it. After a file change has been projected, a context for its
  repository shows the pointer of that change exactly to the principals that share a group or a
  user with the access list the change came with, whatever list the same revision had before.\<close>

theorem projected_change_follows_its_acl:
  assumes "brain_ok b" "fc_change_type c = UPSERT" "project_file_change c b = (Inr res, b')"
    and "context_for_change b' (repository_id (si_provider (fc_source c)) (si_repository (fc_source c))) changed p = Inr cx"
  shows "change_evidence_id (fc_source c) \<in> bv_evidence_id ` set (cx_evidence cx) \<longleftrightarrow>
     set (acl_groups (fc_acl c)) \<inter> set (pr_groups p) \<noteq> {} \<or> set (acl_users (fc_acl c)) \<inter> set (pr_users p) \<noteq> {}"
proof -
  let ?repo = "repository_id (si_provider (fc_source c)) (si_repository (fc_source c))" and ?id = "change_evidence_id (fc_source c)"
  have up: "project_file_upsert c b = (Inr res, b')" using assms(2,3) by (simp add: project_file_change_def)
  have wf: "brain_wf b'" using keeps_result [OF built.file_upsert assms(1) up] by (simp add: brain_ok_def)
  have obs: "map_of (br_evidence b') ?id = Some (change_pointer c)" "(?repo, ?id, RK_HAS_EVIDENCE) \<in> fst ` set (br_relationships b')"
    using file_upsert_observed [OF up] by (simp_all add: observed_def change_pointer_def)
  from obs(2) wf obtain r where r: "r \<in> set (relationships b')" "rl_source_id r = ?repo" "rl_target_id r = ?id" "rl_kind r = RK_HAS_EVIDENCE"
    unfolding brain_wf_def set_relationships by fastforce
  obtain radius where cx: "cx_evidence cx = authorized_evidence b' (?repo # radius) p" using context_Inr [OF wf assms(4)] by blast
  have ids: "bv_evidence_id ev = i" if "map_of (br_evidence b') i = Some ev" for i ev
    using wf map_of_SomeD [OF that] by (auto simp: brain_wf_def)
  have "?id \<in> bv_evidence_id ` set (cx_evidence cx) \<longleftrightarrow> visible_to (change_pointer c) p"
  proof
    assume "?id \<in> bv_evidence_id ` set (cx_evidence cx)"
    then obtain ev i where ev: "bv_evidence_id ev = ?id" "visible_to ev p" "map_of (br_evidence b') i = Some ev"
      unfolding cx set_authorized by auto
    with ids [OF ev(3)] obs(1) show "visible_to (change_pointer c) p" by simp
  next
    assume "visible_to (change_pointer c) p"
    with r obs(1) have "change_pointer c \<in> set (cx_evidence cx)" unfolding cx set_authorized by fastforce
    moreover have "bv_evidence_id (change_pointer c) = ?id" by (simp add: change_pointer_def)
    ultimately show "?id \<in> bv_evidence_id ` set (cx_evidence cx)" by (metis image_eqI)
  qed
  then show ?thesis by (simp add: visible_to_def change_pointer_def)
qed

theorem projected_change_follows_its_acl_witness:
  "\<exists>res b' cx. project_file_change sample_change empty_brain = (Inr res, b') \<and>
     context_for_change b' ''repository:p:r'' [] \<lparr>pr_groups = [''g''], pr_users = []\<rparr> = Inr cx \<and>
     ''evidence:p:r:m:1:f'' \<in> bv_evidence_id ` set (cx_evidence cx)"
proof -
  let ?p = "\<lparr>pr_groups = [''g''], pr_users = []\<rparr>"
  obtain res b' where b': "project_file_change sample_change empty_brain = (Inr res, b')"
    using sample_projects by (cases "project_file_change sample_change empty_brain"; cases "fst (project_file_change sample_change empty_brain)") auto
  have up: "fc_change_type sample_change = UPSERT" by (simp add: sample_change_def)
  obtain cx where cx: "context_for_change b' (repository_id (si_provider (fc_source sample_change)) (si_repository (fc_source sample_change))) [] ?p = Inr cx"
    using sample_context b' by (cases "context_for_change b' (repository_id (si_provider (fc_source sample_change)) (si_repository (fc_source sample_change))) [] ?p")
      (auto simp: sample_change_def repository_id_def)
  from projected_change_follows_its_acl [OF empty_brain_ok up b' cx]
  have "change_evidence_id (fc_source sample_change) \<in> bv_evidence_id ` set (cx_evidence cx)" by (simp add: sample_change_def)
  with b' cx show ?thesis by (auto simp: sample_change_def repository_id_def change_evidence_id_def scope_prefix_def)
qed

text \<open>A deletion removes the file it names. Deleting a file removes every revision's evidence pointer and change entity of that
  provider, repository, branch and path from the model and those of no other file, when no part
  of the sources contains a colon, the separator of the identifiers.\<close>

theorem deletion_removes_the_file:
  assumes "fc_change_type c = DELETE" "project_file_change c b = (r, b')" "plain_source (fc_source c)" "plain_source s"
    and "\<And>e. map_of (br_entities b) (change_entity_id s) = Some e \<Longrightarrow> en_kind e = EK_CHANGE" "brain_wf b"
  shows "(change_evidence_id s \<in> fst ` set (br_evidence b') \<longleftrightarrow> change_evidence_id s \<in> fst ` set (br_evidence b) \<and> \<not> same_file s (fc_source c)) \<and>
     (change_entity_id s \<in> fst ` set (br_entities b') \<longleftrightarrow> change_entity_id s \<in> fst ` set (br_entities b) \<and> \<not> same_file s (fc_source c)) \<and>
     (\<exists>res. r = Inr res)"
proof -
  let ?d = "fc_source c"
  let ?match = "\<lambda>what i. py_startswith (scope_prefix what ?d) i \<and> py_endswith ('':'' @ si_path ?d) i"
  define es where "es = sort (filter (?match ''evidence'') (map fst (br_evidence b)))"
  define cs where "cs = sort (map fst (filter (\<lambda>(i, e). en_kind e = EK_CHANGE \<and> ?match ''change'' i) (br_entities b)))"
  have b': "b' = fold remove_entity cs (fold remove_evidence es b)" "\<exists>res. r = Inr res"
    using assms(1,2) by (auto simp: project_file_change_def remove_file_change_projection_def Let_def es_def cs_def)
  have "change_evidence_id s \<in> set es \<longleftrightarrow> change_evidence_id s \<in> fst ` set (br_evidence b) \<and> same_file s ?d"
    using scope_matches [OF assms(4,3), of "change_evidence_id s" "''evidence''"] by (auto simp: es_def change_evidence_id_def)
  moreover have "change_entity_id s \<in> set cs \<longleftrightarrow> change_entity_id s \<in> fst ` set (br_entities b) \<and> same_file s ?d"
  proof -
    have "en_kind e = EK_CHANGE" if "(change_entity_id s, e) \<in> set (br_entities b)" for e
      using that assms(5) [of e] assms(6) by (simp add: brain_wf_def)
    moreover have "?match ''change'' (change_entity_id s) \<longleftrightarrow> same_file s ?d"
      using scope_matches [OF assms(4,3), of "change_entity_id s" "''change''"] by (simp add: change_entity_id_def)
    ultimately show ?thesis unfolding cs_def by force
  qed
  moreover have "change_entity_id s \<notin> set es"
    using evidence_not_change by (auto simp: es_def startswith_iff change_entity_id_def) metis
  ultimately show ?thesis using b' by (auto simp: fold_remove_entity fold_remove_evidence)
qed

definition sample_file_pointer :: brain_evidence where
  "sample_file_pointer = sample_pointer\<lparr>bv_evidence_id := ''evidence:p:r:m:0:f''\<rparr>"

definition sample_file_model :: company_brain where
  "sample_file_model = empty_brain\<lparr>br_evidence := [(''evidence:p:r:m:0:f'', sample_file_pointer)]\<rparr>"

theorem deletion_removes_the_file_witness:
  "''evidence:p:r:m:0:f'' \<in> fst ` set (br_evidence sample_file_model) \<and>
     ''evidence:p:r:m:0:f'' \<notin> fst ` set (br_evidence (snd (project_file_change (sample_change\<lparr>fc_change_type := DELETE\<rparr>) sample_file_model)))"
proof -
  let ?c = "sample_change\<lparr>fc_change_type := DELETE\<rparr>" and ?s = "fc_source sample_change\<lparr>si_commit_sha := ''0''\<rparr>"
  have "brain_wf sample_file_model" by (simp add: brain_wf_def sample_file_model_def empty_brain_def sample_file_pointer_def)
  moreover have "plain_source (fc_source ?c)" "plain_source ?s" "same_file ?s (fc_source ?c)" by (simp_all add: plain_source_def same_file_def sample_change_def)
  moreover have "map_of (br_entities sample_file_model) (change_entity_id ?s) = None" by (simp add: sample_file_model_def empty_brain_def)
  moreover have "change_evidence_id ?s = ''evidence:p:r:m:0:f''" by (simp add: change_evidence_id_def scope_prefix_def sample_change_def)
  ultimately show ?thesis
    using deletion_removes_the_file [of ?c sample_file_model "fst (project_file_change ?c sample_file_model)" "snd (project_file_change ?c sample_file_model)" ?s]
    by (simp add: sample_file_model_def)
qed

end
