(* ===== verification/Brain_Journal.thy ===== *)
theory Brain_Journal
  imports Brain_Store_Safety Brain_Projector
begin

text \<open>
  The projection journal of \<open>src/company_brain/memory.py\<close>: what each source contributes to the Company Brain, kept in a
  SQLite table next to the store, and the fingerprints that recognise a replay (\<open>memory.py\<close> and
  \<open>src/ingestion/catalog.py\<close>). A row holds JSON columns as what their text parses to. The lemmas show that
  what is put is read again.
\<close>

section \<open>Projections\<close>

datatype projection_state = ACTIVE | DELETED

fun projection_state_value :: "projection_state \<Rightarrow> string" where
  "projection_state_value ACTIVE = ''active''"
| "projection_state_value DELETED = ''deleted''"

definition projection_state_of :: "string \<Rightarrow> projection_state res" where
  "projection_state_of v = (case find (\<lambda>k. projection_state_value k = v) [ACTIVE, DELETED] of
     Some k \<Rightarrow> Inr k | None \<Rightarrow> Inl (ValueError ([CHR 0x27] @ v @ [CHR 0x27] @ '' is not a valid ProjectionState'')))"

definition memory_error :: "string \<Rightarrow> exn" where
  "memory_error m = OtherError ''CompanyBrainMemoryError'' m"

definition memory_required :: "string \<Rightarrow> string \<Rightarrow> nat \<Rightarrow> unit res" where
  "memory_required value label maximum =
     (if value = [] \<or> maximum < length value \<or> CHR 0x0A \<in> set value then Inl (memory_error (label @ '' is invalid'')) else Inr ())"

record source_projection =
  sp_tenant_id :: string
  sp_source_key :: string
  sp_source_kind :: string
  sp_state :: projection_state
  sp_fingerprint :: string
  sp_provenance :: brain_provenance
  sp_entity_ids :: "string list"
  sp_owned_entity_ids :: "string list"
  sp_evidence_ids :: "string list"
  sp_relationships :: "brain_relationship list"
  sp_updated_at :: py_datetime

definition projection_ids :: "string list \<Rightarrow> string \<Rightarrow> unit res" where
  "projection_ids values label =
     (if values \<noteq> sorted_set values then Inl (memory_error (label @ '' must be sorted and unique''))
      else fold_res (\<lambda>v _. memory_required v label 500) values ())"

definition new_source_projection :: "source_projection \<Rightarrow> source_projection res" where
  "new_source_projection p =
     rbind (memory_required (sp_tenant_id p) ''tenant_id'' 200) (\<lambda>_.
     rbind (memory_required (sp_source_key p) ''source_key'' 500) (\<lambda>_.
     rbind (memory_required (sp_source_kind p) ''source_kind'' 100) (\<lambda>_.
     rbind (memory_required (sp_fingerprint p) ''fingerprint'' 500) (\<lambda>_.
     if utc_offset_us (sp_updated_at p) = None then Inl (memory_error ''projection updated_at must include a timezone'')
     else
     rbind (projection_ids (sp_entity_ids p) ''entity_ids'') (\<lambda>_.
     rbind (projection_ids (sp_owned_entity_ids p) ''owned_entity_ids'') (\<lambda>_.
     rbind (projection_ids (sp_evidence_ids p) ''evidence_ids'') (\<lambda>_.
     if \<not> set (sp_owned_entity_ids p) \<subseteq> set (sp_entity_ids p) then Inl (memory_error ''owned entities must be included in entity_ids'')
     else if map relationship_order (sp_relationships p) \<noteq> sorted_set (map relationship_order (sp_relationships p))
     then Inl (memory_error ''relationships must be sorted and unique'')
     else Inr p)))))))"

section \<open>The journal\<close>

record journal_row =
  jr_source_kind :: string
  jr_state :: string
  jr_fingerprint :: string
  jr_provenance :: "json option"
  jr_payload :: "json option"
  jr_updated_at :: string

type_synonym journal = "((string \<times> string) \<times> journal_row) list"

definition projection_payload :: "source_projection \<Rightarrow> payload" where
  "projection_payload p =
     [(''entity_ids'', json_texts (sp_entity_ids p)), (''owned_entity_ids'', json_texts (sp_owned_entity_ids p)),
      (''evidence_ids'', json_texts (sp_evidence_ids p)),
      (''relationships'', JList (map (\<lambda>r. JObj (relationship_payload r)) (sp_relationships p)))]"

definition journal_values :: "py_std \<Rightarrow> source_projection \<Rightarrow> journal_row" where
  "journal_values std p =
     \<lparr>jr_source_kind = sp_source_kind p, jr_state = projection_state_value (sp_state p), jr_fingerprint = sp_fingerprint p,
      jr_provenance = Some (JObj (provenance_payload std (sp_provenance p))), jr_payload = Some (JObj (projection_payload p)),
      jr_updated_at = isoformat std (as_instant (sp_updated_at p))\<rparr>"

definition journal_put :: "py_std \<Rightarrow> source_projection \<Rightarrow> journal \<Rightarrow> journal" where
  "journal_put std p j = dict_set (sp_tenant_id p, sp_source_key p) (journal_values std p) j"

definition projection_from_row :: "py_std \<Rightarrow> string \<times> string \<Rightarrow> journal_row \<Rightarrow> source_projection res" where
  "projection_from_row std key row =
     rbind (payload_from_json (jr_payload row) ''source projection'') (\<lambda>raw.
     rbind (projection_state_of (jr_state row)) (\<lambda>state.
     rbind (rbind (payload_from_json (jr_provenance row) ''source projection provenance'') (provenance_from_payload std)) (\<lambda>v.
     rbind (required_text_sequence raw ''entity_ids'' ''source projection'') (\<lambda>entity_ids.
     rbind (required_text_sequence raw ''owned_entity_ids'' ''source projection'') (\<lambda>owned.
     rbind (required_text_sequence raw ''evidence_ids'' ''source projection'') (\<lambda>evidence_ids.
     rbind (required_object_sequence raw ''relationships'' ''source projection'') (\<lambda>items.
     rbind (map_res (\<lambda>item. rbind (payload_from_value item ''source projection.relationships'') relationship_from_payload) items) (\<lambda>rels.
     rbind (parse_timestamp std (Some (JStr (jr_updated_at row))) ''source projection.updated_at'') (\<lambda>t.
     new_source_projection \<lparr>sp_tenant_id = fst key, sp_source_key = snd key, sp_source_kind = jr_source_kind row, sp_state = state,
       sp_fingerprint = jr_fingerprint row, sp_provenance = v, sp_entity_ids = entity_ids, sp_owned_entity_ids = owned,
       sp_evidence_ids = evidence_ids, sp_relationships = rels, sp_updated_at = utc t\<rparr>)))))))))"

definition journal_get :: "py_std \<Rightarrow> string \<Rightarrow> string \<Rightarrow> journal \<Rightarrow> source_projection option res" where
  "journal_get std tenant source_key j =
     rbind (memory_required tenant ''tenant_id'' 200) (\<lambda>_.
     rbind (memory_required source_key ''source_key'' 500) (\<lambda>_.
     case map_of j (tenant, source_key) of
       None \<Rightarrow> Inr None
     | Some row \<Rightarrow> rbind (projection_from_row std (tenant, source_key) row) (\<lambda>p. Inr (Some p))))"

definition journal_active :: "py_std \<Rightarrow> string \<Rightarrow> journal \<Rightarrow> source_projection list res" where
  "journal_active std tenant j =
     rbind (memory_required tenant ''tenant_id'' 200) (\<lambda>_.
     map_res (\<lambda>(k, row). projection_from_row std k row)
       (sort_key (\<lambda>(k, row). snd k) (filter (\<lambda>(k, row). fst k = tenant \<and> jr_state row = projection_state_value ACTIVE) j)))"

section \<open>Fingerprints\<close>

definition json_optional :: "string option \<Rightarrow> json" where
  "json_optional v = (case v of None \<Rightarrow> JNull | Some s \<Rightarrow> JStr s)"

definition change_fingerprint :: "py_std \<Rightarrow> file_change \<Rightarrow> string" where
  "change_fingerprint std c =
     ''sha256:'' @ sha256_hex std (json_dumps std (JObj
       [(''provider'', JStr (si_provider (fc_source c))), (''repository'', JStr (si_repository (fc_source c))),
        (''branch'', JStr (si_branch (fc_source c))), (''commit_sha'', JStr (si_commit_sha (fc_source c))),
        (''path'', JStr (si_path (fc_source c))), (''content'', JStr (case fc_content c of None \<Rightarrow> [] | Some s \<Rightarrow> s)),
        (''language'', json_optional (fc_language c)), (''owner'', json_optional (fc_owner c)), (''service'', json_optional (fc_service c)),
        (''acl_groups'', json_texts (sorted_set (acl_groups (fc_acl c)))), (''acl_users'', json_texts (sorted_set (acl_users (fc_acl c))))]))"

text \<open>A naive \<open>updated_at\<close> is taken as local time, here of a host that runs in UTC.\<close>

definition knowledge_fingerprint :: "py_std \<Rightarrow> knowledge_document \<Rightarrow> string" where
  "knowledge_fingerprint std d =
     ''sha256:'' @ sha256_hex std (json_dumps std (JObj
       [(''document_id'', JStr (knowledge_document_id (kd_identity d))), (''title'', JStr (kd_title d)), (''revision'', JStr (kd_revision d)),
        (''content_hash'', JStr (content_hash std d)), (''updated_at'', JStr (isoformat std (as_instant (kd_updated_at d)))),
        (''source_url'', json_optional (kd_source_url d)), (''owner'', json_optional (kd_owner d)), (''service'', json_optional (kd_service d)),
        (''acl_groups'', json_texts (sorted_set (acl_groups (kd_acl d)))), (''acl_users'', json_texts (sorted_set (acl_users (kd_acl d)))),
        (''metadata'', JList (map (\<lambda>(k, v). JList [JStr k, JStr v]) (sort (kd_metadata d))))]))"

section \<open>What is put is read again\<close>

text \<open>Projections as the journal reads them: accepted by the constructor, with constructed parts and a UTC time.\<close>

definition projection_ok :: "source_projection \<Rightarrow> bool" where
  "projection_ok p \<longleftrightarrow> new_source_projection p = Inr p \<and> provenance_ok (sp_provenance p) \<and>
     (\<forall>r \<in> set (sp_relationships p). relationship_ok r) \<and> (\<exists>t. sp_updated_at p = utc t)"

lemma projection_state_of_value [simp]: "projection_state_of (projection_state_value s) = Inr s" "projection_state_value s = projection_state_value s' \<longleftrightarrow> s = s'"
  by (cases s; simp add: projection_state_of_def) (cases s; cases s'; simp)

lemma active_value: "projection_state_value s = ''active'' \<longleftrightarrow> s = ACTIVE"
  by (cases s) simp_all

lemma read_iso:
  assumes "clock_ok std"
  shows "parse_timestamp std (Some (JStr (isoformat std t))) label = Inr t"
proof -
  obtain d where "fromisoformat std (isoformat std t) = Some d" "utc_offset_us d = Some 0" "wall_us d = t"
    using assms unfolding clock_ok_def isoformat_parses_def by blast
  then show ?thesis by (simp add: parse_timestamp_def as_instant_def)
qed

lemma projection_round_trip:
  assumes "clock_ok std" "projection_ok p"
  shows "projection_from_row std (sp_tenant_id p, sp_source_key p) (journal_values std p) = Inr p"
proof -
  let ?raw = "projection_payload p" and ?l = "''source projection''"
  obtain t where t: "sp_updated_at p = utc t" using assms(2) by (auto simp: projection_ok_def)
  have "required_text_sequence ?raw ''entity_ids'' ?l = Inr (sp_entity_ids p)"
    "required_text_sequence ?raw ''owned_entity_ids'' ?l = Inr (sp_owned_entity_ids p)"
    "required_text_sequence ?raw ''evidence_ids'' ?l = Inr (sp_evidence_ids p)"
    unfolding required_text_sequence_def by (auto intro!: text_sequenceI simp: projection_payload_def)
  moreover have "required_object_sequence ?raw ''relationships'' ?l = Inr (map (\<lambda>r. JObj (relationship_payload r)) (sp_relationships p))"
    by (simp add: required_object_sequence_def projection_payload_def)
  moreover have "map_res (\<lambda>item. rbind (payload_from_value item ''source projection.relationships'') relationship_from_payload)
      (map (\<lambda>r. JObj (relationship_payload r)) (sp_relationships p)) = Inr (sp_relationships p)"
    using assms(2) relationship_round_trip by (auto simp: map_res_Inr projection_ok_def payload_from_value_def list_all2_map1 list_all2_same)
  moreover have "provenance_from_payload std (provenance_payload std (sp_provenance p)) = Inr (sp_provenance p)"
    using assms provenance_round_trip by (simp add: projection_ok_def clock_ok_def)
  moreover have "parse_timestamp std (Some (JStr (isoformat std (as_instant (sp_updated_at p))))) ''source projection.updated_at'' = Inr t"
    using read_iso [OF assms(1)] by (simp add: t)
  moreover have "\<lparr>sp_tenant_id = sp_tenant_id p, sp_source_key = sp_source_key p, sp_source_kind = sp_source_kind p, sp_state = sp_state p,
      sp_fingerprint = sp_fingerprint p, sp_provenance = sp_provenance p, sp_entity_ids = sp_entity_ids p, sp_owned_entity_ids = sp_owned_entity_ids p,
      sp_evidence_ids = sp_evidence_ids p, sp_relationships = sp_relationships p, sp_updated_at = utc t\<rparr> = p"
    using t by (intro source_projection.equality) simp_all
  moreover have "new_source_projection p = Inr p" using assms(2) by (simp add: projection_ok_def)
  ultimately show ?thesis
    unfolding projection_from_row_def journal_values_def journal_row.simps payload_from_json_def option.case json.case fst_conv snd_conv
    by (simp only: rbind_simps projection_state_of_value)
qed

section \<open>The journal as a map\<close>

definition journal_ok :: "py_std \<Rightarrow> journal \<Rightarrow> bool" where
  "journal_ok std j \<longleftrightarrow> distinct (map fst j) \<and>
     (\<forall>key row. (key, row) \<in> set j \<longrightarrow> (\<exists>p. projection_ok p \<and> key = (sp_tenant_id p, sp_source_key p) \<and> row = journal_values std p))"

definition recorded :: "py_std \<Rightarrow> journal \<Rightarrow> string \<Rightarrow> string \<Rightarrow> source_projection option" where
  "recorded std j t k = (case map_of j (t, k) of None \<Rightarrow> None
     | Some row \<Rightarrow> (case projection_from_row std (t, k) row of Inl _ \<Rightarrow> None | Inr p \<Rightarrow> Some p))"

lemma journal_ok_empty: "journal_ok std []"
  by (simp add: journal_ok_def)

lemma journal_ok_put: "journal_ok std j \<Longrightarrow> projection_ok p \<Longrightarrow> journal_ok std (journal_put std p j)"
  using distinct_dict_set unfolding journal_ok_def journal_put_def by (fastforce dest: in_dict_set)

lemma recorded_put:
  assumes "clock_ok std" "projection_ok p"
  shows "recorded std (journal_put std p j) t k = (if t = sp_tenant_id p \<and> k = sp_source_key p then Some p else recorded std j t k)"
  using projection_round_trip [OF assms] by (auto simp: recorded_def journal_put_def)

lemma recorded_row:
  assumes "clock_ok std" "journal_ok std j" "((t, k), row) \<in> set j"
  obtains p where "recorded std j t k = Some p" "projection_ok p" "sp_tenant_id p = t" "sp_source_key p = k" "row = journal_values std p"
    "projection_from_row std (t, k) row = Inr p"
proof -
  from assms(2,3) obtain p where p: "projection_ok p" "sp_tenant_id p = t" "sp_source_key p = k" "row = journal_values std p"
    unfolding journal_ok_def by fastforce
  have "map_of j (t, k) = Some row" using assms(2,3) by (simp add: journal_ok_def)
  with p projection_round_trip [OF assms(1) p(1)] show ?thesis by (intro that [of p]) (simp_all add: recorded_def)
qed

lemma recorded_key:
  assumes "clock_ok std" "journal_ok std j" "recorded std j t k = Some p"
  shows "sp_tenant_id p = t \<and> sp_source_key p = k \<and> projection_ok p"
proof -
  obtain row where "map_of j (t, k) = Some row" using assms(3) by (auto simp: recorded_def split: option.splits)
  then have "((t, k), row) \<in> set j" by (rule map_of_SomeD)
  then obtain p' where "recorded std j t k = Some p'" "projection_ok p'" "sp_tenant_id p' = t" "sp_source_key p' = k"
    by (rule recorded_row [OF assms(1,2)])
  with assms(3) show ?thesis by simp
qed

lemma journal_get_recorded:
  assumes "clock_ok std" "journal_ok std j" "memory_required t ''tenant_id'' 200 = Inr ()" "memory_required k ''source_key'' 500 = Inr ()"
  shows "journal_get std t k j = Inr (recorded std j t k)"
proof (cases "map_of j (t, k)")
  case (Some row)
  obtain p where "recorded std j t k = Some p" "projection_from_row std (t, k) row = Inr p"
    by (rule recorded_row [OF assms(1,2) map_of_SomeD [OF Some]])
  with Some assms(3,4) show ?thesis by (simp add: journal_get_def)
qed (use assms(3,4) in \<open>simp add: journal_get_def recorded_def\<close>)

definition active_projections :: "py_std \<Rightarrow> journal \<Rightarrow> string \<Rightarrow> source_projection set" where
  "active_projections std j t = {p. \<exists>k. recorded std j t k = Some p \<and> sp_state p = ACTIVE}"

lemma journal_active_recorded:
  assumes "clock_ok std" "journal_ok std j" "memory_required t ''tenant_id'' 200 = Inr ()"
  shows "\<exists>ps. journal_active std t j = Inr ps \<and> set ps = active_projections std j t"
proof -
  define rows where "rows = sort_key (\<lambda>(k, row). snd k) (filter (\<lambda>(k, row). fst k = t \<and> jr_state row = projection_state_value ACTIVE) j)"
  have rows: "((t', k), row) \<in> set rows \<longleftrightarrow> ((t', k), row) \<in> set j \<and> t' = t \<and> jr_state row = projection_state_value ACTIVE" for t' k row
    by (auto simp: rows_def)
  have state: "jr_state (journal_values std p) = projection_state_value (sp_state p)" for p by (simp add: journal_values_def)
  define ps where "ps = map (\<lambda>x. the (recorded std j t (snd (fst x)))) rows"
  have "map_res (\<lambda>(k, row). projection_from_row std k row) rows = Inr ps"
    unfolding ps_def
  proof (rule map_res_total)
    fix x
    assume "x \<in> set rows"
    moreover obtain t' k row where x: "x = ((t', k), row)" by (metis surj_pair)
    ultimately have "((t, k), row) \<in> set j" "t' = t" using rows by auto
    from recorded_row [OF assms(1,2) this(1)] this(2) show "(\<lambda>(k, row). projection_from_row std k row) x = Inr (the (recorded std j t (snd (fst x))))"
      unfolding x by (metis case_prod_conv fst_conv option.sel snd_conv)
  qed
  moreover have "p \<in> set ps \<longleftrightarrow> p \<in> active_projections std j t" for p
  proof
    assume "p \<in> set ps"
    then obtain k row where "((t, k), row) \<in> set j" "jr_state row = projection_state_value ACTIVE" "p = the (recorded std j t k)"
      unfolding ps_def using rows by fastforce
    then show "p \<in> active_projections std j t"
      by (elim recorded_row [OF assms(1,2)]) (auto simp: active_projections_def state active_value)
  next
    assume "p \<in> active_projections std j t"
    then obtain k where k: "recorded std j t k = Some p" "sp_state p = ACTIVE" by (auto simp: active_projections_def)
    then obtain row where row: "((t, k), row) \<in> set j" by (auto simp: recorded_def split: option.splits dest: map_of_SomeD)
    then have "row = journal_values std p" using k(1) by (metis recorded_row [OF assms(1,2)] option.sel)
    with row k have "((t, k), row) \<in> set rows" by (simp add: rows state)
    with k(1) show "p \<in> set ps" unfolding ps_def by (metis (no_types, lifting) fst_conv image_eqI list.set_map option.sel snd_conv)
  qed
  ultimately show ?thesis using assms(3) by (auto simp: journal_active_def rows_def)
qed

end
