(* ===== verification/Brain_Memory.thy ===== *)
theory Brain_Memory
  imports Brain_Journal
begin

text \<open>
  The projector of \<open>src/company_brain/memory.py\<close>: it writes governed source changes through the Company Brain store and
  keeps what each source contributes in the journal. Store and journal are separate databases, and
  every store call is a transaction of its own, so an exception leaves the calls before it done:
  each step returns its result with the state. Each step that reads the clock takes the next
  readings of a sequence of instants.
\<close>

section \<open>State\<close>

record memory =
  mm_store :: brain_store
  mm_journal :: journal
  mm_ticks :: nat

type_synonym clock = "nat \<Rightarrow> instant"

type_synonym 'a mstep = "memory \<Rightarrow> 'a res \<times> memory"

definition now_tick :: "clock \<Rightarrow> instant mstep" where
  "now_tick clock m = (Inr (clock (mm_ticks m)), m\<lparr>mm_ticks := Suc (mm_ticks m)\<rparr>)"

text \<open>A read of the store or the journal, and a call that writes the store at two clock readings.\<close>

definition reading :: "(memory \<Rightarrow> 'a res) \<Rightarrow> 'a mstep" where
  "reading f m = (f m, m)"

definition storing :: "clock \<Rightarrow> (instant \<Rightarrow> instant \<Rightarrow> brain_store \<Rightarrow> ('a \<times> brain_store) res) \<Rightarrow> unit mstep" where
  "storing clock f m =
     (let m1 = m\<lparr>mm_ticks := Suc (Suc (mm_ticks m))\<rparr> in
      case f (clock (mm_ticks m)) (clock (Suc (mm_ticks m))) (mm_store m) of
        Inl x \<Rightarrow> (Inl x, m1)
      | Inr (_, st) \<Rightarrow> (Inr (), m1\<lparr>mm_store := st\<rparr>))"

definition journalling :: "py_std \<Rightarrow> source_projection \<Rightarrow> unit mstep" where
  "journalling std p m = (Inr (), m\<lparr>mm_journal := journal_put std p (mm_journal m)\<rparr>)"

fun for_each :: "('a \<Rightarrow> unit mstep) \<Rightarrow> 'a list \<Rightarrow> unit mstep" where
  "for_each f [] = Pair (Inr ())"
| "for_each f (x # xs) = wbind (f x) (\<lambda>_. for_each f xs)"

section \<open>Writing what changed\<close>

definition put_entity_if_changed :: "py_std \<Rightarrow> clock \<Rightarrow> string \<Rightarrow> brain_provenance \<Rightarrow> brain_entity \<Rightarrow> unit mstep" where
  "put_entity_if_changed std clock tenant v e =
     wbind (reading (\<lambda>m. get_entity std tenant (en_entity_id e) False (mm_store m))) (\<lambda>current.
     if map_option sd_item current = Some e then Pair (Inr ())
     else storing clock (\<lambda>now _. put_entity std now tenant e v DEFAULT_RETENTION_POLICY None))"

definition put_evidence_if_changed :: "py_std \<Rightarrow> clock \<Rightarrow> string \<Rightarrow> brain_provenance \<Rightarrow> brain_evidence \<Rightarrow> unit mstep" where
  "put_evidence_if_changed std clock tenant v e =
     wbind (reading (\<lambda>m. get_evidence std tenant (bv_evidence_id e) False (mm_store m))) (\<lambda>current.
     if map_option sd_item current = Some e then Pair (Inr ())
     else storing clock (\<lambda>now now'. put_evidence std now now' tenant e v DEFAULT_RETENTION_POLICY None))"

definition is_source_owned :: "brain_entity \<Rightarrow> bool" where
  "is_source_owned e \<longleftrightarrow> en_kind e \<notin> {EK_REPOSITORY, EK_SERVICE, EK_TEAM, EK_OWNER}"

section \<open>Relationships of several sources\<close>

type_synonym membership_key = "string \<times> relationship_kind \<times> string"

definition membership_key :: "brain_relationship \<Rightarrow> membership_key" where
  "membership_key r = (rl_source_id r, rl_kind r, rl_target_id r)"

text \<open>Keys are ordered by the text of their kinds.\<close>

definition key_order :: "membership_key \<Rightarrow> string \<times> string \<times> string" where
  "key_order k = (fst k, relationship_kind_value (fst (snd k)), snd (snd k))"

definition relationship_memberships :: "source_projection list \<Rightarrow> (membership_key \<times> string list) list" where
  "relationship_memberships ps =
     map (\<lambda>(k, ids). (k, sorted_set ids))
       (fold (\<lambda>r d. dict_set (membership_key r) ((case map_of d (membership_key r) of None \<Rightarrow> [] | Some ids \<Rightarrow> ids) @ rl_evidence_ids r) d)
         (concat (map sp_relationships ps)) [])"

definition active_candidates :: "py_std \<Rightarrow> string \<Rightarrow> source_projection option \<Rightarrow> source_projection \<Rightarrow> source_projection list mstep" where
  "active_candidates std tenant previous projection =
     wbind (reading (\<lambda>m. journal_active std tenant (mm_journal m))) (\<lambda>active.
     Pair (Inr (sort_key sp_source_key (filter (\<lambda>p. sp_source_key p \<noteq>
       (case previous of Some q \<Rightarrow> sp_source_key q | None \<Rightarrow> sp_source_key projection)) active @ [projection]))))"

definition reconcile_relationship ::
    "py_std \<Rightarrow> clock \<Rightarrow> string \<Rightarrow> source_projection list \<Rightarrow> membership_key \<Rightarrow> unit mstep" where
  "reconcile_relationship std clock tenant candidates key =
     (case key of (source_id, kind, target_id) \<Rightarrow>
      wbind (reading (\<lambda>m. get_relationship std tenant source_id target_id kind False (mm_store m))) (\<lambda>current.
      let evidence_ids = (case map_of (relationship_memberships candidates) key of None \<Rightarrow> [] | Some ids \<Rightarrow> ids) in
      if evidence_ids = []
      then (case current of
          None \<Rightarrow> Pair (Inr ())
        | Some c \<Rightarrow> storing clock (\<lambda>now _. delete_relationship std now tenant source_id target_id kind (sd_version c)
            ''source projection no longer contributes this relationship'' None))
      else (case find (\<lambda>p. key \<in> set (map membership_key (sp_relationships p))) candidates of
          None \<Rightarrow> Pair (Inl (OtherError ''StopIteration'' ''''))
        | Some candidate \<Rightarrow>
            wbind (lift_res (new_relationship source_id target_id kind evidence_ids)) (\<lambda>relationship.
            if map_option sd_item current = Some relationship then Pair (Inr ())
            else storing clock (\<lambda>now _. put_relationship std now tenant relationship (sp_provenance candidate) DEFAULT_RETENTION_POLICY None)))))"

definition reconcile_relationships ::
    "py_std \<Rightarrow> clock \<Rightarrow> string \<Rightarrow> source_projection option \<Rightarrow> source_projection option \<Rightarrow> source_projection list \<Rightarrow> unit mstep" where
  "reconcile_relationships std clock tenant previous projection candidates =
     (let affected = map membership_key (concat (map (\<lambda>r. case r of None \<Rightarrow> [] | Some p \<Rightarrow> sp_relationships p) [previous, projection])) in
      for_each (reconcile_relationship std clock tenant candidates) (sort_key key_order (remdups affected)))"

section \<open>Retiring what no source contributes\<close>

definition retire_evidence :: "py_std \<Rightarrow> clock \<Rightarrow> string \<Rightarrow> string set \<Rightarrow> string \<Rightarrow> unit mstep" where
  "retire_evidence std clock tenant wanted i =
     (if i \<in> wanted then Pair (Inr ())
      else wbind (reading (\<lambda>m. get_evidence std tenant i False (mm_store m))) (\<lambda>current.
      case current of
        None \<Rightarrow> Pair (Inr ())
      | Some c \<Rightarrow> storing clock (\<lambda>now _. delete_evidence std now tenant i (sd_version c) ''source projection is superseded or deleted'' None)))"

definition retire_entity :: "py_std \<Rightarrow> clock \<Rightarrow> string \<Rightarrow> string set \<Rightarrow> string \<Rightarrow> unit mstep" where
  "retire_entity std clock tenant wanted i =
     (if i \<in> wanted then Pair (Inr ())
      else wbind (reading (\<lambda>m. get_entity std tenant i False (mm_store m))) (\<lambda>current.
      case current of
        None \<Rightarrow> Pair (Inr ())
      | Some c \<Rightarrow> storing clock (\<lambda>now _. delete_entity std now tenant i (sd_version c) ''source projection is superseded or deleted'' None)))"

definition retire_unreferenced :: "py_std \<Rightarrow> clock \<Rightarrow> string \<Rightarrow> source_projection option \<Rightarrow> source_projection list \<Rightarrow> unit mstep" where
  "retire_unreferenced std clock tenant previous candidates =
     (case previous of
        None \<Rightarrow> Pair (Inr ())
      | Some q \<Rightarrow>
          wbind (for_each (retire_evidence std clock tenant (\<Union> (set ` sp_evidence_ids ` set candidates))) (sp_evidence_ids q)) (\<lambda>_.
          for_each (retire_entity std clock tenant (\<Union> (set ` sp_owned_entity_ids ` set candidates))) (sp_owned_entity_ids q)))"

section \<open>Receipts\<close>

record projection_receipt =
  rc_source_key :: string
  rc_state :: projection_state
  rc_changed :: bool
  rc_duplicate :: bool
  rc_entity_count :: nat
  rc_evidence_count :: nat
  rc_relationship_count :: nat

definition receipt_of :: "source_projection \<Rightarrow> bool \<Rightarrow> bool \<Rightarrow> projection_receipt" where
  "receipt_of p changed duplicate =
     \<lparr>rc_source_key = sp_source_key p, rc_state = sp_state p, rc_changed = changed, rc_duplicate = duplicate,
      rc_entity_count = length (sp_entity_ids p), rc_evidence_count = length (sp_evidence_ids p),
      rc_relationship_count = length (sp_relationships p)\<rparr>"

section \<open>Upserts and deletions\<close>

definition assert_not_conflicting_replay ::
    "py_std \<Rightarrow> string \<Rightarrow> string \<Rightarrow> string \<Rightarrow> projection_state \<Rightarrow> brain_provenance \<Rightarrow> source_projection option mstep" where
  "assert_not_conflicting_replay std tenant source_key fingerprint target v =
     wbind (reading (\<lambda>m. journal_get std tenant source_key (mm_journal m))) (\<lambda>previous.
     case previous of
       None \<Rightarrow> Pair (Inr None)
     | Some q \<Rightarrow>
         if given (pv_event_id v) \<noteq> None \<and> pv_event_id (sp_provenance q) = pv_event_id v \<and>
           (sp_state q \<noteq> target \<or> sp_fingerprint q \<noteq> fingerprint)
         then Pair (Inl (memory_error ''a source event ID cannot project different state or content''))
         else Pair (Inr (Some q)))"

definition model_entity :: "company_brain \<Rightarrow> string \<Rightarrow> brain_entity res" where
  "model_entity b i = (case map_of (br_entities b) i of None \<Rightarrow> Inl (KeyError i) | Some e \<Rightarrow> Inr e)"

definition model_evidence :: "company_brain \<Rightarrow> string \<Rightarrow> brain_evidence res" where
  "model_evidence b i = (case map_of (br_evidence b) i of None \<Rightarrow> Inl (KeyError i) | Some e \<Rightarrow> Inr e)"

definition contributed_relationships :: "company_brain \<Rightarrow> string \<Rightarrow> brain_relationship list res" where
  "contributed_relationships b ev =
     rbind (map_res (\<lambda>r. new_relationship (rl_source_id r) (rl_target_id r) (rl_kind r) [ev])
       (filter (\<lambda>r. ev \<in> set (rl_evidence_ids r)) (relationships b))) (\<lambda>rs.
     Inr (sort_key relationship_order rs))"

definition materialize ::
    "py_std \<Rightarrow> clock \<Rightarrow> string \<Rightarrow> source_projection option \<Rightarrow> string \<Rightarrow> string \<Rightarrow> string \<Rightarrow> brain_provenance \<Rightarrow> company_brain \<Rightarrow>
     string list \<Rightarrow> string \<Rightarrow> projection_receipt mstep" where
  "materialize std clock tenant previous source_key source_kind fingerprint v model entity_ids evidence_id =
     wbind (lift_res (map_res (model_entity model) (sorted_set entity_ids))) (\<lambda>found.
     let entities = filter (\<lambda>e. en_kind e \<noteq> EK_EVIDENCE) found in
     wbind (lift_res (contributed_relationships model evidence_id)) (\<lambda>rels.
     wbind (now_tick clock) (\<lambda>now.
     wbind (lift_res (new_source_projection
       \<lparr>sp_tenant_id = tenant, sp_source_key = source_key, sp_source_kind = source_kind, sp_state = ACTIVE, sp_fingerprint = fingerprint,
        sp_provenance = v, sp_entity_ids = sort (map en_entity_id entities),
        sp_owned_entity_ids = sort (map en_entity_id (filter is_source_owned entities)), sp_evidence_ids = [evidence_id],
        sp_relationships = rels, sp_updated_at = utc now\<rparr>)) (\<lambda>projection.
     wbind (for_each (put_entity_if_changed std clock tenant v) entities) (\<lambda>_.
     wbind (lift_res (model_evidence model evidence_id)) (\<lambda>ev.
     wbind (put_evidence_if_changed std clock tenant v ev) (\<lambda>_.
     wbind (active_candidates std tenant previous projection) (\<lambda>candidates.
     wbind (reconcile_relationships std clock tenant previous (Some projection) candidates) (\<lambda>_.
     wbind (retire_unreferenced std clock tenant previous candidates) (\<lambda>_.
     wbind (journalling std projection) (\<lambda>_.
     Pair (Inr (receipt_of projection True False)))))))))))))"

text \<open>\<open>_upsert_file\<close> and \<open>_upsert_knowledge\<close> differ in the fingerprint and the projection of the snapshot.\<close>

definition upsert_source ::
    "py_std \<Rightarrow> clock \<Rightarrow> string \<Rightarrow> string \<Rightarrow> string \<Rightarrow> string \<Rightarrow> projection_result step \<Rightarrow> brain_provenance \<Rightarrow> projection_receipt mstep" where
  "upsert_source std clock tenant source_key source_kind fingerprint project v =
     wbind (assert_not_conflicting_replay std tenant source_key fingerprint ACTIVE v) (\<lambda>previous.
     if (case previous of None \<Rightarrow> False | Some q \<Rightarrow> sp_state q = ACTIVE \<and> sp_fingerprint q = fingerprint)
     then Pair (Inr (receipt_of (the previous) False True))
     else
       wbind (reading (\<lambda>m. snapshot std tenant (mm_store m))) (\<lambda>model.
       case project model of
         (Inl x, _) \<Rightarrow> Pair (Inl x)
       | (Inr res, model') \<Rightarrow>
           materialize std clock tenant previous source_key source_kind fingerprint v model' (pj_entity_ids res) (pj_evidence_id res)))"

definition upsert_file :: "py_std \<Rightarrow> clock \<Rightarrow> string \<Rightarrow> file_change \<Rightarrow> string \<Rightarrow> brain_provenance \<Rightarrow> projection_receipt mstep" where
  "upsert_file std clock tenant c source_key v =
     upsert_source std clock tenant source_key ''file'' (change_fingerprint std c) (project_file_change c) v"

definition upsert_knowledge :: "py_std \<Rightarrow> clock \<Rightarrow> string \<Rightarrow> knowledge_document \<Rightarrow> string \<Rightarrow> brain_provenance \<Rightarrow> projection_receipt mstep" where
  "upsert_knowledge std clock tenant d source_key v =
     upsert_source std clock tenant source_key ''knowledge'' (knowledge_fingerprint std d) (project_knowledge_document std d) v"

text \<open>The branches of \<open>_delete\<close>: a source that was never seen, and one that is active.\<close>

definition delete_unknown ::
    "py_std \<Rightarrow> clock \<Rightarrow> string \<Rightarrow> string \<Rightarrow> string \<Rightarrow> string \<Rightarrow> brain_provenance \<Rightarrow> projection_receipt mstep" where
  "delete_unknown std clock tenant source_key source_kind fingerprint v =
     wbind (now_tick clock) (\<lambda>now.
     wbind (lift_res (new_source_projection
       \<lparr>sp_tenant_id = tenant, sp_source_key = source_key, sp_source_kind = source_kind, sp_state = DELETED, sp_fingerprint = fingerprint,
        sp_provenance = v, sp_entity_ids = [], sp_owned_entity_ids = [], sp_evidence_ids = [], sp_relationships = [],
        sp_updated_at = utc now\<rparr>)) (\<lambda>projection.
     wbind (journalling std projection) (\<lambda>_. Pair (Inr (receipt_of projection False True)))))"

definition delete_active ::
    "py_std \<Rightarrow> clock \<Rightarrow> string \<Rightarrow> string \<Rightarrow> string \<Rightarrow> string \<Rightarrow> brain_provenance \<Rightarrow> source_projection \<Rightarrow> projection_receipt mstep" where
  "delete_active std clock tenant source_key source_kind fingerprint v q =
     wbind (reading (\<lambda>m. journal_active std tenant (mm_journal m))) (\<lambda>active.
     let candidates = filter (\<lambda>p. sp_source_key p \<noteq> source_key) active in
     wbind (reconcile_relationships std clock tenant (Some q) None candidates) (\<lambda>_.
     wbind (retire_unreferenced std clock tenant (Some q) candidates) (\<lambda>_.
     wbind (now_tick clock) (\<lambda>now.
     wbind (lift_res (new_source_projection
       \<lparr>sp_tenant_id = tenant, sp_source_key = source_key, sp_source_kind = source_kind, sp_state = DELETED, sp_fingerprint = fingerprint,
        sp_provenance = v, sp_entity_ids = sp_entity_ids q, sp_owned_entity_ids = sp_owned_entity_ids q,
        sp_evidence_ids = sp_evidence_ids q, sp_relationships = sp_relationships q, sp_updated_at = utc now\<rparr>)) (\<lambda>tombstoned.
     wbind (journalling std tombstoned) (\<lambda>_. Pair (Inr (receipt_of tombstoned True False))))))))"

definition delete_source ::
    "py_std \<Rightarrow> clock \<Rightarrow> string \<Rightarrow> string \<Rightarrow> string \<Rightarrow> string \<Rightarrow> brain_provenance \<Rightarrow> projection_receipt mstep" where
  "delete_source std clock tenant source_key source_kind fingerprint v =
     wbind (assert_not_conflicting_replay std tenant source_key fingerprint DELETED v) (\<lambda>previous.
     case previous of
       None \<Rightarrow> delete_unknown std clock tenant source_key source_kind fingerprint v
     | Some q \<Rightarrow>
         if sp_state q = DELETED then Pair (Inr (receipt_of q False True))
         else delete_active std clock tenant source_key source_kind fingerprint v q)"

definition project_memory_file_change ::
    "py_std \<Rightarrow> clock \<Rightarrow> string \<Rightarrow> file_change \<Rightarrow> string option \<Rightarrow> projection_receipt mstep" where
  "project_memory_file_change std clock tenant c event_id =
     (let s = fc_source c; source_key = ''file:'' @ source_document_id s in
      wbind (now_tick clock) (\<lambda>now.
      wbind (lift_res (new_provenance (si_provider s) (source_document_id s) (si_commit_sha s) ''company-brain-file-change-projection:v1''
        (utc now) event_id)) (\<lambda>v.
      if fc_change_type c = DELETE then delete_source std clock tenant source_key ''file'' (''deleted:'' @ source_document_id s) v
      else upsert_file std clock tenant c source_key v)))"

definition project_memory_knowledge_change ::
    "py_std \<Rightarrow> clock \<Rightarrow> string \<Rightarrow> knowledge_change \<Rightarrow> string option \<Rightarrow> projection_receipt mstep" where
  "project_memory_knowledge_change std clock tenant c event_id =
     (let d = kc_document c; i = knowledge_document_id (kd_identity d); source_key = ''knowledge:'' @ i in
      wbind (now_tick clock) (\<lambda>now.
      wbind (lift_res (new_provenance (ki_provider (kd_identity d)) i (kd_revision d) ''company-brain-knowledge-document-projection:v1''
        (utc now) event_id)) (\<lambda>v.
      if kc_change_type c = DELETE then delete_source std clock tenant source_key ''knowledge'' (''deleted:'' @ i) v
      else upsert_knowledge std clock tenant d source_key v)))"

definition new_memory_projector :: "string \<Rightarrow> string res" where
  "new_memory_projector tenant = rbind (memory_required tenant ''tenant_id'' 200) (\<lambda>_. Inr tenant)"

end
