(* ===== verification/Brain_Memory_Steps.thy ===== *)
theory Brain_Memory_Steps
  imports Brain_Memory
begin

text \<open>
  The steps of the memory projector, as triples over what its tenant can see (\<open>facts\<close>): its active evidence and
  relationships. They are joined to one projection, which keeps store and journal consistent:
  each relationship in the store cites exactly the evidence of the active sources that contribute
  it, and the evidence of an active source is active.
\<close>

section \<open>Triples\<close>

definition triple :: "(memory \<Rightarrow> bool) \<Rightarrow> 'a mstep \<Rightarrow> ('a \<Rightarrow> memory \<Rightarrow> bool) \<Rightarrow> bool" where
  "triple P c Q \<longleftrightarrow> (\<forall>m x m'. P m \<longrightarrow> c m = (Inr x, m') \<longrightarrow> Q x m')"

lemma triple_wbind: "triple P c Q \<Longrightarrow> (\<And>x. triple (Q x) (f x) R) \<Longrightarrow> triple P (wbind c f) R"
  unfolding triple_def by (blast elim: wbind_Inr)

lemma triple_pure: "(\<And>m x. P m \<Longrightarrow> r = Inr x \<Longrightarrow> Q x m) \<Longrightarrow> triple P (Pair r) Q" "(\<And>m x. P m \<Longrightarrow> r = Inr x \<Longrightarrow> Q x m) \<Longrightarrow> triple P (lift_res r) Q"
  by (auto simp: triple_def lift_res_def)

lemma triple_read: "(\<And>m x. P m \<Longrightarrow> f m = Inr x \<Longrightarrow> Q x m) \<Longrightarrow> triple P (reading f) Q"
  by (auto simp: triple_def reading_def)

lemma triple_weaken: "triple P c Q \<Longrightarrow> (\<And>m. P' m \<Longrightarrow> P m) \<Longrightarrow> (\<And>x m. Q x m \<Longrightarrow> Q' x m) \<Longrightarrow> triple P' c Q'"
  unfolding triple_def by blast

lemma triple_context: "(\<And>m. P m \<Longrightarrow> C) \<Longrightarrow> (C \<Longrightarrow> triple P c Q) \<Longrightarrow> triple P c Q"
  unfolding triple_def by blast

lemma triple_if: "(b \<Longrightarrow> triple P c Q) \<Longrightarrow> (\<not> b \<Longrightarrow> triple P d Q) \<Longrightarrow> triple P (if b then c else d) Q"
  by simp

lemma triple_skip: "(\<And>m. P m \<Longrightarrow> Q x m) \<Longrightarrow> triple P (Pair (Inr x)) Q"
  by (auto simp: triple_def)

lemma triple_for_each:
  assumes "\<And>x s. x \<in> set xs \<Longrightarrow> triple (P s) (f x) (\<lambda>_. P (g x s))"
  shows "triple (P s) (for_each f xs) (\<lambda>_. P (fold g xs s))"
  using assms
proof (induction xs arbitrary: s)
  case Nil
  then show ?case by (auto intro: triple_pure)
next
  case (Cons x xs)
  have "triple (P (g x s)) (for_each f xs) (\<lambda>_. P (fold g xs (g x s)))" using Cons by simp
  then show ?case using Cons.prems [of x s] by (auto intro: triple_wbind)
qed

section \<open>What a tenant sees\<close>

context record_table
begin

lemma active_write:
  assumes "clock_ok std" "\<forall>r. w = Some r \<longrightarrow> advances std cd ok t tbl r"
  shows "active std cd (write_option std cd w tbl) t' k = (case w of None \<Rightarrow> active std cd tbl t' k
     | Some r \<Rightarrow> if t' = t \<and> k = cd_key cd (sd_item r) then (if sd_deleted_at r = None then Some (sd_item r) else None) else active std cd tbl t' k)"
  unfolding active_def advances_view [OF assms] by (auto split: option.split)

lemma fetch_active:
  assumes "clock_ok std" "table_ok std cd ok tbl" "fetch_record std cd t k False tbl = Inr x"
  shows "map_option sd_item x = active std cd tbl t k"
proof (cases "view std cd tbl t k")
  case None
  then show ?thesis using assms(3) unfolding fetch_view [OF assms(1,2)] by (simp add: active_def)
next
  case (Some r)
  have "x = (if sd_deleted_at r \<noteq> None then None else Some r)" using assms(3) unfolding fetch_view [OF assms(1,2)] Some by simp
  then show ?thesis by (simp add: active_def Some)
qed

end

type_synonym evidence_facts = "string \<Rightarrow> brain_evidence option"
type_synonym relationship_facts = "membership_key \<Rightarrow> brain_relationship option"

definition seen_relationship :: "py_std \<Rightarrow> string \<Rightarrow> brain_store \<Rightarrow> relationship_facts" where
  "seen_relationship std t st = (\<lambda>(s, k, g). active std relationship_codec (bs_relationships st) t (s, g, relationship_kind_value k))"

definition facts :: "py_std \<Rightarrow> string \<Rightarrow> journal \<Rightarrow> evidence_facts \<Rightarrow> relationship_facts \<Rightarrow> memory \<Rightarrow> bool" where
  "facts std t j E R m \<longleftrightarrow> store_ok std (mm_store m) \<and> mm_journal m = j \<and> active std evidence_codec (bs_evidence (mm_store m)) t = E \<and>
     seen_relationship std t (mm_store m) = R"

text \<open>The change one accepted write makes to the facts of its tenant.\<close>

definition changed_evidence :: "stored_evidence option \<Rightarrow> evidence_facts \<Rightarrow> evidence_facts" where
  "changed_evidence w E = (case w of None \<Rightarrow> E | Some r \<Rightarrow> E(bv_evidence_id (sd_item r) := if sd_deleted_at r = None then Some (sd_item r) else None))"

definition changed_relationship :: "stored_relationship option \<Rightarrow> relationship_facts \<Rightarrow> relationship_facts" where
  "changed_relationship w R = (case w of None \<Rightarrow> R | Some r \<Rightarrow> R(membership_key (sd_item r) := if sd_deleted_at r = None then Some (sd_item r) else None))"

lemma facts_write:
  assumes std: "clock_ok std" and facts: "facts std t j E R m" and eff: "op_effects std t (mm_store m) st we wv wr evs"
    and m': "mm_store m' = st" "mm_journal m' = mm_journal m"
  shows "facts std t j (changed_evidence wv E) (changed_relationship wr R) m'"
proof -
  have ok: "store_ok std st" using facts store_ok_step eff by (auto simp: facts_def)
  have w: "bs_evidence st = write_option std evidence_codec wv (bs_evidence (mm_store m))"
    "bs_relationships st = write_option std relationship_codec wr (bs_relationships (mm_store m))"
    "\<forall>r. wv = Some r \<longrightarrow> advances std evidence_codec evidence_ok t (bs_evidence (mm_store m)) r"
    "\<forall>r. wr = Some r \<longrightarrow> advances std relationship_codec relationship_ok t (bs_relationships (mm_store m)) r"
    using eff by (simp_all add: op_effects_def)
  have "active std evidence_codec (bs_evidence st) t i = changed_evidence wv E i" for i
    using facts unfolding w(1) evidence.active_write [OF std w(3)] by (auto simp: facts_def changed_evidence_def split: option.split)
  moreover have "seen_relationship std t st k = changed_relationship wr R k" for k
    using facts unfolding seen_relationship_def w(2) relations.active_write [OF std w(4)]
    by (auto simp: facts_def seen_relationship_def changed_relationship_def membership_key_def split: option.split prod.split)
  ultimately show ?thesis using ok facts m' by (auto simp: facts_def fun_eq_iff)
qed

lemma triple_storing:
  assumes std: "clock_ok std"
    and eff: "\<And>now now' st x st'. store_ok std st \<Longrightarrow> f now now' st = Inr (x, st') \<Longrightarrow>
      \<exists>we wv wr evs. op_effects std t st st' we wv wr evs \<and> (\<forall>E R. changed_evidence wv E = g E \<and> changed_relationship wr R = h R)"
  shows "triple (facts std t j E R) (storing clock f) (\<lambda>_. facts std t j (g E) (h R))"
  unfolding triple_def
proof (intro allI impI)
  fix m u m'
  assume pre: "facts std t j E R m" and run: "storing clock f m = (Inr u, m')"
  then obtain x st where st: "f (clock (mm_ticks m)) (clock (Suc (mm_ticks m))) (mm_store m) = Inr (x, st)"
      "mm_store m' = st" "mm_journal m' = mm_journal m"
    by (auto simp: storing_def Let_def split: sum.splits prod.splits)
  moreover have "store_ok std (mm_store m)" using pre by (simp add: facts_def)
  ultimately obtain we wv wr evs where "op_effects std t (mm_store m) st we wv wr evs" "changed_evidence wv E = g E" "changed_relationship wr R = h R"
    using eff by blast
  with facts_write [OF std pre this(1) st(2,3)] show "facts std t j (g E) (h R) m'" by simp
qed

lemma effectI:
  "op_effects std t st st' we wv wr evs \<Longrightarrow> (\<And>E. changed_evidence wv E = g E) \<Longrightarrow> (\<And>R. changed_relationship wr R = h R) \<Longrightarrow>
     \<exists>we wv wr evs. op_effects std t st st' we wv wr evs \<and> (\<forall>E R. changed_evidence wv E = g E \<and> changed_relationship wr R = h R)"
  by blast

lemma changed_simps [simp]: "changed_evidence None E = E" "changed_relationship None R = R"
  by (simp_all add: changed_evidence_def changed_relationship_def)

section \<open>The steps\<close>

lemma put_entity_triple:
  assumes "clock_ok std" "entity_ok e" "provenance_ok v"
  shows "triple (facts std t j E R) (put_entity_if_changed std clock t v e) (\<lambda>_. facts std t j E R)"
proof -
  have "triple (facts std t j E R) (storing clock (\<lambda>now _. put_entity std now t e v DEFAULT_RETENTION_POLICY None)) (\<lambda>_. facts std t j (id E) (id R))"
  proof (rule triple_storing [OF assms(1)])
    fix now st x st'
    assume st: "store_ok std st" and put: "put_entity std now t e v DEFAULT_RETENTION_POLICY None st = Inr (x, st')"
    from put have "put_entity_row std now t e v DEFAULT_RETENTION_POLICY None st = Inr (x, st')"
      by (auto simp: put_entity_def rbind_eq_Inr dest!: immediate_Inr)
    from put_entity_row_effect [OF assms(1) st assms(2,3) this]
    show "\<exists>we wv wr evs. op_effects std t st st' we wv wr evs \<and> (\<forall>E R. changed_evidence wv E = id E \<and> changed_relationship wr R = id R)"
      by (elim exE conjE) (rule effectI, assumption, simp_all)
  qed
  then show ?thesis unfolding put_entity_if_changed_def
    by (intro triple_wbind [OF triple_read [where Q = "\<lambda>_. facts std t j E R"]]) (auto intro: triple_pure)
qed

lemma put_evidence_triple:
  assumes "clock_ok std" "evidence_ok e" "provenance_ok v"
  shows "triple (facts std t j E R) (put_evidence_if_changed std clock t v e) (\<lambda>_. facts std t j (E(bv_evidence_id e := Some e)) R)"
proof -
  have put: "triple (facts std t j E R) (storing clock (\<lambda>now now'. put_evidence std now now' t e v DEFAULT_RETENTION_POLICY None))
      (\<lambda>_. facts std t j (E(bv_evidence_id e := Some e)) (id R))"
  proof (rule triple_storing [OF assms(1), where g = "\<lambda>E. E(bv_evidence_id e := Some e)"])
    fix now now' st x st'
    assume "store_ok std st" "put_evidence std now now' t e v DEFAULT_RETENTION_POLICY None st = Inr (x, st')"
    from put_evidence_effect [OF assms(1) this(1) assms(2,3) this(2)] obtain we evs where
      "op_effects std t st st' (Some we) (Some x) None evs" "sd_item x = e" "sd_deleted_at x = None" by blast
    then show "\<exists>we wv wr evs. op_effects std t st st' we wv wr evs \<and>
        (\<forall>E R. changed_evidence wv E = E(bv_evidence_id e := Some e) \<and> changed_relationship wr R = id R)"
      by (intro effectI) (assumption, simp_all add: changed_evidence_def)
  qed
  let ?Q = "\<lambda>current m. facts std t j E R m \<and> map_option sd_item current = E (bv_evidence_id e)"
  have get: "triple (facts std t j E R) (reading (\<lambda>m. get_evidence std t (bv_evidence_id e) False (mm_store m))) ?Q"
  proof (rule triple_read)
    fix m x
    assume "facts std t j E R m" "get_evidence std t (bv_evidence_id e) False (mm_store m) = Inr x"
    then show "?Q x m" using evidence.fetch_active [OF assms(1), of "bs_evidence (mm_store m)" t "bv_evidence_id e" x]
      by (auto simp: facts_def store_ok_def get_evidence_def rbind_eq_Inr)
  qed
  show ?thesis unfolding put_evidence_if_changed_def
  proof (rule triple_wbind [OF get], rule triple_if)
    fix x :: "stored_evidence option"
    assume "map_option sd_item x = Some e"
    then show "triple (?Q x) (Pair (Inr ())) (\<lambda>_. facts std t j (E(bv_evidence_id e := Some e)) R)"
      by (intro triple_skip) (metis fun_upd_idem)
  next
    fix x
    show "triple (?Q x) (storing clock (\<lambda>now now'. put_evidence std now now' t e v DEFAULT_RETENTION_POLICY None))
          (\<lambda>_. facts std t j (E(bv_evidence_id e := Some e)) R)"
      by (rule triple_weaken [OF put]) simp_all
  qed
qed

lemma get_relationship_triple:
  assumes "clock_ok std"
  shows "triple (facts std t j E R) (reading (\<lambda>m. get_relationship std t a b k False (mm_store m)))
     (\<lambda>x m. facts std t j E R m \<and> map_option sd_item x = R (a, k, b))"
proof (rule triple_read)
  fix m x
  assume "facts std t j E R m" "get_relationship std t a b k False (mm_store m) = Inr x"
  then show "facts std t j E R m \<and> map_option sd_item x = R (a, k, b)"
    using relations.fetch_active [OF assms, of "bs_relationships (mm_store m)" t "(a, b, relationship_kind_value k)" x]
    by (auto simp: facts_def store_ok_def get_relationship_def seen_relationship_def rbind_eq_Inr)
qed

lemma delete_relationship_triple:
  assumes "clock_ok std"
  shows "triple (facts std t j E R) (storing clock (\<lambda>now _. delete_relationship std now t a b k x why None)) (\<lambda>_. facts std t j E (R((a, k, b) := None)))"
proof -
  have "triple (facts std t j E R) (storing clock (\<lambda>now _. delete_relationship std now t a b k x why None))
      (\<lambda>_. facts std t j (id E) (R((a, k, b) := None)))"
  proof (rule triple_storing [OF assms, where h = "\<lambda>R. R((a, k, b) := None)"])
    fix now st y st'
    assume "store_ok std st" "delete_relationship std now t a b k x why None st = Inr (y, st')"
    from delete_relationship_effect [OF assms this] obtain ev where ev: "op_effects std t st st' None None (Some y) [ev]" "sd_deleted_at y \<noteq> None"
      "cd_key relationship_codec (sd_item y) = (a, b, relationship_kind_value k)" by blast
    then have "membership_key (sd_item y) = (a, k, b)" by (simp add: membership_key_def)
    with ev show "\<exists>we wv wr evs. op_effects std t st st' we wv wr evs \<and>
        (\<forall>E R. changed_evidence wv E = id E \<and> changed_relationship wr R = R((a, k, b) := None))"
      by (intro effectI) (assumption, auto simp: changed_relationship_def)
  qed
  then show ?thesis by simp
qed

lemma put_relationship_triple:
  assumes "clock_ok std" "relationship_ok r" "provenance_ok v"
  shows "triple (facts std t j E R) (storing clock (\<lambda>now _. put_relationship std now t r v q None)) (\<lambda>_. facts std t j E (R(membership_key r := Some r)))"
proof -
  have "triple (facts std t j E R) (storing clock (\<lambda>now _. put_relationship std now t r v q None))
      (\<lambda>_. facts std t j (id E) (R(membership_key r := Some r)))"
  proof (rule triple_storing [OF assms(1), where h = "\<lambda>R. R(membership_key r := Some r)"])
    fix now st y st'
    assume "store_ok std st" "put_relationship std now t r v q None st = Inr (y, st')"
    from put_relationship_effect [OF assms(1) this(1) assms(2,3) this(2)] obtain ev where ev: "op_effects std t st st' None None (Some y) [ev]"
      "sd_item y = r" "sd_deleted_at y = None" by blast
    then show "\<exists>we wv wr evs. op_effects std t st st' we wv wr evs \<and>
        (\<forall>E R. changed_evidence wv E = id E \<and> changed_relationship wr R = R(membership_key r := Some r))"
      by (intro effectI) (assumption, simp_all add: changed_relationship_def)
  qed
  then show ?thesis by simp
qed

section \<open>What the sources contribute\<close>

definition members :: "source_projection set \<Rightarrow> membership_key \<Rightarrow> string set" where
  "members ps key = {i. \<exists>p \<in> ps. \<exists>r \<in> set (sp_relationships p). membership_key r = key \<and> i \<in> set (rl_evidence_ids r)}"

definition contributed :: "source_projection set \<Rightarrow> relationship_facts" where
  "contributed ps = (\<lambda>(s, k, g). if members ps (s, k, g) = {} then None
     else Some \<lparr>rl_source_id = s, rl_target_id = g, rl_kind = k, rl_evidence_ids = sorted_list_of_set (members ps (s, k, g))\<rparr>)"

lemma fold_memberships:
  "set (case map_of (fold (\<lambda>r d. dict_set (membership_key r) ((case map_of d (membership_key r) of None \<Rightarrow> [] | Some ids \<Rightarrow> ids) @ rl_evidence_ids r) d) rs d) key of
      None \<Rightarrow> [] | Some ids \<Rightarrow> ids) =
    set (case map_of d key of None \<Rightarrow> [] | Some ids \<Rightarrow> ids) \<union> {i. \<exists>r \<in> set rs. membership_key r = key \<and> i \<in> set (rl_evidence_ids r)}"
  by (induction rs arbitrary: d) (auto split: option.splits if_splits)

lemma memberships_spec:
  "(case map_of (relationship_memberships ps) key of None \<Rightarrow> [] | Some ids \<Rightarrow> ids) = sorted_list_of_set (members (set ps) key)"
proof -
  define d where "d = fold (\<lambda>r d. dict_set (membership_key r) ((case map_of d (membership_key r) of None \<Rightarrow> [] | Some ids \<Rightarrow> ids) @ rl_evidence_ids r) d)
      (concat (map sp_relationships ps)) []"
  have eq: "set (case map_of d key of None \<Rightarrow> [] | Some ids \<Rightarrow> ids) = members (set ps) key"
    unfolding d_def fold_memberships by (auto simp: members_def)
  have "map_of (relationship_memberships ps) key = map_option sorted_set (map_of d key)"
    unfolding relationship_memberships_def d_def [symmetric] by (simp add: map_of_map)
  then have "(case map_of (relationship_memberships ps) key of None \<Rightarrow> [] | Some ids \<Rightarrow> ids) = sorted_set (case map_of d key of None \<Rightarrow> [] | Some ids \<Rightarrow> ids)"
    by (cases "map_of d key") (simp_all add: sorted_set_def)
  also have "\<dots> = sorted_list_of_set (members (set ps) key)"
    unfolding eq [symmetric] sorted_set_def by (rule sorted_list_of_set_sort_remdups [symmetric])
  finally show ?thesis .
qed

lemma members_finite: "finite (members (set ps) key)"
proof -
  have "members (set ps) key \<subseteq> (\<Union>p \<in> set ps. \<Union>r \<in> set (sp_relationships p). set (rl_evidence_ids r))" by (auto simp: members_def)
  then show ?thesis by (rule finite_subset) simp
qed

lemma reconcile_relationship_triple:
  assumes "clock_ok std" "\<forall>p \<in> set ps. provenance_ok (sp_provenance p)"
  shows "triple (facts std t j E R) (reconcile_relationship std clock t ps key) (\<lambda>_. facts std t j E (R(key := contributed (set ps) key)))"
proof -
  obtain a k b where key: "key = (a, k, b)" by (metis surj_pair)
  let ?Q = "\<lambda>current m. facts std t j E R m \<and> map_option sd_item current = R key"
  let ?post = "\<lambda>_. facts std t j E (R(key := contributed (set ps) key))"
  define ids where "ids = sorted_list_of_set (members (set ps) key)"
  have empty: "ids = [] \<longleftrightarrow> members (set ps) key = {}" unfolding ids_def using members_finite by simp
  show ?thesis unfolding reconcile_relationship_def key prod.case
  proof (rule triple_wbind [OF get_relationship_triple [OF assms(1)]], unfold key [symmetric] memberships_spec Let_def ids_def [symmetric], rule triple_if)
    fix x :: "stored_relationship option"
    assume "ids = []"
    then have none: "contributed (set ps) key = None" by (simp add: empty contributed_def key)
    show "triple (?Q x) (case x of None \<Rightarrow> Pair (Inr ()) | Some c \<Rightarrow> storing clock (\<lambda>now _. delete_relationship std now t a b k (sd_version c)
        ''source projection no longer contributes this relationship'' None)) ?post"
    proof (cases x)
      case None
      have "?post () m" if "?Q x m" for m
      proof -
        have "R(key := contributed (set ps) key) = R" using that None unfolding none by (metis fun_upd_idem option.map_disc_iff)
        with that show ?thesis by simp
      qed
      with None show ?thesis by (auto intro: triple_skip)
    next
      case (Some c)
      show ?thesis unfolding none unfolding Some option.case key
        by (rule triple_weaken [OF delete_relationship_triple [OF assms(1)]]) simp_all
    qed
  next
    fix x :: "stored_relationship option"
    assume "ids \<noteq> []"
    then have some: "contributed (set ps) key = Some \<lparr>rl_source_id = a, rl_target_id = b, rl_kind = k, rl_evidence_ids = ids\<rparr>"
      by (auto simp: contributed_def key ids_def)
    show "triple (?Q x) (case find (\<lambda>p. key \<in> set (map membership_key (sp_relationships p))) ps of
          None \<Rightarrow> Pair (Inl (OtherError ''StopIteration'' ''''))
        | Some candidate \<Rightarrow> wbind (lift_res (new_relationship a b k ids)) (\<lambda>relationship.
            if map_option sd_item x = Some relationship then Pair (Inr ())
            else storing clock (\<lambda>now _. put_relationship std now t relationship (sp_provenance candidate) DEFAULT_RETENTION_POLICY None))) ?post"
    proof (cases "find (\<lambda>p. key \<in> set (map membership_key (sp_relationships p))) ps")
      case None
      then show ?thesis by (simp add: triple_def)
    next
      case (Some c)
      then have v: "provenance_ok (sp_provenance c)" using find_SomeD [OF Some] assms(2) by blast
      let ?r = "\<lparr>rl_source_id = a, rl_target_id = b, rl_kind = k, rl_evidence_ids = ids\<rparr>"
      have new: "triple (?Q x) (lift_res (new_relationship a b k ids)) (\<lambda>r m. ?Q x m \<and> r = ?r \<and> relationship_ok ?r)"
        by (rule triple_pure) (auto dest: new_relationship_Inr constructed(3))
      show ?thesis unfolding Some option.case
      proof (rule triple_wbind [OF new], rule triple_if)
        fix r
        assume "map_option sd_item x = Some r"
        then show "triple (\<lambda>m. ?Q x m \<and> r = ?r \<and> relationship_ok ?r) (Pair (Inr ())) ?post"
          by (intro triple_skip) (elim conjE, simp only: some, metis fun_upd_idem)
      next
        fix r
        show "triple (\<lambda>m. ?Q x m \<and> r = ?r \<and> relationship_ok ?r)
          (storing clock (\<lambda>now _. put_relationship std now t r (sp_provenance c) DEFAULT_RETENTION_POLICY None)) ?post"
        proof (rule triple_context [where C = "r = ?r \<and> relationship_ok ?r"])
          assume r: "r = ?r \<and> relationship_ok ?r"
          then have "membership_key r = key" by (simp add: membership_key_def key)
          then have eq: "R(key := contributed (set ps) key) = R(membership_key r := Some r)" using some r by simp
          have "relationship_ok r" using r by simp
          from put_relationship_triple [OF assms(1) this v, of t j E R clock DEFAULT_RETENTION_POLICY]
          show "triple (\<lambda>m. ?Q x m \<and> r = ?r \<and> relationship_ok ?r)
            (storing clock (\<lambda>now _. put_relationship std now t r (sp_provenance c) DEFAULT_RETENTION_POLICY None)) ?post"
            unfolding eq by (rule triple_weaken) (elim conjE, assumption+)
        qed blast
      qed
    qed
  qed
qed

lemma fold_upd: "fold (\<lambda>k f. f(k := g k)) ks f = (\<lambda>x. if x \<in> set ks then g x else f x)"
  by (induction ks arbitrary: f) auto

lemma fold_clear: "fold (\<lambda>k f. if k \<in> w then f else f(k := None)) ks f = (\<lambda>x. if x \<in> set ks \<and> x \<notin> w then None else f x)"
  by (induction ks arbitrary: f) (auto simp: fun_eq_iff)

lemma reconcile_triple:
  assumes "clock_ok std" "\<forall>p \<in> set ps. provenance_ok (sp_provenance p)"
  shows "triple (facts std t j E R) (reconcile_relationships std clock t previous projection ps)
     (\<lambda>_. facts std t j E (\<lambda>k. if \<exists>p. (previous = Some p \<or> projection = Some p) \<and> k \<in> membership_key ` set (sp_relationships p)
       then contributed (set ps) k else R k))"
proof -
  define ks where "ks = sort_key key_order (remdups (map membership_key (concat (map (\<lambda>r. case r of None \<Rightarrow> [] | Some p \<Rightarrow> sp_relationships p) [previous, projection]))))"
  have "triple (facts std t j E R) (for_each (reconcile_relationship std clock t ps) ks) (\<lambda>_. facts std t j E (fold (\<lambda>k R. R(k := contributed (set ps) k)) ks R))"
    using reconcile_relationship_triple [OF assms]
    by (intro triple_for_each [where P = "\<lambda>R. facts std t j E R" and g = "\<lambda>k R. R(k := contributed (set ps) k)"])
  moreover have "k \<in> set ks \<longleftrightarrow> (\<exists>p. (previous = Some p \<or> projection = Some p) \<and> k \<in> membership_key ` set (sp_relationships p))" for k
    by (cases previous; cases projection) (auto simp: ks_def)
  ultimately show ?thesis unfolding fold_upd reconcile_relationships_def Let_def ks_def [symmetric] by simp
qed

lemma retire_evidence_triple:
  assumes "clock_ok std"
  shows "triple (facts std t j E R) (retire_evidence std clock t wanted i) (\<lambda>_. facts std t j (if i \<in> wanted then E else E(i := None)) R)"
proof -
  let ?Q = "\<lambda>current m. facts std t j E R m \<and> map_option sd_item current = E i"
  have get: "triple (facts std t j E R) (reading (\<lambda>m. get_evidence std t i False (mm_store m))) ?Q"
  proof (rule triple_read)
    fix m x
    assume "facts std t j E R m" "get_evidence std t i False (mm_store m) = Inr x"
    then show "?Q x m" using evidence.fetch_active [OF assms(1), of "bs_evidence (mm_store m)" t i x]
      by (auto simp: facts_def store_ok_def get_evidence_def rbind_eq_Inr)
  qed
  have del: "triple (facts std t j E R) (storing clock (\<lambda>now _. delete_evidence std now t i x why None)) (\<lambda>_. facts std t j (E(i := None)) (id R))" for x why
  proof (rule triple_storing [OF assms, where g = "\<lambda>E. E(i := None)"])
    fix now st y st'
    assume "store_ok std st" "delete_evidence std now t i x why None st = Inr (y, st')"
    from delete_evidence_effect [OF assms this] obtain we evs where ev: "op_effects std t st st' (Some we) (Some y) None evs"
      "bv_evidence_id (sd_item y) = i" "sd_deleted_at y \<noteq> None" by blast
    then show "\<exists>we wv wr evs. op_effects std t st st' we wv wr evs \<and>
        (\<forall>E R. changed_evidence wv E = E(i := None) \<and> changed_relationship wr R = id R)"
      by (intro effectI) (assumption, auto simp: changed_evidence_def)
  qed
  have rest: "triple (?Q x) (case x of None \<Rightarrow> Pair (Inr ())
      | Some c \<Rightarrow> storing clock (\<lambda>now _. delete_evidence std now t i (sd_version c) ''source projection is superseded or deleted'' None))
      (\<lambda>_. facts std t j (E(i := None)) R)" for x :: "stored_evidence option"
  proof (cases x)
    case None
    then show ?thesis unfolding option.case by (auto intro!: triple_skip) (metis fun_upd_idem)
  next
    case (Some c)
    show ?thesis unfolding Some option.case by (rule triple_weaken [OF del]) simp_all
  qed
  show ?thesis
  proof (cases "i \<in> wanted")
    case True
    then show ?thesis by (auto simp: retire_evidence_def intro: triple_skip)
  next
    case False
    then show ?thesis using triple_wbind [OF get rest] by (simp add: retire_evidence_def)
  qed
qed

lemma retire_entity_triple:
  assumes "clock_ok std"
  shows "triple (facts std t j E R) (retire_entity std clock t wanted i) (\<lambda>_. facts std t j E R)"
proof -
  have del: "triple (facts std t j E R) (storing clock (\<lambda>now _. delete_entity std now t i x why None)) (\<lambda>_. facts std t j (id E) (id R))" for x why
  proof (rule triple_storing [OF assms])
    fix now st y st'
    assume "store_ok std st" "delete_entity std now t i x why None st = Inr (y, st')"
    from delete_entity_effect [OF assms this] obtain ev where "op_effects std t st st' (Some y) None None [ev]" by blast
    then show "\<exists>we wv wr evs. op_effects std t st st' we wv wr evs \<and> (\<forall>E R. changed_evidence wv E = id E \<and> changed_relationship wr R = id R)"
      by (intro effectI) (assumption, simp_all)
  qed
  then show ?thesis unfolding retire_entity_def
    by (intro triple_if triple_wbind [OF triple_read [where Q = "\<lambda>_. facts std t j E R"]]) (auto intro: triple_skip split: option.split)
qed

lemma retire_triple:
  assumes "clock_ok std"
  shows "triple (facts std t j E R) (retire_unreferenced std clock t previous ps)
     (\<lambda>_. facts std t j (\<lambda>i. if (\<exists>q. previous = Some q \<and> i \<in> set (sp_evidence_ids q)) \<and> (\<forall>p \<in> set ps. i \<notin> set (sp_evidence_ids p)) then None else E i) R)"
proof (cases previous)
  case None
  then show ?thesis by (auto simp: retire_unreferenced_def intro: triple_skip)
next
  case (Some q)
  let ?wanted = "\<Union> (set ` sp_evidence_ids ` set ps)"
  let ?E = "\<lambda>i. if i \<in> set (sp_evidence_ids q) \<and> i \<notin> ?wanted then None else E i"
  have "triple (facts std t j E R) (for_each (retire_evidence std clock t ?wanted) (sp_evidence_ids q))
      (\<lambda>_. facts std t j (fold (\<lambda>i E. if i \<in> ?wanted then E else E(i := None)) (sp_evidence_ids q) E) R)"
    using retire_evidence_triple [OF assms] by (intro triple_for_each [where P = "\<lambda>E. facts std t j E R"])
  moreover have "fold (\<lambda>i E. if i \<in> ?wanted then E else E(i := None)) is E = (\<lambda>i. if i \<in> set is \<and> i \<notin> ?wanted then None else E i)" for "is"
    by (rule fold_clear)
  ultimately have ev: "triple (facts std t j E R) (for_each (retire_evidence std clock t ?wanted) (sp_evidence_ids q)) (\<lambda>_. facts std t j ?E R)" by simp
  have "triple (facts std t j E' R) (for_each (retire_entity std clock t w) is) (\<lambda>_. facts std t j (fold (\<lambda>i E. E) is E') R)" for E' w "is"
    using retire_entity_triple [OF assms] by (intro triple_for_each [where P = "\<lambda>E. facts std t j E R"])
  moreover have "fold (\<lambda>i E. E) is E' = E'" for E' :: evidence_facts and "is" :: "string list" by (induction "is") simp_all
  ultimately have en: "triple (facts std t j E' R) (for_each (retire_entity std clock t w) is) (\<lambda>_. facts std t j E' R)" for E' w "is" by simp
  have eq: "?E = (\<lambda>i. if (\<exists>q'. previous = Some q' \<and> i \<in> set (sp_evidence_ids q')) \<and> (\<forall>p \<in> set ps. i \<notin> set (sp_evidence_ids p)) then None else E i)"
    by (auto simp: fun_eq_iff Some)
  show ?thesis unfolding eq [symmetric] unfolding retire_unreferenced_def Some option.case by (rule triple_wbind [OF ev en])
qed

section \<open>One projection\<close>

text \<open>The sources, the evidence and the relationships of a tenant agree.\<close>

definition consistent :: "py_std \<Rightarrow> string \<Rightarrow> journal \<Rightarrow> evidence_facts \<Rightarrow> relationship_facts \<Rightarrow> bool" where
  "consistent std t j E R \<longleftrightarrow> journal_ok std j \<and>
     (\<forall>p \<in> active_projections std j t. (\<forall>r \<in> set (sp_relationships p). set (rl_evidence_ids r) \<subseteq> set (sp_evidence_ids p)) \<and>
        (\<forall>i \<in> set (sp_evidence_ids p). E i \<noteq> None)) \<and>
     R = contributed (active_projections std j t)"

lemma tripleD: "triple P c Q \<Longrightarrow> c m = (Inr x, m') \<Longrightarrow> P m \<Longrightarrow> Q x m'"
  by (simp add: triple_def)

lemma active_put:
  assumes "clock_ok std" "journal_ok std j" "projection_ok p" "sp_tenant_id p = t"
  shows "active_projections std (journal_put std p j) t =
     {q \<in> active_projections std j t. sp_source_key q \<noteq> sp_source_key p} \<union> (if sp_state p = ACTIVE then {p} else {})"
  unfolding active_projections_def recorded_put [OF assms(1,3)] using recorded_key [OF assms(1,2)] assms(4)
  by (auto split: if_splits)

lemma contributed_cong: "members ps k = members qs k \<Longrightarrow> contributed ps k = contributed qs k"
  by (cases k) (simp add: contributed_def)

lemma consistent_put:
  assumes std: "clock_ok std" and con: "consistent std t j E R" and p: "projection_ok p" "sp_tenant_id p = t"
    and cites: "sp_state p = ACTIVE \<Longrightarrow> \<forall>r \<in> set (sp_relationships p). set (rl_evidence_ids r) \<subseteq> set (sp_evidence_ids p)"
    and ps: "ps = {q \<in> active_projections std j t. sp_source_key q \<noteq> sp_source_key p} \<union> (if sp_state p = ACTIVE then {p} else {})"
    and E': "\<And>q i. q \<in> ps \<Longrightarrow> i \<in> set (sp_evidence_ids q) \<Longrightarrow> E' i \<noteq> None"
    and R': "\<And>k. R' k = (if \<exists>q. (recorded std j t (sp_source_key p) = Some q \<or> sp_state p = ACTIVE \<and> q = p) \<and> k \<in> membership_key ` set (sp_relationships q)
       then contributed ps k else R k)"
  shows "consistent std t (journal_put std p j) E' R'"
proof -
  have j: "journal_ok std j" using con by (simp add: consistent_def)
  have active: "active_projections std (journal_put std p j) t = ps" unfolding ps by (rule active_put [OF std j p])
  have "R' k = contributed ps k" for k
  proof (cases "\<exists>q. (recorded std j t (sp_source_key p) = Some q \<or> sp_state p = ACTIVE \<and> q = p) \<and> k \<in> membership_key ` set (sp_relationships q)")
    case False
    have "members (active_projections std j t) k = members ps k"
    proof -
      have "q \<in> active_projections std j t \<longleftrightarrow> q \<in> ps" if "k \<in> membership_key ` set (sp_relationships q)" for q
        using that False recorded_key [OF std j] by (auto simp: ps active_projections_def split: if_splits)
      then show ?thesis unfolding members_def by blast
    qed
    from contributed_cong [OF this] have "R k = contributed ps k" using con by (simp add: consistent_def)
    with False show ?thesis unfolding R' by (simp only: if_False)
  qed (simp add: R')
  moreover have "set (rl_evidence_ids r) \<subseteq> set (sp_evidence_ids q)" if "q \<in> ps" "r \<in> set (sp_relationships q)" for q r
  proof (cases "q \<in> active_projections std j t")
    case True
    with that(2) con show ?thesis unfolding consistent_def by blast
  next
    case False
    with that cites show ?thesis by (simp add: ps split: if_splits)
  qed
  ultimately show ?thesis unfolding consistent_def active using journal_ok_put [OF j p(1)] E' by (auto simp: fun_eq_iff)
qed

text \<open>What the projector takes from a model.\<close>

lemma map_res_in: "map_res f xs = Inr ys \<Longrightarrow> y \<in> set ys \<Longrightarrow> \<exists>x \<in> set xs. f x = Inr y"
  by (induction xs arbitrary: ys) (auto simp: rbind_eq_Inr)

lemma contributed_relationships_Inr:
  assumes "contributed_relationships b ev = Inr rs" "r \<in> set rs"
  shows "rl_evidence_ids r = [ev] \<and> relationship_ok r"
proof -
  from assms obtain rs' where rs': "map_res (\<lambda>r. new_relationship (rl_source_id r) (rl_target_id r) (rl_kind r) [ev])
       (filter (\<lambda>r. ev \<in> set (rl_evidence_ids r)) (relationships b)) = Inr rs'" "r \<in> set rs'"
    by (auto simp: contributed_relationships_def rbind_eq_Inr)
  from map_res_in [OF rs'] obtain s :: brain_relationship where "new_relationship (rl_source_id s) (rl_target_id s) (rl_kind s) [ev] = Inr r"
    by blast
  then show ?thesis by (auto dest: new_relationship_Inr constructed(3))
qed

lemma model_entities_Inr:
  assumes "brain_ok b" "map_res (model_entity b) is = Inr es" "e \<in> set es"
  shows "entity_ok e"
proof -
  from assms(2,3) obtain i where "model_entity b i = Inr e" by (blast dest: map_res_in)
  then have "map_of (br_entities b) i = Some e" by (simp add: model_entity_def split: option.splits)
  from map_of_SomeD [OF this] assms(1) show ?thesis by (force simp: brain_ok_def)
qed

lemma model_evidence_Inr:
  assumes "brain_ok b" "model_evidence b i = Inr e"
  shows "evidence_ok e" "bv_evidence_id e = i"
proof -
  have e: "(i, e) \<in> set (br_evidence b)" using assms(2) by (auto simp: model_evidence_def split: option.splits dest: map_of_SomeD)
  then show "evidence_ok e" using assms(1) by (force simp: brain_ok_def)
  show "bv_evidence_id e = i" using e assms(1) by (auto simp: brain_ok_def brain_wf_def)
qed

lemma entities_triple:
  assumes "clock_ok std" "provenance_ok v" "\<forall>e \<in> set es. entity_ok e"
  shows "triple (facts std t j E R) (for_each (put_entity_if_changed std clock t v) es) (\<lambda>_. facts std t j E R)"
proof -
  have "triple (facts std t j E R) (for_each (put_entity_if_changed std clock t v) es) (\<lambda>_. facts std t j (fold (\<lambda>_ E. E) es E) R)"
    using put_entity_triple [OF assms(1) _ assms(2)] assms(3) by (intro triple_for_each [where P = "\<lambda>E. facts std t j E R"]) blast
  moreover have "fold (\<lambda>_ E. E) es E = E" by (induction es) simp_all
  ultimately show ?thesis by simp
qed

lemma new_projection_Inr: "new_source_projection p = Inr q \<Longrightarrow> q = p"
  by (auto simp: new_source_projection_def rbind_eq_Inr split: if_splits)

lemma materialize_triple:
  assumes std: "clock_ok std" and con: "consistent std t j E R" and prev: "previous = recorded std j t key" and v: "provenance_ok v" and b: "brain_ok b"
    and run: "materialize std clock t previous key kind fp v b entity_ids ev m = (Inr rc, m')" and m: "facts std t j E R m"
  shows "\<exists>p E' R'. projection_ok p \<and> sp_tenant_id p = t \<and> sp_source_key p = key \<and> sp_state p = ACTIVE \<and> sp_fingerprint p = fp \<and> sp_provenance p = v \<and>
     facts std t (journal_put std p j) E' R' m' \<and> consistent std t (journal_put std p j) E' R'"
proof -
  have j: "journal_ok std j" using con by (simp add: consistent_def)
  from run obtain found rels m1 now p evid m2 m3 ps m4 m5 where
      found: "map_res (model_entity b) (sorted_set entity_ids) = Inr found"
      and rels: "contributed_relationships b ev = Inr rels"
      and m1: "m1 = m\<lparr>mm_ticks := Suc (mm_ticks m)\<rparr>"
      and p: "new_source_projection
         \<lparr>sp_tenant_id = t, sp_source_key = key, sp_source_kind = kind, sp_state = ACTIVE, sp_fingerprint = fp,
          sp_provenance = v, sp_entity_ids = sort (map en_entity_id (filter (\<lambda>e. en_kind e \<noteq> EK_EVIDENCE) found)),
          sp_owned_entity_ids = sort (map en_entity_id (filter is_source_owned (filter (\<lambda>e. en_kind e \<noteq> EK_EVIDENCE) found))), sp_evidence_ids = [ev],
          sp_relationships = rels, sp_updated_at = utc now\<rparr> = Inr p"
      and ents: "for_each (put_entity_if_changed std clock t v) (filter (\<lambda>e. en_kind e \<noteq> EK_EVIDENCE) found) m1 = (Inr (), m2)"
      and evid: "model_evidence b ev = Inr evid" "put_evidence_if_changed std clock t v evid m2 = (Inr (), m3)"
      and cands: "active_candidates std t previous p m3 = (Inr ps, m3)"
      and rec: "reconcile_relationships std clock t previous (Some p) ps m3 = (Inr (), m4)"
      and ret: "retire_unreferenced std clock t previous ps m4 = (Inr (), m5)"
      and m': "m' = m5\<lparr>mm_journal := journal_put std p (mm_journal m5)\<rparr>"
    unfolding materialize_def Let_def
    by (elim wbind_Inr) (auto simp: lift_res_def now_tick_def journalling_def active_candidates_def wbind_def reading_def split: sum.splits)
  note pe = new_projection_Inr [OF p]
  have p_ok: "projection_ok p" using p v contributed_relationships_Inr [OF rels] unfolding pe by (auto simp: projection_ok_def)
  have key: "sp_source_key p = key" "sp_tenant_id p = t" "sp_state p = ACTIVE" "sp_evidence_ids p = [ev]" "sp_relationships p = rels"
    "sp_fingerprint p = fp" "sp_provenance p = v" by (simp_all add: pe)
  have "facts std t j E R m1" using m by (simp add: m1 facts_def)
  then have f2: "facts std t j E R m2"
    using tripleD [OF entities_triple [OF std v] ents] model_entities_Inr [OF b found] by simp
  note ok = model_evidence_Inr [OF b evid(1)]
  have f3: "facts std t j (E(ev := Some evid)) R m3"
    using tripleD [OF put_evidence_triple [OF std ok(1) v] evid(2) f2] ok(2) by simp
  have ps: "set ps = {q \<in> active_projections std j t. sp_source_key q \<noteq> key} \<union> {p}"
  proof -
    have "mm_journal m3 = j" using f3 by (simp add: facts_def)
    with cands obtain qs where qs: "journal_active std t j = Inr qs" "ps = sort_key sp_source_key (filter (\<lambda>q. sp_source_key q \<noteq>
        (case previous of Some q \<Rightarrow> sp_source_key q | None \<Rightarrow> sp_source_key p)) qs @ [p])"
      by (auto simp: active_candidates_def wbind_def reading_def split: sum.splits)
    moreover have "memory_required t ''tenant_id'' 200 = Inr ()" using qs(1) by (auto simp: journal_active_def rbind_eq_Inr)
    then have "set qs = active_projections std j t" using journal_active_recorded [OF std j] qs(1) by fastforce
    moreover have "(case previous of Some q \<Rightarrow> sp_source_key q | None \<Rightarrow> sp_source_key p) = key"
      using recorded_key [OF std j] prev key(1) by (auto split: option.split)
    ultimately show ?thesis by simp
  qed
  have prov: "\<forall>q \<in> set ps. provenance_ok (sp_provenance q)"
    using recorded_key [OF std j] v unfolding ps by (auto simp: active_projections_def projection_ok_def key)
  note f4 = tripleD [OF reconcile_triple [OF std prov] rec f3]
  note f5 = tripleD [OF retire_triple [OF std] ret f4]
  let ?E = "\<lambda>i. if (\<exists>q. previous = Some q \<and> i \<in> set (sp_evidence_ids q)) \<and> (\<forall>p \<in> set ps. i \<notin> set (sp_evidence_ids p)) then None else (E(ev := Some evid)) i"
  let ?R = "\<lambda>k. if \<exists>q. (previous = Some q \<or> Some p = Some q) \<and> k \<in> membership_key ` set (sp_relationships q) then contributed (set ps) k else R k"
  have "facts std t (journal_put std p j) ?E ?R m'" using f5 by (simp add: facts_def m')
  moreover have "consistent std t (journal_put std p j) ?E ?R"
  proof (rule consistent_put [OF std con p_ok key(2), where ps = "set ps"])
    show "\<forall>r \<in> set (sp_relationships p). set (rl_evidence_ids r) \<subseteq> set (sp_evidence_ids p)"
      using contributed_relationships_Inr [OF rels] by (simp add: key)
    show "set ps = {q \<in> active_projections std j t. sp_source_key q \<noteq> sp_source_key p} \<union> (if sp_state p = ACTIVE then {p} else {})" by (simp add: ps key)
    show "?E i \<noteq> None" if "q \<in> set ps" "i \<in> set (sp_evidence_ids q)" for q i
      using that con unfolding ps consistent_def by (auto simp: key)
    show "?R k = (if \<exists>q. (recorded std j t (sp_source_key p) = Some q \<or> sp_state p = ACTIVE \<and> q = p) \<and> k \<in> membership_key ` set (sp_relationships q)
       then contributed (set ps) k else R k)" for k by (auto simp: key prev)
  qed
  ultimately show ?thesis using p_ok key by blast
qed

lemma replay_check_Inr:
  assumes "clock_ok std" "journal_ok std (mm_journal m)" "assert_not_conflicting_replay std t key fp target v m = (Inr previous, m')"
  shows "previous = recorded std (mm_journal m) t key" "m' = m"
proof -
  have get: "journal_get std t key (mm_journal m) = Inr previous" and m': "m' = m"
    using assms(3) by (auto simp: assert_not_conflicting_replay_def wbind_def reading_def split: sum.splits option.splits if_splits)
  from get show "previous = recorded std (mm_journal m) t key"
    using journal_get_recorded [OF assms(1,2), of t key] by (auto simp: journal_get_def rbind_eq_Inr)
  show "m' = m" by (rule m')
qed

lemma projection_parts:
  assumes "new_source_projection
     \<lparr>sp_tenant_id = t, sp_source_key = key, sp_source_kind = kind, sp_state = s, sp_fingerprint = fp, sp_provenance = v, sp_entity_ids = a,
      sp_owned_entity_ids = b, sp_evidence_ids = c, sp_relationships = rs, sp_updated_at = utc now\<rparr> = Inr p" "provenance_ok v" "\<forall>r \<in> set rs. relationship_ok r"
  shows "projection_ok p" "sp_tenant_id p = t" "sp_source_key p = key" "sp_state p = s" "sp_fingerprint p = fp" "sp_provenance p = v"
    "sp_evidence_ids p = c" "sp_relationships p = rs" "sp_owned_entity_ids p = b"
proof -
  note pe = new_projection_Inr [OF assms(1)]
  show "projection_ok p" using assms unfolding pe by (auto simp: projection_ok_def)
qed (simp_all add: new_projection_Inr [OF assms(1)])

lemma delete_unknown_Inr:
  assumes std: "clock_ok std" and con: "consistent std t j E R" and v: "provenance_ok v" and none: "recorded std j t key = None"
    and run: "delete_unknown std clock t key kind fp v m = (Inr rc, m')" and m: "facts std t j E R m"
  shows "\<exists>p. projection_ok p \<and> sp_tenant_id p = t \<and> sp_source_key p = key \<and> sp_state p = DELETED \<and> sp_fingerprint p = fp \<and>
     facts std t (journal_put std p j) E R m' \<and> consistent std t (journal_put std p j) E R"
proof -
  from run obtain now p where p: "new_source_projection
       \<lparr>sp_tenant_id = t, sp_source_key = key, sp_source_kind = kind, sp_state = DELETED, sp_fingerprint = fp,
        sp_provenance = v, sp_entity_ids = [], sp_owned_entity_ids = [], sp_evidence_ids = [], sp_relationships = [],
        sp_updated_at = utc now\<rparr> = Inr p" "mm_journal m' = journal_put std p (mm_journal m)" "mm_store m' = mm_store m"
    unfolding delete_unknown_def by (elim wbind_Inr) (auto simp: lift_res_def now_tick_def journalling_def)
  note pp = projection_parts [OF p(1) v, simplified]
  have "consistent std t (journal_put std p j) E R"
    using con none pp by (intro consistent_put [OF std con pp(1) pp(2) _ refl]) (auto simp: consistent_def)
  moreover have "facts std t (journal_put std p j) E R m'" using m p(2,3) by (simp add: facts_def)
  ultimately show ?thesis using pp by blast
qed

lemma delete_active_Inr:
  assumes std: "clock_ok std" and con: "consistent std t j E R" and v: "provenance_ok v" and prev: "recorded std j t key = Some q"
    and run: "delete_active std clock t key kind fp v q m = (Inr rc, m')" and m: "facts std t j E R m"
  shows "\<exists>p E' R'. projection_ok p \<and> sp_tenant_id p = t \<and> sp_source_key p = key \<and> sp_state p = DELETED \<and> sp_fingerprint p = fp \<and>
     facts std t (journal_put std p j) E' R' m' \<and> consistent std t (journal_put std p j) E' R'"
proof -
  have j: "journal_ok std j" and mj: "mm_journal m = j" using con m by (simp_all add: consistent_def facts_def)
  from run obtain active m2 m3 now p where act: "journal_active std t j = Inr active"
    and rec: "reconcile_relationships std clock t (Some q) None (filter (\<lambda>p. sp_source_key p \<noteq> key) active) m = (Inr (), m2)"
    and ret: "retire_unreferenced std clock t (Some q) (filter (\<lambda>p. sp_source_key p \<noteq> key) active) m2 = (Inr (), m3)"
    and p: "new_source_projection
         \<lparr>sp_tenant_id = t, sp_source_key = key, sp_source_kind = kind, sp_state = DELETED, sp_fingerprint = fp,
          sp_provenance = v, sp_entity_ids = sp_entity_ids q, sp_owned_entity_ids = sp_owned_entity_ids q,
          sp_evidence_ids = sp_evidence_ids q, sp_relationships = sp_relationships q, sp_updated_at = utc now\<rparr> = Inr p"
      "mm_journal m' = journal_put std p (mm_journal m3)" "mm_store m' = mm_store m3"
    unfolding delete_active_def Let_def by (elim wbind_Inr) (auto simp: lift_res_def now_tick_def journalling_def reading_def mj)
  have "\<forall>r \<in> set (sp_relationships q). relationship_ok r" using recorded_key [OF std j prev] by (simp add: projection_ok_def)
  note pp = projection_parts [OF p(1) v this]
  let ?ps = "filter (\<lambda>p. sp_source_key p \<noteq> key) active"
  have "memory_required t ''tenant_id'' 200 = Inr ()" using act by (auto simp: journal_active_def rbind_eq_Inr)
  then have ps: "set ?ps = {q \<in> active_projections std j t. sp_source_key q \<noteq> key}" using journal_active_recorded [OF std j] act by fastforce
  have prov: "\<forall>q \<in> set ?ps. provenance_ok (sp_provenance q)"
    using recorded_key [OF std j] unfolding ps by (auto simp: active_projections_def projection_ok_def)
  note f3 = tripleD [OF retire_triple [OF std] ret tripleD [OF reconcile_triple [OF std prov] rec m]]
  let ?E = "\<lambda>i. if (\<exists>q'. Some q = Some q' \<and> i \<in> set (sp_evidence_ids q')) \<and> (\<forall>p \<in> set ?ps. i \<notin> set (sp_evidence_ids p)) then None else E i"
  let ?R = "\<lambda>k. if \<exists>p. (Some q = Some p \<or> None = Some p) \<and> k \<in> membership_key ` set (sp_relationships p) then contributed (set ?ps) k else R k"
  have "mm_journal m3 = j" using f3 by (simp add: facts_def)
  then have "facts std t (journal_put std p j) ?E ?R m'" using f3 p(2,3) by (simp add: facts_def)
  moreover have "consistent std t (journal_put std p j) ?E ?R"
  proof (rule consistent_put [OF std con pp(1,2), where ps = "set ?ps"])
    show "set ?ps = {q \<in> active_projections std j t. sp_source_key q \<noteq> sp_source_key p} \<union> (if sp_state p = ACTIVE then {p} else {})"
      unfolding ps by (simp add: pp)
    show "?E i \<noteq> None" if "q' \<in> set ?ps" "i \<in> set (sp_evidence_ids q')" for q' i
    proof -
      have "E i \<noteq> None" using that con unfolding ps consistent_def by blast
      with that show ?thesis by auto
    qed
  qed (simp_all add: pp prev)
  ultimately show ?thesis using pp by blast
qed

section \<open>Snapshots and upserts\<close>

lemma required_same: "memory_required x l n = Inr () \<longleftrightarrow> store_required x l' n = Inr ()"
  by (simp add: memory_required_def store_required_def)

lemma snapshot_ok:
  assumes "clock_ok std" "store_ok std st" "snapshot std t st = Inr b"
  shows "brain_ok b"
proof -
  have t: "store_required t ''tenant_id'' 200 = Inr ()"
    using assms(3) by (auto simp: snapshot_def list_entities_def rbind_eq_Inr)
  have b: "brain_wf b" "map_of (br_entities b) = active std entity_codec (bs_entities st) t"
    "map_of (br_evidence b) = active std evidence_codec (bs_evidence st) t" "set (relationships b) = linked_facts std st t"
    using snapshot_spec [OF assms(1,2) t] assms(3) by (auto split: if_splits)
  have tbl: "table_ok std entity_codec entity_ok (bs_entities st)" "table_ok std evidence_codec evidence_ok (bs_evidence st)"
    "table_ok std relationship_codec relationship_ok (bs_relationships st)" using assms(2) by (simp_all add: store_ok_def)
  have "entity_ok (snd x)" if "x \<in> set (br_entities b)" for x
  proof -
    have "map_of (br_entities b) (fst x) = Some (snd x)" using that b(1) by (simp add: brain_wf_def)
    then show ?thesis unfolding b(2) using entities.active_key [OF assms(1) tbl(1)] by blast
  qed
  moreover have "evidence_ok (snd x)" if "x \<in> set (br_evidence b)" for x
  proof -
    have "map_of (br_evidence b) (fst x) = Some (snd x)" using that b(1) by (simp add: brain_wf_def)
    then show ?thesis unfolding b(3) using evidence.active_key [OF assms(1) tbl(2)] by blast
  qed
  moreover have "relationship_ok (snd x)" if "x \<in> set (br_relationships b)" for x
  proof -
    have "snd x \<in> linked_facts std st t" using that b(4) by (force simp: set_relationships)
    then obtain k where "active std relationship_codec (bs_relationships st) t k = Some (snd x)" by (auto simp: linked_facts_def)
    then show ?thesis using relations.active_key [OF assms(1) tbl(3)] by blast
  qed
  ultimately show ?thesis using b(1) by (simp add: brain_ok_def)
qed

text \<open>What is left in the journal by a projection that returns.\<close>

definition settled :: "py_std \<Rightarrow> string \<Rightarrow> string \<Rightarrow> projection_state \<Rightarrow> string \<Rightarrow> brain_provenance \<Rightarrow> memory \<Rightarrow> memory \<Rightarrow> bool" where
  "settled std t key target fp v m m' \<longleftrightarrow>
     (\<exists>E R. facts std t (mm_journal m') E R m' \<and> consistent std t (mm_journal m') E R) \<and>
     (\<exists>p. recorded std (mm_journal m') t key = Some p \<and> sp_state p = target \<and> (target = ACTIVE \<longrightarrow> sp_fingerprint p = fp) \<and>
        (mm_journal m' = mm_journal m \<or> sp_fingerprint p = fp))"

lemma settled_put:
  assumes "clock_ok std" "projection_ok p" "sp_tenant_id p = t" "sp_source_key p = key" "sp_state p = target" "sp_fingerprint p = fp"
    and "facts std t (journal_put std p j) E' R' m'" "consistent std t (journal_put std p j) E' R'"
  shows "settled std t key target fp v m m'"
proof -
  have "mm_journal m' = journal_put std p j" using assms(7) by (simp add: facts_def)
  with assms(3-8) recorded_put [OF assms(1,2)] show ?thesis unfolding settled_def by auto
qed

lemma upsert_materializes:
  assumes "upsert_source std clock t key kind fp project v m = (Inr rc, m')" "assert_not_conflicting_replay std t key fp ACTIVE v m = (Inr previous, m)"
    and "\<not> (case previous of None \<Rightarrow> False | Some q \<Rightarrow> sp_state q = ACTIVE \<and> sp_fingerprint q = fp)"
  obtains b res b' where "snapshot std t (mm_store m) = Inr b" "project b = (Inr res, b')"
    "materialize std clock t previous key kind fp v b' (pj_entity_ids res) (pj_evidence_id res) m = (Inr rc, m')"
  using assms by (auto simp: upsert_source_def wbind_def reading_def split: sum.splits prod.splits)

lemma upsert_settles:
  assumes std: "clock_ok std" and con: "consistent std t j E R" and v: "provenance_ok v" and project: "keeps brain_ok project"
    and run: "upsert_source std clock t key kind fp project v m = (Inr rc, m')" and m: "facts std t j E R m"
  shows "settled std t key ACTIVE fp v m m'"
proof -
  have j: "journal_ok std (mm_journal m)" and mj: "mm_journal m = j" using con m by (simp_all add: consistent_def facts_def)
  from run obtain previous where check: "assert_not_conflicting_replay std t key fp ACTIVE v m = (Inr previous, m)"
    unfolding upsert_source_def using replay_check_Inr(2) [OF std j] by (elim wbind_Inr) blast
  have prev: "previous = recorded std j t key" using replay_check_Inr(1) [OF std j check] mj by simp
  show ?thesis
  proof (cases "case previous of None \<Rightarrow> False | Some q \<Rightarrow> sp_state q = ACTIVE \<and> sp_fingerprint q = fp")
    case True
    with run check have "m' = m" by (simp add: upsert_source_def wbind_def)
    with True prev m con mj show ?thesis unfolding settled_def by (auto split: option.splits)
  next
    case False
    obtain b res b' where b: "snapshot std t (mm_store m) = Inr b" "project b = (Inr res, b')"
        "materialize std clock t previous key kind fp v b' (pj_entity_ids res) (pj_evidence_id res) m = (Inr rc, m')"
      by (rule upsert_materializes [OF run check False])
    have "store_ok std (mm_store m)" using m by (simp add: facts_def)
    from snapshot_ok [OF std this b(1)] have "brain_ok b'" using keeps_result [OF project _ b(2)] by blast
    from materialize_triple [OF std con prev v this b(3) m] settled_put [OF std] show ?thesis by blast
  qed
qed

lemma delete_settles:
  assumes std: "clock_ok std" and con: "consistent std t j E R" and v: "provenance_ok v"
    and run: "delete_source std clock t key kind fp v m = (Inr rc, m')" and m: "facts std t j E R m"
  shows "settled std t key DELETED fp v m m'"
proof -
  have j: "journal_ok std (mm_journal m)" and mj: "mm_journal m = j" using con m by (simp_all add: consistent_def facts_def)
  from run obtain previous where check: "assert_not_conflicting_replay std t key fp DELETED v m = (Inr previous, m)"
      and rest: "(case previous of None \<Rightarrow> delete_unknown std clock t key kind fp v
        | Some q \<Rightarrow> if sp_state q = DELETED then Pair (Inr (receipt_of q False True)) else delete_active std clock t key kind fp v q) m = (Inr rc, m')"
    unfolding delete_source_def using replay_check_Inr(2) [OF std j] by (elim wbind_Inr) blast
  have prev: "previous = recorded std j t key" using replay_check_Inr(1) [OF std j check] mj by simp
  show ?thesis
  proof (cases previous)
    case None
    with rest prev have "delete_unknown std clock t key kind fp v m = (Inr rc, m')" "recorded std j t key = None" by simp_all
    from delete_unknown_Inr [OF std con v this(2,1) m] settled_put [OF std] show ?thesis by blast
  next
    case (Some q)
    show ?thesis
    proof (cases "sp_state q = DELETED")
      case True
      with Some rest have "m' = m" by simp
      moreover have "recorded std (mm_journal m) t key = Some q" using prev Some mj by simp
      ultimately show ?thesis using True m con mj unfolding settled_def by auto
    next
      case False
      with Some rest prev have "delete_active std clock t key kind fp v q m = (Inr rc, m')" "recorded std j t key = Some q" by simp_all
      from delete_active_Inr [OF std con v this(2,1) m] settled_put [OF std] show ?thesis by blast
    qed
  qed
qed

end
