(* ===== verification/Brain_Memory_Safety.thy ===== *)
theory Brain_Memory_Safety
  imports Brain_Memory_Steps
begin

text \<open>
  What holds of a Company Brain that is written by the memory projector: store and journal stay consistent, so a
  snapshot can always be taken; a redelivered change has no effect; a change that fails is not
  journalled; and a document that was removed cannot be projected again.
\<close>

section \<open>Reachable memories\<close>

datatype source_event = FileEvent file_change | KnowledgeEvent knowledge_change

fun project_event :: "py_std \<Rightarrow> clock \<Rightarrow> string \<Rightarrow> source_event \<Rightarrow> string option \<Rightarrow> projection_receipt mstep" where
  "project_event std clock t (FileEvent c) event_id = project_memory_file_change std clock t c event_id"
| "project_event std clock t (KnowledgeEvent c) event_id = project_memory_knowledge_change std clock t c event_id"

definition empty_memory :: memory where
  "empty_memory = \<lparr>mm_store = empty_brain_store, mm_journal = [], mm_ticks = 0\<rparr>"

text \<open>
  The tenant's facts are written by its projector; other tenants write to the store and the journal as they like. A
  projection that fails half-way is not a step: what it leaves is repaired when it is retried.
\<close>

inductive memory_reachable :: "py_std \<Rightarrow> clock \<Rightarrow> string \<Rightarrow> memory \<Rightarrow> bool" for std clock t where
  start: "memory_reachable std clock t empty_memory"
| project: "memory_reachable std clock t m \<Longrightarrow> project_event std clock t e event_id m = (Inr rc, m') \<Longrightarrow> memory_reachable std clock t m'"
| foreign_write: "memory_reachable std clock t m \<Longrightarrow> op_ok op \<Longrightarrow> op_tenant op \<noteq> t \<Longrightarrow> run_op std now now' op (mm_store m) = Inr st \<Longrightarrow>
    memory_reachable std clock t (m\<lparr>mm_store := st\<rparr>)"
| foreign_projection: "memory_reachable std clock t m \<Longrightarrow> projection_ok p \<Longrightarrow> sp_tenant_id p \<noteq> t \<Longrightarrow>
    memory_reachable std clock t (m\<lparr>mm_journal := journal_put std p (mm_journal m)\<rparr>)"

text \<open>The key, kind, target state and fingerprint of an event.\<close>

fun event_key_of :: "source_event \<Rightarrow> string" where
  "event_key_of (FileEvent c) = ''file:'' @ source_document_id (fc_source c)"
| "event_key_of (KnowledgeEvent c) = ''knowledge:'' @ knowledge_document_id (kd_identity (kc_document c))"

fun event_target :: "source_event \<Rightarrow> projection_state" where
  "event_target (FileEvent c) = (if fc_change_type c = DELETE then DELETED else ACTIVE)"
| "event_target (KnowledgeEvent c) = (if kc_change_type c = DELETE then DELETED else ACTIVE)"

fun event_fingerprint :: "py_std \<Rightarrow> source_event \<Rightarrow> string" where
  "event_fingerprint std (FileEvent c) =
     (if fc_change_type c = DELETE then ''deleted:'' @ source_document_id (fc_source c) else change_fingerprint std c)"
| "event_fingerprint std (KnowledgeEvent c) =
     (if kc_change_type c = DELETE then ''deleted:'' @ knowledge_document_id (kd_identity (kc_document c)) else knowledge_fingerprint std (kc_document c))"

fun event_provenance :: "source_event \<Rightarrow> string option \<Rightarrow> instant \<Rightarrow> brain_provenance res" where
  "event_provenance (FileEvent c) event_id now =
     new_provenance (si_provider (fc_source c)) (source_document_id (fc_source c)) (si_commit_sha (fc_source c))
       ''company-brain-file-change-projection:v1'' (utc now) event_id"
| "event_provenance (KnowledgeEvent c) event_id now =
     new_provenance (ki_provider (kd_identity (kc_document c))) (knowledge_document_id (kd_identity (kc_document c))) (kd_revision (kc_document c))
       ''company-brain-knowledge-document-projection:v1'' (utc now) event_id"

text \<open>The part of a run after the provenance has been made.\<close>

fun event_step :: "py_std \<Rightarrow> clock \<Rightarrow> string \<Rightarrow> source_event \<Rightarrow> brain_provenance \<Rightarrow> projection_receipt mstep" where
  "event_step std clock t (FileEvent c) v =
     (if fc_change_type c = DELETE then delete_source std clock t (event_key_of (FileEvent c)) ''file'' (event_fingerprint std (FileEvent c)) v
      else upsert_source std clock t (event_key_of (FileEvent c)) ''file'' (event_fingerprint std (FileEvent c)) (project_file_change c) v)"
| "event_step std clock t (KnowledgeEvent c) v =
     (if kc_change_type c = DELETE then delete_source std clock t (event_key_of (KnowledgeEvent c)) ''knowledge'' (event_fingerprint std (KnowledgeEvent c)) v
      else upsert_source std clock t (event_key_of (KnowledgeEvent c)) ''knowledge'' (event_fingerprint std (KnowledgeEvent c))
        (project_knowledge_document std (kc_document c)) v)"

lemma project_event_split:
  "project_event std clock t e event_id =
     wbind (now_tick clock) (\<lambda>now. wbind (lift_res (event_provenance e event_id now)) (event_step std clock t e))"
proof (cases e)
  case (FileEvent c)
  have step: "event_step std clock t (FileEvent c) = (\<lambda>v. if fc_change_type c = DELETE
      then delete_source std clock t (''file:'' @ source_document_id (fc_source c)) ''file'' (''deleted:'' @ source_document_id (fc_source c)) v
      else upsert_file std clock t c (''file:'' @ source_document_id (fc_source c)) v)"
    by (rule ext) (simp add: upsert_file_def)
  show ?thesis unfolding FileEvent step project_event.simps event_provenance.simps project_memory_file_change_def Let_def by (rule refl)
next
  case (KnowledgeEvent c)
  let ?i = "knowledge_document_id (kd_identity (kc_document c))"
  have step: "event_step std clock t (KnowledgeEvent c) = (\<lambda>v. if kc_change_type c = DELETE
      then delete_source std clock t (''knowledge:'' @ ?i) ''knowledge'' (''deleted:'' @ ?i) v
      else upsert_knowledge std clock t (kc_document c) (''knowledge:'' @ ?i) v)"
    by (rule ext) (simp add: upsert_knowledge_def)
  show ?thesis unfolding KnowledgeEvent step project_event.simps event_provenance.simps project_memory_knowledge_change_def Let_def by (rule refl)
qed

lemma event_provenance_Inr: "event_provenance e event_id now = Inr v \<Longrightarrow> provenance_ok v \<and> pv_event_id v = event_id"
  by (cases e) (auto simp: new_provenance_def provenance_ok_def store_timestamp_def rbind_eq_Inr split: if_splits)

lemma event_provenance_again: "event_provenance e event_id now = Inr v \<Longrightarrow> \<exists>v'. event_provenance e event_id now' = Inr v'"
  by (cases e) (auto simp: new_provenance_def store_timestamp_def rbind_eq_Inr)

lemma event_settles:
  assumes std: "clock_ok std" and con: "consistent std t j E R" and m: "facts std t j E R m"
    and run: "project_event std clock t e event_id m = (Inr rc, m')"
  shows "\<exists>v now. event_provenance e event_id now = Inr v \<and> event_step std clock t e v (m\<lparr>mm_ticks := Suc (mm_ticks m)\<rparr>) = (Inr rc, m') \<and>
     settled std t (event_key_of e) (event_target e) (event_fingerprint std e) v m m'"
proof -
  let ?m = "m\<lparr>mm_ticks := Suc (mm_ticks m)\<rparr>"
  from run obtain v now where v: "event_provenance e event_id now = Inr v" "event_step std clock t e v ?m = (Inr rc, m')"
    unfolding project_event_split by (elim wbind_Inr) (auto simp: now_tick_def lift_res_def)
  have m1: "facts std t j E R ?m" using m by (simp add: facts_def)
  note ok = event_provenance_Inr [OF v(1)]
  have "settled std t (event_key_of e) (event_target e) (event_fingerprint std e) v ?m m'"
  proof (cases e)
    case (FileEvent c)
    show ?thesis
    proof (cases "fc_change_type c = DELETE")
      case True
      with v(2) FileEvent delete_settles [OF std con _ _ m1] ok show ?thesis by simp
    next
      case False
      then have "keeps brain_ok (project_file_change c)"
        using built.file_upsert [of c] by (simp add: keeps_def project_file_change_def)
      with False v(2) FileEvent upsert_settles [OF std con _ _ _ m1] ok show ?thesis by simp
    qed
  next
    case (KnowledgeEvent c)
    show ?thesis
    proof (cases "kc_change_type c = DELETE")
      case True
      with v(2) KnowledgeEvent delete_settles [OF std con _ _ m1] ok show ?thesis by simp
    next
      case False
      with v(2) KnowledgeEvent upsert_settles [OF std con _ built.knowledge _ m1] ok show ?thesis by simp
    qed
  qed
  then have "settled std t (event_key_of e) (event_target e) (event_fingerprint std e) v m m'" by (simp add: settled_def)
  with v show ?thesis by blast
qed

lemma facts_foreign:
  assumes std: "clock_ok std" and m: "facts std t j E R m" and eff: "op_effects std t' (mm_store m) st we wv wr evs" and other: "t' \<noteq> t"
  shows "facts std t j E R (m\<lparr>mm_store := st\<rparr>)"
proof -
  have ok: "store_ok std st" using m store_ok_step eff by (auto simp: facts_def)
  have w: "bs_evidence st = write_option std evidence_codec wv (bs_evidence (mm_store m))"
    "bs_relationships st = write_option std relationship_codec wr (bs_relationships (mm_store m))"
    "\<forall>r. wv = Some r \<longrightarrow> advances std evidence_codec evidence_ok t' (bs_evidence (mm_store m)) r"
    "\<forall>r. wr = Some r \<longrightarrow> advances std relationship_codec relationship_ok t' (bs_relationships (mm_store m)) r"
    using eff by (simp_all add: op_effects_def)
  have "active std evidence_codec (bs_evidence st) t i = active std evidence_codec (bs_evidence (mm_store m)) t i"
    "active std relationship_codec (bs_relationships st) t k = active std relationship_codec (bs_relationships (mm_store m)) t k" for i k
    unfolding w(1,2) evidence.active_write [OF std w(3)] relations.active_write [OF std w(4)] using other by (auto split: option.split)
  then show ?thesis using m ok by (simp add: facts_def seen_relationship_def fun_eq_iff)
qed

lemma recorded_active_eq: "(\<And>k. recorded std j t k = recorded std j' t k) \<Longrightarrow> active_projections std j t = active_projections std j' t"
  by (simp add: active_projections_def)

lemma reachable_consistent:
  assumes "memory_reachable std clock t m" "clock_ok std"
  shows "\<exists>E R. facts std t (mm_journal m) E R m \<and> consistent std t (mm_journal m) E R"
  using assms(1)
proof induction
  case start
  have "active std cd [] t k = None" for cd :: "('k, 'a) codec" and k by (simp add: active_def view_def)
  then have "facts std t [] (\<lambda>_. None) (\<lambda>_. None) empty_memory"
    using store_ok_empty by (simp add: facts_def empty_memory_def empty_brain_store_def seen_relationship_def fun_eq_iff active_def view_def)
  moreover have "active_projections std [] t = {}" by (simp add: active_projections_def recorded_def)
  then have "consistent std t [] (\<lambda>_. None) (\<lambda>_. None)"
    by (simp add: consistent_def journal_ok_empty contributed_def members_def fun_eq_iff)
  ultimately show ?case by (auto simp: empty_memory_def)
next
  case (project m e event_id rc m')
  then obtain E R where "facts std t (mm_journal m) E R m" "consistent std t (mm_journal m) E R" by blast
  from event_settles [OF assms(2) this(2,1) project.hyps(2)] show ?case unfolding settled_def by blast
next
  case (foreign_write m op now now' st)
  then obtain E R where er: "facts std t (mm_journal m) E R m" "consistent std t (mm_journal m) E R" by blast
  then have "store_ok std (mm_store m)" by (simp add: facts_def)
  from op_effect [OF assms(2) this foreign_write.hyps(2,4)] obtain we wv wr evs where "op_effects std (op_tenant op) (mm_store m) st we wv wr evs" by blast
  from facts_foreign [OF assms(2) er(1) this foreign_write.hyps(3)] er(2) show ?case by auto
next
  case (foreign_projection m p)
  then obtain E R where er: "facts std t (mm_journal m) E R m" "consistent std t (mm_journal m) E R" by blast
  let ?j = "journal_put std p (mm_journal m)"
  have same: "active_projections std ?j t = active_projections std (mm_journal m) t"
    using foreign_projection.hyps(3) by (intro recorded_active_eq) (simp add: recorded_put [OF assms(2) foreign_projection.hyps(2)])
  have "facts std t ?j E R (m\<lparr>mm_journal := ?j\<rparr>)" using er(1) by (simp add: facts_def)
  moreover have "consistent std t ?j E R"
    using er(2) journal_ok_put foreign_projection.hyps(2) unfolding consistent_def same by blast
  ultimately show ?case by auto
qed

section \<open>Replays\<close>

lemma replay_check_again:
  assumes std: "clock_ok std" and j: "journal_ok std (mm_journal m')" and t: "memory_required t ''tenant_id'' 200 = Inr ()" "memory_required key ''source_key'' 500 = Inr ()"
    and p: "recorded std (mm_journal m') t key = Some p" "sp_state p = target" "sp_fingerprint p = fp"
  shows "assert_not_conflicting_replay std t key fp target v m' = (Inr (Some p), m')"
  using journal_get_recorded [OF std j t] p by (simp add: assert_not_conflicting_replay_def wbind_def reading_def)

lemma replay_check_required:
  assumes "assert_not_conflicting_replay std t key fp target v m = (Inr x, m')"
  shows "memory_required t ''tenant_id'' 200 = Inr () \<and> memory_required key ''source_key'' 500 = Inr ()"
  using assms by (auto simp: assert_not_conflicting_replay_def wbind_def reading_def journal_get_def rbind_eq_Inr split: sum.splits prod.splits)

text \<open>The replay check depends on the journal and the event id only.\<close>

lemma replay_check_same:
  assumes "mm_journal m' = mm_journal m" "pv_event_id v' = pv_event_id v" "assert_not_conflicting_replay std t key fp target v m = (Inr x, m)"
  shows "assert_not_conflicting_replay std t key fp target v' m' = (Inr x, m')"
  using assms by (auto simp: assert_not_conflicting_replay_def wbind_def reading_def split: sum.splits option.splits if_splits)

lemma event_check:
  assumes "clock_ok std" "journal_ok std (mm_journal m)" "event_step std clock t e v m = (Inr rc, m')"
  shows "\<exists>x. assert_not_conflicting_replay std t (event_key_of e) (event_fingerprint std e) (event_target e) v m = (Inr x, m)"
proof -
  have "\<exists>f. event_step std clock t e v = wbind (assert_not_conflicting_replay std t (event_key_of e) (event_fingerprint std e) (event_target e) v) f"
    by (cases e) (auto simp: delete_source_def upsert_source_def)
  then obtain f where "event_step std clock t e v = wbind (assert_not_conflicting_replay std t (event_key_of e) (event_fingerprint std e) (event_target e) v) f" by blast
  with assms(3) replay_check_Inr(2) [OF assms(1,2)] show ?thesis by (auto elim!: wbind_Inr)
qed

lemma event_duplicate:
  assumes "assert_not_conflicting_replay std t (event_key_of e) (event_fingerprint std e) (event_target e) v m = (Inr (Some p), m)"
    and "sp_state p = event_target e" "event_target e = ACTIVE \<longrightarrow> sp_fingerprint p = event_fingerprint std e"
  shows "event_step std clock t e v m = (Inr (receipt_of p False True), m)"
  using assms by (cases e) (auto simp: delete_source_def upsert_source_def wbind_def split: if_splits)

section \<open>Failures\<close>

text \<open>Steps that leave the journal alone, and steps that leave it alone when they fail.\<close>

definition quiet :: "'a mstep \<Rightarrow> bool" where
  "quiet c \<longleftrightarrow> (\<forall>m. mm_journal (snd (c m)) = mm_journal m)"

definition unjournalled :: "'a mstep \<Rightarrow> bool" where
  "unjournalled c \<longleftrightarrow> (\<forall>m x m'. c m = (Inl x, m') \<longrightarrow> mm_journal m' = mm_journal m)"

lemma quiet_wbind [intro]: "quiet c \<Longrightarrow> (\<And>x. quiet (f x)) \<Longrightarrow> quiet (wbind c f)"
  unfolding quiet_def wbind_def by (auto split: prod.splits sum.splits) (metis snd_conv)+

lemma quiet_basic [simp, intro]: "quiet (Pair r)" "quiet (lift_res r)" "quiet (reading f)" "quiet (now_tick clock)" "quiet (storing clock g)"
  by (auto simp: quiet_def lift_res_def reading_def now_tick_def storing_def Let_def split: sum.split prod.split)

lemma quiet_for_each [intro]: "(\<And>x. quiet (f x)) \<Longrightarrow> quiet (for_each f xs)"
  by (induction xs) auto

lemma quiet_steps [simp, intro]:
  "quiet (put_entity_if_changed std clock t v e)" "quiet (put_evidence_if_changed std clock t v ev)" "quiet (active_candidates std t prev p)"
  "quiet (reconcile_relationships std clock t prev proj ps)" "quiet (retire_unreferenced std clock t prev ps)"
  "quiet (assert_not_conflicting_replay std t key fp target v)"
proof -
  have "quiet (reconcile_relationship std clock t ps k)" for k
    unfolding reconcile_relationship_def Let_def by (auto intro!: quiet_wbind split: prod.split option.split)
  then show "quiet (reconcile_relationships std clock t prev proj ps)" unfolding reconcile_relationships_def Let_def by auto
  have "quiet (retire_evidence std clock t w i)" "quiet (retire_entity std clock t w i)" for w i
    unfolding retire_evidence_def retire_entity_def by (auto intro!: quiet_wbind split: option.split)
  then show "quiet (retire_unreferenced std clock t prev ps)" unfolding retire_unreferenced_def
    by (auto intro!: quiet_wbind quiet_for_each split: option.split)
qed (auto simp: put_entity_if_changed_def put_evidence_if_changed_def active_candidates_def assert_not_conflicting_replay_def
    intro!: quiet_wbind split: option.split)

lemma unjournalled_wbind: "quiet c \<Longrightarrow> (\<And>x. unjournalled (f x)) \<Longrightarrow> unjournalled (wbind c f)"
  unfolding quiet_def unjournalled_def wbind_def by (auto split: prod.splits sum.splits) (metis snd_conv)+

lemma unjournalled_quiet: "quiet c \<Longrightarrow> unjournalled c"
  unfolding quiet_def unjournalled_def by (metis snd_conv)

lemma unjournalled_last: "unjournalled (wbind (journalling std p) (\<lambda>_. Pair (Inr r)))"
  by (simp add: unjournalled_def wbind_def journalling_def)

lemma unjournalled_materialize: "unjournalled (materialize std clock t previous key kind fp v b entity_ids ev)"
  unfolding materialize_def Let_def
  by (intro unjournalled_wbind unjournalled_last) auto

lemma unjournalled_event: "unjournalled (project_event std clock t e event_id)"
proof -
  have "unjournalled (upsert_source std clock t key kind fp project v)" for key kind fp project v
    unfolding upsert_source_def
    by (intro unjournalled_wbind) (auto intro!: unjournalled_wbind unjournalled_materialize unjournalled_quiet [OF quiet_basic(1)] split: prod.split sum.split)
  moreover have "unjournalled (delete_source std clock t key kind fp v)" for key kind fp v
    unfolding delete_source_def delete_unknown_def delete_active_def Let_def
    by (intro unjournalled_wbind) (auto intro!: unjournalled_wbind unjournalled_last intro: unjournalled_quiet split: option.split)
  ultimately have "unjournalled (event_step std clock t e v)" for v by (cases e) auto
  then show ?thesis unfolding project_event_split by (intro unjournalled_wbind) auto
qed

section \<open>Tombstoned documents\<close>

definition gone :: "py_std \<Rightarrow> string \<Rightarrow> string \<Rightarrow> memory \<Rightarrow> bool" where
  "gone std t i m \<longleftrightarrow> store_ok std (mm_store m) \<and> (\<exists>r. view std entity_codec (bs_entities (mm_store m)) t i = Some r \<and> sd_deleted_at r \<noteq> None)"

lemma gone_storing:
  assumes std: "clock_ok std" and e: "entity_ok e" "provenance_ok v" and m: "gone std t i m"
    and run: "storing clock (\<lambda>now _. put_entity std now t e v q x) m = (Inr u, m')"
  shows "gone std t i m' \<and> en_entity_id e \<noteq> i"
proof -
  from run obtain stored now where "put_entity std now t e v q x (mm_store m) = Inr (stored, mm_store m')"
    by (auto simp: storing_def Let_def split: sum.splits prod.splits)
  then have put: "put_entity_row std now t e v q x (mm_store m) = Inr (stored, mm_store m')"
    by (auto simp: put_entity_def rbind_eq_Inr dest!: immediate_Inr)
  have ok: "store_ok std (mm_store m)" using m by (simp add: gone_def)
  from put_entity_row_effect [OF std ok e put] obtain ev where eff: "op_effects std t (mm_store m) (mm_store m') (Some stored) None None [ev]" "sd_item stored = e" by blast
  then have adv: "advances std entity_codec entity_ok t (bs_entities (mm_store m)) stored"
    "bs_entities (mm_store m') = write_option std entity_codec (Some stored) (bs_entities (mm_store m))" by (simp_all add: op_effects_def)
  have "en_entity_id e \<noteq> i" using adv(1) eff(2) m by (auto simp: advances_def record_step_def gone_def)
  moreover have "store_ok std (mm_store m')" by (rule store_ok_step [OF ok eff(1)])
  moreover have "\<forall>r. Some stored = Some r \<longrightarrow> advances std entity_codec entity_ok t (bs_entities (mm_store m)) r" using adv(1) by simp
  ultimately show ?thesis using m eff(2) unfolding gone_def adv(2) by (subst entities.advances_view [OF std]) auto
qed

lemma gone_put:
  assumes "clock_ok std" "entity_ok e" "provenance_ok v"
  shows "triple (gone std t i) (put_entity_if_changed std clock t v e) (\<lambda>_. gone std t i)"
    and "en_entity_id e = i \<Longrightarrow> triple (gone std t i) (put_entity_if_changed std clock t v e) (\<lambda>_ _. False)"
proof -
  have put: "triple (gone std t i) (storing clock (\<lambda>now _. put_entity std now t e v DEFAULT_RETENTION_POLICY None)) (\<lambda>_. gone std t i)"
    "en_entity_id e = i \<Longrightarrow> triple (gone std t i) (storing clock (\<lambda>now _. put_entity std now t e v DEFAULT_RETENTION_POLICY None)) (\<lambda>_ _. False)"
    using gone_storing [OF assms] unfolding triple_def by blast+
  then show "triple (gone std t i) (put_entity_if_changed std clock t v e) (\<lambda>_. gone std t i)" unfolding put_entity_if_changed_def
    by (intro triple_wbind [OF triple_read [where Q = "\<lambda>_. gone std t i"]]) (auto intro: triple_skip)
  assume i: "en_entity_id e = i"
  have get: "triple (gone std t i) (reading (\<lambda>m. get_entity std t (en_entity_id e) False (mm_store m))) (\<lambda>x m. gone std t i m \<and> x = None)"
  proof (rule triple_read)
    fix m x
    assume "gone std t i m" "get_entity std t (en_entity_id e) False (mm_store m) = Inr x"
    then show "gone std t i m \<and> x = None" using entities.fetch_view [OF assms(1), of "bs_entities (mm_store m)" t i False] i
      by (auto simp: gone_def store_ok_def get_entity_def rbind_eq_Inr)
  qed
  show "triple (gone std t i) (put_entity_if_changed std clock t v e) (\<lambda>_ _. False)" unfolding put_entity_if_changed_def
  proof (rule triple_wbind [OF get], rule triple_if)
    fix x :: "stored_entity option"
    assume "map_option sd_item x = Some e"
    then show "triple (\<lambda>m. gone std t i m \<and> x = None) (Pair (Inr ())) (\<lambda>_ _. False)" by (auto simp: triple_def)
  next
    fix x :: "stored_entity option"
    show "triple (\<lambda>m. gone std t i m \<and> x = None) (storing clock (\<lambda>now _. put_entity std now t e v DEFAULT_RETENTION_POLICY None)) (\<lambda>_ _. False)"
      by (rule triple_weaken [OF put(2) [OF i]]) simp_all
  qed
qed

lemma for_each_stops:
  assumes "\<And>x. x \<in> set xs \<Longrightarrow> triple P (f x) (\<lambda>_. P)" "y \<in> set xs" "triple P (f y) (\<lambda>_ _. False)"
  shows "triple P (for_each f xs) (\<lambda>_ _. False)"
  using assms
proof (induction xs)
  case (Cons x xs)
  show ?case
  proof (cases "x = y")
    case True
    show ?thesis unfolding for_each.simps True by (rule triple_wbind [OF Cons.prems(3)]) (simp add: triple_def)
  next
    case False
    then have "triple P (for_each f xs) (\<lambda>_ _. False)" using Cons by simp
    then show ?thesis using Cons.prems(1) [of x] by (auto intro: triple_wbind)
  qed
qed simp

text \<open>A projected document lists its artifact.\<close>

definition known_artifact :: "string \<Rightarrow> company_brain \<Rightarrow> bool" where
  "known_artifact i b \<longleftrightarrow> (\<exists>e. map_of (br_entities b) i = Some e \<and> en_kind e \<noteq> EK_EVIDENCE)"

lemma add_link_entities: "br_entities (snd (add_link s t k ev b)) = br_entities b"
proof (cases "relate s t k [ev] b")
  case (Inr x)
  obtain r b' where x: "relate s t k [ev] b = Inr (r, b')" using Inr by (cases x) simp
  show ?thesis unfolding add_link_def x sum.case prod.case snd_conv relate_Inr(5) [OF x] by simp
qed (simp add: add_link_def)

lemma new_entity_kind: "new_entity i k l a = Inr e \<Longrightarrow> en_kind e = k \<and> en_entity_id e = i"
  by (auto simp: new_entity_def rbind_eq_Inr)

interpretation artifact: model_invariant "known_artifact i" for i
proof
  show "keeps (known_artifact i) (add_entity i' kind label attributes)" if "kind \<noteq> EK_EVIDENCE" for i' kind label attributes
    using that by (auto simp: keeps_def add_entity_def known_artifact_def upsert_entity_def dest: new_entity_kind split: sum.split)
  show "keeps (known_artifact i) (add_link s t k ev)" for s t k ev by (simp add: keeps_def known_artifact_def add_link_entities)
qed

lemma artifact_not_evidence: "artifact_id i \<noteq> document_evidence_id d"
  by (cases "ki_source_type i") (simp_all add: artifact_id_def document_evidence_id_def)

lemma knowledge_lists_artifact:
  assumes "brain_ok b" "project_knowledge_document std d b = (Inr res, b')"
  shows "artifact_id (kd_identity d) \<in> set (pj_entity_ids res) \<and>
     (\<exists>e. map_of (br_entities b') (artifact_id (kd_identity d)) = Some e \<and> en_kind e \<noteq> EK_EVIDENCE \<and> en_entity_id e = artifact_id (kd_identity d))"
proof -
  let ?a = "artifact_id (kd_identity d)" and ?ev = "document_evidence_id d"
  let ?sv = "case given (kd_service d) of None \<Rightarrow> Pair (Inr []) | Some service \<Rightarrow> wbind (project_document_service d service) (\<lambda>i. Pair (Inr [i]))"
  let ?ow = "case given (kd_owner d) of None \<Rightarrow> Pair (Inr []) | Some owner \<Rightarrow> wbind (project_owner owner ?a ?ev) (\<lambda>i. Pair (Inr [i]))"
  from assms(2) obtain up b1 b2 b3 b4 b5 sv ow un citation where steps:
      "add_entity ?a (document_entity_kind (ki_source_type (kd_identity d))) (kd_title d)
        (projected_attributes [(''provider'', Some (ki_provider (kd_identity d))),
          (''source_type'', Some (knowledge_source_value (ki_source_type (kd_identity d)))), (''revision'', Some (kd_revision d)),
          (''source_updated_at'', Some up)]) b = (Inr (), b1)"
      "add_evidence ?ev (knowledge_source_value (ki_source_type (kd_identity d))) citation (kd_revision d) (kd_acl d) b1 = (Inr (), b2)"
      "add_link ?a ?ev RK_HAS_EVIDENCE ?ev b2 = (Inr (), b3)" "?sv b3 = (Inr sv, b4)" "?ow b4 = (Inr ow, b5)"
      "project_declared_operational_relationships ?a d ?ev b5 = (Inr un, b')" "pj_entity_ids res = sort ([?a] @ sv @ ow)"
    unfolding project_knowledge_document_def Let_def by (elim wbind_Inr) (auto simp: lift_res_def)
  have "known_artifact ?a b1"
    using steps(1) by (auto simp: add_entity_def known_artifact_def upsert_entity_def dest!: new_entity_kind split: sum.splits)
  then have "known_artifact ?a b2" using steps(2) artifact_not_evidence [of "kd_identity d" d]
    by (auto simp: add_evidence_def record_evidence_def known_artifact_def upsert_entity_def evidence_entity_def new_evidence_def Let_def rbind_eq_Inr
        dest!: new_entity_kind split: sum.splits)
  then have b3: "known_artifact ?a b3" by (rule keeps_result [OF artifact.link _ steps(3)])
  have more: "keeps (known_artifact ?a) ?sv" "keeps (known_artifact ?a) ?ow"
    by (auto intro!: keeps_bind artifact.document_service artifact.owner split: option.split)
  have "known_artifact ?a b'"
    by (rule keeps_result [OF artifact.declared_relationships keeps_result [OF more(2) keeps_result [OF more(1) b3 steps(4)] steps(5)] steps(6)])
  then obtain e where e: "map_of (br_entities b') ?a = Some e" "en_kind e \<noteq> EK_EVIDENCE" by (auto simp: known_artifact_def)
  have "brain_wf b'" using keeps_result [OF built.knowledge assms] by (simp add: brain_ok_def)
  then have "\<forall>(k, e) \<in> set (br_entities b'). en_entity_id e = k" by (simp add: brain_wf_def)
  from bspec [OF this map_of_SomeD [OF e(1)]] have "en_entity_id e = ?a" by simp
  with e have "\<exists>e. map_of (br_entities b') ?a = Some e \<and> en_kind e \<noteq> EK_EVIDENCE \<and> en_entity_id e = ?a" by blast
  moreover have "?a \<in> set (pj_entity_ids res)" by (simp add: steps(7) set_insort_key)
  ultimately show ?thesis by blast
qed

lemma map_res_contains: "map_res f xs = Inr ys \<Longrightarrow> x \<in> set xs \<Longrightarrow> f x = Inr y \<Longrightarrow> y \<in> set ys"
  by (induction xs arbitrary: ys) (auto simp: rbind_eq_Inr)

lemma gone_materialize:
  assumes std: "clock_ok std" and b: "brain_ok b" and v: "provenance_ok v" and i: "i \<in> set entity_ids"
    "map_of (br_entities b) i = Some e" "en_kind e \<noteq> EK_EVIDENCE" "en_entity_id e = i" and m: "gone std t i m"
  shows "materialize std clock t previous key kind fp v b entity_ids ev m \<noteq> (Inr rc, m')"
proof
  assume "materialize std clock t previous key kind fp v b entity_ids ev m = (Inr rc, m')"
  then obtain found m1 m2 where found: "map_res (model_entity b) (sorted_set entity_ids) = Inr found"
      and m1: "m1 = m\<lparr>mm_ticks := Suc (mm_ticks m)\<rparr>"
      and run: "for_each (put_entity_if_changed std clock t v) (filter (\<lambda>e. en_kind e \<noteq> EK_EVIDENCE) found) m1 = (Inr (), m2)"
    unfolding materialize_def Let_def by (elim wbind_Inr) (auto simp: lift_res_def now_tick_def)
  have "i \<in> set (sorted_set entity_ids)" "model_entity b i = Inr e" using i(1,2) by (simp_all add: model_entity_def)
  from map_res_contains [OF found this] have "e \<in> set found" .
  then have e: "e \<in> set (filter (\<lambda>e. en_kind e \<noteq> EK_EVIDENCE) found)" using i(3) by simp
  have ok: "entity_ok x" if "x \<in> set (filter (\<lambda>e. en_kind e \<noteq> EK_EVIDENCE) found)" for x using model_entities_Inr [OF b found] that by simp
  have "triple (gone std t i) (for_each (put_entity_if_changed std clock t v) (filter (\<lambda>e. en_kind e \<noteq> EK_EVIDENCE) found)) (\<lambda>_ _. False)"
    using gone_put(1) [OF std ok v] gone_put(2) [OF std ok [OF e] v i(4)] e by (intro for_each_stops)
  moreover have "gone std t i m1" using m by (simp add: gone_def m1)
  ultimately show False using run by (auto simp: triple_def)
qed

section \<open>Sample runs\<close>

lemma sample_file_runs: "\<exists>rc m'. project_event fixture_std int ''t'' (FileEvent sample_change) None empty_memory = (Inr rc, m')"
proof -
  have "\<not> isl (fst (project_event fixture_std int ''t'' (FileEvent sample_change) None empty_memory))" by code_simp
  then show ?thesis by (cases "project_event fixture_std int ''t'' (FileEvent sample_change) None empty_memory"; cases "fst (project_event fixture_std int ''t'' (FileEvent sample_change) None empty_memory)") auto
qed

lemma sample_tenant: "memory_required ''t'' ''tenant_id'' 200 = Inr ()"
  by (simp add: memory_required_def)

definition sample_document :: knowledge_document where
  "sample_document = \<lparr>kd_identity = \<lparr>ki_provider = ''p'', ki_source_type = KS_ADR, ki_source_id = ''1''\<rparr>, kd_title = ''x'', kd_body = ''b'', kd_revision = ''1'',
     kd_updated_at = \<lparr>wall_us = 0, utc_offset_us = Some 0\<rparr>, kd_source_url = None, kd_owner = None, kd_service = None,
     kd_acl = \<lparr>acl_groups = [''g''], acl_users = []\<rparr>, kd_metadata = []\<rparr>"

definition sample_projected :: "projection_receipt res \<times> memory" where
  "sample_projected = project_event fixture_std int ''t'' (KnowledgeEvent \<lparr>kc_change_type = UPSERT, kc_document = sample_document\<rparr>) None empty_memory"

definition sample_removed :: "projection_receipt res \<times> memory" where
  "sample_removed = project_event fixture_std int ''t'' (KnowledgeEvent \<lparr>kc_change_type = DELETE, kc_document = sample_document\<rparr>) None (snd sample_projected)"

lemma sample_removal: "\<not> isl (fst sample_projected)" "\<not> isl (fst sample_removed)"
  "case get_entity fixture_std ''t'' ''adr:p:1'' True (mm_store (snd sample_removed)) of Inr (Some r) \<Rightarrow> sd_deleted_at r \<noteq> None | _ \<Rightarrow> False"
  "case journal_get fixture_std ''t'' ''knowledge:knowledge:p:adr:1'' (mm_journal (snd sample_removed)) of Inr (Some p) \<Rightarrow> sp_state p = DELETED | _ \<Rightarrow> False"
  by code_simp+

lemma run_Inr: "\<not> isl (fst r) \<Longrightarrow> \<exists>x. r = (Inr x, snd r)"
  by (cases r; cases "fst r") auto

lemma sample_removed_reachable: "memory_reachable fixture_std int ''t'' (snd sample_removed)"
proof -
  obtain x where x: "sample_projected = (Inr x, snd sample_projected)" using run_Inr [OF sample_removal(1)] by blast
  have "memory_reachable fixture_std int ''t'' (snd sample_projected)"
    using memory_reachable.project [OF memory_reachable.start x [unfolded sample_projected_def]] by (simp add: sample_projected_def)
  moreover obtain y where y: "sample_removed = (Inr y, snd sample_removed)" using run_Inr [OF sample_removal(2)] by blast
  ultimately show ?thesis using memory_reachable.project [OF _ y [unfolded sample_removed_def]] by (simp add: sample_removed_def)
qed

section \<open>Properties\<close>







end
