(* ===== verification/Kubernetes_Adapter.thy ===== *)
theory Kubernetes_Adapter
  imports Control_Loop Fallible_Loops
begin

text \<open>
  The Kubernetes action adapter: \<open>src/remediation/kubernetes_payload.py\<close>, which narrows the JSON of
  the API server, and \<open>src/remediation/kubernetes_adapter.py\<close>, which maps runbook identifiers to
  fixed \<open>kubectl\<close> argument vectors and evaluates preconditions and signals on what it reads. The
  command runner is an argument that acts on a world of any type, and so is the JSON reader
  (\<open>loads\<close>, \<open>None\<close> for a \<open>JSONDecodeError\<close>). A runner that records its argument vectors gives the
  traces of the lemmas; the wrapped adapter is an adapter of the control loop.
\<close>

section \<open>Python text operations\<close>

text \<open>\<open>str.isdigit\<close> and \<open>str.isalnum\<close> on the code points below 256.\<close>

definition py_isdigit :: "char \<Rightarrow> bool" where
  "py_isdigit c = (is_digit c \<or> (of_char c :: nat) \<in> {178, 179, 185})"

definition py_isalnum :: "char \<Rightarrow> bool" where
  "py_isalnum c = (let n = (of_char c :: nat) in
     is_alnum c \<or> py_isdigit c \<or> n \<in> {170, 181, 186, 188, 189, 190} \<or> (192 \<le> n \<and> n \<noteq> 215 \<and> n \<noteq> 247))"

definition line_break :: "char \<Rightarrow> bool" where
  "line_break c = ((of_char c :: nat) \<in> {10, 11, 12, 13, 28, 29, 30, 133})"

fun split_lines :: "string \<Rightarrow> string \<Rightarrow> string list" where
  "split_lines acc [] = (if acc = [] then [] else [rev acc])"
| "split_lines acc [c] = (if line_break c then [rev acc] else [rev (c # acc)])"
| "split_lines acc (c # d # cs) =
     (if of_char c = (13::nat) \<and> of_char d = (10::nat) then rev acc # split_lines [] cs
      else if line_break c then rev acc # split_lines [] (d # cs)
      else split_lines (c # acc) (d # cs))"

definition py_splitlines :: "string \<Rightarrow> string list" where
  "py_splitlines s = split_lines [] s"

definition strip_char :: "char \<Rightarrow> string \<Rightarrow> string" where
  "strip_char c s = rev (dropWhile (\<lambda>d. d = c) (rev (dropWhile (\<lambda>d. d = c) s)))"

definition rstrip_char :: "char \<Rightarrow> string \<Rightarrow> string" where
  "rstrip_char c s = rev (dropWhile (\<lambda>d. d = c) (rev s))"

text \<open>\<open>repr\<close> of a string, and \<open>str\<close>, \<open>repr\<close> and the truth value of a decoded JSON value.\<close>

definition repr_char :: "char \<Rightarrow> char \<Rightarrow> string" where
  "repr_char quote c = (let n = (of_char c :: nat) in
     if c = quote \<or> n = 92 then [CHR 0x5C, c]
     else if n = 9 then [CHR 0x5C, CHR ''t'']
     else if n = 10 then [CHR 0x5C, CHR ''n'']
     else if n = 13 then [CHR 0x5C, CHR ''r'']
     else if n < 32 \<or> (127 \<le> n \<and> n \<le> 160) \<or> n = 173
     then [CHR 0x5C, CHR ''x'', hex_char (n div 16), hex_char (n mod 16)]
     else [c])"

definition repr_str :: "string \<Rightarrow> string" where
  "repr_str s = (let quote = (if CHR 0x27 \<in> set s \<and> CHR 0x22 \<notin> set s then CHR 0x22 else CHR 0x27) in
     [quote] @ concat (map (repr_char quote) s) @ [quote])"

fun repr_json :: "py_std \<Rightarrow> json \<Rightarrow> string" where
  "repr_json std JNull = ''None''"
| "repr_json std (JBool b) = (if b then ''True'' else ''False'')"
| "repr_json std (JInt i) = str_int i"
| "repr_json std (JFloat r) = repr_float std r"
| "repr_json std (JStr s) = repr_str s"
| "repr_json std (JList xs) = ''['' @ py_join '', '' (map (repr_json std) xs) @ '']''"
| "repr_json std (JObj kvs) =
     ''{'' @ py_join '', '' (map (\<lambda>(k, v). repr_str k @ '': '' @ repr_json std v) kvs) @ ''}''"

definition str_json :: "py_std \<Rightarrow> json \<Rightarrow> string" where
  "str_json std j = (case j of JStr s \<Rightarrow> s | _ \<Rightarrow> repr_json std j)"

fun truthy :: "json \<Rightarrow> bool" where
  "truthy JNull = False"
| "truthy (JBool b) = b"
| "truthy (JInt i) = (i \<noteq> 0)"
| "truthy (JFloat r) = (r \<noteq> 0)"
| "truthy (JStr s) = (s \<noteq> [])"
| "truthy (JList xs) = (xs \<noteq> [])"
| "truthy (JObj kvs) = (kvs \<noteq> [])"

section \<open>Narrowing payloads\<close>

type_synonym kubernetes_object = "(string \<times> json) list"

definition parse_object :: "(string \<Rightarrow> json option) \<Rightarrow> string \<Rightarrow> string \<Rightarrow> kubernetes_object res" where
  "parse_object loads context raw =
     (case loads raw of
        None \<Rightarrow> Inl (KubernetesPayloadError (''Kubernetes '' @ context @ '' response is not JSON''))
      | Some (JObj kvs) \<Rightarrow> Inr kvs
      | Some _ \<Rightarrow> Inl (KubernetesPayloadError (''Kubernetes '' @ context @ '' response must be an object'')))"

definition object_field :: "kubernetes_object \<Rightarrow> string \<Rightarrow> kubernetes_object res" where
  "object_field payload field =
     (case map_of payload field of
        None \<Rightarrow> Inr []
      | Some JNull \<Rightarrow> Inr []
      | Some (JObj kvs) \<Rightarrow> Inr kvs
      | Some _ \<Rightarrow> Inl (KubernetesPayloadError (''Kubernetes field '' @ repr_str field @ '' must be an object'')))"

definition object_entry :: "string \<Rightarrow> json \<Rightarrow> kubernetes_object res" where
  "object_entry context v =
     (case v of JObj kvs \<Rightarrow> Inr kvs
      | _ \<Rightarrow> Inl (KubernetesPayloadError (''Kubernetes '' @ context @ '' must contain objects'')))"

definition object_list :: "json option \<Rightarrow> string \<Rightarrow> kubernetes_object list res" where
  "object_list value context =
     (case value of
        None \<Rightarrow> Inr []
      | Some JNull \<Rightarrow> Inr []
      | Some (JList xs) \<Rightarrow> map_res (object_entry context) xs
      | Some _ \<Rightarrow> Inl (KubernetesPayloadError (''Kubernetes '' @ context @ '' must be a list'')))"

definition kube_integer_field :: "kubernetes_object \<Rightarrow> string \<Rightarrow> int \<Rightarrow> int \<Rightarrow> int res" where
  "kube_integer_field payload field fallback minimum =
     (let bad = Inl (KubernetesPayloadError
          (''Kubernetes field '' @ repr_str field @ '' must be an integer >= '' @ str_int minimum)) in
      case map_of payload field of
        None \<Rightarrow> Inr fallback
      | Some JNull \<Rightarrow> Inr fallback
      | Some (JInt i) \<Rightarrow> if i < minimum then bad else Inr i
      | Some _ \<Rightarrow> bad)"

text \<open>\<open>str(payload.get(field) or "")\<close> and \<open>str(payload.get(field, ""))\<close>.\<close>

definition text_or_empty :: "py_std \<Rightarrow> kubernetes_object \<Rightarrow> string \<Rightarrow> string" where
  "text_or_empty std payload field =
     (case map_of payload field of None \<Rightarrow> [] | Some v \<Rightarrow> if truthy v then str_json std v else [])"

definition text_default :: "py_std \<Rightarrow> kubernetes_object \<Rightarrow> string \<Rightarrow> string" where
  "text_default std payload field = (case map_of payload field of None \<Rightarrow> [] | Some v \<Rightarrow> str_json std v)"

section \<open>Names, commands and reads\<close>

record command_result =
  cr_returncode :: int
  cr_stdout :: string
  cr_stderr :: string

type_synonym 'w command_runner = "string list \<Rightarrow> string option \<Rightarrow> 'w \<Rightarrow> command_result res \<times> 'w"

record kube_config =
  kc_namespace :: string
  kc_label_key :: string
  kc_trusted :: "string list"

definition safe_name :: "string \<Rightarrow> string res" where
  "safe_name value =
     (let bad = Inl (ValueError ''invalid Kubernetes name'') in
      if value = [] \<or> 63 < length value then bad
      else if py_lower value \<noteq> value \<or>
              \<not> list_all (\<lambda>ch. ch \<in> set ''abcdefghijklmnopqrstuvwxyz0123456789-.'') value then bad
      else if hd value \<in> set ''-.'' \<or> last value \<in> set ''-.'' then bad
      else Inr value)"

definition safe_label_key :: "string \<Rightarrow> string res" where
  "safe_label_key value =
     (let bad = Inl (ValueError ''invalid Kubernetes label key'') in
      if value = [] \<or> 253 < length value then bad
      else if \<not> list_all (\<lambda>ch. ch \<in> set ''abcdefghijklmnopqrstuvwxyzABCDEFGHIJKLMNOPQRSTUVWXYZ0123456789-._/'') value
      then bad
      else Inr value)"

definition kube_adapter_init :: "string \<Rightarrow> string \<Rightarrow> string list \<Rightarrow> kube_config res" where
  "kube_adapter_init namespace label_key trusted =
     rbind (safe_name namespace) (\<lambda>ns. rbind (safe_label_key label_key) (\<lambda>key.
     Inr \<lparr>kc_namespace = ns, kc_label_key = key, kc_trusted = trusted\<rparr>))"

definition checked :: "string \<Rightarrow> command_result \<Rightarrow> command_result res" where
  "checked fallback result =
     (if cr_returncode result \<noteq> 0
      then Inl (RuntimeError (if py_strip (cr_stderr result) \<noteq> [] then py_strip (cr_stderr result) else fallback))
      else Inr result)"

definition kubectl :: "'w command_runner \<Rightarrow> kube_config \<Rightarrow> string list \<Rightarrow> 'w \<Rightarrow> command_result res \<times> 'w" where
  "kubectl run k args =
     wbind (run ([''kubectl'', ''-n'', kc_namespace k] @ args) None) (\<lambda>result.
     lift_res (checked ''kubectl command failed'' result))"

definition deployment_of ::
    "(string \<Rightarrow> json option) \<Rightarrow> 'w command_runner \<Rightarrow> kube_config \<Rightarrow> action_request \<Rightarrow> 'w \<Rightarrow> kubernetes_object res \<times> 'w" where
  "deployment_of loads run k q =
     wbind (lift_res (safe_name (rq_service q))) (\<lambda>deployment.
     wbind (kubectl run k [''get'', ''deployment/'' @ deployment, ''-o'', ''json'']) (\<lambda>result.
     lift_res (parse_object loads ''deployment'' (cr_stdout result))))"

definition pods_of ::
    "(string \<Rightarrow> json option) \<Rightarrow> 'w command_runner \<Rightarrow> kube_config \<Rightarrow> action_request \<Rightarrow> 'w \<Rightarrow> kubernetes_object list res \<times> 'w" where
  "pods_of loads run k q =
     wbind (lift_res (safe_name (rq_service q))) (\<lambda>deployment.
     wbind (kubectl run k [''get'', ''pods'', ''-l'', kc_label_key k @ ''='' @ deployment, ''-o'', ''json'']) (\<lambda>result.
     lift_res (rbind (parse_object loads ''pod list'' (cr_stdout result)) (\<lambda>payload.
       object_list (map_of payload ''items'') ''pod list items''))))"

section \<open>Safety conditions\<close>

definition is_degraded :: "kubernetes_object \<Rightarrow> bool res" where
  "is_degraded payload =
     rbind (object_field payload ''spec'') (\<lambda>spec.
     rbind (object_field payload ''status'') (\<lambda>status.
     rbind (kube_integer_field spec ''replicas'' 1 1) (\<lambda>desired.
     rbind (kube_integer_field status ''readyReplicas'' 0 0) (\<lambda>ready.
     rbind (kube_integer_field status ''availableReplicas'' 0 0) (\<lambda>available.
     Inr (ready < desired \<or> available < desired))))))"

definition status_has_reason :: "py_std \<Rightarrow> string list \<Rightarrow> kubernetes_object \<Rightarrow> bool res" where
  "status_has_reason std reasons status =
     rbind (rbind (object_field status ''state'') (\<lambda>s. object_field s ''waiting'')) (\<lambda>current.
     rbind (rbind (object_field status ''lastState'') (\<lambda>s. object_field s ''terminated'')) (\<lambda>previous.
     Inr (text_or_empty std current ''reason'' \<in> set reasons \<or> text_or_empty std previous ''reason'' \<in> set reasons)))"

text \<open>A loop that returns at the first hit.\<close>

fun any_res :: "('a \<Rightarrow> bool res) \<Rightarrow> 'a list \<Rightarrow> bool res" where
  "any_res p [] = Inr False"
| "any_res p (x # xs) = rbind (p x) (\<lambda>b. if b then Inr True else any_res p xs)"

definition pod_reason_present :: "py_std \<Rightarrow> kubernetes_object list \<Rightarrow> string list \<Rightarrow> bool res" where
  "pod_reason_present std pods reasons =
     any_res (\<lambda>pod. rbind (object_field pod ''status'') (\<lambda>status.
       rbind (object_list (map_of status ''containerStatuses'') ''pod containerStatuses'') (\<lambda>statuses.
       any_res (status_has_reason std reasons) statuses))) pods"

definition memory_preapproved :: "py_std \<Rightarrow> kubernetes_object \<Rightarrow> bool res" where
  "memory_preapproved std deployment =
     rbind (object_field deployment ''metadata'') (\<lambda>metadata.
     rbind (object_field metadata ''annotations'') (\<lambda>annotations.
     Inr (py_lower (text_default std annotations ''eip.simdream.io/memory-profile-approved'') = ''true'')))"

definition revision_lines :: "string \<Rightarrow> string list" where
  "revision_lines out = filter (\<lambda>line. case py_strip line of [] \<Rightarrow> False | c # _ \<Rightarrow> py_isdigit c) (py_splitlines out)"

section \<open>Preflight\<close>

fun check_conditions ::
    "py_std \<Rightarrow> (string \<Rightarrow> json option) \<Rightarrow> 'w command_runner \<Rightarrow> kube_config \<Rightarrow> action_request \<Rightarrow> kubernetes_object \<Rightarrow>
       kubernetes_object list option \<Rightarrow> string list \<Rightarrow> 'w \<Rightarrow> preflight_answer res \<times> 'w" where
  "check_conditions std loads run k q deployment pods [] =
     lift_res (Inr (PrePair True ''all certified runbook preconditions satisfied''))"
| "check_conditions std loads run k q deployment pods (condition # pending) =
     (if condition = ''deployment.exists'' then check_conditions std loads run k q deployment pods pending
      else if condition = ''deployment.degraded'' then
        wbind (lift_res (is_degraded deployment)) (\<lambda>degraded.
        if \<not> degraded then lift_res (Inr (PrePair False ''precondition failed: deployment is not degraded''))
        else check_conditions std loads run k q deployment pods pending)
      else if condition = ''rollout.history_available'' then
        wbind (lift_res (safe_name (rq_service q))) (\<lambda>name.
        wbind (kubectl run k [''rollout'', ''history'', ''deployment/'' @ name]) (\<lambda>history.
        if length (revision_lines (cr_stdout history)) < 2
        then lift_res (Inr (PrePair False ''precondition failed: rollback history has fewer than two revisions''))
        else check_conditions std loads run k q deployment pods pending))
      else if condition \<in> {''pods.crashloop_present'', ''pods.oomkilled_present''} then
        wbind (case pods of Some ps \<Rightarrow> lift_res (Inr ps) | None \<Rightarrow> pods_of loads run k q) (\<lambda>ps.
        wbind (lift_res (pod_reason_present std ps
          [if condition = ''pods.crashloop_present'' then ''CrashLoopBackOff'' else ''OOMKilled''])) (\<lambda>present.
        if \<not> present then lift_res (Inr (PrePair False (''precondition failed: '' @ condition)))
        else check_conditions std loads run k q deployment (Some ps) pending))
      else if condition = ''memory.profile_preapproved'' then
        wbind (lift_res (memory_preapproved std deployment)) (\<lambda>approved.
        if \<not> approved then lift_res (Inr (PrePair False ''precondition failed: memory profile is not pre-approved''))
        else check_conditions std loads run k q deployment pods pending)
      else lift_res (Inr (PrePair False (''unsupported precondition: '' @ condition))))"

definition kube_preflight ::
    "py_std \<Rightarrow> (string \<Rightarrow> json option) \<Rightarrow> 'w command_runner \<Rightarrow> kube_config \<Rightarrow> runbook \<Rightarrow> action_request \<Rightarrow> 'w \<Rightarrow>
       preflight_answer res \<times> 'w" where
  "kube_preflight std loads run k rb q =
     (let pending = filter (\<lambda>c. c \<notin> set (kc_trusted k)) (rb_preconditions rb) in
      if pending = []
      then lift_res (Inr (PrePair True ''all runbook preconditions were validated against the source environment''))
      else wbind (deployment_of loads run k q) (\<lambda>deployment.
        check_conditions std loads run k q deployment None pending))"

section \<open>Execution, verification and rollback\<close>

definition stdout_or :: "string \<Rightarrow> command_result \<Rightarrow> string" where
  "stdout_or fallback result = (let out = py_strip (cr_stdout result) in if out \<noteq> [] then out else fallback)"

definition set_memory ::
    "py_std \<Rightarrow> (string \<Rightarrow> json option) \<Rightarrow> 'w command_runner \<Rightarrow> kube_config \<Rightarrow> action_request \<Rightarrow> string \<Rightarrow> string \<Rightarrow>
       string \<Rightarrow> string \<Rightarrow> 'w \<Rightarrow> command_result res \<times> 'w" where
  "set_memory std loads run k q deployment limit_key request_key missing =
     wbind (deployment_of loads run k q) (\<lambda>payload.
     wbind (lift_res (rbind (object_field payload ''metadata'') (\<lambda>m. object_field m ''annotations''))) (\<lambda>annotations.
     let limit = text_or_empty std annotations limit_key; request_memory = text_or_empty std annotations request_key in
     if limit = [] \<or> request_memory = [] then lift_res (Inl (RuntimeError missing))
     else kubectl run k [''set'', ''resources'', ''deployment/'' @ deployment, ''--limits=memory='' @ limit,
       ''--requests=memory='' @ request_memory]))"

definition kube_execute ::
    "py_std \<Rightarrow> (string \<Rightarrow> json option) \<Rightarrow> 'w command_runner \<Rightarrow> kube_config \<Rightarrow> string \<Rightarrow> action_request \<Rightarrow> 'w \<Rightarrow>
       string res \<times> 'w" where
  "kube_execute std loads run k runbook_id q =
     wbind (lift_res (safe_name (rq_service q))) (\<lambda>deployment.
     wbind (if runbook_id \<in> {''aks.rollout.undo'', ''aks.rollback.readiness''}
            then kubectl run k [''rollout'', ''undo'', ''deployment/'' @ deployment]
            else if runbook_id \<in> {''aks.restart.workload'', ''aks.restart.crashloop'', ''aks.restart.oom''}
            then kubectl run k [''rollout'', ''restart'', ''deployment/'' @ deployment]
            else if runbook_id = ''aks.scale.memory''
            then set_memory std loads run k q deployment ''eip.simdream.io/memory-limit'' ''eip.simdream.io/memory-request''
              ''pre-approved memory profile values are missing''
            else lift_res (Inl (ValueError (''runbook has no Kubernetes action adapter: '' @ runbook_id)))) (\<lambda>result.
     lift_res (Inr (stdout_or (''kubectl:'' @ runbook_id @ '':'' @ deployment) result))))"

definition kube_verify ::
    "py_std \<Rightarrow> (string \<Rightarrow> json option) \<Rightarrow> 'w command_runner \<Rightarrow> kube_config \<Rightarrow> string \<Rightarrow> action_request \<Rightarrow> 'w \<Rightarrow>
       bool res \<times> 'w" where
  "kube_verify std loads run k signal q =
     (if signal \<in> {''deployment.available_replicas'', ''deployment.ready_replicas''} then
        wbind (deployment_of loads run k q) (\<lambda>payload. lift_res (
          rbind (object_field payload ''status'') (\<lambda>status.
          rbind (object_field payload ''spec'') (\<lambda>spec.
          rbind (kube_integer_field spec ''replicas'' 1 1) (\<lambda>desired.
          rbind (kube_integer_field status ''availableReplicas'' 0 0) (\<lambda>available.
          rbind (kube_integer_field status ''readyReplicas'' 0 0) (\<lambda>ready.
          Inr (if signal = ''deployment.available_replicas'' then desired \<le> available else desired \<le> ready))))))))
      else if signal = ''container.oom_count'' then
        wbind (pods_of loads run k q) (\<lambda>pods.
          lift_res (rbind (pod_reason_present std pods [''OOMKilled'']) (\<lambda>present. Inr (\<not> present))))
      else lift_res (Inl (ValueError (''unsupported verification signal: '' @ signal))))"

definition kube_rollback ::
    "py_std \<Rightarrow> (string \<Rightarrow> json option) \<Rightarrow> 'w command_runner \<Rightarrow> kube_config \<Rightarrow> string \<Rightarrow> action_request \<Rightarrow> 'w \<Rightarrow>
       string res \<times> 'w" where
  "kube_rollback std loads run k rollback_id q =
     wbind (lift_res (safe_name (rq_service q))) (\<lambda>deployment.
     if rollback_id = ''aks.rollout.redo''
     then lift_res (Inl (RuntimeError (''automatic redo is not safely defined for deployment/'' @ deployment @ ''; escalate'')))
     else if rollback_id = ''aks.scale.memory.rollback''
     then wbind (set_memory std loads run k q deployment ''eip.simdream.io/memory-previous-limit''
         ''eip.simdream.io/memory-previous-request'' ''previous memory profile is unavailable; escalate'') (\<lambda>result.
       lift_res (Inr (stdout_or (''kubectl:'' @ rollback_id @ '':'' @ deployment) result)))
     else lift_res (Inl (ValueError (''rollback has no Kubernetes action adapter: '' @ rollback_id))))"

definition kube_adapter :: "py_std \<Rightarrow> (string \<Rightarrow> json option) \<Rightarrow> 'w command_runner \<Rightarrow> kube_config \<Rightarrow> 'w adapter" where
  "kube_adapter std loads run k =
     \<lparr>ad_execute = kube_execute std loads run k, ad_verify = kube_verify std loads run k,
      ad_rollback = kube_rollback std loads run k, ad_preflight = Some (kube_preflight std loads run k)\<rparr>"

end
