(* ===== verification/Adapter_Frame.thy ===== *)
theory Adapter_Frame
  imports Control_Loop
begin

text \<open>
  What an adapter may do to the world, lifted to the control loop around it. \<open>adapter_frame\<close> is the
  contract of an adapter whose four operations only move the world along a preorder;
  \<open>loop_frame\<close> adds the evaluator and the lock manager, and gives the same of the whole loop,
  progressive rollouts, rollbacks and refusals included.
\<close>

locale world_order =
  fixes R :: "'w \<Rightarrow> 'w \<Rightarrow> bool"
  assumes same: "R w w"
    and trans: "R u v \<Longrightarrow> R v w \<Longrightarrow> R u w"

locale adapter_frame = world_order R for R :: "'w \<Rightarrow> 'w \<Rightarrow> bool" +
  fixes ad :: "'w adapter" and q :: action_request
  assumes execute: "R w (snd (ad_execute ad i q w))"
    and verify: "R w (snd (ad_verify ad s q w))"
    and rollback: "R w (snd (ad_rollback ad i q w))"
    and checker: "ad_preflight ad = Some f \<Longrightarrow> R w (snd (f rb q w))"
begin

lemma preflight_moves: "R w (snd (preflight ad rb q w))"
proof (cases "ad_preflight ad")
  case (Some f)
  moreover obtain r w' where "f rb q w = (r, w')" by fastforce
  ultimately show ?thesis using checker [OF Some, of w rb]
    by (auto simp: preflight_def split: sum.split preflight_answer.split)
qed (simp add: preflight_def same)

lemma call_rollback_moves: "R w (snd (call_rollback ad rb q w))"
  using rollback [of w] by (auto simp: call_rollback_def same split: option.split prod.split) (metis snd_conv)

lemma progressive_moves: "R w (snd (execute_progressive ad rb q strategy w))"
proof -
  obtain c w1 where c: "ad_execute ad (rb_id rb @ ''.canary'') q w = (c, w1)" by fastforce
  let ?s = "case strategy of None \<Rightarrow> default_strategy | Some s \<Rightarrow> s"
  obtain v w2 where v: "ad_verify ad (can_canary_verify_signal ?s) q w1 = (v, w2)" by fastforce
  obtain r w3 where r: "call_rollback ad rb q w2 = (r, w3)" by fastforce
  obtain f w4 where f: "ad_execute ad (rb_id rb) q w2 = (f, w4)" by fastforce
  obtain u w5 where u: "ad_verify ad (can_full_verify_signal ?s) q w4 = (u, w5)" by fastforce
  obtain b w6 where b: "call_rollback ad rb q w5 = (b, w6)" by fastforce
  have steps: "R w w1" "R w1 w2" "R w2 w3" "R w2 w4" "R w4 w5" "R w5 w6"
    using execute [of w] verify [of w1] call_rollback_moves [of w2 rb] execute [of w2] verify [of w4]
      call_rollback_moves [of w5 rb] c v r f u b by (metis snd_conv)+
  note two = trans [OF steps(1,2)]
  note four = trans [OF two steps(4)]
  note five = trans [OF four steps(5)]
  note two [THEN trans, OF steps(3)] five [THEN trans, OF steps(6)] steps(1) four five
  moreover have "snd (execute_progressive ad rb q strategy w) \<in> {w1, w3, w4, w5, w6}"
    by (simp add: execute_progressive_def Let_def c v r f u b split: sum.split prod.split)
  ultimately show ?thesis by auto
qed

lemma run_moves: "R w (snd (run_execution_and_verify ad rb q d canary w))"
proof (cases canary)
  case None
  obtain e w1 where e: "ad_execute ad (rb_id rb) q w = (e, w1)" by fastforce
  obtain v w2 where v: "ad_verify ad (rb_verify_signal rb) q w1 = (v, w2)" by fastforce
  obtain r w3 where r: "call_rollback ad rb q w2 = (r, w3)" by fastforce
  have "R w w1" "R w1 w2" "R w2 w3"
    using execute [of w] verify [of w1] call_rollback_moves [of w2 rb] e v r by (metis snd_conv)+
  moreover have "snd (run_execution_and_verify ad rb q d canary w) \<in> {w1, w2, w3}"
    by (simp add: None run_execution_and_verify_def Let_def e v r split: sum.split)
  ultimately show ?thesis by (auto intro: trans)
next
  case (Some s)
  moreover obtain x w1 where "execute_progressive ad rb q (Some s) w = (x, w1)" by fastforce
  ultimately show ?thesis using progressive_moves [of w rb "Some s"] by (simp add: run_execution_and_verify_def)
qed

end

locale loop_frame = adapter_frame R "la_adapter a" "la_request a" for R :: "'w \<Rightarrow> 'w \<Rightarrow> bool" and a :: "'w loop_args" +
  fixes std :: py_std
  assumes evaluated: "R w (snd (loop_evaluate std a rb w))"
    and acquired: "R w (snd (loop_lease a w))"
    and given_back: "R w (give_back a lease w)"
begin

lemma loop_moves: "R w (snd (execute_control_loop std a w))"
proof -
  obtain out w' where run: "execute_control_loop std a w = (out, w')" by fastforce
  have step: "R w (snd (preflight (la_adapter a) rb (la_request a) (snd (loop_evaluate std a rb w))))" for rb
    using trans [OF evaluated preflight_moves] by simp
  have "R w w'"
    using loop_cases [OF run]
  proof (elim disjE conjE exE)
    fix rb ev w2 lease w3 res w4
    assume c: "cleared std a w rb ev w2" and l: "loop_lease a w2 = ((lease, None), w3)"
      and e: "run_execution_and_verify (la_adapter a) rb (la_request a) (as_policy_decision ev)
        (la_canary_strategy a) w3 = (res, w4)" and w': "w' = give_back a lease w4"
    from c have "w2 = snd (preflight (la_adapter a) rb (la_request a) (snd (loop_evaluate std a rb w)))"
      unfolding cleared_def by auto
    with step have "R w w2" by simp
    moreover have "R w2 w3" using acquired [of w2] l by simp
    moreover have "R w3 w4" using run_moves [of w3] e by (metis snd_conv)
    ultimately show "R w w'" unfolding w' by (meson given_back trans)
  qed (use same evaluated step trans [OF step acquired] in auto)
  then show ?thesis using run by simp
qed

end

end
