(* ===== verification/Kubernetes_Safety.thy ===== *)
theory Kubernetes_Safety
  imports Kubernetes_Adapter Adapter_Frame
begin

text \<open>
  What the Kubernetes adapter may run. A runner that records every argument vector it is given
  makes the commands visible; \<open>kube_read\<close> and \<open>kube_mutation\<close> are the fixed vectors of a namespace
  and a service. Preflight and verification only read; execution and rollback read and mutate;
  nothing else is ever run, by the adapter or by a control loop over it. The preconditions the
  adapter accepts are those it has observed, and a malformed payload is never healthy.
\<close>

section \<open>Recorded commands\<close>

definition traced_run :: "'w command_runner \<Rightarrow> (string list list \<times> 'w) command_runner" where
  "traced_run run argv input s = (case run argv input (snd s) of (r, w) \<Rightarrow> (r, (fst s @ [argv], w)))"

text \<open>The world has moved by running commands that all satisfy a predicate.\<close>

definition ran :: "(string list \<Rightarrow> bool) \<Rightarrow> string list list \<times> 'w \<Rightarrow> string list list \<times> 'w \<Rightarrow> bool" where
  "ran P s s' \<longleftrightarrow> (\<exists>new. fst s' = fst s @ new \<and> list_all P new)"

definition issues :: "(string list \<Rightarrow> bool) \<Rightarrow> (string list list \<times> 'w \<Rightarrow> 'b \<times> (string list list \<times> 'w)) \<Rightarrow> bool" where
  "issues P m \<longleftrightarrow> (\<forall>s. ran P s (snd (m s)))"

lemma ran_same [simp]: "ran P s s"
  by (simp add: ran_def)

lemma ran_trans: "ran P s t \<Longrightarrow> ran P t u \<Longrightarrow> ran P s u"
  by (auto simp: ran_def)

lemma ran_mono: "ran P s t \<Longrightarrow> (\<And>argv. P argv \<Longrightarrow> Q argv) \<Longrightarrow> ran Q s t"
  by (auto simp: ran_def list_all_iff)

lemma issues_mono: "issues P m \<Longrightarrow> (\<And>argv. P argv \<Longrightarrow> Q argv) \<Longrightarrow> issues Q m"
  unfolding issues_def using ran_mono by blast

lemma issuesD: "issues P m \<Longrightarrow> ran P s (snd (m s))"
  by (simp only: issues_def)

lemma issues_lift [simp, intro]: "issues P (lift_res r)"
  by (simp add: issues_def lift_res_def)

lemma issues_wbind [intro]:
  assumes "issues P m" "\<And>x. issues P (f x)"
  shows "issues P (wbind m f)"
  unfolding issues_def
proof
  fix s
  obtain r t where r: "m s = (r, t)" by (metis surj_pair)
  with assms(1) have "ran P s t" unfolding issues_def by (metis snd_conv)
  moreover have "ran P t (snd (f x t))" for x using assms(2) unfolding issues_def by blast
  ultimately show "ran P s (snd (wbind m f s))" using r by (auto simp: wbind_def split: sum.split intro: ran_trans)
qed

lemma issues_if: "issues P m \<Longrightarrow> issues P m' \<Longrightarrow> issues P (if c then m else m')"
  by simp

lemma issues_traced: "P argv \<Longrightarrow> issues P (traced_run run argv input)"
  by (auto simp: issues_def ran_def traced_run_def split: prod.split)

lemma issues_kubectl: "P ([''kubectl'', ''-n'', kc_namespace k] @ args) \<Longrightarrow> issues P (kubectl (traced_run run) k args)"
  unfolding kubectl_def by (intro issues_wbind issues_traced issues_lift)

interpretation command_order: world_order "ran P" for P
  by unfold_locales (auto intro: ran_trans)

section \<open>The fixed commands\<close>

definition kube_read :: "kube_config \<Rightarrow> string \<Rightarrow> string list \<Rightarrow> bool" where
  "kube_read k service argv \<longleftrightarrow> argv \<in> set (map ((@) [''kubectl'', ''-n'', kc_namespace k])
     [[''get'', ''deployment/'' @ service, ''-o'', ''json''],
      [''get'', ''pods'', ''-l'', kc_label_key k @ ''='' @ service, ''-o'', ''json''],
      [''rollout'', ''history'', ''deployment/'' @ service]])"

definition kube_mutation :: "string \<Rightarrow> string \<Rightarrow> string list \<Rightarrow> bool" where
  "kube_mutation ns service argv \<longleftrightarrow>
     argv \<in> {[''kubectl'', ''-n'', ns, ''rollout'', verb, ''deployment/'' @ service] | verb. verb \<in> {''undo'', ''restart''}} \<or>
     (\<exists>limit request_memory. limit \<noteq> [] \<and> request_memory \<noteq> [] \<and>
        argv = [''kubectl'', ''-n'', ns, ''set'', ''resources'', ''deployment/'' @ service,
          ''--limits=memory='' @ limit, ''--requests=memory='' @ request_memory])"

abbreviation kube_command :: "kube_config \<Rightarrow> string \<Rightarrow> string list \<Rightarrow> bool" where
  "kube_command k service argv \<equiv> kube_read k service argv \<or> kube_mutation (kc_namespace k) service argv"

lemma read_not_mutation: "kube_read k service argv \<Longrightarrow> \<not> kube_mutation ns' service' argv"
  by (auto simp: kube_read_def kube_mutation_def)

lemma safe_name_same: "safe_name x = Inr y \<Longrightarrow> y = x"
  by (auto simp: safe_name_def Let_def split: if_splits)

lemma issues_safe_name:
  assumes "safe_name x = Inr x \<Longrightarrow> issues P (f x)"
  shows "issues P (wbind (lift_res (safe_name x)) f)"
proof (cases "safe_name x")
  case (Inl e)
  then show ?thesis by (simp add: issues_def lift_res_bind)
next
  case (Inr y)
  with assms safe_name_same [OF Inr] show ?thesis by (simp add: issues_def lift_res_bind)
qed

lemma reads_deployment: "issues (kube_read k (rq_service q)) (deployment_of loads (traced_run run) k q)"
  unfolding deployment_of_def
  by (intro issues_safe_name issues_wbind issues_kubectl issues_lift) (simp add: kube_read_def)

lemma reads_pods: "issues (kube_read k (rq_service q)) (pods_of loads (traced_run run) k q)"
  unfolding pods_of_def
  by (intro issues_safe_name issues_wbind issues_kubectl issues_lift) (simp add: kube_read_def)

lemma reads_conditions:
  "issues (kube_read k (rq_service q)) (check_conditions std loads (traced_run run) k q deployment pods conditions)"
proof (induction conditions arbitrary: pods)
  case (Cons c cs)
  have history: "kube_read k (rq_service q) ([''kubectl'', ''-n'', kc_namespace k] @ [''rollout'', ''history'', ''deployment/'' @ rq_service q])"
    by (simp add: kube_read_def)
  have pods: "issues (kube_read k (rq_service q)) (case pods of Some ps \<Rightarrow> lift_res (Inr ps) | None \<Rightarrow> pods_of loads (traced_run run) k q)"
    by (simp add: reads_pods split: option.split)
  show ?case
    unfolding check_conditions.simps
    by (intro issues_if issues_wbind issues_safe_name issues_kubectl history pods issues_lift Cons.IH)
qed simp

lemma preflight_reads: "issues (kube_read k (rq_service q)) (kube_preflight std loads (traced_run run) k rb q)"
  unfolding kube_preflight_def Let_def
  by (intro issues_if issues_lift issues_wbind reads_deployment reads_conditions)

lemma verify_reads: "issues (kube_read k (rq_service q)) (kube_verify std loads (traced_run run) k signal q)"
  unfolding kube_verify_def by (intro issues_if issues_lift issues_wbind reads_deployment reads_pods)

lemma set_memory_commands:
  "issues (kube_command k (rq_service q)) (set_memory std loads (traced_run run) k q (rq_service q) limit_key request_key missing)"
proof -
  have "issues (kube_command k (rq_service q)) (if limit = [] \<or> request_memory = [] then lift_res r else
      kubectl (traced_run run) k [''set'', ''resources'', ''deployment/'' @ rq_service q, ''--limits=memory='' @ limit,
       ''--requests=memory='' @ request_memory])" for limit request_memory r
  proof (cases "limit = [] \<or> request_memory = []")
    case False
    then show ?thesis by (auto intro!: issues_kubectl simp: kube_mutation_def)
  qed auto
  then show ?thesis
    unfolding set_memory_def Let_def
    by (intro issues_wbind issues_lift) (auto intro: issues_mono [OF reads_deployment])
qed

lemma execute_commands: "issues (kube_command k (rq_service q)) (kube_execute std loads (traced_run run) k i q)"
  unfolding kube_execute_def
  by (intro issues_safe_name issues_wbind issues_if issues_lift set_memory_commands issues_kubectl) (auto simp: kube_mutation_def)

lemma rollback_commands: "issues (kube_command k (rq_service q)) (kube_rollback std loads (traced_run run) k i q)"
  unfolding kube_rollback_def by (intro issues_safe_name issues_wbind issues_if issues_lift set_memory_commands)

interpretation kube: adapter_frame "ran (kube_command k (rq_service q))" "kube_adapter std loads (traced_run run) k" q
  for k q std loads run
proof (unfold_locales, goal_cases)
  case (1 w i) show ?case by (simp add: kube_adapter_def issuesD [OF execute_commands])
next
  case (2 w s) show ?case by (simp add: kube_adapter_def ran_mono [OF issuesD [OF verify_reads]])
next
  case (3 w i) show ?case by (simp add: kube_adapter_def issuesD [OF rollback_commands])
next
  case (4 f w rb) then show ?case by (auto simp: kube_adapter_def intro: ran_mono [OF issuesD [OF preflight_reads]])
qed

section \<open>The control loop over the adapter\<close>

definition kube_loop_args ::
    "py_std \<Rightarrow> (string \<Rightarrow> json option) \<Rightarrow> 'w command_runner \<Rightarrow> kube_config \<Rightarrow> 'w loop_args \<Rightarrow> (string list list \<times> 'w) loop_args" where
  "kube_loop_args std loads run k a =
     lift_args (kube_adapter std loads (traced_run run) k) (map_option lift_manager (la_lock a)) a"

lemma kube_loop_evaluate [simp]:
  "loop_evaluate std (kube_loop_args std loads run k a) rb = on_snd (loop_evaluate std a rb)"
  by (simp add: kube_loop_args_def)

lemma kube_loop_request [simp]:
  "la_request (kube_loop_args std loads run k a) = la_request a"
  "la_adapter (kube_loop_args std loads run k a) = kube_adapter std loads (traced_run run) k"
  by (simp_all add: kube_loop_args_def)

lemma kube_loop_lease: "fst (snd (loop_lease (kube_loop_args std loads run k a) s)) = fst s"
  using lift_acquire [of "la_lock a" _ _ _ "fst s" "snd s"] by (simp add: loop_lease_def kube_loop_args_def)

lemma kube_give_back: "fst (give_back (kube_loop_args std loads run k a) lease s) = fst s"
  by (cases "la_lock a"; cases lease) (simp_all add: give_back_def kube_loop_args_def lift_manager_def)

lemma ran_quiet: "fst s' = fst s \<Longrightarrow> ran P s s'"
  by (simp add: ran_def)

interpretation kube_loop: loop_frame "ran (kube_command k (rq_service (la_request a)))" "kube_loop_args std loads run k a" std
  for k a std loads run
proof -
  show "loop_frame (ran (kube_command k (rq_service (la_request a)))) (kube_loop_args std loads run k a) std"
    unfolding loop_frame_def loop_frame_axioms_def kube_loop_request
    by (intro conjI allI kube.adapter_frame_axioms ran_quiet) (simp_all add: kube_loop_lease kube_give_back)
qed

lemma not_run_quiet:
  assumes "execute_control_loop std (kube_loop_args std loads run k a) s = (out, s')" "not_run out"
  shows "ran (kube_read k (rq_service (la_request a))) s s'"
proof -
  let ?a = "kube_loop_args std loads run k a" and ?P = "kube_read k (rq_service (la_request a))"
  have "ran ?P s (snd (preflight (la_adapter ?a) rb (la_request ?a) s1))" if "fst s1 = fst s" for rb s1
  proof -
    have "ran ?P s1 (snd (preflight (la_adapter ?a) rb (la_request ?a) s1))"
      using issuesD [OF preflight_reads [of k "la_request a" std loads run rb], of s1]
      by (auto simp: preflight_def kube_adapter_def split: prod.split sum.split preflight_answer.split)
    with that show ?thesis by (simp add: ran_def)
  qed
  note pre = this
  have quiet: "fst (snd (loop_evaluate std ?a rb s)) = fst s" for rb by simp
  from loop_cases [OF assms(1)] show ?thesis
  proof (elim disjE conjE exE)
    fix rb ev w2 lease w3 res w4
    assume "run_execution_and_verify (la_adapter ?a) rb (la_request ?a) (as_policy_decision ev) (la_canary_strategy ?a) w3 = (res, w4)"
      "out = Inr res"
    with assms(2) show ?thesis using run_verified_iff [of "la_adapter ?a" rb "la_request ?a"] by (fastforce simp: not_run_def)
  next
    fix rb w1 w2
    assume w1: "w1 = snd (loop_evaluate std ?a rb s)" and w2: "w2 = snd (preflight (la_adapter ?a) rb (la_request ?a) w1)"
    have same: "fst w1 = fst s" and read: "ran ?P s w2" unfolding w2 w1 using quiet pre by blast+
    show ?thesis if "s' = w1" using same that by (simp add: ran_quiet)
    show ?thesis if "s' = w2" using read that by simp
    show ?thesis if "s' = snd (loop_lease ?a w2)" using read that by (simp add: ran_def kube_loop_lease)
  qed simp
qed

section \<open>Preconditions are observed\<close>

text \<open>
  A cluster at rest answers a command the same way whenever it is asked, and reading does not
  change it. There, each precondition has a truth value, or a reason why it has none.
\<close>

definition at_rest :: "'w command_runner \<Rightarrow> (string list \<Rightarrow> command_result) \<Rightarrow> bool" where
  "at_rest run cluster \<longleftrightarrow> (\<forall>argv w. run argv None w = (Inr (cluster argv), w))"

definition answer :: "kube_config \<Rightarrow> (string list \<Rightarrow> command_result) \<Rightarrow> string list \<Rightarrow> string res" where
  "answer k cluster args = rbind (checked ''kubectl command failed'' (cluster ([''kubectl'', ''-n'', kc_namespace k] @ args))) (\<lambda>r. Inr (cr_stdout r))"

definition observed_deployment ::
    "(string \<Rightarrow> json option) \<Rightarrow> kube_config \<Rightarrow> (string list \<Rightarrow> command_result) \<Rightarrow> action_request \<Rightarrow> kubernetes_object res" where
  "observed_deployment loads k cluster q =
     rbind (safe_name (rq_service q)) (\<lambda>d. rbind (answer k cluster [''get'', ''deployment/'' @ d, ''-o'', ''json'']) (parse_object loads ''deployment''))"

definition observed_pods ::
    "(string \<Rightarrow> json option) \<Rightarrow> kube_config \<Rightarrow> (string list \<Rightarrow> command_result) \<Rightarrow> action_request \<Rightarrow> kubernetes_object list res" where
  "observed_pods loads k cluster q =
     rbind (safe_name (rq_service q)) (\<lambda>d. rbind (answer k cluster [''get'', ''pods'', ''-l'', kc_label_key k @ ''='' @ d, ''-o'', ''json'']) (\<lambda>out.
     rbind (parse_object loads ''pod list'' out) (\<lambda>p. object_list (map_of p ''items'') ''pod list items'')))"

definition condition_observed ::
    "py_std \<Rightarrow> (string \<Rightarrow> json option) \<Rightarrow> kube_config \<Rightarrow> (string list \<Rightarrow> command_result) \<Rightarrow> action_request \<Rightarrow> kubernetes_object \<Rightarrow> string \<Rightarrow> bool res" where
  "condition_observed std loads k cluster q deployment c =
     (if c = ''deployment.exists'' then Inr True
      else if c = ''deployment.degraded'' then is_degraded deployment
      else if c = ''rollout.history_available'' then
        rbind (answer k cluster [''rollout'', ''history'', ''deployment/'' @ rq_service q]) (\<lambda>out. Inr (2 \<le> length (revision_lines out)))
      else if c = ''pods.crashloop_present'' then
        rbind (observed_pods loads k cluster q) (\<lambda>ps. pod_reason_present std ps [''CrashLoopBackOff''])
      else if c = ''pods.oomkilled_present'' then
        rbind (observed_pods loads k cluster q) (\<lambda>ps. pod_reason_present std ps [''OOMKilled''])
      else if c = ''memory.profile_preapproved'' then memory_preapproved std deployment
      else Inr False)"

lemma at_rest_kubectl:
  "at_rest run cluster \<Longrightarrow> kubectl run k args w =
     (checked ''kubectl command failed'' (cluster ([''kubectl'', ''-n'', kc_namespace k] @ args)), w)"
  by (simp add: at_rest_def kubectl_def wbind_def lift_res_def)

lemma at_rest_deployment: "at_rest run cluster \<Longrightarrow> deployment_of loads run k q w = (observed_deployment loads k cluster q, w)"
  by (auto simp: deployment_of_def observed_deployment_def answer_def lift_res_bind at_rest_kubectl wbind_def lift_res_def
      rbind_def split: sum.split)

lemma at_rest_pods: "at_rest run cluster \<Longrightarrow> pods_of loads run k q w = (observed_pods loads k cluster q, w)"
  by (auto simp: pods_of_def observed_pods_def answer_def lift_res_bind at_rest_kubectl wbind_def lift_res_def
      rbind_def split: sum.split)

text \<open>The conditions are decided one after the other; the pods are read at most once.\<close>

lemma conditions_observed:
  assumes rest: "at_rest run cluster" and safe: "safe_name (rq_service q) = Inr (rq_service q)"
    and pods: "pods = None \<or> (\<exists>ps. pods = Some ps \<and> observed_pods loads k cluster q = Inr ps)"
  shows "(\<exists>reason. fst (check_conditions std loads run k q deployment pods cs w) = Inr (PrePair True reason)) \<longleftrightarrow>
     (\<forall>c \<in> set cs. condition_observed std loads k cluster q deployment c = Inr True)"
  using pods
proof (induction cs arbitrary: pods)
  case (Cons c cs)
  have read: "(case pods of Some ps \<Rightarrow> lift_res (Inr ps) | None \<Rightarrow> pods_of loads run k q) w = (observed_pods loads k cluster q, w)"
    using Cons.prems by (auto simp: at_rest_pods [OF rest] lift_res_def)
  note IH = Cons.IH [OF Cons.prems] and IH_read = Cons.IH [of "Some _", simplified]
  note defs = condition_observed_def answer_def at_rest_kubectl [OF rest] safe lift_res_bind
  consider "c = ''deployment.exists''" | "c = ''deployment.degraded''" | "c = ''rollout.history_available''"
    | "c \<in> {''pods.crashloop_present'', ''pods.oomkilled_present''}" | "c = ''memory.profile_preapproved''"
    | "c \<notin> {''deployment.exists'', ''deployment.degraded'', ''rollout.history_available'', ''pods.crashloop_present'',
        ''pods.oomkilled_present'', ''memory.profile_preapproved''}" unfolding insert_iff empty_iff by argo
  then show ?case
  proof cases
    case 3
    then show ?thesis using IH by (simp add: defs wbind_def lift_res_def rbind_def not_less split: sum.split)
  next
    case 4
    let ?reason = "[if c = ''pods.crashloop_present'' then ''CrashLoopBackOff'' else ''OOMKilled'']"
    have run: "check_conditions std loads run k q deployment pods (c # cs) w = (case observed_pods loads k cluster q of
        Inl e \<Rightarrow> (Inl e, w) | Inr ps \<Rightarrow> (case pod_reason_present std ps ?reason of Inl e \<Rightarrow> (Inl e, w) | Inr b \<Rightarrow>
          if \<not> b then (Inr (PrePair False (''precondition failed: '' @ c)), w)
          else check_conditions std loads run k q deployment (Some ps) cs w))"
      unfolding check_conditions.simps wbind_def using 4 by (elim insertE emptyE) (simp_all add: read lift_res_def split: sum.split)
    have cond: "condition_observed std loads k cluster q deployment c =
        rbind (observed_pods loads k cluster q) (\<lambda>ps. pod_reason_present std ps ?reason)"
      using 4 by (auto simp: condition_observed_def)
    show ?thesis unfolding run using IH_read by (auto simp: cond rbind_def split: sum.split)
  next
    case 6
    then have "check_conditions std loads run k q deployment pods (c # cs) w = (Inr (PrePair False (''unsupported precondition: '' @ c)), w)"
      "condition_observed std loads k cluster q deployment c = Inr False"
      by (simp_all add: lift_res_def condition_observed_def)
    then show ?thesis by simp
  qed (use IH in \<open>simp_all add: defs lift_res_def split: sum.split\<close>)
qed (simp add: lift_res_def)

section \<open>Typed payloads\<close>

text \<open>An optional field of an API object with the shape the adapter relies on.\<close>

definition object_typed :: "kubernetes_object \<Rightarrow> string \<Rightarrow> kubernetes_object \<Rightarrow> bool" where
  "object_typed payload field kvs \<longleftrightarrow> (map_of payload field \<in> {None, Some JNull} \<and> kvs = []) \<or> map_of payload field = Some (JObj kvs)"

definition int_typed :: "kubernetes_object \<Rightarrow> string \<Rightarrow> int \<Rightarrow> int \<Rightarrow> int \<Rightarrow> bool" where
  "int_typed payload field absent minimum i \<longleftrightarrow>
     (map_of payload field \<in> {None, Some JNull} \<and> i = absent) \<or> (map_of payload field = Some (JInt i) \<and> minimum \<le> i)"

lemma object_field_typed: "object_field payload field = Inr kvs \<longleftrightarrow> object_typed payload field kvs"
  by (auto simp: object_field_def object_typed_def split: option.split json.split)

lemma kube_integer_field_typed: "kube_integer_field payload field absent minimum = Inr i \<longleftrightarrow> int_typed payload field absent minimum i"
  by (auto simp: kube_integer_field_def int_typed_def Let_def split: option.split json.split)

lemma int_typed_minimum: "int_typed payload field absent minimum i \<Longrightarrow> minimum \<le> absent \<Longrightarrow> minimum \<le> i"
  by (auto simp: int_typed_def)

text \<open>A failed read is the only other way out: the narrowing never yields a value of the wrong shape.\<close>

lemma field_errors:
  "object_field payload field = Inl e \<Longrightarrow> \<exists>m. e = KubernetesPayloadError m"
  "kube_integer_field payload field absent minimum = Inl e \<Longrightarrow> \<exists>m. e = KubernetesPayloadError m"
  by (auto simp: object_field_def kube_integer_field_def Let_def split: option.splits json.splits if_splits)

section \<open>Canary rollouts\<close>

lemma canary_unknown: "rb_id rb @ ''.canary'' \<notin> {''aks.rollout.undo'', ''aks.rollback.readiness'', ''aks.restart.workload'',
    ''aks.restart.crashloop'', ''aks.restart.oom'', ''aks.scale.memory''}"
proof -
  have "last (rb_id rb @ ''.canary'') = CHR ''y''" "length (rb_id rb @ ''.canary'') \<ge> 7"
      "last (butlast (rb_id rb @ ''.canary'')) = CHR ''r''" by (simp_all add: butlast_append)
  then show ?thesis by auto
qed

lemma canary_refused: "\<exists>e. kube_execute std loads run k (rb_id rb @ ''.canary'') q w = (Inl (ValueError e), w)"
proof (cases "safe_name (rq_service q)")
  case (Inl e)
  then show ?thesis by (auto simp: kube_execute_def lift_res_bind safe_name_def Let_def split: if_splits)
next
  case (Inr d)
  then show ?thesis using canary_unknown [of rb]
    by (simp add: kube_execute_def lift_res_bind wbind_def lift_res_def del: append_is_Nil_conv)
qed

definition in_namespace :: "string \<Rightarrow> kube_config" where
  "in_namespace ns = \<lparr>kc_namespace = ns, kc_label_key = ''app'', kc_trusted = []\<rparr>"

section \<open>A concrete cluster\<close>

text \<open>A deployment with one of two replicas ready, and a runner that always answers with it.\<close>

definition sample_deployment :: kubernetes_object where
  "sample_deployment = [(''metadata'', JObj [(''name'', JStr ''payments'')]),
     (''spec'', JObj [(''replicas'', JInt 2), (''template'', JObj [(''spec'', JObj [(''serviceAccountName'', JStr ''payments'')])])]),
     (''status'', JObj [(''readyReplicas'', JInt 1), (''availableReplicas'', JInt 2)])]"

definition sample_loads :: "string \<Rightarrow> json option" where
  "sample_loads raw = (if raw = ''deployment'' then Some (JObj sample_deployment) else None)"

definition sample_cluster :: "string list \<Rightarrow> command_result" where
  "sample_cluster argv = \<lparr>cr_returncode = 0, cr_stdout = ''deployment'', cr_stderr = []\<rparr>"

definition sample_run :: "nat command_runner" where
  "sample_run argv input w = (Inr (sample_cluster argv), w)"

definition sample_kube_runbook :: runbook where
  "sample_kube_runbook = sample_l4_runbook\<lparr>rb_preconditions := [''deployment.exists'', ''deployment.degraded''],
     rb_verify_signal := ''deployment.available_replicas''\<rparr>"

definition sample_kube_args :: "nat loop_args" where
  "sample_kube_args = sample_loop_args\<lparr>la_catalog := [(''aks.rollout.undo'', sample_kube_runbook)]\<rparr>"

lemma sample_kube_run:
  "case execute_control_loop fixture_std (kube_loop_args fixture_std sample_loads sample_run (in_namespace ''shop'') sample_kube_args) ([], 0) of
     (out, s) \<Rightarrow> length (fst s) = 3 \<and> fst s ! 1 = [''kubectl'', ''-n'', ''shop'', ''rollout'', ''undo'', ''deployment/payments'']"
  by code_simp

section \<open>Properties\<close>

text \<open>C27. 
  A control loop over the Kubernetes adapter runs only the fixed \<open>kubectl\<close> commands of the
  adapter's namespace on the deployment of the request, whatever the runner, the evaluator and the
  lock manager do; and when it reports that nothing was done, it has only read.
\<close>

theorem kube_loop_runs_fixed_commands:
  assumes "execute_control_loop std (kube_loop_args std loads run k a) ([], w) = (out, (t, w'))"
  shows "(\<forall>argv \<in> set t. kube_read k (rq_service (la_request a)) argv \<or> kube_mutation (kc_namespace k) (rq_service (la_request a)) argv) \<and>
     (not_run out \<longrightarrow> (\<forall>argv \<in> set t. kube_read k (rq_service (la_request a)) argv))"
proof -
  have "ran (kube_command k (rq_service (la_request a))) ([], w) (t, w')"
    using kube_loop.loop_moves assms by (metis snd_conv)
  moreover have "not_run out \<Longrightarrow> ran (kube_read k (rq_service (la_request a))) ([], w) (t, w')"
    using not_run_quiet [OF assms] .
  ultimately show ?thesis by (auto simp: ran_def list_all_iff)
qed

theorem kube_loop_runs_fixed_commands_witness:
  "kube_mutation ''shop'' ''payments'' [''kubectl'', ''-n'', ''shop'', ''rollout'', ''undo'', ''deployment/payments'']"
proof -
  let ?argv = "[''kubectl'', ''-n'', ''shop'', ''rollout'', ''undo'', ''deployment/payments'']"
  obtain out t w where run: "execute_control_loop fixture_std (kube_loop_args fixture_std sample_loads sample_run (in_namespace ''shop'') sample_kube_args)
      ([], 0) = (out, (t, w))" by (metis surj_pair)
  with sample_kube_run have t: "length t = 3" "t ! 1 = ?argv" by simp_all
  then have "?argv \<in> set t" by (metis nth_mem one_less_numeral_iff semiring_norm(77))
  then have "kube_read (in_namespace ''shop'') (rq_service (la_request sample_kube_args)) ?argv \<or>
      kube_mutation (kc_namespace (in_namespace ''shop'')) (rq_service (la_request sample_kube_args)) ?argv"
    using kube_loop_runs_fixed_commands [OF run] by blast
  moreover have "\<not> kube_read (in_namespace ''shop'') (rq_service (la_request sample_kube_args)) ?argv" by code_simp
  ultimately show ?thesis by (simp add: in_namespace_def sample_kube_args_def sample_loop_args_def sample_l4_request_def)
qed



text \<open>C36. 
  Verification by replica counts answers exactly when the deployment it read has well-typed
  counts, and a healthy verdict means at least one replica, and all the desired ones, are
  there: an absent, null, negative, boolean or textual count never counts as healthy.
\<close>

theorem replica_verification_is_typed:
  assumes "signal \<in> {''deployment.available_replicas'', ''deployment.ready_replicas''}"
  shows "kube_verify std loads run k signal q w = (Inr ok, w') \<longleftrightarrow>
     (\<exists>payload spec status desired available ready. deployment_of loads run k q w = (Inr payload, w') \<and>
        object_typed payload ''spec'' spec \<and> object_typed payload ''status'' status \<and>
        int_typed spec ''replicas'' 1 1 desired \<and> int_typed status ''availableReplicas'' 0 0 available \<and>
        int_typed status ''readyReplicas'' 0 0 ready \<and> 1 \<le> desired \<and>
        ok = (desired \<le> (if signal = ''deployment.available_replicas'' then available else ready)))"
proof -
  obtain r v where r: "deployment_of loads run k q w = (r, v)" by fastforce
  note typed = object_field_typed kube_integer_field_typed
  show ?thesis
  proof (cases r)
    case (Inl e)
    with assms r show ?thesis by (auto simp: kube_verify_def wbind_def)
  next
    case (Inr payload)
    have "kube_verify std loads run k signal q w = (Inr ok, w') \<longleftrightarrow> v = w' \<and>
        rbind (object_field payload ''status'') (\<lambda>status. rbind (object_field payload ''spec'') (\<lambda>spec.
        rbind (kube_integer_field spec ''replicas'' 1 1) (\<lambda>desired. rbind (kube_integer_field status ''availableReplicas'' 0 0) (\<lambda>available.
        rbind (kube_integer_field status ''readyReplicas'' 0 0) (\<lambda>ready.
        Inr (if signal = ''deployment.available_replicas'' then desired \<le> available else desired \<le> ready)))))) = Inr ok"
      unfolding kube_verify_def using assms r Inr by (simp only: wbind_def lift_res_def if_True prod.case sum.case) auto
    also have "\<dots> \<longleftrightarrow> (\<exists>spec status desired available ready. v = w' \<and> object_typed payload ''spec'' spec \<and>
        object_typed payload ''status'' status \<and> int_typed spec ''replicas'' 1 1 desired \<and>
        int_typed status ''availableReplicas'' 0 0 available \<and> int_typed status ''readyReplicas'' 0 0 ready \<and> 1 \<le> desired \<and>
        ok = (desired \<le> (if signal = ''deployment.available_replicas'' then available else ready)))"
      unfolding rbind_eq_Inr typed using int_typed_minimum [of _ "''replicas''" 1 1] by (cases "signal = ''deployment.available_replicas''") (simp; blast)+
    finally show ?thesis using r Inr by auto
  qed
qed

theorem replica_verification_is_typed_witness:
  "\<exists>payload spec desired. deployment_of sample_loads sample_run (in_namespace ''shop'') sample_l4_request 0 = (Inr payload, 0) \<and>
     object_typed payload ''spec'' spec \<and> int_typed spec ''replicas'' 1 1 desired \<and> 1 \<le> desired"
proof -
  have run: "kube_verify fixture_std sample_loads sample_run (in_namespace ''shop'') ''deployment.available_replicas'' sample_l4_request 0 = (Inr True, 0)"
    by code_simp
  have "''deployment.available_replicas'' \<in> {''deployment.available_replicas'', ''deployment.ready_replicas''}" by simp
  from iffD1 [OF replica_verification_is_typed [OF this] run] show ?thesis by (elim exE conjE) (intro exI conjI)
qed

text \<open>C37. 
  A progressive rollout through the Kubernetes adapter never starts: the canary identifier of a
  runbook has no adapter, so no command is run and the loop reports a rolled-back execution.
\<close>

theorem kube_canary_never_starts:
  "\<exists>m. run_execution_and_verify (kube_adapter std loads run k) rb q d (Some strategy) w =
     (\<lparr>xr_status = ''rolled_back'', xr_policy = d, xr_execution_ref = Some ''canary-aborted'', xr_verified = False,
       xr_rollback_ref = None, xr_error = Some (''canary deployment failed: '' @ m)\<rparr>, w)"
proof -
  obtain e where "kube_execute std loads run k (rb_id rb @ ''.canary'') q w = (Inl (ValueError e), w)"
    by (rule exE [OF canary_refused])
  then show ?thesis
    by (simp add: run_execution_and_verify_def execute_progressive_def kube_adapter_def del: append_is_Nil_conv)
qed

end
