(* ===== verification/Digital_Twin.thy ===== *)
theory Digital_Twin
  imports Kubernetes_Safety
begin

text \<open>
  The Kubernetes digital twin, \<open>src/remediation/digital_twin.py\<close>: an ephemeral namespace in which a
  clone of one workload is acted on and verified before production is. The source namespace is
  only read; everything done in the sandbox is followed by its deletion, on every path; the
  clone carries the sandbox identity. \<open>twin_simulate\<close> has the type of the twin that the remediation
  activities call.
\<close>

section \<open>Error handling\<close>

text \<open>\<^verbatim>\<open>try: m except Exception: c; raise\<close> and \<^verbatim>\<open>try: m finally: c\<close>.\<close>

definition on_error :: "('w \<Rightarrow> 'a res \<times> 'w) \<Rightarrow> ('w \<Rightarrow> unit res \<times> 'w) \<Rightarrow> 'w \<Rightarrow> 'a res \<times> 'w" where
  "on_error m c w = (case m w of
      (Inr x, w1) \<Rightarrow> (Inr x, w1)
    | (Inl e, w1) \<Rightarrow> (case c w1 of (Inl e', w2) \<Rightarrow> (Inl e', w2) | (Inr _, w2) \<Rightarrow> (Inl e, w2)))"

definition finally_do :: "('w \<Rightarrow> 'a res \<times> 'w) \<Rightarrow> ('w \<Rightarrow> unit res \<times> 'w) \<Rightarrow> 'w \<Rightarrow> 'a res \<times> 'w" where
  "finally_do m c w = (case m w of (r, w1) \<Rightarrow> (case c w1 of (Inl e', w2) \<Rightarrow> (Inl e', w2) | (Inr _, w2) \<Rightarrow> (r, w2)))"

section \<open>The sandbox\<close>

text \<open>\<open>json.dumps\<close> with its default separators and the keys in insertion order.\<close>

fun json_text :: "py_std \<Rightarrow> json \<Rightarrow> string" where
  "json_text std (JList xs) = ''['' @ py_join '', '' (map (json_text std) xs) @ '']''"
| "json_text std (JObj kvs) =
     ''{'' @ py_join '', '' (map (\<lambda>(k, v). json_quote k @ '': '' @ json_text std v) kvs) @ ''}''"
| "json_text std j = json_render std j"

record twin_environment =
  te_namespace :: string
  te_source_namespace :: string
  te_service :: string

definition twin_run :: "'w command_runner \<Rightarrow> string list \<Rightarrow> string option \<Rightarrow> 'w \<Rightarrow> command_result res \<times> 'w" where
  "twin_run run argv input =
     wbind (run argv input) (\<lambda>result. lift_res (checked (''command failed: '' @ py_join '' '' argv) result))"

definition sandbox_suffix :: "string \<Rightarrow> string" where
  "sandbox_suffix simulation_id =
     (let s = strip_char (CHR ''-'') (take 30 (filter (\<lambda>ch. py_isalnum ch \<or> ch = CHR ''-'') (py_lower simulation_id))) in
      if s \<noteq> [] then s else ''run'')"

definition sandbox_namespace :: "string \<Rightarrow> string res" where
  "sandbox_namespace simulation_id =
     safe_name (rstrip_char (CHR ''-'') (take 63 (''eip-sim-'' @ sandbox_suffix simulation_id)))"

definition sanitize_deployment :: "py_std \<Rightarrow> kubernetes_object \<Rightarrow> string \<Rightarrow> string \<Rightarrow> kubernetes_object res" where
  "sanitize_deployment std source namespace expected_service =
     rbind (object_field source ''metadata'') (\<lambda>metadata.
     if map_of metadata ''name'' \<noteq> Some (JStr expected_service)
     then Inl (RuntimeError ''source deployment name did not match the requested service'')
     else
     rbind (object_field source ''spec'') (\<lambda>spec.
     rbind (object_field metadata ''labels'') (\<lambda>source_labels.
     let labels = dict_set ''eip.openai/sandbox'' (JStr ''true'') (map (\<lambda>(key, v). (key, JStr (str_json std v))) source_labels);
         uid = (case map_of metadata ''uid'' of Some v \<Rightarrow> if truthy v then str_json std v else ''unknown'' | None \<Rightarrow> ''unknown'');
         safe_metadata = [(''name'', JStr expected_service), (''namespace'', JStr namespace), (''labels'', JObj labels),
           (''annotations'', JObj [(''eip.openai/source-uid'', JStr uid)])] in
     rbind (object_field spec ''template'') (\<lambda>template.
     rbind (object_field template ''spec'') (\<lambda>source_pod.
     let pod_spec = dict_set ''automountServiceAccountToken'' (JBool False) (dict_del ''serviceAccountName'' source_pod) in
     Inr [(''apiVersion'', JStr ''apps/v1''), (''kind'', JStr ''Deployment''), (''metadata'', JObj safe_metadata),
       (''spec'', JObj (dict_set ''template'' (JObj (dict_set ''spec'' (JObj pod_spec) template)) spec))])))))"

definition twin_destroy :: "'w command_runner \<Rightarrow> string \<Rightarrow> 'w \<Rightarrow> unit res \<times> 'w" where
  "twin_destroy run namespace =
     wbind (lift_res (safe_name namespace)) (\<lambda>ns.
     wbind (run [''kubectl'', ''delete'', ''namespace'', ns, ''--wait=false''] None) (\<lambda>result.
     lift_res (
       if cr_returncode result \<noteq> 0 \<and> \<not> py_contains ''notfound'' (py_lower (cr_stderr result)) \<and>
          \<not> py_contains ''not found'' (py_lower (cr_stderr result))
       then Inl (RuntimeError (if py_strip (cr_stderr result) \<noteq> [] then py_strip (cr_stderr result)
                               else ''failed to delete sandbox namespace''))
       else Inr ())))"

text \<open>The body of the \<open>try\<close> statement of \<open>provision\<close>, and \<open>provision\<close>.\<close>

definition populate ::
    "py_std \<Rightarrow> (string \<Rightarrow> json option) \<Rightarrow> 'w command_runner \<Rightarrow> string \<Rightarrow> string \<Rightarrow> string \<Rightarrow> 'w \<Rightarrow> twin_environment res \<times> 'w" where
  "populate std loads run namespace service source_namespace =
     wbind (twin_run run [''kubectl'', ''label'', ''namespace'', namespace, ''eip.openai/sandbox=true'', ''--overwrite''] None) (\<lambda>_.
     wbind (twin_run run [''kubectl'', ''-n'', source_namespace, ''get'', ''deployment/'' @ service, ''-o'', ''json''] None) (\<lambda>raw.
     wbind (lift_res (parse_object loads ''source deployment'' (cr_stdout raw))) (\<lambda>source.
     wbind (lift_res (sanitize_deployment std source namespace service)) (\<lambda>clone.
     wbind (twin_run run [''kubectl'', ''-n'', namespace, ''apply'', ''-f'', ''-''] (Some (json_text std (JObj clone)))) (\<lambda>_.
     lift_res (Inr \<lparr>te_namespace = namespace, te_source_namespace = source_namespace, te_service = service\<rparr>))))))"

definition provision ::
    "py_std \<Rightarrow> (string \<Rightarrow> json option) \<Rightarrow> 'w command_runner \<Rightarrow> string \<Rightarrow> string \<Rightarrow> string \<Rightarrow> 'w \<Rightarrow> twin_environment res \<times> 'w" where
  "provision std loads run simulation_id service source_namespace =
     wbind (lift_res (safe_name service)) (\<lambda>service.
     wbind (lift_res (safe_name source_namespace)) (\<lambda>source_namespace.
     wbind (lift_res (sandbox_namespace simulation_id)) (\<lambda>namespace.
     wbind (twin_run run [''kubectl'', ''create'', ''namespace'', namespace] None) (\<lambda>_.
     on_error (populate std loads run namespace service source_namespace) (twin_destroy run namespace)))))"

section \<open>Simulation\<close>

definition source_refused :: "string \<Rightarrow> simulation_result" where
  "source_refused reason =
     \<lparr>sim_safe_to_promote = False, sim_execution = ended ''denied'' (decision False reason) (Some reason),
      sim_notes = [''source preconditions failed; sandbox was not provisioned'']\<rparr>"

definition rehearse ::
    "py_std \<Rightarrow> (string \<Rightarrow> json option) \<Rightarrow> 'w command_runner \<Rightarrow> instant \<Rightarrow> environ \<Rightarrow> runbook_catalog \<Rightarrow> service_autonomy \<Rightarrow>
       action_request \<Rightarrow> bool \<Rightarrow> runbook \<Rightarrow> string \<Rightarrow> 'w \<Rightarrow> simulation_result res \<times> 'w" where
  "rehearse std loads run clock process_env catalog p q approval_verified rb namespace =
     wbind (lift_res (kube_adapter_init namespace ''app'' (rb_preconditions rb))) (\<lambda>k.
     simulate std clock process_env catalog p q (kube_adapter std loads run k) approval_verified)"

definition twin_simulate ::
    "py_std \<Rightarrow> (string \<Rightarrow> json option) \<Rightarrow> 'w command_runner \<Rightarrow> instant \<Rightarrow> environ \<Rightarrow> string \<Rightarrow> string \<Rightarrow> runbook_catalog \<Rightarrow>
       service_autonomy \<Rightarrow> action_request \<Rightarrow> bool \<Rightarrow> 'w \<Rightarrow> simulation_result res \<times> 'w" where
  "twin_simulate std loads run clock process_env simulation_id source_namespace catalog p q approval_verified =
     wbind (lift_res (catalog_get catalog (rq_runbook_id q))) (\<lambda>rb.
     wbind (lift_res (kube_adapter_init source_namespace ''app'' [])) (\<lambda>k.
     wbind (kube_preflight std loads run k rb q) (\<lambda>pre.
     case pre of
       PrePair False reason \<Rightarrow> lift_res (Inr (source_refused reason))
     | _ \<Rightarrow>
       wbind (provision std loads run simulation_id (rq_service q) source_namespace) (\<lambda>env.
       finally_do (rehearse std loads run clock process_env catalog p q approval_verified rb (te_namespace env))
         (twin_destroy run (te_namespace env))))))"

section \<open>Names of sandboxes\<close>

lemma strip_char_last: "strip_char c s \<noteq> [] \<Longrightarrow> last (strip_char c s) \<noteq> c"
proof -
  let ?t = "dropWhile (\<lambda>d. d = c) (rev (dropWhile (\<lambda>d. d = c) s))"
  assume "strip_char c s \<noteq> []"
  then have "?t \<noteq> []" by (simp add: strip_char_def)
  then have "hd ?t \<noteq> c" using hd_dropWhile [of "\<lambda>d. d = c"] by blast
  with \<open>?t \<noteq> []\<close> show ?thesis by (simp add: strip_char_def last_rev)
qed

lemma length_strip_char: "length (strip_char c s) \<le> length s"
  unfolding strip_char_def by (metis (no_types) dual_order.trans length_dropWhile_le length_rev)

lemma sandbox_suffix_props:
  "sandbox_suffix i \<noteq> []" "last (sandbox_suffix i) \<noteq> CHR ''-''" "length (sandbox_suffix i) \<le> 30"
proof -
  let ?s = "strip_char (CHR ''-'') (take 30 (filter (\<lambda>ch. py_isalnum ch \<or> ch = CHR ''-'') (py_lower i)))"
  have "length ?s \<le> 30" by (rule order_trans [OF length_strip_char]) simp
  then show "sandbox_suffix i \<noteq> []" "last (sandbox_suffix i) \<noteq> CHR ''-''" "length (sandbox_suffix i) \<le> 30"
    using strip_char_last by (auto simp: sandbox_suffix_def Let_def)
qed

lemma sandbox_namespace_eq: "sandbox_namespace i = safe_name (''eip-sim-'' @ sandbox_suffix i)"
proof -
  note sandbox_suffix_props [of i]
  moreover from this have "rstrip_char (CHR ''-'') (''eip-sim-'' @ sandbox_suffix i) = ''eip-sim-'' @ sandbox_suffix i"
    by (cases "sandbox_suffix i" rule: rev_cases) (simp_all add: rstrip_char_def)
  ultimately show ?thesis by (simp add: sandbox_namespace_def del: append.simps)
qed

lemma sandbox_namespace_Inr:
  assumes "sandbox_namespace i = Inr ns"
  shows "ns = ''eip-sim-'' @ sandbox_suffix i \<and> safe_name ns = Inr ns"
  using assms safe_name_same unfolding sandbox_namespace_eq by blast

lemma sandbox_safe: "sandbox_namespace i = Inr ns \<Longrightarrow> safe_name ns = Inr ns"
  using sandbox_namespace_Inr by blast

section \<open>The commands of a rehearsal\<close>

abbreviation create_namespace :: "string \<Rightarrow> string list" where
  "create_namespace ns \<equiv> [''kubectl'', ''create'', ''namespace'', ns]"

abbreviation delete_namespace :: "string \<Rightarrow> string list" where
  "delete_namespace ns \<equiv> [''kubectl'', ''delete'', ''namespace'', ns, ''--wait=false'']"

definition sandbox_command :: "string \<Rightarrow> string \<Rightarrow> string list \<Rightarrow> bool" where
  "sandbox_command ns service argv \<longleftrightarrow>
     argv \<in> {create_namespace ns, delete_namespace ns, [''kubectl'', ''label'', ''namespace'', ns, ''eip.openai/sandbox=true'', ''--overwrite''],
       [''kubectl'', ''-n'', ns, ''apply'', ''-f'', ''-'']} \<or>
     kube_read (in_namespace ns) service argv \<or> kube_mutation ns service argv"

definition twin_command :: "string \<Rightarrow> string \<Rightarrow> string \<Rightarrow> string list \<Rightarrow> bool" where
  "twin_command simulation_id source service argv \<longleftrightarrow> kube_read (in_namespace source) service argv \<or>
     (\<exists>ns. sandbox_namespace simulation_id = Inr ns \<and> sandbox_command ns service argv)"

lemma init_namespace: "kube_adapter_init ns key trusted = Inr k \<Longrightarrow> kc_namespace k = ns \<and> kc_label_key k = key \<and> kc_trusted k = trusted"
  by (auto simp: kube_adapter_init_def res_iffs dest: safe_name_same)
     (auto simp: safe_label_key_def Let_def split: if_splits)

lemma read_in_namespace: "kc_label_key k = ''app'' \<Longrightarrow> kube_read k service = kube_read (in_namespace (kc_namespace k)) service"
  by (simp add: kube_read_def in_namespace_def fun_eq_iff)

lemma issues_on_error: "issues P m \<Longrightarrow> issues P c \<Longrightarrow> issues P (on_error m c)"
  unfolding issues_def on_error_def by (auto split: prod.split sum.split intro: ran_trans) (metis ran_trans snd_conv)+

lemma issues_finally: "issues P m \<Longrightarrow> issues P c \<Longrightarrow> issues P (finally_do m c)"
  unfolding issues_def finally_do_def by (auto split: prod.split sum.split intro: ran_trans) (metis ran_trans snd_conv)+

lemma issues_twin_run: "P argv \<Longrightarrow> issues P (twin_run (traced_run run) argv input)"
  unfolding twin_run_def by (intro issues_wbind issues_traced issues_lift)

lemma issues_lift_bind: "(\<And>x. r = Inr x \<Longrightarrow> issues P (f x)) \<Longrightarrow> issues P (wbind (lift_res r) f)"
  by (cases r) (simp_all add: issues_def lift_res_bind)

lemma destroy_commands: "P (delete_namespace ns) \<Longrightarrow> issues P (twin_destroy (traced_run run) ns)"
  unfolding twin_destroy_def by (intro issues_safe_name issues_wbind issues_traced issues_lift)

lemma provision_commands:
  "issues (twin_command i source service) (provision std loads (traced_run run) i service source)"
proof -
  have read: "twin_command i source service [''kubectl'', ''-n'', source, ''get'', ''deployment/'' @ service, ''-o'', ''json'']"
    by (simp add: twin_command_def kube_read_def in_namespace_def)
  have own: "twin_command i source service argv" if "sandbox_namespace i = Inr ns" "sandbox_command ns service argv" for ns argv
    using that by (auto simp: twin_command_def)
  show ?thesis
    unfolding provision_def populate_def
    by (intro issues_safe_name issues_lift_bind issues_wbind issues_on_error issues_twin_run issues_lift destroy_commands read)
       (auto intro: own simp: sandbox_command_def)
qed

lemma simulate_commands:
  "issues (kube_command k (rq_service q)) (simulate std clock process_env catalog p q (kube_adapter std loads (traced_run run) k) av)"
proof -
  let ?a = "\<lparr>la_catalog = catalog, la_policy = p, la_request = q, la_adapter = kube_adapter std loads run k, la_evaluator = None,
          la_approval_verified = av, la_control = None, la_certification = None, la_autonomy_level = None, la_now = clock,
          la_environ = process_env, la_lock = None, la_impacted_services = [], la_canary_strategy = None\<rparr>"
  have eq: "simulate std clock process_env catalog p q (kube_adapter std loads (traced_run run) k) av s =
      (case execute_control_loop std (kube_loop_args std loads run k ?a) s of (Inl exc, w') \<Rightarrow> (Inl exc, w')
       | (Inr r, w') \<Rightarrow> (Inr (simulation_of r), w'))" for s
    by (simp add: simulate_def kube_loop_args_def lift_args_def)
  have "ran (kube_command k (rq_service (la_request ?a))) s (snd (execute_control_loop std (kube_loop_args std loads run k ?a) s))" for s
    by (rule kube_loop.loop_moves)
  then have moves: "ran (kube_command k (rq_service q)) s (snd (execute_control_loop std (kube_loop_args std loads run k ?a) s))" for s
    by simp
  have "ran (kube_command k (rq_service q)) s s'"
    if "execute_control_loop std (kube_loop_args std loads run k ?a) s = (r, s')" for s r s'
    by (rule moves [of s, unfolded that snd_conv])
  then show ?thesis unfolding issues_def eq by (simp split: prod.split sum.split)
qed

lemma rehearse_commands:
  "issues (sandbox_command ns (rq_service q)) (rehearse std loads (traced_run run) clock process_env catalog p q av rb ns)"
  unfolding rehearse_def
proof (rule issues_lift_bind)
  fix k
  assume "kube_adapter_init ns ''app'' (rb_preconditions rb) = Inr k"
  then have k: "kc_namespace k = ns" "kc_label_key k = ''app''" using init_namespace by blast+
  show "issues (sandbox_command ns (rq_service q)) (simulate std clock process_env catalog p q (kube_adapter std loads (traced_run run) k) av)"
    by (rule issues_mono [OF simulate_commands]) (auto simp: sandbox_command_def k read_in_namespace)
qed

text \<open>Where a provisioning leaves the sandbox: never created, deleted, or created under its name.\<close>

lemma destroy_last:
  "safe_name ns = Inr ns \<Longrightarrow> fst (snd (twin_destroy (traced_run run) ns s)) = fst s @ [delete_namespace ns]"
  by (auto simp: twin_destroy_def lift_res_bind wbind_def traced_run_def lift_res_def split: prod.split sum.split)

lemma provision_cases:
  assumes "provision std loads (traced_run run) i service source s = (r, s')"
  obtains (early) e where "r = Inl e" "fst s' = fst s"
    | (refused) e ns where "r = Inl e" "sandbox_namespace i = Inr ns" "fst s' = fst s @ [create_namespace ns]"
    | (undone) e ns pre where "r = Inl e" "sandbox_namespace i = Inr ns" "fst s' = pre @ [delete_namespace ns]"
    | (made) env where "r = Inr env" "sandbox_namespace i = Inr (te_namespace env)"
proof -
  consider e where "safe_name service = Inl e \<or> safe_name source = Inl e \<or> sandbox_namespace i = Inl e"
    | ns where "safe_name service = Inr service" "safe_name source = Inr source" "sandbox_namespace i = Inr ns"
    using safe_name_same by (metis sumE)
  then show thesis
  proof cases
    case (1 e)
    then have "\<exists>e'. r = Inl e' \<and> s' = s"
      using assms by (auto simp: provision_def lift_res_bind split: sum.splits)
    then show thesis using early by blast
  next
    case (2 ns)
    obtain c s1 where c: "twin_run (traced_run run) (create_namespace ns) None s = (c, s1)" by (metis surj_pair)
    then have s1: "fst s1 = fst s @ [create_namespace ns]"
      by (auto simp: twin_run_def wbind_def traced_run_def lift_res_def split: prod.splits sum.splits)
    have run: "(r, s') = (case c of Inl e \<Rightarrow> (Inl e, s1) | Inr _ \<Rightarrow>
        on_error (populate std loads (traced_run run) ns service source) (twin_destroy (traced_run run) ns) s1)"
      using assms 2 c by (simp add: provision_def lift_res_bind wbind_def [of "twin_run _ _ _"])
    show thesis
    proof (cases c)
      case (Inl e)
      with run s1 2 show thesis using refused by simp
    next
      case (Inr x)
      obtain p s2 where p: "populate std loads (traced_run run) ns service source s1 = (p, s2)" by (metis surj_pair)
      show thesis
      proof (cases p)
        case (Inl e)
        obtain d s3 where d: "twin_destroy (traced_run run) ns s2 = (d, s3)" by (metis surj_pair)
        then have "fst s3 = fst s2 @ [delete_namespace ns]"
          using destroy_last [OF sandbox_safe [OF 2(3)], of run s2] by simp
        moreover have "\<exists>e'. r = Inl e' \<and> s' = s3"
          using run Inr Inl p d by (cases d) (simp_all add: on_error_def)
        ultimately show thesis using undone 2(3) by blast
      next
        case env: (Inr env)
        then have "te_namespace env = ns" using p
          by (auto simp: populate_def elim!: wbind_Inr simp: lift_res_def)
        moreover have "r = Inr env" using run Inr env p by (simp add: on_error_def)
        ultimately show thesis using made 2(3) by blast
      qed
    qed
  qed
qed

lemma provision_sandbox:
  "provision std loads (traced_run run) i service source s = (Inr env, s') \<Longrightarrow> sandbox_namespace i = Inr (te_namespace env)"
  by (erule provision_cases) auto

lemma issues_wbind_after:
  assumes "issues P m" "\<And>x s s'. m s = (Inr x, s') \<Longrightarrow> issues P (f x)"
  shows "issues P (wbind m f)"
  unfolding issues_def
proof
  fix s
  obtain r t where r: "m s = (r, t)" by (metis surj_pair)
  with issuesD [OF assms(1), of s] have "ran P s t" by simp
  moreover have "ran P t (snd (f x t))" if "r = Inr x" for x using issuesD [OF assms(2)] r that by blast
  ultimately show "ran P s (snd (wbind m f s))" using r by (auto simp: wbind_def split: sum.split intro: ran_trans)
qed

lemma rehearsal_commands:
  assumes "sandbox_namespace i = Inr ns"
  shows "issues (twin_command i source (rq_service q)) (finally_do (rehearse std loads (traced_run run) clock process_env catalog p q av rb ns)
     (twin_destroy (traced_run run) ns))"
  by (rule issues_mono [OF issues_finally [OF rehearse_commands destroy_commands]])
     (use assms in \<open>auto simp: twin_command_def sandbox_command_def\<close>)

lemma twin_commands:
  "issues (twin_command i source (rq_service q)) (twin_simulate std loads (traced_run run) clock process_env i source catalog p q av)"
proof -
  have pre: "issues (twin_command i source (rq_service q)) (kube_preflight std loads (traced_run run) k rb q)"
    if "kube_adapter_init source ''app'' [] = Inr k" for k rb
  proof (rule issues_mono [OF preflight_reads])
    fix argv
    assume "kube_read k (rq_service q) argv"
    with init_namespace [OF that] show "twin_command i source (rq_service q) argv" by (simp add: twin_command_def read_in_namespace)
  qed
  have rest: "issues (twin_command i source (rq_service q)) (wbind (provision std loads (traced_run run) i (rq_service q) source) (\<lambda>env.
       finally_do (rehearse std loads (traced_run run) clock process_env catalog p q av rb (te_namespace env))
         (twin_destroy (traced_run run) (te_namespace env))))" for rb
    by (rule issues_wbind_after [OF provision_commands rehearsal_commands]) (rule provision_sandbox)
  show ?thesis
    unfolding twin_simulate_def
    by (intro issues_lift_bind issues_wbind pre) (auto intro: rest split: preflight_answer.split bool.split)
qed

text \<open>The last command, when the sandbox was touched.\<close>

lemma twin_last_command:
  assumes "twin_simulate std loads (traced_run run) clock process_env i source catalog p q av ([], w) = (out, (t, w'))"
    and "argv \<in> set t" "\<not> kube_read (in_namespace source) (rq_service q) argv"
  shows "\<exists>ns. sandbox_namespace i = Inr ns \<and> (argv = create_namespace ns \<or> last t = delete_namespace ns)"
proof -
  obtain rb where rb: "catalog_get catalog (rq_runbook_id q) = Inr rb"
    using assms(1,2) by (cases "catalog_get catalog (rq_runbook_id q)") (auto simp: twin_simulate_def lift_res_bind)
  obtain k where k: "kube_adapter_init source ''app'' [] = Inr k"
    using assms(1,2) rb by (cases "kube_adapter_init source ''app'' []") (auto simp: twin_simulate_def lift_res_bind)
  obtain pre s1 where pre: "kube_preflight std loads (traced_run run) k rb q ([], w) = (pre, s1)" by (metis surj_pair)
  have reads: "list_all (kube_read (in_namespace source) (rq_service q)) (fst s1)"
    using issuesD [OF preflight_reads [of k q std loads run rb], of "([], w)"] pre init_namespace [OF k]
    by (auto simp: ran_def read_in_namespace)
  let ?rest = "wbind (provision std loads (traced_run run) i (rq_service q) source) (\<lambda>env.
       finally_do (rehearse std loads (traced_run run) clock process_env catalog p q av rb (te_namespace env))
         (twin_destroy (traced_run run) (te_namespace env))) s1"
  have "(out, (t, w')) = ?rest \<or> (t, w') = s1"
    using assms(1) rb k pre
    by (auto simp: twin_simulate_def lift_res_bind wbind_def [of "kube_preflight std loads (traced_run run) k rb q"] lift_res_def
        split: sum.splits preflight_answer.splits bool.splits)
  moreover have "(t, w') \<noteq> s1" using reads assms(2,3) by (auto simp: list_all_iff)
  ultimately have run: "?rest = (out, (t, w'))" by simp
  obtain r s2 where r: "provision std loads (traced_run run) i (rq_service q) source s1 = (r, s2)" by (metis surj_pair)
  have fail: "(t, w') = s2" if "r = Inl e" for e using run r that by (simp add: wbind_def)
  from r show ?thesis
  proof (cases rule: provision_cases)
    case (early e)
    with fail reads assms(2,3) show ?thesis by (metis fst_conv list_all_iff)
  next
    case (refused e ns)
    with fail reads assms(2,3) show ?thesis by (auto simp: list_all_iff dest: arg_cong [of _ _ fst])
  next
    case (undone e ns pre)
    with fail have "t = pre @ [delete_namespace ns]" by (metis fst_conv)
    with undone(2) show ?thesis by auto
  next
    case (made env)
    let ?ns = "te_namespace env"
    obtain x s3 where x: "rehearse std loads (traced_run run) clock process_env catalog p q av rb ?ns s2 = (x, s3)" by (metis surj_pair)
    obtain d s4 where d: "twin_destroy (traced_run run) ?ns s3 = (d, s4)" by (metis surj_pair)
    then have "fst s4 = fst s3 @ [delete_namespace ?ns]" using destroy_last [OF sandbox_safe [OF made(2)], of run s3] by simp
    moreover have "(t, w') = s4"
      using run r made(1) x d by (cases d) (simp_all add: wbind_def finally_do_def)
    ultimately have "last t = delete_namespace ?ns" by (metis fst_conv last_snoc)
    with made(2) show ?thesis by blast
  qed
qed

section \<open>A concrete rehearsal\<close>

abbreviation sample_rehearsal :: "(simulation_result res) \<times> (string list list \<times> nat)" where
  "sample_rehearsal \<equiv> twin_simulate fixture_std sample_loads (traced_run sample_run) 0 Map.empty ''Run-7'' ''shop''
     (la_catalog sample_kube_args) (la_policy sample_kube_args) sample_l4_request True ([], 0)"

lemma sample_rehearsal_trace:
  "case sample_rehearsal of (r, s) \<Rightarrow> last (fst s) = delete_namespace ''eip-sim-run-7'' \<and>
     [''kubectl'', ''-n'', ''eip-sim-run-7'', ''rollout'', ''undo'', ''deployment/payments''] \<in> set (fst s)"
  by code_simp

lemma sample_undo_not_read:
  "\<not> kube_read (in_namespace ''shop'') (rq_service sample_l4_request)
     [''kubectl'', ''-n'', ''eip-sim-run-7'', ''rollout'', ''undo'', ''deployment/payments'']"
  by code_simp

lemma sample_sandbox: "''eip-sim-'' @ sandbox_suffix ''Run-7'' = ''eip-sim-run-7''"
  by code_simp

section \<open>Properties\<close>

text \<open>C29. 
  A rehearsal is confined: whatever the command runner answers, every command of a simulation
  either reads the deployment, its pods or its history in the source namespace, or concerns the
  one sandbox namespace of the simulation, whose name starts with \<open>eip-sim-\<close>, and there only
  creation, labelling, applying the clone, the fixed commands of the adapter and deletion.
\<close>

theorem rehearsal_is_confined:
  assumes "twin_simulate std loads (traced_run run) clock process_env i source catalog p q av ([], w) = (out, (t, w'))"
    and "argv \<in> set t"
  shows "kube_read (in_namespace source) (rq_service q) argv \<or>
     (\<exists>ns. sandbox_namespace i = Inr ns \<and> py_startswith ''eip-sim-'' ns \<and> sandbox_command ns (rq_service q) argv)"
proof -
  have "ran (twin_command i source (rq_service q)) ([], w) (t, w')"
    using issuesD [OF twin_commands] assms(1) by (metis snd_conv)
  with assms(2) have "twin_command i source (rq_service q) argv" by (auto simp: ran_def list_all_iff)
  moreover have "py_startswith ''eip-sim-'' ns" if "sandbox_namespace i = Inr ns" for ns
    using sandbox_namespace_Inr [OF that] by (simp add: py_startswith_def)
  ultimately show ?thesis by (auto simp: twin_command_def)
qed

theorem rehearsal_is_confined_witness:
  "\<exists>ns. sandbox_namespace ''Run-7'' = Inr ns \<and> py_startswith ''eip-sim-'' ns \<and> sandbox_command ns (rq_service sample_l4_request)
     [''kubectl'', ''-n'', ''eip-sim-run-7'', ''rollout'', ''undo'', ''deployment/payments'']"
proof -
  obtain r t w where run: "sample_rehearsal = (r, (t, w))" by (metis surj_pair)
  with sample_rehearsal_trace have "[''kubectl'', ''-n'', ''eip-sim-run-7'', ''rollout'', ''undo'', ''deployment/payments''] \<in> set t"
    by simp
  from rehearsal_is_confined [OF run this] sample_undo_not_read show ?thesis by blast
qed

text \<open>C30. 
  The sandbox is cleaned up on every path: if a simulation ran any command besides reads of the
  source namespace and the attempt to create its sandbox, then the last command it ran is the
  deletion of that sandbox, whether it returned a verdict or raised.
\<close>

theorem sandbox_is_deleted_last:
  assumes "twin_simulate std loads (traced_run run) clock process_env i source catalog p q av ([], w) = (out, (t, w'))"
    and "argv \<in> set t" "\<not> kube_read (in_namespace source) (rq_service q) argv" "argv \<noteq> create_namespace (''eip-sim-'' @ sandbox_suffix i)"
  shows "last t = [''kubectl'', ''delete'', ''namespace'', ''eip-sim-'' @ sandbox_suffix i, ''--wait=false'']"
  using twin_last_command [OF assms(1-3)] assms(4) sandbox_namespace_Inr by blast

theorem sandbox_is_deleted_last_witness:
  "last (fst (snd sample_rehearsal)) = [''kubectl'', ''delete'', ''namespace'', ''eip-sim-run-7'', ''--wait=false'']"
proof -
  obtain r t w where run: "sample_rehearsal = (r, (t, w))" by (metis surj_pair)
  with sample_rehearsal_trace have "[''kubectl'', ''-n'', ''eip-sim-run-7'', ''rollout'', ''undo'', ''deployment/payments''] \<in> set t"
    by simp
  from sandbox_is_deleted_last [OF run this sample_undo_not_read] have "last t = [''kubectl'', ''delete'', ''namespace'', ''eip-sim-run-7'', ''--wait=false'']"
    unfolding sample_sandbox by simp
  with run show ?thesis by simp
qed



end
