(* ===== verification/Artifact_Outbox.thy ===== *)
theory Artifact_Outbox
  imports Canonical_Json Fallible_Loops Lease_Contract
begin

text \<open>
  The durable outbox of \<open>src/company_brain/artifact_outbox.py\<close> (\<open>SqliteArtifactOutbox\<close>): a product
  artifact is recorded with all its deliveries in one transaction, and each delivery is leased,
  acknowledged or returned for retry on its own. The two tables are lists of rows; a
  transaction that raises leaves them as they were. A row keeps instants: the ISO texts that the
  code stores and compares are all in UTC, so their order is that of the instants. The lease
  token (\<open>uuid4\<close>), the clock and the JSON reader are arguments.
\<close>

section \<open>Canonical payloads\<close>

text \<open>\<^verbatim>\<open>json.dumps(value, sort_keys=True, separators=(",", ":"), ensure_ascii=False)\<close>, and the length of its UTF-8 encoding.\<close>

definition raw_escape_char :: "char \<Rightarrow> string" where
  "raw_escape_char c = (let n = (of_char c :: nat) in
     if n = 34 then [CHR 0x5C, CHR 0x22]
     else if n = 92 then [CHR 0x5C, CHR 0x5C]
     else if n = 10 then [CHR 0x5C, CHR ''n'']
     else if n = 13 then [CHR 0x5C, CHR ''r'']
     else if n = 9 then [CHR 0x5C, CHR ''t'']
     else if n = 8 then [CHR 0x5C, CHR ''b'']
     else if n = 12 then [CHR 0x5C, CHR ''f'']
     else if n < 32 then [CHR 0x5C, CHR ''u'', CHR ''0'', CHR ''0'', hex_char (n div 16), hex_char (n mod 16)]
     else [c])"

definition raw_quote :: "string \<Rightarrow> string" where
  "raw_quote s = [CHR 0x22] @ concat (map raw_escape_char s) @ [CHR 0x22]"

fun raw_render :: "py_std \<Rightarrow> json \<Rightarrow> string" where
  "raw_render std (JStr s) = raw_quote s"
| "raw_render std (JList xs) = ''['' @ py_join '','' (map (raw_render std) xs) @ '']''"
| "raw_render std (JObj kvs) =
     ''{'' @ py_join '','' (map (\<lambda>(k, v). raw_quote k @ '':'' @ raw_render std v) kvs) @ ''}''"
| "raw_render std j = json_render std j"

definition canonical_payload_json :: "py_std \<Rightarrow> json \<Rightarrow> string" where
  "canonical_payload_json std j = raw_render std (json_norm j)"

definition utf8_length :: "string \<Rightarrow> int" where
  "utf8_length s = sum_list (map (\<lambda>c. if (of_char c :: nat) < 128 then 1 else 2) s)"

definition outbox_error :: "string \<Rightarrow> exn" where
  "outbox_error m = OtherError ''ArtifactOutboxError'' m"

definition canonical_payload_text :: "py_std \<Rightarrow> (string \<Rightarrow> json option) \<Rightarrow> string \<Rightarrow> string res" where
  "canonical_payload_text std loads value =
     (case loads value of
        None \<Rightarrow> Inl (outbox_error ''artifact payload_json is not valid JSON'')
      | Some (JObj kvs) \<Rightarrow> Inr (canonical_payload_json std (JObj kvs))
      | Some _ \<Rightarrow> Inl (outbox_error ''artifact payload_json must encode a JSON object''))"

section \<open>Validation\<close>

definition require :: "bool \<Rightarrow> string \<Rightarrow> unit res" where
  "require c m = (if c then Inr () else Inl (outbox_error m))"

definition outbox_identifier :: "string \<Rightarrow> string \<Rightarrow> unit res" where
  "outbox_identifier value label = require (bounded_identifier '':._/@-'' 239 value) (label @ '' is invalid'')"

definition product_name :: "string \<Rightarrow> bool" where
  "product_name s = (case s of [] \<Rightarrow> False | c # cs \<Rightarrow>
     c \<in> set ''abcdefghijklmnopqrstuvwxyz'' \<and> list_all (\<lambda>d. d \<in> set ''abcdefghijklmnopqrstuvwxyz0123456789-'') cs \<and> length cs \<le> 79)"

definition outbox_product :: "string \<Rightarrow> unit res" where
  "outbox_product value = require (product_name value) ''product artifact product is invalid''"

definition outbox_text :: "string \<Rightarrow> string \<Rightarrow> nat \<Rightarrow> unit res" where
  "outbox_text value label maximum =
     require (value \<noteq> [] \<and> length value \<le> maximum \<and> CHR 0x0A \<notin> set value) (label @ '' is invalid'')"

definition outbox_utc :: "py_datetime \<Rightarrow> string \<Rightarrow> instant res" where
  "outbox_utc value label =
     (if utc_offset_us value = None then Inl (outbox_error (label @ '' must include a timezone'')) else Inr (as_instant value))"

section \<open>Artifacts and deliveries\<close>

datatype delivery_channel = GITHUB_CHECK | GITHUB_COMMENT

fun channel_value :: "delivery_channel \<Rightarrow> string" where
  "channel_value GITHUB_CHECK = ''github_check''"
| "channel_value GITHUB_COMMENT = ''github_comment''"

datatype delivery_state = PENDING | LEASED | DELIVERED

record delivery_intent =
  di_delivery_key :: string
  di_channel :: delivery_channel
  di_idempotency_key :: string
  di_payload_json :: string

definition intent_init :: "py_std \<Rightarrow> (string \<Rightarrow> json option) \<Rightarrow> delivery_intent \<Rightarrow> delivery_intent res" where
  "intent_init std loads i =
     rbind (outbox_identifier (di_delivery_key i) ''artifact delivery_key'') (\<lambda>_.
     rbind (outbox_identifier (di_idempotency_key i) ''artifact idempotency_key'') (\<lambda>_.
     rbind (canonical_payload_text std loads (di_payload_json i)) (\<lambda>canonical.
     rbind (require (canonical = di_payload_json i) ''artifact payload_json must be canonical JSON'') (\<lambda>_.
     rbind (require (utf8_length (di_payload_json i) \<le> 64 * 1024) ''artifact payload_json exceeds the maximum size'') (\<lambda>_.
     Inr i)))))"

record product_artifact =
  pa_artifact_id :: string
  pa_product :: string
  pa_scope_id :: string
  pa_correlation_id :: string
  pa_context_version :: string
  pa_deliveries :: "delivery_intent list"

definition artifact_init :: "product_artifact \<Rightarrow> product_artifact res" where
  "artifact_init a =
     rbind (outbox_identifier (pa_artifact_id a) ''product artifact_id'') (\<lambda>_.
     rbind (outbox_product (pa_product a)) (\<lambda>_.
     rbind (outbox_identifier (pa_scope_id a) ''product artifact scope_id'') (\<lambda>_.
     rbind (outbox_identifier (pa_correlation_id a) ''product artifact correlation_id'') (\<lambda>_.
     rbind (outbox_text (pa_context_version a) ''product artifact context_version'' 240) (\<lambda>_.
     rbind (require (pa_deliveries a \<noteq> []) ''a product artifact requires at least one delivery'') (\<lambda>_.
     rbind (require (length (pa_deliveries a) \<le> 32) ''a product artifact exceeds the delivery limit'') (\<lambda>_.
     rbind (require (pa_deliveries a = sort_key di_delivery_key (pa_deliveries a)) ''artifact deliveries must be sorted'') (\<lambda>_.
     rbind (require (distinct (map di_delivery_key (pa_deliveries a))) ''artifact delivery_keys must be unique'') (\<lambda>_.
     rbind (require (distinct (map di_idempotency_key (pa_deliveries a))) ''artifact idempotency_keys must be unique'') (\<lambda>_.
     Inr a))))))))))"

definition artifact_payload :: "product_artifact \<Rightarrow> json" where
  "artifact_payload a = JObj
     [(''artifact_id'', JStr (pa_artifact_id a)), (''product'', JStr (pa_product a)), (''scope_id'', JStr (pa_scope_id a)),
      (''correlation_id'', JStr (pa_correlation_id a)), (''context_version'', JStr (pa_context_version a)),
      (''deliveries'', JList (map (\<lambda>i. JObj
         [(''delivery_key'', JStr (di_delivery_key i)), (''channel'', JStr (channel_value (di_channel i))),
          (''idempotency_key'', JStr (di_idempotency_key i)), (''payload_json'', JStr (di_payload_json i))]) (pa_deliveries a)))]"

record leased_delivery =
  ld_artifact_id :: string
  ld_product :: string
  ld_scope_id :: string
  ld_correlation_id :: string
  ld_context_version :: string
  ld_intent :: delivery_intent
  ld_attempt :: int
  ld_lease_token :: string
  ld_lease_expires_at :: instant

definition leased_init :: "leased_delivery \<Rightarrow> leased_delivery res" where
  "leased_init d =
     rbind (outbox_identifier (ld_artifact_id d) ''leased artifact_id'') (\<lambda>_.
     rbind (outbox_product (ld_product d)) (\<lambda>_.
     rbind (outbox_identifier (ld_scope_id d) ''leased scope_id'') (\<lambda>_.
     rbind (outbox_identifier (ld_correlation_id d) ''leased correlation_id'') (\<lambda>_.
     rbind (outbox_text (ld_context_version d) ''leased context_version'' 240) (\<lambda>_.
     rbind (require (1 \<le> ld_attempt d) ''leased artifact attempt is invalid'') (\<lambda>_.
     rbind (outbox_identifier (ld_lease_token d) ''leased artifact lease_token'') (\<lambda>_.
     Inr d)))))))"

section \<open>The tables\<close>

record artifact_row =
  ar_artifact_id :: string
  ar_product :: string
  ar_scope_id :: string
  ar_correlation_id :: string
  ar_context_version :: string
  ar_payload :: string
  ar_recorded_at :: instant

record delivery_row =
  dr_artifact_id :: string
  dr_intent :: delivery_intent
  dr_state :: delivery_state
  dr_attempts :: int
  dr_available_at :: instant
  dr_lease_token :: "string option"
  dr_lease_expires_at :: "instant option"
  dr_last_error :: "string option"
  dr_delivered_at :: "instant option"

record outbox =
  ob_artifacts :: "artifact_row list"
  ob_deliveries :: "delivery_row list"

abbreviation dr_key :: "delivery_row \<Rightarrow> string \<times> string" where
  "dr_key d \<equiv> (dr_artifact_id d, di_delivery_key (dr_intent d))"

abbreviation ld_key :: "leased_delivery \<Rightarrow> string \<times> string" where
  "ld_key l \<equiv> (ld_artifact_id l, di_delivery_key (ld_intent l))"

definition find_artifact :: "outbox \<Rightarrow> string \<Rightarrow> artifact_row option" where
  "find_artifact ob i = find (\<lambda>a. ar_artifact_id a = i) (ob_artifacts ob)"

definition find_delivery :: "outbox \<Rightarrow> string \<times> string \<Rightarrow> delivery_row option" where
  "find_delivery ob k = find (\<lambda>d. dr_key d = k) (ob_deliveries ob)"

text \<open>\<open>INSERT\<close> into the delivery table, under its primary key and the unique idempotency key.\<close>

definition insert_delivery :: "string \<Rightarrow> instant \<Rightarrow> delivery_intent \<Rightarrow> delivery_row list \<Rightarrow> delivery_row list res" where
  "insert_delivery artifact_id now i rows =
     (if list_ex (\<lambda>d. dr_key d = (artifact_id, di_delivery_key i)) rows
      then Inl (OtherError ''IntegrityError'' ''UNIQUE constraint failed: company_brain_artifact_deliveries.artifact_id, company_brain_artifact_deliveries.delivery_key'')
      else if list_ex (\<lambda>d. di_idempotency_key (dr_intent d) = di_idempotency_key i) rows
      then Inl (OtherError ''IntegrityError'' ''UNIQUE constraint failed: company_brain_artifact_deliveries.idempotency_key'')
      else Inr (rows @ [\<lparr>dr_artifact_id = artifact_id, dr_intent = i, dr_state = PENDING, dr_attempts = 0, dr_available_at = now,
        dr_lease_token = None, dr_lease_expires_at = None, dr_last_error = None, dr_delivered_at = None\<rparr>]))"

definition outbox_now :: "instant \<Rightarrow> py_datetime option \<Rightarrow> string \<Rightarrow> instant res" where
  "outbox_now clock given label = (case given of None \<Rightarrow> Inr clock | Some d \<Rightarrow> outbox_utc d label)"

definition artifact_row_for :: "py_std \<Rightarrow> instant \<Rightarrow> product_artifact \<Rightarrow> artifact_row" where
  "artifact_row_for std now a = \<lparr>ar_artifact_id = pa_artifact_id a, ar_product = pa_product a, ar_scope_id = pa_scope_id a,
     ar_correlation_id = pa_correlation_id a, ar_context_version = pa_context_version a,
     ar_payload = canonical_payload_json std (artifact_payload a), ar_recorded_at = now\<rparr>"

definition record_artifact :: "py_std \<Rightarrow> instant \<Rightarrow> product_artifact \<Rightarrow> py_datetime option \<Rightarrow> outbox \<Rightarrow> (bool \<times> outbox) res" where
  "record_artifact std clock a recorded_at ob =
     (let payload = canonical_payload_json std (artifact_payload a) in
      rbind (outbox_now clock recorded_at ''artifact recorded_at'') (\<lambda>now.
      case find_artifact ob (pa_artifact_id a) of
        Some row \<Rightarrow>
          if ar_payload row \<noteq> payload then Inl (outbox_error ''product artifact_id conflicts with retained history'')
          else Inr (False, ob)
      | None \<Rightarrow>
          rbind (fold_res (insert_delivery (pa_artifact_id a) now) (pa_deliveries a) (ob_deliveries ob)) (\<lambda>rows.
          Inr (True, \<lparr>ob_artifacts = ob_artifacts ob @ [artifact_row_for std now a], ob_deliveries = rows\<rparr>))))"

text \<open>The selection of \<open>claim_next\<close>: a due delivery of a retained artifact, first in the order of the query.\<close>

definition due :: "instant \<Rightarrow> delivery_row \<Rightarrow> bool" where
  "due now d \<longleftrightarrow> (dr_state d = PENDING \<and> dr_available_at d \<le> now) \<or>
     (dr_state d = LEASED \<and> (case dr_lease_expires_at d of None \<Rightarrow> False | Some e \<Rightarrow> e \<le> now))"

definition candidates :: "instant \<Rightarrow> string option \<Rightarrow> outbox \<Rightarrow> delivery_row list" where
  "candidates now artifact_id ob =
     sort_key (\<lambda>d. (dr_available_at d, dr_artifact_id d, di_delivery_key (dr_intent d)))
       (filter (\<lambda>d. due now d \<and> (case artifact_id of None \<Rightarrow> True | Some i \<Rightarrow> dr_artifact_id d = i) \<and>
          find_artifact ob (dr_artifact_id d) \<noteq> None) (ob_deliveries ob))"

definition update_delivery :: "string \<times> string \<Rightarrow> (delivery_row \<Rightarrow> delivery_row) \<Rightarrow> outbox \<Rightarrow> outbox" where
  "update_delivery k f ob = ob\<lparr>ob_deliveries := map (\<lambda>d. if dr_key d = k then f d else d) (ob_deliveries ob)\<rparr>"

definition claim_next ::
    "py_std \<Rightarrow> (string \<Rightarrow> json option) \<Rightarrow> instant \<Rightarrow> string \<Rightarrow> py_datetime option \<Rightarrow> int \<Rightarrow> string option \<Rightarrow> outbox \<Rightarrow>
       leased_delivery option res \<times> outbox" where
  "claim_next std loads clock uuid_hex now lease_duration artifact_id ob =
     (case rbind (require (0 < lease_duration \<and> lease_duration \<le> 300000000) ''artifact lease_duration is invalid'') (\<lambda>_.
           rbind (case artifact_id of None \<Rightarrow> Inr () | Some i \<Rightarrow> outbox_identifier i ''artifact_id'') (\<lambda>_.
           outbox_now clock now ''artifact claim time'')) of
        Inl e \<Rightarrow> (Inl e, ob)
      | Inr current \<Rightarrow>
          (case candidates current artifact_id ob of
             [] \<Rightarrow> (Inr None, ob)
           | row # _ \<Rightarrow>
             let a = the (find_artifact ob (dr_artifact_id row)); lease_token = ''lease:'' @ uuid_hex;
                 lease_expires_at = current + lease_duration; attempt = dr_attempts row + 1;
                 ob' = update_delivery (dr_key row) (\<lambda>d. d\<lparr>dr_state := LEASED, dr_attempts := attempt,
                    dr_lease_token := Some lease_token, dr_lease_expires_at := Some lease_expires_at, dr_last_error := None\<rparr>) ob in
             (rbind (intent_init std loads (dr_intent row)) (\<lambda>intent.
              rbind (leased_init \<lparr>ld_artifact_id = ar_artifact_id a, ld_product = ar_product a, ld_scope_id = ar_scope_id a,
                ld_correlation_id = ar_correlation_id a, ld_context_version = ar_context_version a, ld_intent = intent,
                ld_attempt = attempt, ld_lease_token = lease_token, ld_lease_expires_at = lease_expires_at\<rparr>) (\<lambda>l. Inr (Some l))),
              ob')))"

definition require_lease :: "leased_delivery \<Rightarrow> outbox \<Rightarrow> unit res" where
  "require_lease l ob =
     (case find_delivery ob (ld_key l) of
        None \<Rightarrow> Inl (outbox_error ''artifact delivery is not currently leased'')
      | Some d \<Rightarrow>
          if dr_state d \<noteq> LEASED then Inl (outbox_error ''artifact delivery is not currently leased'')
          else if (case dr_lease_token d of None \<Rightarrow> [] | Some t \<Rightarrow> t) \<noteq> ld_lease_token l
          then Inl (outbox_error ''artifact delivery lease token does not match'')
          else Inr ())"

definition acknowledge :: "instant \<Rightarrow> leased_delivery \<Rightarrow> py_datetime option \<Rightarrow> outbox \<Rightarrow> outbox res" where
  "acknowledge clock l delivered_at ob =
     rbind (outbox_now clock delivered_at ''artifact delivered_at'') (\<lambda>timestamp.
     rbind (require_lease l ob) (\<lambda>_.
     Inr (update_delivery (ld_key l) (\<lambda>d. d\<lparr>dr_state := DELIVERED, dr_delivered_at := Some timestamp, dr_lease_token := None,
       dr_lease_expires_at := None, dr_last_error := None\<rparr>) ob)))"

definition retry_delivery :: "leased_delivery \<Rightarrow> string \<Rightarrow> py_datetime \<Rightarrow> outbox \<Rightarrow> outbox res" where
  "retry_delivery l error retry_at ob =
     rbind (outbox_text error ''artifact delivery error'' 500) (\<lambda>_.
     rbind (outbox_utc retry_at ''artifact retry_at'') (\<lambda>timestamp.
     rbind (require_lease l ob) (\<lambda>_.
     Inr (update_delivery (ld_key l) (\<lambda>d. d\<lparr>dr_state := PENDING, dr_available_at := timestamp, dr_lease_token := None,
       dr_lease_expires_at := None, dr_last_error := Some error\<rparr>) ob))))"

record delivery_status =
  ds_artifact_id :: string
  ds_delivery_key :: string
  ds_state :: delivery_state
  ds_attempts :: int
  ds_available_at :: instant
  ds_last_error :: "string option"
  ds_delivered_at :: "instant option"

definition status_init :: "delivery_status \<Rightarrow> delivery_status res" where
  "status_init s =
     rbind (outbox_identifier (ds_artifact_id s) ''artifact status artifact_id'') (\<lambda>_.
     rbind (outbox_identifier (ds_delivery_key s) ''artifact status delivery_key'') (\<lambda>_.
     rbind (require (0 \<le> ds_attempts s) ''artifact status attempts is invalid'') (\<lambda>_.
     rbind (case ds_last_error s of None \<Rightarrow> Inr () | Some e \<Rightarrow> outbox_text e ''artifact status last_error'' 500) (\<lambda>_.
     Inr s))))"

definition statuses :: "string \<Rightarrow> outbox \<Rightarrow> delivery_status list res" where
  "statuses artifact_id ob =
     rbind (outbox_identifier artifact_id ''artifact_id'') (\<lambda>_.
     map_res (\<lambda>d. status_init \<lparr>ds_artifact_id = dr_artifact_id d, ds_delivery_key = di_delivery_key (dr_intent d), ds_state = dr_state d,
         ds_attempts = dr_attempts d, ds_available_at = dr_available_at d, ds_last_error = dr_last_error d, ds_delivered_at = dr_delivered_at d\<rparr>)
       (sort_key (\<lambda>d. di_delivery_key (dr_intent d)) (filter (\<lambda>d. dr_artifact_id d = artifact_id) (ob_deliveries ob))))"

end
