(* ===== verification/Outbox_Safety.thy ===== *)
theory Outbox_Safety
  imports Artifact_Outbox
begin

text \<open>
  What holds of every outbox that operations can reach: keys are unique, the lease columns agree
  with the state, every delivery has its artifact. Deliveries of a recorded artifact are neither
  lost nor altered, a delivered row is final, and a lease excludes everybody but its holder (the
  interpretation of \<open>lease_contract\<close>).
\<close>

section \<open>Rows and updates\<close>

abbreviation dr_idem :: "delivery_row \<Rightarrow> string" where
  "dr_idem d \<equiv> di_idempotency_key (dr_intent d)"

lemma find_distinct_key: "distinct (map f xs) \<Longrightarrow> x \<in> set xs \<Longrightarrow> find (\<lambda>y. f y = f x) xs = Some x"
  by (induction xs) (auto simp: image_iff)

lemma find_delivery_update:
  assumes "\<And>d. dr_key (f d) = dr_key d"
  shows "find_delivery (update_delivery k f ob) k' = (if k' = k then map_option f (find_delivery ob k) else find_delivery ob k')"
proof -
  have "find (\<lambda>d. dr_key d = k') (map (\<lambda>d. if dr_key d = k then f d else d) rows) =
      (if k' = k then map_option f (find (\<lambda>d. dr_key d = k) rows) else find (\<lambda>d. dr_key d = k') rows)" for rows
    using assms by (induction rows) auto
  then show ?thesis by (simp add: find_delivery_def update_delivery_def)
qed

lemma update_delivery_simps [simp]:
  "ob_artifacts (update_delivery k f ob) = ob_artifacts ob"
  "ob_deliveries (update_delivery k f ob) = map (\<lambda>d. if dr_key d = k then f d else d) (ob_deliveries ob)"
  "find_artifact (update_delivery k f ob) i = find_artifact ob i"
  by (simp_all add: update_delivery_def find_artifact_def)

definition new_row :: "string \<Rightarrow> instant \<Rightarrow> delivery_intent \<Rightarrow> delivery_row" where
  "new_row artifact_id now i = \<lparr>dr_artifact_id = artifact_id, dr_intent = i, dr_state = PENDING, dr_attempts = 0, dr_available_at = now,
     dr_lease_token = None, dr_lease_expires_at = None, dr_last_error = None, dr_delivered_at = None\<rparr>"

lemma insert_delivery_Inr:
  "insert_delivery a now i rows = Inr rows' \<longleftrightarrow> rows' = rows @ [new_row a now i] \<and>
     (a, di_delivery_key i) \<notin> dr_key ` set rows \<and> di_idempotency_key i \<notin> dr_idem ` set rows"
  by (auto simp: insert_delivery_def new_row_def list_ex_iff image_iff)

lemma insert_deliveries:
  assumes "fold_res (insert_delivery a now) is rows = Inr rows'"
    and "distinct (map dr_key rows)" "distinct (map dr_idem rows)"
  shows "rows' = rows @ map (new_row a now) is \<and> distinct (map dr_key rows') \<and> distinct (map dr_idem rows')"
  using assms
proof (induction "is" arbitrary: rows)
  case (Cons i "is")
  then have fresh: "(a, di_delivery_key i) \<notin> dr_key ` set rows" "di_idempotency_key i \<notin> dr_idem ` set rows"
    and rest: "fold_res (insert_delivery a now) is (rows @ [new_row a now i]) = Inr rows'"
    by (auto simp only: fold_res.simps rbind_eq_Inr insert_delivery_Inr)
  then have "distinct (map dr_key (rows @ [new_row a now i]))" "distinct (map dr_idem (rows @ [new_row a now i]))"
    using Cons.prems(2,3) by (simp_all add: new_row_def)
  from Cons.IH [OF rest this] show ?case unfolding append_assoc append_Cons append_Nil list.map .
qed simp

section \<open>The invariant\<close>

definition row_shape :: "delivery_row \<Rightarrow> bool" where
  "row_shape d \<longleftrightarrow>
     (case dr_state d of
        PENDING \<Rightarrow> dr_lease_token d = None \<and> dr_lease_expires_at d = None \<and> dr_delivered_at d = None \<and> 0 \<le> dr_attempts d
      | LEASED \<Rightarrow> dr_lease_token d \<noteq> None \<and> dr_lease_expires_at d \<noteq> None \<and> dr_delivered_at d = None \<and> 1 \<le> dr_attempts d
      | DELIVERED \<Rightarrow> dr_lease_token d = None \<and> dr_lease_expires_at d = None \<and> dr_delivered_at d \<noteq> None \<and> 1 \<le> dr_attempts d)"

definition outbox_wf :: "outbox \<Rightarrow> bool" where
  "outbox_wf ob \<longleftrightarrow> distinct (map ar_artifact_id (ob_artifacts ob)) \<and> distinct (map dr_key (ob_deliveries ob)) \<and>
     distinct (map dr_idem (ob_deliveries ob)) \<and>
     list_all (\<lambda>d. row_shape d \<and> find_artifact ob (dr_artifact_id d) \<noteq> None) (ob_deliveries ob)"

lemma outbox_wf_update:
  assumes "outbox_wf ob" "\<And>d. dr_artifact_id (f d) = dr_artifact_id d \<and> dr_intent (f d) = dr_intent d"
    and "\<And>d. find_delivery ob k = Some d \<Longrightarrow> row_shape d \<Longrightarrow> row_shape (f d)"
  shows "outbox_wf (update_delivery k f ob)"
proof -
  have same: "map dr_key (map (\<lambda>d. if dr_key d = k then f d else d) rows) = map dr_key rows"
      "map dr_idem (map (\<lambda>d. if dr_key d = k then f d else d) rows) = map dr_idem rows" for rows
    using assms(2) by (simp_all add: o_def)
  have found: "find_delivery ob k = Some d" if "d \<in> set (ob_deliveries ob)" "dr_key d = k" for d
    using find_distinct_key [OF _ that(1), of dr_key] assms(1) that(2) by (auto simp: outbox_wf_def find_delivery_def)
  have "row_shape (if dr_key d = k then f d else d) \<and> find_artifact ob (dr_artifact_id (if dr_key d = k then f d else d)) \<noteq> None"
    if "d \<in> set (ob_deliveries ob)" for d
    using that assms found by (auto simp: outbox_wf_def list_all_iff)
  then show ?thesis using assms(1) by (simp only: outbox_wf_def update_delivery_simps same list.pred_map) (simp add: list_all_iff)
qed

lemma find_wf: "outbox_wf ob \<Longrightarrow> find_delivery ob k = Some d \<Longrightarrow> row_shape d \<and> dr_key d = k \<and> d \<in> set (ob_deliveries ob)"
  by (auto simp: find_delivery_def outbox_wf_def list_all_iff dest: find_SomeD)

lemma find_key: "outbox_wf ob \<Longrightarrow> d \<in> set (ob_deliveries ob) \<Longrightarrow> find_delivery ob (dr_key d) = Some d"
  using find_distinct_key [of dr_key "ob_deliveries ob" d] by (simp add: outbox_wf_def find_delivery_def)

section \<open>Each operation\<close>

lemma record_cases:
  assumes "record_artifact std clock a t ob = Inr (fresh, ob')"
  obtains (replay) row where "fresh = False" "ob' = ob" "find_artifact ob (pa_artifact_id a) = Some row"
      "ar_payload row = canonical_payload_json std (artifact_payload a)"
  | (new) now where "fresh = True" "find_artifact ob (pa_artifact_id a) = None"
      "ob_artifacts ob' = ob_artifacts ob @ [artifact_row_for std now a]"
      "fold_res (insert_delivery (pa_artifact_id a) now) (pa_deliveries a) (ob_deliveries ob) = Inr (ob_deliveries ob')"
proof (cases "find_artifact ob (pa_artifact_id a)")
  case None
  with assms obtain now rows where "fresh = True" "ob' = \<lparr>ob_artifacts = ob_artifacts ob @ [artifact_row_for std now a], ob_deliveries = rows\<rparr>"
      "fold_res (insert_delivery (pa_artifact_id a) now) (pa_deliveries a) (ob_deliveries ob) = Inr rows"
    by (auto simp: record_artifact_def Let_def rbind_eq_Inr)
  with None show thesis using new by simp
next
  case (Some row)
  with assms show thesis unfolding record_artifact_def Let_def rbind_eq_Inr option.case by (auto intro: replay split: if_splits)
qed

lemma find_artifact_append:
  "ob_artifacts ob' = ob_artifacts ob @ [row] \<Longrightarrow> find_artifact ob i \<noteq> None \<Longrightarrow> find_artifact ob' i = find_artifact ob i"
  by (auto simp: find_artifact_def find_append)

lemma record_wf: "outbox_wf ob \<Longrightarrow> record_artifact std clock a t ob = Inr (fresh, ob') \<Longrightarrow> outbox_wf ob'"
proof (erule record_cases)
  fix now
  assume wf: "outbox_wf ob" and none: "find_artifact ob (pa_artifact_id a) = None"
    and arts: "ob_artifacts ob' = ob_artifacts ob @ [artifact_row_for std now a]"
    and ins: "fold_res (insert_delivery (pa_artifact_id a) now) (pa_deliveries a) (ob_deliveries ob) = Inr (ob_deliveries ob')"
  from wf have "distinct (map dr_key (ob_deliveries ob))" "distinct (map dr_idem (ob_deliveries ob))"
    by (simp_all only: outbox_wf_def)
  note rows = insert_deliveries [OF ins this]
  have here: "find_artifact ob' (pa_artifact_id a) \<noteq> None"
    by (simp add: arts find_artifact_def find_append artifact_row_for_def split: option.split)
  have "pa_artifact_id a \<notin> ar_artifact_id ` set (ob_artifacts ob)" using none by (auto simp: find_artifact_def find_None_iff)
  then have "distinct (map ar_artifact_id (ob_artifacts ob'))" using wf arts by (simp add: outbox_wf_def artifact_row_for_def)
  moreover have "row_shape d \<and> find_artifact ob' (dr_artifact_id d) \<noteq> None" if "d \<in> set (ob_deliveries ob')" for d
  proof -
    from that have "d \<in> set (ob_deliveries ob) \<union> new_row (pa_artifact_id a) now ` set (pa_deliveries a)"
      unfolding conjunct1 [OF rows] by simp
    then consider "d \<in> set (ob_deliveries ob)" | i where "d = new_row (pa_artifact_id a) now i" by blast
    then show ?thesis
    proof cases
      case 1
      with wf find_artifact_append [OF arts] show ?thesis by (auto simp: outbox_wf_def list_all_iff)
    next
      case (2 i)
      with here show ?thesis by (simp add: row_shape_def new_row_def)
    qed
  qed
  ultimately show "outbox_wf ob'" using rows unfolding outbox_wf_def list_all_iff by blast
qed simp

lemma claim_next_cases:
  assumes "claim_next std loads clock uuid now dur i ob = (r, ob')" "outbox_wf ob"
  obtains (unchanged) "ob' = ob" "r = Inr None \<or> (\<exists>e. r = Inl e)"
  | (leased) d t where "outbox_now clock now ''artifact claim time'' = Inr t" "find_delivery ob (dr_key d) = Some d" "due t d" "0 < dur"
      "i = None \<or> i = Some (dr_artifact_id d)"
      "ob' = update_delivery (dr_key d) (\<lambda>e. e\<lparr>dr_state := LEASED, dr_attempts := dr_attempts d + 1,
         dr_lease_token := Some (''lease:'' @ uuid), dr_lease_expires_at := Some (t + dur), dr_last_error := None\<rparr>) ob"
      "\<And>l. r = Inr (Some l) \<Longrightarrow> ld_key l = dr_key d \<and> ld_intent l = dr_intent d \<and> ld_lease_token l = ''lease:'' @ uuid \<and>
         ld_lease_expires_at l = t + dur \<and> ld_attempt l = dr_attempts d + 1" "r \<noteq> Inr None"
proof -
  let ?check = "rbind (require (0 < dur \<and> dur \<le> 300000000) ''artifact lease_duration is invalid'') (\<lambda>_.
      rbind (case i of None \<Rightarrow> Inr () | Some i \<Rightarrow> outbox_identifier i ''artifact_id'') (\<lambda>_. outbox_now clock now ''artifact claim time''))"
  show thesis
  proof (cases ?check)
    case (Inl e)
    with assms(1) show thesis using unchanged by (auto simp: claim_next_def)
  next
    case (Inr t)
    show thesis
    proof (cases "candidates t i ob")
      case Nil
      with assms(1) Inr show thesis using unchanged by (auto simp: claim_next_def)
    next
      case (Cons d ds)
      then have "d \<in> set (candidates t i ob)" by simp
      then have d: "d \<in> set (ob_deliveries ob)" "due t d" "i = None \<or> i = Some (dr_artifact_id d)" "find_artifact ob (dr_artifact_id d) \<noteq> None"
        by (auto simp: candidates_def split: option.splits)
      then obtain a where a: "find_artifact ob (dr_artifact_id d) = Some a" "ar_artifact_id a = dr_artifact_id d"
        by (auto simp: find_artifact_def dest: find_SomeD)
      from Inr have t: "outbox_now clock now ''artifact claim time'' = Inr t" "0 < dur"
        by (auto simp: rbind_eq_Inr require_def split: if_splits)
      note run = assms(1) [unfolded claim_next_def Inr sum.case Cons list.case Let_def a option.sel]
      show thesis
        by (rule leased [OF t(1) find_key [OF assms(2) d(1)] d(2) t(2) d(3)])
           (use run a in \<open>auto simp: rbind_eq_Inr intent_init_def leased_init_def\<close>)
    qed
  qed
qed

lemma require_lease_Inr:
  "require_lease l ob = Inr u \<longleftrightarrow> (\<exists>d. find_delivery ob (ld_key l) = Some d \<and> dr_state d = LEASED \<and>
     (case dr_lease_token d of None \<Rightarrow> [] | Some t \<Rightarrow> t) = ld_lease_token l)"
  by (auto simp: require_lease_def split: option.split)

lemma acknowledge_Inr:
  assumes "acknowledge clock l t ob = Inr ob'"
  obtains now where "require_lease l ob = Inr ()" "ob' = update_delivery (ld_key l) (\<lambda>d. d\<lparr>dr_state := DELIVERED,
      dr_delivered_at := Some now, dr_lease_token := None, dr_lease_expires_at := None, dr_last_error := None\<rparr>) ob"
  using assms by (auto simp: acknowledge_def rbind_eq_Inr)

lemma retry_Inr:
  assumes "retry_delivery l err t ob = Inr ob'"
  obtains now where "require_lease l ob = Inr ()" "ob' = update_delivery (ld_key l) (\<lambda>d. d\<lparr>dr_state := PENDING,
      dr_available_at := now, dr_lease_token := None, dr_lease_expires_at := None, dr_last_error := Some err\<rparr>) ob"
  using assms by (auto simp: retry_delivery_def rbind_eq_Inr)

section \<open>Sequences of operations\<close>

datatype outbox_op =
    Record product_artifact "py_datetime option" instant
  | ClaimNext string "py_datetime option" int "string option" instant
  | Acknowledge leased_delivery "py_datetime option" instant
  | Retry leased_delivery string py_datetime

definition apply_outbox :: "py_std \<Rightarrow> (string \<Rightarrow> json option) \<Rightarrow> outbox_op \<Rightarrow> outbox \<Rightarrow> outbox" where
  "apply_outbox std loads op ob =
     (case op of
        Record a t clock \<Rightarrow> (case record_artifact std clock a t ob of Inl _ \<Rightarrow> ob | Inr (_, ob') \<Rightarrow> ob')
      | ClaimNext uuid now dur i clock \<Rightarrow> snd (claim_next std loads clock uuid now dur i ob)
      | Acknowledge l t clock \<Rightarrow> (case acknowledge clock l t ob of Inl _ \<Rightarrow> ob | Inr ob' \<Rightarrow> ob')
      | Retry l err t \<Rightarrow> (case retry_delivery l err t ob of Inl _ \<Rightarrow> ob | Inr ob' \<Rightarrow> ob'))"

definition empty_outbox :: outbox where
  "empty_outbox = \<lparr>ob_artifacts = [], ob_deliveries = []\<rparr>"

text \<open>An operation leaves the tables alone, records an artifact, or rewrites one row that is not final.\<close>

lemma apply_outbox_cases:
  assumes "outbox_wf ob" "apply_outbox std loads op ob = ob'"
  obtains (same) "ob' = ob"
  | (recorded) a t clock where "op = Record a t clock" "record_artifact std clock a t ob = Inr (True, ob')"
  | (rewritten) f d where "ob' = update_delivery (dr_key d) f ob" "find_delivery ob (dr_key d) = Some d" "dr_state d \<noteq> DELIVERED"
      "\<And>e. dr_artifact_id (f e) = dr_artifact_id e \<and> dr_intent (f e) = dr_intent e" "row_shape d \<Longrightarrow> row_shape (f d)"
      "(\<exists>uuid now dur i clock t. op = ClaimNext uuid now dur i clock \<and> outbox_now clock now ''artifact claim time'' = Inr t \<and> due t d) \<or>
       (\<exists>l. require_lease l ob = Inr () \<and> ld_key l = dr_key d \<and> ((\<exists>t clock. op = Acknowledge l t clock) \<or> (\<exists>err t. op = Retry l err t)))"
proof (cases op)
  case (Record a t clock)
  show thesis
  proof (cases "record_artifact std clock a t ob")
    case (Inl e)
    with assms(2) Record show thesis using same by (simp add: apply_outbox_def)
  next
    case (Inr r)
    then obtain fresh ob1 where r: "record_artifact std clock a t ob = Inr (fresh, ob1)" by (metis surj_pair)
    with assms(2) Record have "ob' = ob1" by (simp add: apply_outbox_def)
    with r show thesis using same recorded [OF Record] by (cases rule: record_cases [OF r]) simp_all
  qed
next
  case (ClaimNext uuid now dur i clock)
  obtain r ob1 where c: "claim_next std loads clock uuid now dur i ob = (r, ob1)" by (metis surj_pair)
  with assms(2) ClaimNext have ob': "ob' = ob1" by (simp add: apply_outbox_def)
  from c assms(1) show thesis
  proof (cases rule: claim_next_cases)
    case unchanged
    with ob' show thesis using same by simp
  next
    case (leased d t)
    have shape: "row_shape d" using find_wf [OF assms(1) leased(2)] by blast
    show thesis
      by (rule rewritten [OF ob' [unfolded leased(6)] leased(2)])
         (use leased(1,3) ClaimNext shape in \<open>auto simp: due_def row_shape_def split: delivery_state.splits\<close>)
  qed
next
  case (Acknowledge l t clock)
  show thesis
  proof (cases "acknowledge clock l t ob")
    case (Inl e)
    with assms(2) Acknowledge show thesis using same by (simp add: apply_outbox_def)
  next
    case (Inr ob1)
    then obtain now where lease: "require_lease l ob = Inr ()" and ob1: "ob1 = update_delivery (ld_key l) (\<lambda>d. d\<lparr>dr_state := DELIVERED,
      dr_delivered_at := Some now, dr_lease_token := None, dr_lease_expires_at := None, dr_last_error := None\<rparr>) ob" by (rule acknowledge_Inr)
    then obtain d where d: "find_delivery ob (ld_key l) = Some d" "dr_state d = LEASED" unfolding require_lease_Inr by blast
    have ob': "ob' = ob1" using assms(2) Acknowledge Inr by (simp add: apply_outbox_def)
    from d have key: "dr_key d = ld_key l" and shape: "row_shape d" using find_wf [OF assms(1)] by blast+
    show thesis
      by (rule rewritten [OF ob1 [folded key ob']]) (use Acknowledge d key shape lease in \<open>auto simp: row_shape_def\<close>)
  qed
next
  case (Retry l err t)
  show thesis
  proof (cases "retry_delivery l err t ob")
    case (Inl e)
    with assms(2) Retry show thesis using same by (simp add: apply_outbox_def)
  next
    case (Inr ob1)
    then obtain now where lease: "require_lease l ob = Inr ()" and ob1: "ob1 = update_delivery (ld_key l) (\<lambda>d. d\<lparr>dr_state := PENDING,
      dr_available_at := now, dr_lease_token := None, dr_lease_expires_at := None, dr_last_error := Some err\<rparr>) ob" by (rule retry_Inr)
    then obtain d where d: "find_delivery ob (ld_key l) = Some d" "dr_state d = LEASED" unfolding require_lease_Inr by blast
    have ob': "ob' = ob1" using assms(2) Retry Inr by (simp add: apply_outbox_def)
    from d have key: "dr_key d = ld_key l" and shape: "row_shape d" using find_wf [OF assms(1)] by blast+
    show thesis
      by (rule rewritten [OF ob1 [folded key ob']]) (use Retry d key shape lease in \<open>auto simp: row_shape_def\<close>)
  qed
qed

lemma apply_outbox_wf: "outbox_wf ob \<Longrightarrow> outbox_wf (apply_outbox std loads op ob)"
proof -
  assume wf: "outbox_wf ob"
  from wf refl [of "apply_outbox std loads op ob"] show ?thesis
  proof (cases rule: apply_outbox_cases)
    case (recorded a t clock)
    then show ?thesis using record_wf [OF wf] by blast
  next
    case (rewritten f d)
    then show ?thesis using outbox_wf_update [OF wf rewritten(4), of "dr_key d"] by simp
  qed (simp add: wf)
qed

lemma run_outbox_wf: "outbox_wf ob \<Longrightarrow> outbox_wf (fold (apply_outbox std loads) ops ob)"
  by (induction ops arbitrary: ob) (simp_all add: apply_outbox_wf)

section \<open>Leases\<close>

definition lease_held :: "string \<times> string \<Rightarrow> string \<times> instant \<Rightarrow> outbox \<Rightarrow> bool" where
  "lease_held k lease ob \<longleftrightarrow> (\<exists>d. find_delivery ob k = Some d \<and> dr_state d = LEASED \<and>
     dr_lease_token d = Some (fst lease) \<and> dr_lease_expires_at d = Some (snd lease))"

text \<open>Operations of others: claims before the lease expires, and reports that do not present its token.\<close>

definition by_others :: "string \<times> string \<Rightarrow> string \<times> instant \<Rightarrow> outbox_op \<Rightarrow> bool" where
  "by_others k lease op \<longleftrightarrow>
     (case op of
        Record _ _ _ \<Rightarrow> True
      | ClaimNext _ now _ _ clock \<Rightarrow> (case outbox_now clock now ''artifact claim time'' of Inl _ \<Rightarrow> True | Inr t \<Rightarrow> t < snd lease)
      | Acknowledge l _ _ \<Rightarrow> ld_key l \<noteq> k \<or> ld_lease_token l \<noteq> fst lease
      | Retry l _ _ \<Rightarrow> ld_key l \<noteq> k \<or> ld_lease_token l \<noteq> fst lease)"

definition leased_out :: "py_std \<Rightarrow> (string \<Rightarrow> json option) \<Rightarrow> outbox_op \<Rightarrow> outbox \<Rightarrow> (string \<times> string) option" where
  "leased_out std loads op ob =
     (case op of
        ClaimNext uuid now dur i clock \<Rightarrow>
          (case fst (claim_next std loads clock uuid now dur i ob) of Inr (Some l) \<Rightarrow> Some (ld_key l) | _ \<Rightarrow> None)
      | _ \<Rightarrow> None)"

lemma record_keeps_delivery:
  assumes "record_artifact std clock a t ob = Inr (fresh, ob')" "find_delivery ob k = Some d" "outbox_wf ob"
  shows "find_delivery ob' k = Some d"
  using assms(1)
proof (cases rule: record_cases)
  case (new now)
  from assms(3) have "distinct (map dr_key (ob_deliveries ob))" "distinct (map dr_idem (ob_deliveries ob))"
    by (simp_all only: outbox_wf_def)
  from conjunct1 [OF insert_deliveries [OF new(4) this]] assms(2) show ?thesis by (simp add: find_delivery_def find_append)
qed (use assms(2) in simp)

lemma rewritten_other:
  assumes "\<And>e. dr_artifact_id (f e) = dr_artifact_id e \<and> dr_intent (f e) = dr_intent e" "k \<noteq> k'"
  shows "find_delivery (update_delivery k' f ob) k = find_delivery ob k"
  using find_delivery_update [of f k' ob k] assms by simp

lemma others_leave_lease:
  assumes "outbox_wf ob" "lease_held k lease ob" "by_others k lease op"
  shows "lease_held k lease (apply_outbox std loads op ob)"
  using assms(1) refl [of "apply_outbox std loads op ob"]
proof (cases rule: apply_outbox_cases)
  case (recorded a t clock)
  with assms(1,2) record_keeps_delivery show ?thesis unfolding lease_held_def by blast
next
  case (rewritten f d)
  from assms(2) obtain e where e: "find_delivery ob k = Some e" "dr_state e = LEASED" "dr_lease_token e = Some (fst lease)"
      "dr_lease_expires_at e = Some (snd lease)" unfolding lease_held_def by blast
  have "k \<noteq> dr_key d"
  proof
    assume k: "k = dr_key d"
    with e(1) rewritten(2) have "e = d" by simp
    with rewritten(6) assms(3) e k show False
      by (auto simp: by_others_def due_def require_lease_Inr)
  qed
  then show ?thesis unfolding rewritten(1) using assms(2) rewritten_other [OF rewritten(4)] by (simp add: lease_held_def)
qed (use assms(2) in simp)

lemma others_never_get_it:
  assumes "outbox_wf ob" "lease_held k lease ob" "by_others k lease op"
  shows "leased_out std loads op ob \<noteq> Some k"
proof (cases op)
  case (ClaimNext uuid now dur i clock)
  obtain r ob' where c: "claim_next std loads clock uuid now dur i ob = (r, ob')" by (metis surj_pair)
  from c assms(1) show ?thesis
  proof (cases rule: claim_next_cases)
    case unchanged
    with c ClaimNext show ?thesis by (auto simp: leased_out_def)
  next
    case (leased d t)
    have "dr_key d \<noteq> k" using assms(2,3) leased(1-3) ClaimNext by (auto simp: lease_held_def by_others_def due_def)
    with leased(7) c ClaimNext show ?thesis by (auto simp: leased_out_def split: sum.splits option.splits)
  qed
qed (simp_all add: leased_out_def)

interpretation outbox_leases: lease_contract outbox_wf lease_held "apply_outbox std loads" by_others "leased_out std loads" for std loads
  by unfold_locales (use apply_outbox_wf others_leave_lease others_never_get_it in auto)

section \<open>Deliveries are kept\<close>

definition intents_of :: "string \<Rightarrow> outbox \<Rightarrow> delivery_intent list" where
  "intents_of artifact_id ob = map dr_intent (filter (\<lambda>d. dr_artifact_id d = artifact_id) (ob_deliveries ob))"

lemma intents_map:
  "(\<And>e. dr_artifact_id (g e) = dr_artifact_id e \<and> dr_intent (g e) = dr_intent e) \<Longrightarrow>
     map dr_intent (filter (\<lambda>d. dr_artifact_id d = i) (map g rows)) = map dr_intent (filter (\<lambda>d. dr_artifact_id d = i) rows)"
  by (induction rows) simp_all

lemma apply_keeps_intents:
  assumes "outbox_wf ob" "find_artifact ob i \<noteq> None"
  shows "intents_of i (apply_outbox std loads op ob) = intents_of i ob \<and> find_artifact (apply_outbox std loads op ob) i \<noteq> None"
  using assms(1) refl [of "apply_outbox std loads op ob"]
proof (cases rule: apply_outbox_cases)
  case (recorded a t clock)
  from recorded(2) show ?thesis
  proof (cases rule: record_cases)
    case (new now)
    from assms(1) have "distinct (map dr_key (ob_deliveries ob))" "distinct (map dr_idem (ob_deliveries ob))"
      by (simp_all only: outbox_wf_def)
    note rows = conjunct1 [OF insert_deliveries [OF new(4) this]]
    have "i \<noteq> pa_artifact_id a" using new(2) assms(2) by blast
    with rows have "intents_of i (apply_outbox std loads op ob) = intents_of i ob"
      by (simp add: intents_of_def new_row_def filter_empty_conv)
    with find_artifact_append [OF new(3) assms(2)] assms(2) show ?thesis by simp
  qed simp
next
  case (rewritten f d)
  have "intents_of i (update_delivery (dr_key d) f ob) = intents_of i ob"
    unfolding intents_of_def update_delivery_simps by (rule intents_map) (simp add: rewritten(4))
  with assms(2) rewritten(1) show ?thesis by simp
qed (use assms(2) in simp)

lemma run_keeps_intents:
  "outbox_wf ob \<Longrightarrow> find_artifact ob i \<noteq> None \<Longrightarrow> intents_of i (fold (apply_outbox std loads) ops ob) = intents_of i ob"
proof (induction ops arbitrary: ob)
  case (Cons op ops)
  from apply_keeps_intents [OF Cons.prems, of std loads op] Cons.IH [OF apply_outbox_wf [OF Cons.prems(1)], of std loads op]
  show ?case by simp
qed simp

lemma recorded_intents:
  assumes "outbox_wf ob" "record_artifact std clock a t ob = Inr (True, ob')"
  shows "intents_of (pa_artifact_id a) ob' = pa_deliveries a \<and> find_artifact ob' (pa_artifact_id a) \<noteq> None"
  using assms(2)
proof (cases rule: record_cases)
  case (new now)
  from assms(1) have "distinct (map dr_key (ob_deliveries ob))" "distinct (map dr_idem (ob_deliveries ob))"
    by (simp_all only: outbox_wf_def)
  note rows = conjunct1 [OF insert_deliveries [OF new(4) this]]
  have "dr_artifact_id d \<noteq> pa_artifact_id a" if "d \<in> set (ob_deliveries ob)" for d
    using assms(1) new(2) that unfolding outbox_wf_def list_all_iff by fastforce
  then have "filter (\<lambda>d. dr_artifact_id d = pa_artifact_id a) (ob_deliveries ob) = []" by (simp add: filter_empty_conv)
  moreover have "filter (\<lambda>d. dr_artifact_id d = pa_artifact_id a) (map (new_row (pa_artifact_id a) now) is) = map (new_row (pa_artifact_id a) now) is" for "is"
    by (simp add: new_row_def)
  moreover have "map dr_intent (map (new_row (pa_artifact_id a) now) is) = is" for "is" by (simp add: new_row_def o_def)
  moreover have "find_artifact ob' (pa_artifact_id a) \<noteq> None"
    by (simp add: new(3) find_artifact_def find_append artifact_row_for_def split: option.split)
  ultimately show ?thesis by (simp add: intents_of_def rows del: map_map)
qed simp

lemma apply_keeps_delivered:
  assumes "outbox_wf ob" "find_delivery ob k = Some d" "dr_state d = DELIVERED"
  shows "find_delivery (apply_outbox std loads op ob) k = Some d"
  using assms(1) refl [of "apply_outbox std loads op ob"]
proof (cases rule: apply_outbox_cases)
  case (recorded a t clock)
  with assms(1,2) record_keeps_delivery show ?thesis by blast
next
  case (rewritten f e)
  then have "k \<noteq> dr_key e" using assms(2,3) by auto
  with rewritten_other [OF rewritten(4)] rewritten(1) assms(2) show ?thesis by simp
qed (use assms(2) in simp)

lemma run_keeps_delivered:
  "outbox_wf ob \<Longrightarrow> find_delivery ob k = Some d \<Longrightarrow> dr_state d = DELIVERED \<Longrightarrow>
     find_delivery (fold (apply_outbox std loads) ops ob) k = Some d"
  by (induction ops arbitrary: ob) (simp_all add: apply_keeps_delivered apply_outbox_wf)

lemma empty_outbox_wf: "outbox_wf empty_outbox"
  by (simp add: outbox_wf_def empty_outbox_def)

section \<open>A concrete outbox\<close>

definition sample_comment :: json where
  "sample_comment = JObj [(''body'', JStr ''ok''), (''pr_number'', JInt 7), (''repository'', JStr ''org/repo'')]"

definition sample_comment_text :: string where
  "sample_comment_text = canonical_payload_json fixture_std sample_comment"

definition sample_reader :: "string \<Rightarrow> json option" where
  "sample_reader raw = (if raw = sample_comment_text then Some sample_comment else None)"

definition sample_intent :: "string \<Rightarrow> delivery_intent" where
  "sample_intent key = \<lparr>di_delivery_key = key, di_channel = GITHUB_COMMENT, di_idempotency_key = ''delivery:'' @ key,
     di_payload_json = sample_comment_text\<rparr>"

definition sample_artifact :: product_artifact where
  "sample_artifact = \<lparr>pa_artifact_id = ''artifact:1'', pa_product = ''pr-guardian'', pa_scope_id = ''pr:1'', pa_correlation_id = ''corr:1'',
     pa_context_version = ''v1'', pa_deliveries = [sample_intent ''check'', sample_intent ''comment'']\<rparr>"

definition sample_token :: string where
  "sample_token = replicate 32 (CHR ''a'')"

definition sample_outbox :: outbox where
  "sample_outbox = \<lparr>ob_artifacts = [artifact_row_for fixture_std 10 sample_artifact],
     ob_deliveries = [new_row ''artifact:1'' 10 (sample_intent ''check''), new_row ''artifact:1'' 10 (sample_intent ''comment'')]\<rparr>"

lemma sample_recorded: "record_artifact fixture_std 10 sample_artifact None empty_outbox = Inr (True, sample_outbox)"
  by (simp add: record_artifact_def find_artifact_def empty_outbox_def outbox_now_def sample_artifact_def insert_delivery_def
      new_row_def sample_outbox_def sample_intent_def)

lemma sample_outbox_wf: "outbox_wf sample_outbox"
  by (rule record_wf [OF empty_outbox_wf sample_recorded])

lemma sample_intent_ok: "intent_init fixture_std sample_reader (sample_intent ''check'') = Inr (sample_intent ''check'')"
    "intent_init fixture_std sample_reader (sample_intent ''comment'') = Inr (sample_intent ''comment'')"
  by code_simp+

lemma sample_due: "candidates 20 None sample_outbox =
    [new_row ''artifact:1'' 10 (sample_intent ''check''), new_row ''artifact:1'' 10 (sample_intent ''comment'')]"
proof -
  have "(''check'' :: string) \<le> ''comment''" by code_simp
  then show ?thesis
    by (simp add: candidates_def sample_outbox_def due_def new_row_def find_artifact_def artifact_row_for_def sample_artifact_def sample_intent_def)
qed

lemma sample_claimed:
  "\<exists>l ob1. claim_next fixture_std sample_reader 20 sample_token None 60000000 None sample_outbox = (Inr (Some l), ob1) \<and>
     ld_key l = (''artifact:1'', ''check'') \<and> ld_lease_expires_at l = 60000020"
proof -
  let ?l = "\<lparr>ld_artifact_id = ''artifact:1'', ld_product = ''pr-guardian'', ld_scope_id = ''pr:1'', ld_correlation_id = ''corr:1'',
      ld_context_version = ''v1'', ld_intent = sample_intent ''check'', ld_attempt = 1, ld_lease_token = ''lease:'' @ sample_token,
      ld_lease_expires_at = 60000020\<rparr>"
  have "bounded_identifier '':._/@-'' 239 ''artifact:1''" "product_name ''pr-guardian''" "bounded_identifier '':._/@-'' 239 ''pr:1''"
      "bounded_identifier '':._/@-'' 239 ''corr:1''" "bounded_identifier '':._/@-'' 239 (''lease:'' @ sample_token)" by code_simp+
  then have l: "leased_init ?l = Inr ?l"
    by (simp add: leased_init_def outbox_identifier_def outbox_product_def outbox_text_def require_def del: append.simps)
  have a: "find_artifact sample_outbox ''artifact:1'' = Some (artifact_row_for fixture_std 10 sample_artifact)"
    by (simp add: find_artifact_def sample_outbox_def artifact_row_for_def sample_artifact_def)
  have "fst (claim_next fixture_std sample_reader 20 sample_token None 60000000 None sample_outbox) = Inr (Some ?l)"
    unfolding claim_next_def
    by (simp add: require_def outbox_now_def sample_due new_row_def a Let_def sample_intent_ok del: append.simps)
       (simp add: artifact_row_for_def sample_artifact_def l del: append.simps)
  then show ?thesis by (intro exI [of _ ?l] exI) (simp add: prod_eq_iff sample_intent_def)
qed

section \<open>Properties\<close>

text \<open>C35. 
  Nothing recorded is lost: once an artifact has been recorded, then after any sequence of
  recordings, claims, acknowledgements and retries its deliveries are exactly the planned ones, in
  order, with their channel, idempotency key and payload; the lease columns of every row agree
  with its state, and a delivery that was acknowledged is never touched again.
\<close>

theorem recorded_deliveries_persist:
  assumes "outbox_wf ob" "record_artifact std clock a t ob = Inr (True, ob1)"
  shows "intents_of (pa_artifact_id a) (fold (apply_outbox std loads) ops ob1) = pa_deliveries a \<and>
     list_all row_shape (ob_deliveries (fold (apply_outbox std loads) ops ob1)) \<and>
     (\<forall>k d. find_delivery ob1 k = Some d \<and> dr_state d = DELIVERED \<longrightarrow> find_delivery (fold (apply_outbox std loads) ops ob1) k = Some d)"
proof -
  have wf1: "outbox_wf ob1" by (rule record_wf [OF assms])
  have "intents_of (pa_artifact_id a) (fold (apply_outbox std loads) ops ob1) = pa_deliveries a"
    using run_keeps_intents [OF wf1] recorded_intents [OF assms] by simp
  moreover have "list_all row_shape (ob_deliveries (fold (apply_outbox std loads) ops ob1))"
    using run_outbox_wf [OF wf1] unfolding outbox_wf_def list_all_iff by blast
  ultimately show ?thesis using run_keeps_delivered [OF wf1] by blast
qed

theorem recorded_deliveries_persist_witness:
  "intents_of ''artifact:1'' (fold (apply_outbox fixture_std sample_reader) [ClaimNext sample_token None 60000000 None 20, Record sample_artifact None 30]
     sample_outbox) = [sample_intent ''check'', sample_intent ''comment'']"
  using conjunct1 [OF recorded_deliveries_persist [OF empty_outbox_wf sample_recorded, of sample_reader
      "[ClaimNext sample_token None 60000000 None 20, Record sample_artifact None 30]"]]
  by (simp add: sample_artifact_def)

text \<open>C34. 
  A lease excludes everybody but its holder: once a delivery has been claimed, then until the
  lease expires no sequence of recordings, claims, and reports that do not present the lease
  token ends the lease, and no claim hands the delivery out again.
\<close>

theorem delivery_lease_excludes:
  assumes "outbox_wf ob" "claim_next std loads clock uuid now dur i ob = (Inr (Some l), ob1)"
    and "list_all (by_others (ld_key l) (ld_lease_token l, ld_lease_expires_at l)) (ops @ [op])"
  shows "leased_out std loads op (fold (apply_outbox std loads) ops ob1) \<noteq> Some (ld_key l) \<and>
     lease_held (ld_key l) (ld_lease_token l, ld_lease_expires_at l) (fold (apply_outbox std loads) ops ob1)"
proof -
  have "outbox_wf ob1 \<and> lease_held (ld_key l) (ld_lease_token l, ld_lease_expires_at l) ob1"
    using assms(2,1)
  proof (cases rule: claim_next_cases)
    case (leased d t)
    have "outbox_wf ob1" using apply_outbox_wf [OF assms(1), of std loads "ClaimNext uuid now dur i clock"] assms(2)
      by (simp add: apply_outbox_def)
    moreover have "find_delivery ob1 (dr_key d) = Some (d\<lparr>dr_state := LEASED, dr_attempts := dr_attempts d + 1,
        dr_lease_token := Some (''lease:'' @ uuid), dr_lease_expires_at := Some (t + dur), dr_last_error := None\<rparr>)"
      unfolding leased(6) using find_delivery_update leased(2) by simp
    ultimately show ?thesis using leased(7) [OF refl] by (simp add: lease_held_def)
  qed simp
  moreover have "list_all (by_others (ld_key l) (ld_lease_token l, ld_lease_expires_at l)) ops"
      "by_others (ld_key l) (ld_lease_token l, ld_lease_expires_at l) op" using assms(3) by simp_all
  ultimately show ?thesis using outbox_leases.exclusive outbox_leases.run_keeps_lease by blast
qed

theorem delivery_lease_excludes_witness:
  "leased_out fixture_std sample_reader (ClaimNext sample_token None 60000000 None 21)
     (snd (claim_next fixture_std sample_reader 20 sample_token None 60000000 None sample_outbox)) \<noteq> Some (''artifact:1'', ''check'')"
proof -
  let ?c = "claim_next fixture_std sample_reader 20 sample_token None 60000000 None sample_outbox"
  obtain l ob1 where run: "?c = (Inr (Some l), ob1)" and l: "ld_key l = (''artifact:1'', ''check'')" "ld_lease_expires_at l = 60000020"
    using sample_claimed by blast
  have "list_all (by_others (ld_key l) (ld_lease_token l, ld_lease_expires_at l)) ([] @ [ClaimNext sample_token None 60000000 None 21])"
    using l by (simp add: by_others_def outbox_now_def)
  from delivery_lease_excludes [OF sample_outbox_wf run this] show ?thesis using run l by simp
qed

end
