(* ===== verification/Guardian_Publication.thy ===== *)
theory Guardian_Publication
  imports Outbox_Safety
begin

text \<open>
  Recoverable publication of a PR Guardian review, \<open>src/product/pr_guardian/publication.py\<close>: the
  check and the comment are recorded in the outbox and each is then leased, delivered to GitHub
  and acknowledged, or returned for a retry. The GitHub client is an argument that acts on a
  world of any type; the \<open>uuid4\<close> values of the claims of one call are a sequence. The rendered
  summary and title of a review are arguments of \<open>guardian_artifact\<close>.
\<close>

section \<open>Delivering one intent\<close>

record check_args =
  ca_repository :: string
  ca_head_sha :: string
  ca_name :: string
  ca_conclusion :: string
  ca_title :: string
  ca_summary :: string
  ca_external_id :: string

record 'w github =
  gh_publish_check :: "check_args \<Rightarrow> 'w \<Rightarrow> unit res \<times> 'w"
  gh_publish_comment :: "string \<Rightarrow> int \<Rightarrow> string \<Rightarrow> 'w \<Rightarrow> unit res \<times> 'w"

definition stored_payload :: "(string \<Rightarrow> json option) \<Rightarrow> string \<Rightarrow> (string \<times> json) list res" where
  "stored_payload loads value =
     (case loads value of
        None \<Rightarrow> Inl (RuntimeError ''stored PR Guardian publication payload is invalid'')
      | Some (JObj kvs) \<Rightarrow> Inr kvs
      | Some _ \<Rightarrow> Inl (RuntimeError ''stored PR Guardian publication payload must be an object''))"

definition stored_text :: "(string \<times> json) list \<Rightarrow> string \<Rightarrow> string res" where
  "stored_text payload field =
     (case map_of payload field of
        Some (JStr s) \<Rightarrow> if s = [] then Inl (RuntimeError (''stored PR Guardian publication field '' @ field @ '' is invalid'')) else Inr s
      | _ \<Rightarrow> Inl (RuntimeError (''stored PR Guardian publication field '' @ field @ '' is invalid'')))"

definition stored_positive_int :: "(string \<times> json) list \<Rightarrow> string \<Rightarrow> int res" where
  "stored_positive_int payload field =
     (case map_of payload field of
        Some (JInt i) \<Rightarrow> if i < 1 then Inl (RuntimeError (''stored PR Guardian publication field '' @ field @ '' is invalid'')) else Inr i
      | _ \<Rightarrow> Inl (RuntimeError (''stored PR Guardian publication field '' @ field @ '' is invalid'')))"

definition check_conclusion :: "(string \<times> json) list \<Rightarrow> string res" where
  "check_conclusion payload =
     rbind (stored_text payload ''conclusion'') (\<lambda>conclusion.
     if conclusion \<notin> {''neutral'', ''failure''} then Inl (RuntimeError ''stored PR Guardian publication conclusion is invalid'')
     else Inr conclusion)"

definition deliver :: "(string \<Rightarrow> json option) \<Rightarrow> 'w github \<Rightarrow> delivery_intent \<Rightarrow> 'w \<Rightarrow> unit res \<times> 'w" where
  "deliver loads gh i =
     wbind (lift_res (stored_payload loads (di_payload_json i))) (\<lambda>payload.
     case di_channel i of
       GITHUB_CHECK \<Rightarrow>
         wbind (lift_res (stored_text payload ''repository'')) (\<lambda>repository.
         wbind (lift_res (stored_text payload ''head_sha'')) (\<lambda>head_sha.
         wbind (lift_res (stored_text payload ''name'')) (\<lambda>name.
         wbind (lift_res (check_conclusion payload)) (\<lambda>conclusion.
         wbind (lift_res (stored_text payload ''title'')) (\<lambda>title.
         wbind (lift_res (stored_text payload ''summary'')) (\<lambda>summary.
         gh_publish_check gh \<lparr>ca_repository = repository, ca_head_sha = head_sha, ca_name = name, ca_conclusion = conclusion,
           ca_title = title, ca_summary = summary, ca_external_id = di_idempotency_key i\<rparr>))))))
     | GITHUB_COMMENT \<Rightarrow>
         wbind (lift_res (stored_text payload ''repository'')) (\<lambda>repository.
         wbind (lift_res (stored_positive_int payload ''pr_number'')) (\<lambda>pr_number.
         wbind (lift_res (stored_text payload ''body'')) (\<lambda>body.
         gh_publish_comment gh repository pr_number body))))"

section \<open>Delivering what is due\<close>

definition retry_delay :: "int \<Rightarrow> int" where
  "retry_delay attempt = min (2 ^ nat (max (attempt - 1) 0)) 300 * 1000000"

definition delivery_error :: "leased_delivery \<Rightarrow> exn \<Rightarrow> string" where
  "delivery_error l err = channel_value (di_channel (ld_intent l)) @ '' delivery failed: '' @ exn_name err"

definition aware :: "instant \<Rightarrow> py_datetime" where
  "aware t = \<lparr>wall_us = t, utc_offset_us = Some 0\<rparr>"

text \<open>The loop, with the number of deliveries that may still be made.\<close>

primrec deliver_loop ::
    "nat \<Rightarrow> py_std \<Rightarrow> (string \<Rightarrow> json option) \<Rightarrow> 'w github \<Rightarrow> (nat \<Rightarrow> string) \<Rightarrow> string option \<Rightarrow> instant \<Rightarrow> nat \<Rightarrow>
       outbox \<Rightarrow> 'w \<Rightarrow> nat res \<times> (outbox \<times> 'w)" where
  "deliver_loop 0 std loads gh uuids artifact_id current delivered ob w = (Inr delivered, (ob, w))"
| "deliver_loop (Suc n) std loads gh uuids artifact_id current delivered ob w =
     (case claim_next std loads current (uuids delivered) (Some (aware current)) 120000000 artifact_id ob of
        (Inl e, ob1) \<Rightarrow> (Inl e, (ob1, w))
      | (Inr None, ob1) \<Rightarrow> (Inr delivered, (ob1, w))
      | (Inr (Some l), ob1) \<Rightarrow>
          (case deliver loads gh (ld_intent l) w of
             (Inl err, w1) \<Rightarrow>
               (case retry_delivery l (delivery_error l err) (aware (current + retry_delay (ld_attempt l))) ob1 of
                  Inl e \<Rightarrow> (Inl e, (ob1, w1))
                | Inr ob2 \<Rightarrow> (Inl err, (ob2, w1)))
           | (Inr _, w1) \<Rightarrow>
               (case acknowledge current l (Some (aware current)) ob1 of
                  Inl e \<Rightarrow> (Inl e, (ob1, w1))
                | Inr ob2 \<Rightarrow> deliver_loop n std loads gh uuids artifact_id current (Suc delivered) ob2 w1)))"

definition deliver_pending ::
    "py_std \<Rightarrow> (string \<Rightarrow> json option) \<Rightarrow> 'w github \<Rightarrow> (nat \<Rightarrow> string) \<Rightarrow> instant \<Rightarrow> string option \<Rightarrow> int \<Rightarrow> py_datetime option \<Rightarrow>
       outbox \<Rightarrow> 'w \<Rightarrow> nat res \<times> (outbox \<times> 'w)" where
  "deliver_pending std loads gh uuids clock artifact_id maximum_deliveries now ob w =
     (if \<not> (1 \<le> maximum_deliveries \<and> maximum_deliveries \<le> 100)
      then (Inl (ValueError ''maximum_deliveries must be between 1 and 100''), (ob, w))
      else case (case now of None \<Rightarrow> Inr clock
            | Some d \<Rightarrow> if utc_offset_us d = None then Inl (ValueError ''publication time must include a timezone'') else Inr (as_instant d)) of
          Inl e \<Rightarrow> (Inl e, (ob, w))
        | Inr current \<Rightarrow> deliver_loop (nat maximum_deliveries) std loads gh uuids artifact_id current 0 ob w)"

section \<open>Artifacts of a review\<close>

datatype product_mode = SHADOW | ADVISORY | ENFORCE

fun mode_value :: "product_mode \<Rightarrow> string" where
  "mode_value SHADOW = ''shadow''"
| "mode_value ADVISORY = ''advisory''"
| "mode_value ENFORCE = ''enforce''"

record pull_request_event =
  pe_repository :: string
  pe_number :: int
  pe_head_sha :: string
  pe_action :: string

definition artifact_id_of :: "py_std \<Rightarrow> string \<Rightarrow> string \<Rightarrow> string \<Rightarrow> string \<Rightarrow> (string \<times> delivery_channel \<times> string) list \<Rightarrow> string" where
  "artifact_id_of std product scope_id correlation_id context_version deliveries =
     ''artifact:'' @ sha256_hex std (canonical_payload_json std (JObj
       [(''product'', JStr product), (''scope_id'', JStr scope_id), (''correlation_id'', JStr correlation_id),
        (''context_version'', JStr context_version),
        (''deliveries'', JList (map (\<lambda>(key, channel, payload). JObj
           [(''delivery_key'', JStr key), (''channel'', JStr (channel_value channel)), (''payload_json'', JStr payload)]) deliveries))]))"

definition delivery_idempotency_key :: "py_std \<Rightarrow> string \<Rightarrow> string \<Rightarrow> string" where
  "delivery_idempotency_key std artifact_id delivery_key = ''delivery:'' @ sha256_hex std (artifact_id @ '':'' @ delivery_key)"

definition guardian_artifact ::
    "py_std \<Rightarrow> (string \<Rightarrow> json option) \<Rightarrow> pull_request_event \<Rightarrow> string \<Rightarrow> product_mode \<Rightarrow> string \<Rightarrow> string \<Rightarrow> string \<Rightarrow> string option \<Rightarrow>
       product_artifact res" where
  "guardian_artifact std loads ev correlation_id mode conclusion title summary company_context_version =
     (let check_payload = canonical_payload_json std (JObj
            [(''repository'', JStr (pe_repository ev)), (''head_sha'', JStr (pe_head_sha ev)),
             (''name'', JStr (''Engineering Intelligence / PR Guardian ('' @ mode_value mode @ '')'')),
             (''conclusion'', JStr conclusion), (''title'', JStr title), (''summary'', JStr summary)]);
          comment_payload = canonical_payload_json std (JObj
            [(''repository'', JStr (pe_repository ev)), (''pr_number'', JInt (pe_number ev)), (''body'', JStr summary)]);
          scope_id = ''pr:'' @ pe_repository ev @ '':'' @ str_int (pe_number ev) @ '':'' @ pe_head_sha ev;
          context_version = (case company_context_version of Some v \<Rightarrow> v | None \<Rightarrow> ''legacy-graph:v1'');
          artifact_id = artifact_id_of std ''pr-guardian'' scope_id correlation_id context_version
            [(''check'', GITHUB_CHECK, check_payload), (''comment'', GITHUB_COMMENT, comment_payload)] in
      rbind (intent_init std loads \<lparr>di_delivery_key = ''check'', di_channel = GITHUB_CHECK,
        di_idempotency_key = delivery_idempotency_key std artifact_id ''check'', di_payload_json = check_payload\<rparr>) (\<lambda>check.
      rbind (intent_init std loads \<lparr>di_delivery_key = ''comment'', di_channel = GITHUB_COMMENT,
        di_idempotency_key = delivery_idempotency_key std artifact_id ''comment'', di_payload_json = comment_payload\<rparr>) (\<lambda>comment.
      artifact_init \<lparr>pa_artifact_id = artifact_id, pa_product = ''pr-guardian'', pa_scope_id = scope_id,
        pa_correlation_id = correlation_id, pa_context_version = context_version, pa_deliveries = [check, comment]\<rparr>)))"

definition publish ::
    "py_std \<Rightarrow> (string \<Rightarrow> json option) \<Rightarrow> 'w github \<Rightarrow> (nat \<Rightarrow> string) \<Rightarrow> instant \<Rightarrow> pull_request_event \<Rightarrow> string \<Rightarrow> product_mode \<Rightarrow> string \<Rightarrow>
       string \<Rightarrow> string \<Rightarrow> string option \<Rightarrow> py_datetime option \<Rightarrow> outbox \<Rightarrow> 'w \<Rightarrow> product_artifact res \<times> (outbox \<times> 'w)" where
  "publish std loads gh uuids clock ev correlation_id mode conclusion title summary company_context_version now ob w =
     (if conclusion \<notin> {''neutral'', ''failure''}
      then (Inl (ValueError ''PR Guardian publication conclusion is invalid''), (ob, w))
      else case guardian_artifact std loads ev correlation_id mode conclusion title summary company_context_version of
          Inl e \<Rightarrow> (Inl e, (ob, w))
        | Inr a \<Rightarrow>
            (case record_artifact std clock a now ob of
               Inl e \<Rightarrow> (Inl e, (ob, w))
             | Inr (fresh, ob1) \<Rightarrow>
                 (case deliver_pending std loads gh uuids clock (Some (pa_artifact_id a)) 100 now ob1 w of
                    (Inl e, s) \<Rightarrow> (Inl e, s)
                  | (Inr n, s) \<Rightarrow> (Inr a, s))))"

end
