(* ===== verification/Publication_Safety.thy ===== *)
theory Publication_Safety
  imports Guardian_Publication
begin

text \<open>
  A call of \<open>deliver_pending\<close> works through the due deliveries in the order of the query: each is
  presented to GitHub once, and those that are accepted end up delivered; at the first failure
  the delivery is pending again, due within five minutes, and the later ones are untouched.
\<close>

section \<open>Valid outboxes\<close>

definition artifact_ok :: "artifact_row \<Rightarrow> bool" where
  "artifact_ok a \<longleftrightarrow> bounded_identifier '':._/@-'' 239 (ar_artifact_id a) \<and> product_name (ar_product a) \<and>
     bounded_identifier '':._/@-'' 239 (ar_scope_id a) \<and> bounded_identifier '':._/@-'' 239 (ar_correlation_id a) \<and>
     ar_context_version a \<noteq> [] \<and> length (ar_context_version a) \<le> 240 \<and> CHR 0x0A \<notin> set (ar_context_version a)"

definition outbox_valid :: "py_std \<Rightarrow> (string \<Rightarrow> json option) \<Rightarrow> outbox \<Rightarrow> bool" where
  "outbox_valid std loads ob \<longleftrightarrow> list_all artifact_ok (ob_artifacts ob) \<and>
     list_all (\<lambda>d. intent_init std loads (dr_intent d) = Inr (dr_intent d)) (ob_deliveries ob)"

text \<open>\<open>uuid4().hex\<close>: 32 hexadecimal digits.\<close>

definition hex_token :: "string \<Rightarrow> bool" where
  "hex_token s \<longleftrightarrow> length s = 32 \<and> list_all (\<lambda>c. c \<in> set ''0123456789abcdef'') s"

lemma hex_token_identifier: "hex_token s \<Longrightarrow> bounded_identifier '':._/@-'' 239 (''lease:'' @ s)"
proof -
  assume s: "hex_token s"
  have "is_alnum c" if "c \<in> set ''0123456789abcdef''" for c using that by (auto simp: is_alnum_def)
  with s have "list_all is_alnum s" "length s = 32" by (auto simp only: hex_token_def list_all_iff)
  then show ?thesis by (simp add: bounded_identifier_def is_alnum_def list_all_iff)
qed

lemma outbox_valid_update:
  assumes "outbox_valid std loads ob" "\<And>d. dr_intent (f d) = dr_intent d"
  shows "outbox_valid std loads (update_delivery k f ob)"
  using assms by (auto simp: outbox_valid_def list.pred_map list_all_iff)

lemma artifact_init_Inr:
  assumes "artifact_init a = Inr b"
  shows "b = a \<and> artifact_ok (artifact_row_for std now a)"
  using assms by (auto simp: artifact_init_def rbind_eq_Inr artifact_ok_def artifact_row_for_def require_def
      outbox_identifier_def outbox_product_def outbox_text_def split: if_splits)

text \<open>Recording validated artifacts keeps the outbox valid.\<close>

lemma record_valid:
  assumes "outbox_wf ob" "outbox_valid std loads ob" "record_artifact std clock a t ob = Inr (fresh, ob')"
    and "artifact_init a = Inr a" "list_all (\<lambda>i. intent_init std loads i = Inr i) (pa_deliveries a)"
  shows "outbox_valid std loads ob'"
  using assms(3)
proof (cases rule: record_cases)
  case (new now)
  from assms(1) have "distinct (map dr_key (ob_deliveries ob))" "distinct (map dr_idem (ob_deliveries ob))"
    by (simp_all only: outbox_wf_def)
  note rows = conjunct1 [OF insert_deliveries [OF new(4) this]]
  have "artifact_ok (artifact_row_for std now a)" using artifact_init_Inr [OF assms(4)] by blast
  then show ?thesis using assms(2,5) new(3) rows by (simp add: outbox_valid_def list.pred_map new_row_def o_def)
qed (use assms(2) in simp)

section \<open>Settling a row\<close>

lemma update_delivery_twice:
  assumes "\<And>d. dr_key (f d) = dr_key d"
  shows "update_delivery k g (update_delivery k f ob) = update_delivery k (g \<circ> f) ob"
  using assms by (simp add: update_delivery_def)

lemma distinct_map_sorted: "distinct (map f xs) \<Longrightarrow> distinct (map f (sort_key g (filter P xs)))"
  by (auto simp: distinct_map intro: inj_on_subset)

lemma filter_other_keys: "distinct (map f (d # ds)) \<Longrightarrow> filter (\<lambda>e. f e \<noteq> f d) (d # ds) = ds"
  by (auto simp: filter_id_conv image_iff)

lemma candidates_settled:
  assumes wf: "outbox_wf ob" and cands: "candidates t i ob = d # ds"
    and key: "\<And>e. dr_artifact_id (f e) = dr_artifact_id e \<and> dr_intent (f e) = dr_intent e" and settled: "\<not> due t (f d)"
  shows "candidates t i (update_delivery (dr_key d) f ob) = ds"
proof -
  let ?F = "\<lambda>d. (dr_available_at d, dr_artifact_id d, di_delivery_key (dr_intent d))"
  let ?Q = "\<lambda>d. due t d \<and> (case i of None \<Rightarrow> True | Some i \<Rightarrow> dr_artifact_id d = i) \<and> find_artifact ob (dr_artifact_id d) \<noteq> None"
  have "d \<in> set (candidates t i ob)" by (simp add: cands)
  then have d: "d \<in> set (ob_deliveries ob)" by (simp add: candidates_def)
  have only: "e = d" if "e \<in> set (ob_deliveries ob)" "dr_key e = dr_key d" for e
    using find_key [OF wf that(1)] find_key [OF wf d] unfolding that(2) by (metis option.inject)
  have step: "filter ?Q (map (\<lambda>e. if dr_key e = dr_key d then f e else e) rows) = filter (\<lambda>e. dr_key e \<noteq> dr_key d) (filter ?Q rows)"
    if "\<forall>e \<in> set rows. dr_key e = dr_key d \<longrightarrow> e = d" for rows
    using that
  proof (induction rows)
    case (Cons e rows)
    then show ?case using settled by (cases "dr_key e = dr_key d") auto
  qed simp
  have "candidates t i (update_delivery (dr_key d) f ob) =
      sort_key ?F (filter (\<lambda>e. dr_key e \<noteq> dr_key d) (filter ?Q (ob_deliveries ob)))"
    unfolding candidates_def update_delivery_simps using step [of "ob_deliveries ob"] only by simp
  also have "\<dots> = filter (\<lambda>e. dr_key e \<noteq> dr_key d) (d # ds)"
    unfolding filter_sort [symmetric] cands [symmetric] candidates_def ..
  also have "\<dots> = ds"
    by (rule filter_other_keys) (use distinct_map_sorted [of dr_key "ob_deliveries ob" ?F ?Q] wf cands in
      \<open>simp only: outbox_wf_def candidates_def\<close>)
  finally show ?thesis .
qed

definition leased_row_of :: "instant \<Rightarrow> string \<Rightarrow> delivery_row \<Rightarrow> delivery_row \<Rightarrow> delivery_row" where
  "leased_row_of current uuid d e = e\<lparr>dr_state := LEASED, dr_attempts := dr_attempts d + 1, dr_lease_token := Some (''lease:'' @ uuid),
     dr_lease_expires_at := Some (current + 120000000), dr_last_error := None\<rparr>"

definition delivered_row :: "instant \<Rightarrow> delivery_row \<Rightarrow> delivery_row" where
  "delivered_row current d = d\<lparr>dr_state := DELIVERED, dr_attempts := dr_attempts d + 1, dr_lease_token := None,
     dr_lease_expires_at := None, dr_last_error := None, dr_delivered_at := Some current\<rparr>"

definition returned_row :: "instant \<Rightarrow> exn \<Rightarrow> delivery_row \<Rightarrow> delivery_row" where
  "returned_row current err d = d\<lparr>dr_state := PENDING, dr_attempts := dr_attempts d + 1, dr_lease_token := None,
     dr_lease_expires_at := None, dr_available_at := current + retry_delay (dr_attempts d + 1),
     dr_last_error := Some (channel_value (di_channel (dr_intent d)) @ '' delivery failed: '' @ exn_name err)\<rparr>"

lemma aware_simps [simp]: "utc_offset_us (aware t) = Some 0" "as_instant (aware t) = t" "outbox_utc (aware t) label = Inr t"
    "outbox_now clock (Some (aware t)) label = Inr t"
  by (simp_all add: aware_def as_instant_def outbox_utc_def outbox_now_def)

lemma claim_due:
  assumes "outbox_wf ob" "outbox_valid std loads ob" "candidates current i ob = d # ds" "hex_token uuid"
    and "case i of None \<Rightarrow> True | Some a \<Rightarrow> bounded_identifier '':._/@-'' 239 a"
  obtains l where "claim_next std loads clock uuid (Some (aware current)) 120000000 i ob =
      (Inr (Some l), update_delivery (dr_key d) (leased_row_of current uuid d) ob)"
    "ld_key l = dr_key d" "ld_intent l = dr_intent d" "ld_lease_token l = ''lease:'' @ uuid" "ld_attempt l = dr_attempts d + 1"
    "find_delivery ob (dr_key d) = Some d" "due current d"
proof -
  have "d \<in> set (candidates current i ob)" using assms(3) by simp
  then have d: "d \<in> set (ob_deliveries ob)" "due current d" "find_artifact ob (dr_artifact_id d) \<noteq> None" by (auto simp: candidates_def)
  then obtain a where a: "find_artifact ob (dr_artifact_id d) = Some a" "ar_artifact_id a = dr_artifact_id d" "artifact_ok a"
    using assms(2) by (auto simp: find_artifact_def outbox_valid_def list_all_iff dest: find_SomeD)
  have intent: "intent_init std loads (dr_intent d) = Inr (dr_intent d)" using assms(2) d(1) by (simp add: outbox_valid_def list_all_iff)
  have "row_shape d" using find_wf [OF assms(1) find_key [OF assms(1) d(1)]] by blast
  then have "0 \<le> dr_attempts d" by (cases "dr_state d") (simp_all add: row_shape_def)
  with a(3) hex_token_identifier [OF assms(4)]
  have lease: "leased_init \<lparr>ld_artifact_id = ar_artifact_id a, ld_product = ar_product a, ld_scope_id = ar_scope_id a,
      ld_correlation_id = ar_correlation_id a, ld_context_version = ar_context_version a, ld_intent = dr_intent d,
      ld_attempt = dr_attempts d + 1, ld_lease_token = ''lease:'' @ uuid, ld_lease_expires_at = current + 120000000\<rparr> =
      Inr \<lparr>ld_artifact_id = ar_artifact_id a, ld_product = ar_product a, ld_scope_id = ar_scope_id a,
      ld_correlation_id = ar_correlation_id a, ld_context_version = ar_context_version a, ld_intent = dr_intent d,
      ld_attempt = dr_attempts d + 1, ld_lease_token = ''lease:'' @ uuid, ld_lease_expires_at = current + 120000000\<rparr>"
    by (simp add: leased_init_def artifact_ok_def outbox_identifier_def outbox_product_def outbox_text_def require_def)
  have "rbind (case i of None \<Rightarrow> Inr () | Some i \<Rightarrow> outbox_identifier i ''artifact_id'') (\<lambda>_. Inr current) = Inr current"
    using assms(5) by (cases i) (simp_all add: outbox_identifier_def require_def)
  then have "claim_next std loads clock uuid (Some (aware current)) 120000000 i ob = (Inr (Some
      \<lparr>ld_artifact_id = ar_artifact_id a, ld_product = ar_product a, ld_scope_id = ar_scope_id a,
      ld_correlation_id = ar_correlation_id a, ld_context_version = ar_context_version a, ld_intent = dr_intent d,
      ld_attempt = dr_attempts d + 1, ld_lease_token = ''lease:'' @ uuid, ld_lease_expires_at = current + 120000000\<rparr>),
      update_delivery (dr_key d) (leased_row_of current uuid d) ob)"
    unfolding claim_next_def leased_row_of_def
    by (simp add: require_def assms(3) a(1) intent lease Let_def del: append.simps)
  with that show thesis using find_key [OF assms(1) d(1)] d(2) a(2) by simp
qed

lemma leased_row_simps [simp]:
  "dr_artifact_id (leased_row_of c u d e) = dr_artifact_id e" "dr_intent (leased_row_of c u d e) = dr_intent e"
  "dr_state (leased_row_of c u d e) = LEASED" "dr_lease_token (leased_row_of c u d e) = Some (''lease:'' @ u)"
  by (simp_all add: leased_row_of_def)

lemma leased_require:
  assumes "find_delivery ob (dr_key d) = Some d" "ld_key l = dr_key d" "ld_lease_token l = ''lease:'' @ uuid"
  shows "require_lease l (update_delivery (dr_key d) (leased_row_of current uuid d) ob) = Inr ()"
  unfolding require_lease_Inr assms(2) using assms(1,3) find_delivery_update [of "leased_row_of current uuid d" "dr_key d" ob "dr_key d"] by simp

text \<open>What a delivery that is acknowledged, or returned, leaves of the row that was claimed.\<close>

definition settles :: "delivery_row \<Rightarrow> delivery_row \<Rightarrow> outbox \<Rightarrow> outbox \<Rightarrow> bool" where
  "settles d row ob ob' \<longleftrightarrow> find_delivery ob' (dr_key d) = Some row \<and> (\<forall>k. k \<noteq> dr_key d \<longrightarrow> find_delivery ob' k = find_delivery ob k)"

lemma settled_update:
  assumes wf: "outbox_wf ob" and valid: "outbox_valid std loads ob" and cands: "candidates current i ob = d # ds"
    and found: "find_delivery ob (dr_key d) = Some d"
    and key: "\<And>e. dr_artifact_id (g e) = dr_artifact_id e \<and> dr_intent (g e) = dr_intent e"
    and row: "g (leased_row_of current uuid d d) = row" and shape: "row_shape row" and gone: "\<not> due current row"
    and ob': "ob' = update_delivery (dr_key d) g (update_delivery (dr_key d) (leased_row_of current uuid d) ob)"
  shows "outbox_wf ob' \<and> outbox_valid std loads ob' \<and> candidates current i ob' = ds \<and> settles d row ob ob'"
proof -
  let ?h = "g \<circ> leased_row_of current uuid d"
  have eq: "ob' = update_delivery (dr_key d) ?h ob" unfolding ob' by (rule update_delivery_twice) simp
  have h: "dr_artifact_id (?h e) = dr_artifact_id e \<and> dr_intent (?h e) = dr_intent e" for e using key by simp
  have hd: "?h d = row" using row by simp
  have "outbox_wf ob'" unfolding eq by (rule outbox_wf_update [OF wf h]) (use found hd shape in simp)
  moreover have "outbox_valid std loads ob'" unfolding eq by (rule outbox_valid_update [OF valid]) (use h in simp)
  moreover have "candidates current i ob' = ds" unfolding eq by (rule candidates_settled [OF wf cands h]) (use gone hd in simp)
  moreover have "settles d row ob ob'"
    using find_delivery_update [of ?h "dr_key d" ob] h found hd unfolding settles_def eq by simp
  ultimately show ?thesis by blast
qed

lemma acknowledged:
  assumes "outbox_wf ob" "outbox_valid std loads ob" "candidates current i ob = d # ds" "hex_token uuid"
    and "case i of None \<Rightarrow> True | Some a \<Rightarrow> bounded_identifier '':._/@-'' 239 a"
  obtains l ob1 ob2 where "claim_next std loads current uuid (Some (aware current)) 120000000 i ob = (Inr (Some l), ob1)"
    "ld_intent l = dr_intent d" "acknowledge current l (Some (aware current)) ob1 = Inr ob2"
    "outbox_wf ob2 \<and> outbox_valid std loads ob2 \<and> candidates current i ob2 = ds \<and> settles d (delivered_row current d) ob ob2"
proof -
  obtain l where l: "claim_next std loads current uuid (Some (aware current)) 120000000 i ob =
      (Inr (Some l), update_delivery (dr_key d) (leased_row_of current uuid d) ob)"
    "ld_key l = dr_key d" "ld_intent l = dr_intent d" "ld_lease_token l = ''lease:'' @ uuid" "ld_attempt l = dr_attempts d + 1"
    "find_delivery ob (dr_key d) = Some d" "due current d" using claim_due [OF assms] by blast
  let ?ob1 = "update_delivery (dr_key d) (leased_row_of current uuid d) ob"
  let ?g = "\<lambda>d. d\<lparr>dr_state := DELIVERED, dr_delivered_at := Some current, dr_lease_token := None, dr_lease_expires_at := None, dr_last_error := None\<rparr>"
  have ack: "acknowledge current l (Some (aware current)) ?ob1 = Inr (update_delivery (dr_key d) ?g ?ob1)"
    using leased_require [OF l(6,2,4)] l(2) by (simp add: acknowledge_def)
  have row: "?g (leased_row_of current uuid d d) = delivered_row current d" by (simp add: leased_row_of_def delivered_row_def)
  have "row_shape d" using find_wf [OF assms(1) l(6)] by blast
  then have "row_shape (delivered_row current d)" using l(7)
    by (auto simp: row_shape_def delivered_row_def due_def split: delivery_state.splits)
  moreover have "\<not> due current (delivered_row current d)" by (simp add: due_def delivered_row_def)
  ultimately have "outbox_wf (update_delivery (dr_key d) ?g ?ob1) \<and> outbox_valid std loads (update_delivery (dr_key d) ?g ?ob1) \<and>
      candidates current i (update_delivery (dr_key d) ?g ?ob1) = ds \<and> settles d (delivered_row current d) ob (update_delivery (dr_key d) ?g ?ob1)"
    by (intro settled_update [where g = ?g and uuid = uuid, OF assms(1-3) l(6) _ row]) simp_all
  with that l(1,3) ack show thesis by blast
qed

text \<open>The loop over a run of deliveries that GitHub accepts.\<close>

definition settled_all :: "instant \<Rightarrow> delivery_row list \<Rightarrow> outbox \<Rightarrow> outbox \<Rightarrow> bool" where
  "settled_all current ds ob ob' \<longleftrightarrow> (\<forall>d \<in> set ds. find_delivery ob' (dr_key d) = Some (delivered_row current d)) \<and>
     (\<forall>k. k \<notin> dr_key ` set ds \<longrightarrow> find_delivery ob' k = find_delivery ob k)"

definition presented :: "(string \<Rightarrow> json option) \<Rightarrow> 'w github \<Rightarrow> delivery_row list \<Rightarrow> 'w \<Rightarrow> 'w" where
  "presented loads gh ds = fold (\<lambda>d w. snd (deliver loads gh (dr_intent d) w)) ds"

lemma candidate_keys: "outbox_wf ob \<Longrightarrow> distinct (map dr_key (candidates t i ob))"
  unfolding outbox_wf_def candidates_def by (rule distinct_map_sorted) blast

lemma loop_accepted:
  assumes "outbox_wf ob" "outbox_valid std loads ob" "candidates current i ob = ds @ rest" "\<forall>n. hex_token (uuids n)"
    and "case i of None \<Rightarrow> True | Some a \<Rightarrow> bounded_identifier '':._/@-'' 239 a"
    and "\<forall>d \<in> set ds. \<forall>w. fst (deliver loads gh (dr_intent d) w) = Inr ()"
  shows "\<exists>ob'. deliver_loop (length ds + n) std loads gh uuids i current k ob w =
       deliver_loop n std loads gh uuids i current (k + length ds) ob' (presented loads gh ds w) \<and>
     outbox_wf ob' \<and> outbox_valid std loads ob' \<and> candidates current i ob' = rest \<and> settled_all current ds ob ob'"
  using assms
proof (induction ds arbitrary: ob k w)
  case Nil
  then show ?case by (auto simp: presented_def settled_all_def)
next
  case (Cons d ds)
  have head: "candidates current i ob = d # (ds @ rest)" and token: "hex_token (uuids k)" using Cons.prems(3,4) by simp_all
  obtain l ob1 ob2 where l: "claim_next std loads current (uuids k) (Some (aware current)) 120000000 i ob = (Inr (Some l), ob1)"
    "ld_intent l = dr_intent d" "acknowledge current l (Some (aware current)) ob1 = Inr ob2"
    "outbox_wf ob2" "outbox_valid std loads ob2" "candidates current i ob2 = ds @ rest" "settles d (delivered_row current d) ob ob2"
    by (rule acknowledged [OF Cons.prems(1,2) head token Cons.prems(5)]) blast
  obtain w1 where w1: "deliver loads gh (dr_intent d) w = (Inr (), w1)" using Cons.prems(6) by (metis list.set_intros(1) prod.collapse)
  have step: "deliver_loop (length (d # ds) + n) std loads gh uuids i current k ob w =
      deliver_loop (length ds + n) std loads gh uuids i current (Suc k) ob2 w1"
    using l(1-3) w1 by simp
  obtain ob' where ob': "deliver_loop (length ds + n) std loads gh uuids i current (Suc k) ob2 w1 =
      deliver_loop n std loads gh uuids i current (Suc k + length ds) ob' (presented loads gh ds w1)"
      "outbox_wf ob'" "outbox_valid std loads ob'" "candidates current i ob' = rest" and all: "settled_all current ds ob2 ob'"
    using Cons.IH [OF l(4-6) Cons.prems(4,5), of "Suc k" w1] Cons.prems(6) by auto
  have "dr_key d \<notin> dr_key ` set ds" using candidate_keys [OF Cons.prems(1), of current i] unfolding Cons.prems(3) by simp
  note fresh = this
  have "settled_all current (d # ds) ob ob'"
    unfolding settled_all_def
  proof (intro conjI ballI allI impI)
    fix e
    assume "e \<in> set (d # ds)"
    then consider "e = d" | "e \<in> set ds" by auto
    then show "find_delivery ob' (dr_key e) = Some (delivered_row current e)"
    proof cases
      case 1
      have "find_delivery ob' (dr_key d) = find_delivery ob2 (dr_key d)" using all fresh unfolding settled_all_def by blast
      with l(7) 1 show ?thesis unfolding settles_def by simp
    next
      case 2
      with all show ?thesis unfolding settled_all_def by blast
    qed
  next
    fix k
    assume "k \<notin> dr_key ` set (d # ds)"
    then have "k \<noteq> dr_key d" "k \<notin> dr_key ` set ds" by simp_all
    with all l(7) show "find_delivery ob' k = find_delivery ob k" unfolding settled_all_def settles_def by metis
  qed
  moreover have "presented loads gh (d # ds) w = presented loads gh ds w1" using w1 by (simp add: presented_def)
  ultimately show ?case using step ob' by (intro exI [of _ ob']) (simp add: add.commute)
qed

lemma loop_drained:
  assumes "candidates current i ob = []" "case i of None \<Rightarrow> True | Some a \<Rightarrow> bounded_identifier '':._/@-'' 239 a"
  shows "deliver_loop n std loads gh uuids i current k ob w = (Inr k, (ob, w))"
proof (cases n)
  case (Suc m)
  have "claim_next std loads current (uuids k) (Some (aware current)) 120000000 i ob = (Inr None, ob)"
    using assms by (cases i) (simp_all add: claim_next_def require_def outbox_identifier_def)
  with Suc show ?thesis by simp
qed simp

lemma retry_delay_bounds: "1000000 \<le> retry_delay n \<and> retry_delay n \<le> 300000000"
proof -
  have "(1::int) \<le> 2 ^ nat (max (n - 1) 0)" by (rule one_le_power) simp
  then show ?thesis by (simp add: retry_delay_def min_def)
qed

text \<open>The name of a Python exception class fits the error column.\<close>

definition plain_name :: "exn \<Rightarrow> bool" where
  "plain_name err \<longleftrightarrow> length (exn_name err) \<le> 400 \<and> CHR 0x0A \<notin> set (exn_name err)"

lemma error_text: "plain_name err \<Longrightarrow> outbox_text (delivery_error l err) label 500 = Inr ()"
  by (cases "di_channel (ld_intent l)") (auto simp: plain_name_def outbox_text_def delivery_error_def require_def)

lemma loop_failed:
  assumes "outbox_wf ob" "outbox_valid std loads ob" "candidates current i ob = d # ds" "hex_token (uuids k)"
    and "case i of None \<Rightarrow> True | Some a \<Rightarrow> bounded_identifier '':._/@-'' 239 a"
    and "deliver loads gh (dr_intent d) w = (Inl err, w1)" "plain_name err"
  shows "\<exists>ob'. deliver_loop (Suc n) std loads gh uuids i current k ob w = (Inl err, (ob', w1)) \<and>
     outbox_wf ob' \<and> outbox_valid std loads ob' \<and> candidates current i ob' = ds \<and> settles d (returned_row current err d) ob ob'"
proof -
  obtain l where l: "claim_next std loads current (uuids k) (Some (aware current)) 120000000 i ob =
      (Inr (Some l), update_delivery (dr_key d) (leased_row_of current (uuids k) d) ob)"
    "ld_key l = dr_key d" "ld_intent l = dr_intent d" "ld_lease_token l = ''lease:'' @ uuids k" "ld_attempt l = dr_attempts d + 1"
    "find_delivery ob (dr_key d) = Some d" "due current d" by (rule claim_due [OF assms(1-5)])
  let ?ob1 = "update_delivery (dr_key d) (leased_row_of current (uuids k) d) ob"
  let ?t = "current + retry_delay (ld_attempt l)"
  let ?g = "\<lambda>d. d\<lparr>dr_state := PENDING, dr_available_at := ?t, dr_lease_token := None, dr_lease_expires_at := None,
      dr_last_error := Some (delivery_error l err)\<rparr>"
  let ?ob2 = "update_delivery (dr_key d) ?g ?ob1"
  have retry: "retry_delivery l (delivery_error l err) (aware ?t) ?ob1 = Inr ?ob2"
    using leased_require [OF l(6,2,4)] l(2) by (simp add: retry_delivery_def error_text [OF assms(7)])
  have row: "?g (leased_row_of current (uuids k) d d) = returned_row current err d"
    by (simp add: leased_row_of_def returned_row_def delivery_error_def l(3,5))
  have "row_shape d" using find_wf [OF assms(1) l(6)] by blast
  then have "row_shape (returned_row current err d)" using l(7)
    by (auto simp: row_shape_def returned_row_def due_def split: delivery_state.splits)
  moreover have "\<not> due current (returned_row current err d)"
    using retry_delay_bounds [of "dr_attempts d + 1"] by (simp add: due_def returned_row_def)
  ultimately have "outbox_wf ?ob2 \<and> outbox_valid std loads ?ob2 \<and> candidates current i ?ob2 = ds \<and> settles d (returned_row current err d) ob ?ob2"
    by (intro settled_update [where g = ?g and uuid = "uuids k", OF assms(1-3) l(6) _ row]) simp_all
  moreover have "deliver_loop (Suc n) std loads gh uuids i current k ob w = (Inl err, (?ob2, w1))"
    using l(1,3) assms(6) retry by simp
  ultimately show ?thesis by blast
qed

section \<open>Concrete clients\<close>

text \<open>A client that counts its comments and one that is down; the sample outbox is valid.\<close>

definition counting_client :: "nat github" where
  "counting_client = \<lparr>gh_publish_check = (\<lambda>c n. (Inr (), Suc n)), gh_publish_comment = (\<lambda>r p b n. (Inr (), Suc n))\<rparr>"

definition failing_client :: "nat github" where
  "failing_client = \<lparr>gh_publish_check = (\<lambda>c n. (Inl (RuntimeError ''down''), n)), gh_publish_comment = (\<lambda>r p b n. (Inl (RuntimeError ''down''), n))\<rparr>"

lemma gh_answers: "fst (gh_publish_comment counting_client r p b w) = Inr ()"
  by (simp add: counting_client_def)

lemma sample_outbox_valid: "outbox_valid fixture_std sample_reader sample_outbox"
proof -
  have "artifact_init sample_artifact = Inr sample_artifact" by code_simp
  moreover have "list_all (\<lambda>i. intent_init fixture_std sample_reader i = Inr i) (pa_deliveries sample_artifact)"
    by (simp add: sample_artifact_def sample_intent_ok)
  moreover have "outbox_valid fixture_std sample_reader empty_outbox" by (simp add: outbox_valid_def empty_outbox_def)
  ultimately show ?thesis using record_valid [OF empty_outbox_wf _ sample_recorded] by blast
qed

lemma sample_hex: "hex_token sample_token"
  by code_simp

lemma sample_payload_read:
  "deliver sample_reader gh (sample_intent key) = gh_publish_comment gh ''org/repo'' 7 ''ok''"
  by (simp add: deliver_def sample_intent_def stored_payload_def sample_reader_def sample_comment_def stored_text_def
      stored_positive_int_def lift_res_def wbind_def fun_eq_iff)

section \<open>Properties\<close>



text \<open>C33. 
  A failed delivery is kept: when GitHub accepts the first due deliveries and then raises, the
  exception reaches the caller, the accepted ones are delivered, the failed one is pending again
  with the failure recorded and is due at the latest five minutes later, and no other row
  changes. No lease is left behind.
\<close>

theorem failed_delivery_is_kept:
  assumes "outbox_wf ob" "outbox_valid std loads ob" "candidates current i ob = pre @ d # post" "\<forall>n. hex_token (uuids n)"
    and "case i of None \<Rightarrow> True | Some a \<Rightarrow> bounded_identifier '':._/@-'' 239 a"
    and "\<forall>d \<in> set pre. \<forall>w. fst (deliver loads gh (dr_intent d) w) = Inr ()" "int (length pre) < m" "m \<le> 100"
    and "deliver loads gh (dr_intent d) (presented loads gh pre w) = (Inl err, w1)" "plain_name err"
  shows "\<exists>ob'. deliver_pending std loads gh uuids clock i m (Some (aware current)) ob w = (Inl err, (ob', w1)) \<and>
     (\<forall>e \<in> set pre. find_delivery ob' (dr_key e) = Some (delivered_row current e)) \<and>
     find_delivery ob' (dr_key d) = Some (returned_row current err d) \<and>
     (\<forall>t. current + 300000000 \<le> t \<longrightarrow> due t (returned_row current err d)) \<and>
     (\<forall>k. k \<notin> dr_key ` set (pre @ [d]) \<longrightarrow> find_delivery ob' k = find_delivery ob k)"
proof -
  have "length pre < nat m" using assms(7) by linarith
  then obtain n where n: "nat m = length pre + Suc n" using less_imp_Suc_add by fastforce
  from loop_accepted [OF assms(1,2,3,4-6), of "Suc n" 0 w] obtain ob1 where run:
    "deliver_loop (length pre + Suc n) std loads gh uuids i current 0 ob w = deliver_loop (Suc n) std loads gh uuids i current (length pre) ob1 (presented loads gh pre w)"
    and ob1: "outbox_wf ob1" "outbox_valid std loads ob1" "candidates current i ob1 = d # post" and all: "settled_all current pre ob ob1" by auto
  from assms(4) have "hex_token (uuids (length pre))" ..
  from loop_failed [where uuids = uuids and k = "length pre" and n = n, OF ob1 this assms(5,9,10)] obtain ob' where
    fail: "deliver_loop (Suc n) std loads gh uuids i current (length pre) ob1 (presented loads gh pre w) = (Inl err, (ob', w1))"
    and d: "settles d (returned_row current err d) ob1 ob'" by blast
  have other: "dr_key e \<noteq> dr_key d" if "e \<in> set pre" for e
    using candidate_keys [OF assms(1), of current i] split_list [OF that] unfolding assms(3) by auto
  have "find_delivery ob' (dr_key e) = Some (delivered_row current e)" if "e \<in> set pre" for e
    using all d that other [OF that] unfolding settled_all_def settles_def by metis
  moreover have "\<forall>k. k \<notin> dr_key ` set (pre @ [d]) \<longrightarrow> find_delivery ob' k = find_delivery ob k"
    using all d unfolding settled_all_def settles_def by (simp del: prod.inject)
  moreover have "due t (returned_row current err d)" if "current + 300000000 \<le> t" for t
    using that retry_delay_bounds [of "dr_attempts d + 1"] by (simp add: due_def returned_row_def)
  moreover have "deliver_pending std loads gh uuids clock i m (Some (aware current)) ob w = (Inl err, (ob', w1))"
    using run fail n assms(7,8) by (simp add: deliver_pending_def)
  ultimately show ?thesis using d unfolding settles_def by blast
qed

theorem failed_delivery_is_kept_witness:
  "\<exists>ob'. deliver_pending fixture_std sample_reader failing_client (\<lambda>_. sample_token) 0 None 100 (Some (aware 20)) sample_outbox 0 =
     (Inl (RuntimeError ''down''), (ob', 0))"
proof -
  obtain d post where ds: "candidates 20 None sample_outbox = [] @ d # post" "dr_intent d = sample_intent ''check''"
    using sample_due by (auto simp: new_row_def)
  have "deliver sample_reader failing_client (dr_intent d) (presented sample_reader failing_client [] 0) = (Inl (RuntimeError ''down''), 0)"
    unfolding ds(2) sample_payload_read by (simp add: failing_client_def presented_def)
  from failed_delivery_is_kept [OF sample_outbox_wf sample_outbox_valid ds(1) _ _ _ _ _ this, of "\<lambda>_. sample_token" 100 0] sample_hex
  show ?thesis by (auto simp: plain_name_def)
qed

end
