(* ===== verification/Spec2Isabelle.thy ===== *)
theory Spec2Isabelle
  imports Policy_Conformance Governed_Remediation Job_Queue Dependency_Boundary Cosmos_Audit Brain_Memory_Safety
    Digital_Twin Publication_Safety
begin

text \<open>
  Verification of the governed-remediation control plane of the engineering intelligence platform.

  \<^bold>\<open>The program.\<close> An incident is turned into a remediation of a running service under human and
  policy control. Evidence is analysed and a planner proposes a runbook of a reviewed catalogue; a
  person signs an approval of that plan; a policy engine authorises the action for the autonomy
  level of the service; a digital twin rehearses it; the control loop executes, verifies and rolls
  it back; every step advances a workflow record in an authoritative store and is exported to a
  hash-chained audit log. The workflow is orchestrated by Temporal, which retries the activities
  that talk to the store, the log and the outside world.

  \<^bold>\<open>The theories\<close>, each with the sources under \<open>src/\<close> it models:

  \<^item> \<open>Eip_Prelude\<close>: exceptions and results, and the operations of the Python library the sources
    use; \<open>Canonical_Json\<close>: \<open>json.dumps\<close> with sorted keys, and that its text determines its value.
  \<^item> \<open>Workflow_Lifecycle\<close> (\<open>state/lifecycle.py\<close>, \<open>state/models.py\<close>), \<open>State_Store\<close>
    (\<open>state/store.py\<close>), \<open>Lifecycle_History\<close>: the transition table, event validation and
    fingerprints, the SQLite tables, and the histories of reachable stores.
  \<^item> \<open>Audit_Log\<close> (\<open>state/audit.py\<close>): the hash chain; \<open>Lifecycle_Bridge\<close>
    (\<open>orchestration/control_plane_activities.py\<close>): state first, then audit, and retries.
  \<^item> \<open>Runbook_Catalog\<close> (\<open>remediation/catalog.py\<close>), \<open>L4_Scope\<close> (\<open>resilience/scope.py\<close>),
    \<open>Policy_Boundary\<close> (\<open>remediation/policy.py\<close>, \<open>policy_contract.py\<close>, \<open>opa_policy.py\<close> and the Rego
    policy), \<open>Policy_Conformance\<close> (\<open>policy_conformance.py\<close>), \<open>L4_Certification\<close>
    (\<open>resilience/certification.py\<close>, \<open>exercises.py\<close>, \<open>policy.py\<close>): who may do what at which level.
  \<^item> \<open>Blast_Radius_Lock\<close> (\<open>remediation/concurrency_lock.py\<close>), \<open>Canary_Rollout\<close>
    (\<open>remediation/canary.py\<close>), \<open>Control_Plane_Runtime\<close> (\<open>control_plane/runtime.py\<close>,
    \<open>state/factory.py\<close>), \<open>Control_Loop\<close> (\<open>remediation/executor.py\<close>, \<open>simulation.py\<close>): the loop
    around the mutation, over an arbitrary adapter, policy evaluator and lock manager.
  \<^item> \<open>Human_Approval\<close> (\<open>orchestration/approvals.py\<close>), \<open>Incident_Planner\<close>
    (\<open>intelligence/incidents.py\<close>, \<open>remediation/planner.py\<close>), \<open>Remediation_Workflow\<close>
    (\<open>orchestration/remediation_workflow.py\<close>), \<open>Remediation_Activities\<close> (the activities of
    \<open>control_plane_activities.py\<close>) and \<open>Governed_Remediation\<close>, their composition.
  \<^item> \<open>Cosmos_Store\<close> (\<open>state/cosmos_store.py\<close>) and \<open>Cosmos_Audit\<close> (\<open>state/cosmos_audit.py\<close>): the same
    store and log over a document database with etags and transactional batches.
  \<^item> \<open>Fallible_Loops\<close>: loops over lists whose body may raise; \<open>Company_Brain\<close>
    (\<open>company_brain/model.py\<close>): entities, evidence and relationships, blast radius and authorised
    context; \<open>Brain_Codec\<close> (\<open>serialization.py\<close>, the payloads of \<open>store.py\<close>), \<open>Brain_Store\<close>
    (\<open>company_brain/store.py\<close>) and \<open>Brain_Store_Safety\<close>: the tenant-scoped tables with versions,
    tombstones, retention and audit events, and what holds of every reachable store.
  \<^item> \<open>Brain_Projector\<close> (\<open>company_brain/projector.py\<close>, \<open>ingestion/models.py\<close>, \<open>documents.py\<close>): what a
    file change or a knowledge document contributes to the brain; \<open>Brain_Journal\<close>, \<open>Brain_Memory\<close>
    (\<open>company_brain/memory.py\<close>): the journal of projections and the projector that writes them
    through the store; \<open>Brain_Memory_Steps\<close> and \<open>Brain_Memory_Safety\<close>: every reachable memory.
  \<^item> \<open>Adapter_Frame\<close>: a property of the calls of an adapter as a property of the control loop;
    \<open>Kubernetes_Adapter\<close> (\<open>remediation/kubernetes_adapter.py\<close>, \<open>kubernetes_payload.py\<close>) and
    \<open>Kubernetes_Safety\<close>: the adapter over an arbitrary command runner and the commands it issues;
    \<open>Digital_Twin\<close> (\<open>remediation/digital_twin.py\<close>): the sandbox, its clone and the rehearsal.
  \<^item> \<open>Lease_Contract\<close>: work that is leased to one worker at a time; \<open>Artifact_Outbox\<close>
    (\<open>company_brain/artifact_outbox.py\<close>), \<open>Outbox_Safety\<close>, \<open>Guardian_Publication\<close>
    (\<open>product/pr_guardian/publication.py\<close>) and \<open>Publication_Safety\<close>: reviews of pull requests are
    recorded with their deliveries in one transaction and delivered under leases.
  \<^item> \<open>Job_Queue\<close> (\<open>orchestration/jobs.py\<close>, \<open>runner.py\<close>) and \<open>Dependency_Boundary\<close>
    (\<open>resilience/dependencies.py\<close>): the durable queue and the circuit breaker.

  \<^bold>\<open>State and effects.\<close> A table is a list or map of records, an object with mutable fields a record
  that operations return updated. An operation that may raise returns \<open>exn + 'a\<close>, \<open>Inl\<close> the
  exception. Collaborators outside the sources (digests, timestamp parsing, the audit sink, the
  adapter, the policy evaluator, the digital twin, the evidence provider, Temporal's activity
  calls, the clock) are arguments that act on a world of any type; what a theorem needs of
  them it names as a hypothesis, and a witness shows it can be met.

  \<^bold>\<open>What is shown.\<close> The store keeps a legal, gap-free history of every workflow, redelivery and
  retries have the effect of one delivery, no update is lost and finished workflows never
  change. The audit chain is append-only and its last hash commits to the whole log. No
  mutation happens without every guard of the control loop, without a lease being returned, or
  under an engaged kill switch; the local policy evaluator agrees with the Rego policy; L4
  certifications bind scope and inputs. In the composition, what runs is what a person signed,
  the action runs at most once and only behind every gate, it is recorded before it runs, a
  disabled workflow is inert, and a run whose collaborators answer ends with a recorded outcome
  in a terminal status. The Cosmos backends refine the SQLite ones, commit against the state
  they read and never fork the chain. The company brain answers with exactly the evidence a
  principal may see and the exact set of dependents; its store isolates tenants, audits every
  version, keeps retention promises, and its snapshots are the active facts. The memory keeps the
  store in agreement with its active sources, answers redelivered changes as duplicates and
  follows the access list of a change; a removed document cannot return. The Kubernetes adapter
  issues only fixed commands on the deployment of the request, its preflight accepts exactly what
  it observed, and its health verdicts rest on well-typed counts; a canary through it never
  starts. A rehearsal touches only its sandbox and deletes it last. The queue and the outbox lease
  work to one worker at a time; the queue is worked off, recorded deliveries are never lost, and
  a failed one is due again within five minutes. The breaker bounds the calls in flight.

  \<^bold>\<open>Interfaces.\<close> \<open>versioned_store\<close> (compare-and-swap records), \<open>receipt_store\<close> (events with
  idempotency receipts), \<open>audit_sink\<close> (idempotent append) and \<open>lockout\<close> (exclusive leases) are
  locales; the SQLite tables, the audit log and the in-memory lock interpret them.
  \<open>record_table\<close> is the contract of one table of the company brain (versioned rows by key,
  tombstones, retention); the entity, evidence and relationship tables interpret it.
  \<open>model_invariant\<close> and \<open>projection_invariant\<close> lift a property of single facts to whole projections,
  \<open>world_order\<close>, \<open>adapter_frame\<close> and \<open>loop_frame\<close> a property of adapter calls to the control loop, and
  \<open>lease_contract\<close> one of single operations to their sequences; the projector, the Kubernetes
  adapter, the job queue and the outbox interpret them.

  \<^bold>\<open>Bounds.\<close> No fuel is used: loops are recursions over the rows, events, signals or stages they
  process, with a measure where they are not structural. Integers are Python's, so \<open>int\<close>.

  \<^bold>\<open>Not modelled.\<close> Connections, files and JSON decoding of stored rows (a row holds the decoded
  record); thread scheduling within a critical section; corrections, evidence receipts, context
  packets and maintenance of the company brain, the read-side services of the control plane and
  the retrieval graph, which only read what is modelled here; the texts of a review (title and
  summary are arguments of the publisher); the HTTP application, portal, connectors, service
  clients and subprocess runners, which are I/O; the remaining PR Guardian use cases, FinOps,
  topology and validation packages, which are products beside the control plane.
\<close>

end
